(* ===== verification/Prelude.thy ===== *)
theory Prelude
  imports Main "HOL-Library.AList"
begin

text \<open>
  Shared vocabulary of the development: the \<open>named_theorems\<close> collections, JavaScript arrays
  (\<open>findIndex\<close>, indexing that may give \<open>undefined\<close>, \<open>slice\<close>), JavaScript objects as
  insertion-ordered association lists, substring tests, and decimal numerals as strings.
  Everything here is generic: no definition of this theory is specific to the protocol.
\<close>

named_theorems js_simps \<open>rewrite rules of the JavaScript primitives\<close>
named_theorems task_simps \<open>rewrite rules that run a task on a world\<close>
named_theorems task_defs \<open>definitions that a run of a task unfolds\<close>

section \<open>Arrays\<close>

text \<open>\<open>Array.prototype.findIndex\<close>: the least index whose element satisfies the test, \<open>-1\<close> if none.\<close>

fun findIndex :: "('a \<Rightarrow> bool) \<Rightarrow> 'a list \<Rightarrow> int" where
  "findIndex p [] = -1"
| "findIndex p (x # xs) =
     (if p x then 0 else (let i = findIndex p xs in if i < 0 then -1 else i + 1))"

text \<open>\<open>xs[i]\<close>: \<open>undefined\<close> (here \<open>None\<close>) outside the array, \<open>xs[-1]\<close> included.\<close>

definition js_at :: "'a list \<Rightarrow> int \<Rightarrow> 'a option" where
  "js_at xs i = (if 0 \<le> i \<and> i < int (length xs) then Some (xs ! nat i) else None)"

text \<open>\<open>xs.slice(i, j)\<close> for \<open>0 \<le> i \<le> j\<close>.\<close>

definition slice :: "nat \<Rightarrow> nat \<Rightarrow> 'a list \<Rightarrow> 'a list" where
  "slice i j xs = take (j - i) (drop i xs)"

lemma findIndex_ge: "-1 \<le> findIndex p xs"
  by (induction xs) (auto simp: Let_def)

lemma findIndex_neg_iff: "findIndex p xs < 0 \<longleftrightarrow> (\<forall>x\<in>set xs. \<not> p x)"
  by (induction xs) (auto simp: Let_def)

lemma findIndex_less: "findIndex p xs < int (length xs)"
  by (induction xs) (auto simp: Let_def)

lemma js_at_neg [js_simps]: "i < 0 \<Longrightarrow> js_at xs i = None"
  by (simp add: js_at_def)

lemma js_at_Cons_Suc: "0 \<le> i \<Longrightarrow> js_at (x # xs) (i + 1) = js_at xs i"
  by (auto simp: js_at_def nat_add_distrib)

text \<open>
  The idiom \<open>Object.entries(o)[Object.keys(o).findIndex((v) => v === k)]\<close> of the helpers reads
  the entry of \<open>k\<close>, or \<open>undefined\<close>.
\<close>

lemma js_at_findIndex [js_simps]:
  "js_at o1 (findIndex (\<lambda>v. v = k) (map fst o1)) = map_option (Pair k) (map_of o1 k)"
proof (induction o1)
  case Nil
  then show ?case by (simp add: js_at_def)
next
  case (Cons kv o1)
  show ?case
  proof (cases "fst kv = k")
    case True
    then show ?thesis by (cases kv) (simp add: js_at_def)
  next
    case False
    let ?i = "findIndex (\<lambda>v. v = k) (map fst o1)"
    show ?thesis
    proof (cases "?i < 0")
      case True
      then have "map_of o1 k = None"
        by (auto simp: findIndex_neg_iff map_of_eq_None_iff)
      with True False show ?thesis by (cases kv) (simp add: js_at_def)
    next
      case False2: False
      with Cons False show ?thesis
        by (cases kv) (simp add: Let_def js_at_Cons_Suc)
    qed
  qed
qed

lemma findIndex_key_neg [js_simps]:
  "findIndex (\<lambda>v. v = k) (map fst o1) < 0 \<longleftrightarrow> map_of o1 k = None"
  by (auto simp: findIndex_neg_iff map_of_eq_None_iff)

section \<open>Objects\<close>

text \<open>
  A JavaScript object with string keys is an association list in insertion order, as
  \<open>Object.entries\<close> lists it (the keys of the program are never integer-like, so insertion order
  is the enumeration order). Assignment keeps the place of a present key and appends a new one,
  which is what \<^const>\<open>AList.update\<close> does.
\<close>

type_synonym 'v jsobj = "(string \<times> 'v) list"

abbreviation oget :: "'v jsobj \<Rightarrow> string \<Rightarrow> 'v option" where
  "oget \<equiv> map_of"

abbreviation oset :: "string \<Rightarrow> 'v \<Rightarrow> 'v jsobj \<Rightarrow> 'v jsobj" where
  "oset \<equiv> AList.update"

text \<open>\<open>{...a, ...b}\<close>.\<close>

fun spread :: "'v jsobj \<Rightarrow> 'v jsobj \<Rightarrow> 'v jsobj" where
  "spread a [] = a"
| "spread a ((k, v) # b) = spread (oset k v a) b"

lemma oget_oset [js_simps]: "oget (oset k v o1) k' = (if k = k' then Some v else oget o1 k')"
  by (simp add: update_conv')

lemma keys_oset: "fst ` set (oset k v o1) = insert k (fst ` set o1)"
  by (induction o1) auto

lemma distinct_oset: "distinct (map fst o1) \<Longrightarrow> distinct (map fst (oset k v o1))"
  by (rule distinct_update)

lemma oset_fresh: "k \<notin> fst ` set o1 \<Longrightarrow> oset k v o1 = o1 @ [(k, v)]"
  by (induction o1) auto

lemma oget_spread: "oget (spread a b) k = (case oget (rev b) k of None \<Rightarrow> oget a k | Some v \<Rightarrow> Some v)"
proof (induction a b rule: spread.induct)
  case (1 a)
  then show ?case by simp
next
  case (2 a k' v b)
  then show ?case
    by (auto simp: map_add_def js_simps split: option.splits)
qed

section \<open>Strings\<close>

text \<open>\<open>s.includes(t)\<close>.\<close>

fun str_starts :: "string \<Rightarrow> string \<Rightarrow> bool" where
  "str_starts [] s = True"
| "str_starts (c # t) [] = False"
| "str_starts (c # t) (d # s) = (c = d \<and> str_starts t s)"

fun str_includes :: "string \<Rightarrow> string \<Rightarrow> bool" where
  "str_includes [] t = (t = [])"
| "str_includes (c # s) t = (str_starts t (c # s) \<or> str_includes s t)"

lemma str_starts_iff: "str_starts t s \<longleftrightarrow> (\<exists>v. s = t @ v)"
  by (induction t s rule: str_starts.induct) auto

lemma str_includes_iff: "str_includes s t \<longleftrightarrow> (\<exists>u v. s = u @ t @ v)"
proof (induction s)
  case Nil
  then show ?case by auto
next
  case (Cons c s)
  have "(\<exists>u v. c # s = u @ t @ v) \<longleftrightarrow> (\<exists>v. c # s = t @ v) \<or> (\<exists>u v. s = u @ t @ v)"
    by (auto simp: Cons_eq_append_conv)
  with Cons show ?case by (simp add: str_starts_iff)
qed

text \<open>Truthiness of strings: the empty string is falsy.\<close>

definition truthy_str :: "string \<Rightarrow> bool" where
  "truthy_str s = (s \<noteq> [])"

definition truthy_opt :: "string option \<Rightarrow> bool" where
  "truthy_opt v = (case v of None \<Rightarrow> False | Some s \<Rightarrow> truthy_str s)"

lemma truthy_opt_simps [simp, js_simps]:
  "\<not> truthy_opt None" "truthy_opt (Some s) \<longleftrightarrow> s \<noteq> []"
  by (simp_all add: truthy_opt_def truthy_str_def)

section \<open>Decimal numerals\<close>

definition digit_char :: "nat \<Rightarrow> char" where
  "digit_char d = char_of (48 + d)"

fun show_nat :: "nat \<Rightarrow> string" where
  "show_nat n = (if n < 10 then [digit_char n] else show_nat (n div 10) @ [digit_char (n mod 10)])"

declare show_nat.simps [simp del]

definition show_int :: "int \<Rightarrow> string" where
  "show_int i = (if i < 0 then CHR ''-'' # show_nat (nat (- i)) else show_nat (nat i))"

definition digit_val :: "char \<Rightarrow> nat option" where
  "digit_val c = (let n = of_char c in if 48 \<le> n \<and> n \<le> 57 then Some (n - 48) else None)"

fun parse_digits :: "nat \<Rightarrow> string \<Rightarrow> nat option" where
  "parse_digits acc [] = Some acc"
| "parse_digits acc (c # s) =
     (case digit_val c of None \<Rightarrow> None | Some d \<Rightarrow> parse_digits (10 * acc + d) s)"

definition parse_nat :: "string \<Rightarrow> nat option" where
  "parse_nat s = (if s = [] then None else parse_digits 0 s)"

lemma digit_val_char: "d < 10 \<Longrightarrow> digit_val (digit_char d) = Some d"
  by (simp add: digit_val_def digit_char_def of_char_of Let_def)

lemma parse_digits_append:
  "parse_digits acc (s @ t) = Option.bind (parse_digits acc s) (\<lambda>a. parse_digits a t)"
  by (induction acc s rule: parse_digits.induct) (auto split: option.splits)

lemma show_nat_not_Nil [simp]: "show_nat n \<noteq> []"
  by (subst show_nat.simps) simp

lemma parse_digits_show: "parse_digits 0 (show_nat n) = Some n"
proof (induction n rule: show_nat.induct)
  case (1 n)
  show ?case
  proof (cases "n < 10")
    case True
    then show ?thesis by (subst show_nat.simps) (simp add: digit_val_char)
  next
    case False
    with 1 have "parse_digits 0 (show_nat (n div 10)) = Some (n div 10)" by simp
    with False show ?thesis
      by (subst show_nat.simps) (simp add: parse_digits_append digit_val_char)
  qed
qed

lemma parse_show_nat [js_simps]: "parse_nat (show_nat n) = Some n"
  by (simp add: parse_nat_def parse_digits_show)

lemma show_nat_inject: "show_nat m = show_nat n \<longleftrightarrow> m = n"
  by (metis option.inject parse_show_nat)

end
