(* ===== verification/Tasks.thy ===== *)
theory Tasks
  imports Prelude
begin

text \<open>
  The runtime the deployment scripts execute on. A script is an asynchronous TypeScript function;
  since every call in the scripts is awaited before the next one starts, it is modelled as a
  \<open>task\<close>: a function from the world to a result (a thrown error or a value) and the world after
  it. A thrown error keeps the effects made before it, as the JSON database and the chain do.

  The world holds what the scripts share: the network name and \<open>process.env\<close>, the JSON database
  \<open>deployments/deployed-contracts-<network>.json\<close>, and the requests made so far to the node behind
  \<open>DRE.ethers\<close>. The node, and the address predicates of \<open>ethers\<close> and \<open>ethereumjs-util\<close>, are code
  outside the repository: they are fields of the world that no script changes, and every
  theorem holds for all of them unless it states what it needs. A node may answer a request in
  any way that depends on the requests before it.
\<close>

section \<open>Values, errors, requests\<close>

datatype jsval =
    JUndef
  | JBool bool
  | JNum int
  | JStr string
  | JArr "jsval list"
  | JObj "(string \<times> jsval) list"

text \<open>
  What a script can end with instead of a value: an \<open>Error\<close> with its message, a \<open>TypeError\<close> of
  the runtime, a thrown string, the end of the process by \<open>exit(code)\<close>, and \<open>Diverges\<close>, the
  value of a loop that has used up its fuel (only the retry loop of \<open>runTaskWithRetry\<close> has fuel).
\<close>

datatype js_error =
    JsError string
  | JsTypeError
  | JsThrow string
  | Exit int
  | Diverges

fun catchable :: "js_error \<Rightarrow> bool" where
  "catchable (Exit _) = False"
| "catchable Diverges = False"
| "catchable _ = True"

datatype request =
    Accounts
  | DeployTx "string option" string "jsval list" "string jsobj"
      \<comment> \<open>signer, typechain factory, constructor arguments, linked libraries\<close>
  | SendTx "string option" string string "jsval list"
      \<comment> \<open>signer, contract address, method, arguments\<close>
  | WaitTx nat
      \<comment> \<open>\<open>tx.wait(1)\<close> of the transaction made by the request with this number\<close>
  | ViewCall string string "jsval list"
      \<comment> \<open>contract address, method, arguments\<close>
  | ProviderSend string "jsval list"
      \<comment> \<open>JSON-RPC method and parameters\<close>
  | RunTask string jsval
      \<comment> \<open>a task of hardhat or of a plugin, and its parameters\<close>
  | External string "jsval list"
      \<comment> \<open>a call of another library with an effect (files, clock, ABI coding)\<close>

text \<open>
  A signer is the account address it signs for; \<open>None\<close> is the \<open>undefined\<close> that an index past the
  node's accounts gives.

  String conversion, as used in template literals and for addresses returned by calls.\<close>

fun js_str :: "jsval \<Rightarrow> string" where
  "js_str JUndef = ''undefined''"
| "js_str (JBool b) = (if b then ''true'' else ''false'')"
| "js_str (JNum i) = show_int i"
| "js_str (JStr s) = s"
| "js_str (JArr _) = ''[array]''"
| "js_str (JObj _) = ''[object Object]''"

fun js_strs :: "jsval \<Rightarrow> string list" where
  "js_strs (JArr vs) = map js_str vs"
| "js_strs _ = []"

text \<open>\<open>v.key\<close>: \<open>undefined\<close> for a missing key, an error for a property of \<open>undefined\<close>.\<close>

fun js_prop :: "string \<Rightarrow> jsval \<Rightarrow> jsval option" where
  "js_prop k JUndef = None"
| "js_prop k (JObj o1) = Some (case oget o1 k of None \<Rightarrow> JUndef | Some v \<Rightarrow> v)"
| "js_prop k _ = Some JUndef"

text \<open>\<open>error.message\<close>; a thrown string has none.\<close>

fun error_message :: "js_error \<Rightarrow> string option" where
  "error_message (JsError m) = Some m"
| "error_message JsTypeError = Some ''TypeError''"
| "error_message _ = None"

section \<open>The world\<close>

record db_entry =
  e_address :: string
  e_deployer :: "string option"

record world =
  net_name :: string
  procenv :: "string \<Rightarrow> string option"
  db :: "string \<Rightarrow> db_entry jsobj"
  hist :: "request list"
  node :: "request list \<Rightarrow> request \<Rightarrow> string + jsval"
  isAddress :: "string \<Rightarrow> bool"
  isZeroAddress :: "string \<Rightarrow> bool"

type_synonym 'a task = "world \<Rightarrow> (js_error + 'a) \<times> world"

section \<open>Sequencing, errors, loops\<close>

definition tret :: "'a \<Rightarrow> 'a task" where
  "tret x w = (Inr x, w)"

definition tthrow :: "js_error \<Rightarrow> 'a task" where
  "tthrow e w = (Inl e, w)"

definition tbind :: "'a task \<Rightarrow> ('a \<Rightarrow> 'b task) \<Rightarrow> 'b task" where
  "tbind m f w = (case m w of (Inl e, w') \<Rightarrow> (Inl e, w') | (Inr x, w') \<Rightarrow> f x w')"

definition tseq :: "'a task \<Rightarrow> 'b task \<Rightarrow> 'b task" where
  "tseq m k = tbind m (\<lambda>_. k)"

text \<open>\<open>try { m } catch (e) { h(e) }\<close>\<close>

definition tcatch :: "'a task \<Rightarrow> (js_error \<Rightarrow> 'a task) \<Rightarrow> 'a task" where
  "tcatch m h w = (case m w of
       (Inl e, w') \<Rightarrow> if catchable e then h e w' else (Inl e, w')
     | (Inr x, w') \<Rightarrow> (Inr x, w'))"

definition twhen :: "bool \<Rightarrow> unit task \<Rightarrow> unit task" where
  "twhen b m = (if b then m else tret ())"

definition tget :: "(world \<Rightarrow> 'a) \<Rightarrow> 'a task" where
  "tget f w = (Inr (f w), w)"

definition tmod :: "(world \<Rightarrow> world) \<Rightarrow> unit task" where
  "tmod f w = (Inr (), f w)"

text \<open>\<open>for (const x of xs) { ... }\<close>, and the same loop with variables that it updates.\<close>

fun tfor :: "'x list \<Rightarrow> ('x \<Rightarrow> unit task) \<Rightarrow> unit task" where
  "tfor [] f = tret ()"
| "tfor (x # xs) f = tseq (f x) (tfor xs f)"

fun tfold :: "'x list \<Rightarrow> ('x \<Rightarrow> 's \<Rightarrow> 's task) \<Rightarrow> 's \<Rightarrow> 's task" where
  "tfold [] f s = tret s"
| "tfold (x # xs) f s = tbind (f x s) (tfold xs f)"

lemma tret_run [simp, task_simps]: "tret x w = (Inr x, w)"
  by (simp add: tret_def)

lemma tthrow_run [simp, task_simps]: "tthrow e w = (Inl e, w)"
  by (simp add: tthrow_def)

lemma tget_run [simp, task_simps]: "tget f w = (Inr (f w), w)"
  by (simp add: tget_def)

lemma tmod_run [simp, task_simps]: "tmod f w = (Inr (), f w)"
  by (simp add: tmod_def)

lemma tbind_Inr [task_simps]: "m w = (Inr x, w') \<Longrightarrow> tbind m f w = f x w'"
  by (simp add: tbind_def)

lemma tbind_Inl [task_simps]: "m w = (Inl e, w') \<Longrightarrow> tbind m f w = (Inl e, w')"
  by (simp add: tbind_def)

lemma tseq_Inr [task_simps]: "m w = (Inr x, w') \<Longrightarrow> tseq m k w = k w'"
  by (simp add: tseq_def tbind_def)

lemma tseq_Inl [task_simps]: "m w = (Inl e, w') \<Longrightarrow> tseq m k w = (Inl e, w')"
  by (simp add: tseq_def tbind_def)

text \<open>How a run that returned was made up: the form in which proofs take a script apart.\<close>

lemma tbind_returns: "tbind m f w = (Inr y, w'') \<longleftrightarrow>
    (\<exists>x w'. m w = (Inr x, w') \<and> f x w' = (Inr y, w''))"
  by (auto simp: tbind_def split: prod.splits sum.splits)

lemma tseq_returns: "tseq m k w = (Inr y, w'') \<longleftrightarrow>
    (\<exists>x w'. m w = (Inr x, w') \<and> k w' = (Inr y, w''))"
  by (simp add: tseq_def tbind_returns)

lemma tbind_throws: "tbind m f w = (Inl e, w'') \<longleftrightarrow>
    m w = (Inl e, w'') \<or> (\<exists>x w'. m w = (Inr x, w') \<and> f x w' = (Inl e, w''))"
  by (auto simp: tbind_def split: prod.splits sum.splits)

lemma tseq_throws: "tseq m k w = (Inl e, w'') \<longleftrightarrow>
    m w = (Inl e, w'') \<or> (\<exists>x w'. m w = (Inr x, w') \<and> k w' = (Inl e, w''))"
  by (simp add: tseq_def tbind_throws)

lemma tcatch_Inr [task_simps]: "m w = (Inr x, w') \<Longrightarrow> tcatch m h w = (Inr x, w')"
  by (simp add: tcatch_def)

lemma tcatch_Inl [task_simps]:
  "m w = (Inl e, w') \<Longrightarrow> tcatch m h w = (if catchable e then h e w' else (Inl e, w'))"
  by (simp add: tcatch_def)

lemma twhen_returns: "twhen b m w = (Inr u, w') \<longleftrightarrow> (if b then m w = (Inr u, w') else w' = w)"
  by (simp add: twhen_def) auto

lemmas task_returns = tbind_returns tseq_returns twhen_returns

section \<open>Talking to the node\<close>

definition ask :: "request \<Rightarrow> jsval task" where
  "ask r w = (let w' = w\<lparr>hist := hist w @ [r]\<rparr> in
     case node w (hist w) r of Inl msg \<Rightarrow> (Inl (JsError msg), w') | Inr v \<Rightarrow> (Inr v, w'))"

text \<open>\<open>await waitForTx(await contract.method(args))\<close>: send, then wait for one confirmation.\<close>

definition send_and_wait :: "string option \<Rightarrow> string \<Rightarrow> string \<Rightarrow> jsval list \<Rightarrow> unit task" where
  "send_and_wait signer addr meth args =
     tbind (tget (\<lambda>w. length (hist w))) (\<lambda>n.
     tseq (ask (SendTx signer addr meth args))
     (tseq (ask (WaitTx n)) (tret ())))"

lemma ask_Inr: "node w (hist w) r = Inr v \<Longrightarrow> ask r w = (Inr v, w\<lparr>hist := hist w @ [r]\<rparr>)"
  by (simp add: ask_def)

lemma ask_Inl: "node w (hist w) r = Inl m \<Longrightarrow> ask r w = (Inl (JsError m), w\<lparr>hist := hist w @ [r]\<rparr>)"
  by (simp add: ask_def)

lemma ask_returns: "ask r w = (Inr v, w') \<longleftrightarrow>
    node w (hist w) r = Inr v \<and> w' = w\<lparr>hist := hist w @ [r]\<rparr>"
  by (auto simp: ask_def Let_def split: sum.splits)

lemma ask_throws: "ask r w = (Inl e, w') \<longleftrightarrow>
    (\<exists>m. node w (hist w) r = Inl m \<and> e = JsError m \<and> w' = w\<lparr>hist := hist w @ [r]\<rparr>)"
  by (auto simp: ask_def Let_def split: sum.splits)

lemma send_and_wait_returns: "send_and_wait s a m args w = (Inr u, w') \<longleftrightarrow>
    (\<exists>v v'. node w (hist w) (SendTx s a m args) = Inr v \<and>
       node w (hist w @ [SendTx s a m args]) (WaitTx (length (hist w))) = Inr v' \<and>
       w' = w\<lparr>hist := hist w @ [SendTx s a m args, WaitTx (length (hist w))]\<rparr>)"
  by (auto simp: send_and_wait_def task_returns ask_returns)

section \<open>Relations every run obeys\<close>

text \<open>
  A relation between the world before and after that composes. The lemmas of the locale lift it
  from the primitives to scripts; each component states what its scripts never do as a relation
  and interprets the locale on it.
\<close>

definition obeys :: "(world \<Rightarrow> world \<Rightarrow> bool) \<Rightarrow> 'a task \<Rightarrow> bool" where
  "obeys R m \<longleftrightarrow> (\<forall>w. R w (snd (m w)))"

lemma obeysD: "obeys R m \<Longrightarrow> R w (snd (m w))"
  by (simp add: obeys_def)

locale run_relation =
  fixes R :: "world \<Rightarrow> world \<Rightarrow> bool"
  assumes R_refl: "R w w"
    and R_trans: "R u v \<Longrightarrow> R v w \<Longrightarrow> R u w"
begin

lemma tret: "obeys R (tret x)"
  by (simp add: obeys_def R_refl)

lemma tthrow: "obeys R (tthrow e)"
  by (simp add: obeys_def R_refl)

lemma tget: "obeys R (tget f)"
  by (simp add: obeys_def R_refl)

lemma tbind: "obeys R m \<Longrightarrow> (\<And>x. obeys R (f x)) \<Longrightarrow> obeys R (tbind m f)"
  unfolding obeys_def tbind_def
  by (auto split: prod.splits sum.splits) (metis R_trans snd_conv)+

lemma tseq: "obeys R m \<Longrightarrow> obeys R k \<Longrightarrow> obeys R (tseq m k)"
  by (simp add: tseq_def tbind)

lemma tcatch: "obeys R m \<Longrightarrow> (\<And>e. obeys R (h e)) \<Longrightarrow> obeys R (tcatch m h)"
  unfolding obeys_def tcatch_def
  by (auto split: prod.splits sum.splits) (metis R_trans snd_conv)+

lemma twhen: "(b \<Longrightarrow> obeys R m) \<Longrightarrow> obeys R (twhen b m)"
  by (simp add: twhen_def tret)

lemma tif: "(b \<Longrightarrow> obeys R m) \<Longrightarrow> (\<not> b \<Longrightarrow> obeys R k) \<Longrightarrow> obeys R (if b then m else k)"
  by simp

lemma tlet: "(\<And>x. obeys R (f x)) \<Longrightarrow> obeys R (let x = a in f x)"
  by simp

lemma tfor: "(\<And>x. x \<in> set xs \<Longrightarrow> obeys R (f x)) \<Longrightarrow> obeys R (tfor xs f)"
  by (induction xs) (simp_all add: tret tseq)

lemma tfold: "(\<And>x s. x \<in> set xs \<Longrightarrow> obeys R (f x s)) \<Longrightarrow> obeys R (tfold xs f s)"
  by (induction xs arbitrary: s) (simp_all add: tret tbind)

lemma toption: "obeys R n \<Longrightarrow> (\<And>x. obeys R (s x)) \<Longrightarrow>
    obeys R (case v of None \<Rightarrow> n | Some x \<Rightarrow> s x)"
  by (simp split: option.splits)

lemma tprod: "(\<And>a b. obeys R (f a b)) \<Longrightarrow> obeys R (case p of (a, b) \<Rightarrow> f a b)"
  by (simp split: prod.splits)

lemmas rules = tret tthrow tget tbind tseq tcatch twhen tif tlet tfor tfold toption tprod

lemma run: "obeys R m \<Longrightarrow> m w = (r, w') \<Longrightarrow> R w w'"
  by (metis obeys_def snd_conv)

end

text \<open>
  What no script does: it never changes the network, \<open>process.env\<close>, the node or the libraries,
  never unsends a request, never touches the database of another network, and never removes an
  entry from its own.
\<close>

definition same_env :: "world \<Rightarrow> world \<Rightarrow> bool" where
  "same_env w w' \<longleftrightarrow> net_name w' = net_name w \<and> procenv w' = procenv w \<and> node w' = node w \<and>
     isAddress w' = isAddress w \<and> isZeroAddress w' = isZeroAddress w"

definition hist_grows :: "world \<Rightarrow> world \<Rightarrow> bool" where
  "hist_grows w w' \<longleftrightarrow> (\<exists>rs. hist w' = hist w @ rs)"

definition db_grows :: "world \<Rightarrow> world \<Rightarrow> bool" where
  "db_grows w w' \<longleftrightarrow> (\<forall>n. n \<noteq> net_name w \<longrightarrow> db w' n = db w n) \<and>
     (\<forall>n. fst ` set (db w n) \<subseteq> fst ` set (db w' n)) \<and>
     (\<forall>n. distinct (map fst (db w n)) \<longrightarrow> distinct (map fst (db w' n)))"

definition evolves :: "world \<Rightarrow> world \<Rightarrow> bool" where
  "evolves w w' \<longleftrightarrow> same_env w w' \<and> hist_grows w w' \<and> db_grows w w'"

lemma evolves_refl [simp]: "evolves w w"
  by (simp add: evolves_def same_env_def hist_grows_def db_grows_def)

lemma same_env_trans: "same_env u v \<Longrightarrow> same_env v w \<Longrightarrow> same_env u w"
  by (simp add: same_env_def)

lemma hist_grows_trans: "hist_grows u v \<Longrightarrow> hist_grows v w \<Longrightarrow> hist_grows u w"
  by (auto simp: hist_grows_def)

lemma db_grows_trans: "net_name v = net_name u \<Longrightarrow> db_grows u v \<Longrightarrow> db_grows v w \<Longrightarrow> db_grows u w"
  unfolding db_grows_def by (metis (no_types, lifting) subset_trans)

lemma evolves_trans: "evolves u v \<Longrightarrow> evolves v w \<Longrightarrow> evolves u w"
  unfolding evolves_def
  by (metis db_grows_trans hist_grows_trans same_env_def same_env_trans)

interpretation ev: run_relation evolves
  by unfold_locales (simp, rule evolves_trans)

lemma ask_evolves: "obeys evolves (ask r)"
  by (auto simp: obeys_def ask_def Let_def evolves_def same_env_def hist_grows_def db_grows_def
      split: sum.splits)

lemma send_and_wait_evolves: "obeys evolves (send_and_wait s a m args)"
  unfolding send_and_wait_def by (intro ev.rules ask_evolves)

lemmas ev_rules = ask_evolves send_and_wait_evolves ev.rules

end
