(* ===== verification/Types.thy ===== *)
theory Types
  imports Tasks
begin

text \<open>
  The data model of \<open>helpers/types.ts\<close>: the enumerations with the strings TypeScript gives them at
  run time, and the configuration interfaces as records. \<open>Errors.sol\<close>, the contracts' own list of
  error codes, stands beside the \<open>ProtocolErrors\<close> enumeration that the scripts and tests compare
  with, and the two lists are compared here.
\<close>

section \<open>Networks\<close>

datatype eEthereumNetwork = N_coverage | N_hardhat | N_localhost | N_goerli | N_rinkeby | N_sepolia | N_main

fun network_str :: "eEthereumNetwork \<Rightarrow> string" where
  "network_str N_coverage = ''coverage''"
| "network_str N_hardhat = ''hardhat''"
| "network_str N_localhost = ''localhost''"
| "network_str N_goerli = ''goerli''"
| "network_str N_rinkeby = ''rinkeby''"
| "network_str N_sepolia = ''sepolia''"
| "network_str N_main = ''main''"

datatype BendPools = Proto

record 'a iParamsPerNetwork =
  coverage :: 'a
  hardhat :: 'a
  localhost :: 'a
  goerli :: 'a
  rinkeby :: 'a
  sepolia :: 'a
  main :: 'a

record 'a iParamsPerPool =
  proto :: 'a

section \<open>Contract identifiers\<close>

datatype (plugins only: code) eContractid =
    C_MintableERC20 | C_MintableERC721 | C_LendPoolAddressesProvider |
    C_LendPoolAddressesProviderRegistry | C_LendPoolParametersProvider | C_LendPoolConfigurator |
    C_ValidationLogic | C_ReserveLogic | C_NftLogic | C_GenericLogic | C_SupplyLogic |
    C_BorrowLogic | C_LiquidateLogic | C_ConfiguratorLogic | C_LendPool | C_LendPoolLoan |
    C_ReserveOracle | C_ReserveOracleImpl | C_NFTOracle | C_NFTOracleImpl | C_TokenOracle |
    C_TokenOracleImpl | C_Proxy | C_MockChainlinkOracle | C_MockNFTOracle | C_MockReserveOracle |
    C_ChainlinkAggregatorHelper | C_ChainlinkAggregatorHelperImpl | C_InterestRate |
    C_BendUpgradeableProxy | C_BendProxyAdminTest | C_BendProxyAdminPool | C_BendProxyAdminFund |
    C_BendProxyAdminWTL | C_BendV2ProxyAdmin | C_WalletBalanceProvider | C_BToken | C_DebtToken |
    C_BNFT | C_MockBNFT | C_BendProtocolDataProvider | C_IERC20Detailed | C_IERC721Detailed |
    C_FeeProvider | C_WETHGateway | C_WETHGatewayImpl | C_WETH | C_WETHMocked | C_WPUNKSGateway |
    C_WPUNKS | C_WPUNKSMocked | C_SelfdestructTransferMock | C_LendPoolImpl |
    C_LendPoolConfiguratorImpl | C_LendPoolLoanImpl | C_BNFTRegistry | C_BNFTRegistryImpl |
    C_CryptoPunksMarket | C_WrappedPunk | C_PunkGateway | C_PunkGatewayImpl |
    C_MockIncentivesController | C_UIPoolDataProvider | C_BendCollector | C_BendCollectorImpl |
    C_TimelockControllerFast | C_TimelockControllerSlow | C_MockLoanRepaidInterceptor |
    C_KodaGateway | C_KodaGatewayImpl | C_UniswapV3DebtSwapAdapter |
    C_UniswapV3DebtSwapAdapterImpl | C_WstETHPriceAggregator

primrec cid :: "eContractid \<Rightarrow> string" where
  "cid C_MintableERC20 = ''MintableERC20''"
| "cid C_MintableERC721 = ''MintableERC721''"
| "cid C_LendPoolAddressesProvider = ''LendPoolAddressesProvider''"
| "cid C_LendPoolAddressesProviderRegistry = ''LendPoolAddressesProviderRegistry''"
| "cid C_LendPoolParametersProvider = ''LendPoolParametersProvider''"
| "cid C_LendPoolConfigurator = ''LendPoolConfigurator''"
| "cid C_ValidationLogic = ''ValidationLogic''"
| "cid C_ReserveLogic = ''ReserveLogic''"
| "cid C_NftLogic = ''NftLogic''"
| "cid C_GenericLogic = ''GenericLogic''"
| "cid C_SupplyLogic = ''SupplyLogic''"
| "cid C_BorrowLogic = ''BorrowLogic''"
| "cid C_LiquidateLogic = ''LiquidateLogic''"
| "cid C_ConfiguratorLogic = ''ConfiguratorLogic''"
| "cid C_LendPool = ''LendPool''"
| "cid C_LendPoolLoan = ''LendPoolLoan''"
| "cid C_ReserveOracle = ''ReserveOracle''"
| "cid C_ReserveOracleImpl = ''ReserveOracleImpl''"
| "cid C_NFTOracle = ''NFTOracle''"
| "cid C_NFTOracleImpl = ''NFTOracleImpl''"
| "cid C_TokenOracle = ''TokenOracle''"
| "cid C_TokenOracleImpl = ''TokenOracleImpl''"
| "cid C_Proxy = ''Proxy''"
| "cid C_MockChainlinkOracle = ''MockChainlinkOracle''"
| "cid C_MockNFTOracle = ''MockNFTOracle''"
| "cid C_MockReserveOracle = ''MockReserveOracle''"
| "cid C_ChainlinkAggregatorHelper = ''ChainlinkAggregatorHelper''"
| "cid C_ChainlinkAggregatorHelperImpl = ''ChainlinkAggregatorHelperImpl''"
| "cid C_InterestRate = ''InterestRate''"
| "cid C_BendUpgradeableProxy = ''BendUpgradeableProxy''"
| "cid C_BendProxyAdminTest = ''BendProxyAdminTest''"
| "cid C_BendProxyAdminPool = ''BendProxyAdminPool''"
| "cid C_BendProxyAdminFund = ''BendProxyAdminFund''"
| "cid C_BendProxyAdminWTL = ''BendProxyAdminWTL''"
| "cid C_BendV2ProxyAdmin = ''BendV2ProxyAdmin''"
| "cid C_WalletBalanceProvider = ''WalletBalanceProvider''"
| "cid C_BToken = ''BToken''"
| "cid C_DebtToken = ''DebtToken''"
| "cid C_BNFT = ''BNFT''"
| "cid C_MockBNFT = ''MockBNFT''"
| "cid C_BendProtocolDataProvider = ''BendProtocolDataProvider''"
| "cid C_IERC20Detailed = ''IERC20Detailed''"
| "cid C_IERC721Detailed = ''IERC721Detailed''"
| "cid C_FeeProvider = ''FeeProvider''"
| "cid C_WETHGateway = ''WETHGateway''"
| "cid C_WETHGatewayImpl = ''WETHGatewayImpl''"
| "cid C_WETH = ''WETH''"
| "cid C_WETHMocked = ''WETHMocked''"
| "cid C_WPUNKSGateway = ''WPUNKSGateway''"
| "cid C_WPUNKS = ''WPUNKS''"
| "cid C_WPUNKSMocked = ''WPUNKSMocked''"
| "cid C_SelfdestructTransferMock = ''SelfdestructTransferMock''"
| "cid C_LendPoolImpl = ''LendPoolImpl''"
| "cid C_LendPoolConfiguratorImpl = ''LendPoolConfiguratorImpl''"
| "cid C_LendPoolLoanImpl = ''LendPoolLoanImpl''"
| "cid C_BNFTRegistry = ''BNFTRegistry''"
| "cid C_BNFTRegistryImpl = ''BNFTRegistryImpl''"
| "cid C_CryptoPunksMarket = ''CryptoPunksMarket''"
| "cid C_WrappedPunk = ''WrappedPunk''"
| "cid C_PunkGateway = ''PunkGateway''"
| "cid C_PunkGatewayImpl = ''PunkGatewayImpl''"
| "cid C_MockIncentivesController = ''MockIncentivesController''"
| "cid C_UIPoolDataProvider = ''UIPoolDataProvider''"
| "cid C_BendCollector = ''BendCollector''"
| "cid C_BendCollectorImpl = ''BendCollectorImpl''"
| "cid C_TimelockControllerFast = ''TimelockControllerFast''"
| "cid C_TimelockControllerSlow = ''TimelockControllerSlow''"
| "cid C_MockLoanRepaidInterceptor = ''MockLoanRepaidInterceptor''"
| "cid C_KodaGateway = ''KodaGateway''"
| "cid C_KodaGatewayImpl = ''KodaGatewayImpl''"
| "cid C_UniswapV3DebtSwapAdapter = ''UniswapV3DebtSwapAdapter''"
| "cid C_UniswapV3DebtSwapAdapterImpl = ''UniswapV3DebtSwapAdapterImpl''"
| "cid C_WstETHPriceAggregator = ''WstETHPriceAggregator''"

definition all_contract_ids :: "eContractid list" where
  "all_contract_ids = [
     C_MintableERC20, C_MintableERC721, C_LendPoolAddressesProvider,
     C_LendPoolAddressesProviderRegistry, C_LendPoolParametersProvider, C_LendPoolConfigurator,
     C_ValidationLogic, C_ReserveLogic, C_NftLogic, C_GenericLogic, C_SupplyLogic, C_BorrowLogic,
     C_LiquidateLogic, C_ConfiguratorLogic, C_LendPool, C_LendPoolLoan, C_ReserveOracle,
     C_ReserveOracleImpl, C_NFTOracle, C_NFTOracleImpl, C_TokenOracle, C_TokenOracleImpl,
     C_Proxy, C_MockChainlinkOracle, C_MockNFTOracle, C_MockReserveOracle,
     C_ChainlinkAggregatorHelper, C_ChainlinkAggregatorHelperImpl, C_InterestRate,
     C_BendUpgradeableProxy, C_BendProxyAdminTest, C_BendProxyAdminPool, C_BendProxyAdminFund,
     C_BendProxyAdminWTL, C_BendV2ProxyAdmin, C_WalletBalanceProvider, C_BToken, C_DebtToken,
     C_BNFT, C_MockBNFT, C_BendProtocolDataProvider, C_IERC20Detailed, C_IERC721Detailed,
     C_FeeProvider, C_WETHGateway, C_WETHGatewayImpl, C_WETH, C_WETHMocked, C_WPUNKSGateway,
     C_WPUNKS, C_WPUNKSMocked, C_SelfdestructTransferMock, C_LendPoolImpl,
     C_LendPoolConfiguratorImpl, C_LendPoolLoanImpl, C_BNFTRegistry, C_BNFTRegistryImpl,
     C_CryptoPunksMarket, C_WrappedPunk, C_PunkGateway, C_PunkGatewayImpl,
     C_MockIncentivesController, C_UIPoolDataProvider, C_BendCollector, C_BendCollectorImpl,
     C_TimelockControllerFast, C_TimelockControllerSlow, C_MockLoanRepaidInterceptor,
     C_KodaGateway, C_KodaGatewayImpl, C_UniswapV3DebtSwapAdapter,
     C_UniswapV3DebtSwapAdapterImpl, C_WstETHPriceAggregator]"

section \<open>Loan states, error codes\<close>

datatype ProtocolLoanState = LS_None | LS_Created | LS_Active | LS_Auction | LS_Repaid | LS_Defaulted

text \<open>A numeric enumeration: the members count from 0.\<close>

fun loan_state_num :: "ProtocolLoanState \<Rightarrow> int" where
  "loan_state_num LS_None = 0"
| "loan_state_num LS_Created = 1"
| "loan_state_num LS_Active = 2"
| "loan_state_num LS_Auction = 3"
| "loan_state_num LS_Repaid = 4"
| "loan_state_num LS_Defaulted = 5"

definition ProtocolErrors :: "string jsobj" where
  "ProtocolErrors = [
     (''CALLER_NOT_POOL_ADMIN'', ''100''),
     (''CALLER_NOT_ADDRESS_PROVIDER'', ''101''),
     (''INVALID_FROM_BALANCE_AFTER_TRANSFER'', ''102''),
     (''INVALID_TO_BALANCE_AFTER_TRANSFER'', ''103''),
     (''CALLER_NOT_ONBEHALFOF_OR_IN_WHITELIST'', ''104''),
     (''CALLER_NOT_RISK_ADMIN'', ''105''),
     (''CALLER_NOT_RISK_OR_POOL_ADMIN'', ''106''),
     (''MATH_MULTIPLICATION_OVERFLOW'', ''200''),
     (''MATH_ADDITION_OVERFLOW'', ''201''),
     (''MATH_DIVISION_BY_ZERO'', ''202''),
     (''VL_INVALID_AMOUNT'', ''301''),
     (''VL_NO_ACTIVE_RESERVE'', ''302''),
     (''VL_RESERVE_FROZEN'', ''303''),
     (''VL_NOT_ENOUGH_AVAILABLE_USER_BALANCE'', ''304''),
     (''VL_BORROWING_NOT_ENABLED'', ''305''),
     (''VL_COLLATERAL_BALANCE_IS_0'', ''306''),
     (''VL_HEALTH_FACTOR_LOWER_THAN_LIQUIDATION_THRESHOLD'', ''307''),
     (''VL_COLLATERAL_CANNOT_COVER_NEW_BORROW'', ''308''),
     (''VL_NO_DEBT_OF_SELECTED_TYPE'', ''309''),
     (''VL_NO_ACTIVE_NFT'', ''310''),
     (''VL_NFT_FROZEN'', ''311''),
     (''VL_SPECIFIED_CURRENCY_NOT_BORROWED_BY_USER'', ''312''),
     (''VL_INVALID_HEALTH_FACTOR'', ''313''),
     (''VL_INVALID_ONBEHALFOF_ADDRESS'', ''314''),
     (''VL_INVALID_TARGET_ADDRESS'', ''315''),
     (''VL_INVALID_RESERVE_ADDRESS'', ''316''),
     (''VL_SPECIFIED_LOAN_NOT_BORROWED_BY_USER'', ''317''),
     (''VL_SPECIFIED_RESERVE_NOT_BORROWED_BY_USER'', ''318''),
     (''VL_PRICE_STALE'', ''320''),
     (''LP_CALLER_NOT_LEND_POOL_CONFIGURATOR'', ''400''),
     (''LP_IS_PAUSED'', ''401''),
     (''LP_NO_MORE_RESERVES_ALLOWED'', ''402''),
     (''LP_NOT_CONTRACT'', ''403''),
     (''LP_BORROW_NOT_EXCEED_LIQUIDATION_THRESHOLD'', ''404''),
     (''LP_BORROW_IS_EXCEED_LIQUIDATION_PRICE'', ''405''),
     (''LP_NO_MORE_NFTS_ALLOWED'', ''406''),
     (''LP_INVALIED_USER_NFT_AMOUNT'', ''407''),
     (''LP_INCONSISTENT_PARAMS'', ''408''),
     (''LP_NFT_IS_NOT_USED_AS_COLLATERAL'', ''409''),
     (''LP_CALLER_MUST_BE_AN_BTOKEN'', ''410''),
     (''LP_INVALIED_NFT_AMOUNT'', ''411''),
     (''LP_NFT_HAS_USED_AS_COLLATERAL'', ''412''),
     (''LP_DELEGATE_CALL_FAILED'', ''413''),
     (''LP_AMOUNT_LESS_THAN_EXTRA_DEBT'', ''414''),
     (''LP_AMOUNT_LESS_THAN_REDEEM_THRESHOLD'', ''415''),
     (''LP_AMOUNT_GREATER_THAN_MAX_REPAY'', ''416''),
     (''LP_NFT_TOKEN_ID_EXCEED_MAX_LIMIT'', ''417''),
     (''LP_NFT_SUPPLY_NUM_EXCEED_MAX_LIMIT'', ''418''),
     (''LP_CALLER_NOT_VALID_INTERCEPTOR'', ''419''),
     (''LP_CALLER_NOT_VALID_LOCKER'', ''420''),
     (''LPL_INVALID_LOAN_STATE'', ''480''),
     (''LPL_INVALID_LOAN_AMOUNT'', ''481''),
     (''LPL_INVALID_TAKEN_AMOUNT'', ''482''),
     (''LPL_AMOUNT_OVERFLOW'', ''483''),
     (''LPL_BID_PRICE_LESS_THAN_LIQUIDATION_PRICE'', ''484''),
     (''LPL_BID_PRICE_LESS_THAN_HIGHEST_PRICE'', ''485''),
     (''LPL_BID_REDEEM_DURATION_HAS_END'', ''486''),
     (''LPL_BID_USER_NOT_SAME'', ''487''),
     (''LPL_BID_REPAY_AMOUNT_NOT_ENOUGH'', ''488''),
     (''LPL_BID_AUCTION_DURATION_HAS_END'', ''489''),
     (''LPL_BID_AUCTION_DURATION_NOT_END'', ''490''),
     (''LPL_BID_PRICE_LESS_THAN_BORROW'', ''491''),
     (''LPL_INVALID_BIDDER_ADDRESS'', ''492''),
     (''LPL_AMOUNT_LESS_THAN_BID_FINE'', ''493''),
     (''LPL_BID_INVALID_BID_FINE'', ''494''),
     (''CT_CALLER_MUST_BE_LEND_POOL'', ''500''),
     (''CT_INVALID_MINT_AMOUNT'', ''501''),
     (''CT_INVALID_BURN_AMOUNT'', ''502''),
     (''CT_BORROW_ALLOWANCE_NOT_ENOUGH'', ''503''),
     (''RL_RESERVE_ALREADY_INITIALIZED'', ''601''),
     (''RL_LIQUIDITY_INDEX_OVERFLOW'', ''602''),
     (''RL_VARIABLE_BORROW_INDEX_OVERFLOW'', ''603''),
     (''RL_LIQUIDITY_RATE_OVERFLOW'', ''604''),
     (''RL_VARIABLE_BORROW_RATE_OVERFLOW'', ''605''),
     (''LPC_RESERVE_LIQUIDITY_NOT_0'', ''700''),
     (''LPC_INVALID_CONFIGURATION'', ''701''),
     (''LPC_CALLER_NOT_EMERGENCY_ADMIN'', ''702''),
     (''LPC_INVALIED_BNFT_ADDRESS'', ''703''),
     (''LPC_INVALIED_LOAN_ADDRESS'', ''704''),
     (''LPC_NFT_LIQUIDITY_NOT_0'', ''705''),
     (''RC_INVALID_LTV'', ''730''),
     (''RC_INVALID_LIQ_THRESHOLD'', ''731''),
     (''RC_INVALID_LIQ_BONUS'', ''732''),
     (''RC_INVALID_DECIMALS'', ''733''),
     (''RC_INVALID_RESERVE_FACTOR'', ''734''),
     (''RC_INVALID_REDEEM_DURATION'', ''735''),
     (''RC_INVALID_AUCTION_DURATION'', ''736''),
     (''RC_INVALID_REDEEM_FINE'', ''737''),
     (''LPAPR_PROVIDER_NOT_REGISTERED'', ''760''),
     (''LPAPR_INVALID_ADDRESSES_PROVIDER_ID'', ''761''),
     (''INVALID_OWNER_REVERT_MSG'', ''Ownable: caller is not the owner''),
     (''TRANSFER_AMOUNT_EXCEEDS_BALANCE'', ''ERC20: transfer amount exceeds balance''),
     (''SAFEERC20_LOWLEVEL_CALL'', ''SafeERC20: low-level call failed'')]"

text \<open>\<open>contracts/libraries/helpers/Errors.sol\<close>\<close>

definition SolErrors :: "string jsobj" where
  "SolErrors = [
     (''SUCCESS'', ''0''),
     (''CALLER_NOT_POOL_ADMIN'', ''100''),
     (''CALLER_NOT_ADDRESS_PROVIDER'', ''101''),
     (''INVALID_FROM_BALANCE_AFTER_TRANSFER'', ''102''),
     (''INVALID_TO_BALANCE_AFTER_TRANSFER'', ''103''),
     (''CALLER_NOT_ONBEHALFOF_OR_IN_WHITELIST'', ''104''),
     (''CALLER_NOT_RISK_ADMIN'', ''105''),
     (''CALLER_NOT_RISK_OR_POOL_ADMIN'', ''106''),
     (''MATH_MULTIPLICATION_OVERFLOW'', ''200''),
     (''MATH_ADDITION_OVERFLOW'', ''201''),
     (''MATH_DIVISION_BY_ZERO'', ''202''),
     (''MATH_NUMBER_OVERFLOW'', ''203''),
     (''VL_INVALID_AMOUNT'', ''301''),
     (''VL_NO_ACTIVE_RESERVE'', ''302''),
     (''VL_RESERVE_FROZEN'', ''303''),
     (''VL_NOT_ENOUGH_AVAILABLE_USER_BALANCE'', ''304''),
     (''VL_BORROWING_NOT_ENABLED'', ''305''),
     (''VL_COLLATERAL_BALANCE_IS_0'', ''306''),
     (''VL_HEALTH_FACTOR_LOWER_THAN_LIQUIDATION_THRESHOLD'', ''307''),
     (''VL_COLLATERAL_CANNOT_COVER_NEW_BORROW'', ''308''),
     (''VL_NO_DEBT_OF_SELECTED_TYPE'', ''309''),
     (''VL_NO_ACTIVE_NFT'', ''310''),
     (''VL_NFT_FROZEN'', ''311''),
     (''VL_SPECIFIED_CURRENCY_NOT_BORROWED_BY_USER'', ''312''),
     (''VL_INVALID_HEALTH_FACTOR'', ''313''),
     (''VL_INVALID_ONBEHALFOF_ADDRESS'', ''314''),
     (''VL_INVALID_TARGET_ADDRESS'', ''315''),
     (''VL_INVALID_RESERVE_ADDRESS'', ''316''),
     (''VL_SPECIFIED_LOAN_NOT_BORROWED_BY_USER'', ''317''),
     (''VL_SPECIFIED_RESERVE_NOT_BORROWED_BY_USER'', ''318''),
     (''VL_HEALTH_FACTOR_HIGHER_THAN_LIQUIDATION_THRESHOLD'', ''319''),
     (''VL_PRICE_STALE'', ''320''),
     (''VL_EXCEED_MAX_UTILIZATION_RATE'', ''321''),
     (''LP_CALLER_NOT_LEND_POOL_CONFIGURATOR'', ''400''),
     (''LP_IS_PAUSED'', ''401''),
     (''LP_NO_MORE_RESERVES_ALLOWED'', ''402''),
     (''LP_NOT_CONTRACT'', ''403''),
     (''LP_BORROW_NOT_EXCEED_LIQUIDATION_THRESHOLD'', ''404''),
     (''LP_BORROW_IS_EXCEED_LIQUIDATION_PRICE'', ''405''),
     (''LP_NO_MORE_NFTS_ALLOWED'', ''406''),
     (''LP_INVALIED_USER_NFT_AMOUNT'', ''407''),
     (''LP_INCONSISTENT_PARAMS'', ''408''),
     (''LP_NFT_IS_NOT_USED_AS_COLLATERAL'', ''409''),
     (''LP_CALLER_MUST_BE_AN_BTOKEN'', ''410''),
     (''LP_INVALIED_NFT_AMOUNT'', ''411''),
     (''LP_NFT_HAS_USED_AS_COLLATERAL'', ''412''),
     (''LP_DELEGATE_CALL_FAILED'', ''413''),
     (''LP_AMOUNT_LESS_THAN_EXTRA_DEBT'', ''414''),
     (''LP_AMOUNT_LESS_THAN_REDEEM_THRESHOLD'', ''415''),
     (''LP_AMOUNT_GREATER_THAN_MAX_REPAY'', ''416''),
     (''LP_NFT_TOKEN_ID_EXCEED_MAX_LIMIT'', ''417''),
     (''LP_NFT_SUPPLY_NUM_EXCEED_MAX_LIMIT'', ''418''),
     (''LP_CALLER_NOT_VALID_INTERCEPTOR'', ''419''),
     (''LP_CALLER_NOT_VALID_LOCKER'', ''420''),
     (''LP_NFT_COLLATERAL_NUM_EXCEED_CAP_LIMIT'', ''421''),
     (''LPL_INVALID_LOAN_STATE'', ''480''),
     (''LPL_INVALID_LOAN_AMOUNT'', ''481''),
     (''LPL_INVALID_TAKEN_AMOUNT'', ''482''),
     (''LPL_AMOUNT_OVERFLOW'', ''483''),
     (''LPL_BID_PRICE_LESS_THAN_LIQUIDATION_PRICE'', ''484''),
     (''LPL_BID_PRICE_LESS_THAN_HIGHEST_PRICE'', ''485''),
     (''LPL_BID_REDEEM_DURATION_HAS_END'', ''486''),
     (''LPL_BID_USER_NOT_SAME'', ''487''),
     (''LPL_BID_REPAY_AMOUNT_NOT_ENOUGH'', ''488''),
     (''LPL_BID_AUCTION_DURATION_HAS_END'', ''489''),
     (''LPL_BID_AUCTION_DURATION_NOT_END'', ''490''),
     (''LPL_BID_PRICE_LESS_THAN_BORROW'', ''491''),
     (''LPL_INVALID_BIDDER_ADDRESS'', ''492''),
     (''LPL_AMOUNT_LESS_THAN_BID_FINE'', ''493''),
     (''LPL_INVALID_BID_FINE'', ''494''),
     (''CT_CALLER_MUST_BE_LEND_POOL'', ''500''),
     (''CT_INVALID_MINT_AMOUNT'', ''501''),
     (''CT_INVALID_BURN_AMOUNT'', ''502''),
     (''CT_BORROW_ALLOWANCE_NOT_ENOUGH'', ''503''),
     (''RL_RESERVE_ALREADY_INITIALIZED'', ''601''),
     (''RL_LIQUIDITY_INDEX_OVERFLOW'', ''602''),
     (''RL_VARIABLE_BORROW_INDEX_OVERFLOW'', ''603''),
     (''RL_LIQUIDITY_RATE_OVERFLOW'', ''604''),
     (''RL_VARIABLE_BORROW_RATE_OVERFLOW'', ''605''),
     (''LPC_RESERVE_LIQUIDITY_NOT_0'', ''700''),
     (''LPC_INVALID_CONFIGURATION'', ''701''),
     (''LPC_CALLER_NOT_EMERGENCY_ADMIN'', ''702''),
     (''LPC_INVALIED_BNFT_ADDRESS'', ''703''),
     (''LPC_INVALIED_LOAN_ADDRESS'', ''704''),
     (''LPC_NFT_LIQUIDITY_NOT_0'', ''705''),
     (''RC_INVALID_LTV'', ''730''),
     (''RC_INVALID_LIQ_THRESHOLD'', ''731''),
     (''RC_INVALID_LIQ_BONUS'', ''732''),
     (''RC_INVALID_DECIMALS'', ''733''),
     (''RC_INVALID_RESERVE_FACTOR'', ''734''),
     (''RC_INVALID_REDEEM_DURATION'', ''735''),
     (''RC_INVALID_AUCTION_DURATION'', ''736''),
     (''RC_INVALID_REDEEM_FINE'', ''737''),
     (''RC_INVALID_REDEEM_THRESHOLD'', ''738''),
     (''RC_INVALID_MIN_BID_FINE'', ''739''),
     (''RC_INVALID_MAX_BID_FINE'', ''740''),
     (''LPAPR_PROVIDER_NOT_REGISTERED'', ''760''),
     (''LPAPR_INVALID_ADDRESSES_PROVIDER_ID'', ''761'')]"

section \<open>Assets and market parameters\<close>

datatype TokenContractId = T_WETH | T_DAI | T_USDC | T_USDT

fun tokenid :: "TokenContractId \<Rightarrow> string" where
  "tokenid T_WETH = ''WETH''"
| "tokenid T_DAI = ''DAI''"
| "tokenid T_USDC = ''USDC''"
| "tokenid T_USDT = ''USDT''"

definition TokenContractId_keys :: "string list" where
  "TokenContractId_keys = map tokenid [T_WETH, T_DAI, T_USDC, T_USDT]"

datatype NftContractId = N_WPUNKS | N_BAYC | N_DOODLE | N_SDOODLE | N_MAYC | N_CLONEX | N_AZUKI | N_WKODA

fun nftid :: "NftContractId \<Rightarrow> string" where
  "nftid N_WPUNKS = ''WPUNKS''"
| "nftid N_BAYC = ''BAYC''"
| "nftid N_DOODLE = ''DOODLE''"
| "nftid N_SDOODLE = ''SDOODLE''"
| "nftid N_MAYC = ''MAYC''"
| "nftid N_CLONEX = ''CLONEX''"
| "nftid N_AZUKI = ''AZUKI''"
| "nftid N_WKODA = ''WKODA''"

definition NftContractId_keys :: "string list" where
  "NftContractId_keys =
     map nftid [N_WPUNKS, N_BAYC, N_DOODLE, N_SDOODLE, N_MAYC, N_CLONEX, N_AZUKI, N_WKODA]"

record IInterestRateStrategyParams =
  strat_name :: string
  optimalUtilizationRate :: string
  baseVariableBorrowRate :: string
  variableRateSlope1 :: string
  variableRateSlope2 :: string

record IReserveParams =
  strategy :: IInterestRateStrategyParams
  r_baseLTVAsCollateral :: string
  r_liquidationThreshold :: string
  r_liquidationBonus :: string
  borrowingEnabled :: bool
  reserveDecimals :: string
  bTokenImpl :: eContractid
  reserveFactor :: string

record INftParams =
  baseLTVAsCollateral :: string
  liquidationThreshold :: string
  liquidationBonus :: string
  redeemDuration :: string
  auctionDuration :: string
  redeemFine :: string
  redeemThreshold :: string
  minBidFine :: string
  bNftImpl :: eContractid
  maxSupply :: string
  maxTokenId :: string

record IProtocolGlobalConfig =
  MockUsdPrice :: string
  UsdAddress :: string
  NilAddress :: string
  OneAddress :: string

record IMocksConfig =
  BNftNamePrefix :: string
  BNftSymbolPrefix :: string
  AllAssetsInitialPrices :: "string jsobj"
  AllNftsInitialPrices :: "string jsobj"

text \<open>\<open>tEthereumAddress | undefined\<close> per network.\<close>

type_synonym addressPerNetwork = "string option iParamsPerNetwork"

record ICommonConfiguration =
  MarketId :: string
  BTokenNamePrefix :: string
  BTokenSymbolPrefix :: string
  DebtTokenNamePrefix :: string
  DebtTokenSymbolPrefix :: string
  ProviderId :: int
  ProtocolGlobalParams :: IProtocolGlobalConfig
  Mocks :: IMocksConfig
  ProxyAdminPool :: addressPerNetwork
  ProxyAdminFund :: addressPerNetwork
  ProxyAdminWTL :: addressPerNetwork
  BNFTRegistry :: addressPerNetwork
  ProviderRegistry :: addressPerNetwork
  ProviderRegistryOwner :: addressPerNetwork
  ReserveOracle :: addressPerNetwork
  NFTOracle :: addressPerNetwork
  PoolAdmin :: addressPerNetwork
  PoolAdminIndex :: nat
  EmergencyAdmin :: addressPerNetwork
  EmergencyAdminIndex :: nat
  ReserveAggregators :: "string jsobj iParamsPerNetwork"
  ReserveAssets :: "string jsobj iParamsPerNetwork"
  ReservesConfig :: "IReserveParams jsobj"
  NftsAssets :: "string jsobj iParamsPerNetwork"
  NftsConfig :: "INftParams jsobj"
  WrappedNativeToken :: addressPerNetwork
  CryptoPunksMarket :: addressPerNetwork
  WrappedPunkToken :: addressPerNetwork
  ReserveFactorCollectorAddress :: addressPerNetwork
  IncentivesController :: addressPerNetwork
  DebtTokenImplementation :: "addressPerNetwork option"
  OracleQuoteCurrency :: string
  OracleQuoteUnit :: string

text \<open>
  \<open>poolConfig[id]\<close>, the dynamic property read of the scripts: the field of that name when it holds
  an address per network. Other fields hold no address under any network name, and an unknown name
  reads \<open>undefined\<close>.
\<close>

definition config_field :: "ICommonConfiguration \<Rightarrow> string \<Rightarrow> addressPerNetwork option" where
  "config_field c i = (
     if i = ''ProxyAdminPool'' then Some (ProxyAdminPool c)
     else if i = ''ProxyAdminFund'' then Some (ProxyAdminFund c)
     else if i = ''ProxyAdminWTL'' then Some (ProxyAdminWTL c)
     else if i = ''BNFTRegistry'' then Some (BNFTRegistry c)
     else if i = ''ProviderRegistry'' then Some (ProviderRegistry c)
     else if i = ''ProviderRegistryOwner'' then Some (ProviderRegistryOwner c)
     else if i = ''ReserveOracle'' then Some (ReserveOracle c)
     else if i = ''NFTOracle'' then Some (NFTOracle c)
     else if i = ''PoolAdmin'' then Some (PoolAdmin c)
     else if i = ''EmergencyAdmin'' then Some (EmergencyAdmin c)
     else if i = ''WrappedNativeToken'' then Some (WrappedNativeToken c)
     else if i = ''CryptoPunksMarket'' then Some (CryptoPunksMarket c)
     else if i = ''WrappedPunkToken'' then Some (WrappedPunkToken c)
     else if i = ''ReserveFactorCollectorAddress'' then Some (ReserveFactorCollectorAddress c)
     else if i = ''IncentivesController'' then Some (IncentivesController c)
     else if i = ''DebtTokenImplementation'' then DebtTokenImplementation c
     else None)"

section \<open>Facts about the enumerations\<close>

lemma all_contract_ids_complete: "i \<in> set all_contract_ids"
  by (cases i) (simp_all add: all_contract_ids_def)

lemma distinct_contract_strings: "distinct (map cid all_contract_ids)"
  by code_simp

lemma cid_inject: "cid i = cid j \<longleftrightarrow> i = j"
  using distinct_contract_strings all_contract_ids_complete
  by (metis distinct_map inj_on_def)

text \<open>
  The names that only one of the two error lists has, and the codes of \<open>Errors.sol\<close> that the
  enumeration of the scripts misses.
\<close>

definition names_missing :: "string jsobj \<Rightarrow> string jsobj \<Rightarrow> string list" where
  "names_missing a b = filter (\<lambda>n. oget b n = None) (map fst a)"

definition codes_missing :: "string jsobj \<Rightarrow> string jsobj \<Rightarrow> string list" where
  "codes_missing a b = filter (\<lambda>c. c \<notin> set (map snd b)) (map snd a)"

text \<open>The scripts' \<open>ProtocolErrors\<close> misses eight of the codes that the contracts revert with; what it has
  besides the contracts' codes are three messages of the OpenZeppelin contracts; and it has code 494 under
  another name.\<close>

theorem protocol_errors_incomplete:
  "codes_missing SolErrors ProtocolErrors =
     [''0'', ''203'', ''319'', ''321'', ''421'', ''738'', ''739'', ''740''] \<and>
   codes_missing ProtocolErrors SolErrors = [''Ownable: caller is not the owner'',
     ''ERC20: transfer amount exceeds balance'', ''SafeERC20: low-level call failed''] \<and>
   oget ProtocolErrors ''LPL_BID_INVALID_BID_FINE'' = oget SolErrors ''LPL_INVALID_BID_FINE'' \<and>
   oget SolErrors ''LPL_BID_INVALID_BID_FINE'' = None"
  by code_simp

end
