(* ===== verification/Constants.thy ===== *)
theory Constants
  imports Complex_Main Types
begin

text \<open>
  \<open>helpers/constants.ts\<close>, and the part of \<open>bignumber.js\<close> it needs. A \<open>BigNumber\<close> is an exact
  decimal: it is modelled by the rational number it stands for, on which \<open>plus\<close>, \<open>minus\<close> and
  \<open>times\<close> are the rational operations (the documentation of the library: these never round).
  Division, which rounds as \<open>BigNumber.config\<close> says, is not used here. \<open>toFixed\<close> writes a number in
  plain decimal notation; the model writes at most 80 fractional digits, more than any constant has.
\<close>

type_synonym BigNumber = rat

fun frac_digits :: "nat \<Rightarrow> nat \<Rightarrow> nat \<Rightarrow> string" where
  "frac_digits 0 r d = []"
| "frac_digits (Suc n) r d =
     (if r = 0 then [] else digit_char (10 * r div d) # frac_digits n (10 * r mod d) d)"

definition toFixed :: "BigNumber \<Rightarrow> string" where
  "toFixed x = (let (n, d) = quotient_of x; a = nat \<bar>n\<bar>; b = nat d; f = frac_digits 80 (a mod b) b
     in (if n < 0 then ''-'' else []) @ show_nat (a div b) @ (if f = [] then [] else ''.'' @ f))"

lemma toFixed_of_int [simp]: "toFixed (of_int n) = show_int n"
  by (simp add: toFixed_def show_int_def eval_nat_numeral)

lemma toFixed_numeral [simp]: "toFixed (numeral n) = show_nat (numeral n)"
  using toFixed_of_int [of "numeral n"] by (simp add: show_int_def)

section \<open>Numbers\<close>

definition PERCENTAGE_FACTOR :: string where "PERCENTAGE_FACTOR = ''10000''"
definition HALF_PERCENTAGE :: string where "HALF_PERCENTAGE = ''5000''"
definition WAD :: string where "WAD = show_nat (10 ^ 18)"
definition HALF_WAD :: string where "HALF_WAD = toFixed (10 ^ 18 * (1 / 2))"
definition RAY :: string where "RAY = toFixed (10 ^ 27)"
definition HALF_RAY :: string where "HALF_RAY = toFixed (10 ^ 27 * (1 / 2))"
definition WAD_RAY_RATIO :: string where "WAD_RAY_RATIO = show_nat (10 ^ 9)"
definition oneEther :: BigNumber where "oneEther = 10 ^ 18"
definition oneRay :: BigNumber where "oneRay = 10 ^ 27"
definition MAX_UINT_AMOUNT :: string where
  "MAX_UINT_AMOUNT =
     ''115792089237316195423570985008687907853269984665640564039457584007913129639935''"
definition ONE_YEAR :: string where "ONE_YEAR = ''31536000''"
definition ONE_DAY :: string where "ONE_DAY = ''86400''"
definition ONE_HOUR :: string where "ONE_HOUR = ''3600''"
definition ZERO_ADDRESS :: string where
  "ZERO_ADDRESS = ''0x0000000000000000000000000000000000000000''"
definition ONE_ADDRESS :: string where
  "ONE_ADDRESS = ''0x0000000000000000000000000000000000000001''"

section \<open>Protocol parameters\<close>

definition OPTIMAL_UTILIZATION_RATE :: BigNumber where
  "OPTIMAL_UTILIZATION_RATE = 4 / 5 * 10 ^ 27"
definition EXCESS_UTILIZATION_RATE :: BigNumber where
  "EXCESS_UTILIZATION_RATE = 1 / 5 * 10 ^ 27"
definition APPROVAL_AMOUNT_LENDING_POOL :: string where
  "APPROVAL_AMOUNT_LENDING_POOL = ''1000000000000000000000000000''"
definition TOKEN_DISTRIBUTOR_PERCENTAGE_BASE :: string where
  "TOKEN_DISTRIBUTOR_PERCENTAGE_BASE = ''10000''"
definition MOCK_USD_PRICE :: string where "MOCK_USD_PRICE = ''425107839690''"
definition USD_ADDRESS :: string where
  "USD_ADDRESS = ''0x9ceb4d4c184d1786614a593a03621b7f37f8685f''"
definition BEND_REFERRAL :: string where "BEND_REFERRAL = ''0''"

definition ADDRESS_ID_WETH_GATEWAY :: string where
  "ADDRESS_ID_WETH_GATEWAY = ''0xADDE000000000000000000000000000000000000000000000000000000000001''"
definition ADDRESS_ID_PUNK_GATEWAY :: string where
  "ADDRESS_ID_PUNK_GATEWAY = ''0xADDE000000000000000000000000000000000000000000000000000000000002''"
definition ADDRESS_ID_KODA_GATEWAY :: string where
  "ADDRESS_ID_KODA_GATEWAY = ''0xADDE000000000000000000000000000000000000000000000000000000000003''"

definition MOCK_RESERVE_AGGREGATORS_PRICES :: "string jsobj" where
  "MOCK_RESERVE_AGGREGATORS_PRICES = [
     (''WETH'', toFixed oneEther),
     (''DAI'', toFixed (oneEther * (233211 / 10 ^ 9))),
     (''USDC'', toFixed (oneEther * (2349162 / 10 ^ 10))),
     (''USDT'', toFixed (oneEther * (2359253 / 10 ^ 10)))]"

definition MOCK_NFT_AGGREGATORS_PRICES :: "string jsobj" where
  "MOCK_NFT_AGGREGATORS_PRICES = [
     (''WPUNKS'', toFixed (oneEther * (6699 / 100))),
     (''BAYC'', toFixed (oneEther * (5277 / 100))),
     (''DOODLE'', toFixed (oneEther * (269 / 100))),
     (''SDOODLE'', toFixed (oneEther * (269 / 100))),
     (''MAYC'', toFixed (oneEther * (623 / 100))),
     (''CLONEX'', toFixed (oneEther * (1195 / 100))),
     (''AZUKI'', toFixed (oneEther * (1050 / 100))),
     (''WKODA'', toFixed (oneEther * (1700 / 100)))]"

definition MOCK_NFT_BASE_URIS :: "string jsobj" where
  "MOCK_NFT_BASE_URIS = [
     (''WPUNKS'', ''https://wrappedpunks.com:3000/api/punks/metadata/''),
     (''BAYC'', ''ipfs://QmeSjSinHpPnmXmspMjwiXyN6zS4E9zccariGR3jxcaWtq/''),
     (''DOODLE'', ''ipfs://QmPMc4tcBsMqLRuCQtPmPe84bpSjrC3Ky7t3JWuHXYB4aS/''),
     (''COOL'', ''https://api.coolcatsnft.com/cat/''),
     (''MEEBITS'', ''https://meebits.larvalabs.com/meebit/1''),
     (''MAYC'', ''https://boredapeyachtclub.com/api/mutants/''),
     (''WOW'', ''https://wow-prod-nftribe.s3.eu-west-2.amazonaws.com/t/''),
     (''CLONEX'', ''https://clonex-assets.rtfkt.com/''),
     (''AZUKI'', ''https://ikzttp.mypinata.cloud/ipfs/QmQFkLSQysj94s5GvTHPyzTxrawwtjgiiYS2TBLgrvw8CW/''),
     (''KONGZ'', ''https://kongz.herokuapp.com/api/metadata/''),
     (''WKODA'', ''https://api.otherside.xyz/lands/'')]"

text \<open>The integer a number constant stands for.\<close>

lemma RAY_eq: "RAY = show_nat (10 ^ 27)"
  by (simp add: RAY_def)

lemma HALF_RAY_eq: "HALF_RAY = show_nat (5 * 10 ^ 26)"
  by (simp add: HALF_RAY_def)

lemma HALF_WAD_eq: "HALF_WAD = show_nat (5 * 10 ^ 17)"
  by (simp add: HALF_WAD_def)

end
