(* ===== verification/MarketConfig.thy ===== *)
theory MarketConfig
  imports Constants
begin

text \<open>
  The market configuration of \<open>markets/bend/\<close> (interest rate strategies, reserve and NFT
  parameters, the addresses per network) and the part of \<open>helpers/configuration.ts\<close> that selects
  a configuration. The numbers stay the decimal strings the scripts send to the contracts.
\<close>

section \<open>\<open>rateStrategies.ts\<close>\<close>

definition rateStrategyStableOne :: IInterestRateStrategyParams where
  "rateStrategyStableOne = \<lparr>strat_name = ''rateStrategyStableOne'',
     optimalUtilizationRate = toFixed (4 / 5 * oneRay),
     baseVariableBorrowRate = toFixed (3 / 100 * oneRay),
     variableRateSlope1 = toFixed (4 / 100 * oneRay),
     variableRateSlope2 = toFixed (1 * oneRay)\<rparr>"

definition rateStrategyStableTwo :: IInterestRateStrategyParams where
  "rateStrategyStableTwo = \<lparr>strat_name = ''rateStrategyStableTwo'',
     optimalUtilizationRate = toFixed (4 / 5 * oneRay),
     baseVariableBorrowRate = toFixed (3 / 100 * oneRay),
     variableRateSlope1 = toFixed (4 / 100 * oneRay),
     variableRateSlope2 = toFixed (75 / 100 * oneRay)\<rparr>"

definition rateStrategyStableThree :: IInterestRateStrategyParams where
  "rateStrategyStableThree = \<lparr>strat_name = ''rateStrategyStableThree'',
     optimalUtilizationRate = toFixed (9 / 10 * oneRay),
     baseVariableBorrowRate = toFixed (3 / 100 * oneRay),
     variableRateSlope1 = toFixed (4 / 100 * oneRay),
     variableRateSlope2 = toFixed (60 / 100 * oneRay)\<rparr>"

definition rateStrategyWETH :: IInterestRateStrategyParams where
  "rateStrategyWETH = \<lparr>strat_name = ''rateStrategyWETH'',
     optimalUtilizationRate = toFixed (65 / 100 * oneRay),
     baseVariableBorrowRate = toFixed (3 / 100 * oneRay),
     variableRateSlope1 = toFixed (8 / 100 * oneRay),
     variableRateSlope2 = toFixed (1 * oneRay)\<rparr>"

section \<open>\<open>reservesConfigs.ts\<close>\<close>

definition strategyBUSD :: IReserveParams where
  "strategyBUSD = \<lparr>strategy = rateStrategyStableOne,
     r_baseLTVAsCollateral = ''0'',
     r_liquidationThreshold = ''0'',
     r_liquidationBonus = ''0'',
     borrowingEnabled = True,
     reserveDecimals = ''18'',
     bTokenImpl = C_BToken,
     reserveFactor = ''3000''\<rparr>"

definition strategyDAI :: IReserveParams where
  "strategyDAI = \<lparr>strategy = rateStrategyStableTwo,
     r_baseLTVAsCollateral = ''7500'',
     r_liquidationThreshold = ''8000'',
     r_liquidationBonus = ''500'',
     borrowingEnabled = True,
     reserveDecimals = ''18'',
     bTokenImpl = C_BToken,
     reserveFactor = ''3000''\<rparr>"

definition strategyUSDC :: IReserveParams where
  "strategyUSDC = \<lparr>strategy = rateStrategyStableThree,
     r_baseLTVAsCollateral = ''8000'',
     r_liquidationThreshold = ''8500'',
     r_liquidationBonus = ''500'',
     borrowingEnabled = True,
     reserveDecimals = ''6'',
     bTokenImpl = C_BToken,
     reserveFactor = ''3000''\<rparr>"

definition strategyUSDT :: IReserveParams where
  "strategyUSDT = \<lparr>strategy = rateStrategyStableThree,
     r_baseLTVAsCollateral = ''8000'',
     r_liquidationThreshold = ''8500'',
     r_liquidationBonus = ''500'',
     borrowingEnabled = True,
     reserveDecimals = ''6'',
     bTokenImpl = C_BToken,
     reserveFactor = ''3000''\<rparr>"

definition strategyWETH :: IReserveParams where
  "strategyWETH = \<lparr>strategy = rateStrategyWETH,
     r_baseLTVAsCollateral = ''8000'',
     r_liquidationThreshold = ''8250'',
     r_liquidationBonus = ''500'',
     borrowingEnabled = True,
     reserveDecimals = ''18'',
     bTokenImpl = C_BToken,
     reserveFactor = ''3000''\<rparr>"

definition strategyReserveParams :: "IReserveParams jsobj" where
  "strategyReserveParams = [(''WETH'', strategyWETH), (''USDT'', strategyUSDT),
     (''USDC'', strategyUSDC), (''DAI'', strategyDAI)]"

section \<open>\<open>nftsConfigs.ts\<close>\<close>

definition strategyNftClassA :: INftParams where
  "strategyNftClassA = \<lparr>baseLTVAsCollateral = ''5000'',
     liquidationThreshold = ''9000'',
     liquidationBonus = ''10000'',
     redeemDuration = ''4'',
     auctionDuration = ''4'',
     redeemFine = ''500'',
     redeemThreshold = ''5000'',
     minBidFine = ''2000'',
     bNftImpl = C_BNFT,
     maxSupply = ''0'',
     maxTokenId = ''0''\<rparr>"

definition strategyNftClassB :: INftParams where
  "strategyNftClassB = \<lparr>baseLTVAsCollateral = ''4000'',
     liquidationThreshold = ''9000'',
     liquidationBonus = ''10000'',
     redeemDuration = ''4'',
     auctionDuration = ''4'',
     redeemFine = ''500'',
     redeemThreshold = ''5000'',
     minBidFine = ''2000'',
     bNftImpl = C_BNFT,
     maxSupply = ''0'',
     maxTokenId = ''0''\<rparr>"

definition strategyNftClassC :: INftParams where
  "strategyNftClassC = \<lparr>baseLTVAsCollateral = ''3000'',
     liquidationThreshold = ''9000'',
     liquidationBonus = ''10000'',
     redeemDuration = ''4'',
     auctionDuration = ''4'',
     redeemFine = ''500'',
     redeemThreshold = ''5000'',
     minBidFine = ''2000'',
     bNftImpl = C_BNFT,
     maxSupply = ''0'',
     maxTokenId = ''0''\<rparr>"

definition strategyNftClassD :: INftParams where
  "strategyNftClassD = \<lparr>baseLTVAsCollateral = ''2000'',
     liquidationThreshold = ''9000'',
     liquidationBonus = ''10000'',
     redeemDuration = ''4'',
     auctionDuration = ''4'',
     redeemFine = ''500'',
     redeemThreshold = ''5000'',
     minBidFine = ''2000'',
     bNftImpl = C_BNFT,
     maxSupply = ''0'',
     maxTokenId = ''0''\<rparr>"

definition strategyNftClassE :: INftParams where
  "strategyNftClassE = \<lparr>baseLTVAsCollateral = ''1000'',
     liquidationThreshold = ''9000'',
     liquidationBonus = ''10000'',
     redeemDuration = ''4'',
     auctionDuration = ''4'',
     redeemFine = ''500'',
     redeemThreshold = ''5000'',
     minBidFine = ''2000'',
     bNftImpl = C_BNFT,
     maxSupply = ''0'',
     maxTokenId = ''0''\<rparr>"

definition strategyNft_WPUNKS :: INftParams where
  "strategyNft_WPUNKS = strategyNftClassB\<lparr>maxSupply := ''10000'', maxTokenId := ''9999''\<rparr>"

definition strategyNft_BAYC :: INftParams where
  "strategyNft_BAYC = strategyNftClassB\<lparr>maxSupply := ''10000'', maxTokenId := ''9999''\<rparr>"

definition strategyNft_DOODLE :: INftParams where
  "strategyNft_DOODLE = strategyNftClassB\<lparr>maxSupply := ''10000'', maxTokenId := ''9999''\<rparr>"

definition strategyNft_MAYC :: INftParams where
  "strategyNft_MAYC = strategyNftClassB\<lparr>maxSupply := ''20000'', maxTokenId := ''30007''\<rparr>"

definition strategyNft_CLONEX :: INftParams where
  "strategyNft_CLONEX = strategyNftClassB\<lparr>maxSupply := ''20000'', maxTokenId := ''19999''\<rparr>"

definition strategyNft_AZUKI :: INftParams where
  "strategyNft_AZUKI = strategyNftClassB\<lparr>maxSupply := ''10000'', maxTokenId := ''9999''\<rparr>"

definition strategyNft_KONGZ :: INftParams where
  "strategyNft_KONGZ = strategyNftClassB\<lparr>maxSupply := ''5000'', maxTokenId := ''5000''\<rparr>"

definition strategyNft_COOL :: INftParams where
  "strategyNft_COOL = strategyNftClassB\<lparr>maxSupply := ''10000'', maxTokenId := ''9999''\<rparr>"

definition strategyNft_MEEBITS :: INftParams where
  "strategyNft_MEEBITS = strategyNftClassB\<lparr>maxSupply := ''20000'', maxTokenId := ''19999''\<rparr>"

definition strategyNft_WOW :: INftParams where
  "strategyNft_WOW = strategyNftClassB\<lparr>maxSupply := ''10000'', maxTokenId := ''9999''\<rparr>"

definition strategyNft_WKODA :: INftParams where
  "strategyNft_WKODA = strategyNftClassB\<lparr>maxSupply := ''10000'', maxTokenId := ''99999''\<rparr>"

definition strategyNftParams :: "INftParams jsobj" where
  "strategyNftParams = [
     (''ClassA'', strategyNftClassA),
     (''ClassB'', strategyNftClassB),
     (''ClassC'', strategyNftClassC),
     (''ClassD'', strategyNftClassD),
     (''ClassE'', strategyNftClassE),
     (''WPUNKS'', strategyNft_WPUNKS),
     (''BAYC'', strategyNft_BAYC),
     (''DOODLE'', strategyNft_DOODLE),
     (''SDOODLE'', strategyNft_DOODLE),
     (''MAYC'', strategyNft_MAYC),
     (''CLONEX'', strategyNft_CLONEX),
     (''AZUKI'', strategyNft_AZUKI),
     (''KONGZ'', strategyNft_KONGZ),
     (''COOL'', strategyNft_COOL),
     (''MEEBITS'', strategyNft_MEEBITS),
     (''WOW'', strategyNft_WOW),
     (''WKODA'', strategyNft_WKODA)]"

section \<open>\<open>commons.ts\<close>\<close>

definition Commons_ProxyAdminPool :: addressPerNetwork where
  "Commons_ProxyAdminPool = \<lparr>coverage = None,
     hardhat = None,
     localhost = None,
     goerli = Some ''0x19Fc1F11e1BEA5317ce54d97bbf5675a38e2F4a3'',
     rinkeby = Some ''0xC019619F15aF1f96A695aBA39478e64ABcAa474b'',
     sepolia = Some ''0x60E1dD31C415687d64855ec5A3F5367cDF4e2D8A'',
     main = Some ''0x501c991E0D31D408c25bCf00da27BdF2759A394a''\<rparr>"

definition Commons_ProxyAdminFund :: addressPerNetwork where
  "Commons_ProxyAdminFund = \<lparr>coverage = None,
     hardhat = None,
     localhost = None,
     goerli = Some ''0xd9E1e945e042fa29cD984cb0f280ae5Ce990D993'',
     rinkeby = Some ''0x64DA9D7651CA78caAB756740C6057e2b7B1E63De'',
     sepolia = Some ''0x575a6BDCB1AAc7C3655f6a52A7c4e355b209DaBB'',
     main = Some ''0x2A71a0F5cef1fFc519027AD12f19453110e70666''\<rparr>"

definition Commons_ProxyAdminWTL :: addressPerNetwork where
  "Commons_ProxyAdminWTL = \<lparr>coverage = None,
     hardhat = None,
     localhost = None,
     goerli = Some ''0x1055d0961CE2E1aF92f57b208171B90f8f1c7916'',
     rinkeby = None,
     sepolia = Some ''0x15c2Ae6eE45b57f592e6DcDf7C06a2d956c98d03'',
     main = None\<rparr>"

definition Commons_PoolAdmin :: addressPerNetwork where
  "Commons_PoolAdmin = \<lparr>coverage = None,
     hardhat = None,
     localhost = None,
     goerli = Some ''0xafF5C36642385b6c7Aaf7585eC785aB2316b5db6'',
     rinkeby = Some ''0xafF5C36642385b6c7Aaf7585eC785aB2316b5db6'',
     sepolia = Some ''0xafF5C36642385b6c7Aaf7585eC785aB2316b5db6'',
     main = Some ''0x868964fa49a6fd6e116FE82c8f4165904406f479''\<rparr>"

definition Commons_EmergencyAdmin :: addressPerNetwork where
  "Commons_EmergencyAdmin = \<lparr>coverage = None,
     hardhat = None,
     localhost = None,
     goerli = Some ''0xFc6a5b329340719b2693C2c74a5D056cf4f93FB0'',
     rinkeby = Some ''0xFc6a5b329340719b2693C2c74a5D056cf4f93FB0'',
     sepolia = Some ''0xFc6a5b329340719b2693C2c74a5D056cf4f93FB0'',
     main = Some ''0x2CFa21b4dEc4409670899d05b8644e9C432250de''\<rparr>"

definition Commons_BNFTRegistry :: addressPerNetwork where
  "Commons_BNFTRegistry = \<lparr>coverage = Some '''',
     hardhat = Some '''',
     localhost = Some ''0xCE1e5D792d24F62b29D35DeB85eC04b1F66447b1'',
     goerli = Some ''0x37A76Db446bDB3EF1b73112a8D5E6868de06464f'',
     rinkeby = Some ''0xB873F088EB721261bc88BbC739B5C794e02e414b'',
     sepolia = Some ''0x694b86Deef7C2C06d4C40A07a5995815C444170D'',
     main = Some ''0x79d922DD382E42A156bC0A354861cDBC4F09110d''\<rparr>"

definition Commons_ProviderRegistry :: addressPerNetwork where
  "Commons_ProviderRegistry = \<lparr>coverage = Some '''',
     hardhat = Some '''',
     localhost = Some '''',
     goerli = Some ''0x5eff819a886474503004d39C64b5c057FFD6fAe2'',
     rinkeby = Some ''0xE199f7a0173FEAfb8c0085b2724b544a7c614273'',
     sepolia = Some ''0x4e762Cd5695F9217E04c77df98BA9DcDadb6Cc33'',
     main = Some ''0x2C16905Dfd953cf3BF3960c4A101c1eEBBd37E32''\<rparr>"

definition Commons_ProviderRegistryOwner :: addressPerNetwork where
  "Commons_ProviderRegistryOwner = \<lparr>coverage = Some '''',
     hardhat = Some '''',
     localhost = Some '''',
     goerli = Some ''0xafF5C36642385b6c7Aaf7585eC785aB2316b5db6'',
     rinkeby = Some ''0xafF5C36642385b6c7Aaf7585eC785aB2316b5db6'',
     sepolia = Some ''0xafF5C36642385b6c7Aaf7585eC785aB2316b5db6'',
     main = Some ''0x868964fa49a6fd6e116FE82c8f4165904406f479''\<rparr>"

definition Commons_ReserveOracle :: addressPerNetwork where
  "Commons_ReserveOracle = \<lparr>coverage = Some '''',
     hardhat = Some '''',
     localhost = Some '''',
     goerli = Some ''0xFFC171ff66bba4303Ea8334d08dB5779daF860a3'',
     rinkeby = Some ''0xEEa5BC7BEB4DD341E8BBa230E22df9CA45f0AE19'',
     sepolia = Some ''0x0EBbD387769f012a3Bbf65eaCb4Ec3db3c7693f6'',
     main = Some ''0x16ca3E500dA893cF2EEBb6b401247e68ca5BC072''\<rparr>"

definition Commons_NFTOracle :: addressPerNetwork where
  "Commons_NFTOracle = \<lparr>coverage = Some '''',
     hardhat = Some '''',
     localhost = Some '''',
     goerli = Some ''0xE7E268cC1D025906fe8f6b076ecc40FF1a8dfA61'',
     rinkeby = Some ''0x04af5eF6100E1025560Be50FF244CB31f60d08c2'',
     sepolia = Some ''0xF143144Fb2703C8aeefD0c4D06d29F5Bb0a9C60A'',
     main = Some ''0x7C2A19e54e48718f6C60908a9Cff3396E4Ea1eBA''\<rparr>"

definition Commons_WrappedNativeToken :: addressPerNetwork where
  "Commons_WrappedNativeToken = \<lparr>coverage = Some '''',
     hardhat = Some '''',
     localhost = Some ''0xB4B4ead1A260F1572b88b9D8ABa5A152D166c104'',
     goerli = Some ''0xB4FBF271143F4FBf7B91A5ded31805e42b2208d6'',
     rinkeby = Some ''0xc778417E063141139Fce010982780140Aa0cD5Ab'',
     sepolia = Some ''0xfFf9976782d46CC05630D1f6eBAb18b2324d6B14'',
     main = Some ''0xc02aaa39b223fe8d0a0e5c4f27ead9083c756cc2''\<rparr>"

definition Commons_CryptoPunksMarket :: addressPerNetwork where
  "Commons_CryptoPunksMarket = \<lparr>coverage = Some '''',
     hardhat = Some '''',
     localhost = Some ''0xb2f97A3c2E48cd368901657e31Faaa93035CE390'',
     goerli = Some ''0xBccC7a1E79215EC3FD36824615801BCeE0Df2eC3'',
     rinkeby = Some ''0x6389eA3Cf6dE815ba76d7Cf4C6Db6A7093471bcb'',
     sepolia = Some ''0x554309B0888c37139D6E31aBAe30B4502915B5DB'',
     main = Some ''0xb47e3cd837ddf8e4c57f05d70ab865de6e193bbb''\<rparr>"

definition Commons_WrappedPunkToken :: addressPerNetwork where
  "Commons_WrappedPunkToken = \<lparr>coverage = Some '''',
     hardhat = Some '''',
     localhost = Some ''0x5a60c5d89A0A0e08ae0CAe73453e3AcC9C335847'',
     goerli = Some ''0xbeD1e8B430FD512b82A18cb121a8442F3889E505'',
     rinkeby = Some ''0x74e4418A41169Fb951Ca886976ccd8b36968c4Ab'',
     sepolia = Some ''0x647dc527Bd7dFEE4DD468cE6fC62FC50fa42BD8b'',
     main = Some ''0xb7F7F6C52F2e2fdb1963Eab30438024864c313F6''\<rparr>"

definition Commons_ReserveFactorCollectorAddress :: addressPerNetwork where
  "Commons_ReserveFactorCollectorAddress = \<lparr>coverage = Some ''0xafF5C36642385b6c7Aaf7585eC785aB2316b5db6'',
     hardhat = Some ''0xafF5C36642385b6c7Aaf7585eC785aB2316b5db6'',
     localhost = Some ''0xafF5C36642385b6c7Aaf7585eC785aB2316b5db6'',
     goerli = Some ''0x32B08f895d93a207e8A5C9405870D780A43b25Dd'',
     rinkeby = Some ''0x7A02EE743Aadca63d60945971B7eD12c7f26b6d2'',
     sepolia = Some ''0xdd3eC916c0B438b9DB2Ee675cBD412c46763a641'',
     main = Some ''0x43078AbfB76bd24885Fd64eFFB22049f92a8c495''\<rparr>"

definition Commons_IncentivesController :: addressPerNetwork where
  "Commons_IncentivesController = \<lparr>coverage = Some ZERO_ADDRESS,
     hardhat = Some ZERO_ADDRESS,
     localhost = Some ''0x1eaA4a267eDcde0eB5e08D08810Aa1696b123a2D'',
     goerli = Some ''0x292F693048208184320C01e0C223D624268e5EE7'',
     rinkeby = Some ''0xD800e97aE32b06C1e89ca5126c7bF6aEF89D6B24'',
     sepolia = Some ''0x06A13f172ADce6fdE761c9A2Ff2d0ad50e9e38d0'',
     main = Some ''0x26FC1f11E612366d3367fc0cbFfF9e819da91C8d''\<rparr>"

definition Commons_ReserveAggregators :: "string jsobj iParamsPerNetwork" where
  "Commons_ReserveAggregators = \<lparr>coverage = [],
     hardhat = [],
     localhost = [(''DAI'', ''0x10F6794a3Df86bD8B97c7d6D625BAB54677D443b''),
       (''USDC'', ''0x2cC3790f7CF280fA898E4913CA980410cF38e53b''),
       (''USD'', ''0x6B8dcBD1bb131ED184221902df1Fe21019ccD7dc'')],
     goerli = [(''USD'', ''0xD4a33860578De61DBAbDc8BFdb98FD742fA7028e''),
       (''USDT'', ''0xF82ced221150d59ac33D42bfc4b0f1ED845B2da6'')],
     rinkeby = [(''DAI'', ''0x74825DbC8BF76CC4e9494d0ecB210f676Efa001D''),
       (''USDC'', ''0xdCA36F27cbC4E38aE16C4E9f99D39b42337F6dcf''),
       (''USD'', ''0x8A753747A1Fa494EC906cE90E9f37563A8AF630e'')],
     sepolia = [(''USD'', ''0x694AA1769357215DE4FAC081bf1f309aDC325306'')],
     main = [(''USD'', ''0x5f4eC3Df9cbd43714FE2740f5E3616155c5b8419''),
       (''USDT'', ''0xEe9F2375b4bdF6387aa8265dD4FB8F16512A1d46''),
       (''DAI'', ''0x773616E4d11A78F511299002da57A0a94577F1f4''),
       (''USDC'', ''0x986b5E1e1755e3C2440e960477f25201B0a8bbD4'')]\<rparr>"

definition Commons_ReserveAssets :: "string jsobj iParamsPerNetwork" where
  "Commons_ReserveAssets = \<lparr>coverage = [],
     hardhat = [],
     localhost = [],
     goerli = [],
     rinkeby = [],
     sepolia = [],
     main = []\<rparr>"

definition Commons_NftsAssets :: "string jsobj iParamsPerNetwork" where
  "Commons_NftsAssets = \<lparr>coverage = [],
     hardhat = [],
     localhost = [],
     goerli = [],
     rinkeby = [],
     sepolia = [],
     main = []\<rparr>"

definition CommonsConfig :: ICommonConfiguration where
  "CommonsConfig = \<lparr>
     MarketId = ''Commons'',
     BTokenNamePrefix = ''Bend interest bearing'',
     BTokenSymbolPrefix = ''bend'',
     DebtTokenNamePrefix = ''Bend debt bearing'',
     DebtTokenSymbolPrefix = ''bendDebt'',
     ProviderId = 0,
     ProtocolGlobalParams = \<lparr>
       MockUsdPrice = ''425107839690'',
       UsdAddress = ''0x9ceb4d4c184d1786614a593a03621b7f37f8685f'',
       NilAddress = ''0x0000000000000000000000000000000000000000'',
       OneAddress = ''0x0000000000000000000000000000000000000001''\<rparr>,
     Mocks = \<lparr>
       BNftNamePrefix = ''Bound NFT'',
       BNftSymbolPrefix = ''bound'',
       AllAssetsInitialPrices = spread [] MOCK_RESERVE_AGGREGATORS_PRICES,
       AllNftsInitialPrices = spread [] MOCK_NFT_AGGREGATORS_PRICES\<rparr>,
     ProxyAdminPool = Commons_ProxyAdminPool,
     ProxyAdminFund = Commons_ProxyAdminFund,
     ProxyAdminWTL = Commons_ProxyAdminWTL,
     BNFTRegistry = Commons_BNFTRegistry,
     ProviderRegistry = Commons_ProviderRegistry,
     ProviderRegistryOwner = Commons_ProviderRegistryOwner,
     ReserveOracle = Commons_ReserveOracle,
     NFTOracle = Commons_NFTOracle,
     PoolAdmin = Commons_PoolAdmin,
     PoolAdminIndex = 1,
     EmergencyAdmin = Commons_EmergencyAdmin,
     EmergencyAdminIndex = 2,
     ReserveAggregators = Commons_ReserveAggregators,
     ReserveAssets = Commons_ReserveAssets,
     ReservesConfig = [],
     NftsAssets = Commons_NftsAssets,
     NftsConfig = [],
     WrappedNativeToken = Commons_WrappedNativeToken,
     CryptoPunksMarket = Commons_CryptoPunksMarket,
     WrappedPunkToken = Commons_WrappedPunkToken,
     ReserveFactorCollectorAddress = Commons_ReserveFactorCollectorAddress,
     IncentivesController = Commons_IncentivesController,
     DebtTokenImplementation = None,
     OracleQuoteCurrency = ''ETH'',
     OracleQuoteUnit = toFixed oneEther\<rparr>"

section \<open>\<open>index.ts\<close>\<close>

definition Bend_ReserveAssets :: "string jsobj iParamsPerNetwork" where
  "Bend_ReserveAssets = \<lparr>coverage = [],
     hardhat = [],
     localhost = [(''WETH'', ''0xB4B4ead1A260F1572b88b9D8ABa5A152D166c104''),
       (''DAI'', ''0xa05ffF82bcC0C599984b0839218DC6ee9328d1Fb''),
       (''USDC'', ''0x025FE4760c6f14dE878C22cEb09A3235F16dAe53'')],
     goerli = [(''WETH'', ''0xB4FBF271143F4FBf7B91A5ded31805e42b2208d6''),
       (''USDT'', ''0x8096Fd3B381164af8421F25c84063B8afC637fE5'')],
     rinkeby = [(''WETH'', ''0xc778417E063141139Fce010982780140Aa0cD5Ab''),
       (''DAI'', ''0x51EA2fEb1b1EB0891595f846456068D497734ca4''),
       (''USDC'', ''0xB07416EFa22C8A502ff3845D3c0BdA400f929cB8'')],
     sepolia = [(''WETH'', ''0xfFf9976782d46CC05630D1f6eBAb18b2324d6B14'')],
     main = [(''WETH'', ''0xC02aaA39b223FE8D0A0e5C4F27eAD9083C756Cc2'')]\<rparr>"

definition Bend_NftsAssets :: "string jsobj iParamsPerNetwork" where
  "Bend_NftsAssets = \<lparr>coverage = [],
     hardhat = [],
     localhost = [(''WPUNKS'', ''0x5a60c5d89A0A0e08ae0CAe73453e3AcC9C335847''),
       (''BAYC'', ''0x4e07D87De1CF586D51C3665e6a4d36eB9d99a457''),
       (''DOODLE'', ''0x2F7f69a3cd22FcfFB5E0C0fB7Ae5Eb278b3919Ff''),
       (''MAYC'', ''0x8b89F971cA1A5dE1B7df7f554a3024eE84FeeB05'')],
     goerli = [(''WPUNKS'', ''0xbeD1e8B430FD512b82A18cb121a8442F3889E505''),
       (''BAYC'', ''0x30d190032A34d6151073a7DB8793c01Aa05987ec''),
       (''DOODLE'', ''0x317e19Fe3DB508f1A45421379FBbd7564d0259c0''),
       (''SDOODLE'', ''0x82C348Ef21629f5aaeE5280ef3f4389Ad82F8799''),
       (''MAYC'', ''0x15596C27900e12A9cfC301248E21888751f61c19''),
       (''CLONEX'', ''0x578bc56a145A3464Adc44635C23501653138c946''),
       (''AZUKI'', ''0x708c48AaA4Ea8B9E46Bd8DEb6470986842b9a16d'')],
     rinkeby = [(''WPUNKS'', ''0x74e4418A41169Fb951Ca886976ccd8b36968c4Ab''),
       (''BAYC'', ''0x588D1a07ccdb224cB28dCd8E3dD46E16B3a72b5e''),
       (''DOODLE'', ''0x10cACFfBf3Cdcfb365FDdC4795079417768BaA74''),
       (''COOL'', ''0x1F912E9b691858052196F11Aff9d8B6f89951AbD''),
       (''MAYC'', ''0x9C235dF4053a415f028b8386ed13ae8162843a6e''),
       (''CLONEX'', ''0xdd04ba0254972CC736F6966c496B4941f02BD816''),
       (''AZUKI'', ''0x050Cd8082B86c5F469e0ba72ef4400E5E454886D'')],
     sepolia = [(''WPUNKS'', ''0x647dc527Bd7dFEE4DD468cE6fC62FC50fa42BD8b''),
       (''BAYC'', ''0xE15A78992dd4a9d6833eA7C9643650d3b0a2eD2B''),
       (''DOODLE'', ''0x28cCcd47Aa3FFb42D77e395Fba7cdAcCeA884d5A''),
       (''SDOODLE'', ''0xd51fC3376F6D7C86D8639d5ec238327ab0EE69e3''),
       (''MAYC'', ''0xD0ff8ae7E3D9591605505D3db9C33b96c4809CDC''),
       (''CLONEX'', ''0x3BD0A71D39E67fc49D5A6645550f2bc95F5cb398''),
       (''AZUKI'', ''0x292F693048208184320C01e0C223D624268e5EE7'')],
     main = [(''WPUNKS'', ''0xb7F7F6C52F2e2fdb1963Eab30438024864c313F6''),
       (''BAYC'', ''0xbc4ca0eda7647a8ab7c2061c2e118a18a936f13d''),
       (''DOODLE'', ''0x8a90cab2b38dba80c64b7734e58ee1db38b8992e''),
       (''SDOODLE'', ''0x620b70123fb810f6c653da7644b5dd0b6312e4d8''),
       (''MAYC'', ''0x60e4d786628fea6478f785a6d7e704777c86a7c6''),
       (''CLONEX'', ''0x49cf6f5d44e70224e2e23fdcdd2c053f30ada28b''),
       (''AZUKI'', ''0xed5af388653567af2f388e6224dc7c4b3241c544'')]\<rparr>"

definition Bend_ReservesConfig :: "IReserveParams jsobj" where
  "Bend_ReservesConfig = [(''WETH'', strategyWETH), (''DAI'', strategyDAI),
     (''USDC'', strategyUSDC), (''USDT'', strategyUSDT)]"

definition Bend_NftsConfig :: "INftParams jsobj" where
  "Bend_NftsConfig = [
     (''WPUNKS'', strategyNft_WPUNKS),
     (''BAYC'', strategyNft_BAYC),
     (''DOODLE'', strategyNft_DOODLE),
     (''SDOODLE'', strategyNft_DOODLE),
     (''MAYC'', strategyNft_MAYC),
     (''CLONEX'', strategyNft_CLONEX),
     (''AZUKI'', strategyNft_AZUKI),
     (''WKODA'', strategyNft_WKODA)]"

definition BendConfig :: ICommonConfiguration where
  "BendConfig = CommonsConfig\<lparr>
     MarketId := ''Bend genesis market'',
     ProviderId := 1,
     ReservesConfig := Bend_ReservesConfig,
     NftsConfig := Bend_NftsConfig,
     ReserveAssets := Bend_ReserveAssets,
     NftsAssets := Bend_NftsAssets\<rparr>"

section \<open>Selecting a configuration: \<open>helpers/configuration.ts\<close>\<close>

datatype ConfigNames = Commons | Bend

text \<open>
  \<open>loadPoolConfig\<close> takes the name as a string, since the tasks read it from the command line.
\<close>

fun config_name_str :: "ConfigNames \<Rightarrow> string" where
  "config_name_str Commons = ''Commons''"
| "config_name_str Bend = ''Bend''"

definition loadPoolConfig :: "string \<Rightarrow> ICommonConfiguration task" where
  "loadPoolConfig configName =
     (if configName = ''Bend'' then tret BendConfig
      else if configName = ''Commons'' then tret CommonsConfig
      else tthrow (JsError ''Unsupported pool configuration: Commons,Bend''))"

fun getParamPerPool :: "'a iParamsPerPool \<Rightarrow> BendPools \<Rightarrow> 'a" where
  "getParamPerPool p Proto = proto p"

definition getReservesConfigByPool :: "BendPools \<Rightarrow> IReserveParams jsobj" where
  "getReservesConfigByPool pool = getParamPerPool \<lparr>proto = spread [] (ReservesConfig BendConfig)\<rparr> pool"

definition getNftsConfigByPool :: "BendPools \<Rightarrow> INftParams jsobj" where
  "getNftsConfigByPool pool = getParamPerPool \<lparr>proto = spread [] (NftsConfig BendConfig)\<rparr> pool"

end
