(* ===== verification/MiscUtils.thy ===== *)
theory MiscUtils
  imports MarketConfig
begin

text \<open>
  \<open>helpers/misc-utils.ts\<close>: access to the JSON database, the test node's clock, waiting for
  transactions, and the pure helpers on arrays, objects and addresses that the other scripts use.
\<close>

section \<open>The JSON database\<close>

text \<open>
  \<open>getDb(network).get(id).value()\<close> and \<open>getDb(network).set(id, entry).write()\<close>. The identifiers of
  the scripts hold no dots, so a lowdb path is a single key of the JSON object.
\<close>

definition db_get :: "string \<Rightarrow> world \<Rightarrow> db_entry option" where
  "db_get i w = oget (db w (net_name w)) i"

definition db_put :: "string \<Rightarrow> db_entry \<Rightarrow> world \<Rightarrow> world" where
  "db_put i e w = w\<lparr>db := (db w)(net_name w := oset i e (db w (net_name w)))\<rparr>"

definition getDb_get :: "string \<Rightarrow> db_entry option task" where
  "getDb_get i = tget (db_get i)"

definition getDb_set :: "string \<Rightarrow> db_entry \<Rightarrow> unit task" where
  "getDb_set i e = tmod (db_put i e)"

text \<open>\<open>printContracts\<close>: the lines it prints for the entries of the database.\<close>

definition printContracts :: "string list task" where
  "printContracts = tget (\<lambda>w. map (\<lambda>(k, e). k @ '': '' @ e_address e) (db w (net_name w)))"

section \<open>Time and blocks\<close>

definition evmSnapshot :: "jsval task" where
  "evmSnapshot = ask (ProviderSend ''evm_snapshot'' [])"

definition evmRevert :: "string \<Rightarrow> jsval task" where
  "evmRevert i = ask (ProviderSend ''evm_revert'' [JStr i])"

definition advanceBlock :: "int \<Rightarrow> jsval task" where
  "advanceBlock timestamp = ask (ProviderSend ''evm_mine'' [JNum timestamp])"

definition increaseTime :: "int \<Rightarrow> unit task" where
  "increaseTime secondsToIncrease =
     tseq (ask (ProviderSend ''evm_increaseTime'' [JNum secondsToIncrease]))
     (tseq (ask (ProviderSend ''evm_mine'' [])) (tret ()))"

definition advanceTimeAndBlock :: "int \<Rightarrow> unit task" where
  "advanceTimeAndBlock forwardTime =
     tseq (ask (ProviderSend ''evm_increaseTime'' [JNum forwardTime]))
     (tseq (ask (ProviderSend ''evm_mine'' []))
     (tseq (ask (ProviderSend ''evm_increaseTime'' [JNum 15])) (tret ())))"

text \<open>
  The time of a block, as the node reports it; a block that is \<open>null\<close> is \<open>undefined\<close> here, and so is the
  \<open>NaN\<close> that a block without a time gives.
\<close>

definition createRandomAddress :: "string task" where
  "createRandomAddress = tbind (ask (External ''Wallet.createRandom'' [])) (\<lambda>v. tret (js_str v))"

definition timeLatest :: "jsval task" where
  "timeLatest = tbind (ask (External ''getBlock'' [JStr ''latest''])) (\<lambda>block.
     case js_prop ''timestamp'' block of None \<Rightarrow> tthrow JsTypeError | Some t \<Rightarrow> tret t)"

definition advanceTimeAndBlock_coverage_failed :: "int \<Rightarrow> unit task" where
  "advanceTimeAndBlock_coverage_failed forwardTime =
     tbind (ask (External ''getBlockNumber'' [])) (\<lambda>currentBlockNumber.
     tbind (ask (External ''getBlock'' [currentBlockNumber])) (\<lambda>currentBlock.
     if currentBlock = JUndef then
       tseq (ask (ProviderSend ''evm_increaseTime'' [JNum forwardTime]))
       (tseq (ask (ProviderSend ''evm_mine'' []))
       (tseq (ask (ProviderSend ''evm_increaseTime'' [JNum 15])) (tret ())))
     else
       (let futureTime = (case js_prop ''timestamp'' currentBlock of
              Some (JNum currentTime) \<Rightarrow> JNum (currentTime + forwardTime) | _ \<Rightarrow> JUndef) in
        tseq (ask (ProviderSend ''evm_setNextBlockTimestamp'' [futureTime]))
        (tseq (ask (ProviderSend ''evm_mine'' [])) (tret ())))))"

text \<open>\<open>Number.prototype.toFixed(0)\<close> rounds a half up.\<close>

definition getNowTimeInSeconds :: "string task" where
  "getNowTimeInSeconds = tbind (ask (External ''Date.now'' [])) (\<lambda>v.
     case v of JNum ms \<Rightarrow> tret (show_int ((ms + 500) div 1000)) | _ \<Rightarrow> tret ''NaN'')"

definition getNowTimeInMilliSeconds :: "string task" where
  "getNowTimeInMilliSeconds = tbind (ask (External ''Date.now'' [])) (\<lambda>v.
     case v of JNum ms \<Rightarrow> tret (show_int ms) | _ \<Rightarrow> tret ''NaN'')"

definition waitForTx :: "nat \<Rightarrow> unit task" where
  "waitForTx tx = tseq (ask (WaitTx tx)) (tret ())"

definition impersonateAccountsHardhat :: "string list \<Rightarrow> unit task" where
  "impersonateAccountsHardhat accounts =
     tbind (tget (\<lambda>w. procenv w ''TENDERLY'')) (\<lambda>v.
     if v = Some ''true'' then tret ()
     else tfor accounts (\<lambda>account.
       tseq (ask (ProviderSend ''hardhat_impersonateAccount'' [JStr account])) (tret ())))"

section \<open>Pure helpers\<close>

definition toWad :: "BigNumber \<Rightarrow> string" where
  "toWad v = toFixed (v * 10 ^ 18)"

definition filterMapBy :: "'v jsobj \<Rightarrow> (string \<Rightarrow> bool) \<Rightarrow> 'v jsobj" where
  "filterMapBy raw fn = foldl (\<lambda>obj key. case oget raw key of
       None \<Rightarrow> obj | Some v \<Rightarrow> oset key v obj) [] (filter fn (map fst raw))"

text \<open>
  \<open>chunk\<close> reduces over the indices: at each index \<open>i\<close> with \<open>!(i % chunkSize)\<close> it appends the slice
  that starts there. \<open>i % 0\<close> is \<open>NaN\<close>, whose negation is true, so a chunk size of 0 gives one empty
  chunk per element.
\<close>

definition chunk :: "'a list \<Rightarrow> nat \<Rightarrow> 'a list list" where
  "chunk arr chunkSize = foldl (\<lambda>prevVal currIndx.
       if chunkSize = 0 \<or> currIndx mod chunkSize = 0
       then prevVal @ [slice currIndx (currIndx + chunkSize) arr] else prevVal)
     [] [0..<length arr]"

definition notFalsyOrZeroAddress :: "world \<Rightarrow> string option \<Rightarrow> bool" where
  "notFalsyOrZeroAddress w address =
     (case address of None \<Rightarrow> False
      | Some a \<Rightarrow> if a = [] then False else isAddress w a \<and> \<not> isZeroAddress w a)"

text \<open>\<open>omit\<close> rebuilds the object without the given keys.\<close>

definition omit :: "'v jsobj \<Rightarrow> string list \<Rightarrow> 'v jsobj" where
  "omit obj ks = foldl (\<lambda>acc (curr, v). if curr \<in> set ks then acc else oset curr v acc) [] obj"

section \<open>Facts\<close>

lemma db_put_simps [simp]:
  "net_name (db_put i e w) = net_name w" "procenv (db_put i e w) = procenv w"
  "hist (db_put i e w) = hist w" "node (db_put i e w) = node w"
  "isAddress (db_put i e w) = isAddress w" "isZeroAddress (db_put i e w) = isZeroAddress w"
  by (simp_all add: db_put_def)

lemma db_get_put [simp]: "db_get j (db_put i e w) = (if j = i then Some e else db_get j w)"
  by (simp add: db_get_def db_put_def js_simps)

lemma db_get_hist [simp]: "db_get i (w\<lparr>hist := h\<rparr>) = db_get i w"
  by (simp add: db_get_def)

lemma db_put_hist [simp]: "db_put i e (w\<lparr>hist := h\<rparr>) = (db_put i e w)\<lparr>hist := h\<rparr>"
  by (simp add: db_put_def)

lemma notFalsy_put [simp]: "notFalsyOrZeroAddress (db_put i e w) = notFalsyOrZeroAddress w"
  by (rule ext) (simp add: notFalsyOrZeroAddress_def split: option.splits)

lemma notFalsy_hist [simp]: "notFalsyOrZeroAddress (w\<lparr>hist := h\<rparr>) = notFalsyOrZeroAddress w"
  by (rule ext) (simp add: notFalsyOrZeroAddress_def split: option.splits)

lemma getDb_get_run [simp, task_simps]: "getDb_get i w = (Inr (db_get i w), w)"
  by (simp add: getDb_get_def)

lemma getDb_set_run [simp, task_simps]: "getDb_set i e w = (Inr (), db_put i e w)"
  by (simp add: getDb_set_def)

lemma db_put_evolves: "evolves w (db_put i e w)"
  by (auto simp: evolves_def same_env_def hist_grows_def db_grows_def db_put_def keys_oset
      distinct_oset)

lemma getDb_get_evolves: "obeys evolves (getDb_get i)"
  by (simp add: obeys_def)

lemma getDb_set_evolves: "obeys evolves (getDb_set i e)"
  by (simp add: obeys_def db_put_evolves)

lemma waitForTx_evolves: "obeys evolves (waitForTx n)"
  unfolding waitForTx_def by (intro ev_rules)

lemmas db_ev_rules = getDb_get_evolves getDb_set_evolves waitForTx_evolves ev_rules

text \<open>\<open>chunk\<close> cuts the array: the chunks concatenate to it, and all but the last are full.\<close>

lemma chunk_upto:
  assumes "0 < n"
  shows "foldl (\<lambda>p i. if i mod n = 0 then p @ [slice i (i + n) xs] else p) [] [0..<k]
     = map (\<lambda>j. slice (j * n) (j * n + n) xs) [0..<(k + n - 1) div n]"
proof (induction k)
  case 0
  from assms show ?case by simp
next
  case (Suc k)
  show ?case
  proof (cases "k mod n = 0")
    case True
    then obtain q where k: "k = q * n" by (metis mult.commute mult_div_mod_eq add.right_neutral)
    have "(k + n - 1) div n = q"
      using assms by (intro div_nat_eqI) (simp_all add: k algebra_simps)
    moreover have "(Suc k + n - 1) div n = Suc q"
      using assms by (simp add: k)
    ultimately
    show ?thesis using Suc True k by simp
  next
    case False
    define q r where "q = k div n" and "r = k mod n"
    have k: "k = q * n + r" by (simp add: q_def r_def)
    from False assms have r: "0 < r" "r < n" by (simp_all add: r_def)
    have "k + n - 1 = (q + 1) * n + (r - 1)" and "Suc k + n - 1 = (q + 1) * n + r"
      using r by (simp_all add: k algebra_simps)
    then have "(k + n - 1) div n = q + 1" and "(Suc k + n - 1) div n = q + 1"
      using r assms by (metis add.commute div_mult_self3 div_less less_imp_diff_less less_not_refl2
          add_cancel_right_left)+
    with Suc False show ?thesis by simp
  qed
qed

lemma chunk_eq:
  "0 < n \<Longrightarrow> chunk xs n = map (\<lambda>j. slice (j * n) (j * n + n) xs) [0..<(length xs + n - 1) div n]"
  unfolding chunk_def by (subst chunk_upto [symmetric]) simp_all

lemma concat_slices: "concat (map (\<lambda>j. slice (j * n) (j * n + n) xs) [0..<k]) = take (k * n) xs"
proof (induction k)
  case (Suc k)
  have "take (k * n + n) xs = take (k * n) xs @ take n (drop (k * n) xs)"
    by (rule take_add)
  with Suc show ?case by (simp add: slice_def add.commute [of n])
qed simp

lemma chunk_concat: "0 < n \<Longrightarrow> concat (chunk xs n) = xs"
proof -
  assume n: "0 < n"
  have "length xs \<le> (length xs + n - 1) div n * n"
  proof (cases "length xs")
    case (Suc m)
    then have "(length xs + n - 1) div n = Suc (m div n)" using n by simp
    then show ?thesis using Suc n dividend_less_div_times [OF n, of m] by simp
  qed simp
  then show ?thesis using n by (simp add: chunk_eq concat_slices)
qed

lemma chunk_length: "0 < n \<Longrightarrow> c \<in> set (chunk xs n) \<Longrightarrow> 0 < length c \<and> length c \<le> n"
proof -
  assume n: "0 < n" and "c \<in> set (chunk xs n)"
  then obtain j where j: "j < (length xs + n - 1) div n" and c: "c = slice (j * n) (j * n + n) xs"
    by (auto simp: chunk_eq)
  from j have "Suc j * n \<le> length xs + n - 1"
    by (meson Suc_leI less_eq_div_iff_mult_less_eq n)
  with n have "j * n < length xs" by simp
  with n show ?thesis by (simp add: c slice_def)
qed

lemma chunk_one: "chunk xs 1 = map (\<lambda>x. [x]) xs"
proof -
  have "map (\<lambda>j. slice j (Suc j) xs) [0..<length xs] = map (\<lambda>j. [xs ! j]) [0..<length xs]"
    by (rule map_cong) (simp_all add: slice_def take_Suc_conv_app_nth Cons_nth_drop_Suc [symmetric])
  also have "\<dots> = map (\<lambda>x. [x]) xs"
    by (rule nth_equalityI) simp_all
  finally show ?thesis by (simp add: chunk_eq)
qed

lemma omit_filter:
  assumes "distinct (map fst obj)"
  shows "omit obj ks = filter (\<lambda>(k, v). k \<notin> set ks) obj"
proof -
  have "distinct (map fst (acc @ obj)) \<Longrightarrow>
      foldl (\<lambda>acc (curr, v). if curr \<in> set ks then acc else oset curr v acc) acc obj
        = acc @ filter (\<lambda>(k, v). k \<notin> set ks) obj" for acc
    by (induction obj arbitrary: acc) (auto simp: oset_fresh image_iff)
  from this [of "[]"] assms show ?thesis by (simp add: omit_def)
qed

lemma chunk_full:
  assumes "0 < n" and "c \<in> set (butlast (chunk xs n))"
  shows "length c = n"
proof -
  define k where "k = (length xs + n - 1) div n"
  have "chunk xs n = map (\<lambda>j. slice (j * n) (j * n + n) xs) [0..<k]"
    unfolding k_def using assms(1) by (rule chunk_eq)
  then have "butlast (chunk xs n) = map (\<lambda>j. slice (j * n) (j * n + n) xs) [0..<k - 1]"
    by (cases k) simp_all
  with assms(2) obtain j where j: "j < k - 1" and c: "c = slice (j * n) (j * n + n) xs" by auto
  from j have "(j + 2) * n \<le> k * n" by (intro mult_le_mono1) simp
  also have "\<dots> \<le> length xs + n - 1" unfolding k_def by (rule div_times_less_eq_dividend)
  finally have "j * n + n \<le> length xs" using assms(1) by (simp add: algebra_simps)
  then show ?thesis by (simp add: c slice_def)
qed

text \<open>\<open>chunk\<close> cuts an array into consecutive pieces: together they are the array, none is empty or
  longer than the chunk size, all but the last have exactly that size, and there are as few as possible.\<close>

theorem chunk_partitions:
  assumes "0 < n"
  shows "concat (chunk xs n) = xs \<and> length (chunk xs n) = (length xs + n - 1) div n \<and>
    (\<forall>c \<in> set (chunk xs n). c \<noteq> [] \<and> length c \<le> n) \<and>
    (\<forall>c \<in> set (butlast (chunk xs n)). length c = n)"
  using chunk_concat [OF assms, of xs] chunk_length [OF assms] chunk_full [OF assms]
  by (auto simp: chunk_eq [OF assms])

theorem chunk_partitions_witness:
  "concat (chunk [1, 2, 3, 4, 5 :: nat] 2) = [1, 2, 3, 4, 5] \<and> length (chunk [1, 2, 3, 4, 5 :: nat] 2) = 3"
  using chunk_partitions [of 2 "[1, 2, 3, 4, 5 :: nat]"] by simp

text \<open>The entries of the database under the identifiers of two different contracts never get in each other's
  way: saving one is read back under its own identifier and leaves the other what it was.\<close>

theorem saved_entries_apart:
  "db_get (cid j) (db_put (cid i) e w) = (if i = j then Some e else db_get (cid j) w)"
  by (simp add: cid_inject del: cid.simps)

end
