(* ===== verification/Etherscan.thy ===== *)
theory Etherscan
  imports MiscUtils
begin

text \<open>
  \<open>helpers/etherscan-verification.ts\<close>: the verification of a contract's source at Etherscan, with its
  retry loop. The loop has no bound of its own in one case (see \<open>retry_never_stops\<close>), so it is
  modelled with fuel: a run that needs more recursive calls than the fuel ends in \<open>Diverges\<close>. With a
  cleanup that does not throw, one unit more than the number of tries is enough
  (\<open>retry_enough_fuel\<close>). \<open>delay\<close> only passes time and is left out, as is the console output.
\<close>

definition fatalErrors :: "string list" where
  "fatalErrors = [
     ''The address provided as argument contains a contract, but its bytecode'',
     ''Daily limit of 100 source code submissions reached'',
     ''has no bytecode. Is the contract deployed to this network'',
     ''The constructor for'']"

definition okErrors :: "string list" where
  "okErrors = [''Contract source code already verified'', ''Already Verified'']"

definition unableVerifyError :: string where
  "unableVerifyError = ''Fail - Unable to verify''"

definition SUPPORTED_ETHERSCAN_NETWORKS :: "string list" where
  "SUPPORTED_ETHERSCAN_NETWORKS = [''main'', ''ropsten'', ''goerli'', ''sepolia'', ''rinkeby'']"

text \<open>
  \<open>runTaskWithRetry(task, params, times, msDelay, cleanup)\<close>. \<open>params\<close> is one object shared by all
  the tries, so a deleted property stays deleted. \<open>cleanup()\<close> is not awaited in the code; the model runs it where it is
  called, and an error of it is seen by the handler. The handler reads \<open>error.message.includes\<close>, which
  is itself a \<open>TypeError\<close> when what was thrown is no \<open>Error\<close>.
\<close>

definition without_sources :: "jsval jsobj \<Rightarrow> jsval jsobj" where
  "without_sources params = filter (\<lambda>(k, v). k \<noteq> ''relatedSources'') params"

fun runTaskWithRetry ::
  "nat \<Rightarrow> string \<Rightarrow> jsval jsobj \<Rightarrow> int \<Rightarrow> unit task \<Rightarrow> unit task" where
  "runTaskWithRetry 0 name params tries cleanup = tthrow Diverges"
| "runTaskWithRetry (Suc fuel) name params tries cleanup =
     (let params' = (if tries = 1 then without_sources params else params) in
      tcatch
        (if tries > 1 then tseq (ask (RunTask name (JObj params'))) cleanup
         else if tries = 1 then tseq (ask (RunTask name (JObj params'))) cleanup
         else cleanup)
        (\<lambda>error. case error_message error of
             None \<Rightarrow> tthrow JsTypeError
           | Some msg \<Rightarrow>
               if list_ex (\<lambda>okReason. str_includes msg okReason) okErrors then tret ()
               else if list_ex (\<lambda>fatalError. str_includes msg fatalError) fatalErrors then tret ()
               else runTaskWithRetry fuel name
                 (if str_includes msg unableVerifyError then without_sources params' else params')
                 (tries - 1) cleanup))"

definition verify_params ::
  "string \<Rightarrow> jsval list \<Rightarrow> string option \<Rightarrow> jsval \<Rightarrow> jsval jsobj" where
  "verify_params address constructorArguments contract path = [
     (''address'', JStr address),
     (''contract'', case contract of None \<Rightarrow> JUndef | Some c \<Rightarrow> JStr c),
     (''libraries'', JUndef),
     (''constructorArguments'', JArr constructorArguments),
     (''constructorArgsParams'', JArr constructorArguments),
     (''constructorArgs'', path),
     (''relatedSources'', JBool True)]"

text \<open>
  \<open>verifyEtherscanContract\<close>: the two guards throw, everything after them is inside a \<open>try\<close> with an
  empty handler. Its retry loop starts with 4 tries; the model gives it that many recursive calls and
  the one that finds none left.
\<close>

definition verifyEtherscanContract :: "string \<Rightarrow> jsval list \<Rightarrow> string option \<Rightarrow> unit task" where
  "verifyEtherscanContract address constructorArguments contract =
     tbind (tget net_name) (\<lambda>currentNetwork.
     tbind (tget (\<lambda>w. procenv w ''ETHERSCAN_KEY'')) (\<lambda>key.
     if \<not> truthy_opt key then tthrow (JsError ''Missing process.env.ETHERSCAN_KEY.'')
     else if currentNetwork \<notin> set SUPPORTED_ETHERSCAN_NETWORKS
     then tthrow (JsError (''Current network '' @ currentNetwork @
       '' not supported. Please change to one of the next networks: main,ropsten,goerli,sepolia,rinkeby''))
     else tcatch
       (tbind (ask (External ''tmp-promise.file'' [JStr ''verify-params-'', JStr ''.js''])) (\<lambda>path.
        tseq (ask (External ''fs.writeSync'' [path, JArr constructorArguments]))
        (runTaskWithRetry 5 ''verify:verify''
          (verify_params address constructorArguments contract path) 4
          (tseq (ask (External ''cleanup'' [path])) (tret ())))))
       (\<lambda>error. tret ())))"

definition checkVerification :: "unit task" where
  "checkVerification =
     tbind (tget net_name) (\<lambda>currentNetwork.
     tbind (tget (\<lambda>w. procenv w ''ETHERSCAN_KEY'')) (\<lambda>key.
     if \<not> truthy_opt key then tthrow (Exit 3)
     else if currentNetwork \<notin> set SUPPORTED_ETHERSCAN_NETWORKS then tthrow (Exit 5)
     else tret ()))"

section \<open>Facts\<close>

definition is_run_task :: "request \<Rightarrow> bool" where
  "is_run_task r = (case r of RunTask _ _ \<Rightarrow> True | _ \<Rightarrow> False)"

definition tries_made :: "world \<Rightarrow> nat" where
  "tries_made w = length (filter is_run_task (hist w))"

text \<open>A cleanup that never throws on the worlds of a node, and runs no hardhat task there.\<close>

definition quiet_cleanup :: "(request list \<Rightarrow> request \<Rightarrow> string + jsval) \<Rightarrow> unit task \<Rightarrow> bool" where
  "quiet_cleanup n cleanup \<longleftrightarrow> (\<forall>w. node w = n \<longrightarrow>
     (\<exists>w'. cleanup w = (Inr (), w') \<and> node w' = n \<and> tries_made w' = tries_made w))"

lemma runTaskWithRetry_evolves:
  "obeys evolves cleanup \<Longrightarrow> obeys evolves (runTaskWithRetry fuel name params tries cleanup)"
proof (induction fuel arbitrary: params tries)
  case 0
  show ?case unfolding runTaskWithRetry.simps by (rule ev.tthrow)
next
  case (Suc fuel)
  then show ?case
    unfolding runTaskWithRetry.simps by (intro ev_rules)
qed

lemma verifyEtherscanContract_evolves: "obeys evolves (verifyEtherscanContract a args c)"
  unfolding verifyEtherscanContract_def by (intro ev_rules runTaskWithRetry_evolves)

text \<open>The result of one try, whose cleanup is quiet.\<close>

lemma tries_ask_task [simp]: "tries_made (w\<lparr>hist := hist w @ [RunTask n p]\<rparr>) = Suc (tries_made w)"
  by (simp add: tries_made_def is_run_task_def)

lemma one_try:
  assumes "quiet_cleanup (node w) cleanup"
  shows "\<exists>r w'. tseq (ask (RunTask n p)) cleanup w = (r, w') \<and> node w' = node w \<and>
    tries_made w' = Suc (tries_made w) \<and> (r = Inr () \<or> (\<exists>msg. r = Inl (JsError msg)))"
proof (cases "node w (hist w) (RunTask n p)")
  case (Inl msg)
  then show ?thesis by (simp add: ask_Inl task_simps)
next
  case (Inr v)
  let ?w = "w\<lparr>hist := hist w @ [RunTask n p]\<rparr>"
  from Inr have "tseq (ask (RunTask n p)) cleanup w = cleanup ?w"
    by (simp add: ask_Inr task_simps)
  moreover obtain w' where "cleanup ?w = (Inr (), w')" and "node w' = node w" and "tries_made w' = tries_made ?w"
    using assms [unfolded quiet_cleanup_def, rule_format, of ?w] by auto
  ultimately show ?thesis by simp
qed

text \<open>
  With a quiet cleanup the loop returns, whatever the node answers, after at most \<open>tries\<close> tries.
\<close>

lemma retry_enough_fuel:
  assumes "quiet_cleanup (node w) cleanup" and "nat tries < fuel"
  shows "\<exists>w'. runTaskWithRetry fuel name params tries cleanup w = (Inr (), w') \<and>
    tries_made w' \<le> tries_made w + nat tries"
  using assms
proof (induction fuel arbitrary: params tries w)
  case 0
  then show ?case by simp
next
  case (Suc fuel)
  show ?case
  proof (cases "tries \<le> 0")
    case True
    obtain w' where "cleanup w = (Inr (), w')" and "tries_made w' = tries_made w"
      using Suc.prems(1) unfolding quiet_cleanup_def by blast
    with True show ?thesis by (simp add: tcatch_Inr)
  next
    case False
    let ?p = "if tries = 1 then without_sources params else params"
    let ?attempt = "tseq (ask (RunTask name (JObj ?p))) cleanup"
    have unfold: "runTaskWithRetry (Suc fuel) name params tries cleanup w =
      tcatch ?attempt (\<lambda>error. case error_message error of
             None \<Rightarrow> tthrow JsTypeError
           | Some msg \<Rightarrow>
               if list_ex (\<lambda>okReason. str_includes msg okReason) okErrors then tret ()
               else if list_ex (\<lambda>fatalError. str_includes msg fatalError) fatalErrors then tret ()
               else runTaskWithRetry fuel name
                 (if str_includes msg unableVerifyError then without_sources ?p else ?p)
                 (tries - 1) cleanup) w"
      using False by (simp add: Let_def)
    from one_try [OF Suc.prems(1)] obtain r w' where t: "?attempt w = (r, w')" and n: "node w' = node w"
      and m: "tries_made w' = Suc (tries_made w)" and r: "r = Inr () \<or> (\<exists>msg. r = Inl (JsError msg))"
      by blast
    show ?thesis
    proof (cases r)
      case (Inr u)
      with False t m show ?thesis unfolding unfold by (simp add: task_simps)
    next
      case (Inl e)
      with r obtain msg where msg: "r = Inl (JsError msg)" by blast
      let ?q = "if str_includes msg unableVerifyError then without_sources ?p else ?p"
      from Suc.prems False have "nat (tries - 1) < fuel" by simp
      then obtain w'' where "runTaskWithRetry fuel name ?q (tries - 1) cleanup w' = (Inr (), w'')"
        and "tries_made w'' \<le> tries_made w' + nat (tries - 1)"
        using Suc.IH [of w'] Suc.prems(1) n by (metis (no_types))
      with t m msg False show ?thesis unfolding unfold by (simp add: tcatch_Inl) linarith
    qed
  qed
qed

text \<open>C40: A cleanup that always throws an error with an unlisted message keeps the retry loop of
  \<open>runTaskWithRetry\<close> going for ever once its tries are used up: no number of recursive calls is enough.\<close>

theorem retry_never_stops:
  assumes "\<And>w. fst (cleanup w) = Inl (JsError msg)"
    and "\<forall>r \<in> set okErrors \<union> set fatalErrors. \<not> str_includes msg r" and "tries \<le> 0"
  shows "fst (runTaskWithRetry fuel name params tries cleanup w) = Inl Diverges"
  using assms(3)
proof (induction fuel arbitrary: params tries w)
  case 0
  then show ?case by simp
next
  case (Suc fuel)
  obtain w' where c: "cleanup w = (Inl (JsError msg), w')"
    using assms(1) by (metis prod.collapse)
  have ok: "\<not> list_ex (\<lambda>r. str_includes msg r) okErrors"
    and fatal: "\<not> list_ex (\<lambda>r. str_includes msg r) fatalErrors"
    using assms(2) by (auto simp: list_ex_iff)
  from Suc.prems have "tries - 1 \<le> 0" by simp
  from Suc.IH [OF this] Suc.prems c ok fatal show ?case
    by (simp add: tcatch_def)
qed

theorem retry_never_stops_witness:
  "\<forall>fuel w. fst (runTaskWithRetry fuel ''verify:verify'' [] 0 (tthrow (JsError ''EACCES'')) w) = Inl Diverges"
  by (intro allI retry_never_stops [of _ "''EACCES''"]) (simp_all add: okErrors_def fatalErrors_def)

section \<open>The whole verification\<close>

text \<open>A node on which the temporary file can be removed.\<close>

definition cleans_up :: "world \<Rightarrow> bool" where
  "cleans_up w \<longleftrightarrow> (\<forall>h path. isl (node w h (External ''cleanup'' [path])) = False)"

lemma cleanup_quiet:
  assumes "cleans_up w"
  shows "quiet_cleanup (node w) (tseq (ask (External ''cleanup'' [path])) (tret ()))"
  unfolding quiet_cleanup_def
proof (intro allI impI)
  fix v :: world assume v: "node v = node w"
  obtain x where "node v (hist v) (External ''cleanup'' [path]) = Inr x"
    using assms v unfolding cleans_up_def by (metis isl_def obj_sumE)
  then show "\<exists>w'. tseq (ask (External ''cleanup'' [path])) (tret ()) v = (Inr (), w') \<and> node w' = node w \<and>
      tries_made w' = tries_made v"
    using v by (simp add: ask_Inr task_simps tries_made_def is_run_task_def)
qed

text \<open>C22: On a supported network with an Etherscan key, the verification of a contract always returns,
  whatever the node and Etherscan answer, after at most four tries: a failed verification never
  stops a deployment.\<close>

theorem verification_never_throws:
  assumes "truthy_opt (procenv w ''ETHERSCAN_KEY'')" and "net_name w \<in> set SUPPORTED_ETHERSCAN_NETWORKS"
    and "cleans_up w"
  shows "\<exists>w'. verifyEtherscanContract address args contract w = (Inr (), w') \<and>
    tries_made w' \<le> tries_made w + 4"
proof -
  let ?r = "\<lambda>path. runTaskWithRetry 5 ''verify:verify'' (verify_params address args contract path) 4
      (tseq (ask (External ''cleanup'' [path])) (tret ()))"
  have retry: "\<exists>w'. ?r path v = (Inr (), w') \<and> tries_made w' \<le> tries_made v + 4"
    if "node v = node w" for path v
    using retry_enough_fuel [of v _ 4 5] cleanup_quiet [of v] assms(3) that by (simp add: cleans_up_def)
  let ?file = "External ''tmp-promise.file'' [JStr ''verify-params-'', JStr ''.js'']"
  let ?w1 = "w\<lparr>hist := hist w @ [?file]\<rparr>"
  have t1: "tries_made ?w1 = tries_made w" by (simp add: tries_made_def is_run_task_def)
  show ?thesis
  proof (cases "node w (hist w) ?file")
    case (Inl m)
    with assms t1 show ?thesis
      by (simp add: verifyEtherscanContract_def tbind_def ask_Inl tcatch_def)
  next
    case (Inr path)
    let ?wr = "External ''fs.writeSync'' [path, JArr args]"
    let ?w2 = "?w1\<lparr>hist := hist ?w1 @ [?wr]\<rparr>"
    have t2: "tries_made ?w2 = tries_made w" by (simp add: tries_made_def is_run_task_def)
    obtain w' where "?r path ?w2 = (Inr (), w')" "tries_made w' \<le> tries_made w + 4"
      using retry [of ?w2 path] t2 by auto
    with Inr assms t2 show ?thesis
      by (cases "node w (hist w @ [?file]) ?wr")
        (simp_all add: verifyEtherscanContract_def tbind_def tseq_def ask_Inr ask_Inl tcatch_def
          del: runTaskWithRetry.simps)
  qed
qed

end
