(* ===== verification/ContractsHelpers.thy ===== *)
theory ContractsHelpers
  imports Etherscan
begin

text \<open>
  \<open>helpers/contracts-helpers.ts\<close>, with the signers of \<open>helpers/contracts-getters.ts\<close> that it imports:
  contract handles, deployment and its registration in the JSON database, the parameters per
  network, linking of library addresses into bytecode.
\<close>

section \<open>Signers and contract handles\<close>

definition getEthersSigners :: "string list task" where
  "getEthersSigners = tbind (ask Accounts) (\<lambda>v. tret (js_strs v))"

definition getEthersSignersAddresses :: "string list task" where
  "getEthersSignersAddresses = getEthersSigners"

definition nth_signer :: "nat \<Rightarrow> string option task" where
  "nth_signer i = tbind getEthersSigners (\<lambda>ss. tret (js_at ss (int i)))"

definition getFirstSigner :: "string option task" where "getFirstSigner = nth_signer 0"
definition getSecondSigner :: "string option task" where "getSecondSigner = nth_signer 1"
definition getThirdSigner :: "string option task" where "getThirdSigner = nth_signer 2"
definition getDeploySigner :: "string option task" where "getDeploySigner = nth_signer 0"
definition getPoolAdminSigner :: "string option task" where "getPoolAdminSigner = nth_signer 0"
definition getPoolOwnerSigner :: "string option task" where "getPoolOwnerSigner = nth_signer 0"
definition getEmergencyAdminSigner :: "string option task" where
  "getEmergencyAdminSigner = nth_signer 1"
definition getProxyAdminSigner :: "string option task" where "getProxyAdminSigner = nth_signer 2"

text \<open>
  \<open>DRE.ethers.getSigner(address)\<close>: a signer for any address; only a later transaction shows whether
  the node holds its key.
\<close>

definition getEthersSignerByAddress :: "string \<Rightarrow> string option task" where
  "getEthersSignerByAddress address = tret (Some address)"

text \<open>
  A contract handle: address, signer, and the request that deployed it when the handle came from
  \<open>deploy\<close> (a handle made by \<open>connect\<close> has no \<open>deployTransaction\<close>).
\<close>

record contract =
  c_address :: string
  c_signer :: "string option"
  c_deployTx :: "nat option"

text \<open>\<open>await new XFactory(libraries, await getDeploySigner()).deploy(args)\<close>\<close>

definition deployFactory :: "string \<Rightarrow> string jsobj \<Rightarrow> jsval list \<Rightarrow> contract task" where
  "deployFactory factory libraries args =
     tbind getDeploySigner (\<lambda>signer.
     tbind (tget (\<lambda>w. length (hist w))) (\<lambda>tx.
     tbind (ask (DeployTx signer factory args libraries)) (\<lambda>address.
     tret \<lparr>c_address = js_str address, c_signer = signer, c_deployTx = Some tx\<rparr>)))"

text \<open>\<open>await contract.connect(signer)\<close> and \<open>XFactory.connect(address, signer)\<close>\<close>

definition connect :: "string \<Rightarrow> string option \<Rightarrow> contract" where
  "connect address signer = \<lparr>c_address = address, c_signer = signer, c_deployTx = None\<rparr>"

text \<open>\<open>await waitForTx(await contract.method(args))\<close> and \<open>await contract.method(args)\<close> of a view\<close>

definition send :: "contract \<Rightarrow> string \<Rightarrow> jsval list \<Rightarrow> unit task" where
  "send c meth args = send_and_wait (c_signer c) (c_address c) meth args"

text \<open>\<open>await contract.method(args)\<close> of a transaction that the script does not wait for, and
  \<open>contract.connect(signer)\<close>\<close>

definition submit :: "contract \<Rightarrow> string \<Rightarrow> jsval list \<Rightarrow> unit task" where
  "submit c meth args = tseq (ask (SendTx (c_signer c) (c_address c) meth args)) (tret ())"

definition as_signer :: "string option \<Rightarrow> contract \<Rightarrow> contract" where
  "as_signer signer c = c\<lparr>c_signer := signer\<rparr>"

definition view :: "contract \<Rightarrow> string \<Rightarrow> jsval list \<Rightarrow> jsval task" where
  "view c meth args = ask (ViewCall (c_address c) meth args)"

section \<open>The database of deployed contracts\<close>

text \<open>\<open>contractInstance.deployTransaction.from\<close> is a \<open>TypeError\<close> on a handle made by \<open>connect\<close>.\<close>

definition registerContractInJsonDb :: "string \<Rightarrow> contract \<Rightarrow> unit task" where
  "registerContractInJsonDb contractId c = (case c_deployTx c of
       None \<Rightarrow> tthrow JsTypeError
     | Some _ \<Rightarrow> getDb_set contractId \<lparr>e_address = c_address c, e_deployer = c_signer c\<rparr>)"

definition insertContractAddressInDb :: "eContractid \<Rightarrow> string \<Rightarrow> unit task" where
  "insertContractAddressInDb i address = getDb_set (cid i) \<lparr>e_address = address, e_deployer = None\<rparr>"

definition rawInsertContractAddressInDb :: "string \<Rightarrow> string \<Rightarrow> unit task" where
  "rawInsertContractAddressInDb i address = getDb_set i \<lparr>e_address = address, e_deployer = None\<rparr>"

definition missing_address_error :: "string \<Rightarrow> js_error" where
  "missing_address_error i =
     JsError (''Missing contract address '' @ i @ '' at Market config and JSON local db'')"

definition getContractAddressInDb :: "string \<Rightarrow> string task" where
  "getContractAddressInDb i = tbind (getDb_get i) (\<lambda>contractAtDb.
     case contractAtDb of
       Some e \<Rightarrow> if e_address e \<noteq> [] then tret (e_address e) else tthrow (missing_address_error i)
     | None \<Rightarrow> tthrow (missing_address_error i))"

definition tryGetContractAddressInDb :: "string \<Rightarrow> string task" where
  "tryGetContractAddressInDb i = tbind (getDb_get i) (\<lambda>contractAtDb.
     case contractAtDb of
       Some e \<Rightarrow> if e_address e \<noteq> [] then tret (e_address e) else tret ZERO_ADDRESS
     | None \<Rightarrow> tret ZERO_ADDRESS)"

definition getCurrentBlock :: "jsval task" where
  "getCurrentBlock = ask (External ''getBlockNumber'' [])"

section \<open>Verification and registration of a deployment\<close>

definition verifyContract :: "string \<Rightarrow> contract \<Rightarrow> jsval list \<Rightarrow> contract task" where
  "verifyContract i instance' args =
     tseq
       (if i = cid C_BendUpgradeableProxy
        then verifyEtherscanContract (c_address instance') args
          (Some ''contracts/libraries/proxy/BendUpgradeableProxy.sol:BendUpgradeableProxy'')
        else if i = cid C_BendProxyAdminFund \<or> i = cid C_BendProxyAdminPool \<or> i = cid C_BendProxyAdminWTL
        then verifyEtherscanContract (c_address instance') args
          (Some ''contracts/libraries/proxy/BendProxyAdmin.sol:BendProxyAdmin'')
        else verifyEtherscanContract (c_address instance') args None)
       (tret instance')"

definition wait_deployed :: "contract \<Rightarrow> unit task" where
  "wait_deployed c = (case c_deployTx c of None \<Rightarrow> tthrow JsTypeError | Some tx \<Rightarrow> waitForTx tx)"

definition withSaveAndVerify :: "contract \<Rightarrow> string \<Rightarrow> jsval list \<Rightarrow> bool \<Rightarrow> contract task" where
  "withSaveAndVerify instance' i args verify =
     tseq (wait_deployed instance')
     (tseq (registerContractInJsonDb i instance')
     (tseq (if verify then tseq (verifyContract i instance' args) (tret ()) else tret ())
     (tret instance')))"

definition deployContract :: "string \<Rightarrow> jsval list \<Rightarrow> contract task" where
  "deployContract contractName args =
     tseq (ask (External ''getContractFactory'' [JStr contractName]))
     (tbind (deployFactory contractName [] args) (\<lambda>c.
     tseq (wait_deployed c)
     (tseq (registerContractInJsonDb contractName c)
     (tret c))))"

section \<open>Library linking\<close>

record fixup =
  fx_start :: nat
  fx_length :: nat

record artifact =
  bytecode :: string
  linkReferences :: "fixup list jsobj jsobj"

text \<open>
  \<open>bytecode.substr(0, 2 + start * 2) + addr.substr(2) + bytecode.substr(2 + (start + length) * 2)\<close>
\<close>

definition apply_fixup :: "string \<Rightarrow> fixup \<Rightarrow> string \<Rightarrow> string" where
  "apply_fixup addr fx code =
     take (2 + fx_start fx * 2) code @ drop 2 addr @ drop (2 + (fx_start fx + fx_length fx) * 2) code"

fun link_libs :: "string jsobj \<Rightarrow> fixup list jsobj \<Rightarrow> string \<Rightarrow> string" where
  "link_libs libraries [] code = code"
| "link_libs libraries ((libName, fixups) # refs) code =
     link_libs libraries refs
       (case oget libraries libName of None \<Rightarrow> code | Some addr \<Rightarrow> foldl (\<lambda>c fx. apply_fixup addr fx c) code fixups)"

definition linkBytecode :: "artifact \<Rightarrow> string jsobj \<Rightarrow> string" where
  "linkBytecode art libraries =
     foldl (\<lambda>code (fileName, refs). link_libs libraries refs code) (bytecode art) (linkReferences art)"

section \<open>Parameters per network\<close>

definition getParamPerNetwork :: "(string \<Rightarrow> string option) \<Rightarrow> 'a iParamsPerNetwork \<Rightarrow> string \<Rightarrow> 'a option" where
  "getParamPerNetwork env param network =
     (let by_name = (\<lambda>n. if n = ''coverage'' then Some (coverage param)
          else if n = ''hardhat'' then Some (hardhat param)
          else if n = ''localhost'' then Some (localhost param)
          else if n = ''sepolia'' then Some (sepolia param)
          else if n = ''goerli'' then Some (goerli param)
          else if n = ''rinkeby'' then Some (rinkeby param)
          else if n = ''main'' then Some (main param)
          else None) in
      if truthy_opt (env ''FORK'') then by_name (the (env ''FORK''))
      else case by_name network of Some v \<Rightarrow> Some v | None \<Rightarrow> Some (hardhat param))"

text \<open>The same for an address that may be \<open>undefined\<close>, and for a parameter that may be missing.\<close>

definition addressParam :: "world \<Rightarrow> addressPerNetwork \<Rightarrow> string option" where
  "addressParam w param =
     (case getParamPerNetwork (procenv w) param (net_name w) of None \<Rightarrow> None | Some a \<Rightarrow> a)"

definition getOptionalParamAddressPerNetwork :: "world \<Rightarrow> addressPerNetwork option \<Rightarrow> string option" where
  "getOptionalParamAddressPerNetwork w param =
     (case param of None \<Rightarrow> Some ZERO_ADDRESS | Some p \<Rightarrow> addressParam w p)"

definition getContractAddressWithJsonFallback :: "string \<Rightarrow> string \<Rightarrow> string task" where
  "getContractAddressWithJsonFallback i pool =
     tbind (loadPoolConfig pool) (\<lambda>poolConfig.
     tbind (tget (\<lambda>w. getOptionalParamAddressPerNetwork w (config_field poolConfig i)))
       (\<lambda>contractAtMarketConfig.
     tbind (tget (\<lambda>w. notFalsyOrZeroAddress w contractAtMarketConfig)) (\<lambda>valid.
     if valid then tret (the contractAtMarketConfig)
     else getContractAddressInDb i)))"

section \<open>Permits\<close>

definition typed_field :: "string \<Rightarrow> string \<Rightarrow> jsval" where
  "typed_field n t = JObj [(''name'', JStr n), (''type'', JStr t)]"

definition buildPermitParams ::
  "int \<Rightarrow> string \<Rightarrow> string \<Rightarrow> string \<Rightarrow> string \<Rightarrow> string \<Rightarrow> int \<Rightarrow> string \<Rightarrow> string \<Rightarrow> jsval" where
  "buildPermitParams chainId token revision tokenName owner spender nonce deadline value = JObj [
     (''types'', JObj [
       (''EIP712Domain'', JArr [
         typed_field ''name'' ''string'',
         typed_field ''version'' ''string'',
         typed_field ''chainId'' ''uint256'',
         typed_field ''verifyingContract'' ''address'']),
       (''Permit'', JArr [
         typed_field ''owner'' ''address'',
         typed_field ''spender'' ''address'',
         typed_field ''value'' ''uint256'',
         typed_field ''nonce'' ''uint256'',
         typed_field ''deadline'' ''uint256''])]),
     (''primaryType'', JStr ''Permit''),
     (''domain'', JObj [
       (''name'', JStr tokenName),
       (''version'', JStr revision),
       (''chainId'', JNum chainId),
       (''verifyingContract'', JStr token)]),
     (''message'', JObj [
       (''owner'', JStr owner),
       (''spender'', JStr spender),
       (''value'', JStr value),
       (''nonce'', JNum nonce),
       (''deadline'', JStr deadline)])]"

section \<open>Linking is correct\<close>

text \<open>
  The places that \<open>linkBytecode\<close> writes to, with the addresses, in the order in which it does. A place
  fits when it lies inside the bytecode and has the size of the address without its \<open>0x\<close>.
\<close>

definition resolved_fixups :: "artifact \<Rightarrow> string jsobj \<Rightarrow> (string \<times> fixup) list" where
  "resolved_fixups art libraries = concat (map (\<lambda>(fileName, refs).
     concat (map (\<lambda>(libName, fixups). case oget libraries libName of
       None \<Rightarrow> [] | Some addr \<Rightarrow> map (Pair addr) fixups) refs)) (linkReferences art))"

definition covers :: "fixup \<Rightarrow> nat \<Rightarrow> bool" where
  "covers fx p \<longleftrightarrow> 2 + fx_start fx * 2 \<le> p \<and> p < 2 + (fx_start fx + fx_length fx) * 2"

definition fits_code :: "string \<Rightarrow> string \<times> fixup \<Rightarrow> bool" where
  "fits_code code = (\<lambda>(addr, fx). length addr = 2 + fx_length fx * 2 \<and>
     2 + (fx_start fx + fx_length fx) * 2 \<le> length code)"

definition disjoint_places :: "string \<times> fixup \<Rightarrow> string \<times> fixup \<Rightarrow> bool" where
  "disjoint_places x y \<longleftrightarrow>
     fx_start (snd x) + fx_length (snd x) \<le> fx_start (snd y) \<or>
     fx_start (snd y) + fx_length (snd y) \<le> fx_start (snd x)"

lemma link_libs_resolved: "link_libs libraries refs code =
    foldl (\<lambda>c (addr, fx). apply_fixup addr fx c) code
      (concat (map (\<lambda>(libName, fixups). case oget libraries libName of
         None \<Rightarrow> [] | Some addr \<Rightarrow> map (Pair addr) fixups) refs))"
  by (induction libraries refs code rule: link_libs.induct) (auto simp: foldl_map split: option.splits)

lemma linkBytecode_resolved:
  "linkBytecode art libraries =
     foldl (\<lambda>c (addr, fx). apply_fixup addr fx c) (bytecode art) (resolved_fixups art libraries)"
proof -
  have "foldl (\<lambda>code (fileName, refs). link_libs libraries refs code) code files =
      foldl (\<lambda>c (addr, fx). apply_fixup addr fx c) code (concat (map (\<lambda>(fileName, refs).
        concat (map (\<lambda>(libName, fixups). case oget libraries libName of
          None \<Rightarrow> [] | Some addr \<Rightarrow> map (Pair addr) fixups) refs)) files))" for code files
    by (induction files arbitrary: code) (auto simp: link_libs_resolved split: prod.splits)
  then show ?thesis by (simp add: linkBytecode_def resolved_fixups_def)
qed

lemma apply_fixup_length: "fits_code code (addr, fx) \<Longrightarrow> length (apply_fixup addr fx code) = length code"
  by (auto simp: apply_fixup_def fits_code_def)

lemma apply_fixup_nth:
  assumes "fits_code code (addr, fx)" and "p < length code"
  shows "apply_fixup addr fx code ! p = (if covers fx p then addr ! (p - fx_start fx * 2) else code ! p)"
proof (cases "p < 2 + fx_start fx * 2")
  case True
  with assms show ?thesis by (simp add: apply_fixup_def fits_code_def covers_def nth_append)
next
  case False
  then obtain q where "p = 2 + fx_start fx * 2 + q" by (metis le_Suc_ex not_less)
  with assms show ?thesis
    by (auto simp: apply_fixup_def fits_code_def covers_def nth_append algebra_simps)
qed

lemma link_all:
  assumes "\<forall>r \<in> set rs. fits_code code r" and "sorted_wrt disjoint_places rs"
  defines "linked \<equiv> foldl (\<lambda>c (addr, fx). apply_fixup addr fx c) code rs"
  shows "length linked = length code \<and>
    (\<forall>p < length code. (\<forall>(addr, fx) \<in> set rs. \<not> covers fx p) \<longrightarrow> linked ! p = code ! p) \<and>
    (\<forall>(addr, fx) \<in> set rs. \<forall>p. covers fx p \<longrightarrow> linked ! p = addr ! (p - fx_start fx * 2))"
  using assms(1,2) unfolding linked_def
proof (induction rs arbitrary: code)
  case Nil
  then show ?case by simp
next
  case (Cons r rs)
  obtain addr fx where r: "r = (addr, fx)" by (cases r)
  let ?code = "apply_fixup addr fx code"
  have fit: "fits_code code (addr, fx)" using Cons.prems(1) r by simp
  have len: "length ?code = length code" using fit by (rule apply_fixup_length)
  have "\<forall>r \<in> set rs. fits_code ?code r" using Cons.prems(1) len by (auto simp: fits_code_def)
  moreover have "sorted_wrt disjoint_places rs" using Cons.prems(2) by simp
  ultimately have IH: "length (foldl (\<lambda>c (addr, fx). apply_fixup addr fx c) ?code rs) = length ?code"
    "\<forall>p < length ?code. (\<forall>(addr, fx) \<in> set rs. \<not> covers fx p) \<longrightarrow>
       foldl (\<lambda>c (addr, fx). apply_fixup addr fx c) ?code rs ! p = ?code ! p"
    "\<forall>(addr, fx) \<in> set rs. \<forall>p. covers fx p \<longrightarrow>
       foldl (\<lambda>c (addr, fx). apply_fixup addr fx c) ?code rs ! p = addr ! (p - fx_start fx * 2)"
    using Cons.IH by blast+
  have other: "\<forall>(a, f) \<in> set rs. \<not> covers f p" if "covers fx p" for p
    using Cons.prems(2) that by (fastforce simp: r disjoint_places_def covers_def)
  have inside: "p < length code" if "covers fx p" for p
    using fit that by (auto simp: fits_code_def covers_def)
  show ?case
    using IH len other inside apply_fixup_nth [OF fit] by (auto simp: r)
qed

text \<open>C35: Linking leaves the length of the bytecode, writes every library's address at each of its places,
  and changes nothing else, when the places fit and do not overlap.\<close>

theorem linkBytecode_links:
  assumes "\<forall>r \<in> set (resolved_fixups art libraries). fits_code (bytecode art) r"
    and "sorted_wrt disjoint_places (resolved_fixups art libraries)"
  shows "length (linkBytecode art libraries) = length (bytecode art) \<and>
    (\<forall>p < length (bytecode art). (\<forall>(addr, fx) \<in> set (resolved_fixups art libraries). \<not> covers fx p) \<longrightarrow>
       linkBytecode art libraries ! p = bytecode art ! p) \<and>
    (\<forall>(addr, fx) \<in> set (resolved_fixups art libraries). \<forall>p. covers fx p \<longrightarrow>
       linkBytecode art libraries ! p = addr ! (p - fx_start fx * 2))"
  using link_all [OF assms] unfolding linkBytecode_resolved by simp

theorem linkBytecode_links_witness:
  "length (linkBytecode \<lparr>bytecode = ''0x60AAAAAA61BBBBBB'', linkReferences = [(''L.sol'',
       [(''A'', [\<lparr>fx_start = 1, fx_length = 3\<rparr>]), (''B'', [\<lparr>fx_start = 5, fx_length = 3\<rparr>])])]\<rparr>
     [(''A'', ''0x112233''), (''B'', ''0x445566'')]) = 18 \<and>
   linkBytecode \<lparr>bytecode = ''0x60AAAAAA61BBBBBB'', linkReferences = [(''L.sol'',
       [(''A'', [\<lparr>fx_start = 1, fx_length = 3\<rparr>]), (''B'', [\<lparr>fx_start = 5, fx_length = 3\<rparr>])])]\<rparr>
     [(''A'', ''0x112233''), (''B'', ''0x445566'')] ! 12 = CHR ''4''"
proof -
  let ?art = "\<lparr>bytecode = ''0x60AAAAAA61BBBBBB'', linkReferences = [(''L.sol'',
       [(''A'', [\<lparr>fx_start = 1, fx_length = 3\<rparr>]), (''B'', [\<lparr>fx_start = 5, fx_length = 3\<rparr>])])]\<rparr>"
  let ?libs = "[(''A'', ''0x112233''), (''B'', ''0x445566'')]"
  have r: "resolved_fixups ?art ?libs = [(''0x112233'', \<lparr>fx_start = 1, fx_length = 3\<rparr>),
      (''0x445566'', \<lparr>fx_start = 5, fx_length = 3\<rparr>)]"
    by (simp add: resolved_fixups_def)
  have "\<forall>r \<in> set (resolved_fixups ?art ?libs). fits_code (bytecode ?art) r"
    and "sorted_wrt disjoint_places (resolved_fixups ?art ?libs)"
    unfolding r by (simp_all add: fits_code_def disjoint_places_def)
  from linkBytecode_links [OF this] have l: "length (linkBytecode ?art ?libs) = 18"
    and c: "covers \<lparr>fx_start = 5, fx_length = 3\<rparr> 12 \<Longrightarrow> linkBytecode ?art ?libs ! 12 = ''0x445566'' ! 2"
    unfolding r by simp_all
  from c have "linkBytecode ?art ?libs ! 12 = CHR ''4''" by (simp add: covers_def)
  with l show ?thesis by (rule conjI)
qed

text \<open>With \<open>FORK\<close> set, a parameter is the one of the forked network, whatever the current network, and
  missing exactly if there is no such network; without it, it is never missing, since an unknown
  network reads the value of \<open>hardhat\<close>.\<close>

theorem getParamPerNetwork_missing:
  "(getParamPerNetwork env param network = None \<longleftrightarrow> truthy_opt (env ''FORK'') \<and> the (env ''FORK'') \<notin>
      {''coverage'', ''hardhat'', ''localhost'', ''sepolia'', ''goerli'', ''rinkeby'', ''main''}) \<and>
   getParamPerNetwork (env(''FORK'' \<mapsto> ''main'')) param network = Some (main param) \<and>
   getParamPerNetwork (env(''FORK'' := None)) param ''mumbai'' = Some (hardhat param)"
  by (auto simp: getParamPerNetwork_def Let_def split: option.splits)

end
