(* ===== verification/Getters.thy ===== *)
theory Getters
  imports ContractsHelpers
begin

text \<open>
  \<open>helpers/contracts-getters.ts\<close>: handles to deployed contracts. Most getters have one shape: use the
  address given, or else the one the JSON database holds for the identifier of the contract, and
  connect the deployer to it. A missing entry is a \<open>TypeError\<close> (\<open>undefined.address\<close>), thrown before
  the node is asked for its accounts.
\<close>

definition address_in_db :: "string \<Rightarrow> string task" where
  "address_in_db i = tbind (getDb_get i) (\<lambda>v.
     case v of None \<Rightarrow> tthrow JsTypeError | Some e \<Rightarrow> tret (e_address e))"

definition connectOrDb :: "string \<Rightarrow> string option \<Rightarrow> contract task" where
  "connectOrDb i address =
     tbind (if truthy_opt address then tret (the address) else address_in_db i) (\<lambda>a.
     tbind getDeploySigner (\<lambda>signer.
     tret (connect a signer)))"

section \<open>Getters of one contract\<close>

definition getLendPoolAddressesProviderRegistry :: "string option \<Rightarrow> contract task" where
  "getLendPoolAddressesProviderRegistry address = connectOrDb (cid C_LendPoolAddressesProviderRegistry) address"

definition getLendPoolAddressesProvider :: "string option \<Rightarrow> contract task" where
  "getLendPoolAddressesProvider address = connectOrDb (cid C_LendPoolAddressesProvider) address"

definition getLendPoolConfiguratorProxy :: "string option \<Rightarrow> contract task" where
  "getLendPoolConfiguratorProxy address = connectOrDb (cid C_LendPoolConfigurator) address"

definition getBNFTRegistryProxy :: "string option \<Rightarrow> contract task" where
  "getBNFTRegistryProxy address = connectOrDb (cid C_BNFTRegistry) address"

definition getLendPoolLoanProxy :: "string option \<Rightarrow> contract task" where
  "getLendPoolLoanProxy address = connectOrDb (cid C_LendPoolLoan) address"

definition getLendPool :: "string option \<Rightarrow> contract task" where
  "getLendPool address = connectOrDb (cid C_LendPool) address"

definition getReserveOracle :: "string option \<Rightarrow> contract task" where
  "getReserveOracle address = connectOrDb (cid C_ReserveOracle) address"

definition getReserveOracleImpl :: "string option \<Rightarrow> contract task" where
  "getReserveOracleImpl address = connectOrDb (cid C_ReserveOracleImpl) address"

definition getMockChainlinkOracle :: "string option \<Rightarrow> contract task" where
  "getMockChainlinkOracle address = connectOrDb (cid C_MockChainlinkOracle) address"

definition getChainlinkAggregatorHelper :: "string option \<Rightarrow> contract task" where
  "getChainlinkAggregatorHelper address = connectOrDb (cid C_ChainlinkAggregatorHelper) address"

definition getChainlinkAggregatorHelperImpl :: "string option \<Rightarrow> contract task" where
  "getChainlinkAggregatorHelperImpl address = connectOrDb (cid C_ChainlinkAggregatorHelperImpl) address"

definition getNFTOracle :: "string option \<Rightarrow> contract task" where
  "getNFTOracle address = connectOrDb (cid C_NFTOracle) address"

definition getNFTOracleImpl :: "string option \<Rightarrow> contract task" where
  "getNFTOracleImpl address = connectOrDb (cid C_NFTOracleImpl) address"

definition getTokenOracle :: "string option \<Rightarrow> contract task" where
  "getTokenOracle address = connectOrDb (cid C_TokenOracle) address"

definition getTokenOracleImpl :: "string option \<Rightarrow> contract task" where
  "getTokenOracleImpl address = connectOrDb (cid C_TokenOracleImpl) address"

definition getMockReserveOracle :: "string option \<Rightarrow> contract task" where
  "getMockReserveOracle address = connectOrDb (cid C_MockReserveOracle) address"

definition getMockNFTOracle :: "string option \<Rightarrow> contract task" where
  "getMockNFTOracle address = connectOrDb (cid C_MockNFTOracle) address"

definition getBToken :: "string option \<Rightarrow> contract task" where
  "getBToken address = connectOrDb (cid C_BToken) address"

definition getDebtToken :: "string option \<Rightarrow> contract task" where
  "getDebtToken address = connectOrDb (cid C_DebtToken) address"

definition getBNFT :: "string option \<Rightarrow> contract task" where
  "getBNFT address = connectOrDb (cid C_BNFT) address"

definition getMintableERC20 :: "string option \<Rightarrow> contract task" where
  "getMintableERC20 address = connectOrDb (cid C_MintableERC20) address"

definition getMintableERC721 :: "string option \<Rightarrow> contract task" where
  "getMintableERC721 address = connectOrDb (cid C_MintableERC721) address"

definition getIErc20Detailed :: "string option \<Rightarrow> contract task" where
  "getIErc20Detailed address = connectOrDb (cid C_IERC20Detailed) address"

definition getIErc721Detailed :: "string option \<Rightarrow> contract task" where
  "getIErc721Detailed address = connectOrDb (cid C_IERC721Detailed) address"

definition getBendProtocolDataProvider :: "string option \<Rightarrow> contract task" where
  "getBendProtocolDataProvider address = connectOrDb (cid C_BendProtocolDataProvider) address"

definition getUIPoolDataProvider :: "string option \<Rightarrow> contract task" where
  "getUIPoolDataProvider address = connectOrDb (cid C_UIPoolDataProvider) address"

definition getInterestRate :: "string option \<Rightarrow> contract task" where
  "getInterestRate address = connectOrDb (cid C_InterestRate) address"

definition getNftLogic :: "string option \<Rightarrow> contract task" where
  "getNftLogic address = connectOrDb (cid C_NftLogic) address"

definition getReserveLogic :: "string option \<Rightarrow> contract task" where
  "getReserveLogic address = connectOrDb (cid C_ReserveLogic) address"

definition getGenericLogic :: "string option \<Rightarrow> contract task" where
  "getGenericLogic address = connectOrDb (cid C_GenericLogic) address"

definition getSupplyLogic :: "string option \<Rightarrow> contract task" where
  "getSupplyLogic address = connectOrDb (cid C_SupplyLogic) address"

definition getBorrowLogic :: "string option \<Rightarrow> contract task" where
  "getBorrowLogic address = connectOrDb (cid C_BorrowLogic) address"

definition getLiquidateLogic :: "string option \<Rightarrow> contract task" where
  "getLiquidateLogic address = connectOrDb (cid C_LiquidateLogic) address"

definition getConfiguratorLogic :: "string option \<Rightarrow> contract task" where
  "getConfiguratorLogic address = connectOrDb (cid C_ConfiguratorLogic) address"

definition getWETHGateway :: "string option \<Rightarrow> contract task" where
  "getWETHGateway address = connectOrDb (cid C_WETHGateway) address"

definition getWETHGatewayImpl :: "string option \<Rightarrow> contract task" where
  "getWETHGatewayImpl address = connectOrDb (cid C_WETHGatewayImpl) address"

definition getWETHMocked :: "string option \<Rightarrow> contract task" where
  "getWETHMocked address = connectOrDb (cid C_WETHMocked) address"

definition getSelfdestructTransferMock :: "string option \<Rightarrow> contract task" where
  "getSelfdestructTransferMock address = connectOrDb (cid C_SelfdestructTransferMock) address"

definition getLendPoolImpl :: "string option \<Rightarrow> contract task" where
  "getLendPoolImpl address = connectOrDb (cid C_LendPoolImpl) address"

definition getLendPoolConfiguratorImpl :: "string option \<Rightarrow> contract task" where
  "getLendPoolConfiguratorImpl address = connectOrDb (cid C_LendPoolConfiguratorImpl) address"

definition getLendPoolLoanImpl :: "string option \<Rightarrow> contract task" where
  "getLendPoolLoanImpl address = connectOrDb (cid C_LendPoolLoanImpl) address"

definition getBNFTRegistryImpl :: "string option \<Rightarrow> contract task" where
  "getBNFTRegistryImpl address = connectOrDb (cid C_BNFTRegistryImpl) address"

definition getWalletProvider :: "string option \<Rightarrow> contract task" where
  "getWalletProvider address = connectOrDb (cid C_WalletBalanceProvider) address"

definition getCryptoPunksMarket :: "string option \<Rightarrow> contract task" where
  "getCryptoPunksMarket address = connectOrDb (cid C_CryptoPunksMarket) address"

definition getWrappedPunk :: "string option \<Rightarrow> contract task" where
  "getWrappedPunk address = connectOrDb (cid C_WrappedPunk) address"

definition getPunkGateway :: "string option \<Rightarrow> contract task" where
  "getPunkGateway address = connectOrDb (cid C_PunkGateway) address"

definition getPunkGatewayImpl :: "string option \<Rightarrow> contract task" where
  "getPunkGatewayImpl address = connectOrDb (cid C_PunkGatewayImpl) address"

definition getMockIncentivesController :: "string option \<Rightarrow> contract task" where
  "getMockIncentivesController address = connectOrDb (cid C_MockIncentivesController) address"

definition getBendCollectorProxy :: "string option \<Rightarrow> contract task" where
  "getBendCollectorProxy address = connectOrDb (cid C_BendCollector) address"

definition getBendCollectorImpl :: "string option \<Rightarrow> contract task" where
  "getBendCollectorImpl address = connectOrDb (cid C_BendCollectorImpl) address"

definition getUniswapV3DebtSwapAdapter :: "string option \<Rightarrow> contract task" where
  "getUniswapV3DebtSwapAdapter address = connectOrDb (cid C_UniswapV3DebtSwapAdapter) address"

definition getUniswapV3DebtSwapAdapterImpl :: "string option \<Rightarrow> contract task" where
  "getUniswapV3DebtSwapAdapterImpl address = connectOrDb (cid C_UniswapV3DebtSwapAdapterImpl) address"

definition getBendUpgradeableProxy :: "string \<Rightarrow> contract task" where
  "getBendUpgradeableProxy address = tbind getDeploySigner (\<lambda>s. tret (connect address s))"

definition getBendProxyAdminByAddress :: "string \<Rightarrow> contract task" where
  "getBendProxyAdminByAddress address = tbind getDeploySigner (\<lambda>s. tret (connect address s))"

definition getBendProxyAdminById :: "string \<Rightarrow> contract task" where
  "getBendProxyAdminById i = connectOrDb i None"

definition getAddressById :: "string \<Rightarrow> string option task" where
  "getAddressById i = tbind (getDb_get i) (\<lambda>v. case v of
       Some e \<Rightarrow> tret (if e_address e = [] then None else Some (e_address e))
     | None \<Rightarrow> tret None)"

definition getMockERC721Underlying :: "string \<Rightarrow> string option \<Rightarrow> contract task" where
  "getMockERC721Underlying i address = connectOrDb i address"

definition getMockERC721Wrapper :: "string \<Rightarrow> string option \<Rightarrow> contract task" where
  "getMockERC721Wrapper i address = connectOrDb i address"

definition getWrapperGateway :: "string \<Rightarrow> string option \<Rightarrow> contract task" where
  "getWrapperGateway i address = connectOrDb i address"

section \<open>Tables of mocked tokens\<close>

definition char_upper :: "char \<Rightarrow> char" where
  "char_upper c = (let n = of_char c :: nat in if 97 \<le> n \<and> n \<le> 122 then char_of (n - 32) else c)"

definition toUpperCase :: "string \<Rightarrow> string" where
  "toUpperCase s = map char_upper s"

definition collect_mocks ::
  "(string option \<Rightarrow> contract task) \<Rightarrow> string list \<Rightarrow> contract jsobj task" where
  "collect_mocks getter tokenSymbols = tfold tokenSymbols (\<lambda>tokenSymbol accumulator.
     tbind (address_in_db (toUpperCase tokenSymbol)) (\<lambda>address.
     tbind (getter (Some address)) (\<lambda>c.
     tret (oset tokenSymbol c accumulator)))) []"

definition getMockedTokens :: "ICommonConfiguration \<Rightarrow> contract jsobj task" where
  "getMockedTokens config = collect_mocks getMintableERC20 (map fst (ReservesConfig config))"

definition getAllMockedTokens :: "contract jsobj task" where
  "getAllMockedTokens = collect_mocks getMintableERC20 TokenContractId_keys"

definition getConfigMockedNfts :: "ICommonConfiguration \<Rightarrow> contract jsobj task" where
  "getConfigMockedNfts config = collect_mocks getMintableERC721 (map fst (NftsConfig config))"

definition getAllMockedNfts :: "contract jsobj task" where
  "getAllMockedNfts = collect_mocks getMintableERC721 NftContractId_keys"

section \<open>Pairs of assets and aggregators\<close>

definition getQuoteCurrencies :: "string \<Rightarrow> string list" where
  "getQuoteCurrencies oracleQuoteCurrency = [''ETH'', ''WETH'']"

text \<open>
  \<open>getPairsTokenAggregator\<close> of the getters: a token without an aggregator is an \<open>Error\<close> that names it.
\<close>

fun token_pairs :: "string jsobj \<Rightarrow> string jsobj \<Rightarrow> js_error + (string \<times> string) list" where
  "token_pairs [] aggregatorsAddresses = Inr []"
| "token_pairs ((tokenSymbol, tokenAddress) # rest) aggregatorsAddresses =
     (let aggregatorAddressIndex = findIndex (\<lambda>v. v = tokenSymbol) (map fst aggregatorsAddresses) in
      if aggregatorAddressIndex < 0
      then Inl (JsError (''can not find aggregator for '' @ tokenSymbol))
      else case js_at aggregatorsAddresses aggregatorAddressIndex of
          None \<Rightarrow> Inl JsTypeError
        | Some (_, aggregatorAddress) \<Rightarrow>
            (case token_pairs rest aggregatorsAddresses of
               Inl e \<Rightarrow> Inl e
             | Inr pairs \<Rightarrow> Inr ((tokenAddress, aggregatorAddress) # pairs)))"

definition getPairsTokenAggregator ::
  "string jsobj \<Rightarrow> string jsobj \<Rightarrow> string \<Rightarrow> js_error + (string list \<times> string list)" where
  "getPairsTokenAggregator allAssetsAddresses aggregatorsAddresses oracleQuoteCurrency =
     (let assetsWithoutQuoteCurrency = omit allAssetsAddresses (getQuoteCurrencies oracleQuoteCurrency) in
      case token_pairs assetsWithoutQuoteCurrency aggregatorsAddresses of
        Inl e \<Rightarrow> Inl e
      | Inr pairs \<Rightarrow> Inr (map fst pairs, map snd pairs))"

definition convertToCurrencyDecimals :: "string \<Rightarrow> string \<Rightarrow> jsval task" where
  "convertToCurrencyDecimals tokenAddress amount =
     tbind (getIErc20Detailed (Some tokenAddress)) (\<lambda>token.
     tbind (view token ''decimals'' []) (\<lambda>decimals.
     tbind (ask (External ''parseUnits'' [JStr amount, JStr (js_str decimals)])) (\<lambda>tokenAmount.
     tseq (view token ''symbol'' [])
     (tret tokenAmount))))"

section \<open>Facts\<close>

lemma token_pairs_returns:
  "token_pairs assets aggs = Inr pairs \<longleftrightarrow>
     (\<forall>s \<in> set (map fst assets). oget aggs s \<noteq> None) \<and>
     pairs = map (\<lambda>(s, a). (a, the (oget aggs s))) assets"
proof (induction assets arbitrary: pairs)
  case Nil
  then show ?case by auto
next
  case (Cons sa rest)
  obtain s a where sa: "sa = (s, a)" by (cases sa)
  show ?case
  proof (cases "oget aggs s")
    case None
    then show ?thesis by (simp add: sa js_simps Let_def)
  next
    case (Some g)
    then have "\<not> findIndex (\<lambda>v. v = s) (map fst aggs) < 0" by (simp add: findIndex_key_neg)
    then have "token_pairs (sa # rest) aggs = (case token_pairs rest aggs of
        Inl e \<Rightarrow> Inl e | Inr ps \<Rightarrow> Inr ((a, g) # ps))"
      using Some by (simp add: sa js_simps Let_def)
    with Cons.IH Some show ?thesis
      by (cases "token_pairs rest aggs") (auto simp: sa)
  qed
qed

lemma token_pairs_throws:
  "token_pairs assets aggs = Inl e \<Longrightarrow>
     \<exists>s \<in> set (map fst assets). oget aggs s = None \<and>
       e = JsError (''can not find aggregator for '' @ s)"
proof (induction assets aggs rule: token_pairs.induct)
  case (1 aggs)
  then show ?case by simp
next
  case (2 s a rest aggs)
  then show ?case
    by (cases "oget aggs s") (auto simp: js_simps Let_def split: sum.splits if_splits)
qed

lemma token_pairs_find:
  "token_pairs assets aggs = (case find (\<lambda>(s, a). oget aggs s = None) assets of
     Some (s, a) \<Rightarrow> Inl (JsError (''can not find aggregator for '' @ s))
   | None \<Rightarrow> Inr (map (\<lambda>(s, a). (a, the (oget aggs s))) assets))"
proof (induction assets)
  case Nil
  then show ?case by simp
next
  case (Cons sa rest)
  obtain s a where "sa = (s, a)" by (cases sa)
  then show ?case
    using Cons by (cases "oget aggs s") (auto simp: js_simps Let_def findIndex_key_neg split: option.splits sum.splits)
qed

text \<open>The pairs of assets and price aggregators, for any tables: every asset that is no quote currency
  comes with its aggregator, in the order of the assets; if one has none, the first such is named in
  the error.\<close>

theorem getPairsTokenAggregator_pairs:
  assumes "distinct (map fst assets)"
  shows "getPairsTokenAggregator assets aggs quote =
    (let priced = filter (\<lambda>(s, a). s \<notin> {''ETH'', ''WETH''}) assets in
     case find (\<lambda>(s, a). oget aggs s = None) priced of
       Some (s, a) \<Rightarrow> Inl (JsError (''can not find aggregator for '' @ s))
     | None \<Rightarrow> Inr (map snd priced, map (\<lambda>(s, a). the (oget aggs s)) priced))"
  using assms
  by (auto simp: getPairsTokenAggregator_def omit_filter getQuoteCurrencies_def token_pairs_find Let_def
      case_prod_unfold split: option.splits)

theorem getPairsTokenAggregator_pairs_witness:
  "getPairsTokenAggregator [(''WETH'', ''0x1''), (''DAI'', ''0x2''), (''USDC'', ''0x3'')] [(''DAI'', ''0xD'')] ''0x''
     = Inl (JsError ''can not find aggregator for USDC'') \<and>
   getPairsTokenAggregator [(''WETH'', ''0x1''), (''DAI'', ''0x2'')] [(''USDC'', ''0xC''), (''DAI'', ''0xD'')] ''0x''
     = Inr ([''0x2''], [''0xD''])"
  using getPairsTokenAggregator_pairs [of "[(''WETH'', ''0x1''), (''DAI'', ''0x2''), (''USDC'', ''0x3'')]"
      "[(''DAI'', ''0xD'')]" "''0x''"]
    getPairsTokenAggregator_pairs [of "[(''WETH'', ''0x1''), (''DAI'', ''0x2'')]"
      "[(''USDC'', ''0xC''), (''DAI'', ''0xD'')]" "''0x''"]
  by (simp add: Let_def)

end
