(* ===== verification/Effects.thy ===== *)
theory Effects
  imports Getters
begin

text \<open>
  The abstract view of a run, in which the scripts are specified: the \<open>effects\<close> it has on the chain
  (contracts deployed, each with the address that the node gave it, and transactions sent, in order) and
  the entries it writes into the JSON database. Reading the accounts, waiting for confirmations, view calls, verification at Etherscan
  and the calls of other libraries leave no effect. \<open>does w w' es us\<close> says that the run from \<open>w\<close> to
  \<open>w'\<close> had exactly the effects \<open>es\<close> and wrote exactly the entries \<open>us\<close> (latest first); such facts
  compose, so a script's specification is the concatenation of those of its calls.
\<close>

datatype effect =
    Deployed string "jsval list" "string jsobj" string   \<comment> \<open>factory, arguments, libraries, address\<close>
  | Sent string string "jsval list"                      \<comment> \<open>receiver, method, arguments\<close>

text \<open>The effect of a request with the answer it got; a failed deployment has the empty address.\<close>

fun effect_of :: "request \<Rightarrow> string + jsval \<Rightarrow> effect list" where
  "effect_of (DeployTx s f args libs) v = [Deployed f args libs (case v of Inl e \<Rightarrow> [] | Inr a \<Rightarrow> js_str a)]"
| "effect_of (SendTx s a m args) v = [Sent a m args]"
| "effect_of _ v = []"

fun effects_from :: "(request list \<Rightarrow> request \<Rightarrow> string + jsval) \<Rightarrow> request list \<Rightarrow> request list \<Rightarrow> effect list" where
  "effects_from answer past [] = []"
| "effects_from answer past (r # rs) = effect_of r (answer past r) @ effects_from answer (past @ [r]) rs"

definition effects :: "world \<Rightarrow> effect list" where
  "effects w = effects_from (node w) [] (hist w)"

lemma effects_from_append:
  "effects_from answer past (rs @ ss) = effects_from answer past rs @ effects_from answer (past @ rs) ss"
  by (induction rs arbitrary: past) simp_all

lemma effects_from_none: "(\<And>r v. r \<in> set rs \<Longrightarrow> effect_of r v = []) \<Longrightarrow> effects_from answer past rs = []"
  by (induction rs arbitrary: past) simp_all

definition does :: "world \<Rightarrow> world \<Rightarrow> effect list \<Rightarrow> db_entry jsobj \<Rightarrow> bool" where
  "does w w' es us \<longleftrightarrow> same_env w w' \<and> hist_grows w w' \<and> effects w' = effects w @ es \<and>
     (\<forall>i. db_get i w' = (case oget us i of Some e \<Rightarrow> Some e | None \<Rightarrow> db_get i w))"

text \<open>No effect on the chain, nothing written.\<close>

definition quiet :: "world \<Rightarrow> world \<Rightarrow> bool" where
  "quiet w w' \<longleftrightarrow> does w w' [] []"

lemma does_refl: "does w w [] []"
  by (simp add: does_def same_env_def hist_grows_def)

lemma does_trans: "does u v es us \<Longrightarrow> does v w fs vs \<Longrightarrow> does u w (es @ fs) (vs @ us)"
  unfolding does_def
  by (auto simp: map_add_def intro: same_env_trans hist_grows_trans split: option.splits)

lemma does_quiet_left: "quiet u v \<Longrightarrow> does v w es us \<Longrightarrow> does u w es us"
  using does_trans [of u v "[]" "[]" w es us] by (simp add: quiet_def)

lemma does_quiet_right: "does u v es us \<Longrightarrow> quiet v w \<Longrightarrow> does u w es us"
  using does_trans [of u v es us w "[]" "[]"] by (simp add: quiet_def)

interpretation qt: run_relation quiet
proof
  show "quiet w w" for w by (simp add: quiet_def does_refl)
  show "quiet u v \<Longrightarrow> quiet v w \<Longrightarrow> quiet u w" for u v w
    using does_trans [of u v "[]" "[]" w "[]" "[]"] by (simp add: quiet_def)
qed

section \<open>The primitives\<close>

lemma effects_hist [simp]: "effects (w\<lparr>hist := hist w @ rs\<rparr>) = effects w @ effects_from (node w) (hist w) rs"
  by (simp add: effects_def effects_from_append)

lemma does_hist: "does w (w\<lparr>hist := hist w @ rs\<rparr>) (effects_from (node w) (hist w) rs) []"
  by (simp add: does_def same_env_def hist_grows_def)

lemma does_db_put: "does w (db_put i e w) [] [(i, e)]"
  by (auto simp: does_def same_env_def hist_grows_def effects_def)

lemma ask_world: "snd (ask r w) = w\<lparr>hist := hist w @ [r]\<rparr>"
  by (simp add: ask_def Let_def split: sum.splits)

lemma ask_quiet: "(\<And>v. effect_of r v = []) \<Longrightarrow> obeys quiet (ask r)"
  using does_hist [of _ "[r]"] by (simp add: obeys_def ask_world quiet_def)

lemma ask_quiets:
  "obeys quiet (ask Accounts)" "obeys quiet (ask (WaitTx tx))" "obeys quiet (ask (ViewCall a m args))"
  "obeys quiet (ask (ProviderSend m args))" "obeys quiet (ask (RunTask n v))"
  "obeys quiet (ask (External n args))"
  by (simp_all add: ask_quiet)

lemma getDb_get_quiet: "obeys quiet (getDb_get i)"
  unfolding getDb_get_def by (rule qt.tget)

lemma waitForTx_quiet: "obeys quiet (waitForTx n)"
  unfolding waitForTx_def by (intro ask_quiets qt.rules)

lemmas quiet_rules = ask_quiets getDb_get_quiet waitForTx_quiet qt.rules

lemma send_and_wait_does: "send_and_wait s a m args w = (Inr u, w') \<Longrightarrow> does w w' [Sent a m args] []"
  using does_hist [of w "[SendTx s a m args, WaitTx (length (hist w))]"]
  by (auto simp: send_and_wait_returns)

text \<open>\<open>v\<close> is an answer of the node to the request \<open>r\<close>, after some history.\<close>

definition answered :: "world \<Rightarrow> request \<Rightarrow> jsval \<Rightarrow> bool" where
  "answered w r v \<longleftrightarrow> (\<exists>h. node w h r = Inr v)"

lemma ask_answered: "ask r w = (Inr v, w') \<Longrightarrow> answered w r v"
  by (auto simp: answered_def ask_returns)

lemma answered_env: "does w w' es us \<Longrightarrow> answered w' r v = answered w r v"
  by (simp add: answered_def does_def same_env_def)

section \<open>The helpers\<close>

lemma getEthersSigners_quiet: "obeys quiet getEthersSigners"
  unfolding getEthersSigners_def by (intro quiet_rules)

lemma nth_signer_quiet: "obeys quiet (nth_signer i)"
  unfolding nth_signer_def by (intro quiet_rules getEthersSigners_quiet)

lemma getDeploySigner_quiet: "obeys quiet getDeploySigner"
  unfolding getDeploySigner_def by (rule nth_signer_quiet)

lemma getEthersSignerByAddress_quiet: "obeys quiet (getEthersSignerByAddress a)"
  unfolding getEthersSignerByAddress_def by (intro quiet_rules)

lemma view_quiet: "obeys quiet (view c m args)"
  unfolding view_def by (intro quiet_rules)

lemma address_in_db_quiet: "obeys quiet (address_in_db i)"
  unfolding address_in_db_def by (intro quiet_rules)

lemma connectOrDb_quiet: "obeys quiet (connectOrDb i a)"
  unfolding connectOrDb_def by (intro quiet_rules address_in_db_quiet getDeploySigner_quiet)

lemma getContractAddressInDb_quiet: "obeys quiet (getContractAddressInDb i)"
  unfolding getContractAddressInDb_def by (intro quiet_rules)

lemma tryGetContractAddressInDb_quiet: "obeys quiet (tryGetContractAddressInDb i)"
  unfolding tryGetContractAddressInDb_def by (intro quiet_rules)

lemma loadPoolConfig_quiet: "obeys quiet (loadPoolConfig c)"
  unfolding loadPoolConfig_def by (intro quiet_rules)

lemma fallback_quiet: "obeys quiet (getContractAddressWithJsonFallback i pool)"
  unfolding getContractAddressWithJsonFallback_def
  by (intro quiet_rules loadPoolConfig_quiet getContractAddressInDb_quiet)

lemma runTaskWithRetry_quiet:
  "obeys quiet cleanup \<Longrightarrow> obeys quiet (runTaskWithRetry fuel name params tries cleanup)"
proof (induction fuel arbitrary: params tries)
  case 0
  show ?case unfolding runTaskWithRetry.simps by (rule qt.tthrow)
next
  case (Suc fuel)
  then show ?case
    unfolding runTaskWithRetry.simps by (intro quiet_rules)
qed

lemma verifyContract_quiet: "obeys quiet (verifyContract i c args)"
  unfolding verifyContract_def verifyEtherscanContract_def
  by (intro quiet_rules runTaskWithRetry_quiet)

lemma wait_deployed_quiet: "obeys quiet (wait_deployed c)"
  unfolding wait_deployed_def by (intro quiet_rules)

lemmas helper_quiet = getEthersSigners_quiet nth_signer_quiet getDeploySigner_quiet
  getEthersSignerByAddress_quiet view_quiet address_in_db_quiet connectOrDb_quiet
  getContractAddressInDb_quiet tryGetContractAddressInDb_quiet loadPoolConfig_quiet fallback_quiet
  verifyContract_quiet wait_deployed_quiet quiet_rules

text \<open>The entry \<open>registerContractInJsonDb\<close> writes for a contract, and the one without a deployer.\<close>

definition entry_of :: "contract \<Rightarrow> db_entry" where
  "entry_of c = \<lparr>e_address = c_address c, e_deployer = c_signer c\<rparr>"

definition bare_entry :: "string \<Rightarrow> db_entry" where
  "bare_entry a = \<lparr>e_address = a, e_deployer = None\<rparr>"

lemma send_does: "send c m args w = (Inr u, w') \<Longrightarrow> does w w' [Sent (c_address c) m args] []"
  unfolding send_def by (rule send_and_wait_does)

lemma submit_does: "submit c m args w = (Inr u, w') \<Longrightarrow> does w w' [Sent (c_address c) m args] []"
  using does_hist [of w "[SendTx (c_signer c) (c_address c) m args]"]
  by (auto simp: submit_def task_returns ask_returns)

lemma as_signer_simps [simp]:
  "c_address (as_signer s c) = c_address c" "c_signer (as_signer s c) = s"
  by (simp_all add: as_signer_def)

text \<open>A loop whose iterations each have the effects \<open>g x\<close>.\<close>

lemma tfor_does:
  assumes "tfor xs f w = (Inr u, w')"
    and "\<And>x v v'. x \<in> set xs \<Longrightarrow> f x v = (Inr (), v') \<Longrightarrow> does v v' (g x) []"
  shows "does w w' (concat (map g xs)) []"
  using assms
proof (induction xs arbitrary: w)
  case Nil
  then show ?case by (simp add: does_refl)
next
  case (Cons x xs)
  then obtain v where 1: "f x w = (Inr (), v)" and 2: "tfor xs f v = (Inr u, w')"
    by (auto simp: task_returns)
  from Cons.prems(2) 1 have "does w v (g x) []" by simp
  moreover have "does v w' (concat (map g xs)) []" using Cons.IH [OF 2] Cons.prems(2) by simp
  ultimately show ?case using does_trans by fastforce
qed

lemma deployFactory_does:
  assumes "deployFactory f libs args w = (Inr c, w')"
  shows "does w w' [Deployed f args libs (c_address c)] [] \<and> c_deployTx c \<noteq> None"
proof -
  from assms obtain s w1 a where 1: "getDeploySigner w = (Inr s, w1)"
    and 2: "w' = w1\<lparr>hist := hist w1 @ [DeployTx s f args libs]\<rparr>" and 3: "c_deployTx c \<noteq> None"
    and a: "node w1 (hist w1) (DeployTx s f args libs) = Inr a" "c_address c = js_str a"
    by (auto simp: deployFactory_def task_returns ask_returns)
  have "quiet w w1" using getDeploySigner_quiet 1 by (rule qt.run)
  moreover have "does w1 w' [Deployed f args libs (c_address c)] []"
    using does_hist [of w1 "[DeployTx s f args libs]"] a by (simp add: 2)
  ultimately show ?thesis using 3 by (blast intro: does_quiet_left)
qed

lemma register_does:
  "registerContractInJsonDb i c w = (Inr u, w') \<Longrightarrow> does w w' [] [(i, entry_of c)]"
  using does_db_put [of w i "entry_of c"]
  by (auto simp: registerContractInJsonDb_def entry_of_def split: option.splits)

lemma rawInsert_does:
  "rawInsertContractAddressInDb i a w = (Inr u, w') \<Longrightarrow> does w w' [] [(i, bare_entry a)]"
  using does_db_put [of w i "bare_entry a"]
  by (auto simp: rawInsertContractAddressInDb_def bare_entry_def)

lemma insert_does:
  "insertContractAddressInDb i a w = (Inr u, w') \<Longrightarrow> does w w' [] [(cid i, bare_entry a)]"
  using does_db_put [of w "cid i" "bare_entry a"]
  by (auto simp: insertContractAddressInDb_def bare_entry_def)

lemma withSave_does:
  assumes "withSaveAndVerify c i args verify w = (Inr r, w')"
  shows "r = c \<and> does w w' [] [(i, entry_of c)]"
proof -
  from assms obtain w1 w2 where 1: "wait_deployed c w = (Inr (), w1)"
    and 2: "registerContractInJsonDb i c w1 = (Inr (), w2)"
    and 3: "(if verify then tseq (verifyContract i c args) (tret ()) else tret ()) w2 = (Inr (), w')"
    and r: "r = c"
    by (auto simp: withSaveAndVerify_def task_returns)
  have "obeys quiet (if verify then tseq (verifyContract i c args) (tret ()) else tret ())"
    by (intro helper_quiet)
  then have "quiet w2 w'" using 3 by (rule qt.run)
  moreover have "quiet w w1" using wait_deployed_quiet 1 by (rule qt.run)
  ultimately show ?thesis using r register_does [OF 2]
    by (blast intro: does_quiet_left does_quiet_right)
qed

text \<open>What follows from \<open>does\<close> for a reader of the world.\<close>

lemma does_db: "does w w' es us \<Longrightarrow> db_get i w' = (case oget us i of Some e \<Rightarrow> Some e | None \<Rightarrow> db_get i w)"
  by (simp add: does_def)

lemma does_env:
  "does w w' es us \<Longrightarrow> net_name w' = net_name w \<and> procenv w' = procenv w \<and> node w' = node w \<and>
     isAddress w' = isAddress w \<and> isZeroAddress w' = isZeroAddress w"
  by (simp add: does_def same_env_def)

lemma does_notFalsy: "does w w' es us \<Longrightarrow> notFalsyOrZeroAddress w' = notFalsyOrZeroAddress w"
  by (rule ext) (simp add: notFalsyOrZeroAddress_def does_env split: option.splits)

lemma does_addressParam: "does w w' es us \<Longrightarrow> addressParam w' p = addressParam w p"
  by (simp add: addressParam_def does_env)

lemma does_effects: "does w w' es us \<Longrightarrow> effects w' = effects w @ es"
  by (simp add: does_def)

lemma getContractAddressInDb_returns: "getContractAddressInDb i w = (Inr a, w') \<longleftrightarrow>
    w' = w \<and> a \<noteq> [] \<and> (\<exists>e. db_get i w = Some e \<and> e_address e = a)"
  by (auto simp: getContractAddressInDb_def task_returns missing_address_error_def split: option.splits)

lemma address_in_db_returns: "address_in_db i w = (Inr a, w') \<longleftrightarrow>
    w' = w \<and> (\<exists>e. db_get i w = Some e \<and> e_address e = a)"
  by (auto simp: address_in_db_def task_returns split: option.splits)

lemma connectOrDb_returns: "connectOrDb i a w = (Inr c, w') \<Longrightarrow>
    quiet w w' \<and> (if truthy_opt a then c_address c = the a
      else \<exists>e. db_get i w = Some e \<and> e_address e = c_address c)"
  using qt.run [OF connectOrDb_quiet, of i a w "Inr c" w']
  by (auto simp: connectOrDb_def task_returns address_in_db_returns connect_def split: if_splits)

end
