(* ===== verification/Deployments.thy ===== *)
theory Deployments
  imports Effects
begin

text \<open>
  \<open>helpers/contracts-deployments.ts\<close>: one deployment function per contract. Three shapes cover most of
  them: deploy and save under one identifier (\<open>deploySaved\<close>), deploy an implementation and save it
  under the identifier of the implementation and, until its proxy exists, under the one of the
  contract (\<open>deployImpl\<close>), and the libraries whose bytecode the script links itself.
\<close>

text \<open>\<open>withSaveAndVerify(await new XFactory(await getDeploySigner()).deploy(...args), id, args, verify)\<close>\<close>

definition deploySaved :: "string \<Rightarrow> jsval list \<Rightarrow> string \<Rightarrow> bool \<Rightarrow> contract task" where
  "deploySaved factory args i verify =
     tbind (deployFactory factory [] args) (\<lambda>c. withSaveAndVerify c i args verify)"

text \<open>Deploy, save under \<open>implId\<close>, then save under \<open>i\<close> and verify.\<close>

definition deployImpl :: "string \<Rightarrow> string jsobj \<Rightarrow> string \<Rightarrow> string \<Rightarrow> bool \<Rightarrow> contract task" where
  "deployImpl factory libraries implId i verify =
     tbind (deployFactory factory libraries []) (\<lambda>impl.
     tseq (rawInsertContractAddressInDb implId (c_address impl))
     (withSaveAndVerify impl i [] verify))"

section \<open>Contracts saved under one identifier\<close>

definition deployLendPoolAddressesProviderRegistry :: "bool \<Rightarrow> contract task" where
  "deployLendPoolAddressesProviderRegistry verify =
     deploySaved ''LendPoolAddressesProviderRegistryFactory'' [] (cid C_LendPoolAddressesProviderRegistry) verify"

definition deployLendPoolAddressesProvider :: "string \<Rightarrow> bool \<Rightarrow> contract task" where
  "deployLendPoolAddressesProvider marketId verify =
     deploySaved ''LendPoolAddressesProviderFactory'' [JStr marketId] (cid C_LendPoolAddressesProvider) verify"

definition deployReserveLogicLibrary :: "bool \<Rightarrow> contract task" where
  "deployReserveLogicLibrary verify =
     deploySaved ''ReserveLogicFactory'' [] (cid C_ReserveLogic) verify"

definition deployGenericLogic :: "bool \<Rightarrow> contract task" where
  "deployGenericLogic verify =
     deploySaved ''GenericLogicFactory'' [] (cid C_GenericLogic) verify"

definition deployConfiguratorLogicLibrary :: "bool \<Rightarrow> contract task" where
  "deployConfiguratorLogicLibrary verify =
     deploySaved ''ConfiguratorLogicFactory'' [] (cid C_ConfiguratorLogic) verify"

definition deployMockReserveOracle :: "string list \<Rightarrow> bool \<Rightarrow> contract task" where
  "deployMockReserveOracle args verify =
     deploySaved ''MockReserveOracleFactory'' (map JStr args) (cid C_MockReserveOracle) verify"

definition deployMockChainlinkOracle :: "string \<Rightarrow> bool \<Rightarrow> contract task" where
  "deployMockChainlinkOracle decimals verify =
     deploySaved ''MockChainlinkOracleFactory'' [JStr decimals] (cid C_MockChainlinkOracle) verify"

definition deployMockNFTOracle :: "bool \<Rightarrow> contract task" where
  "deployMockNFTOracle verify =
     deploySaved ''MockNFTOracleFactory'' [] (cid C_MockNFTOracle) verify"

definition deployWalletBalancerProvider :: "bool \<Rightarrow> contract task" where
  "deployWalletBalancerProvider verify =
     deploySaved ''WalletBalanceProviderFactory'' [] (cid C_WalletBalanceProvider) verify"

definition deployBendProtocolDataProvider :: "string \<Rightarrow> bool \<Rightarrow> contract task" where
  "deployBendProtocolDataProvider addressesProvider verify =
     deploySaved ''BendProtocolDataProviderFactory'' [JStr addressesProvider] (cid C_BendProtocolDataProvider) verify"

definition deployUiPoolDataProvider :: "string \<Rightarrow> string \<Rightarrow> bool \<Rightarrow> contract task" where
  "deployUiPoolDataProvider reserveOracle nftOracle verify =
     deploySaved ''UiPoolDataProviderFactory'' [JStr reserveOracle, JStr nftOracle] (cid C_UIPoolDataProvider) verify"

definition deployMintableERC20 :: "string list \<Rightarrow> bool \<Rightarrow> contract task" where
  "deployMintableERC20 args verify =
     deploySaved ''MintableERC20Factory'' (map JStr args) (cid C_MintableERC20) verify"

definition deployMintableERC721 :: "string list \<Rightarrow> bool \<Rightarrow> contract task" where
  "deployMintableERC721 args verify =
     deploySaved ''MintableERC721Factory'' (map JStr args) (cid C_MintableERC721) verify"

definition deployInterestRateWithID :: "string \<Rightarrow> string list \<Rightarrow> bool \<Rightarrow> contract task" where
  "deployInterestRateWithID i args verify =
     deploySaved ''InterestRateFactory'' (map JStr args) i verify"

definition deployGenericDebtToken :: "bool \<Rightarrow> contract task" where
  "deployGenericDebtToken verify =
     deploySaved ''DebtTokenFactory'' [] (cid C_DebtToken) verify"

definition deployGenericBTokenImpl :: "bool \<Rightarrow> contract task" where
  "deployGenericBTokenImpl verify =
     deploySaved ''BTokenFactory'' [] (cid C_BToken) verify"

definition deployGenericBNFTImpl :: "bool \<Rightarrow> contract task" where
  "deployGenericBNFTImpl verify =
     deploySaved ''BNFTFactory'' [] (cid C_BNFT) verify"

definition deployWETH9 :: "bool \<Rightarrow> contract task" where
  "deployWETH9 verify =
     deploySaved ''WETH9Factory'' [] (cid C_WETH) verify"

definition deployWETHMocked :: "bool \<Rightarrow> contract task" where
  "deployWETHMocked verify =
     deploySaved ''WETH9MockedFactory'' [] (cid C_WETHMocked) verify"

definition deploySelfdestructTransferMock :: "bool \<Rightarrow> contract task" where
  "deploySelfdestructTransferMock verify =
     deploySaved ''SelfdestructTransferFactory'' [] (cid C_SelfdestructTransferMock) verify"

definition deployCryptoPunksMarket :: "string list \<Rightarrow> bool \<Rightarrow> contract task" where
  "deployCryptoPunksMarket args verify =
     deploySaved ''CryptoPunksMarketFactory'' (map JStr args) (cid C_CryptoPunksMarket) verify"

definition deployWrappedPunk :: "string list \<Rightarrow> bool \<Rightarrow> contract task" where
  "deployWrappedPunk args verify =
     deploySaved ''WrappedPunkFactory'' (map JStr args) (cid C_WrappedPunk) verify"

definition deployBendUpgradeableProxy ::
  "string \<Rightarrow> string \<Rightarrow> string \<Rightarrow> jsval \<Rightarrow> bool \<Rightarrow> contract task" where
  "deployBendUpgradeableProxy i admin logic data verify =
     tbind (deployFactory ''BendUpgradeableProxyFactory'' [] [JStr logic, JStr admin, data]) (\<lambda>c.
     tbind (ask (External ''hexlify'' [data])) (\<lambda>hex.
     withSaveAndVerify c i [JStr logic, JStr admin, hex] verify))"

definition deployBendProxyAdmin :: "string \<Rightarrow> bool \<Rightarrow> contract task" where
  "deployBendProxyAdmin i verify =
     deploySaved ''BendProxyAdminFactory'' [] i verify"

definition deployMockIncentivesController :: "bool \<Rightarrow> contract task" where
  "deployMockIncentivesController verify =
     deploySaved ''MockIncentivesControllerFactory'' [] (cid C_MockIncentivesController) verify"

definition deployTimelockController :: "string \<Rightarrow> string \<Rightarrow> string list \<Rightarrow> string list \<Rightarrow> bool \<Rightarrow> contract task" where
  "deployTimelockController i minDelay proposers executors verify =
     deploySaved ''TimelockControllerFactory'' [JStr minDelay, JArr (map JStr proposers), JArr (map JStr executors)] i verify"

definition deployMockLoanRepaidInterceptor :: "string \<Rightarrow> bool \<Rightarrow> contract task" where
  "deployMockLoanRepaidInterceptor addressesProvider verify =
     deploySaved ''MockLoanRepaidInterceptorFactory'' [JStr addressesProvider] (cid C_MockLoanRepaidInterceptor) verify"

definition deployMockERC721Underlying :: "string \<Rightarrow> string list \<Rightarrow> bool \<Rightarrow> contract task" where
  "deployMockERC721Underlying i args verify =
     deploySaved ''MintableERC721Factory'' (map JStr args) i verify"

definition deployMockERC721Wrapper :: "string \<Rightarrow> string list \<Rightarrow> bool \<Rightarrow> contract task" where
  "deployMockERC721Wrapper i args verify =
     deploySaved ''MockerERC721WrapperFactory'' (map JStr args) i verify"

section \<open>Implementations behind a proxy\<close>

definition deployLendPoolLoan :: "bool \<Rightarrow> contract task" where
  "deployLendPoolLoan verify =
     deployImpl ''LendPoolLoanFactory'' [] (cid C_LendPoolLoanImpl) (cid C_LendPoolLoan) verify"

definition deployBNFTRegistry :: "bool \<Rightarrow> contract task" where
  "deployBNFTRegistry verify =
     deployImpl ''BNFTRegistryFactory'' [] (cid C_BNFTRegistryImpl) (cid C_BNFTRegistry) verify"

definition deployReserveOracle :: "jsval \<Rightarrow> bool \<Rightarrow> contract task" where
  "deployReserveOracle args verify =
     deployImpl ''ReserveOracleFactory'' [] (cid C_ReserveOracleImpl) (cid C_ReserveOracle) verify"

definition deployChainlinkAggregatorHelper :: "jsval \<Rightarrow> bool \<Rightarrow> contract task" where
  "deployChainlinkAggregatorHelper args verify =
     deployImpl ''ChainlinkAggregatorHelperFactory'' [] (cid C_ChainlinkAggregatorHelperImpl) (cid C_ChainlinkAggregatorHelper) verify"

definition deployNFTOracle :: "bool \<Rightarrow> contract task" where
  "deployNFTOracle verify =
     deployImpl ''NFTOracleFactory'' [] (cid C_NFTOracleImpl) (cid C_NFTOracle) verify"

definition deployTokenOracle :: "bool \<Rightarrow> contract task" where
  "deployTokenOracle verify =
     deployImpl ''NFTOracleFactory'' [] (cid C_TokenOracleImpl) (cid C_TokenOracle) verify"

definition deployWETHGateway :: "bool \<Rightarrow> contract task" where
  "deployWETHGateway verify =
     deployImpl ''WETHGatewayFactory'' [] (cid C_WETHGatewayImpl) (cid C_WETHGateway) verify"

definition deployPunkGateway :: "bool \<Rightarrow> contract task" where
  "deployPunkGateway verify =
     deployImpl ''PunkGatewayFactory'' [] (cid C_PunkGatewayImpl) (cid C_PunkGateway) verify"

definition deployBendCollector :: "jsval \<Rightarrow> bool \<Rightarrow> contract task" where
  "deployBendCollector args verify =
     deployImpl ''BendCollectorFactory'' [] (cid C_BendCollectorImpl) (cid C_BendCollector) verify"

definition deployUniswapV3DebtSwapAdapter :: "bool \<Rightarrow> contract task" where
  "deployUniswapV3DebtSwapAdapter verify =
     deployImpl ''UniswapV3DebtSwapAdapterFactory'' [] (cid C_UniswapV3DebtSwapAdapterImpl) (cid C_UniswapV3DebtSwapAdapter) verify"

definition deployWrapperGatewayImpl :: "string \<Rightarrow> bool \<Rightarrow> contract task" where
  "deployWrapperGatewayImpl i verify =
     deploySaved ''WrapperGatewayFactory'' [] (i @ ''Impl'') verify"

definition deployWrapperGateway :: "string \<Rightarrow> bool \<Rightarrow> contract task" where
  "deployWrapperGateway i verify =
     deployImpl ''WrapperGatewayFactory'' [] (i @ ''Impl'') i verify"

definition deployWstETHPriceAggregator :: "string \<Rightarrow> string \<Rightarrow> bool \<Rightarrow> contract task" where
  "deployWstETHPriceAggregator stETHAgg wstETH verify =
     deploySaved ''WstETHPriceAggregatorFactory'' [JStr stETHAgg, JStr wstETH]
       (cid C_WstETHPriceAggregator) verify"

definition deployInterestRate :: "string list \<Rightarrow> bool \<Rightarrow> contract task" where
  "deployInterestRate args verify = deployInterestRateWithID (cid C_InterestRate) args verify"

definition deployRateStrategy :: "string \<Rightarrow> string list \<Rightarrow> bool \<Rightarrow> string task" where
  "deployRateStrategy strategyName args verify =
     tbind (deployInterestRate args verify) (\<lambda>c. tret (c_address c))"

section \<open>Libraries\<close>

definition PLACEHOLDER_GENERIC_LOGIC :: string where
  "PLACEHOLDER_GENERIC_LOGIC = ''__$4c26be947d349222af871a3168b3fe584b$__''"
definition PLACEHOLDER_VALIDATION_LOGIC :: string where
  "PLACEHOLDER_VALIDATION_LOGIC = ''__$5201a97c05ba6aa659e2f36a933dd51801$__''"
definition PLACEHOLDER_RESERVE_LOGIC :: string where
  "PLACEHOLDER_RESERVE_LOGIC = ''__$d3b4366daeb9cadc7528af6145b50b2183$__''"
definition PLACEHOLDER_NFT_LOGIC :: string where
  "PLACEHOLDER_NFT_LOGIC = ''__$eceb79063fab52ea3826f3ee75ecd7f36d$__''"
definition PLACEHOLDER_SUPPLY_LOGIC :: string where
  "PLACEHOLDER_SUPPLY_LOGIC = ''__$2f7c76ee15bdc1d8f3b34a04b86951fc56$__''"
definition PLACEHOLDER_BORROW_LOGIC :: string where
  "PLACEHOLDER_BORROW_LOGIC = ''__$77c5a84c43428e206d5bf08427df63fefa$__''"
definition PLACEHOLDER_LIQUIDATE_LOGIC :: string where
  "PLACEHOLDER_LIQUIDATE_LOGIC = ''__$ce70b23849b5cbed90e6e2f622d8887206$__''"
definition PLACEHOLDER_CONFIGURATOR_LOGIC :: string where
  "PLACEHOLDER_CONFIGURATOR_LOGIC = ''__$3b2ad8f1ea56cc7a60e9a93596bbfe9178$__''"

text \<open>
  \<open>readArtifact\<close> reads a compiled artifact; the node's answer is decoded to the two fields that
  linking uses. A factory made from an ABI and a bytecode is named \<open>ContractFactory\<close>, with the
  bytecode as the first argument; \<open>.deployed()\<close> waits for its transaction.
\<close>

definition num_prop :: "string \<Rightarrow> jsval \<Rightarrow> nat" where
  "num_prop k v = (case js_prop k v of Some (JNum i) \<Rightarrow> nat i | _ \<Rightarrow> 0)"

fun fixups_of :: "jsval \<Rightarrow> fixup list" where
  "fixups_of (JArr vs) =
     map (\<lambda>v. \<lparr>fx_start = num_prop ''start'' v, fx_length = num_prop ''length'' v\<rparr>) vs"
| "fixups_of _ = []"

fun lib_refs_of :: "jsval \<Rightarrow> fixup list jsobj" where
  "lib_refs_of (JObj kvs) = map (\<lambda>(k, v). (k, fixups_of v)) kvs"
| "lib_refs_of _ = []"

fun file_refs_of :: "jsval \<Rightarrow> fixup list jsobj jsobj" where
  "file_refs_of (JObj kvs) = map (\<lambda>(k, v). (k, lib_refs_of v)) kvs"
| "file_refs_of _ = []"

definition artifact_of :: "jsval \<Rightarrow> artifact" where
  "artifact_of v = \<lparr>
     bytecode = (case js_prop ''bytecode'' v of Some (JStr s) \<Rightarrow> s | _ \<Rightarrow> []),
     linkReferences = (case js_prop ''linkReferences'' v of Some r \<Rightarrow> file_refs_of r | None \<Rightarrow> [])\<rparr>"

definition readArtifact :: "string \<Rightarrow> artifact task" where
  "readArtifact i = tbind (ask (External ''readArtifact'' [JStr i])) (\<lambda>v. tret (artifact_of v))"

definition deployLinked :: "string \<Rightarrow> string jsobj \<Rightarrow> bool \<Rightarrow> contract task" where
  "deployLinked i libraries verify =
     tbind (readArtifact i) (\<lambda>art.
     tbind (deployFactory ''ContractFactory'' [] [JStr (linkBytecode art libraries)]) (\<lambda>c.
     tseq (wait_deployed c)
     (withSaveAndVerify c i [] verify)))"

definition deployNftLogicLibrary :: "bool \<Rightarrow> contract task" where
  "deployNftLogicLibrary verify = deployLinked (cid C_NftLogic) [] verify"

definition deployValidationLogic :: "contract \<Rightarrow> contract \<Rightarrow> bool \<Rightarrow> contract task" where
  "deployValidationLogic reserveLogic genericLogic verify =
     deployLinked (cid C_ValidationLogic)
       [(cid C_ReserveLogic, c_address reserveLogic), (cid C_GenericLogic, c_address genericLogic)] verify"

definition deployLibOnValidation :: "string \<Rightarrow> string \<Rightarrow> bool \<Rightarrow> contract task" where
  "deployLibOnValidation factory i verify =
     tbind (getContractAddressInDb (cid C_ValidationLogic)) (\<lambda>validateLogicAddress.
     tbind (deployFactory factory [(PLACEHOLDER_VALIDATION_LOGIC, validateLogicAddress)] []) (\<lambda>c.
     withSaveAndVerify c i [] verify))"

definition deploySupplyLogicLibrary :: "bool \<Rightarrow> contract task" where
  "deploySupplyLogicLibrary verify =
     deployLibOnValidation ''SupplyLogicFactory'' (cid C_SupplyLogic) verify"

definition deployBorrowLogicLibrary :: "bool \<Rightarrow> contract task" where
  "deployBorrowLogicLibrary verify =
     deployLibOnValidation ''BorrowLogicFactory'' (cid C_BorrowLogic) verify"

definition deployLiquidateLogicLibrary :: "bool \<Rightarrow> contract task" where
  "deployLiquidateLogicLibrary verify =
     deployLibOnValidation ''LiquidateLogicFactory'' (cid C_LiquidateLogic) verify"

definition deployLendPoolLibraries :: "bool \<Rightarrow> unit task" where
  "deployLendPoolLibraries verify =
     tbind (deployGenericLogic verify) (\<lambda>genericLogic.
     tbind (deployReserveLogicLibrary verify) (\<lambda>reserveLogic.
     tbind (deployNftLogicLibrary verify) (\<lambda>nftLogic.
     tbind (deployValidationLogic reserveLogic genericLogic verify) (\<lambda>validationLogic.
     tbind (deploySupplyLogicLibrary verify) (\<lambda>supplyLogic.
     tbind (deployBorrowLogicLibrary verify) (\<lambda>borrowLogic.
     tbind (deployLiquidateLogicLibrary verify) (\<lambda>liquidateLogic.
     tret ())))))))"

definition deployConfiguratorLibraries :: "bool \<Rightarrow> unit task" where
  "deployConfiguratorLibraries verify =
     tbind (deployConfiguratorLogicLibrary verify) (\<lambda>cfgLogic. tret ())"

definition deployBendLibraries :: "bool \<Rightarrow> unit task" where
  "deployBendLibraries verify =
     tseq (deployLendPoolLibraries verify) (deployConfiguratorLibraries verify)"

definition getLendPoolLibraries :: "string jsobj task" where
  "getLendPoolLibraries =
     tbind (getContractAddressInDb (cid C_ReserveLogic)) (\<lambda>reserveLogicAddress.
     tbind (getContractAddressInDb (cid C_NftLogic)) (\<lambda>nftLogicAddress.
     tbind (getContractAddressInDb (cid C_ValidationLogic)) (\<lambda>validationLogicAddress.
     tbind (getContractAddressInDb (cid C_GenericLogic)) (\<lambda>genericLogicAddress.
     tbind (getContractAddressInDb (cid C_SupplyLogic)) (\<lambda>supplyLogicAddress.
     tbind (getContractAddressInDb (cid C_BorrowLogic)) (\<lambda>borrowLogicAddress.
     tbind (getContractAddressInDb (cid C_LiquidateLogic)) (\<lambda>liquidateLogicAddress.
     tret [(PLACEHOLDER_RESERVE_LOGIC, reserveLogicAddress),
           (PLACEHOLDER_NFT_LOGIC, nftLogicAddress),
           (PLACEHOLDER_SUPPLY_LOGIC, supplyLogicAddress),
           (PLACEHOLDER_BORROW_LOGIC, borrowLogicAddress),
           (PLACEHOLDER_LIQUIDATE_LOGIC, liquidateLogicAddress)])))))))"

section \<open>Contracts that link libraries\<close>

definition deployLendPoolConfigurator :: "bool \<Rightarrow> contract task" where
  "deployLendPoolConfigurator verify =
     tbind (getContractAddressInDb (cid C_ConfiguratorLogic)) (\<lambda>cfgLogicAddress.
     deployImpl ''LendPoolConfiguratorFactory'' [(PLACEHOLDER_CONFIGURATOR_LOGIC, cfgLogicAddress)]
       (cid C_LendPoolConfiguratorImpl) (cid C_LendPoolConfigurator) verify)"

definition deployLendPool :: "bool \<Rightarrow> contract task" where
  "deployLendPool verify =
     tbind getLendPoolLibraries (\<lambda>libraries.
     deployImpl ''LendPoolFactory'' libraries (cid C_LendPoolImpl) (cid C_LendPool) verify)"

section \<open>Mock tokens and NFTs\<close>

definition mock_decimals :: "string \<Rightarrow> string" where
  "mock_decimals tokenSymbol =
     (let decimals = (if tokenSymbol = ''USDT'' \<or> tokenSymbol = ''USDC'' then ''6'' else ''18'') in
      case oget (getReservesConfigByPool Proto) tokenSymbol of
        Some configData \<Rightarrow> reserveDecimals configData | None \<Rightarrow> decimals)"

definition deployOneMockToken :: "string \<Rightarrow> bool \<Rightarrow> contract task" where
  "deployOneMockToken tokenSymbol verify =
     tbind (deployMintableERC20
       [''Bend Mock '' @ tokenSymbol, tokenSymbol, mock_decimals tokenSymbol] verify) (\<lambda>tokenContract.
     tseq (registerContractInJsonDb (toUpperCase tokenSymbol) tokenContract)
     (tret tokenContract))"

definition deployAllMockTokens :: "bool \<Rightarrow> bool \<Rightarrow> contract jsobj task" where
  "deployAllMockTokens forTestCases verify = tfold TokenContractId_keys (\<lambda>tokenSymbol tokens.
     tbind
       (if tokenSymbol = ''WETH''
        then (if forTestCases then deployWETHMocked False else deployWETH9 False)
        else deployMintableERC20
          [''Bend Mock '' @ tokenSymbol, tokenSymbol, mock_decimals tokenSymbol] verify) (\<lambda>c.
     tseq (registerContractInJsonDb (toUpperCase tokenSymbol) c)
     (tret (oset tokenSymbol c tokens)))) []"

definition deployAllMockNfts :: "bool \<Rightarrow> contract jsobj task" where
  "deployAllMockNfts verify = tfold NftContractId_keys (\<lambda>tokenSymbol tokens.
     tbind
       (if tokenSymbol = ''WPUNKS''
        then tbind (deployCryptoPunksMarket [] verify) (\<lambda>cryptoPunksMarket.
          deployWrappedPunk [c_address cryptoPunksMarket] verify)
        else if tokenSymbol = ''WKODA''
        then tbind (deployMockERC721Underlying ''MockOtherdeed'' [''Otherdeed'', ''OTHR''] verify)
          (\<lambda>mockOtherdeed. deployMockERC721Wrapper ''WrappedKoda''
            [c_address mockOtherdeed, ''Wrapped Otherdeed Koda'', ''WKODA''] verify)
        else deployMintableERC721 [''Bend Mock '' @ tokenSymbol, tokenSymbol] verify) (\<lambda>c.
     tseq (registerContractInJsonDb (toUpperCase tokenSymbol) c)
     (tret (oset tokenSymbol c tokens)))) []"

section \<open>Implementations named by the market configuration\<close>

definition chooseBTokenDeployment :: "eContractid \<Rightarrow> js_error + (bool \<Rightarrow> contract task)" where
  "chooseBTokenDeployment i = (if i = C_BToken then Inr deployGenericBTokenImpl
     else Inl (JsError (''Missing bToken implementation deployment script for: '' @ cid i)))"

definition chooseBNFTDeployment :: "eContractid \<Rightarrow> js_error + (bool \<Rightarrow> contract task)" where
  "chooseBNFTDeployment i = (if i = C_BNFT then Inr deployGenericBNFTImpl
     else Inl (JsError (''Missing bNFT implementation deployment script for: '' @ cid i)))"

text \<open>A \<open>Set\<close> filled in order and spread into an array: first occurrences, in order.\<close>

definition js_set :: "'a list \<Rightarrow> 'a list" where
  "js_set xs = foldl (\<lambda>acc x. if x \<in> set acc then acc else acc @ [x]) [] xs"

definition deployImplementations ::
  "(eContractid \<Rightarrow> js_error + (bool \<Rightarrow> contract task)) \<Rightarrow> string \<Rightarrow> eContractid list \<Rightarrow> bool \<Rightarrow> unit task" where
  "deployImplementations chooseDeployment pool impls verify =
     tbind (loadPoolConfig pool) (\<lambda>poolConfig.
     tfor (js_set impls) (\<lambda>impl.
       tbind (tget (\<lambda>w. notFalsyOrZeroAddress w
         (getOptionalParamAddressPerNetwork w (config_field poolConfig (cid impl))))) (\<lambda>valid.
       twhen (\<not> valid) (case chooseDeployment impl of
           Inl e \<Rightarrow> tthrow e
         | Inr deployImplementationMethod \<Rightarrow> tseq (deployImplementationMethod verify) (tret ())))))"

definition deployBTokenImplementations :: "string \<Rightarrow> IReserveParams jsobj \<Rightarrow> bool \<Rightarrow> unit task" where
  "deployBTokenImplementations pool reservesConfig verify =
     tbind (loadPoolConfig pool) (\<lambda>poolConfig.
     tseq (deployImplementations chooseBTokenDeployment pool (map (bTokenImpl \<circ> snd) reservesConfig) verify)
     (tbind (tget (\<lambda>w. notFalsyOrZeroAddress w
        (getOptionalParamAddressPerNetwork w (DebtTokenImplementation poolConfig)))) (\<lambda>valid.
      twhen (\<not> valid) (tseq (deployGenericDebtToken verify) (tret ())))))"

definition deployBNFTImplementations :: "string \<Rightarrow> INftParams jsobj \<Rightarrow> bool \<Rightarrow> unit task" where
  "deployBNFTImplementations pool nftsConfig verify =
     deployImplementations chooseBNFTDeployment pool (map (bNftImpl \<circ> snd) nftsConfig) verify"

section \<open>What a deployment does\<close>

lemma deploySaved_does:
  assumes "deploySaved f args i v w = (Inr c, w')"
  shows "does w w' [Deployed f args [] (c_address c)] [(i, entry_of c)]"
proof -
  from assms obtain c1 w1 where 1: "deployFactory f [] args w = (Inr c1, w1)"
    and 2: "withSaveAndVerify c1 i args v w1 = (Inr c, w')"
    by (auto simp: deploySaved_def task_returns)
  from does_trans [OF conjunct1 [OF deployFactory_does [OF 1]] conjunct2 [OF withSave_does [OF 2]]]
    withSave_does [OF 2]
  show ?thesis by simp
qed

lemma deployImpl_does:
  assumes "deployImpl f libs implId i v w = (Inr c, w')"
  shows "does w w' [Deployed f [] libs (c_address c)] [(i, entry_of c), (implId, bare_entry (c_address c))]"
proof -
  from assms obtain c1 w1 w2 where 1: "deployFactory f libs [] w = (Inr c1, w1)"
    and 2: "rawInsertContractAddressInDb implId (c_address c1) w1 = (Inr (), w2)"
    and 3: "withSaveAndVerify c1 i [] v w2 = (Inr c, w')"
    by (auto simp: deployImpl_def task_returns)
  from does_trans [OF does_trans [OF conjunct1 [OF deployFactory_does [OF 1]] rawInsert_does [OF 2]]
      conjunct2 [OF withSave_does [OF 3]]] withSave_does [OF 3]
  show ?thesis by simp
qed

lemma readArtifact_quiet: "obeys quiet (readArtifact i)"
  unfolding readArtifact_def by (intro helper_quiet)

text \<open>\<open>art\<close> is the compiled contract that was read under the name \<open>i\<close>.\<close>

definition artifact_read :: "world \<Rightarrow> string \<Rightarrow> artifact \<Rightarrow> bool" where
  "artifact_read w i art \<longleftrightarrow> (\<exists>v. answered w (External ''readArtifact'' [JStr i]) v \<and> art = artifact_of v)"

lemma readArtifact_read: "readArtifact i w = (Inr art, w') \<Longrightarrow> artifact_read w i art"
  by (auto simp: readArtifact_def artifact_read_def task_returns dest: ask_answered)

lemma artifact_read_env: "does w w' es us \<Longrightarrow> artifact_read w' i art = artifact_read w i art"
  by (simp add: artifact_read_def answered_env)

lemma deployLinked_does:
  assumes "deployLinked i libs v w = (Inr c, w')"
  shows "\<exists>art. artifact_read w i art \<and>
    does w w' [Deployed ''ContractFactory'' [JStr (linkBytecode art libs)] [] (c_address c)] [(i, entry_of c)]"
proof -
  from assms obtain art c1 w1 w2 w3 where 1: "readArtifact i w = (Inr art, w1)"
    and 2: "deployFactory ''ContractFactory'' [] [JStr (linkBytecode art libs)] w1 = (Inr c1, w2)"
    and 3: "wait_deployed c1 w2 = (Inr (), w3)"
    and 4: "withSaveAndVerify c1 i [] v w3 = (Inr c, w')"
    by (auto simp: deployLinked_def task_returns)
  have "quiet w w1" using readArtifact_quiet 1 by (rule qt.run)
  moreover have "quiet w2 w3" using wait_deployed_quiet 3 by (rule qt.run)
  ultimately have "does w w3 [Deployed ''ContractFactory'' [JStr (linkBytecode art libs)] [] (c_address c1)] []"
    using conjunct1 [OF deployFactory_does [OF 2]] by (blast intro: does_quiet_left does_quiet_right)
  from does_trans [OF this conjunct2 [OF withSave_does [OF 4]]] withSave_does [OF 4] readArtifact_read [OF 1]
  show ?thesis by auto
qed

lemma deployLibOnValidation_does:
  assumes "deployLibOnValidation f i v w = (Inr c, w')"
    and "db_get (cid C_ValidationLogic) w = Some e"
  shows "does w w' [Deployed f [] [(PLACEHOLDER_VALIDATION_LOGIC, e_address e)] (c_address c)] [(i, entry_of c)]"
proof -
  from assms obtain c1 w1 where
    1: "deployFactory f [(PLACEHOLDER_VALIDATION_LOGIC, e_address e)] [] w = (Inr c1, w1)"
    and 2: "withSaveAndVerify c1 i [] v w1 = (Inr c, w')"
    by (auto simp: deployLibOnValidation_def task_returns getContractAddressInDb_returns)
  from does_trans [OF conjunct1 [OF deployFactory_does [OF 1]] conjunct2 [OF withSave_does [OF 2]]]
    withSave_does [OF 2]
  show ?thesis by simp
qed

text \<open>
  The libraries of the pool, deployed in order: the three logic libraries on top of validation link
  the validation library that was just deployed.
\<close>

lemma deployLendPoolLibraries_does:
  assumes "deployLendPoolLibraries verify w = (Inr u, w')"
  shows "\<exists>generic reserve nft validation supply borrow liquidate nftArt valArt.
    artifact_read w (cid C_NftLogic) nftArt \<and> artifact_read w (cid C_ValidationLogic) valArt \<and>
    does w w' [
      Deployed ''GenericLogicFactory'' [] [] (c_address generic),
      Deployed ''ReserveLogicFactory'' [] [] (c_address reserve),
      Deployed ''ContractFactory'' [JStr (linkBytecode nftArt [])] [] (c_address nft),
      Deployed ''ContractFactory'' [JStr (linkBytecode valArt
        [(cid C_ReserveLogic, c_address reserve), (cid C_GenericLogic, c_address generic)])] [] (c_address validation),
      Deployed ''SupplyLogicFactory'' [] [(PLACEHOLDER_VALIDATION_LOGIC, c_address validation)] (c_address supply),
      Deployed ''BorrowLogicFactory'' [] [(PLACEHOLDER_VALIDATION_LOGIC, c_address validation)] (c_address borrow),
      Deployed ''LiquidateLogicFactory'' [] [(PLACEHOLDER_VALIDATION_LOGIC, c_address validation)] (c_address liquidate)]
     [(cid C_LiquidateLogic, entry_of liquidate), (cid C_BorrowLogic, entry_of borrow),
      (cid C_SupplyLogic, entry_of supply), (cid C_ValidationLogic, entry_of validation),
      (cid C_NftLogic, entry_of nft), (cid C_ReserveLogic, entry_of reserve),
      (cid C_GenericLogic, entry_of generic)]"
proof -
  from assms obtain g w1 r w2 n w3 va w4 s w5 b w6 l where
    g: "deployGenericLogic verify w = (Inr g, w1)" and
    r: "deployReserveLogicLibrary verify w1 = (Inr r, w2)" and
    n: "deployNftLogicLibrary verify w2 = (Inr n, w3)" and
    va: "deployValidationLogic r g verify w3 = (Inr va, w4)" and
    s: "deploySupplyLogicLibrary verify w4 = (Inr s, w5)" and
    b: "deployBorrowLogicLibrary verify w5 = (Inr b, w6)" and
    l: "deployLiquidateLogicLibrary verify w6 = (Inr l, w')"
    by (auto simp: deployLendPoolLibraries_def task_returns)
  note g' = deploySaved_does [OF g [unfolded deployGenericLogic_def]]
  note r' = deploySaved_does [OF r [unfolded deployReserveLogicLibrary_def]]
  obtain na where na: "artifact_read w2 (cid C_NftLogic) na"
    and n': "does w2 w3 [Deployed ''ContractFactory'' [JStr (linkBytecode na [])] [] (c_address n)]
      [(cid C_NftLogic, entry_of n)]"
    using deployLinked_does [OF n [unfolded deployNftLogicLibrary_def]] by blast
  obtain a where a: "artifact_read w3 (cid C_ValidationLogic) a"
    and va': "does w3 w4 [Deployed ''ContractFactory'' [JStr (linkBytecode a
        [(cid C_ReserveLogic, c_address r), (cid C_GenericLogic, c_address g)])] [] (c_address va)]
      [(cid C_ValidationLogic, entry_of va)]"
    using deployLinked_does [OF va [unfolded deployValidationLogic_def]] by blast
  have e4: "db_get (cid C_ValidationLogic) w4 = Some (entry_of va)"
    using does_db [OF va', of "cid C_ValidationLogic"] by simp
  note s' = deployLibOnValidation_does [OF s [unfolded deploySupplyLogicLibrary_def] e4]
  have e5: "db_get (cid C_ValidationLogic) w5 = Some (entry_of va)"
    using does_db [OF s', of "cid C_ValidationLogic"] e4 by simp
  note b' = deployLibOnValidation_does [OF b [unfolded deployBorrowLogicLibrary_def] e5]
  have e6: "db_get (cid C_ValidationLogic) w6 = Some (entry_of va)"
    using does_db [OF b', of "cid C_ValidationLogic"] e5 by simp
  note l' = deployLibOnValidation_does [OF l [unfolded deployLiquidateLogicLibrary_def] e6]
  note all = does_trans [OF does_trans [OF does_trans [OF does_trans [OF does_trans [OF
    does_trans [OF g' r'] n'] va'] s'] b'] l']
  have "artifact_read w (cid C_NftLogic) na" "artifact_read w (cid C_ValidationLogic) a"
    using na a artifact_read_env [OF does_trans [OF g' r']] artifact_read_env [OF does_trans [OF does_trans [OF g' r'] n']]
    by simp_all
  with all show ?thesis by (simp add: entry_of_def) blast
qed

lemma getLendPoolLibraries_returns:
  assumes "getLendPoolLibraries w = (Inr libs, w')"
  shows "w' = w \<and> (\<exists>r n va g s b l.
    db_get (cid C_ReserveLogic) w = Some r \<and> db_get (cid C_NftLogic) w = Some n \<and>
    db_get (cid C_ValidationLogic) w = Some va \<and> db_get (cid C_GenericLogic) w = Some g \<and>
    db_get (cid C_SupplyLogic) w = Some s \<and> db_get (cid C_BorrowLogic) w = Some b \<and>
    db_get (cid C_LiquidateLogic) w = Some l \<and>
    libs = [(PLACEHOLDER_RESERVE_LOGIC, e_address r), (PLACEHOLDER_NFT_LOGIC, e_address n),
      (PLACEHOLDER_SUPPLY_LOGIC, e_address s), (PLACEHOLDER_BORROW_LOGIC, e_address b),
      (PLACEHOLDER_LIQUIDATE_LOGIC, e_address l)])"
  using assms by (auto simp: getLendPoolLibraries_def task_returns getContractAddressInDb_returns)

lemma js_set_snoc: "js_set (xs @ [x]) = (if x \<in> set (js_set xs) then js_set xs else js_set xs @ [x])"
  by (simp add: js_set_def)

lemma set_js_set [simp]: "set (js_set xs) = set xs"
  by (induction xs rule: rev_induct) (auto simp: js_set_snoc, simp add: js_set_def)

lemma distinct_js_set [simp]: "distinct (js_set xs)"
  by (induction xs rule: rev_induct) (simp_all add: js_set_snoc, simp add: js_set_def)

end
