(* ===== verification/Configuration.thy ===== *)
theory Configuration
  imports Deployments
begin

text \<open>
  The rest of \<open>helpers/configuration.ts\<close>: administrators, collector and token addresses of a market
  on the current network, with the fallbacks to the node's accounts or to a fresh deployment;
  and \<open>helpers/mock-helpers.ts\<close>, the address tables of mocked contracts.
\<close>

text \<open>\<open>process.env.FORK ? process.env.FORK : DRE.network.name\<close>, and the mainnet-fork variant\<close>

definition networkOrFork :: "world \<Rightarrow> string" where
  "networkOrFork w = (if truthy_opt (procenv w ''FORK'') then the (procenv w ''FORK'') else net_name w)"

definition networkOrMainFork :: "world \<Rightarrow> string" where
  "networkOrMainFork w = (if procenv w ''MAINNET_FORK'' = Some ''true'' then ''main'' else net_name w)"

definition addressOn :: "(world \<Rightarrow> string) \<Rightarrow> addressPerNetwork \<Rightarrow> world \<Rightarrow> string option" where
  "addressOn network param w =
     (case getParamPerNetwork (procenv w) param (network w) of None \<Rightarrow> None | Some a \<Rightarrow> a)"

definition getProviderRegistryAddress :: "ICommonConfiguration \<Rightarrow> string task" where
  "getProviderRegistryAddress config =
     tbind (tget (addressOn networkOrFork (ProviderRegistry config))) (\<lambda>registryAddress.
     if truthy_opt registryAddress then tret (the registryAddress) else tret ZERO_ADDRESS)"

definition getGenesisPoolAdmin :: "ICommonConfiguration \<Rightarrow> string option task" where
  "getGenesisPoolAdmin config =
     tbind (tget (addressOn networkOrFork (PoolAdmin config))) (\<lambda>targetAddress.
     if truthy_opt targetAddress then tret targetAddress
     else tbind getEthersSignersAddresses (\<lambda>addressList.
       tret (js_at addressList (int (PoolAdminIndex config)))))"

definition getEmergencyAdmin :: "ICommonConfiguration \<Rightarrow> string option task" where
  "getEmergencyAdmin config =
     tbind (tget (addressOn networkOrFork (EmergencyAdmin config))) (\<lambda>targetAddress.
     if truthy_opt targetAddress then tret targetAddress
     else tbind getEthersSignersAddresses (\<lambda>addressList.
       tret (js_at addressList (int (EmergencyAdminIndex config)))))"

definition getReserveFactorCollectorAddress :: "ICommonConfiguration \<Rightarrow> string option task" where
  "getReserveFactorCollectorAddress config =
     tget (addressOn networkOrFork (ReserveFactorCollectorAddress config))"

definition getWrappedNativeTokenAddress :: "ICommonConfiguration \<Rightarrow> string task" where
  "getWrappedNativeTokenAddress config =
     tbind (tget networkOrMainFork) (\<lambda>currentNetwork.
     tbind (tget (addressOn networkOrMainFork (WrappedNativeToken config))) (\<lambda>wethAddress.
     if truthy_opt wethAddress then tret (the wethAddress)
     else if str_includes currentNetwork ''main''
     then tthrow (JsError ''WETH not set at mainnet configuration.'')
     else tbind (deployWETH9 False) (\<lambda>weth. tret (c_address weth))))"

definition getWrappedPunkTokenAddress :: "ICommonConfiguration \<Rightarrow> string \<Rightarrow> string task" where
  "getWrappedPunkTokenAddress config punk =
     tbind (tget networkOrMainFork) (\<lambda>currentNetwork.
     tbind (tget (addressOn networkOrMainFork (WrappedPunkToken config))) (\<lambda>wpunkAddress.
     if truthy_opt wpunkAddress then tret (the wpunkAddress)
     else if str_includes currentNetwork ''main''
     then tthrow (JsError ''WPUNKS not set at mainnet configuration.'')
     else tbind (tget (\<lambda>w. notFalsyOrZeroAddress w (Some punk))) (\<lambda>valid.
       if \<not> valid then tthrow (JsError ''PUNK not set at dev or testnet configuration.'')
       else tbind (deployWrappedPunk [punk] False) (\<lambda>wpunk. tret (c_address wpunk)))))"

definition getCryptoPunksMarketAddress :: "ICommonConfiguration \<Rightarrow> string task" where
  "getCryptoPunksMarketAddress config =
     tbind (tget networkOrMainFork) (\<lambda>currentNetwork.
     tbind (tget (addressOn networkOrMainFork (CryptoPunksMarket config))) (\<lambda>punkAddress.
     if truthy_opt punkAddress then tret (the punkAddress)
     else if str_includes currentNetwork ''main''
     then tthrow (JsError ''CryptoPunksMarket not set at mainnet configuration.'')
     else tbind (deployCryptoPunksMarket [] False) (\<lambda>punk. tret (c_address punk))))"

section \<open>\<open>mock-helpers.ts\<close>\<close>

definition addresses_of :: "contract jsobj \<Rightarrow> string jsobj" where
  "addresses_of cs = foldl (\<lambda>accum (tokenSymbol, c). oset tokenSymbol (c_address c) accum) [] cs"

definition getAllTokenAddresses :: "contract jsobj \<Rightarrow> string jsobj" where
  "getAllTokenAddresses mockTokens = addresses_of mockTokens"

definition getAllNftAddresses :: "contract jsobj \<Rightarrow> string jsobj" where
  "getAllNftAddresses mockNfts = addresses_of mockNfts"

definition getAllAggregatorsAddresses :: "contract jsobj \<Rightarrow> string jsobj" where
  "getAllAggregatorsAddresses mockAggregators = addresses_of mockAggregators"

section \<open>Facts\<close>

lemma addresses_of_map:
  assumes "distinct (map fst cs)"
  shows "addresses_of cs = map (\<lambda>(k, c). (k, c_address c)) cs"
proof -
  have "distinct (map fst acc @ map fst cs) \<Longrightarrow>
      foldl (\<lambda>accum (k, c). oset k (c_address c) accum) acc cs
        = acc @ map (\<lambda>(k, c). (k, c_address c)) cs" for acc
    by (induction cs arbitrary: acc) (auto simp: oset_fresh image_iff split: prod.splits)
  from this [of "[]"] assms show ?thesis by (simp add: addresses_of_def)
qed

lemma getGenesisPoolAdmin_quiet: "obeys quiet (getGenesisPoolAdmin c)"
  unfolding getGenesisPoolAdmin_def getEthersSignersAddresses_def by (intro helper_quiet)

lemma getEmergencyAdmin_quiet: "obeys quiet (getEmergencyAdmin c)"
  unfolding getEmergencyAdmin_def getEthersSignersAddresses_def by (intro helper_quiet)

lemma getReserveFactorCollectorAddress_quiet: "obeys quiet (getReserveFactorCollectorAddress c)"
  unfolding getReserveFactorCollectorAddress_def by (intro helper_quiet)

lemmas config_quiet = getGenesisPoolAdmin_quiet getEmergencyAdmin_quiet
  getReserveFactorCollectorAddress_quiet helper_quiet

end
