(* ===== verification/ProxyTasks.thy ===== *)
theory ProxyTasks
  imports Configuration
begin

text \<open>
  The tasks of \<open>tasks/full\<close> that deploy or upgrade a contract behind a \<open>BendUpgradeableProxy\<close>:
  \<open>oracle-nft.ts\<close>, \<open>oracle-reserve.ts\<close>, \<open>oracle-token.ts\<close>, \<open>oracle-helper.ts\<close>, \<open>weth-gateway.ts\<close>,
  \<open>punk-gateway.ts\<close>, \<open>wrapper-gateway.ts\<close>, \<open>swap-adapter.ts\<close>, \<open>bend-collector.ts\<close>. They all deploy the
  implementation, encode the call of \<open>initialize\<close>, and then either upgrade a proxy that exists or
  deploy one; the code repeats this step in every file, and it is one definition here.
  \<open>DRE.run("set-DRE")\<close> stores the runtime environment in a variable and is left out.
\<close>

section \<open>The steps the tasks share\<close>

fun js_truthy :: "jsval \<Rightarrow> bool" where
  "js_truthy JUndef = False"
| "js_truthy (JBool b) = b"
| "js_truthy (JNum i) = (i \<noteq> 0)"
| "js_truthy (JStr s) = (s \<noteq> [])"
| "js_truthy _ = True"

text \<open>\<open>await DRE.run("compile")\<close>\<close>

definition run_compile :: "unit task" where
  "run_compile = tseq (ask (RunTask ''compile'' JUndef)) (tret ())"

text \<open>\<open>if (!DRE.network.config.chainId) throw new Error("INVALID_CHAIN_ID")\<close>\<close>

definition require_chainId :: "unit task" where
  "require_chainId = tbind (ask (External ''DRE.network.config.chainId'' [])) (\<lambda>chainId.
     twhen (\<not> js_truthy chainId) (tthrow (JsError ''INVALID_CHAIN_ID'')))"

text \<open>\<open>impl.interface.encodeFunctionData(f, args)\<close>\<close>

definition encodeFunctionData :: "string \<Rightarrow> jsval list \<Rightarrow> jsval task" where
  "encodeFunctionData f args = ask (External ''encodeFunctionData'' [JStr f, JArr args])"

text \<open>The proxy admin with the given identifier, which must have a valid address.\<close>

definition valid_proxy_admin :: "string \<Rightarrow> string \<Rightarrow> contract task" where
  "valid_proxy_admin i message =
     tbind (getBendProxyAdminById i) (\<lambda>proxyAdmin.
     tbind (tget (\<lambda>w. notFalsyOrZeroAddress w (Some (c_address proxyAdmin)))) (\<lambda>valid.
     if \<not> valid then tthrow (JsError message) else tret proxyAdmin))"

text \<open>\<open>DRE.ethers.provider.getSigner(await c.owner())\<close>\<close>

definition owner_signer :: "contract \<Rightarrow> string option task" where
  "owner_signer c = tbind (view c ''owner'' []) (\<lambda>owner. tret (Some (js_str owner)))"

text \<open>
  Upgrade the proxy at \<open>existing\<close> when that is a valid address, otherwise deploy one; \<open>after\<close> is what the
  task does with a proxy it has just deployed. \<open>insertContractAddressInDb\<close> and
  \<open>rawInsertContractAddressInDb\<close> have the same body; the second takes the identifier as a string.
\<close>

definition upgrade_or_deploy ::
  "string \<Rightarrow> string option \<Rightarrow> contract \<Rightarrow> string option \<Rightarrow> contract \<Rightarrow> jsval \<Rightarrow> bool \<Rightarrow>
    (string option \<Rightarrow> contract task) \<Rightarrow> (contract \<Rightarrow> unit task) \<Rightarrow> contract task" where
  "upgrade_or_deploy i existing proxyAdmin ownerSigner impl initEncodedData verify getter after =
     tbind (tget (\<lambda>w. notFalsyOrZeroAddress w existing)) (\<lambda>exists.
     if exists then
       tseq (rawInsertContractAddressInDb i (the existing))
       (tbind (getBendUpgradeableProxy (the existing)) (\<lambda>proxy.
       tseq (send (as_signer ownerSigner proxyAdmin) ''upgrade'' [JStr (c_address proxy), JStr (c_address impl)])
       (getter (Some (c_address proxy)))))
     else
       tbind (deployBendUpgradeableProxy i (c_address proxyAdmin) (c_address impl) initEncodedData verify) (\<lambda>proxy.
       tbind (getter (Some (c_address proxy))) (\<lambda>instance.
       tseq (after instance)
       (tret instance))))"

section \<open>Oracles\<close>

text \<open>\<open>BN.from(n).mul(BN.from(10).pow(k))\<close> as an argument of \<open>initialize\<close>\<close>

definition bn_pow10 :: "int \<Rightarrow> nat \<Rightarrow> jsval" where
  "bn_pow10 n k = JNum (n * 10 ^ k)"

definition feed_admin :: "ICommonConfiguration \<Rightarrow> string option \<Rightarrow> string option task" where
  "feed_admin poolConfig feedAdmin =
     tbind (tget (\<lambda>w. notFalsyOrZeroAddress w feedAdmin)) (\<lambda>valid.
     if \<not> valid then getGenesisPoolAdmin poolConfig else tret feedAdmin)"

definition opt_val :: "string option \<Rightarrow> jsval" where
  "opt_val v = (case v of None \<Rightarrow> JUndef | Some s \<Rightarrow> JStr s)"

definition deploy_oracle_nft :: "bool \<Rightarrow> string \<Rightarrow> bool \<Rightarrow> bool \<Rightarrow> string option \<Rightarrow> unit task" where
  "deploy_oracle_nft verify pool skipOracle skipProvider feedAdmin =
     tseq run_compile
     (tbind (loadPoolConfig pool) (\<lambda>poolConfig.
     tbind (tget (\<lambda>w. addressParam w (NFTOracle poolConfig))) (\<lambda>nftOracleAddress.
     if skipOracle then
       tbind (tget (\<lambda>w. notFalsyOrZeroAddress w nftOracleAddress)) (\<lambda>valid.
       if \<not> valid then tthrow (JsError ''Invalid NFT Oracle address in pool config'')
       else tbind (getLendPoolAddressesProvider None) (\<lambda>addressesProvider.
         send addressesProvider ''setNFTOracle'' [JStr (the nftOracleAddress)]))
     else
       tbind (valid_proxy_admin (cid C_BendProxyAdminPool) ''Invalid pool proxy admin in config'') (\<lambda>proxyAdmin.
       tbind (owner_signer proxyAdmin) (\<lambda>proxyAdminOwnerSigner.
       tbind (feed_admin poolConfig feedAdmin) (\<lambda>feedAdmin.
       tbind (tget (\<lambda>w. getParamPerNetwork (procenv w) (NftsAssets poolConfig) (net_name w))) (\<lambda>nftsAssets.
       case nftsAssets of None \<Rightarrow> tthrow JsTypeError | Some nftsAssets \<Rightarrow>
       tbind (deployNFTOracle verify) (\<lambda>nftOracleImpl.
       tbind (encodeFunctionData ''initialize'' [opt_val feedAdmin, bn_pow10 2 17, bn_pow10 1 17,
         JNum 1800, JNum 600, JNum 21600, JNum 18]) (\<lambda>initEncodedData.
       tbind (upgrade_or_deploy (cid C_NFTOracle) nftOracleAddress proxyAdmin proxyAdminOwnerSigner
         nftOracleImpl initEncodedData verify getNFTOracle (\<lambda>nftOracle.
           tbind (owner_signer nftOracle) (\<lambda>oracleOwnerSigner.
           send (as_signer oracleOwnerSigner nftOracle) ''setAssets''
             [JArr (map (\<lambda>(tokenSymbol, tokenAddress). JStr tokenAddress) nftsAssets)]))) (\<lambda>nftOracle.
       twhen (\<not> skipProvider)
         (tbind (getLendPoolAddressesProvider None) (\<lambda>addressesProvider.
          send addressesProvider ''setNFTOracle'' [JStr (c_address nftOracle)]))))))))))))"

definition deploy_oracle_reserve :: "bool \<Rightarrow> bool \<Rightarrow> string \<Rightarrow> unit task" where
  "deploy_oracle_reserve verify skipOracle pool =
     tseq run_compile
     (tbind (loadPoolConfig pool) (\<lambda>poolConfig.
     tbind (getLendPoolAddressesProvider None) (\<lambda>addressesProvider.
     tbind (tget (\<lambda>w. addressParam w (ReserveOracle poolConfig))) (\<lambda>reserveOracleAddress.
     if skipOracle then
       tbind (tget (\<lambda>w. notFalsyOrZeroAddress w reserveOracleAddress)) (\<lambda>valid.
       if \<not> valid then tthrow (JsError ''Invalid Reserve Oracle address in pool config'')
       else send addressesProvider ''setReserveOracle'' [JStr (the reserveOracleAddress)])
     else
       tbind (getBendProxyAdminById (cid C_BendProxyAdminPool)) (\<lambda>proxyAdmin.
       tbind (owner_signer proxyAdmin) (\<lambda>ownerSigner.
       tbind (tget (\<lambda>w. getParamPerNetwork (procenv w) (ReserveAssets poolConfig) (net_name w))) (\<lambda>reserveAssets.
       tbind (tget (\<lambda>w. getParamPerNetwork (procenv w) (ReserveAggregators poolConfig) (net_name w))) (\<lambda>reserveAggregators.
       case reserveAggregators of None \<Rightarrow> tthrow JsTypeError | Some reserveAggregators \<Rightarrow>
       (let reserveAssetsWithUSD = oset ''USD'' (UsdAddress (ProtocolGlobalParams poolConfig))
              (case reserveAssets of None \<Rightarrow> [] | Some assets \<Rightarrow> assets) in
       case getPairsTokenAggregator reserveAssetsWithUSD reserveAggregators (OracleQuoteCurrency poolConfig) of
         Inl e \<Rightarrow> tthrow e
       | Inr (tokens, aggregators) \<Rightarrow>
         tbind (getWrappedNativeTokenAddress poolConfig) (\<lambda>weth.
         tbind (deployReserveOracle (JArr []) verify) (\<lambda>reserveOracleImpl.
         tbind (encodeFunctionData ''initialize'' [JStr weth]) (\<lambda>initEncodedData.
         tbind (upgrade_or_deploy (cid C_ReserveOracle) reserveOracleAddress proxyAdmin ownerSigner
           reserveOracleImpl initEncodedData verify getReserveOracle (\<lambda>reserveOracle.
             tbind (owner_signer reserveOracle) (\<lambda>oracleOwnerSigner.
             send (as_signer oracleOwnerSigner reserveOracle) ''setAggregators''
               [JArr (map JStr tokens), JArr (map JStr aggregators)]))) (\<lambda>reserveOracle.
         send addressesProvider ''setReserveOracle'' [JStr (c_address reserveOracle)])))))))))))))"

definition deploy_oracle_token :: "string \<Rightarrow> string option \<Rightarrow> unit task" where
  "deploy_oracle_token pool feedAdmin =
     tseq run_compile
     (tbind (loadPoolConfig pool) (\<lambda>poolConfig.
     tbind (valid_proxy_admin (cid C_BendV2ProxyAdmin) ''Invalid pool proxy admin in config'') (\<lambda>proxyAdmin.
     tbind (owner_signer proxyAdmin) (\<lambda>proxyAdminOwnerSigner.
     tbind (feed_admin poolConfig feedAdmin) (\<lambda>feedAdmin.
     tbind (tryGetContractAddressInDb (cid C_TokenOracle)) (\<lambda>tokenOracleAddress.
     tbind (deployTokenOracle True) (\<lambda>tokenOracleImpl.
     tbind (encodeFunctionData ''initialize'' [opt_val feedAdmin, bn_pow10 2 7, bn_pow10 1 7,
       JNum 1800, JNum 600, JNum 21600, JNum 8]) (\<lambda>initEncodedData.
     tbind (upgrade_or_deploy (cid C_TokenOracle) (Some tokenOracleAddress) proxyAdmin proxyAdminOwnerSigner
       tokenOracleImpl initEncodedData True getTokenOracle (\<lambda>_. tret ())) (\<lambda>tokenOracle.
     tret ())))))))))"

definition deploy_aggregator_helper :: "bool \<Rightarrow> string \<Rightarrow> unit task" where
  "deploy_aggregator_helper verify pool =
     tseq run_compile
     (tbind (loadPoolConfig pool) (\<lambda>poolConfig.
     tbind (getLendPoolAddressesProvider None) (\<lambda>addressProvider.
     tbind (tryGetContractAddressInDb (cid C_ChainlinkAggregatorHelper)) (\<lambda>aggHelperAddress.
     tbind (getBendProxyAdminById (cid C_BendProxyAdminPool)) (\<lambda>proxyAdmin.
     tbind (owner_signer proxyAdmin) (\<lambda>ownerSigner.
     tbind (deployChainlinkAggregatorHelper (JArr []) verify) (\<lambda>aggHelperImpl.
     tbind (encodeFunctionData ''initialize'' [JStr (c_address addressProvider)]) (\<lambda>initEncodedData.
     tbind (upgrade_or_deploy (cid C_ChainlinkAggregatorHelper) (Some aggHelperAddress) proxyAdmin ownerSigner
       aggHelperImpl initEncodedData verify getChainlinkAggregatorHelper (\<lambda>_. tret ())) (\<lambda>aggHelper.
     tret ())))))))))"

section \<open>Gateways and adapters\<close>

definition deploy_weth_gateway :: "bool \<Rightarrow> string \<Rightarrow> unit task" where
  "deploy_weth_gateway verify pool =
     tseq run_compile
     (tseq require_chainId
     (tbind (loadPoolConfig pool) (\<lambda>poolConfig.
     tbind (getLendPoolAddressesProvider None) (\<lambda>addressesProvider.
     tbind (valid_proxy_admin (cid C_BendProxyAdminPool) ''Invalid pool proxy admin in config'') (\<lambda>proxyAdmin.
     tbind (owner_signer proxyAdmin) (\<lambda>proxyAdminOwnerSigner.
     tbind (getWrappedNativeTokenAddress poolConfig) (\<lambda>weth.
     tbind (deployWETHGateway verify) (\<lambda>wethGatewayImpl.
     tbind (encodeFunctionData ''initialize'' [JStr (c_address addressesProvider), JStr weth]) (\<lambda>initEncodedData.
     tbind (upgrade_or_deploy (cid C_WETHGateway) None proxyAdmin proxyAdminOwnerSigner
       wethGatewayImpl initEncodedData verify getWETHGateway (\<lambda>_. tret ())) (\<lambda>wethGateWay.
     send addressesProvider ''setAddress'' [JStr ADDRESS_ID_WETH_GATEWAY, JStr (c_address wethGateWay)]))))))))))"

definition wethgateway_authorize_caller :: "string \<Rightarrow> string \<Rightarrow> string \<Rightarrow> unit task" where
  "wethgateway_authorize_caller pool caller flag =
     tbind (loadPoolConfig pool) (\<lambda>poolConfig.
     tbind (getWETHGateway None) (\<lambda>wethGateway.
     send wethGateway ''authorizeCallerWhitelist'' [JArr [JStr caller], JStr flag]))"

definition deploy_punk_gateway :: "bool \<Rightarrow> string \<Rightarrow> unit task" where
  "deploy_punk_gateway verify pool =
     tseq run_compile
     (tseq require_chainId
     (tbind (loadPoolConfig pool) (\<lambda>poolConfig.
     tbind (getLendPoolAddressesProvider None) (\<lambda>addressesProvider.
     tbind (valid_proxy_admin (cid C_BendProxyAdminPool) ''Invalid pool proxy admin in config'') (\<lambda>proxyAdmin.
     tbind (owner_signer proxyAdmin) (\<lambda>proxyAdminOwnerSigner.
     tbind (getWETHGateway None) (\<lambda>wethGateWay.
     tbind (getCryptoPunksMarketAddress poolConfig) (\<lambda>punk.
     tbind (getWrappedPunkTokenAddress poolConfig punk) (\<lambda>wpunk.
     tbind (deployPunkGateway verify) (\<lambda>punkGateWayImpl.
     tbind (encodeFunctionData ''initialize'' [JStr (c_address addressesProvider),
       JStr (c_address wethGateWay), JStr punk, JStr wpunk]) (\<lambda>initEncodedData.
     tbind (upgrade_or_deploy (cid C_PunkGateway) None proxyAdmin proxyAdminOwnerSigner
       punkGateWayImpl initEncodedData verify getPunkGateway (\<lambda>_. tret ())) (\<lambda>punkGateWay.
     send addressesProvider ''setAddress'' [JStr ADDRESS_ID_PUNK_GATEWAY, JStr (c_address punkGateWay)]))))))))))))"

definition punkgateway_authorize_caller :: "string \<Rightarrow> string \<Rightarrow> string \<Rightarrow> unit task" where
  "punkgateway_authorize_caller pool caller flag =
     tbind (loadPoolConfig pool) (\<lambda>poolConfig.
     tbind (getPunkGateway None) (\<lambda>punkGateway.
     send punkGateway ''authorizeCallerWhitelist'' [JArr [JStr caller], JStr flag]))"

definition deploy_uniswapv3_debtswap_adapter :: "bool \<Rightarrow> string \<Rightarrow> string \<Rightarrow> string \<Rightarrow> unit task" where
  "deploy_uniswapv3_debtswap_adapter verify pool aaveAddressProvider swapRouter =
     tseq run_compile
     (tseq require_chainId
     (tbind (loadPoolConfig pool) (\<lambda>poolConfig.
     tbind (getLendPoolAddressesProvider None) (\<lambda>addressesProvider.
     tbind (valid_proxy_admin (cid C_BendProxyAdminWTL) ''Invalid common proxy admin in config'') (\<lambda>proxyAdmin.
     tbind (owner_signer proxyAdmin) (\<lambda>proxyAdminOwnerSigner.
     tbind (tryGetContractAddressInDb (cid C_UniswapV3DebtSwapAdapter)) (\<lambda>swapAdapterAddress.
     tbind (deployUniswapV3DebtSwapAdapter verify) (\<lambda>swapAdapterImpl.
     tbind (encodeFunctionData ''initialize'' [JStr aaveAddressProvider,
       JStr (c_address addressesProvider), JStr swapRouter]) (\<lambda>initEncodedData.
     tbind (upgrade_or_deploy (cid C_UniswapV3DebtSwapAdapter) (Some swapAdapterAddress) proxyAdmin
       proxyAdminOwnerSigner swapAdapterImpl initEncodedData verify getUniswapV3DebtSwapAdapter
       (\<lambda>_. tret ())) (\<lambda>swapAdapter.
     tret ()))))))))))"

definition deploy_wrapper_gateway :: "bool \<Rightarrow> string \<Rightarrow> string \<Rightarrow> string \<Rightarrow> string \<Rightarrow> unit task" where
  "deploy_wrapper_gateway verify pool gatewayid underlying wrapper =
     tseq run_compile
     (tseq require_chainId
     (tbind (loadPoolConfig pool) (\<lambda>poolConfig.
     tbind (getLendPoolAddressesProvider None) (\<lambda>addressesProvider.
     tbind (valid_proxy_admin (cid C_BendProxyAdminWTL) ''Invalid common proxy admin in config'') (\<lambda>proxyAdmin.
     tbind (owner_signer proxyAdmin) (\<lambda>proxyAdminOwnerSigner.
     tbind (getWETHGateway None) (\<lambda>wethGateWay.
     tbind (deployWrapperGatewayImpl gatewayid verify) (\<lambda>wrapperGateWayImpl.
     tbind (encodeFunctionData ''initialize'' [JStr (c_address addressesProvider),
       JStr (c_address wethGateWay), JStr underlying, JStr wrapper]) (\<lambda>initEncodedData.
     tbind (tryGetContractAddressInDb gatewayid) (\<lambda>wrapperGatewayAddress.
     tbind (upgrade_or_deploy gatewayid (Some wrapperGatewayAddress) proxyAdmin proxyAdminOwnerSigner
       wrapperGateWayImpl initEncodedData verify (getWrapperGateway gatewayid) (\<lambda>_. tret ())) (\<lambda>wrapperGateWay.
     tret ())))))))))))"

definition wrapper_authorize_caller :: "string \<Rightarrow> string \<Rightarrow> string \<Rightarrow> string \<Rightarrow> unit task" where
  "wrapper_authorize_caller pool i caller flag =
     tbind (loadPoolConfig pool) (\<lambda>poolConfig.
     tbind (getWrapperGateway i None) (\<lambda>wrapperGateWay.
     send wrapperGateWay ''authorizeCallerWhitelist'' [JArr [JStr caller], JStr flag]))"

section \<open>The collector\<close>

text \<open>
  Both tasks call \<open>deployBendCollector(verify)\<close>, whose first parameter is the constructor arguments:
  the flag arrives there, and \<open>verify\<close> is undefined.
\<close>

definition deploy_bend_collector :: "bool \<Rightarrow> string \<Rightarrow> unit task" where
  "deploy_bend_collector verify pool =
     tseq run_compile
     (tbind (loadPoolConfig pool) (\<lambda>poolConfig.
     tbind (getBendProxyAdminById (cid C_BendProxyAdminFund)) (\<lambda>collectorProxyAdmin.
     tseq (view collectorProxyAdmin ''owner'' [])
     (tbind (deployBendCollector (JBool verify) False) (\<lambda>bendCollectorImpl.
     tbind (encodeFunctionData ''initialize'' []) (\<lambda>initEncodedData.
     tbind (deployBendUpgradeableProxy (cid C_BendCollector) (c_address collectorProxyAdmin)
       (c_address bendCollectorImpl) initEncodedData verify) (\<lambda>bendCollectorProxy.
     tret ())))))))"

definition upgrade_bend_collector :: "bool \<Rightarrow> string \<Rightarrow> string \<Rightarrow> string option \<Rightarrow> unit task" where
  "upgrade_bend_collector verify pool proxy initFunc =
     tbind (loadPoolConfig pool) (\<lambda>poolConfig.
     tbind (getBendProxyAdminById (cid C_BendProxyAdminFund)) (\<lambda>collectorProxyAdmin.
     tbind (owner_signer collectorProxyAdmin) (\<lambda>proxyAdminOwnerSigner.
     tbind (getBendUpgradeableProxy proxy) (\<lambda>bendCollectorProxy.
     tbind (getBendCollectorProxy (Some (c_address bendCollectorProxy))) (\<lambda>bendCollector.
     tbind (deployBendCollector (JBool verify) False) (\<lambda>bendCollectorImpl.
     tseq (insertContractAddressInDb C_BendCollector (c_address bendCollectorProxy))
     (if truthy_opt initFunc then
        tbind (encodeFunctionData (the initFunc) []) (\<lambda>initEncodedData.
        send (as_signer proxyAdminOwnerSigner collectorProxyAdmin) ''upgradeAndCall''
          [JStr (c_address bendCollectorProxy), JStr (c_address bendCollectorImpl), initEncodedData])
      else
        send (as_signer proxyAdminOwnerSigner collectorProxyAdmin) ''upgrade''
          [JStr (c_address bendCollectorProxy), JStr (c_address bendCollectorImpl)])))))))"

definition bend_collector_approve_erc20 ::
  "string \<Rightarrow> string \<Rightarrow> string \<Rightarrow> string \<Rightarrow> string \<Rightarrow> unit task" where
  "bend_collector_approve_erc20 pool proxy token to amount =
     tbind (loadPoolConfig pool) (\<lambda>poolConfig.
     tbind (getBendUpgradeableProxy proxy) (\<lambda>bendCollectorProxy.
     tbind (getBendCollectorProxy (Some (c_address bendCollectorProxy))) (\<lambda>bendCollector.
     tbind (owner_signer bendCollector) (\<lambda>ownerSigner.
     tbind (if amount \<noteq> ''-1'' then tbind (convertToCurrencyDecimals token amount) (\<lambda>v. tret (js_str v))
            else tret MAX_UINT_AMOUNT) (\<lambda>amountDecimals.
     send (as_signer ownerSigner bendCollector) ''approve'' [JStr token, JStr to, JStr amountDecimals])))))"

end
