(* ===== verification/InitHelpers.thy ===== *)
theory InitHelpers
  imports Configuration
begin

text \<open>
  \<open>helpers/init-helpers.ts\<close>: initialisation and configuration of the reserves and NFTs of a market.
  The functions go through the entries of the market's configuration, skip those that have no
  address on the network, and send the rest to the configurator contract in chunks. The
  specification at the end gives the exact transactions they send.
\<close>

definition getBTokenExtraParams :: "string \<Rightarrow> string \<Rightarrow> string task" where
  "getBTokenExtraParams bTokenName tokenAddress = tret ''0x10''"

definition getBNftExtraParams :: "string \<Rightarrow> string \<Rightarrow> string task" where
  "getBNftExtraParams bNftName nftAddress = tret ''0x10''"

definition is_set :: "string jsobj \<Rightarrow> string \<Rightarrow> bool" where
  "is_set addresses symbol = truthy_opt (oget addresses symbol)"

section \<open>Initialising reserves\<close>

definition strategy_args :: "string \<Rightarrow> IInterestRateStrategyParams \<Rightarrow> string list" where
  "strategy_args provider s = [provider, optimalUtilizationRate s, baseVariableBorrowRate s,
     variableRateSlope1 s, variableRateSlope2 s]"

record token_naming =
  bTokenNamePrefix :: string
  bTokenSymbolPrefix :: string
  debtTokenNamePrefix :: string
  debtTokenSymbolPrefix :: string

definition reserve_input ::
  "token_naming \<Rightarrow> jsval \<Rightarrow> string \<Rightarrow> IReserveParams \<Rightarrow> string \<Rightarrow> string \<Rightarrow> string \<Rightarrow> string \<Rightarrow> jsval" where
  "reserve_input tn collectorAddress symbol params bTokenImplAddr debtTokenImplAddr rate token = JObj [
     (''bTokenImpl'', JStr bTokenImplAddr),
     (''debtTokenImpl'', JStr debtTokenImplAddr),
     (''underlyingAssetDecimals'', JStr (reserveDecimals params)),
     (''interestRateAddress'', JStr rate),
     (''underlyingAsset'', JStr token),
     (''treasury'', collectorAddress),
     (''underlyingAssetName'', JStr symbol),
     (''bTokenName'', JStr (bTokenNamePrefix tn @ '' '' @ symbol)),
     (''bTokenSymbol'', JStr (bTokenSymbolPrefix tn @ symbol)),
     (''debtTokenName'', JStr (debtTokenNamePrefix tn @ '' '' @ symbol)),
     (''debtTokenSymbol'', JStr (debtTokenSymbolPrefix tn @ symbol))]"

text \<open>
  One iteration of the loop over the reserves. Its state is the list of inputs prepared so far, with
  their symbols, and the table of the rate strategies deployed so far.
\<close>

type_synonym init_state = "string list \<times> jsval list \<times> string jsobj"

definition deploy_strategy_once ::
  "string \<Rightarrow> IInterestRateStrategyParams \<Rightarrow> bool \<Rightarrow> string jsobj \<Rightarrow> string jsobj task" where
  "deploy_strategy_once provider strat verify strategyAddresses =
     (if truthy_opt (oget strategyAddresses (strat_name strat)) then tret strategyAddresses
      else tbind (deployRateStrategy (strat_name strat) (strategy_args provider strat) verify) (\<lambda>address.
        tseq (rawInsertContractAddressInDb (strat_name strat) address)
        (tret (oset (strat_name strat) address strategyAddresses))))"

definition init_reserve_step ::
  "string jsobj \<Rightarrow> token_naming \<Rightarrow> jsval \<Rightarrow> string \<Rightarrow> bool \<Rightarrow> string \<Rightarrow> string \<times> IReserveParams \<Rightarrow> init_state \<Rightarrow>
    init_state task" where
  "init_reserve_step tokenAddresses tn collectorAddress poolName verify provider = (\<lambda>(symbol, params)
     (reserveSymbols, initInputParams, strategyAddresses).
     if \<not> is_set tokenAddresses symbol then tret (reserveSymbols, initInputParams, strategyAddresses)
     else
       tbind (deploy_strategy_once provider (strategy params) verify strategyAddresses)
         (\<lambda>strategyAddresses.
       tbind (getContractAddressWithJsonFallback (cid (bTokenImpl params)) poolName)
         (\<lambda>bTokenImplContractAddr.
       tbind (getContractAddressWithJsonFallback (cid C_DebtToken) poolName)
         (\<lambda>debtTokenImplContractAddr.
       tret (reserveSymbols @ [symbol],
             initInputParams @ [reserve_input tn collectorAddress symbol params
               bTokenImplContractAddr debtTokenImplContractAddr
               (the (oget strategyAddresses (strat_name (strategy params))))
               (the (oget tokenAddresses symbol))],
             strategyAddresses)))))"

definition send_chunks :: "contract \<Rightarrow> string \<Rightarrow> 'a list list \<Rightarrow> ('a list \<Rightarrow> jsval) \<Rightarrow> unit task" where
  "send_chunks configurator meth chunks f = tfor chunks (\<lambda>c. send configurator meth [f c])"

definition initReservesByHelper ::
  "IReserveParams jsobj \<Rightarrow> string jsobj \<Rightarrow> token_naming \<Rightarrow> string \<Rightarrow> jsval \<Rightarrow> string \<Rightarrow> bool \<Rightarrow> unit task" where
  "initReservesByHelper reservesParams tokenAddresses tn admin collectorAddress poolName verify =
     tbind (getLendPoolAddressesProvider None) (\<lambda>addressProvider.
     tbind (tfold reservesParams
       (init_reserve_step tokenAddresses tn collectorAddress poolName verify (c_address addressProvider))
       ([], [], [])) (\<lambda>(reserveSymbols, initInputParams, strategyAddresses).
     tbind (getLendPoolConfiguratorProxy None) (\<lambda>configurator.
     send_chunks configurator ''batchInitReserve'' (chunk initInputParams 1) JArr)))"

section \<open>Initialising NFTs\<close>

definition init_nft_inputs :: "INftParams jsobj \<Rightarrow> string jsobj \<Rightarrow> jsval list" where
  "init_nft_inputs nftsParams nftAddresses =
     map (\<lambda>(symbol, params). JObj [(''underlyingAsset'', JStr (the (oget nftAddresses symbol)))])
       (filter (\<lambda>(symbol, params). is_set nftAddresses symbol) nftsParams)"

definition initNftsByHelper ::
  "INftParams jsobj \<Rightarrow> string jsobj \<Rightarrow> string \<Rightarrow> string \<Rightarrow> bool \<Rightarrow> unit task" where
  "initNftsByHelper nftsParams nftAddresses admin poolName verify =
     tbind (getLendPoolAddressesProvider None) (\<lambda>addressProvider.
     tseq (view addressProvider ''getBNFTRegistry'' [])
     (tbind (getLendPoolConfiguratorProxy None) (\<lambda>configurator.
     send_chunks configurator ''batchInitNft'' (chunk (init_nft_inputs nftsParams nftAddresses) 1) JArr)))"

section \<open>Configuring reserves\<close>

text \<open>
  \<open>Object.entries(tokenAddresses)[Object.keys(tokenAddresses).findIndex(...)]\<close>, destructured.
\<close>

definition entry_at_key :: "string jsobj \<Rightarrow> string \<Rightarrow> string task" where
  "entry_at_key addresses symbol =
     (case js_at addresses (findIndex (\<lambda>v. v = symbol) (map fst addresses)) of
        None \<Rightarrow> tthrow JsTypeError | Some (_, a) \<Rightarrow> tret a)"

definition config_reserve_input :: "string \<Rightarrow> IReserveParams \<Rightarrow> jsval" where
  "config_reserve_input tokenAddress params = JObj [
     (''asset'', JStr tokenAddress),
     (''reserveFactor'', JStr (reserveFactor params)),
     (''maxUtilizationRate'', JStr (toFixed (75 / 100 * oneRay)))]"

definition configureReservesByHelper ::
  "IReserveParams jsobj \<Rightarrow> string jsobj \<Rightarrow> string \<Rightarrow> unit task" where
  "configureReservesByHelper reservesParams tokenAddresses admin =
     tbind (getLendPoolAddressesProvider None) (\<lambda>addressProvider.
     tbind (getLendPoolConfiguratorProxy None) (\<lambda>configuator.
     tbind (tfold reservesParams (\<lambda>(assetSymbol, params) (inputParams, assetsParams).
       if \<not> is_set tokenAddresses assetSymbol then tret (inputParams, assetsParams)
       else tbind (entry_at_key tokenAddresses assetSymbol) (\<lambda>tokenAddress.
         tret (inputParams @ [config_reserve_input tokenAddress params],
               if borrowingEnabled params then assetsParams @ [JStr tokenAddress] else assetsParams)))
       ([], [])) (\<lambda>(inputParams, assetsParams).
     twhen (inputParams \<noteq> [])
       (tseq (send_chunks configuator ''batchConfigReserve'' (chunk inputParams 20) JArr)
       (send configuator ''setBorrowingFlagOnReserve'' [JArr assetsParams, JBool True])))))"

section \<open>Configuring NFTs\<close>

definition config_nft_input :: "string \<Rightarrow> INftParams \<Rightarrow> jsval" where
  "config_nft_input tokenAddress p = JObj [
     (''asset'', JStr tokenAddress),
     (''baseLTV'', JStr (baseLTVAsCollateral p)),
     (''liquidationThreshold'', JStr (liquidationThreshold p)),
     (''liquidationBonus'', JStr (liquidationBonus p)),
     (''redeemDuration'', JStr (redeemDuration p)),
     (''auctionDuration'', JStr (auctionDuration p)),
     (''redeemFine'', JStr (redeemFine p)),
     (''redeemThreshold'', JStr (redeemThreshold p)),
     (''minBidFine'', JStr (minBidFine p)),
     (''maxSupply'', JStr (maxSupply p)),
     (''maxTokenId'', JStr (maxTokenId p)),
     (''maxCollateralCap'', JNum 100)]"

definition configureNftsByHelper ::
  "INftParams jsobj \<Rightarrow> string jsobj \<Rightarrow> string \<Rightarrow> unit task" where
  "configureNftsByHelper nftsParams nftAddresses admin =
     tbind (getLendPoolAddressesProvider None) (\<lambda>addressProvider.
     tbind (getLendPoolConfiguratorProxy None) (\<lambda>configuator.
     tbind (tfold nftsParams (\<lambda>(assetSymbol, params) inputParams.
       if \<not> is_set nftAddresses assetSymbol then tret inputParams
       else if baseLTVAsCollateral params = ''-1'' then tret inputParams
       else tbind (entry_at_key nftAddresses assetSymbol) (\<lambda>tokenAddress.
         tret (inputParams @ [config_nft_input tokenAddress params]))) []) (\<lambda>inputParams.
     twhen (inputParams \<noteq> [])
       (send_chunks configuator ''batchConfigNft'' (chunk inputParams 20) JArr))))"

section \<open>Pairs of assets and aggregators\<close>

text \<open>
  The second \<open>getPairsTokenAggregator\<close> of the helpers. It does not test the index, so a token
  without an aggregator destructures \<open>undefined\<close>.
\<close>

fun init_token_pairs :: "string jsobj \<Rightarrow> string jsobj \<Rightarrow> js_error + (string \<times> string) list" where
  "init_token_pairs [] aggregatorsAddresses = Inr []"
| "init_token_pairs ((tokenSymbol, tokenAddress) # rest) aggregatorsAddresses =
     (case js_at aggregatorsAddresses
             (findIndex (\<lambda>v. v = tokenSymbol) (map fst aggregatorsAddresses)) of
        None \<Rightarrow> Inl JsTypeError
      | Some (_, aggregatorAddress) \<Rightarrow>
          (case init_token_pairs rest aggregatorsAddresses of
             Inl e \<Rightarrow> Inl e
           | Inr pairs \<Rightarrow> Inr ((tokenAddress, aggregatorAddress) # pairs)))"

definition init_getPairsTokenAggregator ::
  "string jsobj \<Rightarrow> string jsobj \<Rightarrow> js_error + (string list \<times> string list)" where
  "init_getPairsTokenAggregator allAssetsAddresses aggregatorsAddresses =
     (let assetsAddressesWithoutEth =
            filter (\<lambda>(k, v). k \<noteq> ''ETH'' \<and> k \<noteq> ''WETH'') allAssetsAddresses in
      case init_token_pairs assetsAddressesWithoutEth aggregatorsAddresses of
        Inl e \<Rightarrow> Inl e
      | Inr pairs \<Rightarrow> Inr (map fst pairs, map snd pairs))"

lemma init_token_pairs_eq:
  "init_token_pairs assets aggs = (case token_pairs assets aggs of Inl e \<Rightarrow> Inl JsTypeError | Inr r \<Rightarrow> Inr r)"
proof (induction assets)
  case (Cons sa rest)
  obtain s a where "sa = (s, a)" by (cases sa)
  then show ?case
    using Cons by (cases "oget aggs s") (auto simp: js_simps Let_def findIndex_key_neg split: option.splits sum.splits)
qed simp

text \<open>The two functions named \<open>getPairsTokenAggregator\<close> agree wherever they return; where an asset has
  no aggregator, the one of the getters names it and the one of the initialisation helpers fails with
  a \<open>TypeError\<close>.\<close>

theorem getPairsTokenAggregator_versions:
  assumes "distinct (map fst assets)"
  shows "init_getPairsTokenAggregator assets aggs =
    (case getPairsTokenAggregator assets aggs quote of Inl e \<Rightarrow> Inl JsTypeError | Inr r \<Rightarrow> Inr r)"
proof -
  have "filter (\<lambda>(k, v). k \<noteq> ''ETH'' \<and> k \<noteq> ''WETH'') assets = omit assets (getQuoteCurrencies quote)"
    using assms by (simp add: omit_filter getQuoteCurrencies_def case_prod_unfold)
  then show ?thesis
    by (auto simp: init_getPairsTokenAggregator_def getPairsTokenAggregator_def init_token_pairs_eq Let_def
        split: sum.splits)
qed


theorem getPairsTokenAggregator_versions_witness:
  "init_getPairsTokenAggregator [(''DAI'', ''0x2''), (''USDC'', ''0x3'')] [(''DAI'', ''0xD'')] = Inl JsTypeError"
  using getPairsTokenAggregator_versions [of "[(''DAI'', ''0x2''), (''USDC'', ''0x3'')]" "[(''DAI'', ''0xD'')]" "''0x''"]
  by (simp add: getPairsTokenAggregator_def omit_def getQuoteCurrencies_def js_at_def Let_def)

end
