(* ===== verification/InitSpec.thy ===== *)
theory InitSpec
  imports InitHelpers
begin

text \<open>
  The specification of \<open>InitHelpers\<close>: which contracts the initialisation of a market deploys and which
  transactions it sends, as functions of the configuration, and the proofs that the helpers do so.
\<close>

section \<open>Sending in chunks\<close>

lemma send_chunks_does:
  "send_chunks c m chunks f w = (Inr u, w') \<Longrightarrow>
     does w w' (map (\<lambda>ch. Sent (c_address c) m [f ch]) chunks) []"
proof (induction chunks arbitrary: w)
  case Nil
  then show ?case by (simp add: send_chunks_def does_refl)
next
  case (Cons ch chunks)
  then obtain w1 where 1: "send c m [f ch] w = (Inr (), w1)"
    and 2: "send_chunks c m chunks f w1 = (Inr u, w')"
    by (auto simp: send_chunks_def task_returns)
  from does_trans [OF send_does [OF 1] Cons.IH [OF 2]] show ?case by simp
qed

lemma getter_returns:
  "connectOrDb i None w = (Inr c, w') \<Longrightarrow>
     quiet w w' \<and> (\<exists>e. db_get i w = Some e \<and> e_address e = c_address c)"
  using connectOrDb_returns [of i None w c w'] by simp

section \<open>Configuration of reserves and NFTs\<close>

text \<open>The entries of a configuration table whose asset has an address.\<close>

definition selected :: "string jsobj \<Rightarrow> 'p jsobj \<Rightarrow> 'p jsobj" where
  "selected addresses params = filter (\<lambda>(symbol, p). is_set addresses symbol) params"

lemma entry_at_key_set [simp]:
  "is_set addresses symbol \<Longrightarrow>
     entry_at_key addresses symbol w = (Inr (the (oget addresses symbol)), w)"
  by (auto simp: entry_at_key_def is_set_def js_simps truthy_opt_def split: option.splits)

lemma configureReserves_fold:
  "tfold ps (\<lambda>(assetSymbol, params) (inputParams, assetsParams).
       if \<not> is_set addresses assetSymbol then tret (inputParams, assetsParams)
       else tbind (entry_at_key addresses assetSymbol) (\<lambda>tokenAddress.
         tret (inputParams @ [config_reserve_input tokenAddress params],
               if borrowingEnabled params then assetsParams @ [JStr tokenAddress] else assetsParams)))
     (inputs, assets) w
   = (Inr (inputs @ map (\<lambda>(s, p). config_reserve_input (the (oget addresses s)) p) (selected addresses ps),
           assets @ map (\<lambda>(s, p). JStr (the (oget addresses s)))
             (filter (\<lambda>(s, p). borrowingEnabled p) (selected addresses ps))), w)"
proof (induction ps arbitrary: inputs assets)
  case Nil
  then show ?case by (simp add: selected_def)
next
  case (Cons sp ps)
  then show ?case
    by (cases sp) (auto simp: selected_def tbind_def)
qed

lemma configureReserves_does:
  assumes "configureReservesByHelper ps addresses admin w = (Inr u, w')"
  shows "\<exists>e. db_get (cid C_LendPoolConfigurator) w = Some e \<and>
    does w w' (if selected addresses ps = [] then [] else
      map (\<lambda>ch. Sent (e_address e) ''batchConfigReserve'' [JArr ch])
        (chunk (map (\<lambda>(s, p). config_reserve_input (the (oget addresses s)) p)
          (selected addresses ps)) 20) @
      [Sent (e_address e) ''setBorrowingFlagOnReserve''
        [JArr (map (\<lambda>(s, p). JStr (the (oget addresses s)))
           (filter (\<lambda>(s, p). borrowingEnabled p) (selected addresses ps))), JBool True]]) []"
proof -
  let ?inputs = "map (\<lambda>(s, p). config_reserve_input (the (oget addresses s)) p) (selected addresses ps)"
  let ?assets = "map (\<lambda>(s, p). JStr (the (oget addresses s)))
     (filter (\<lambda>(s, p). borrowingEnabled p) (selected addresses ps))"
  from assms obtain a w1 c w2 where 1: "getLendPoolAddressesProvider None w = (Inr a, w1)"
    and 2: "getLendPoolConfiguratorProxy None w1 = (Inr c, w2)"
    and 3: "twhen (?inputs \<noteq> [])
       (tseq (send_chunks c ''batchConfigReserve'' (chunk ?inputs 20) JArr)
       (send c ''setBorrowingFlagOnReserve'' [JArr ?assets, JBool True])) w2 = (Inr u, w')"
    unfolding configureReservesByHelper_def
    by (auto simp: tbind_returns configureReserves_fold)
  have q1: "quiet w w1"
    using getter_returns [OF 1 [unfolded getLendPoolAddressesProvider_def]] by simp
  from getter_returns [OF 2 [unfolded getLendPoolConfiguratorProxy_def]] obtain e where
    q2: "quiet w1 w2" and e: "db_get (cid C_LendPoolConfigurator) w1 = Some e" "e_address e = c_address c"
    by blast
  have e': "db_get (cid C_LendPoolConfigurator) w = Some e"
    using e(1) q1 does_db [of w w1 "[]" "[]"] by (simp add: quiet_def)
  have q: "quiet w w2" using q1 q2 by (rule qt.R_trans)
  show ?thesis
  proof (cases "selected addresses ps = []")
    case True
    with 3 q have "quiet w w'" by (simp add: twhen_def)
    with True e' show ?thesis by (auto simp: quiet_def)
  next
    case False
    with 3 obtain w3 where
      4: "send_chunks c ''batchConfigReserve'' (chunk ?inputs 20) JArr w2 = (Inr (), w3)"
      and 5: "send c ''setBorrowingFlagOnReserve'' [JArr ?assets, JBool True] w3 = (Inr u, w')"
      by (auto simp: twhen_def tseq_returns)
    from does_quiet_left [OF q does_trans [OF send_chunks_does [OF 4] send_does [OF 5]]] False e e'
    show ?thesis by auto
  qed
qed

definition configurable :: "string jsobj \<Rightarrow> INftParams jsobj \<Rightarrow> INftParams jsobj" where
  "configurable addresses ps =
     filter (\<lambda>(s, p). is_set addresses s \<and> baseLTVAsCollateral p \<noteq> ''-1'') ps"

lemma configureNfts_fold:
  "tfold ps (\<lambda>(assetSymbol, params) inputParams.
       if \<not> is_set addresses assetSymbol then tret inputParams
       else if baseLTVAsCollateral params = ''-1'' then tret inputParams
       else tbind (entry_at_key addresses assetSymbol) (\<lambda>tokenAddress.
         tret (inputParams @ [config_nft_input tokenAddress params]))) inputs w
   = (Inr (inputs @ map (\<lambda>(s, p). config_nft_input (the (oget addresses s)) p)
       (configurable addresses ps)), w)"
proof (induction ps arbitrary: inputs)
  case Nil
  then show ?case by (simp add: configurable_def)
next
  case (Cons sp ps)
  then show ?case
    by (cases sp) (auto simp: configurable_def tbind_def)
qed

lemma configureNfts_does:
  assumes "configureNftsByHelper ps addresses admin w = (Inr u, w')"
  shows "\<exists>e. db_get (cid C_LendPoolConfigurator) w = Some e \<and>
    does w w' (map (\<lambda>ch. Sent (e_address e) ''batchConfigNft'' [JArr ch])
      (chunk (map (\<lambda>(s, p). config_nft_input (the (oget addresses s)) p) (configurable addresses ps)) 20)) []"
proof -
  let ?inputs = "map (\<lambda>(s, p). config_nft_input (the (oget addresses s)) p) (configurable addresses ps)"
  from assms obtain a w1 c w2 where 1: "getLendPoolAddressesProvider None w = (Inr a, w1)"
    and 2: "getLendPoolConfiguratorProxy None w1 = (Inr c, w2)"
    and 3: "twhen (?inputs \<noteq> [])
       (send_chunks c ''batchConfigNft'' (chunk ?inputs 20) JArr) w2 = (Inr u, w')"
    unfolding configureNftsByHelper_def
    by (auto simp: tbind_returns configureNfts_fold)
  have q1: "quiet w w1"
    using getter_returns [OF 1 [unfolded getLendPoolAddressesProvider_def]] by simp
  from getter_returns [OF 2 [unfolded getLendPoolConfiguratorProxy_def]] obtain e where
    q2: "quiet w1 w2" and e: "db_get (cid C_LendPoolConfigurator) w1 = Some e" "e_address e = c_address c"
    by blast
  have e': "db_get (cid C_LendPoolConfigurator) w = Some e"
    using e(1) q1 does_db [of w w1 "[]" "[]"] by (simp add: quiet_def)
  have q: "quiet w w2" using q1 q2 by (rule qt.R_trans)
  show ?thesis
  proof (cases "configurable addresses ps = []")
    case True
    with 3 q have "quiet w w'" by (simp add: twhen_def)
    with True e' show ?thesis by (auto simp: quiet_def chunk_def)
  next
    case False
    with 3 have "send_chunks c ''batchConfigNft'' (chunk ?inputs 20) JArr w2 = (Inr u, w')"
      by (simp add: twhen_def)
    from does_quiet_left [OF q send_chunks_does [OF this]] e e' show ?thesis by auto
  qed
qed

section \<open>Initialisation of reserves\<close>

text \<open>The strategies to deploy: the first one of each name not seen before, in order.\<close>

fun first_strategies :: "string list \<Rightarrow> IReserveParams jsobj \<Rightarrow> IInterestRateStrategyParams list" where
  "first_strategies seen [] = []"
| "first_strategies seen ((s, p) # ps) =
     (if strat_name (strategy p) \<in> set seen then first_strategies seen ps
      else strategy p # first_strategies (strat_name (strategy p) # seen) ps)"

definition strategy_deployment :: "string \<Rightarrow> IInterestRateStrategyParams \<Rightarrow> string \<Rightarrow> effect" where
  "strategy_deployment provider s address =
     Deployed ''InterestRateFactory'' (map JStr (strategy_args provider s)) [] address"

text \<open>A node that gives every contract it deploys an address.\<close>

definition node_names_contracts :: "world \<Rightarrow> bool" where
  "node_names_contracts w \<longleftrightarrow>
     (\<forall>h s f args libs v. node w h (DeployTx s f args libs) = Inr v \<longrightarrow> js_str v \<noteq> [])"

text \<open>The address of an implementation: the market's, or the one in the database.\<close>

definition impl_at :: "string \<Rightarrow> eContractid \<Rightarrow> world \<Rightarrow> js_error + string" where
  "impl_at pool i w = fst (getContractAddressWithJsonFallback (cid i) pool w)"

lemma impl_at_does:
  assumes "does w w' es us" and "oget us (cid i) = None"
  shows "impl_at pool i w' = impl_at pool i w"
  using does_db [OF assms(1), of "cid i"] assms
  by (auto simp: impl_at_def getContractAddressWithJsonFallback_def getContractAddressInDb_def
      loadPoolConfig_def tbind_def missing_address_error_def getOptionalParamAddressPerNetwork_def
      does_addressParam [OF assms(1)] does_notFalsy [OF assms(1)] split: option.splits)

lemma fallback_world: "getContractAddressWithJsonFallback i pool w = (r, w') \<Longrightarrow> w' = w"
  by (auto simp: getContractAddressWithJsonFallback_def getContractAddressInDb_def loadPoolConfig_def
      tbind_def split: option.splits if_splits)

lemma deploySaved_named:
  assumes "deploySaved f args i v w = (Inr c, w')" and "node_names_contracts w"
  shows "c_address c \<noteq> []"
proof -
  from assms obtain s w1 a w2 where 1: "getDeploySigner w = (Inr s, w1)"
    and 2: "node w1 (hist w1) (DeployTx s f args []) = Inr a"
    and 3: "withSaveAndVerify \<lparr>c_address = js_str a, c_signer = s, c_deployTx = Some (length (hist w1))\<rparr>
        i args v w2 = (Inr c, w')"
    by (auto simp: deploySaved_def deployFactory_def task_returns ask_returns)
  have "node w1 = node w"
    using qt.run [OF getDeploySigner_quiet 1] by (auto simp: quiet_def dest: does_env)
  with assms(2) 2 have "js_str a \<noteq> []" by (auto simp: node_names_contracts_def)
  with withSave_does [OF 3] show ?thesis by auto
qed

text \<open>The strategy table after one reserve, and what was deployed for it.\<close>

lemma deploy_strategy_once_does:
  assumes "deploy_strategy_once provider s verify addrs w = (Inr addrs', w')"
    and "node_names_contracts w" and "\<not> truthy_opt (oget addrs (strat_name s))"
  shows "\<exists>a e. a \<noteq> [] \<and> addrs' = oset (strat_name s) a addrs \<and>
    does w w' [strategy_deployment provider s a]
      [(strat_name s, bare_entry a), (cid C_InterestRate, e)]"
proof -
  from assms(1,3) obtain c w1 where
    1: "deploySaved ''InterestRateFactory'' (map JStr (strategy_args provider s)) (cid C_InterestRate)
        verify w = (Inr c, w1)"
    and 2: "rawInsertContractAddressInDb (strat_name s) (c_address c) w1 = (Inr (), w')"
    and 3: "addrs' = oset (strat_name s) (c_address c) addrs"
    by (auto simp: deploy_strategy_once_def deployRateStrategy_def deployInterestRate_def
        deployInterestRateWithID_def task_returns simp del: cid.simps)
  from does_trans [OF deploySaved_does [OF 1] rawInsert_does [OF 2]] deploySaved_named [OF 1 assms(2)] 3
  show ?thesis unfolding strategy_deployment_def by auto
qed

lemma deploy_strategy_once_known:
  "truthy_opt (oget addrs (strat_name s)) \<Longrightarrow>
     deploy_strategy_once provider s verify addrs w = (Inr addrs, w)"
  by (simp add: deploy_strategy_once_def)

text \<open>
  The loop. \<open>seen\<close> are the strategies that have an address before it, \<open>keep\<close> identifiers of the database
  that no strategy is named like. The inputs are built from the final strategy table, since an entry
  of that table never changes once it is there.
\<close>

definition input_for ::
  "string jsobj \<Rightarrow> token_naming \<Rightarrow> jsval \<Rightarrow> string \<Rightarrow> world \<Rightarrow> string jsobj \<Rightarrow> string \<times> IReserveParams \<Rightarrow> jsval" where
  "input_for tokenAddresses tn collectorAddress pool w rates = (\<lambda>(symbol, p).
     reserve_input tn collectorAddress symbol p
       (projr (impl_at pool (bTokenImpl p) w)) (projr (impl_at pool C_DebtToken w))
       (the (oget rates (strat_name (strategy p)))) (the (oget tokenAddresses symbol)))"

lemma input_for_cong:
  assumes "impl_at pool (bTokenImpl (snd sp)) w = impl_at pool (bTokenImpl (snd sp)) v"
    and "impl_at pool C_DebtToken w = impl_at pool C_DebtToken v"
    and "oget rates (strat_name (strategy (snd sp))) = oget rates' (strat_name (strategy (snd sp)))"
  shows "input_for ta tn coll pool w rates sp = input_for ta tn coll pool v rates' sp"
  using assms by (cases sp) (simp add: input_for_def)

lemma init_reserve_step_returns:
  assumes "init_reserve_step ta tn coll pool verify prov (s, p) (syms, inps, addrs) w = (Inr st, w')"
    and "is_set ta s"
  shows "\<exists>addrs1. deploy_strategy_once prov (strategy p) verify addrs w = (Inr addrs1, w') \<and>
    st = (syms @ [s], inps @ [input_for ta tn coll pool w' addrs1 (s, p)], addrs1)"
proof -
  from assms obtain addrs1 w1 b w2 d where
    1: "deploy_strategy_once prov (strategy p) verify addrs w = (Inr addrs1, w1)"
    and b: "getContractAddressWithJsonFallback (cid (bTokenImpl p)) pool w1 = (Inr b, w2)"
    and d: "getContractAddressWithJsonFallback (cid C_DebtToken) pool w2 = (Inr d, w')"
    and st: "st = (syms @ [s], inps @ [reserve_input tn coll s p b d
        (the (oget addrs1 (strat_name (strategy p)))) (the (oget ta s))], addrs1)"
    by (auto simp: init_reserve_step_def task_returns simp del: cid.simps)
  have w: "w2 = w1" "w' = w2" using fallback_world [OF b] fallback_world [OF d] by simp_all
  with b d have "impl_at pool (bTokenImpl p) w' = Inr b" "impl_at pool C_DebtToken w' = Inr d"
    unfolding impl_at_def by simp_all
  with 1 st w show ?thesis by (simp add: input_for_def del: cid.simps)
qed

lemma init_reserves_fold:
  assumes "tfold ps (init_reserve_step ta tn coll pool verify prov) (syms, inps, addrs) w
      = (Inr (syms', inps', addrs'), w')"
    and "node_names_contracts w"
    and "\<forall>n. truthy_opt (oget addrs n) \<longleftrightarrow> n \<in> set seen"
    and "\<forall>(s, p) \<in> set ps. strat_name (strategy p) \<notin> keep \<and> cid (bTokenImpl p) \<in> keep"
    and "cid C_DebtToken \<in> keep" and "cid C_InterestRate \<notin> keep"
  shows "(\<exists>as us. length as = length (first_strategies seen (selected ta ps)) \<and>
       does w w' (map2 (strategy_deployment prov) (first_strategies seen (selected ta ps)) as) us \<and>
       (\<forall>i \<in> keep. oget us i = None) \<and>
       map (\<lambda>s. oget addrs' (strat_name s)) (first_strategies seen (selected ta ps)) = map Some as) \<and>
     (\<forall>n \<in> set seen. oget addrs' n = oget addrs n) \<and>
     inps' = inps @ map (input_for ta tn coll pool w addrs') (selected ta ps)"
  using assms(1-4)
proof (induction ps arbitrary: syms inps addrs w seen)
  case Nil
  then show ?case by (auto simp: selected_def intro: does_refl)
next
  case (Cons sp ps)
  obtain s p where sp: "sp = (s, p)" by (cases sp)
  from Cons.prems(1) obtain st w1 where
    1: "init_reserve_step ta tn coll pool verify prov (s, p) (syms, inps, addrs) w = (Inr st, w1)"
    and 2: "tfold ps (init_reserve_step ta tn coll pool verify prov) st w1 = (Inr (syms', inps', addrs'), w')"
    by (auto simp: sp tbind_returns)
  have keep': "\<forall>(s, p) \<in> set ps. strat_name (strategy p) \<notin> keep \<and> cid (bTokenImpl p) \<in> keep"
    using Cons.prems(4) by simp
  show ?case
  proof (cases "is_set ta s")
    case False
    with 1 have "st = (syms, inps, addrs)" "w1 = w" by (auto simp: init_reserve_step_def)
    with Cons.IH [OF 2 [unfolded this] Cons.prems(2,3) keep'] False show ?thesis
      by (simp add: selected_def sp)
  next
    case True
    let ?n = "strat_name (strategy p)"
    obtain addrs1 where once: "deploy_strategy_once prov (strategy p) verify addrs w = (Inr addrs1, w1)"
      and st: "st = (syms @ [s], inps @ [input_for ta tn coll pool w1 addrs1 (s, p)], addrs1)"
      using init_reserve_step_returns [OF 1 True] by blast
    have sel: "selected ta (sp # ps) = (s, p) # selected ta ps"
      using True by (simp add: selected_def sp)
    have nk: "?n \<notin> keep" "cid (bTokenImpl p) \<in> keep" using Cons.prems(4) by (simp_all add: sp)
    show ?thesis
    proof (cases "?n \<in> set seen")
      case seen: True
      with once Cons.prems(3) have "addrs1 = addrs" "w1 = w"
        by (simp_all add: deploy_strategy_once_known)
      note IH = Cons.IH [OF 2 [unfolded st this] Cons.prems(2,3) keep']
      then have "oget addrs' ?n = oget addrs ?n" using seen by blast
      then have "input_for ta tn coll pool w addrs (s, p) = input_for ta tn coll pool w addrs' (s, p)"
        by (intro input_for_cong) simp_all
      with IH \<open>addrs1 = addrs\<close> seen show ?thesis by (simp add: sel)
    next
      case new: False
      then have "\<not> truthy_opt (oget addrs ?n)" using Cons.prems(3) by simp
      from deploy_strategy_once_does [OF once Cons.prems(2) this] obtain a e where
        a: "a \<noteq> []" and addrs1: "addrs1 = oset ?n a addrs" and
        d1: "does w w1 [strategy_deployment prov (strategy p) a]
          [(?n, bare_entry a), (cid C_InterestRate, e)]" by blast
      have node1: "node_names_contracts w1"
        using Cons.prems(2) does_env [OF d1] by (simp add: node_names_contracts_def)
      have seen1: "\<forall>m. truthy_opt (oget addrs1 m) \<longleftrightarrow> m \<in> set (?n # seen)"
        using Cons.prems(3) a by (simp add: addrs1 js_simps)
      note IH = Cons.IH [OF 2 [unfolded st] node1 seen1 keep']
      then obtain as us where
        len: "length as = length (first_strategies (?n # seen) (selected ta ps))" and
        d2: "does w1 w' (map2 (strategy_deployment prov) (first_strategies (?n # seen) (selected ta ps)) as) us" and
        us: "\<forall>i \<in> keep. oget us i = None" and
        as: "map (\<lambda>s. oget addrs' (strat_name s)) (first_strategies (?n # seen) (selected ta ps)) = map Some as" by blast
      have imp: "impl_at pool i w1 = impl_at pool i w" if "cid i \<in> keep" for i
      proof -
        have "cid i \<noteq> ?n" "cid i \<noteq> cid C_InterestRate" using that nk assms(6) by metis+
        then show ?thesis using impl_at_does [OF d1, of i] by (simp del: cid.simps)
      qed
      have old: "\<forall>m \<in> set seen. oget addrs' m = oget addrs m"
        using IH new by (auto simp: addrs1 js_simps)
      have "oget addrs' ?n = oget addrs1 ?n" using IH by simp
      then have this_in: "input_for ta tn coll pool w1 addrs1 (s, p) = input_for ta tn coll pool w addrs' (s, p)"
        using nk assms(5) by (intro input_for_cong) (simp_all add: imp)
      have "input_for ta tn coll pool w1 addrs' tp = input_for ta tn coll pool w addrs' tp"
        if "tp \<in> set (selected ta ps)" for tp
        using that keep' assms(5) by (intro input_for_cong) (auto simp: imp selected_def)
      then have rest_in: "map (input_for ta tn coll pool w1 addrs') (selected ta ps)
          = map (input_for ta tn coll pool w addrs') (selected ta ps)" by simp
      have first: "first_strategies seen (selected ta (sp # ps)) =
          strategy p # first_strategies (?n # seen) (selected ta ps)" using new by (simp add: sel)
      have "does w w' (map2 (strategy_deployment prov) (first_strategies seen (selected ta (sp # ps))) (a # as))
          (us @ [(?n, bare_entry a), (cid C_InterestRate, e)])"
        using does_trans [OF d1 d2] by (simp add: first)
      moreover have "length (a # as) = length (first_strategies seen (selected ta (sp # ps)))"
        using len by (simp add: first)
      moreover have "oget addrs' ?n = Some a" using IH by (simp add: addrs1 js_simps)
      then have "map (\<lambda>s. oget addrs' (strat_name s)) (first_strategies seen (selected ta (sp # ps))) = map Some (a # as)"
        using as by (simp add: first)
      moreover have "\<forall>i \<in> keep. oget (us @ [(?n, bare_entry a), (cid C_InterestRate, e)]) i = None"
        using us nk assms(6) by (auto simp: map_add_def)
      ultimately have "\<exists>as us. length as = length (first_strategies seen (selected ta (sp # ps))) \<and>
          does w w' (map2 (strategy_deployment prov) (first_strategies seen (selected ta (sp # ps))) as) us \<and>
          (\<forall>i \<in> keep. oget us i = None) \<and>
          map (\<lambda>s. oget addrs' (strat_name s)) (first_strategies seen (selected ta (sp # ps))) = map Some as" by blast
      moreover have "inps' = inps @ map (input_for ta tn coll pool w addrs') (selected ta (sp # ps))"
        using IH this_in rest_in by (simp add: sel)
      ultimately show ?thesis using old by blast
    qed
  qed
qed

text \<open>A market none of whose strategies is named like a contract that the initialisation looks up.\<close>

definition names_apart :: "IReserveParams jsobj \<Rightarrow> bool" where
  "names_apart ps \<longleftrightarrow> (\<forall>(s, p) \<in> set ps. strat_name (strategy p) \<notin>
     {cid C_DebtToken, cid C_LendPoolConfigurator} \<union> (\<lambda>(s, q). cid (bTokenImpl q)) ` set ps) \<and>
     cid C_InterestRate \<notin> (\<lambda>(s, q). cid (bTokenImpl q)) ` set ps"

lemma first_strategies_names:
  "distinct (map strat_name (first_strategies seen ps)) \<and>
   set (map strat_name (first_strategies seen ps)) = (\<lambda>(s, p). strat_name (strategy p)) ` set ps - set seen"
  by (induction seen ps rule: first_strategies.induct) auto

text \<open>The table of the addresses that the strategies were deployed at, and the inputs it gives.\<close>

definition rate_table :: "IInterestRateStrategyParams list \<Rightarrow> string list \<Rightarrow> string jsobj" where
  "rate_table strategies addresses = zip (map strat_name strategies) addresses"

lemma rate_table_oget:
  assumes "map (\<lambda>s. oget r (strat_name s)) ss = map Some as" and "n \<in> strat_name ` set ss"
  shows "oget (rate_table ss as) n = oget r n"
  using assms
proof (induction ss arbitrary: as)
  case (Cons s ss)
  then obtain a as' where as: "as = a # as'" "oget r (strat_name s) = Some a"
    "map (\<lambda>s. oget r (strat_name s)) ss = map Some as'" by auto
  from Cons.IH [OF as(3)] Cons.prems(2) as(1,2) show ?case by (auto simp: rate_table_def)
qed simp

lemma input_for_table:
  assumes "map (\<lambda>s. oget r (strat_name s)) (first_strategies [] sel) = map Some as" and "sp \<in> set sel"
  shows "input_for ta tn coll pool w r sp = input_for ta tn coll pool w (rate_table (first_strategies [] sel) as) sp"
proof (rule input_for_cong [OF refl refl])
  have "strat_name (strategy (snd sp)) \<in> set (map strat_name (first_strategies [] sel))"
    using first_strategies_names [of "[]" sel] assms(2) by (cases sp) (auto simp: image_iff split: prod.splits)
  then show "oget r (strat_name (strategy (snd sp))) =
      oget (rate_table (first_strategies [] sel) as) (strat_name (strategy (snd sp)))"
    using rate_table_oget [OF assms(1)] by simp
qed

lemma initReserves_does:
  assumes "initReservesByHelper ps ta tn admin coll pool verify w = (Inr u, w')"
    and "node_names_contracts w" and "names_apart ps"
  shows "\<exists>provider configurator as us.
    db_get (cid C_LendPoolAddressesProvider) w = Some provider \<and>
    db_get (cid C_LendPoolConfigurator) w = Some configurator \<and>
    length as = length (first_strategies [] (selected ta ps)) \<and>
    does w w'
      (map2 (strategy_deployment (e_address provider)) (first_strategies [] (selected ta ps)) as @
       map (\<lambda>sp. Sent (e_address configurator) ''batchInitReserve''
         [JArr [input_for ta tn coll pool w (rate_table (first_strategies [] (selected ta ps)) as) sp]])
         (selected ta ps)) us \<and>
    oget us (cid C_LendPoolConfigurator) = None"
proof -
  let ?keep = "{cid C_DebtToken, cid C_LendPoolConfigurator} \<union> (\<lambda>(s, q). cid (bTokenImpl q)) ` set ps"
  from assms(1) obtain a w1 syms inps rates w2 c w3 where
    1: "getLendPoolAddressesProvider None w = (Inr a, w1)"
    and 2: "tfold ps (init_reserve_step ta tn coll pool verify (c_address a)) ([], [], []) w1
      = (Inr (syms, inps, rates), w2)"
    and 3: "getLendPoolConfiguratorProxy None w2 = (Inr c, w3)"
    and 4: "send_chunks c ''batchInitReserve'' (chunk inps 1) JArr w3 = (Inr u, w')"
    by (auto simp: initReservesByHelper_def task_returns)
  from getter_returns [OF 1 [unfolded getLendPoolAddressesProvider_def]] obtain pe where
    q1: "quiet w w1" and pe: "db_get (cid C_LendPoolAddressesProvider) w = Some pe"
      "e_address pe = c_address a" by blast
  have d0: "does w w1 [] []" using q1 by (simp add: quiet_def)
  have node1: "node_names_contracts w1"
    using assms(2) does_env [OF d0] by (simp add: node_names_contracts_def)
  have "cid (bTokenImpl p) \<in> ?keep" if "(s, p) \<in> set ps" for s p
    using that by (intro UnI2 rev_image_eqI [of "(s, p)"]) simp_all
  then have "\<forall>(s, p) \<in> set ps. strat_name (strategy p) \<notin> ?keep \<and> cid (bTokenImpl p) \<in> ?keep"
    using assms(3) unfolding names_apart_def by blast
  note k1 = this
  have k2: "cid C_DebtToken \<in> ?keep" "cid C_InterestRate \<notin> ?keep"
    using assms(3) unfolding names_apart_def by auto
  have k3: "\<forall>n. truthy_opt (oget ([] :: string jsobj) n) \<longleftrightarrow> n \<in> set []" by simp
  note fold = init_reserves_fold [OF 2 node1, of "[]" ?keep]
  let ?first = "first_strategies [] (selected ta ps)"
  have "(\<exists>as us. length as = length ?first \<and> does w1 w2 (map2 (strategy_deployment (c_address a)) ?first as) us \<and>
       (\<forall>i \<in> ?keep. oget us i = None) \<and> map (\<lambda>s. oget rates (strat_name s)) ?first = map Some as) \<and>
     (\<forall>n \<in> set []. oget rates n = oget [] n) \<and>
     inps = [] @ map (input_for ta tn coll pool w1 rates) (selected ta ps)"
    by (rule fold) (rule k1 k2 k3)+
  then obtain as us where len: "length as = length ?first"
    and d2: "does w1 w2 (map2 (strategy_deployment (c_address a)) ?first as) us"
    and us: "\<forall>i \<in> ?keep. oget us i = None"
    and as: "map (\<lambda>s. oget rates (strat_name s)) ?first = map Some as"
    and inps: "inps = map (input_for ta tn coll pool w1 rates) (selected ta ps)"
    by auto
  from getter_returns [OF 3 [unfolded getLendPoolConfiguratorProxy_def]] obtain ce where
    q3: "quiet w2 w3" and ce: "db_get (cid C_LendPoolConfigurator) w2 = Some ce"
      "e_address ce = c_address c" by blast
  have ce': "db_get (cid C_LendPoolConfigurator) w = Some ce"
    using ce(1) does_db [OF d2, of "cid C_LendPoolConfigurator"] does_db [OF d0] us by simp
  have "impl_at pool i w1 = impl_at pool i w" for i using impl_at_does [OF d0] by simp
  then have "inps = map (input_for ta tn coll pool w rates) (selected ta ps)"
    unfolding inps by (intro map_cong refl input_for_cong) simp_all
  then have inps': "inps = map (input_for ta tn coll pool w (rate_table ?first as)) (selected ta ps)"
    using input_for_table [OF as] by simp
  have "does w w' (map2 (strategy_deployment (c_address a)) ?first as @
     map (\<lambda>sp. Sent (c_address c) ''batchInitReserve''
         [JArr [input_for ta tn coll pool w (rate_table ?first as) sp]]) (selected ta ps)) us"
    using does_trans [OF does_quiet_right [OF does_quiet_left [OF q1 d2] q3] send_chunks_does [OF 4]]
    by (simp add: inps' chunk_one [simplified] comp_def)
  moreover have "oget us (cid C_LendPoolConfigurator) = None" using us by simp
  ultimately show ?thesis using pe ce ce' len by metis
qed

section \<open>Initialisation of NFTs\<close>

lemma initNfts_does:
  assumes "initNftsByHelper ps addresses admin pool verify w = (Inr u, w')"
  shows "\<exists>e. db_get (cid C_LendPoolConfigurator) w = Some e \<and>
    does w w' (map (\<lambda>ch. Sent (e_address e) ''batchInitNft'' [JArr ch])
      (chunk (init_nft_inputs ps addresses) 1)) []"
proof -
  from assms obtain a w1 v w2 c w3 where 1: "getLendPoolAddressesProvider None w = (Inr a, w1)"
    and 2: "view a ''getBNFTRegistry'' [] w1 = (Inr v, w2)"
    and 3: "getLendPoolConfiguratorProxy None w2 = (Inr c, w3)"
    and 4: "send_chunks c ''batchInitNft'' (chunk (init_nft_inputs ps addresses) 1) JArr w3 = (Inr u, w')"
    unfolding initNftsByHelper_def task_returns by blast
  have "quiet w w1" using getter_returns [OF 1 [unfolded getLendPoolAddressesProvider_def]] by simp
  moreover have "quiet w1 w2" using view_quiet 2 by (rule qt.run)
  ultimately have q2: "quiet w w2" by (rule qt.R_trans)
  from getter_returns [OF 3 [unfolded getLendPoolConfiguratorProxy_def]] obtain e where
    q3: "quiet w2 w3" and e: "db_get (cid C_LendPoolConfigurator) w2 = Some e" "e_address e = c_address c"
    by blast
  have "db_get (cid C_LendPoolConfigurator) w = Some e"
    using e(1) q2 does_db [of w w2 "[]" "[]"] by (simp add: quiet_def)
  with does_quiet_left [OF qt.R_trans [OF q2 q3] send_chunks_does [OF 4]] e(2) show ?thesis by auto
qed

section \<open>Counting the effects\<close>

definition is_deployment :: "effect \<Rightarrow> bool" where
  "is_deployment e = (case e of Deployed _ _ _ _ \<Rightarrow> True | Sent _ _ _ \<Rightarrow> False)"

text \<open>Initialising the reserves deploys one interest rate contract per strategy name among the reserves that
  have an address, however many of them share it, and sends one \<open>batchInitReserve\<close> per such reserve.\<close>

theorem one_rate_contract_per_strategy:
  assumes "initReservesByHelper ps addresses tn admin collector pool verify w = (Inr u, w')"
    and "node_names_contracts w" and "names_apart ps"
  shows "\<exists>es us. does w w' es us \<and>
    length (filter is_deployment es) = card ((\<lambda>(s, p). strat_name (strategy p)) ` set (selected addresses ps)) \<and>
    length (filter (\<lambda>e. \<not> is_deployment e) es) = length (selected addresses ps)"
proof -
  let ?first = "first_strategies [] (selected addresses ps)"
  from initReserves_does [OF assms] obtain pe ce :: db_entry and as us where len: "length as = length ?first"
    and d: "does w w' (map2 (strategy_deployment (e_address pe)) ?first as @
      map (\<lambda>sp. Sent (e_address ce) ''batchInitReserve''
        [JArr [input_for addresses tn collector pool w (rate_table ?first as) sp]]) (selected addresses ps)) us" by blast
  have "length (first_strategies [] (selected addresses ps)) =
      card (set (map strat_name (first_strategies [] (selected addresses ps))))"
    using first_strategies_names [of "[]" "selected addresses ps"] by (metis distinct_card length_map)
  also have "\<dots> = card ((\<lambda>(s, p). strat_name (strategy p)) ` set (selected addresses ps))"
    using first_strategies_names [of "[]" "selected addresses ps"] by simp
  finally show ?thesis
    using d len by (intro exI conjI)
      (auto simp: filter_map comp_def is_deployment_def strategy_deployment_def case_prod_beta)
qed

end
