(* ===== verification/ProxySpec.thy ===== *)
theory ProxySpec
  imports ProxyTasks InitSpec
begin

text \<open>
  What the tasks of \<open>ProxyTasks\<close> do: the locale \<open>proxied\<close> states what they need from the getter of the
  contract they put behind a proxy, and proves the effects of the shared step once; each getter is an
  interpretation.
\<close>

lemma deployBendUpgradeableProxy_does:
  assumes "deployBendUpgradeableProxy i admin logic data verify w = (Inr c, w')"
  shows "does w w' [Deployed ''BendUpgradeableProxyFactory'' [JStr logic, JStr admin, data] [] (c_address c)]
    [(i, entry_of c)]"
proof -
  from assms obtain c1 w1 hex w2 where
    1: "deployFactory ''BendUpgradeableProxyFactory'' [] [JStr logic, JStr admin, data] w = (Inr c1, w1)"
    and 2: "ask (External ''hexlify'' [data]) w1 = (Inr hex, w2)"
    and 3: "withSaveAndVerify c1 i [JStr logic, JStr admin, hex] verify w2 = (Inr c, w')"
    by (auto simp: deployBendUpgradeableProxy_def task_returns)
  have "quiet w1 w2" using ask_quiets(6) 2 by (rule qt.run)
  from does_trans [OF does_quiet_right [OF conjunct1 [OF deployFactory_does [OF 1]] this]
      conjunct2 [OF withSave_does [OF 3]]] withSave_does [OF 3]
  show ?thesis by simp
qed

lemma notFalsy_truthy: "notFalsyOrZeroAddress w a \<Longrightarrow> truthy_opt a \<and> a \<noteq> None"
  by (auto simp: notFalsyOrZeroAddress_def truthy_opt_def truthy_str_def split: option.splits if_splits)

locale proxied =
  fixes getter :: "string option \<Rightarrow> contract task"
    and i :: string
  assumes handle: "getter a w = (Inr c, w') \<Longrightarrow> quiet w w' \<and>
    (if truthy_opt a then c_address c = the a
     else \<exists>e. db_get i w = Some e \<and> e_address e = c_address c)"
begin

lemma existing_proxy:
  assumes run: "upgrade_or_deploy i existing adm signer impl data verify getter after w = (Inr c, w')"
    and valid: "notFalsyOrZeroAddress w existing"
  shows "c_address c = the existing \<and>
    does w w' [Sent (c_address adm) ''upgrade'' [JStr (the existing), JStr (c_address impl)]]
      [(i, bare_entry (the existing))]"
proof -
  from run valid obtain w1 s w2 w3 where
    1: "rawInsertContractAddressInDb i (the existing) w = (Inr (), w1)"
    and 2: "getDeploySigner w1 = (Inr s, w2)"
    and 3: "send (as_signer signer adm) ''upgrade'' [JStr (the existing), JStr (c_address impl)] w2 = (Inr (), w3)"
    and 4: "getter (Some (the existing)) w3 = (Inr c, w')"
    by (auto simp: upgrade_or_deploy_def task_returns getBendUpgradeableProxy_def connect_def)
  have t: "truthy_opt (Some (the existing))" using notFalsy_truthy [OF valid] by auto
  have "quiet w1 w2" using getDeploySigner_quiet 2 by (rule qt.run)
  from does_trans [OF does_quiet_right [OF rawInsert_does [OF 1] this] send_does [OF 3]]
  have "does w w3 [Sent (c_address adm) ''upgrade'' [JStr (the existing), JStr (c_address impl)]]
      [(i, bare_entry (the existing))]" by simp
  with handle [OF 4] t show ?thesis by (auto intro: does_quiet_right)
qed

lemma new_proxy:
  assumes run: "upgrade_or_deploy i existing adm signer impl data verify getter after w = (Inr c, w')"
    and invalid: "\<not> notFalsyOrZeroAddress w existing"
    and after: "\<And>v v'. after c v = (Inr (), v') \<Longrightarrow> does v v' es []"
  shows "\<exists>p. c_address c = c_address p \<and>
    does w w' (Deployed ''BendUpgradeableProxyFactory''
      [JStr (c_address impl), JStr (c_address adm), data] [] (c_address c) # es) [(i, entry_of p)]"
proof -
  from run invalid obtain p w1 w2 where
    1: "deployBendUpgradeableProxy i (c_address adm) (c_address impl) data verify w = (Inr p, w1)"
    and 2: "getter (Some (c_address p)) w1 = (Inr c, w2)"
    and 3: "after c w2 = (Inr (), w')"
    by (auto simp: upgrade_or_deploy_def task_returns)
  note d1 = deployBendUpgradeableProxy_does [OF 1]
  have same: "c_address c = c_address p"
    using handle [OF 2] does_db [OF d1, of i] by (auto simp: entry_of_def split: if_splits)
  then have "does w w' (Deployed ''BendUpgradeableProxyFactory''
      [JStr (c_address impl), JStr (c_address adm), data] [] (c_address c) # es) [(i, entry_of p)]"
    using does_trans [OF does_quiet_right [OF d1 conjunct1 [OF handle [OF 2]]] after [OF 3]] by simp
  with same show ?thesis by blast
qed

text \<open>Either way the contract the task goes on with is the proxy, and the database says so.\<close>

lemma proxy_step:
  assumes "upgrade_or_deploy i existing adm signer impl data verify getter after w = (Inr c, w')"
    and "\<And>v v'. after c v = (Inr (), v') \<Longrightarrow> does v v' es []"
  shows "\<exists>e. e_address e = c_address c \<and>
    does w w' (if notFalsyOrZeroAddress w existing
      then [Sent (c_address adm) ''upgrade'' [JStr (the existing), JStr (c_address impl)]]
      else Deployed ''BendUpgradeableProxyFactory''
        [JStr (c_address impl), JStr (c_address adm), data] [] (c_address c) # es) [(i, e)] \<and>
    (notFalsyOrZeroAddress w existing \<longrightarrow> c_address c = the existing)"
proof (cases "notFalsyOrZeroAddress w existing")
  case True
  from existing_proxy [OF assms(1) True] True show ?thesis
    by (intro exI [of _ "bare_entry (the existing)"]) (simp add: bare_entry_def)
next
  case False
  from new_proxy [OF assms(1) False assms(2)] obtain p where "c_address c = c_address p"
    and "does w w' (Deployed ''BendUpgradeableProxyFactory''
      [JStr (c_address impl), JStr (c_address adm), data] [] (c_address c) # es) [(i, entry_of p)]" by blast
  with False show ?thesis by (intro exI [of _ "entry_of p"]) (simp add: entry_of_def)
qed

end

interpretation nftOracle: proxied getNFTOracle "cid C_NFTOracle"
  by unfold_locales (unfold getNFTOracle_def, rule connectOrDb_returns)

interpretation reserveOracle: proxied getReserveOracle "cid C_ReserveOracle"
  by unfold_locales (unfold getReserveOracle_def, rule connectOrDb_returns)

interpretation tokenOracle: proxied getTokenOracle "cid C_TokenOracle"
  by unfold_locales (unfold getTokenOracle_def, rule connectOrDb_returns)

interpretation aggHelper: proxied getChainlinkAggregatorHelper "cid C_ChainlinkAggregatorHelper"
  by unfold_locales (unfold getChainlinkAggregatorHelper_def, rule connectOrDb_returns)

interpretation wethGateway: proxied getWETHGateway "cid C_WETHGateway"
  by unfold_locales (unfold getWETHGateway_def, rule connectOrDb_returns)

interpretation punkGateway: proxied getPunkGateway "cid C_PunkGateway"
  by unfold_locales (unfold getPunkGateway_def, rule connectOrDb_returns)

interpretation swapAdapter: proxied getUniswapV3DebtSwapAdapter "cid C_UniswapV3DebtSwapAdapter"
  by unfold_locales (unfold getUniswapV3DebtSwapAdapter_def, rule connectOrDb_returns)

interpretation wrapperGateway: proxied "getWrapperGateway i" i for i
  by unfold_locales (unfold getWrapperGateway_def, rule connectOrDb_returns)

section \<open>The shared steps\<close>

lemma run_compile_quiet: "obeys quiet run_compile"
  unfolding run_compile_def by (intro helper_quiet)

lemma require_chainId_quiet: "obeys quiet require_chainId"
  unfolding require_chainId_def by (intro helper_quiet)

lemma encodeFunctionData_quiet: "obeys quiet (encodeFunctionData f args)"
  unfolding encodeFunctionData_def by (intro helper_quiet)

text \<open>\<open>data\<close> is what the ABI coder answered for the call of \<open>f\<close> with the arguments \<open>args\<close>.\<close>

definition encoded :: "world \<Rightarrow> string \<Rightarrow> jsval list \<Rightarrow> jsval \<Rightarrow> bool" where
  "encoded w f args data \<longleftrightarrow> answered w (External ''encodeFunctionData'' [JStr f, JArr args]) data"

lemma encodeFunctionData_encoded: "encodeFunctionData f args w = (Inr data, w') \<Longrightarrow> encoded w f args data"
  unfolding encodeFunctionData_def encoded_def by (rule ask_answered)

lemma encoded_env: "does w w' es us \<Longrightarrow> encoded w' f args data = encoded w f args data"
  by (simp add: encoded_def answered_env)

lemma owner_signer_quiet: "obeys quiet (owner_signer c)"
  unfolding owner_signer_def by (intro helper_quiet)

lemma feed_admin_quiet: "obeys quiet (feed_admin c f)"
  unfolding feed_admin_def by (intro config_quiet)

lemma getBendProxyAdminById_quiet: "obeys quiet (getBendProxyAdminById i)"
  unfolding getBendProxyAdminById_def by (intro helper_quiet)

lemma valid_proxy_admin_quiet: "obeys quiet (valid_proxy_admin i m)"
  unfolding valid_proxy_admin_def by (intro helper_quiet getBendProxyAdminById_quiet)

lemmas shared_quiet = run_compile_quiet require_chainId_quiet encodeFunctionData_quiet
  owner_signer_quiet feed_admin_quiet getBendProxyAdminById_quiet valid_proxy_admin_quiet config_quiet

lemma quiet_db: "quiet w w' \<Longrightarrow> db_get i w' = db_get i w"
  by (simp add: quiet_def does_db)

lemma quiet_addressParam: "quiet w w' \<Longrightarrow> addressParam w' p = addressParam w p"
  by (simp add: quiet_def does_addressParam)

lemma quiet_notFalsy: "quiet w w' \<Longrightarrow> notFalsyOrZeroAddress w' a = notFalsyOrZeroAddress w a"
  by (simp add: quiet_def does_notFalsy)

lemma quiet_networkParam:
  "quiet w w' \<Longrightarrow> getParamPerNetwork (procenv w') p (net_name w') = getParamPerNetwork (procenv w) p (net_name w)"
  by (simp add: quiet_def does_env)

lemma valid_proxy_admin_returns:
  "valid_proxy_admin i m w = (Inr adm, w') \<Longrightarrow>
     quiet w w' \<and> (\<exists>e. db_get i w = Some e \<and> e_address e = c_address adm) \<and>
     notFalsyOrZeroAddress w (Some (c_address adm))"
  using qt.run [OF valid_proxy_admin_quiet, of i m w "Inr adm" w']
  by (auto simp: valid_proxy_admin_def task_returns getBendProxyAdminById_def quiet_notFalsy
      split: if_splits dest!: connectOrDb_returns)

section \<open>The tasks\<close>

lemma loadPoolConfig_returns: "loadPoolConfig pool w = (Inr c, w') \<Longrightarrow> w' = w"
  by (auto simp: loadPoolConfig_def split: if_splits)

lemma owner_send_does:
  assumes "tbind (owner_signer c) (\<lambda>s. send (as_signer s c) m args) v = (Inr (), v')"
  shows "does v v' [Sent (c_address c) m args] []"
proof -
  from assms obtain s v1 where 1: "owner_signer c v = (Inr s, v1)"
    and 2: "send (as_signer s c) m args v1 = (Inr (), v')" by (auto simp: task_returns)
  from does_quiet_left [OF qt.run [OF owner_signer_quiet 1] send_does [OF 2]] show ?thesis by simp
qed

lemma provider_send_does:
  assumes "tbind (getLendPoolAddressesProvider None) (\<lambda>p. send p m args) v = (Inr u, v')"
  shows "\<exists>e. db_get (cid C_LendPoolAddressesProvider) v = Some e \<and>
    does v v' [Sent (e_address e) m args] []"
proof -
  from assms obtain p v1 where 1: "getLendPoolAddressesProvider None v = (Inr p, v1)"
    and 2: "send p m args v1 = (Inr u, v')" by (auto simp: task_returns)
  from connectOrDb_returns [OF 1 [unfolded getLendPoolAddressesProvider_def]] obtain e where
    q: "quiet v v1" and "db_get (cid C_LendPoolAddressesProvider) v = Some e" "e_address e = c_address p"
    by auto
  with does_quiet_left [OF q send_does [OF 2]] show ?thesis by auto
qed

text \<open>What \<open>full:deploy-oracle-nft\<close> sends when it succeeds: the implementation, the upgrade of the configured
  proxy or a new proxy with the assets of the network, and, unless skipped, the address of the proxy to
  the address provider; the database ends with the addresses of the proxy and of the implementation.\<close>

theorem deploy_oracle_nft_does:
  assumes run: "deploy_oracle_nft verify pool False skipProvider feedAdmin w = (Inr u, w')"
    and cfg: "loadPoolConfig pool w = (Inr cfg, w)"
  defines "configured \<equiv> addressParam w (NFTOracle cfg)"
  shows "\<exists>adm assets impl orc data provider us.
    db_get (cid C_BendProxyAdminPool) w = Some adm \<and>
    getParamPerNetwork (procenv w) (NftsAssets cfg) (net_name w) = Some assets \<and>
    does w w' ([Deployed ''NFTOracleFactory'' [] [] impl] @
      (if notFalsyOrZeroAddress w configured
       then [Sent (e_address adm) ''upgrade'' [JStr (the configured), JStr impl]]
       else [Deployed ''BendUpgradeableProxyFactory'' [JStr impl, JStr (e_address adm), data] [] orc,
             Sent orc ''setAssets'' [JArr (map (\<lambda>(s, a). JStr a) assets)]]) @
      (if skipProvider then [] else [Sent provider ''setNFTOracle'' [JStr orc]])) us \<and>
    (notFalsyOrZeroAddress w configured \<longrightarrow> orc = the configured) \<and>
    map_option e_address (oget us (cid C_NFTOracle)) = Some orc \<and>
    map_option e_address (oget us (cid C_NFTOracleImpl)) = Some impl"
proof -
  from run cfg obtain w1 w2 adm w3 signer w4 fa w5 assets w6 impl w7 data w8 orc where
    1: "run_compile w = (Inr (), w1)" and
    2: "loadPoolConfig pool w1 = (Inr cfg, w1)" and
    3: "valid_proxy_admin (cid C_BendProxyAdminPool) ''Invalid pool proxy admin in config'' w1 = (Inr adm, w2)" and
    4: "owner_signer adm w2 = (Inr signer, w3)" and
    5: "feed_admin cfg feedAdmin w3 = (Inr fa, w4)" and
    6: "getParamPerNetwork (procenv w4) (NftsAssets cfg) (net_name w4) = Some assets" and
    7: "deployNFTOracle verify w4 = (Inr impl, w5)" and
    8: "encodeFunctionData ''initialize'' [opt_val fa, bn_pow10 2 17, bn_pow10 1 17,
         JNum 1800, JNum 600, JNum 21600, JNum 18] w5 = (Inr data, w6)" and
    9: "upgrade_or_deploy (cid C_NFTOracle) (addressParam w1 (NFTOracle cfg)) adm signer impl data verify
         getNFTOracle (\<lambda>nftOracle. tbind (owner_signer nftOracle) (\<lambda>s.
           send (as_signer s nftOracle) ''setAssets'' [JArr (map (\<lambda>(s, a). JStr a) assets)])) w6 = (Inr orc, w7)" and
    10: "twhen (\<not> skipProvider) (tbind (getLendPoolAddressesProvider None) (\<lambda>p.
          send p ''setNFTOracle'' [JStr (c_address orc)])) w7 = (Inr u, w')"
    by (auto simp: deploy_oracle_nft_def task_returns loadPoolConfig_def split: option.splits if_splits)
  have q1: "quiet w w1" using run_compile_quiet 1 by (rule qt.run)
  have q4: "quiet w w4" using q1 qt.run [OF valid_proxy_admin_quiet 3] qt.run [OF owner_signer_quiet 4]
      qt.run [OF feed_admin_quiet 5] by (meson qt.R_trans)
  have q6: "quiet w5 w6" using encodeFunctionData_quiet 8 by (rule qt.run)
  note d5 = does_quiet_left [OF q4 deployImpl_does [OF 7 [unfolded deployNFTOracle_def]]]
  note d6 = does_quiet_right [OF d5 q6]
  from valid_proxy_admin_returns [OF 3] obtain admE where
    adm: "db_get (cid C_BendProxyAdminPool) w = Some admE" "e_address admE = c_address adm"
    using quiet_db [OF q1] by auto
  have a1: "addressParam w1 (NFTOracle cfg) = configured"
    by (simp add: configured_def quiet_addressParam [OF q1])
  have v6: "notFalsyOrZeroAddress w6 = notFalsyOrZeroAddress w" by (rule does_notFalsy [OF d6])
  from nftOracle.proxy_step [OF 9 owner_send_does, unfolded a1 v6]
  obtain e where e: "e_address e = c_address orc" and
    d7: "does w6 w7 (if notFalsyOrZeroAddress w configured
      then [Sent (c_address adm) ''upgrade'' [JStr (the configured), JStr (c_address impl)]]
      else [Deployed ''BendUpgradeableProxyFactory'' [JStr (c_address impl), JStr (c_address adm), data] [] (c_address orc),
        Sent (c_address orc) ''setAssets'' [JArr (map (\<lambda>(s, a). JStr a) assets)]]) [(cid C_NFTOracle, e)]"
    and same: "notFalsyOrZeroAddress w configured \<longrightarrow> c_address orc = the configured"
    by blast
  obtain prov where d8: "does w7 w' (if skipProvider then []
      else [Sent prov ''setNFTOracle'' [JStr (c_address orc)]]) []"
    using 10 by (cases skipProvider) (auto simp: twhen_def does_refl dest: provider_send_does)
  note d = does_trans [OF does_trans [OF d6 d7] d8]
  show ?thesis
    using d adm same e 6 unfolding quiet_networkParam [OF q4, of "NftsAssets cfg"]
    by - (rule exI [of _ admE], rule exI [of _ assets], rule exI [of _ "c_address impl"],
        rule exI [of _ "c_address orc"], rule exI [of _ data], rule exI [of _ prov], rule exI,
        auto simp: bare_entry_def)
qed

lemma getWrappedNativeTokenAddress_does:
  assumes "getWrappedNativeTokenAddress cfg w = (Inr a, w')"
  defines "conf \<equiv> addressOn networkOrMainFork (WrappedNativeToken cfg) w"
  shows "\<exists>us. does w w' (if truthy_opt conf then [] else [Deployed ''WETH9Factory'' [] [] a]) us \<and>
    fst ` set us \<subseteq> {cid C_WETH} \<and> (truthy_opt conf \<longrightarrow> a = the conf)"
proof (cases "truthy_opt conf")
  case True
  with assms show ?thesis
    by (intro exI [of _ "[]"]) (auto simp: getWrappedNativeTokenAddress_def task_returns does_refl)
next
  case False
  with assms obtain c where "deployWETH9 False w = (Inr c, w')" "a = c_address c"
    by (auto simp: getWrappedNativeTokenAddress_def task_returns split: if_splits)
  from deploySaved_does [OF this(1) [unfolded deployWETH9_def]] this(2) False show ?thesis by force
qed

text \<open>C34: What \<open>full:deploy-weth-gateway\<close> does when it succeeds: it deploys a WETH token where none is configured, the
  implementation, and a new proxy of the implementation just deployed, whose initialisation encodes the address
  provider and the configured or deployed WETH; and it sends the address of this proxy to the address provider. The
  database ends with the addresses of both.\<close>

theorem deploy_weth_gateway_does:
  assumes run: "deploy_weth_gateway verify pool w = (Inr u, w')"
    and cfg: "loadPoolConfig pool w = (Inr cfg, w)"
  shows "\<exists>adm provider weth impl gateway data us.
    db_get (cid C_BendProxyAdminPool) w = Some adm \<and>
    db_get (cid C_LendPoolAddressesProvider) w = Some provider \<and>
    (truthy_opt (addressOn networkOrMainFork (WrappedNativeToken cfg) w) \<longrightarrow>
      weth = the (addressOn networkOrMainFork (WrappedNativeToken cfg) w)) \<and>
    encoded w ''initialize'' [JStr (e_address provider), JStr weth] data \<and>
    does w w' ((if truthy_opt (addressOn networkOrMainFork (WrappedNativeToken cfg) w) then []
        else [Deployed ''WETH9Factory'' [] [] weth]) @
      [Deployed ''WETHGatewayFactory'' [] [] impl,
       Deployed ''BendUpgradeableProxyFactory'' [JStr impl, JStr (e_address adm), data] [] gateway,
       Sent (e_address provider) ''setAddress'' [JStr ADDRESS_ID_WETH_GATEWAY, JStr gateway]]) us \<and>
    map_option e_address (oget us (cid C_WETHGateway)) = Some gateway \<and>
    map_option e_address (oget us (cid C_WETHGatewayImpl)) = Some impl"
proof -
  from run cfg obtain w1 w2 prov w3 adm w4 signer w5 weth w6 impl w7 data w8 gw w9 where
    1: "run_compile w = (Inr (), w1)" and
    2: "require_chainId w1 = (Inr (), w2)" and
    3: "getLendPoolAddressesProvider None w2 = (Inr prov, w3)" and
    4: "valid_proxy_admin (cid C_BendProxyAdminPool) ''Invalid pool proxy admin in config'' w3 = (Inr adm, w4)" and
    5: "owner_signer adm w4 = (Inr signer, w5)" and
    6: "getWrappedNativeTokenAddress cfg w5 = (Inr weth, w6)" and
    7: "deployWETHGateway verify w6 = (Inr impl, w7)" and
    8: "encodeFunctionData ''initialize'' [JStr (c_address prov), JStr weth] w7 = (Inr data, w8)" and
    9: "upgrade_or_deploy (cid C_WETHGateway) None adm signer impl data verify getWETHGateway
         (\<lambda>_. tret ()) w8 = (Inr gw, w9)" and
    10: "send prov ''setAddress'' [JStr ADDRESS_ID_WETH_GATEWAY, JStr (c_address gw)] w9 = (Inr u, w')"
    by (auto simp: deploy_weth_gateway_def task_returns loadPoolConfig_def split: if_splits)
  have q2: "quiet w w2" using qt.run [OF run_compile_quiet 1] qt.run [OF require_chainId_quiet 2]
    by (rule qt.R_trans)
  from connectOrDb_returns [OF 3 [unfolded getLendPoolAddressesProvider_def]] obtain pe where
    q3: "quiet w2 w3" and pe: "db_get (cid C_LendPoolAddressesProvider) w2 = Some pe" "e_address pe = c_address prov"
    by auto
  have q3': "quiet w w3" using q2 q3 by (rule qt.R_trans)
  from valid_proxy_admin_returns [OF 4] obtain ae where
    q4: "quiet w3 w4" and ae: "db_get (cid C_BendProxyAdminPool) w3 = Some ae" "e_address ae = c_address adm"
    by auto
  have q5: "quiet w w5" using q3' q4 qt.run [OF owner_signer_quiet 5] by (meson qt.R_trans)
  have "addressOn networkOrMainFork (WrappedNativeToken cfg) w5 = addressOn networkOrMainFork (WrappedNativeToken cfg) w"
    using q5 by (auto simp: quiet_def addressOn_def networkOrMainFork_def dest!: does_env)
  with getWrappedNativeTokenAddress_does [OF 6] obtain us where
    d6: "does w5 w6 (if truthy_opt (addressOn networkOrMainFork (WrappedNativeToken cfg) w) then []
        else [Deployed ''WETH9Factory'' [] [] weth]) us" and
    weth: "truthy_opt (addressOn networkOrMainFork (WrappedNativeToken cfg) w) \<longrightarrow>
      weth = the (addressOn networkOrMainFork (WrappedNativeToken cfg) w)" by auto
  note d7 = deployImpl_does [OF 7 [unfolded deployWETHGateway_def]]
  have q8: "quiet w7 w8" using encodeFunctionData_quiet 8 by (rule qt.run)
  have no: "\<not> notFalsyOrZeroAddress w8 None" by (simp add: notFalsyOrZeroAddress_def)
  from wethGateway.new_proxy [OF 9 no, of "[]"] obtain p where p: "c_address gw = c_address p" and
    d9: "does w8 w9 [Deployed ''BendUpgradeableProxyFactory''
      [JStr (c_address impl), JStr (c_address adm), data] [] (c_address gw)] [(cid C_WETHGateway, entry_of p)]"
    by (auto simp: does_refl)
  have data: "encoded w ''initialize'' [JStr (c_address prov), JStr weth] data"
    using encodeFunctionData_encoded [OF 8] encoded_env [OF does_trans [OF does_quiet_left [OF q5 d6] d7]] by simp
  note d = does_trans [OF does_trans [OF does_quiet_right [OF does_trans [OF does_quiet_left [OF q5 d6] d7] q8] d9]
    send_does [OF 10]]
  show ?thesis
    using d p pe ae weth data unfolding quiet_db [OF q2] quiet_db [OF q3']
    by - (rule exI [of _ ae], rule exI [of _ pe], rule exI [of _ weth], rule exI [of _ "c_address impl"],
        rule exI [of _ "c_address gw"], rule exI [of _ data], rule exI,
        auto simp: bare_entry_def entry_of_def)
qed

lemma getBendProxyAdminById_returns:
  "getBendProxyAdminById i w = (Inr adm, w') \<Longrightarrow>
     quiet w w' \<and> (\<exists>e. db_get i w = Some e \<and> e_address e = c_address adm)"
  using connectOrDb_returns [of i None] by (auto simp: getBendProxyAdminById_def)

lemma provider_returns:
  "getLendPoolAddressesProvider None w = (Inr p, w') \<Longrightarrow>
     quiet w w' \<and> (\<exists>e. db_get (cid C_LendPoolAddressesProvider) w = Some e \<and> e_address e = c_address p)"
  using connectOrDb_returns [of _ None] by (auto simp: getLendPoolAddressesProvider_def)

lemma tryGet_returns:
  "tryGetContractAddressInDb i w = (Inr a, w') \<Longrightarrow> w' = w \<and>
     a = (case db_get i w of Some e \<Rightarrow> if e_address e \<noteq> [] then e_address e else ZERO_ADDRESS | None \<Rightarrow> ZERO_ADDRESS)"
  by (auto simp: tryGetContractAddressInDb_def task_returns split: option.splits if_splits)

text \<open>\<open>dev:deploy-aggregator-helper\<close> deploys an implementation, and upgrades the proxy whose address the
  database holds, or deploys one; so running it again upgrades the proxy of the first run. The database
  ends with the address of the proxy.\<close>

theorem deploy_aggregator_helper_does:
  assumes run: "deploy_aggregator_helper verify pool w = (Inr u, w')"
  defines "saved \<equiv> (case db_get (cid C_ChainlinkAggregatorHelper) w of
      Some e \<Rightarrow> if e_address e \<noteq> [] then e_address e else ZERO_ADDRESS | None \<Rightarrow> ZERO_ADDRESS)"
  shows "\<exists>adm impl helper data us.
    db_get (cid C_BendProxyAdminPool) w = Some adm \<and>
    does w w' (Deployed ''ChainlinkAggregatorHelperFactory'' [] [] impl #
      (if notFalsyOrZeroAddress w (Some saved)
       then [Sent (e_address adm) ''upgrade'' [JStr saved, JStr impl]]
       else [Deployed ''BendUpgradeableProxyFactory'' [JStr impl, JStr (e_address adm), data] [] helper])) us \<and>
    (notFalsyOrZeroAddress w (Some saved) \<longrightarrow> helper = saved) \<and>
    map_option e_address (oget us (cid C_ChainlinkAggregatorHelper)) = Some helper"
proof -
  from run obtain cfg w1 prov w2 helper0 w3 adm w4 signer w5 impl w6 data w7 c where
    1: "run_compile w = (Inr (), w1)" and
    2: "getLendPoolAddressesProvider None w1 = (Inr prov, w2)" and
    3: "tryGetContractAddressInDb (cid C_ChainlinkAggregatorHelper) w2 = (Inr helper0, w3)" and
    4: "getBendProxyAdminById (cid C_BendProxyAdminPool) w3 = (Inr adm, w4)" and
    5: "owner_signer adm w4 = (Inr signer, w5)" and
    6: "deployChainlinkAggregatorHelper (JArr []) verify w5 = (Inr impl, w6)" and
    7: "encodeFunctionData ''initialize'' [JStr (c_address prov)] w6 = (Inr data, w7)" and
    8: "upgrade_or_deploy (cid C_ChainlinkAggregatorHelper) (Some helper0) adm signer impl data verify
         getChainlinkAggregatorHelper (\<lambda>_. tret ()) w7 = (Inr c, w')"
    unfolding deploy_aggregator_helper_def by (auto simp: task_returns dest!: loadPoolConfig_returns simp del: cid.simps)
  have q2: "quiet w w2" using qt.run [OF run_compile_quiet 1] provider_returns [OF 2] by (meson qt.R_trans)
  from tryGet_returns [OF 3] have h: "w3 = w2" "helper0 = saved" by (simp_all add: saved_def quiet_db [OF q2])
  from getBendProxyAdminById_returns [OF 4] obtain ae where q4: "quiet w3 w4"
    and ae: "db_get (cid C_BendProxyAdminPool) w3 = Some ae" "e_address ae = c_address adm" by blast
  have q5: "quiet w w5" using q2 q4 h qt.run [OF owner_signer_quiet 5] by (meson qt.R_trans)
  note d6 = does_quiet_right [OF does_quiet_left [OF q5 deployImpl_does [OF 6 [unfolded deployChainlinkAggregatorHelper_def]]]
      qt.run [OF encodeFunctionData_quiet 7]]
  have idle: "\<And>v v'. (tret () :: unit task) v = (Inr (), v') \<Longrightarrow> does v v' [] []" by (simp add: does_refl)
  from aggHelper.proxy_step [OF 8 idle, unfolded does_notFalsy [OF d6] h(2) option.sel] obtain e where
    e: "e_address e = c_address c" and
    d8: "does w7 w' (if notFalsyOrZeroAddress w (Some saved)
      then [Sent (c_address adm) ''upgrade'' [JStr saved, JStr (c_address impl)]]
      else [Deployed ''BendUpgradeableProxyFactory'' [JStr (c_address impl), JStr (c_address adm), data] [] (c_address c)])
      [(cid C_ChainlinkAggregatorHelper, e)]" and
    same: "notFalsyOrZeroAddress w (Some saved) \<longrightarrow> c_address c = saved"
    by blast
  show ?thesis
    using does_trans [OF d6 d8] ae same e h quiet_db [OF q2]
    by - (rule exI [of _ ae], rule exI [of _ "c_address impl"], rule exI [of _ "c_address c"],
        rule exI [of _ data], rule exI, auto)
qed

text \<open>The tokens with their aggregators that \<open>full:deploy-oracle-reserve\<close> sets on a network.\<close>

definition reserve_pairs :: "ICommonConfiguration \<Rightarrow> world \<Rightarrow> (js_error + (string list \<times> string list)) option" where
  "reserve_pairs cfg w = map_option (\<lambda>aggregators. getPairsTokenAggregator
     (oset ''USD'' (UsdAddress (ProtocolGlobalParams cfg))
       (case getParamPerNetwork (procenv w) (ReserveAssets cfg) (net_name w) of None \<Rightarrow> [] | Some assets \<Rightarrow> assets))
     aggregators (OracleQuoteCurrency cfg))
   (getParamPerNetwork (procenv w) (ReserveAggregators cfg) (net_name w))"

lemma reserve_pairs_quiet: "quiet w w' \<Longrightarrow> reserve_pairs cfg w' = reserve_pairs cfg w"
  by (simp add: reserve_pairs_def quiet_networkParam)

text \<open>Until it deploys the implementation, \<open>full:deploy-oracle-reserve\<close> only reads.\<close>

lemma oracle_reserve_reads:
  assumes run: "deploy_oracle_reserve verify False pool w = (Inr u, w')"
    and cfg: "loadPoolConfig pool w = (Inr cfg, w)"
  obtains ae pe tokens aggregators prov adm signer w4 where
    "db_get (cid C_BendProxyAdminPool) w = Some ae" "e_address ae = c_address adm"
    "db_get (cid C_LendPoolAddressesProvider) w = Some pe" "e_address pe = c_address prov"
    "reserve_pairs cfg w = Some (Inr (tokens, aggregators))" "quiet w w4"
    "tbind (getWrappedNativeTokenAddress cfg) (\<lambda>weth.
       tbind (deployReserveOracle (JArr []) verify) (\<lambda>impl.
       tbind (encodeFunctionData ''initialize'' [JStr weth]) (\<lambda>data.
       tbind (upgrade_or_deploy (cid C_ReserveOracle) (addressParam w (ReserveOracle cfg)) adm signer impl data verify
         getReserveOracle (\<lambda>reserveOracle. tbind (owner_signer reserveOracle) (\<lambda>s.
           send (as_signer s reserveOracle) ''setAggregators''
             [JArr (map JStr tokens), JArr (map JStr aggregators)]))) (\<lambda>c.
       send prov ''setReserveOracle'' [JStr (c_address c)])))) w4 = (Inr u, w')"
proof -
  from run cfg obtain w1 prov w2 adm w3 signer w4 tokens aggregators where
    1: "run_compile w = (Inr (), w1)" and
    2: "getLendPoolAddressesProvider None w1 = (Inr prov, w2)" and
    3: "getBendProxyAdminById (cid C_BendProxyAdminPool) w2 = (Inr adm, w3)" and
    4: "owner_signer adm w3 = (Inr signer, w4)" and
    5: "reserve_pairs cfg w4 = Some (Inr (tokens, aggregators))" and
    6: "tbind (getWrappedNativeTokenAddress cfg) (\<lambda>weth.
       tbind (deployReserveOracle (JArr []) verify) (\<lambda>impl.
       tbind (encodeFunctionData ''initialize'' [JStr weth]) (\<lambda>data.
       tbind (upgrade_or_deploy (cid C_ReserveOracle) (addressParam w2 (ReserveOracle cfg)) adm signer impl data verify
         getReserveOracle (\<lambda>reserveOracle. tbind (owner_signer reserveOracle) (\<lambda>s.
           send (as_signer s reserveOracle) ''setAggregators''
             [JArr (map JStr tokens), JArr (map JStr aggregators)]))) (\<lambda>c.
       send prov ''setReserveOracle'' [JStr (c_address c)])))) w4 = (Inr u, w')"
    unfolding deploy_oracle_reserve_def reserve_pairs_def
    by (auto simp: task_returns loadPoolConfig_def Let_def simp del: cid.simps
        split: option.splits if_splits sum.splits prod.splits)
  have q1: "quiet w w1" using run_compile_quiet 1 by (rule qt.run)
  from provider_returns [OF 2] q1 have q2: "quiet w w2" by (meson qt.R_trans)
  from getBendProxyAdminById_returns [OF 3] q2 have "quiet w w3" by (meson qt.R_trans)
  then have q4: "quiet w w4" using qt.run [OF owner_signer_quiet 4] by (rule qt.R_trans)
  from provider_returns [OF 2] getBendProxyAdminById_returns [OF 3] obtain pe ae where
    "db_get (cid C_LendPoolAddressesProvider) w = Some pe" "e_address pe = c_address prov"
    "db_get (cid C_BendProxyAdminPool) w = Some ae" "e_address ae = c_address adm"
    unfolding quiet_db [OF q1] quiet_db [OF q2] by blast
  then show ?thesis
    using that 5 q4 6 unfolding reserve_pairs_quiet [OF q4] quiet_addressParam [OF q2] by blast
qed

lemma oracle_reserve_deploys:
  assumes run: "deploy_oracle_reserve verify False pool w = (Inr u, w')"
    and cfg: "loadPoolConfig pool w = (Inr cfg, w)"
  defines "configured \<equiv> addressParam w (ReserveOracle cfg)"
  shows "\<exists>provider adm tokens aggregators weth impl orc data us.
    db_get (cid C_LendPoolAddressesProvider) w = Some provider \<and>
    db_get (cid C_BendProxyAdminPool) w = Some adm \<and>
    reserve_pairs cfg w = Some (Inr (tokens, aggregators)) \<and>
    (truthy_opt (addressOn networkOrMainFork (WrappedNativeToken cfg) w) \<longrightarrow>
      weth = the (addressOn networkOrMainFork (WrappedNativeToken cfg) w)) \<and>
    encoded w ''initialize'' [JStr weth] data \<and>
    does w w' ((if truthy_opt (addressOn networkOrMainFork (WrappedNativeToken cfg) w) then []
        else [Deployed ''WETH9Factory'' [] [] weth]) @
      Deployed ''ReserveOracleFactory'' [] [] impl #
      (if notFalsyOrZeroAddress w configured
       then [Sent (e_address adm) ''upgrade'' [JStr (the configured), JStr impl]]
       else [Deployed ''BendUpgradeableProxyFactory'' [JStr impl, JStr (e_address adm), data] [] orc,
             Sent orc ''setAggregators'' [JArr (map JStr tokens), JArr (map JStr aggregators)]]) @
      [Sent (e_address provider) ''setReserveOracle'' [JStr orc]]) us \<and>
    (notFalsyOrZeroAddress w configured \<longrightarrow> orc = the configured) \<and>
    map_option e_address (oget us (cid C_ReserveOracle)) = Some orc \<and>
    map_option e_address (oget us (cid C_ReserveOracleImpl)) = Some impl"
proof -
  obtain ae pe tokens aggregators prov adm signer w4 where
    ae: "db_get (cid C_BendProxyAdminPool) w = Some ae" "e_address ae = c_address adm" and
    pe: "db_get (cid C_LendPoolAddressesProvider) w = Some pe" "e_address pe = c_address prov" and
    pairs: "reserve_pairs cfg w = Some (Inr (tokens, aggregators))" and q4: "quiet w w4" and
    rest: "tbind (getWrappedNativeTokenAddress cfg) (\<lambda>weth.
       tbind (deployReserveOracle (JArr []) verify) (\<lambda>impl.
       tbind (encodeFunctionData ''initialize'' [JStr weth]) (\<lambda>data.
       tbind (upgrade_or_deploy (cid C_ReserveOracle) configured adm signer impl data verify
         getReserveOracle (\<lambda>reserveOracle. tbind (owner_signer reserveOracle) (\<lambda>s.
           send (as_signer s reserveOracle) ''setAggregators''
             [JArr (map JStr tokens), JArr (map JStr aggregators)]))) (\<lambda>c.
       send prov ''setReserveOracle'' [JStr (c_address c)])))) w4 = (Inr u, w')"
    unfolding configured_def by (rule oracle_reserve_reads [OF run cfg])
  from rest obtain weth w5 impl w6 data w7 c w8 where
    6: "getWrappedNativeTokenAddress cfg w4 = (Inr weth, w5)" and
    7: "deployReserveOracle (JArr []) verify w5 = (Inr impl, w6)" and
    8: "encodeFunctionData ''initialize'' [JStr weth] w6 = (Inr data, w7)" and
    9: "upgrade_or_deploy (cid C_ReserveOracle) configured adm signer impl data verify
         getReserveOracle (\<lambda>reserveOracle. tbind (owner_signer reserveOracle) (\<lambda>s.
           send (as_signer s reserveOracle) ''setAggregators''
             [JArr (map JStr tokens), JArr (map JStr aggregators)])) w7 = (Inr c, w8)" and
    10: "send prov ''setReserveOracle'' [JStr (c_address c)] w8 = (Inr u, w')"
    by (auto simp: tbind_returns simp del: cid.simps)
  have conf: "addressOn networkOrMainFork (WrappedNativeToken cfg) w4 = addressOn networkOrMainFork (WrappedNativeToken cfg) w"
    using q4 by (auto simp: quiet_def addressOn_def networkOrMainFork_def dest!: does_env)
  from getWrappedNativeTokenAddress_does [OF 6, unfolded conf] obtain us5 where
    d5: "does w4 w5 (if truthy_opt (addressOn networkOrMainFork (WrappedNativeToken cfg) w) then []
        else [Deployed ''WETH9Factory'' [] [] weth]) us5" and
    weth: "truthy_opt (addressOn networkOrMainFork (WrappedNativeToken cfg) w) \<longrightarrow>
      weth = the (addressOn networkOrMainFork (WrappedNativeToken cfg) w)" by blast
  note d6 = does_trans [OF does_quiet_left [OF q4 d5] deployImpl_does [OF 7 [unfolded deployReserveOracle_def]]]
  note d7 = does_quiet_right [OF d6 qt.run [OF encodeFunctionData_quiet 8]]
  have data: "encoded w ''initialize'' [JStr weth] data"
    using encodeFunctionData_encoded [OF 8] encoded_env [OF d6] by simp
  from reserveOracle.proxy_step [OF 9 owner_send_does, unfolded does_notFalsy [OF d7]] obtain e where
    e: "e_address e = c_address c" and
    d8: "does w7 w8 (if notFalsyOrZeroAddress w configured
      then [Sent (c_address adm) ''upgrade'' [JStr (the configured), JStr (c_address impl)]]
      else [Deployed ''BendUpgradeableProxyFactory'' [JStr (c_address impl), JStr (c_address adm), data] [] (c_address c),
        Sent (c_address c) ''setAggregators'' [JArr (map JStr tokens), JArr (map JStr aggregators)]])
      [(cid C_ReserveOracle, e)]" and
    same: "notFalsyOrZeroAddress w configured \<longrightarrow> c_address c = the configured" by blast
  note d = does_trans [OF does_trans [OF d7 d8] send_does [OF 10]]
  show ?thesis
    using d ae pe pairs same e weth data unfolding append_assoc append_Nil append_Cons
    by - (rule exI [of _ pe], rule exI [of _ ae], rule exI [of _ tokens], rule exI [of _ aggregators],
        rule exI [of _ weth], rule exI [of _ "c_address impl"], rule exI [of _ "c_address c"], rule exI [of _ data],
        rule exI, intro conjI, assumption, assumption, assumption, assumption, assumption, simp only:, assumption,
        simp, simp add: bare_entry_def)
qed

lemma oracle_reserve_skipped:
  assumes run: "deploy_oracle_reserve verify True pool w = (Inr u, w')"
    and cfg: "loadPoolConfig pool w = (Inr cfg, w)"
  shows "\<exists>provider. db_get (cid C_LendPoolAddressesProvider) w = Some provider \<and>
    notFalsyOrZeroAddress w (addressParam w (ReserveOracle cfg)) \<and>
    does w w' [Sent (e_address provider) ''setReserveOracle'' [JStr (the (addressParam w (ReserveOracle cfg)))]] []"
proof -
  from run cfg obtain w1 prov w2 where 1: "run_compile w = (Inr (), w1)"
    and 2: "getLendPoolAddressesProvider None w1 = (Inr prov, w2)"
    and v: "notFalsyOrZeroAddress w2 (addressParam w2 (ReserveOracle cfg))"
    and 3: "send prov ''setReserveOracle'' [JStr (the (addressParam w2 (ReserveOracle cfg)))] w2 = (Inr u, w')"
    unfolding deploy_oracle_reserve_def
    by (auto simp: task_returns loadPoolConfig_def simp del: cid.simps split: if_splits)
  have q1: "quiet w w1" using run_compile_quiet 1 by (rule qt.run)
  with provider_returns [OF 2] have q2: "quiet w w2" by (meson qt.R_trans)
  show ?thesis
    using does_quiet_left [OF q2 send_does [OF 3]] provider_returns [OF 2] v
    unfolding quiet_db [OF q1] quiet_addressParam [OF q2] quiet_notFalsy [OF q2] by auto
qed

text \<open>C21: What \<open>full:deploy-oracle-reserve\<close> does when it succeeds. If the oracle is skipped, it sends the address
  provider the configured oracle, which must be valid, and nothing else. Otherwise it deploys, in this order, a WETH where none is
  configured and the implementation; then it upgrades the configured proxy to the implementation just deployed, or
  deploys a proxy of it that is initialised with the WETH and gets the aggregators of the market's assets and of USD;
  and it sends the address of this proxy to the address provider. The database ends with the addresses of both.\<close>

theorem deploy_oracle_reserve_does:
  assumes run: "deploy_oracle_reserve verify skipOracle pool w = (Inr u, w')"
    and cfg: "loadPoolConfig pool w = (Inr cfg, w)"
  defines "configured \<equiv> addressParam w (ReserveOracle cfg)"
  defines "conf_weth \<equiv> addressOn networkOrMainFork (WrappedNativeToken cfg) w"
  shows "\<exists>provider. db_get (cid C_LendPoolAddressesProvider) w = Some provider \<and>
    (if skipOracle
     then notFalsyOrZeroAddress w configured \<and>
       does w w' [Sent (e_address provider) ''setReserveOracle'' [JStr (the configured)]] []
     else \<exists>adm tokens aggregators weth impl orc data us.
       db_get (cid C_BendProxyAdminPool) w = Some adm \<and>
       reserve_pairs cfg w = Some (Inr (tokens, aggregators)) \<and>
       (truthy_opt conf_weth \<longrightarrow> weth = the conf_weth) \<and> encoded w ''initialize'' [JStr weth] data \<and>
       does w w' ((if truthy_opt conf_weth then [] else [Deployed ''WETH9Factory'' [] [] weth]) @
         Deployed ''ReserveOracleFactory'' [] [] impl #
         (if notFalsyOrZeroAddress w configured
          then [Sent (e_address adm) ''upgrade'' [JStr (the configured), JStr impl]]
          else [Deployed ''BendUpgradeableProxyFactory'' [JStr impl, JStr (e_address adm), data] [] orc,
                Sent orc ''setAggregators'' [JArr (map JStr tokens), JArr (map JStr aggregators)]]) @
         [Sent (e_address provider) ''setReserveOracle'' [JStr orc]]) us \<and>
       (notFalsyOrZeroAddress w configured \<longrightarrow> orc = the configured) \<and>
       map_option e_address (oget us (cid C_ReserveOracle)) = Some orc \<and>
       map_option e_address (oget us (cid C_ReserveOracleImpl)) = Some impl)"
proof (cases skipOracle)
  case True
  with oracle_reserve_skipped [OF _ cfg] run show ?thesis by (simp add: configured_def)
next
  case False
  with run have "deploy_oracle_reserve verify False pool w = (Inr u, w')" by simp
  from oracle_reserve_deploys [OF this cfg] False show ?thesis
    unfolding configured_def conf_weth_def by (simp only: if_False) blast
qed

section \<open>Saved contracts\<close>

text \<open>C39: A deployment is saved before its source is verified: once the deployment transaction is
  confirmed, the database holds the contract's address and deployer however the verification ends.\<close>

theorem saved_before_verification:
  assumes "wait_deployed c w = (Inr (), w1)"
  shows "db_get i (snd (withSaveAndVerify c i args verify w)) = Some (entry_of c)"
proof -
  have t: "c_deployTx c \<noteq> None"
    using assms by (auto simp: wait_deployed_def split: option.splits)
  let ?w2 = "db_put i (entry_of c) w1"
  have "obeys quiet (tseq (if verify then tseq (verifyContract i c args) (tret ()) else tret ()) (tret c))"
    by (intro helper_quiet)
  then have "quiet ?w2 (snd (tseq (if verify then tseq (verifyContract i c args) (tret ()) else tret ()) (tret c) ?w2))"
    by (simp add: obeys_def)
  then have "db_get i (snd (tseq (if verify then tseq (verifyContract i c args) (tret ()) else tret ()) (tret c) ?w2))
      = Some (entry_of c)"
    using quiet_db [of ?w2] by (metis db_get_put)
  with assms t show ?thesis
    by (auto simp: withSaveAndVerify_def tseq_Inr registerContractInJsonDb_def entry_of_def task_simps
        split: option.splits)
qed

text \<open>What a deployment saves is found again: after a deployment under an identifier, the database lookup
  gives the address of the new contract, and so does the identifier's getter.\<close>

theorem deployed_is_found:
  assumes "deploySaved f args i verify w = (Inr c, w')" and "node_names_contracts w"
  shows "getContractAddressInDb i w' = (Inr (c_address c), w') \<and>
    (\<forall>c' w''. connectOrDb i None w' = (Inr c', w'') \<longrightarrow> c_address c' = c_address c)"
proof -
  have e: "db_get i w' = Some (entry_of c)" using does_db [OF deploySaved_does [OF assms(1)], of i] by simp
  with deploySaved_named [OF assms]
  have "getContractAddressInDb i w' = (Inr (c_address c), w')"
    by (simp add: getContractAddressInDb_def tbind_def entry_of_def)
  then show ?thesis using e connectOrDb_returns [of i None w'] by (auto simp: entry_of_def)
qed

end
