(* ===== verification/FullTasks.thy ===== *)
theory FullTasks
  imports ProxySpec
begin

text \<open>
  The other tasks of \<open>tasks/full\<close> and \<open>tasks/deployments/add-market-to-registry.ts\<close>: proxy admins,
  address provider and its registry, the lending pool with its loan manager and configurator, the
  initialisation of a market and of its gateways, the data providers. \<open>DRE.run\<close> of a task of the
  repository is a call of that task. Printed values are read from the node like the others.
\<close>

section \<open>Proxy admins and the registry\<close>

text \<open>One of the three blocks of \<open>full:deploy-proxy-admin\<close>: reuse the configured admin or deploy one.\<close>

definition deploy_one_proxy_admin :: "eContractid \<Rightarrow> addressPerNetwork \<Rightarrow> bool \<Rightarrow> unit task" where
  "deploy_one_proxy_admin i param verify =
     tbind (tget (\<lambda>w. addressParam w param)) (\<lambda>proxyAdminAddress.
     tbind (tget (\<lambda>w. notFalsyOrZeroAddress w proxyAdminAddress)) (\<lambda>valid.
     tbind (if \<not> valid then deployBendProxyAdmin (cid i) verify
            else tseq (insertContractAddressInDb i (the proxyAdminAddress))
              (getBendProxyAdminByAddress (the proxyAdminAddress))) (\<lambda>proxyAdmin.
     tseq (view proxyAdmin ''owner'' []) (tret ()))))"

definition deploy_proxy_admin :: "bool \<Rightarrow> string \<Rightarrow> bool \<Rightarrow> string option \<Rightarrow> unit task" where
  "deploy_proxy_admin verify pool all proxyadminid =
     tseq run_compile
     (tbind (loadPoolConfig pool) (\<lambda>poolConfig.
     tseq (twhen (all \<or> proxyadminid = Some (cid C_BendProxyAdminPool))
       (deploy_one_proxy_admin C_BendProxyAdminPool (ProxyAdminPool poolConfig) verify))
     (tseq (twhen (all \<or> proxyadminid = Some (cid C_BendProxyAdminFund))
       (deploy_one_proxy_admin C_BendProxyAdminFund (ProxyAdminFund poolConfig) verify))
     (twhen (all \<or> proxyadminid = Some (cid C_BendProxyAdminWTL))
       (deploy_one_proxy_admin C_BendProxyAdminWTL (ProxyAdminWTL poolConfig) verify)))))"

definition deploy_address_provider_registry :: "bool \<Rightarrow> string \<Rightarrow> unit task" where
  "deploy_address_provider_registry verify pool =
     tseq run_compile
     (tbind (loadPoolConfig pool) (\<lambda>poolConfig.
     tbind (tget (\<lambda>w. addressParam w (ProviderRegistry poolConfig))) (\<lambda>providerRegistryAddress.
     tbind (tget (\<lambda>w. notFalsyOrZeroAddress w providerRegistryAddress)) (\<lambda>valid.
     if valid then
       insertContractAddressInDb C_LendPoolAddressesProviderRegistry (the providerRegistryAddress)
     else
       tbind (deployLendPoolAddressesProviderRegistry verify) (\<lambda>contract.
       tseq (view contract ''owner'' []) (tret ()))))))"

text \<open>\<open>toLocaleLowerCase\<close> on the ASCII characters of an address\<close>

definition char_lower :: "char \<Rightarrow> char" where
  "char_lower c = (let n = of_char c :: nat in if 65 \<le> n \<and> n \<le> 90 then char_of (n + 32) else c)"

definition toLocaleLowerCase :: "string \<Rightarrow> string" where
  "toLocaleLowerCase s = map char_lower s"

text \<open>\<open>await (await getDeploySigner()).getAddress()\<close>\<close>

definition deployer_address :: "string task" where
  "deployer_address = tbind getDeploySigner (\<lambda>signer.
     case signer of None \<Rightarrow> tthrow JsTypeError | Some a \<Rightarrow> tret a)"

text \<open>
  \<open>add-market-to-registry\<close>. Its three parts: find or deploy the registry, choose the signer (on a fork
  the owner is impersonated and given 10 ether; a configured owner that is not the deployer ends the
  process with code 2), register the provider.
\<close>

definition market_registry ::
  "bool \<Rightarrow> string \<Rightarrow> bool \<Rightarrow> ICommonConfiguration \<Rightarrow> (string option \<times> string option \<times> bool) task" where
  "market_registry verify pool deployRegistry poolConfig =
     tbind (tget (\<lambda>w. addressParam w (ProviderRegistry poolConfig))) (\<lambda>providerRegistryAddress.
     tbind (tget (\<lambda>w. addressParam w (ProviderRegistryOwner poolConfig))) (\<lambda>providerRegistryOwner.
     tbind (tget (\<lambda>w. notFalsyOrZeroAddress w providerRegistryAddress)) (\<lambda>valid.
     if deployRegistry \<or> \<not> valid then
       tseq (deploy_address_provider_registry verify pool)
       (tbind (getLendPoolAddressesProviderRegistry None) (\<lambda>registry.
       tbind deployer_address (\<lambda>owner.
       tret (Some (c_address registry), Some owner, True))))
     else tret (providerRegistryAddress, providerRegistryOwner, False))))"

definition registry_signer :: "string \<Rightarrow> string \<Rightarrow> bool \<Rightarrow> string option task" where
  "registry_signer providerRegistryOwner currentSignerAddress deployed =
     tbind (tget (\<lambda>w. truthy_opt (procenv w ''FORK''))) (\<lambda>fork.
     if fork then
       tseq (ask (ProviderSend ''hardhat_impersonateAccount'' [JStr providerRegistryOwner]))
       (tbind getDeploySigner (\<lambda>firstAccount.
       case firstAccount of None \<Rightarrow> tthrow JsTypeError | Some a \<Rightarrow>
       tseq (ask (SendTx (Some a) providerRegistryOwner ''sendTransaction'' [JNum (10 * 10 ^ 18)]))
       (tret (Some providerRegistryOwner))))
     else if \<not> deployed \<and> toLocaleLowerCase providerRegistryOwner \<noteq> toLocaleLowerCase currentSignerAddress
     then tthrow (Exit 2)
     else tret (Some providerRegistryOwner))"

definition add_market_to_registry :: "bool \<Rightarrow> string option \<Rightarrow> string \<Rightarrow> bool \<Rightarrow> unit task" where
  "add_market_to_registry verify addressesProvider pool deployRegistry =
     tbind (loadPoolConfig pool) (\<lambda>poolConfig.
     tbind deployer_address (\<lambda>deployer.
     let currentSignerAddress = toLocaleLowerCase deployer in
     tbind (market_registry verify pool deployRegistry poolConfig)
       (\<lambda>(providerRegistryAddress, providerRegistryOwner, deployed).
     tbind (tget (\<lambda>w. notFalsyOrZeroAddress w providerRegistryOwner)) (\<lambda>valid.
     if \<not> valid
     then tthrow (JsError ''config.ProviderRegistryOwner is missing or is not an address.'')
     else
       tbind (registry_signer (the providerRegistryOwner) currentSignerAddress deployed) (\<lambda>signer.
       tbind (getLendPoolAddressesProviderRegistry providerRegistryAddress) (\<lambda>registry.
       tbind (getLendPoolAddressesProvider addressesProvider) (\<lambda>provider.
       send (as_signer signer registry) ''registerAddressesProvider''
         [JStr (c_address provider), JNum (ProviderId poolConfig)])))))))"

section \<open>The address provider\<close>

definition deploy_address_provider :: "bool \<Rightarrow> string \<Rightarrow> bool \<Rightarrow> unit task" where
  "deploy_address_provider verify pool skipRegistry =
     tseq run_compile
     (tbind (loadPoolConfig pool) (\<lambda>poolConfig.
     tseq getDeploySigner
     (tbind (deployLendPoolAddressesProvider (MarketId poolConfig) verify) (\<lambda>addressesProvider.
     tseq (twhen (\<not> skipRegistry)
       (tbind (tget (\<lambda>w. addressParam w (ProviderRegistry poolConfig))) (\<lambda>providerRegistryAddress.
        tbind (tget (\<lambda>w. notFalsyOrZeroAddress w providerRegistryAddress)) (\<lambda>valid.
        add_market_to_registry False (Some (c_address addressesProvider)) pool (\<not> valid)))))
     (tbind (getGenesisPoolAdmin poolConfig) (\<lambda>poolAdmin.
     tseq (send addressesProvider ''setPoolAdmin'' [opt_val poolAdmin])
     (tbind (getEmergencyAdmin poolConfig) (\<lambda>emergencyAdmin.
     tseq (send addressesProvider ''setEmergencyAdmin'' [opt_val emergencyAdmin])
     (tseq (view addressesProvider ''getPoolAdmin'' [])
     (tseq (view addressesProvider ''getEmergencyAdmin'' [])
     (tret ())))))))))))"

section \<open>The lending pool\<close>

text \<open>Deploy an implementation, set it at the provider, and save the proxy the provider has for it.\<close>

definition set_impl ::
  "contract \<Rightarrow> contract task \<Rightarrow> string \<Rightarrow> string \<Rightarrow> (string option \<Rightarrow> contract task) \<Rightarrow> eContractid \<Rightarrow>
    contract task" where
  "set_impl addressesProvider deployImplementation setter reader getter i =
     tbind deployImplementation (\<lambda>impl.
     tseq (send addressesProvider setter [JStr (c_address impl), JArr []])
     (tbind (view addressesProvider reader []) (\<lambda>address.
     tbind (getter (Some (js_str address))) (\<lambda>proxy.
     tseq (insertContractAddressInDb i (c_address proxy))
     (tret proxy)))))"

definition deploy_lend_pool :: "bool \<Rightarrow> string \<Rightarrow> unit task" where
  "deploy_lend_pool verify pool =
     tseq run_compile
     (tbind (loadPoolConfig pool) (\<lambda>poolConfig.
     tbind (getLendPoolAddressesProvider None) (\<lambda>addressesProvider.
     tbind (tget (\<lambda>w. addressParam w (BNFTRegistry poolConfig))) (\<lambda>bnftRegistryAddress.
     tbind (tget (\<lambda>w. notFalsyOrZeroAddress w bnftRegistryAddress)) (\<lambda>valid.
     if \<not> valid then tthrow (JsError ''Invalid BNFT Registry address in pool config'') else
     tbind (getBNFTRegistryProxy bnftRegistryAddress) (\<lambda>bnftRegistryProxy.
     tseq (send addressesProvider ''setBNFTRegistry'' [JStr (c_address bnftRegistryProxy)])
     (tbind (tget (\<lambda>w. addressParam w (IncentivesController poolConfig))) (\<lambda>incentivesControllerAddress.
     tbind (tget (\<lambda>w. notFalsyOrZeroAddress w incentivesControllerAddress)) (\<lambda>valid.
     if \<not> valid then tthrow (JsError ''Invalid IncentivesController address in pool config'') else
     tseq (send addressesProvider ''setIncentivesController'' [JStr (the incentivesControllerAddress)])
     (tseq (deployBendLibraries verify)
     (tseq (set_impl addressesProvider (deployLendPool verify)
       ''setLendPoolImpl'' ''getLendPool'' getLendPool C_LendPool)
     (tseq (set_impl addressesProvider (deployLendPoolLoan verify)
       ''setLendPoolLoanImpl'' ''getLendPoolLoan'' getLendPoolLoanProxy C_LendPoolLoan)
     (tbind (set_impl addressesProvider (deployLendPoolConfigurator verify)
       ''setLendPoolConfiguratorImpl'' ''getLendPoolConfigurator'' getLendPoolConfiguratorProxy
       C_LendPoolConfigurator) (\<lambda>lendPoolConfiguratorProxy.
     tbind (getEmergencyAdmin poolConfig) (\<lambda>admin.
     tseq (send (as_signer admin lendPoolConfiguratorProxy) ''setPoolPause'' [JBool True])
     (deployBTokenImplementations pool (ReservesConfig poolConfig) verify))))))))))))))))"

section \<open>Initialisation\<close>

text \<open>\<open>try { ... } catch (err) { console.error(err); exit(1); }\<close>\<close>

definition or_exit :: "unit task \<Rightarrow> unit task" where
  "or_exit m = tcatch m (\<lambda>err. tthrow (Exit 1))"

definition token_naming_of :: "ICommonConfiguration \<Rightarrow> token_naming" where
  "token_naming_of c = \<lparr>bTokenNamePrefix = BTokenNamePrefix c, bTokenSymbolPrefix = BTokenSymbolPrefix c,
     debtTokenNamePrefix = DebtTokenNamePrefix c, debtTokenSymbolPrefix = DebtTokenSymbolPrefix c\<rparr>"

definition no_reserve_assets :: js_error where
  "no_reserve_assets =
     JsThrow ''Reserve assets is undefined. Check ReserveAssets configuration at config directory''"

definition no_nft_assets :: js_error where
  "no_nft_assets = JsThrow ''NFT assets is undefined. Check NftsAssets configuration at config directory''"

definition assets_on :: "'a iParamsPerNetwork \<Rightarrow> js_error \<Rightarrow> 'a task" where
  "assets_on param missing =
     tbind (tget (\<lambda>w. getParamPerNetwork (procenv w) param (net_name w))) (\<lambda>assets.
     case assets of None \<Rightarrow> tthrow missing | Some a \<Rightarrow> tret a)"

definition initialize_lend_pool :: "bool \<Rightarrow> string \<Rightarrow> unit task" where
  "initialize_lend_pool verify pool = or_exit
     (tbind (loadPoolConfig pool) (\<lambda>poolConfig.
     tbind (getLendPoolAddressesProvider None) (\<lambda>addressesProvider.
     tbind (view addressesProvider ''getPoolAdmin'' []) (\<lambda>admin.
     tbind (getReserveFactorCollectorAddress poolConfig) (\<lambda>collectorAddress.
     tbind (assets_on (ReserveAssets poolConfig) no_reserve_assets) (\<lambda>reserveAssets.
     tseq (initReservesByHelper (ReservesConfig poolConfig) reserveAssets (token_naming_of poolConfig)
       (js_str admin) (opt_val collectorAddress) pool verify)
     (tseq (configureReservesByHelper (ReservesConfig poolConfig) reserveAssets (js_str admin))
     (tbind (assets_on (NftsAssets poolConfig) no_nft_assets) (\<lambda>nftsAssets.
     tseq (initNftsByHelper (NftsConfig poolConfig) nftsAssets (js_str admin) pool verify)
     (configureNftsByHelper (NftsConfig poolConfig) nftsAssets (js_str admin)))))))))))"

definition initialize_gateway :: "bool \<Rightarrow> string \<Rightarrow> unit task" where
  "initialize_gateway verify pool = or_exit
     (tbind (loadPoolConfig pool) (\<lambda>poolConfig.
     tbind (assets_on (ReserveAssets poolConfig) no_reserve_assets) (\<lambda>reserveAssets.
     tbind (assets_on (NftsAssets poolConfig) no_nft_assets) (\<lambda>nftsAssets.
     tbind (getWETHGateway None) (\<lambda>wethGateway.
     tseq (send wethGateway ''authorizeLendPoolNFT'' [JArr (map (JStr \<circ> snd) nftsAssets)])
     (tbind (getPunkGateway None) (\<lambda>punkGateway.
     send punkGateway ''authorizeLendPoolERC20'' [JArr (map (JStr \<circ> snd) reserveAssets)])))))))"

section \<open>Data providers\<close>

definition deploy_data_provider :: "bool \<Rightarrow> bool \<Rightarrow> bool \<Rightarrow> bool \<Rightarrow> unit task" where
  "deploy_data_provider verify wallet protocol ui =
     tseq run_compile
     (tbind (getLendPoolAddressesProvider None) (\<lambda>addressesProvider.
     tbind (view addressesProvider ''getReserveOracle'' []) (\<lambda>reserveOracle.
     tbind (view addressesProvider ''getNFTOracle'' []) (\<lambda>nftOracle.
     tseq (twhen wallet (tbind (deployWalletBalancerProvider verify) (\<lambda>walletBalanceProvider.
       send addressesProvider ''setWalletBalanceProvider'' [JStr (c_address walletBalanceProvider)])))
     (tseq (twhen protocol
       (tbind (deployBendProtocolDataProvider (c_address addressesProvider) verify) (\<lambda>bendProtocolDataProvider.
       send addressesProvider ''setBendDataProvider'' [JStr (c_address bendProtocolDataProvider)])))
     (twhen ui
       (tbind (deployUiPoolDataProvider (js_str reserveOracle) (js_str nftOracle) verify) (\<lambda>uiPoolDataProvider.
       send addressesProvider ''setUIDataProvider'' [JStr (c_address uiPoolDataProvider)]))))))))"

end
