(* ===== verification/FullSpec.thy ===== *)
theory FullSpec
  imports FullTasks
begin

text \<open>
  What the tasks of \<open>FullTasks\<close> do: the transactions and deployments of each, the addresses the
  database holds afterwards, and how the ones that end the process do so.
\<close>

section \<open>Proxy admins\<close>

lemma view_returns_quiet: "view c m args w = (r, w') \<Longrightarrow> quiet w w'"
  using view_quiet by (rule qt.run)

lemma getBendProxyAdminByAddress_returns:
  "getBendProxyAdminByAddress a w = (Inr c, w') \<Longrightarrow> quiet w w' \<and> c_address c = a"
  using qt.run [OF getDeploySigner_quiet]
  by (fastforce simp: getBendProxyAdminByAddress_def task_returns connect_def)

lemma deploy_one_proxy_admin_does:
  assumes "deploy_one_proxy_admin i param verify w = (Inr u, w')"
  shows "\<exists>e. does w w' (if notFalsyOrZeroAddress w (addressParam w param) then []
      else [Deployed ''BendProxyAdminFactory'' [] [] (e_address e)]) [(cid i, e)] \<and>
    (notFalsyOrZeroAddress w (addressParam w param) \<longrightarrow>
       e = bare_entry (the (addressParam w param)))"
proof (cases "notFalsyOrZeroAddress w (addressParam w param)")
  case True
  with assms obtain w1 c w2 v where
    1: "insertContractAddressInDb i (the (addressParam w param)) w = (Inr (), w1)" and
    2: "getBendProxyAdminByAddress (the (addressParam w param)) w1 = (Inr c, w2)" and
    3: "view c ''owner'' [] w2 = (Inr v, w')"
    by (auto simp: deploy_one_proxy_admin_def task_returns)
  have "quiet w1 w'"
    using getBendProxyAdminByAddress_returns [OF 2] view_returns_quiet [OF 3] by (meson qt.R_trans)
  from does_quiet_right [OF insert_does [OF 1] this] True show ?thesis by auto
next
  case False
  with assms obtain c w1 v where
    1: "deployBendProxyAdmin (cid i) verify w = (Inr c, w1)" and
    2: "view c ''owner'' [] w1 = (Inr v, w')"
    by (auto simp: deploy_one_proxy_admin_def task_returns)
  from does_quiet_right [OF deploySaved_does [OF 1 [unfolded deployBendProxyAdmin_def]]
      view_returns_quiet [OF 2]] False
  show ?thesis by (intro exI [of _ "entry_of c"]) (simp add: entry_of_def)
qed

text \<open>\<open>full:deploy-proxy-admin --all\<close> deploys a proxy admin for each of pool, fund and wallet that has no valid
  configured address, in this order, and ends with all three in the database, the configured ones with
  their configured addresses.\<close>

theorem deploy_proxy_admin_all_does:
  assumes "deploy_proxy_admin verify pool True i w = (Inr u, w')"
    and cfg: "loadPoolConfig pool w = (Inr cfg, w)"
  shows "\<exists>e1 e2 e3. does w w'
    (concat (map (\<lambda>(p, e). if notFalsyOrZeroAddress w (addressParam w p) then []
        else [Deployed ''BendProxyAdminFactory'' [] [] (e_address e)])
      [(ProxyAdminPool cfg, e1), (ProxyAdminFund cfg, e2), (ProxyAdminWTL cfg, e3)]))
    [(cid C_BendProxyAdminWTL, e3), (cid C_BendProxyAdminFund, e2), (cid C_BendProxyAdminPool, e1)] \<and>
    (\<forall>(p, e) \<in> set [(ProxyAdminPool cfg, e1), (ProxyAdminFund cfg, e2), (ProxyAdminWTL cfg, e3)].
       notFalsyOrZeroAddress w (addressParam w p) \<longrightarrow> e = bare_entry (the (addressParam w p)))"
proof -
  from assms obtain w1 w2 w3 where
    1: "run_compile w = (Inr (), w1)" and
    2: "deploy_one_proxy_admin C_BendProxyAdminPool (ProxyAdminPool cfg) verify w1 = (Inr (), w2)" and
    3: "deploy_one_proxy_admin C_BendProxyAdminFund (ProxyAdminFund cfg) verify w2 = (Inr (), w3)" and
    4: "deploy_one_proxy_admin C_BendProxyAdminWTL (ProxyAdminWTL cfg) verify w3 = (Inr u, w')"
    by (auto simp: deploy_proxy_admin_def task_returns loadPoolConfig_def split: if_splits)
  have q1: "quiet w w1" using run_compile_quiet 1 by (rule qt.run)
  note same1 = quiet_addressParam [OF q1] quiet_notFalsy [OF q1]
  from deploy_one_proxy_admin_does [OF 2] obtain e1 where
    d2: "does w1 w2 (if notFalsyOrZeroAddress w (addressParam w (ProxyAdminPool cfg)) then []
      else [Deployed ''BendProxyAdminFactory'' [] [] (e_address e1)]) [(cid C_BendProxyAdminPool, e1)]" and
    e1: "notFalsyOrZeroAddress w (addressParam w (ProxyAdminPool cfg)) \<longrightarrow>
      e1 = bare_entry (the (addressParam w (ProxyAdminPool cfg)))" by (auto simp: same1)
  note d12 = does_quiet_left [OF q1 d2]
  note same2 = does_addressParam [OF d12] does_notFalsy [OF d12]
  from deploy_one_proxy_admin_does [OF 3] obtain e2 where
    d3: "does w2 w3 (if notFalsyOrZeroAddress w (addressParam w (ProxyAdminFund cfg)) then []
      else [Deployed ''BendProxyAdminFactory'' [] [] (e_address e2)]) [(cid C_BendProxyAdminFund, e2)]" and
    e2: "notFalsyOrZeroAddress w (addressParam w (ProxyAdminFund cfg)) \<longrightarrow>
      e2 = bare_entry (the (addressParam w (ProxyAdminFund cfg)))" by (auto simp: same2)
  note d13 = does_trans [OF d12 d3]
  note same3 = does_addressParam [OF d13] does_notFalsy [OF d13]
  from deploy_one_proxy_admin_does [OF 4] obtain e3 where
    d4: "does w3 w' (if notFalsyOrZeroAddress w (addressParam w (ProxyAdminWTL cfg)) then []
      else [Deployed ''BendProxyAdminFactory'' [] [] (e_address e3)]) [(cid C_BendProxyAdminWTL, e3)]" and
    e3: "notFalsyOrZeroAddress w (addressParam w (ProxyAdminWTL cfg)) \<longrightarrow>
      e3 = bare_entry (the (addressParam w (ProxyAdminWTL cfg)))" by (auto simp: same3)
  have "does w w' (concat (map (\<lambda>(p, e). if notFalsyOrZeroAddress w (addressParam w p) then []
        else [Deployed ''BendProxyAdminFactory'' [] [] (e_address e)])
      [(ProxyAdminPool cfg, e1), (ProxyAdminFund cfg, e2), (ProxyAdminWTL cfg, e3)]))
    [(cid C_BendProxyAdminWTL, e3), (cid C_BendProxyAdminFund, e2), (cid C_BendProxyAdminPool, e1)]"
    using does_trans [OF d13 d4] by (simp del: cid.simps)
  with e1 e2 e3 show ?thesis by (intro exI [of _ e1] exI [of _ e2] exI [of _ e3]) simp
qed

section \<open>The registry\<close>

text \<open>Outside a fork, with a configured registry whose configured owner is not the deployer,
  \<open>add-market-to-registry\<close> ends the process with code 2, before it has sent or written anything.\<close>

theorem add_market_wrong_owner:
  assumes cfg: "loadPoolConfig pool w = (Inr cfg, w)"
    and deployer: "deployer_address w = (Inr d, w1)"
    and no_fork: "\<not> truthy_opt (procenv w ''FORK'')"
    and registry: "notFalsyOrZeroAddress w (addressParam w (ProviderRegistry cfg))"
    and owner: "notFalsyOrZeroAddress w (addressParam w (ProviderRegistryOwner cfg))"
    and differs: "toLocaleLowerCase (the (addressParam w (ProviderRegistryOwner cfg)))
      \<noteq> toLocaleLowerCase (toLocaleLowerCase d)"
  shows "add_market_to_registry verify provider pool False w = (Inl (Exit 2), w1) \<and> quiet w w1"
proof -
  have "obeys quiet deployer_address"
    unfolding deployer_address_def by (intro helper_quiet)
  then have q: "quiet w w1" using deployer by (rule qt.run)
  note same = quiet_addressParam [OF q] quiet_notFalsy [OF q]
  have env: "procenv w1 = procenv w" using q by (auto simp: quiet_def dest: does_env)
  show ?thesis
    using q registry owner differs no_fork
    by (simp add: add_market_to_registry_def tbind_def cfg deployer Let_def
        market_registry_def registry_signer_def same env)
qed

section \<open>The lending pool\<close>

lemma view_answered: "view c m args w = (Inr v, w') \<Longrightarrow> answered w (ViewCall (c_address c) m args) v"
  unfolding view_def by (rule ask_answered)

text \<open>The address that is saved is the provider's answer to the reader, \<open>x\<close>.\<close>

lemma set_impl_does:
  assumes run: "set_impl prov dep setter reader getter i w = (Inr c, w')"
    and dep: "\<forall>impl v. dep w = (Inr impl, v) \<longrightarrow> does w v [Deployed f [] libs (c_address impl)] (us impl)"
    and getter: "\<forall>a. obeys quiet (getter a)" "\<forall>a. getter a = connectOrDb (cid i) a"
  shows "\<exists>impl x. answered w (ViewCall (c_address prov) reader []) x \<and>
    (js_str x \<noteq> [] \<longrightarrow> c_address c = js_str x) \<and>
    does w w' [Deployed f [] libs (c_address impl), Sent (c_address prov) setter [JStr (c_address impl), JArr []]]
      ((cid i, bare_entry (c_address c)) # us impl)"
proof -
  from run obtain impl w1 w2 a w3 w4 where
    1: "dep w = (Inr impl, w1)" and
    2: "send prov setter [JStr (c_address impl), JArr []] w1 = (Inr (), w2)" and
    3: "view prov reader [] w2 = (Inr a, w3)" and
    4: "getter (Some (js_str a)) w3 = (Inr c, w4)" and
    5: "insertContractAddressInDb i (c_address c) w4 = (Inr (), w')"
    by (auto simp: set_impl_def task_returns)
  note d2 = does_trans [OF dep [rule_format, OF 1] send_does [OF 2]]
  have "quiet w2 w4" using view_returns_quiet [OF 3] qt.run [OF spec [OF getter(1)] 4] by (rule qt.R_trans)
  from does_trans [OF does_quiet_right [OF d2 this] insert_does [OF 5]]
  have d: "does w w' [Deployed f [] libs (c_address impl), Sent (c_address prov) setter [JStr (c_address impl), JArr []]]
      ((cid i, bare_entry (c_address c)) # us impl)" by simp
  moreover have "answered w (ViewCall (c_address prov) reader []) a"
    using view_answered [OF 3] answered_env [OF d2] by simp
  moreover have "js_str a \<noteq> [] \<longrightarrow> c_address c = js_str a"
    using connectOrDb_returns [OF 4 [unfolded spec [OF getter(2)]]] by (simp split: if_splits)
  ultimately show ?thesis by blast
qed

lemma oget_append_skip: "oget us i = None \<Longrightarrow> oget (us @ vs) i = oget vs i"
  by (simp add: map_add_def)

text \<open>The pool links the five libraries the database names.\<close>

lemma deployLendPool_does:
  assumes "deployLendPool verify w = (Inr c, w')"
    and "db_get (cid C_ReserveLogic) w = Some r" and "db_get (cid C_NftLogic) w = Some n"
    and "db_get (cid C_SupplyLogic) w = Some s" and "db_get (cid C_BorrowLogic) w = Some b"
    and "db_get (cid C_LiquidateLogic) w = Some l"
  shows "does w w' [Deployed ''LendPoolFactory'' [] [(PLACEHOLDER_RESERVE_LOGIC, e_address r),
      (PLACEHOLDER_NFT_LOGIC, e_address n), (PLACEHOLDER_SUPPLY_LOGIC, e_address s),
      (PLACEHOLDER_BORROW_LOGIC, e_address b), (PLACEHOLDER_LIQUIDATE_LOGIC, e_address l)] (c_address c)]
    [(cid C_LendPool, entry_of c), (cid C_LendPoolImpl, bare_entry (c_address c))]"
proof -
  from assms(1) obtain libs w1 where 1: "getLendPoolLibraries w = (Inr libs, w1)"
    and 2: "deployImpl ''LendPoolFactory'' libs (cid C_LendPoolImpl) (cid C_LendPool) verify w1 = (Inr c, w')"
    by (auto simp: deployLendPool_def task_returns)
  from getLendPoolLibraries_returns [OF 1] assms(2-) have "w1 = w" and
    "libs = [(PLACEHOLDER_RESERVE_LOGIC, e_address r),
      (PLACEHOLDER_NFT_LOGIC, e_address n), (PLACEHOLDER_SUPPLY_LOGIC, e_address s),
      (PLACEHOLDER_BORROW_LOGIC, e_address b), (PLACEHOLDER_LIQUIDATE_LOGIC, e_address l)]" by auto
  with deployImpl_does [OF 2] show ?thesis by simp
qed

lemma deployLendPoolConfigurator_does:
  assumes "deployLendPoolConfigurator verify w = (Inr c, w')"
    and "db_get (cid C_ConfiguratorLogic) w = Some e"
  shows "does w w' [Deployed ''LendPoolConfiguratorFactory'' [] [(PLACEHOLDER_CONFIGURATOR_LOGIC, e_address e)] (c_address c)]
    [(cid C_LendPoolConfigurator, entry_of c), (cid C_LendPoolConfiguratorImpl, bare_entry (c_address c))]"
proof -
  from assms have "deployImpl ''LendPoolConfiguratorFactory'' [(PLACEHOLDER_CONFIGURATOR_LOGIC, e_address e)]
      (cid C_LendPoolConfiguratorImpl) (cid C_LendPoolConfigurator) verify w = (Inr c, w')"
    by (auto simp: deployLendPoolConfigurator_def task_returns getContractAddressInDb_returns)
  then show ?thesis by (rule deployImpl_does)
qed

text \<open>The implementations of the tokens: nothing but their deployments.\<close>

definition only_deploys :: "string list \<Rightarrow> string list \<Rightarrow> world \<Rightarrow> world \<Rightarrow> bool" where
  "only_deploys factories names w w' \<longleftrightarrow> (\<exists>es us. does w w' es us \<and> fst ` set us \<subseteq> set names \<and>
     set es \<subseteq> {Deployed f [] [] a | f a. f \<in> set factories})"

lemma only_deploys_trans:
  assumes "only_deploys fs ns u v" and "only_deploys fs ns v w"
  shows "only_deploys fs ns u w"
proof -
  let ?F = "{Deployed f [] [] a | f a. f \<in> set fs}"
  from assms(1) [unfolded only_deploys_def] obtain es us where
    1: "does u v es us" "fst ` set us \<subseteq> set ns" "set es \<subseteq> ?F" by (elim exE conjE)
  from assms(2) [unfolded only_deploys_def] obtain es' us' where
    2: "does v w es' us'" "fst ` set us' \<subseteq> set ns" "set es' \<subseteq> ?F" by (elim exE conjE)
  have "fst ` set (us' @ us) \<subseteq> set ns" "set (es @ es') \<subseteq> ?F"
    unfolding set_append image_Un by (intro Un_least 1 2)+
  with does_trans [OF 1(1) 2(1)] show ?thesis
    unfolding only_deploys_def by (intro exI [of _ "es @ es'"] exI [of _ "us' @ us"] conjI)
qed

lemma only_deploys_refl: "only_deploys fs ns w w"
  unfolding only_deploys_def by (intro exI [of _ "[]"]) (simp add: does_refl)

lemma only_deploys_saved:
  assumes "deploySaved f [] i v w = (Inr c, w')" and "f \<in> set fs" and "i \<in> set ns"
  shows "only_deploys fs ns w w'"
  unfolding only_deploys_def
  by (intro exI [of _ "[Deployed f [] [] (c_address c)]"] exI [of _ "[(i, entry_of c)]"])
    (use deploySaved_does [OF assms(1)] assms in auto)

lemma tfor_only_deploys:
  assumes "tfor xs f w = (Inr u, w')"
    and "\<And>x v v'. f x v = (Inr (), v') \<Longrightarrow> only_deploys fs ns v v'"
  shows "only_deploys fs ns w w'"
  using assms(1)
proof (induction xs arbitrary: w)
  case Nil
  then show ?case by (simp add: only_deploys_refl)
next
  case (Cons x xs)
  then show ?case by (auto simp: tseq_returns intro: only_deploys_trans assms(2))
qed

lemma deployBTokenImplementations_deploys:
  assumes "deployBTokenImplementations pool reserves verify w = (Inr u, w')"
  shows "only_deploys [''BTokenFactory'', ''DebtTokenFactory''] [cid C_BToken, cid C_DebtToken] w w'"
proof -
  let ?fs = "[''BTokenFactory'', ''DebtTokenFactory'']" and ?ns = "[cid C_BToken, cid C_DebtToken]"
  from assms obtain cfg w1 where
    1: "deployImplementations chooseBTokenDeployment pool (map (bTokenImpl \<circ> snd) reserves) verify w = (Inr (), w1)"
    and 2: "w1 = w' \<or> (\<exists>c. deployGenericDebtToken verify w1 = (Inr c, w'))"
    by (auto simp: deployBTokenImplementations_def task_returns dest: loadPoolConfig_returns split: if_splits)
  have tokens: "deploySaved f [] i verify v = (Inr c, v') \<Longrightarrow> f \<in> set ?fs \<Longrightarrow> i \<in> set ?ns \<Longrightarrow> only_deploys ?fs ?ns v v'"
    for f i v c v' by (rule only_deploys_saved)
  have bToken: "only_deploys ?fs ?ns v v'" if "deployGenericBTokenImpl verify v = (Inr c, v')" for v c v'
    using tokens [OF that [unfolded deployGenericBTokenImpl_def]] by simp
  from 1 obtain c where "tfor (js_set (map (bTokenImpl \<circ> snd) reserves)) (\<lambda>impl.
       tbind (tget (\<lambda>w. notFalsyOrZeroAddress w
         (getOptionalParamAddressPerNetwork w (config_field c (cid impl))))) (\<lambda>valid.
       twhen (\<not> valid) (case chooseBTokenDeployment impl of
           Inl e \<Rightarrow> tthrow e
         | Inr deploy \<Rightarrow> tseq (deploy verify) (tret ())))) w = (Inr (), w1)"
    by (auto simp: deployImplementations_def tbind_returns dest: loadPoolConfig_returns)
  then have "only_deploys ?fs ?ns w w1"
    by (rule tfor_only_deploys)
      (auto simp: task_returns chooseBTokenDeployment_def only_deploys_refl bToken
        simp del: cid.simps split: if_splits)
  moreover have "only_deploys ?fs ?ns w1 w'"
    using 2 tokens unfolding deployGenericDebtToken_def by (auto intro: only_deploys_refl)
  ultimately show ?thesis by (rule only_deploys_trans)
qed

lemma deployBendLibraries_does:
  assumes "deployBendLibraries verify w = (Inr u, w')"
  shows "\<exists>generic reserve nft validation supply borrow liquidate config nftArt valArt.
    artifact_read w (cid C_NftLogic) nftArt \<and> artifact_read w (cid C_ValidationLogic) valArt \<and>
    does w w' [
      Deployed ''GenericLogicFactory'' [] [] (c_address generic),
      Deployed ''ReserveLogicFactory'' [] [] (c_address reserve),
      Deployed ''ContractFactory'' [JStr (linkBytecode nftArt [])] [] (c_address nft),
      Deployed ''ContractFactory'' [JStr (linkBytecode valArt
        [(cid C_ReserveLogic, c_address reserve), (cid C_GenericLogic, c_address generic)])] [] (c_address validation),
      Deployed ''SupplyLogicFactory'' [] [(PLACEHOLDER_VALIDATION_LOGIC, c_address validation)] (c_address supply),
      Deployed ''BorrowLogicFactory'' [] [(PLACEHOLDER_VALIDATION_LOGIC, c_address validation)] (c_address borrow),
      Deployed ''LiquidateLogicFactory'' [] [(PLACEHOLDER_VALIDATION_LOGIC, c_address validation)] (c_address liquidate),
      Deployed ''ConfiguratorLogicFactory'' [] [] (c_address config)]
     [(cid C_ConfiguratorLogic, entry_of config),
      (cid C_LiquidateLogic, entry_of liquidate), (cid C_BorrowLogic, entry_of borrow),
      (cid C_SupplyLogic, entry_of supply), (cid C_ValidationLogic, entry_of validation),
      (cid C_NftLogic, entry_of nft), (cid C_ReserveLogic, entry_of reserve),
      (cid C_GenericLogic, entry_of generic)]"
proof -
  from assms obtain w1 c where 1: "deployLendPoolLibraries verify w = (Inr (), w1)"
    and 2: "deployConfiguratorLogicLibrary verify w1 = (Inr c, w')"
    by (auto simp: deployBendLibraries_def deployConfiguratorLibraries_def task_returns)
  note c = deploySaved_does [OF 2 [unfolded deployConfiguratorLogicLibrary_def]]
  from deployLendPoolLibraries_does [OF 1] obtain g r n v s b l na va where
    a: "artifact_read w (cid C_NftLogic) na" "artifact_read w (cid C_ValidationLogic) va" and
    d: "does w w1 [
      Deployed ''GenericLogicFactory'' [] [] (c_address g),
      Deployed ''ReserveLogicFactory'' [] [] (c_address r),
      Deployed ''ContractFactory'' [JStr (linkBytecode na [])] [] (c_address n),
      Deployed ''ContractFactory'' [JStr (linkBytecode va
        [(cid C_ReserveLogic, c_address r), (cid C_GenericLogic, c_address g)])] [] (c_address v),
      Deployed ''SupplyLogicFactory'' [] [(PLACEHOLDER_VALIDATION_LOGIC, c_address v)] (c_address s),
      Deployed ''BorrowLogicFactory'' [] [(PLACEHOLDER_VALIDATION_LOGIC, c_address v)] (c_address b),
      Deployed ''LiquidateLogicFactory'' [] [(PLACEHOLDER_VALIDATION_LOGIC, c_address v)] (c_address l)]
     [(cid C_LiquidateLogic, entry_of l), (cid C_BorrowLogic, entry_of b),
      (cid C_SupplyLogic, entry_of s), (cid C_ValidationLogic, entry_of v),
      (cid C_NftLogic, entry_of n), (cid C_ReserveLogic, entry_of r),
      (cid C_GenericLogic, entry_of g)]" by blast
  show ?thesis
    by (rule exI [of _ g], rule exI [of _ r], rule exI [of _ n], rule exI [of _ v], rule exI [of _ s],
        rule exI [of _ b], rule exI [of _ l], rule exI [of _ c], rule exI [of _ na], rule exI [of _ va])
      (use a does_trans [OF d c] in \<open>simp del: cid.simps\<close>)
qed

text \<open>What the pool links is what the task has just deployed.\<close>

lemma set_impl_getters:
  "\<forall>a. obeys quiet (getLendPool a)" "\<forall>a. obeys quiet (getLendPoolLoanProxy a)"
  "\<forall>a. obeys quiet (getLendPoolConfiguratorProxy a)"
  by (simp_all only: getLendPool_def getLendPoolLoanProxy_def getLendPoolConfiguratorProxy_def
      connectOrDb_quiet simp_thms)

lemma set_impl_connect:
  "\<forall>a. getLendPool a = connectOrDb (cid C_LendPool) a"
  "\<forall>a. getLendPoolLoanProxy a = connectOrDb (cid C_LendPoolLoan) a"
  "\<forall>a. getLendPoolConfiguratorProxy a = connectOrDb (cid C_LendPoolConfigurator) a"
  by (simp_all only: getLendPool_def getLendPoolLoanProxy_def getLendPoolConfiguratorProxy_def simp_thms)

text \<open>\<open>proxy\<close> is what the provider answers to \<open>reader\<close> (when it answers an address).\<close>

definition provider_has :: "world \<Rightarrow> string \<Rightarrow> string \<Rightarrow> string \<Rightarrow> bool" where
  "provider_has w provider reader proxy \<longleftrightarrow>
     (\<exists>x. answered w (ViewCall provider reader []) x \<and> (js_str x \<noteq> [] \<longrightarrow> proxy = js_str x))"

lemma provider_has_env: "does w w' es us \<Longrightarrow> provider_has w' p r a = provider_has w p r a"
  by (simp add: provider_has_def answered_env)

text \<open>The three implementations, given the libraries in the database: each is deployed, set at the provider with
  its own address and saved, and the proxy that the provider has for it is saved as well.\<close>

lemma pool_implementations_does:
  assumes 7: "set_impl prov (deployLendPool verify) ''setLendPoolImpl'' ''getLendPool'' getLendPool C_LendPool w6 = (Inr p, w7)"
    and 8: "set_impl prov (deployLendPoolLoan verify) ''setLendPoolLoanImpl'' ''getLendPoolLoan''
      getLendPoolLoanProxy C_LendPoolLoan w7 = (Inr l, w8)"
    and 9: "set_impl prov (deployLendPoolConfigurator verify) ''setLendPoolConfiguratorImpl'' ''getLendPoolConfigurator''
      getLendPoolConfiguratorProxy C_LendPoolConfigurator w8 = (Inr c, w9)"
    and db6: "db_get (cid C_ReserveLogic) w6 = Some (entry_of r)" "db_get (cid C_NftLogic) w6 = Some (entry_of n)"
      "db_get (cid C_SupplyLogic) w6 = Some (entry_of s)" "db_get (cid C_BorrowLogic) w6 = Some (entry_of b)"
      "db_get (cid C_LiquidateLogic) w6 = Some (entry_of li)"
      "db_get (cid C_ConfiguratorLogic) w6 = Some (entry_of co)"
  shows "provider_has w6 (c_address prov) ''getLendPool'' (c_address p) \<and>
    provider_has w6 (c_address prov) ''getLendPoolLoan'' (c_address l) \<and>
    provider_has w6 (c_address prov) ''getLendPoolConfigurator'' (c_address c) \<and>
    (\<exists>poolImpl loanImpl confImpl. does w6 w9 [
      Deployed ''LendPoolFactory'' [] [(PLACEHOLDER_RESERVE_LOGIC, c_address r),
        (PLACEHOLDER_NFT_LOGIC, c_address n), (PLACEHOLDER_SUPPLY_LOGIC, c_address s),
        (PLACEHOLDER_BORROW_LOGIC, c_address b), (PLACEHOLDER_LIQUIDATE_LOGIC, c_address li)] (c_address poolImpl),
      Sent (c_address prov) ''setLendPoolImpl'' [JStr (c_address poolImpl), JArr []],
      Deployed ''LendPoolLoanFactory'' [] [] (c_address loanImpl),
      Sent (c_address prov) ''setLendPoolLoanImpl'' [JStr (c_address loanImpl), JArr []],
      Deployed ''LendPoolConfiguratorFactory'' [] [(PLACEHOLDER_CONFIGURATOR_LOGIC, c_address co)] (c_address confImpl),
      Sent (c_address prov) ''setLendPoolConfiguratorImpl'' [JStr (c_address confImpl), JArr []]]
     [(cid C_LendPoolConfigurator, bare_entry (c_address c)), (cid C_LendPoolConfigurator, entry_of confImpl),
      (cid C_LendPoolConfiguratorImpl, bare_entry (c_address confImpl)),
      (cid C_LendPoolLoan, bare_entry (c_address l)), (cid C_LendPoolLoan, entry_of loanImpl),
      (cid C_LendPoolLoanImpl, bare_entry (c_address loanImpl)),
      (cid C_LendPool, bare_entry (c_address p)), (cid C_LendPool, entry_of poolImpl),
      (cid C_LendPoolImpl, bare_entry (c_address poolImpl))])"
proof -
  let ?libs = "[(PLACEHOLDER_RESERVE_LOGIC, c_address r),
        (PLACEHOLDER_NFT_LOGIC, c_address n), (PLACEHOLDER_SUPPLY_LOGIC, c_address s),
        (PLACEHOLDER_BORROW_LOGIC, c_address b), (PLACEHOLDER_LIQUIDATE_LOGIC, c_address li)]"
  have "\<forall>c v. deployLendPool verify w6 = (Inr c, v) \<longrightarrow> does w6 v [Deployed ''LendPoolFactory'' [] ?libs (c_address c)]
      [(cid C_LendPool, entry_of c), (cid C_LendPoolImpl, bare_entry (c_address c))]"
    using deployLendPool_does [OF _ db6(1-5)] by (simp add: entry_of_def del: cid.simps)
  from set_impl_does [OF 7 this set_impl_getters(1) set_impl_connect(1)] obtain pi where
    h7: "provider_has w6 (c_address prov) ''getLendPool'' (c_address p)" and
    d7: "does w6 w7 [Deployed ''LendPoolFactory'' [] ?libs (c_address pi),
      Sent (c_address prov) ''setLendPoolImpl'' [JStr (c_address pi), JArr []]]
      [(cid C_LendPool, bare_entry (c_address p)), (cid C_LendPool, entry_of pi),
       (cid C_LendPoolImpl, bare_entry (c_address pi))]" unfolding provider_has_def by blast
  have "\<forall>c v. deployLendPoolLoan verify w7 = (Inr c, v) \<longrightarrow>
      does w7 v [Deployed ''LendPoolLoanFactory'' [] [] (c_address c)]
      [(cid C_LendPoolLoan, entry_of c), (cid C_LendPoolLoanImpl, bare_entry (c_address c))]"
    unfolding deployLendPoolLoan_def using deployImpl_does by blast
  from set_impl_does [OF 8 this set_impl_getters(2) set_impl_connect(2)] obtain la where
    h8: "provider_has w7 (c_address prov) ''getLendPoolLoan'' (c_address l)" and
    d8: "does w7 w8 [Deployed ''LendPoolLoanFactory'' [] [] (c_address la),
      Sent (c_address prov) ''setLendPoolLoanImpl'' [JStr (c_address la), JArr []]]
      [(cid C_LendPoolLoan, bare_entry (c_address l)), (cid C_LendPoolLoan, entry_of la),
       (cid C_LendPoolLoanImpl, bare_entry (c_address la))]" unfolding provider_has_def by blast
  note d78 = does_trans [OF d7 d8]
  have db8: "db_get (cid C_ConfiguratorLogic) w8 = Some (entry_of co)"
    using does_db [OF d78, of "cid C_ConfiguratorLogic"] db6(6) by simp
  have "\<forall>c v. deployLendPoolConfigurator verify w8 = (Inr c, v) \<longrightarrow>
      does w8 v [Deployed ''LendPoolConfiguratorFactory'' [] [(PLACEHOLDER_CONFIGURATOR_LOGIC, c_address co)] (c_address c)]
      [(cid C_LendPoolConfigurator, entry_of c), (cid C_LendPoolConfiguratorImpl, bare_entry (c_address c))]"
    using deployLendPoolConfigurator_does [OF _ db8] by (simp add: entry_of_def del: cid.simps)
  from set_impl_does [OF 9 this set_impl_getters(3) set_impl_connect(3)] obtain ca where
    h9: "provider_has w8 (c_address prov) ''getLendPoolConfigurator'' (c_address c)" and
    d9: "does w8 w9 [Deployed ''LendPoolConfiguratorFactory'' []
        [(PLACEHOLDER_CONFIGURATOR_LOGIC, c_address co)] (c_address ca),
      Sent (c_address prov) ''setLendPoolConfiguratorImpl'' [JStr (c_address ca), JArr []]]
      [(cid C_LendPoolConfigurator, bare_entry (c_address c)), (cid C_LendPoolConfigurator, entry_of ca),
       (cid C_LendPoolConfiguratorImpl, bare_entry (c_address ca))]" unfolding provider_has_def by blast
  show ?thesis
    by (intro conjI, rule h7, use h8 provider_has_env [OF d7] in simp,
        use h9 provider_has_env [OF d78] in simp, rule exI [of _ pi], rule exI [of _ la], rule exI [of _ ca])
      (use does_trans [OF d78 d9] in \<open>simp del: cid.simps\<close>)
qed

text \<open>C10: What \<open>full:deploy-lend-pool\<close> does when it succeeds. In order: registry and incentives to the address
  provider; the libraries, each linked to those deployed before it (the bytecode of the two that are linked by
  hand is the artifact that was read under their name); the implementations of pool, loan manager and
  configurator, linked to the addresses of these libraries, each set at the provider with the address it was
  deployed at; the pause, sent to the configurator that the provider has; the implementations of the tokens.
  Afterwards the database names the three implementations, the proxies that the provider has for them, and the
  libraries.\<close>

theorem deploy_lend_pool_does:
  assumes run: "deploy_lend_pool verify pool w = (Inr u, w')"
    and cfg: "loadPoolConfig pool w = (Inr cfg, w)"
  shows "\<exists>prov generic reserve nft validation supply borrow liquidate config nftArt valArt
      poolImpl loanImpl confImpl poolProxy loanProxy conf tokens us.
    db_get (cid C_LendPoolAddressesProvider) w = Some prov \<and>
    artifact_read w (cid C_NftLogic) nftArt \<and> artifact_read w (cid C_ValidationLogic) valArt \<and>
    provider_has w (e_address prov) ''getLendPool'' poolProxy \<and>
    provider_has w (e_address prov) ''getLendPoolLoan'' loanProxy \<and>
    provider_has w (e_address prov) ''getLendPoolConfigurator'' conf \<and>
    does w w' ([
      Sent (e_address prov) ''setBNFTRegistry'' [JStr (the (addressParam w (BNFTRegistry cfg)))],
      Sent (e_address prov) ''setIncentivesController'' [JStr (the (addressParam w (IncentivesController cfg)))],
      Deployed ''GenericLogicFactory'' [] [] generic,
      Deployed ''ReserveLogicFactory'' [] [] reserve,
      Deployed ''ContractFactory'' [JStr (linkBytecode nftArt [])] [] nft,
      Deployed ''ContractFactory'' [JStr (linkBytecode valArt
        [(cid C_ReserveLogic, reserve), (cid C_GenericLogic, generic)])] [] validation,
      Deployed ''SupplyLogicFactory'' [] [(PLACEHOLDER_VALIDATION_LOGIC, validation)] supply,
      Deployed ''BorrowLogicFactory'' [] [(PLACEHOLDER_VALIDATION_LOGIC, validation)] borrow,
      Deployed ''LiquidateLogicFactory'' [] [(PLACEHOLDER_VALIDATION_LOGIC, validation)] liquidate,
      Deployed ''ConfiguratorLogicFactory'' [] [] config,
      Deployed ''LendPoolFactory'' [] [(PLACEHOLDER_RESERVE_LOGIC, reserve), (PLACEHOLDER_NFT_LOGIC, nft),
        (PLACEHOLDER_SUPPLY_LOGIC, supply), (PLACEHOLDER_BORROW_LOGIC, borrow),
        (PLACEHOLDER_LIQUIDATE_LOGIC, liquidate)] poolImpl,
      Sent (e_address prov) ''setLendPoolImpl'' [JStr poolImpl, JArr []],
      Deployed ''LendPoolLoanFactory'' [] [] loanImpl,
      Sent (e_address prov) ''setLendPoolLoanImpl'' [JStr loanImpl, JArr []],
      Deployed ''LendPoolConfiguratorFactory'' [] [(PLACEHOLDER_CONFIGURATOR_LOGIC, config)] confImpl,
      Sent (e_address prov) ''setLendPoolConfiguratorImpl'' [JStr confImpl, JArr []],
      Sent conf ''setPoolPause'' [JBool True]] @ tokens) us \<and>
    set tokens \<subseteq> {Deployed f [] [] a | f a. f \<in> {''BTokenFactory'', ''DebtTokenFactory''}} \<and>
    map (\<lambda>i. map_option e_address (oget us (cid i)))
      [C_LendPoolImpl, C_LendPoolLoanImpl, C_LendPoolConfiguratorImpl,
       C_LendPool, C_LendPoolLoan, C_LendPoolConfigurator,
       C_GenericLogic, C_ReserveLogic, C_NftLogic, C_ValidationLogic, C_SupplyLogic, C_BorrowLogic,
       C_LiquidateLogic, C_ConfiguratorLogic] =
    map Some [poolImpl, loanImpl, confImpl, poolProxy, loanProxy, conf,
       generic, reserve, nft, validation, supply, borrow, liquidate, config]"
proof -
  from run cfg obtain w1 prov w2 reg w3 w4 w5 w6 p w7 l w8 c w9 adm w10 w11 where
    1: "run_compile w = (Inr (), w1)" and
    2: "getLendPoolAddressesProvider None w1 = (Inr prov, w2)" and
    v3: "notFalsyOrZeroAddress w2 (addressParam w2 (BNFTRegistry cfg))" and
    3: "getBNFTRegistryProxy (addressParam w2 (BNFTRegistry cfg)) w2 = (Inr reg, w3)" and
    4: "send prov ''setBNFTRegistry'' [JStr (c_address reg)] w3 = (Inr (), w4)" and
    5: "send prov ''setIncentivesController'' [JStr (the (addressParam w4 (IncentivesController cfg)))] w4 = (Inr (), w5)" and
    6: "deployBendLibraries verify w5 = (Inr (), w6)" and
    7: "set_impl prov (deployLendPool verify) ''setLendPoolImpl'' ''getLendPool'' getLendPool C_LendPool w6 = (Inr p, w7)" and
    8: "set_impl prov (deployLendPoolLoan verify) ''setLendPoolLoanImpl'' ''getLendPoolLoan''
      getLendPoolLoanProxy C_LendPoolLoan w7 = (Inr l, w8)" and
    9: "set_impl prov (deployLendPoolConfigurator verify) ''setLendPoolConfiguratorImpl'' ''getLendPoolConfigurator''
      getLendPoolConfiguratorProxy C_LendPoolConfigurator w8 = (Inr c, w9)" and
    10: "getEmergencyAdmin cfg w9 = (Inr adm, w10)" and
    11: "send (as_signer adm c) ''setPoolPause'' [JBool True] w10 = (Inr (), w11)" and
    12: "deployBTokenImplementations pool (ReservesConfig cfg) verify w11 = (Inr u, w')"
    by (auto simp: deploy_lend_pool_def task_returns loadPoolConfig_def split: if_splits)
  have q1: "quiet w w1" using run_compile_quiet 1 by (rule qt.run)
  from connectOrDb_returns [OF 2 [unfolded getLendPoolAddressesProvider_def]] obtain pe where
    q12: "quiet w1 w2" and pe: "db_get (cid C_LendPoolAddressesProvider) w1 = Some pe" "e_address pe = c_address prov"
    by auto
  have q2: "quiet w w2" using q1 q12 by (rule qt.R_trans)
  have reg: "quiet w2 w3" "c_address reg = the (addressParam w2 (BNFTRegistry cfg))"
    using connectOrDb_returns [OF 3 [unfolded getBNFTRegistryProxy_def]] notFalsy_truthy [OF v3] by auto
  have q3: "quiet w w3" using q2 reg(1) by (rule qt.R_trans)
  note d4 = does_quiet_left [OF q3 send_does [OF 4]]
  note d5 = does_trans [OF d4 send_does [OF 5]]
  from deployBendLibraries_does [OF 6] obtain g r n v s b li co na va where
    art: "artifact_read w5 (cid C_NftLogic) na" "artifact_read w5 (cid C_ValidationLogic) va" and
    d6: "does w5 w6 [
      Deployed ''GenericLogicFactory'' [] [] (c_address g),
      Deployed ''ReserveLogicFactory'' [] [] (c_address r),
      Deployed ''ContractFactory'' [JStr (linkBytecode na [])] [] (c_address n),
      Deployed ''ContractFactory'' [JStr (linkBytecode va
        [(cid C_ReserveLogic, c_address r), (cid C_GenericLogic, c_address g)])] [] (c_address v),
      Deployed ''SupplyLogicFactory'' [] [(PLACEHOLDER_VALIDATION_LOGIC, c_address v)] (c_address s),
      Deployed ''BorrowLogicFactory'' [] [(PLACEHOLDER_VALIDATION_LOGIC, c_address v)] (c_address b),
      Deployed ''LiquidateLogicFactory'' [] [(PLACEHOLDER_VALIDATION_LOGIC, c_address v)] (c_address li),
      Deployed ''ConfiguratorLogicFactory'' [] [] (c_address co)]
     [(cid C_ConfiguratorLogic, entry_of co),
      (cid C_LiquidateLogic, entry_of li), (cid C_BorrowLogic, entry_of b),
      (cid C_SupplyLogic, entry_of s), (cid C_ValidationLogic, entry_of v),
      (cid C_NftLogic, entry_of n), (cid C_ReserveLogic, entry_of r),
      (cid C_GenericLogic, entry_of g)]" by blast
  have db6: "db_get (cid C_ReserveLogic) w6 = Some (entry_of r)" "db_get (cid C_NftLogic) w6 = Some (entry_of n)"
    "db_get (cid C_SupplyLogic) w6 = Some (entry_of s)" "db_get (cid C_BorrowLogic) w6 = Some (entry_of b)"
    "db_get (cid C_LiquidateLogic) w6 = Some (entry_of li)"
    "db_get (cid C_ConfiguratorLogic) w6 = Some (entry_of co)"
    using does_db [OF d6] by simp_all
  note impls = pool_implementations_does [OF 7 8 9 db6]
  then obtain pi la ca where d9: "does w6 w9 [
      Deployed ''LendPoolFactory'' [] [(PLACEHOLDER_RESERVE_LOGIC, c_address r),
        (PLACEHOLDER_NFT_LOGIC, c_address n), (PLACEHOLDER_SUPPLY_LOGIC, c_address s),
        (PLACEHOLDER_BORROW_LOGIC, c_address b), (PLACEHOLDER_LIQUIDATE_LOGIC, c_address li)] (c_address pi),
      Sent (c_address prov) ''setLendPoolImpl'' [JStr (c_address pi), JArr []],
      Deployed ''LendPoolLoanFactory'' [] [] (c_address la),
      Sent (c_address prov) ''setLendPoolLoanImpl'' [JStr (c_address la), JArr []],
      Deployed ''LendPoolConfiguratorFactory'' [] [(PLACEHOLDER_CONFIGURATOR_LOGIC, c_address co)] (c_address ca),
      Sent (c_address prov) ''setLendPoolConfiguratorImpl'' [JStr (c_address ca), JArr []]]
     [(cid C_LendPoolConfigurator, bare_entry (c_address c)), (cid C_LendPoolConfigurator, entry_of ca),
      (cid C_LendPoolConfiguratorImpl, bare_entry (c_address ca)),
      (cid C_LendPoolLoan, bare_entry (c_address l)), (cid C_LendPoolLoan, entry_of la),
      (cid C_LendPoolLoanImpl, bare_entry (c_address la)),
      (cid C_LendPool, bare_entry (c_address p)), (cid C_LendPool, entry_of pi),
      (cid C_LendPoolImpl, bare_entry (c_address pi))]" by blast
  have q10: "quiet w9 w10" using getEmergencyAdmin_quiet 10 by (rule qt.run)
  note d11 = does_quiet_left [OF q10 send_does [OF 11]]
  from deployBTokenImplementations_deploys [OF 12] obtain tokens us12 where
    d12: "does w11 w' tokens us12" and names: "fst ` set us12 \<subseteq> set [cid C_BToken, cid C_DebtToken]" and
    t: "set tokens \<subseteq> {Deployed f [] [] a | f a. f \<in> {''BTokenFactory'', ''DebtTokenFactory''}}"
    unfolding only_deploys_def by auto
  have other: "oget us12 i = None" if "i \<noteq> cid C_BToken" "i \<noteq> cid C_DebtToken" for i
    using names that by (auto simp: map_of_eq_None_iff)
  have ic: "addressParam w4 (IncentivesController cfg) = addressParam w (IncentivesController cfg)"
    by (rule does_addressParam [OF d4])
  note env = artifact_read_env [OF d5] provider_has_env [OF does_trans [OF d5 d6]]
  note d = does_trans [OF does_trans [OF does_trans [OF does_trans [OF d5 d6] d9] d11] d12]
  show ?thesis
    by (rule exI [of _ pe], rule exI [of _ "c_address g"], rule exI [of _ "c_address r"], rule exI [of _ "c_address n"],
        rule exI [of _ "c_address v"], rule exI [of _ "c_address s"], rule exI [of _ "c_address b"],
        rule exI [of _ "c_address li"], rule exI [of _ "c_address co"], rule exI [of _ na], rule exI [of _ va],
        rule exI [of _ "c_address pi"], rule exI [of _ "c_address la"], rule exI [of _ "c_address ca"],
        rule exI [of _ "c_address p"], rule exI [of _ "c_address l"], rule exI [of _ "c_address c"], rule exI [of _ tokens],
        intro exI conjI, use pe quiet_db [OF q1] in simp, use art env in simp, use art env in simp,
        use impls pe env in simp, use impls pe env in simp, use impls pe env in simp,
        use d pe reg(2) quiet_addressParam [OF q2] ic in \<open>simp add: comp_def del: cid.simps\<close>, rule t)
      (simp add: oget_append_skip [OF other] entry_of_def bare_entry_def del: map_of_append)
qed

end
