(* ===== verification/MarketSpec.thy ===== *)
theory MarketSpec
  imports FullSpec
begin

text \<open>
  The initialisation of a market: \<open>full:initialize-lend-pool\<close> of \<open>tasks/full/initialize.ts\<close> composes the
  specifications of the four helpers of \<open>InitSpec\<close>.
\<close>

lemma does_networkParam:
  "does w w' es us \<Longrightarrow> getParamPerNetwork (procenv w') p (net_name w') = getParamPerNetwork (procenv w) p (net_name w)"
  by (simp add: does_env)

lemma assets_on_returns:
  "assets_on param e w = (Inr a, w') \<longleftrightarrow>
     w' = w \<and> getParamPerNetwork (procenv w) param (net_name w) = Some a"
  by (auto simp: assets_on_def task_returns split: option.splits)

lemma or_exit_returns: "or_exit m w = (Inr u, w') \<longleftrightarrow> m w = (Inr u, w')"
  by (auto simp: or_exit_def tcatch_def split: prod.splits sum.splits if_splits)

text \<open>C6: What \<open>full:initialize-lend-pool\<close> deploys and sends when it succeeds, on a node that gives every contract
  it deploys an address (\<open>node_names_contracts\<close>) and for reserves whose strategies are not named like a contract
  the loop reads from the database (\<open>names_apart\<close>). In order: one rate contract per strategy, at the addresses
  \<open>as\<close>; one \<open>batchInitReserve\<close> per reserve with an address on the network, whose rate address is the one that
  its own strategy was deployed at (\<open>rate_table\<close>); the reserves' configurations in chunks of 20 with the borrowing
  flags of those that allow it; one \<open>batchInitNft\<close> per NFT with an address; and the configurations of these NFTs
  in chunks of 20.\<close>

theorem initialize_lend_pool_does:
  assumes run: "initialize_lend_pool verify pool w = (Inr u, w')"
    and cfg: "loadPoolConfig pool w = (Inr cfg, w)"
    and node: "node_names_contracts w" and apart: "names_apart (ReservesConfig cfg)"
  defines "collector \<equiv> opt_val (addressOn networkOrFork (ReserveFactorCollectorAddress cfg) w)"
  shows "\<exists>provider conf as ra na us.
    db_get (cid C_LendPoolAddressesProvider) w = Some provider \<and>
    db_get (cid C_LendPoolConfigurator) w = Some conf \<and>
    getParamPerNetwork (procenv w) (ReserveAssets cfg) (net_name w) = Some ra \<and>
    getParamPerNetwork (procenv w) (NftsAssets cfg) (net_name w) = Some na \<and>
    length as = length (first_strategies [] (selected ra (ReservesConfig cfg))) \<and>
    does w w' (
      map2 (strategy_deployment (e_address provider)) (first_strategies [] (selected ra (ReservesConfig cfg))) as @
      map (\<lambda>sp. Sent (e_address conf) ''batchInitReserve''
        [JArr [input_for ra (token_naming_of cfg) collector pool w
          (rate_table (first_strategies [] (selected ra (ReservesConfig cfg))) as) sp]])
        (selected ra (ReservesConfig cfg)) @
      (if selected ra (ReservesConfig cfg) = [] then [] else
        map (\<lambda>ch. Sent (e_address conf) ''batchConfigReserve'' [JArr ch])
          (chunk (map (\<lambda>(s, p). config_reserve_input (the (oget ra s)) p) (selected ra (ReservesConfig cfg))) 20) @
        [Sent (e_address conf) ''setBorrowingFlagOnReserve''
          [JArr (map (\<lambda>(s, p). JStr (the (oget ra s)))
             (filter (\<lambda>(s, p). borrowingEnabled p) (selected ra (ReservesConfig cfg)))), JBool True]]) @
      map (\<lambda>ch. Sent (e_address conf) ''batchInitNft'' [JArr ch])
        (chunk (init_nft_inputs (NftsConfig cfg) na) 1) @
      map (\<lambda>ch. Sent (e_address conf) ''batchConfigNft'' [JArr ch])
        (chunk (map (\<lambda>(s, p). config_nft_input (the (oget na s)) p) (configurable na (NftsConfig cfg))) 20)) us"
proof -
  from run cfg obtain prov w1 adm w2 coll w3 ra w4 w5 na w6 where
    1: "getLendPoolAddressesProvider None w = (Inr prov, w1)" and
    2: "view prov ''getPoolAdmin'' [] w1 = (Inr adm, w2)" and
    3: "getReserveFactorCollectorAddress cfg w2 = (Inr coll, w2)" and
    ra: "getParamPerNetwork (procenv w2) (ReserveAssets cfg) (net_name w2) = Some ra" and
    4: "initReservesByHelper (ReservesConfig cfg) ra (token_naming_of cfg) (js_str adm) (opt_val coll)
      pool verify w2 = (Inr (), w4)" and
    5: "configureReservesByHelper (ReservesConfig cfg) ra (js_str adm) w4 = (Inr (), w5)" and
    na: "getParamPerNetwork (procenv w5) (NftsAssets cfg) (net_name w5) = Some na" and
    6: "initNftsByHelper (NftsConfig cfg) na (js_str adm) pool verify w5 = (Inr (), w6)" and
    7: "configureNftsByHelper (NftsConfig cfg) na (js_str adm) w6 = (Inr u, w')"
    unfolding initialize_lend_pool_def or_exit_returns
    by (auto simp: task_returns assets_on_returns getReserveFactorCollectorAddress_def)
  from connectOrDb_returns [OF 1 [unfolded getLendPoolAddressesProvider_def]] view_returns_quiet [OF 2]
  have q2: "quiet w w2" by (meson qt.R_trans)
  then have d2: "does w w2 [] []" by (simp add: quiet_def)
  have coll: "opt_val coll = collector"
    using 3 q2 by (auto simp: collector_def getReserveFactorCollectorAddress_def addressOn_def networkOrFork_def
        quiet_def dest!: does_env)
  have node2: "node_names_contracts w2" using node does_env [OF d2] by (simp add: node_names_contracts_def)
  from initReserves_does [OF 4 node2 apart] obtain pe ce as us4 where
    pe: "db_get (cid C_LendPoolAddressesProvider) w2 = Some pe" and
    ce: "db_get (cid C_LendPoolConfigurator) w2 = Some ce" and
    len: "length as = length (first_strategies [] (selected ra (ReservesConfig cfg)))" and
    d4: "does w2 w4
      (map2 (strategy_deployment (e_address pe)) (first_strategies [] (selected ra (ReservesConfig cfg))) as @
       map (\<lambda>sp. Sent (e_address ce) ''batchInitReserve''
         [JArr [input_for ra (token_naming_of cfg) (opt_val coll) pool w2
           (rate_table (first_strategies [] (selected ra (ReservesConfig cfg))) as) sp]])
         (selected ra (ReservesConfig cfg))) us4" and
    us4: "oget us4 (cid C_LendPoolConfigurator) = None" by blast
  have ce4: "db_get (cid C_LendPoolConfigurator) w4 = Some ce" using does_db [OF d4] us4 ce by simp
  from configureReserves_does [OF 5] ce4 obtain
    d5: "does w4 w5 (if selected ra (ReservesConfig cfg) = [] then [] else
        map (\<lambda>ch. Sent (e_address ce) ''batchConfigReserve'' [JArr ch])
          (chunk (map (\<lambda>(s, p). config_reserve_input (the (oget ra s)) p) (selected ra (ReservesConfig cfg))) 20) @
        [Sent (e_address ce) ''setBorrowingFlagOnReserve''
          [JArr (map (\<lambda>(s, p). JStr (the (oget ra s)))
             (filter (\<lambda>(s, p). borrowingEnabled p) (selected ra (ReservesConfig cfg)))), JBool True]]) []"
    by auto
  have ce5: "db_get (cid C_LendPoolConfigurator) w5 = Some ce" using does_db [OF d5] ce4 by simp
  from initNfts_does [OF 6] ce5 have
    d6: "does w5 w6 (map (\<lambda>ch. Sent (e_address ce) ''batchInitNft'' [JArr ch])
        (chunk (init_nft_inputs (NftsConfig cfg) na) 1)) []" by auto
  have ce6: "db_get (cid C_LendPoolConfigurator) w6 = Some ce" using does_db [OF d6] ce5 by simp
  from configureNfts_does [OF 7] ce6 have
    d7: "does w6 w' (map (\<lambda>ch. Sent (e_address ce) ''batchConfigNft'' [JArr ch])
        (chunk (map (\<lambda>(s, p). config_nft_input (the (oget na s)) p) (configurable na (NftsConfig cfg))) 20)) []"
    by auto
  have same: "input_for ra tn c pool w2 rates = input_for ra tn c pool w rates" for tn c rates
    using impl_at_does [OF d2] by (intro ext input_for_cong) simp_all
  note d = does_trans [OF does_trans [OF does_trans [OF does_quiet_left [OF q2 d4] d5] d6] d7]
  show ?thesis
    using d pe ce ra na len
    unfolding quiet_db [OF q2] does_networkParam [OF d2] does_networkParam [OF does_trans [OF d2 does_trans [OF d4 d5]]]
      same coll
    by - (rule exI [of _ pe], rule exI [of _ ce], rule exI [of _ as], rule exI [of _ ra],
        rule exI [of _ na], rule exI, intro conjI, simp_all only: append_assoc append_Nil append_Nil2)
qed

end
