(* ===== verification/OraclesHelpers.thy ===== *)
theory OraclesHelpers
  imports InitHelpers
begin

text \<open>
  \<open>helpers/oracles-helpers.ts\<close>: feeding prices and aggregators into the oracles, and deploying the mock
  aggregators of the test networks. The loops look an entry up by the position of its key, so what
  happens to an asset that has no entry differs from function to function: an \<open>Error\<close> that names it
  where the position is compared with 0, a \<open>TypeError\<close> of the runtime elsewhere.
\<close>

section \<open>The functions\<close>

definition setPricesInChainlinkMockAggregator ::
  "string jsobj \<Rightarrow> string jsobj \<Rightarrow> contract \<Rightarrow> unit task" where
  "setPricesInChainlinkMockAggregator prices assetsAddresses aggregator =
     tfor prices (\<lambda>(assetSymbol, price).
       tbind (entry_at_key assetsAddresses assetSymbol) (\<lambda>assetAddress.
       submit aggregator ''mockAddAnswer'' [JStr ''1'', JStr price, JStr ''1'', JStr ''1'', JStr ''1'']))"

text \<open>\<open>ethers.utils.zeroPad(ethers.utils.arrayify(a), 32)\<close>, whose value is not used\<close>

definition asset_bytes32 :: "string \<Rightarrow> unit task" where
  "asset_bytes32 assetAddress =
     tbind (ask (External ''arrayify'' [JStr assetAddress])) (\<lambda>bytes.
     tseq (ask (External ''zeroPad'' [bytes, JNum 32])) (tret ()))"

definition setAggregatorsInReserveOracle ::
  "string jsobj \<Rightarrow> string jsobj \<Rightarrow> contract \<Rightarrow> unit task" where
  "setAggregatorsInReserveOracle allAssetsAddresses aggregatorsAddresses priceOracle =
     tfor allAssetsAddresses (\<lambda>(assetSymbol, assetAddress).
       if findIndex (\<lambda>v. v = assetSymbol) (map fst aggregatorsAddresses) < 0
       then tthrow (JsError (''can not find aggregator for '' @ assetSymbol))
       else tbind (entry_at_key aggregatorsAddresses assetSymbol) (\<lambda>aggAddress.
         tseq (asset_bytes32 assetAddress)
         (send priceOracle ''addAggregator'' [JStr assetAddress, JStr aggAddress])))"

definition addAssetsInNFTOracle :: "string jsobj \<Rightarrow> contract \<Rightarrow> unit task" where
  "addAssetsInNFTOracle assetsAddresses nftOracle =
     tfor assetsAddresses (\<lambda>(assetSymbol, assetAddress). send nftOracle ''addAsset'' [JStr assetAddress])"

text \<open>
  The loop skips an asset when \<open>priceIndex == undefined\<close>. \<open>findIndex\<close> returns a number, and no number
  is \<open>== undefined\<close>, so that branch is never taken: \<open>is_undefined\<close> is the comparison.
\<close>

definition is_undefined :: "int \<Rightarrow> bool" where
  "is_undefined i = (JNum i = JUndef)"

definition setPricesInNFTOracle :: "string jsobj \<Rightarrow> string jsobj \<Rightarrow> contract \<Rightarrow> unit task" where
  "setPricesInNFTOracle prices assetsAddresses nftOracle =
     tfor assetsAddresses (\<lambda>(assetSymbol, assetAddress).
       if is_undefined (findIndex (\<lambda>v. v = assetSymbol) (map fst prices)) then tret ()
       else tbind (entry_at_key prices assetSymbol) (\<lambda>price.
         send nftOracle ''setAssetData'' [JStr assetAddress, JStr price]))"

definition deployChainlinkMockAggregator :: "string \<Rightarrow> string \<Rightarrow> string \<Rightarrow> bool \<Rightarrow> contract task" where
  "deployChainlinkMockAggregator tokenName tokenDecimal initialPrice verify =
     tbind getNowTimeInSeconds (\<lambda>latestTime.
     tbind (deployMockChainlinkOracle tokenDecimal verify) (\<lambda>aggregator.
     tseq (submit aggregator ''mockAddAnswer''
       [JNum 1, JStr initialPrice, JStr latestTime, JStr latestTime, JStr ''1''])
     (tret aggregator)))"

definition deployAllChainlinkMockAggregators ::
  "string jsobj \<Rightarrow> string jsobj \<Rightarrow> bool \<Rightarrow> contract jsobj task" where
  "deployAllChainlinkMockAggregators allTokenDecimals initialPrices verify =
     tfold (map fst initialPrices) (\<lambda>tokenContractName aggregators.
       if tokenContractName = ''ETH'' then tret aggregators
       else if findIndex (\<lambda>v. v = tokenContractName) (map fst initialPrices) < 0
       then tthrow (JsError (''can not find price for '' @ tokenContractName))
       else tbind (entry_at_key initialPrices tokenContractName) (\<lambda>price.
         tbind (deployChainlinkMockAggregator tokenContractName ''18'' price verify) (\<lambda>aggregator.
         tret (oset tokenContractName aggregator aggregators)))) []"

definition deployAllReservesMockAggregatorsInPoolConfig ::
  "ICommonConfiguration \<Rightarrow> bool \<Rightarrow> string jsobj task" where
  "deployAllReservesMockAggregatorsInPoolConfig poolConfig verify =
     (let allTokenDecimals = foldl (\<lambda>accum (tokenSymbol, tokenConfig).
            oset tokenSymbol (reserveDecimals tokenConfig) accum) [] (ReservesConfig poolConfig) in
      tbind (deployAllChainlinkMockAggregators allTokenDecimals
        (AllAssetsInitialPrices (Mocks poolConfig)) verify) (\<lambda>mockAggregators.
      tbind (deployChainlinkMockAggregator ''USD'' ''8'' MOCK_USD_PRICE False) (\<lambda>usdMockAggregator.
      tret (foldl (\<lambda>accum (tokenSymbol, aggregator). oset tokenSymbol (c_address aggregator) accum)
        [(''USD'', c_address usdMockAggregator)] mockAggregators))))"

section \<open>What they do\<close>

lemma entry_at_key_returns: "entry_at_key addresses s w = (Inr a, w') \<longleftrightarrow>
    w' = w \<and> oget addresses s = Some a"
  by (auto simp: entry_at_key_def js_simps split: option.splits)

lemma entry_at_key_missing: "oget addresses s = None \<Longrightarrow> entry_at_key addresses s w = (Inl JsTypeError, w)"
  by (simp add: entry_at_key_def js_simps)

lemma asset_bytes32_quiet: "obeys quiet (asset_bytes32 a)"
  unfolding asset_bytes32_def by (intro helper_quiet)

lemma not_undefined [simp]: "\<not> is_undefined i"
  by (simp add: is_undefined_def)

text \<open>One transaction per asset, with the entry of the table under the asset's symbol.\<close>

definition per_asset :: "contract \<Rightarrow> string \<Rightarrow> string jsobj \<Rightarrow> string jsobj \<Rightarrow> effect list" where
  "per_asset c meth table assets =
     map (\<lambda>(s, a). Sent (c_address c) meth [JStr a, JStr (the (oget table s))]) assets"

lemma concat_singletons: "concat (map (\<lambda>x. [f x]) xs) = map f xs"
  by (induction xs) simp_all

text \<open>\<open>setAggregatorsInReserveOracle\<close> sends one \<open>addAggregator\<close> per asset, in order, each with the aggregator
  under the asset's symbol.\<close>

theorem setAggregators_does:
  assumes "setAggregatorsInReserveOracle assets aggs c w = (Inr u, w')"
  shows "does w w' (per_asset c ''addAggregator'' aggs assets) []"
proof -
  have "does v v' [Sent (c_address c) ''addAggregator'' [JStr a, JStr (the (oget aggs s))]] []"
    if run: "tbind (entry_at_key aggs s) (\<lambda>g. tseq (asset_bytes32 a)
        (send c ''addAggregator'' [JStr a, JStr g])) v = (Inr (), v')" for s a v v'
  proof -
    from run obtain g v1 where "oget aggs s = Some g" and 1: "asset_bytes32 a v = (Inr (), v1)"
      and 2: "send c ''addAggregator'' [JStr a, JStr g] v1 = (Inr (), v')"
      by (auto simp: task_returns entry_at_key_returns)
    moreover have "quiet v v1" using asset_bytes32_quiet 1 by (rule qt.run)
    ultimately show ?thesis using does_quiet_left [OF _ send_does [OF 2]] by simp
  qed
  then have "does w w' (concat (map (\<lambda>sa. [(\<lambda>(s, a).
      Sent (c_address c) ''addAggregator'' [JStr a, JStr (the (oget aggs s))]) sa]) assets)) []"
    using assms unfolding setAggregatorsInReserveOracle_def
    by (elim tfor_does) (auto split: if_splits prod.splits)
  then show ?thesis by (simp add: per_asset_def concat_singletons)
qed

lemma setPricesInNFTOracle_does:
  assumes "setPricesInNFTOracle prices assets c w = (Inr u, w')"
  shows "does w w' (per_asset c ''setAssetData'' prices assets) []"
proof -
  have "does v v' [Sent (c_address c) ''setAssetData'' [JStr a, JStr (the (oget prices s))]] []"
    if "tbind (entry_at_key prices s) (\<lambda>g. send c ''setAssetData'' [JStr a, JStr g]) v = (Inr (), v')"
    for s a v v'
    using that by (auto simp: task_returns entry_at_key_returns dest: send_does)
  then have "does w w' (concat (map (\<lambda>sa. [(\<lambda>(s, a).
      Sent (c_address c) ''setAssetData'' [JStr a, JStr (the (oget prices s))]) sa]) assets)) []"
    using assms unfolding setPricesInNFTOracle_def
    by (elim tfor_does) (auto split: if_splits prod.splits)
  then show ?thesis by (simp add: per_asset_def concat_singletons)
qed

lemma tfor_append: "tfor (xs @ ys) f = tseq (tfor xs f) (tfor ys f)"
proof (induction xs)
  case Nil
  show ?case by (rule ext) (simp add: tseq_def tbind_def)
next
  case (Cons x xs)
  then show ?case by (auto simp: tseq_def tbind_def fun_eq_iff split: prod.splits sum.splits)
qed

text \<open>\<open>setPricesInNFTOracle\<close> does not skip an asset without a price, as its guard means it to: the first such
  asset ends the run with a \<open>TypeError\<close>, after the transactions of the assets before it.\<close>

theorem setPricesInNFTOracle_throws:
  assumes "setPricesInNFTOracle prices before c w = (Inr (), w')"
    and "oget prices s = None"
  shows "setPricesInNFTOracle prices (before @ (s, a) # rest) c w = (Inl JsTypeError, w')"
  using assms
  by (simp add: setPricesInNFTOracle_def tfor_append tseq_Inr tbind_Inl [OF entry_at_key_missing] tseq_Inl)

lemma addAssetsInNFTOracle_does:
  assumes "addAssetsInNFTOracle assets c w = (Inr u, w')"
  shows "does w w' (map (\<lambda>(s, a). Sent (c_address c) ''addAsset'' [JStr a]) assets) []"
proof -
  have "does w w' (concat (map (\<lambda>sa. [(\<lambda>(s, a).
      Sent (c_address c) ''addAsset'' [JStr a]) sa]) assets)) []"
    using assms unfolding addAssetsInNFTOracle_def
    by (elim tfor_does) (auto dest: send_does split: prod.splits)
  then show ?thesis by (simp add: concat_singletons)
qed

lemma getNowTimeInSeconds_quiet: "obeys quiet getNowTimeInSeconds"
  unfolding getNowTimeInSeconds_def obeys_def
  by (auto simp: tbind_def ask_def Let_def quiet_def does_def same_env_def hist_grows_def
      split: sum.splits jsval.splits)

lemma deployChainlinkMockAggregator_does:
  assumes "deployChainlinkMockAggregator name decimals price verify w = (Inr c, w')"
  shows "\<exists>t. does w w' [Deployed ''MockChainlinkOracleFactory'' [JStr decimals] [] (c_address c),
      Sent (c_address c) ''mockAddAnswer'' [JNum 1, JStr price, JStr t, JStr t, JStr ''1'']]
    [(cid C_MockChainlinkOracle, entry_of c)]"
proof -
  from assms obtain t w1 w2 where 1: "getNowTimeInSeconds w = (Inr t, w1)"
    and 2: "deployMockChainlinkOracle decimals verify w1 = (Inr c, w2)"
    and 3: "submit c ''mockAddAnswer'' [JNum 1, JStr price, JStr t, JStr t, JStr ''1''] w2 = (Inr (), w')"
    by (auto simp: deployChainlinkMockAggregator_def task_returns)
  have "quiet w w1" using getNowTimeInSeconds_quiet 1 by (rule qt.run)
  from does_quiet_left [OF this does_trans [OF
      deploySaved_does [OF 2 [unfolded deployMockChainlinkOracle_def]] submit_does [OF 3]]]
  show ?thesis by auto
qed

end
