(* ===== verification/Outcomes.thy ===== *)
theory Outcomes
  imports MarketSpec OraclesHelpers
begin

text \<open>
  How runs end. \<open>settles m\<close>: the task \<open>m\<close> returns or throws something a handler can catch; it neither
  ends the process nor runs out of fuel. The tasks that wrap their work in \<open>or_exit\<close> therefore end
  normally or with exit code 1. And the tasks of \<open>tasks/full\<close>, like the helpers they use, only ever add
  to the JSON database of the current network: they \<open>evolve\<close> the world.
\<close>

section \<open>Tasks that settle\<close>

definition settles :: "'a task \<Rightarrow> bool" where
  "settles m \<longleftrightarrow> (\<forall>w e w'. m w = (Inl e, w') \<longrightarrow> catchable e)"

lemma settles_tret: "settles (tret x)"
  by (simp add: settles_def)

lemma settles_tthrow: "catchable e \<Longrightarrow> settles (tthrow e)"
  by (simp add: settles_def)

lemma settles_tget: "settles (tget f)"
  by (simp add: settles_def)

lemma settles_tmod: "settles (tmod f)"
  by (simp add: settles_def)

lemma settles_tbind: "settles m \<Longrightarrow> (\<And>x. settles (f x)) \<Longrightarrow> settles (tbind m f)"
  unfolding settles_def tbind_throws by metis

lemma settles_tseq: "settles m \<Longrightarrow> settles k \<Longrightarrow> settles (tseq m k)"
  unfolding tseq_def by (rule settles_tbind)

lemma settles_twhen: "(b \<Longrightarrow> settles m) \<Longrightarrow> settles (twhen b m)"
  by (simp add: twhen_def settles_tret)

lemma settles_if: "(b \<Longrightarrow> settles m) \<Longrightarrow> (\<not> b \<Longrightarrow> settles k) \<Longrightarrow> settles (if b then m else k)"
  by simp

lemma settles_option: "settles n \<Longrightarrow> (\<And>x. settles (s x)) \<Longrightarrow> settles (case v of None \<Rightarrow> n | Some x \<Rightarrow> s x)"
  by (simp split: option.splits)

lemma settles_prod: "(\<And>a b. settles (f a b)) \<Longrightarrow> settles (case p of (a, b) \<Rightarrow> f a b)"
  by (simp split: prod.splits)

lemma settles_prod1: "(\<And>a b. settles (f a b s)) \<Longrightarrow> settles ((case p of (a, b) \<Rightarrow> f a b) s)"
  by (simp split: prod.splits)

lemma settles_tfor: "(\<And>x. settles (f x)) \<Longrightarrow> settles (tfor xs f)"
  by (induction xs) (simp_all add: settles_tret settles_tseq)

lemma settles_tfold: "(\<And>x s. settles (f x s)) \<Longrightarrow> settles (tfold xs f s)"
  by (induction xs arbitrary: s) (simp_all add: settles_tret settles_tbind)

lemma settles_ask: "settles (ask r)"
  by (auto simp: settles_def ask_throws)

lemmas settles_rules = settles_tret settles_tget settles_tmod settles_tbind settles_tseq settles_twhen
  settles_if settles_option settles_prod settles_prod1 settles_tfor settles_tfold settles_ask

lemma catchable_simps [simp]: "catchable (missing_address_error i)"
  by (simp add: missing_address_error_def)

lemma settles_getDeploySigner: "settles getDeploySigner"
  unfolding getDeploySigner_def nth_signer_def getEthersSigners_def by (intro settles_rules)

lemma settles_connectOrDb: "settles (connectOrDb i a)"
  unfolding connectOrDb_def address_in_db_def getDb_get_def
  by (intro settles_rules settles_getDeploySigner settles_tthrow) simp

lemma settles_send: "settles (send c m args)"
  unfolding send_def send_and_wait_def by (intro settles_rules)

lemma settles_send_chunks: "settles (send_chunks c m chs f)"
  unfolding send_chunks_def by (intro settles_rules settles_send)

lemma settles_view: "settles (view c m args)"
  unfolding view_def by (intro settles_rules)

lemma settles_loadPoolConfig: "settles (loadPoolConfig p)"
  unfolding loadPoolConfig_def by (intro settles_rules settles_tthrow) simp

lemma settles_fallback: "settles (getContractAddressWithJsonFallback i pool)"
  unfolding getContractAddressWithJsonFallback_def getContractAddressInDb_def getDb_get_def
  by (intro settles_rules settles_loadPoolConfig settles_tthrow) simp_all

lemma settles_deploySaved: "settles (deploySaved f args i False)"
  unfolding deploySaved_def deployFactory_def withSaveAndVerify_def wait_deployed_def waitForTx_def
    registerContractInJsonDb_def getDb_set_def if_False
  by (intro settles_rules settles_getDeploySigner settles_tthrow) simp_all

lemma settles_entry_at_key: "settles (entry_at_key o1 k)"
  unfolding entry_at_key_def by (intro settles_rules settles_tthrow) simp

lemmas settles_helpers = settles_getDeploySigner settles_connectOrDb settles_send settles_send_chunks
  settles_view settles_loadPoolConfig settles_fallback settles_deploySaved settles_entry_at_key settles_rules

lemma settles_initReserves: "settles (initReservesByHelper ps ta tn adm coll pool False)"
  unfolding initReservesByHelper_def init_reserve_step_def deploy_strategy_once_def deployRateStrategy_def
    deployInterestRate_def deployInterestRateWithID_def rawInsertContractAddressInDb_def getDb_set_def
    getLendPoolAddressesProvider_def getLendPoolConfiguratorProxy_def
  by (intro settles_helpers)

lemma settles_configureReserves: "settles (configureReservesByHelper ps ta adm)"
  unfolding configureReservesByHelper_def getLendPoolAddressesProvider_def getLendPoolConfiguratorProxy_def
  by (intro settles_helpers)

lemma settles_initNfts: "settles (initNftsByHelper ps ta adm pool v)"
  unfolding initNftsByHelper_def getLendPoolAddressesProvider_def getLendPoolConfiguratorProxy_def
  by (intro settles_helpers)

lemma settles_configureNfts: "settles (configureNftsByHelper ps ta adm)"
  unfolding configureNftsByHelper_def getLendPoolAddressesProvider_def getLendPoolConfiguratorProxy_def
  by (intro settles_helpers)

lemma or_exit_settles:
  assumes "settles m"
  shows "fst (or_exit m w) = Inr () \<or> fst (or_exit m w) = Inl (Exit 1)"
  using assms unfolding settles_def or_exit_def tcatch_def
  by (cases "m w") (auto split: sum.splits)

lemma settles_assets_on: "catchable e \<Longrightarrow> settles (assets_on param e)"
  unfolding assets_on_def by (intro settles_rules settles_tthrow)

text \<open>\<open>full:initialize-lend-pool\<close> without verification always ends, whatever the node answers: it returns or
  it ends the process with code 1, which also stops the migration that runs it.\<close>

theorem initialize_lend_pool_ends:
  "fst (initialize_lend_pool False pool w) \<in> {Inr (), Inl (Exit 1)}"
  unfolding initialize_lend_pool_def insert_iff empty_iff simp_thms getReserveFactorCollectorAddress_def
    getLendPoolAddressesProvider_def no_reserve_assets_def no_nft_assets_def
  by (intro or_exit_settles settles_helpers settles_assets_on settles_initReserves
      settles_configureReserves settles_initNfts settles_configureNfts) simp_all

section \<open>Tasks that only add to the database\<close>

lemma ev_prod1: "(\<And>a b. obeys evolves (f a b s)) \<Longrightarrow> obeys evolves ((case p of (a, b) \<Rightarrow> f a b) s)"
  by (simp split: prod.splits)

lemma ev_sum: "(\<And>e. obeys evolves (l e)) \<Longrightarrow> (\<And>x. obeys evolves (r x)) \<Longrightarrow>
    obeys evolves (case v of Inl e \<Rightarrow> l e | Inr x \<Rightarrow> r x)"
  by (simp split: sum.splits)

lemmas evs = ev_prod1 ev_sum db_ev_rules

lemma signer_evolves: "obeys evolves (nth_signer i)" "obeys evolves getDeploySigner"
    "obeys evolves getEthersSignersAddresses"
  unfolding nth_signer_def getDeploySigner_def getEthersSignersAddresses_def getEthersSigners_def
  by (intro evs)+

lemma connectOrDb_evolves: "obeys evolves (connectOrDb i a)"
  unfolding connectOrDb_def address_in_db_def by (intro evs signer_evolves)

lemma deployFactory_evolves: "obeys evolves (deployFactory f libs args)"
  unfolding deployFactory_def by (intro evs signer_evolves)

lemma contract_evolves: "obeys evolves (send c m args)" "obeys evolves (submit c m args)"
    "obeys evolves (view c m args)"
  unfolding send_def submit_def view_def by (intro evs)+

lemma save_evolves: "obeys evolves (insertContractAddressInDb n a)" "obeys evolves (rawInsertContractAddressInDb i a)"
    "obeys evolves (getContractAddressInDb i)" "obeys evolves (tryGetContractAddressInDb i)"
  unfolding insertContractAddressInDb_def rawInsertContractAddressInDb_def getContractAddressInDb_def
    tryGetContractAddressInDb_def
  by (intro evs)+

lemma withSaveAndVerify_evolves: "obeys evolves (withSaveAndVerify c i args verify)"
  unfolding withSaveAndVerify_def wait_deployed_def registerContractInJsonDb_def verifyContract_def
  by (intro evs verifyEtherscanContract_evolves)

lemma loadPoolConfig_evolves: "obeys evolves (loadPoolConfig p)"
  unfolding loadPoolConfig_def by (intro evs)

lemma fallback_evolves: "obeys evolves (getContractAddressWithJsonFallback i pool)"
  unfolding getContractAddressWithJsonFallback_def by (intro evs loadPoolConfig_evolves save_evolves)

lemma deployments_evolve: "obeys evolves (deploySaved f args i verify)"
    "obeys evolves (deployImpl f libs implId i verify)" "obeys evolves (deployLinked i libs verify)"
    "obeys evolves (deployLibOnValidation f i verify)"
  unfolding deploySaved_def deployImpl_def deployLinked_def deployLibOnValidation_def readArtifact_def wait_deployed_def
  by (intro evs deployFactory_evolves withSaveAndVerify_evolves save_evolves)+

lemmas base_evolves = signer_evolves connectOrDb_evolves deployFactory_evolves contract_evolves save_evolves
  withSaveAndVerify_evolves loadPoolConfig_evolves fallback_evolves deployments_evolve evs

text \<open>The getters and the deployments of the contracts that the tasks use.\<close>

lemmas task_parts = getLendPoolAddressesProvider_def getLendPoolAddressesProviderRegistry_def
  getLendPoolConfiguratorProxy_def getLendPoolLoanProxy_def getLendPool_def getBNFTRegistryProxy_def
  getNFTOracle_def getReserveOracle_def getTokenOracle_def getChainlinkAggregatorHelper_def getWETHGateway_def
  getPunkGateway_def getUniswapV3DebtSwapAdapter_def getWrapperGateway_def getBendCollectorProxy_def
  getIErc20Detailed_def getBendUpgradeableProxy_def getBendProxyAdminByAddress_def getBendProxyAdminById_def
  deployBendProxyAdmin_def deployLendPoolAddressesProviderRegistry_def deployLendPoolAddressesProvider_def
  deployNFTOracle_def deployReserveOracle_def deployTokenOracle_def deployChainlinkAggregatorHelper_def
  deployWETHGateway_def deployPunkGateway_def deployBendCollector_def deployUniswapV3DebtSwapAdapter_def
  deployWrapperGatewayImpl_def deployBendUpgradeableProxy_def deployWETH9_def deployWrappedPunk_def
  deployCryptoPunksMarket_def deployWalletBalancerProvider_def deployBendProtocolDataProvider_def
  deployUiPoolDataProvider_def deployInterestRate_def deployInterestRateWithID_def deployRateStrategy_def

lemma init_evolves: "obeys evolves (initReservesByHelper ps ta tn adm coll pool v)"
    "obeys evolves (configureReservesByHelper ps ta adm)" "obeys evolves (initNftsByHelper qs ta adm pool v)"
    "obeys evolves (configureNftsByHelper qs ta adm)"
  unfolding initReservesByHelper_def init_reserve_step_def deploy_strategy_once_def configureReservesByHelper_def
    initNftsByHelper_def configureNftsByHelper_def send_chunks_def entry_at_key_def task_parts
  by (intro base_evolves)+

lemma config_evolves: "obeys evolves (getGenesisPoolAdmin c)" "obeys evolves (getEmergencyAdmin c)"
    "obeys evolves (getWrappedNativeTokenAddress c)" "obeys evolves (getWrappedPunkTokenAddress c p)"
    "obeys evolves (getCryptoPunksMarketAddress c)" "obeys evolves (getReserveFactorCollectorAddress c)"
  unfolding getGenesisPoolAdmin_def getEmergencyAdmin_def getWrappedNativeTokenAddress_def
    getWrappedPunkTokenAddress_def getCryptoPunksMarketAddress_def getReserveFactorCollectorAddress_def task_parts
  by (intro base_evolves)+

lemma step_evolves: "obeys evolves run_compile" "obeys evolves require_chainId"
    "obeys evolves (encodeFunctionData f args)" "obeys evolves (valid_proxy_admin i m)"
    "obeys evolves (owner_signer c)" "obeys evolves (feed_admin cfg fa)"
  unfolding run_compile_def require_chainId_def encodeFunctionData_def valid_proxy_admin_def owner_signer_def
    feed_admin_def task_parts
  by (intro base_evolves config_evolves)+

lemma upgrade_or_deploy_evolves:
  "(\<And>a. obeys evolves (getter a)) \<Longrightarrow> (\<And>c. obeys evolves (after c)) \<Longrightarrow>
     obeys evolves (upgrade_or_deploy i ex adm signer impl data verify getter after)"
  unfolding upgrade_or_deploy_def task_parts by (intro base_evolves)

lemmas task_evolves = upgrade_or_deploy_evolves step_evolves config_evolves init_evolves base_evolves

lemma proxy_tasks_evolve:
  "obeys evolves (deploy_oracle_nft verify pool skipOracle skipProvider feedAdmin)"
  "obeys evolves (deploy_oracle_reserve verify skipOracle pool)"
  "obeys evolves (deploy_oracle_token pool feedAdmin)"
  "obeys evolves (deploy_aggregator_helper verify pool)"
  "obeys evolves (deploy_weth_gateway verify pool)"
  "obeys evolves (deploy_punk_gateway verify pool)"
  "obeys evolves (deploy_uniswapv3_debtswap_adapter verify pool aave router)"
  "obeys evolves (deploy_wrapper_gateway verify pool gatewayid underlying wrapper)"
  "obeys evolves (deploy_bend_collector verify pool)"
  "obeys evolves (upgrade_bend_collector verify pool proxy initFunc)"
  "obeys evolves (bend_collector_approve_erc20 pool proxy token to amount)"
  unfolding deploy_oracle_nft_def deploy_oracle_reserve_def deploy_oracle_token_def deploy_aggregator_helper_def
    deploy_weth_gateway_def deploy_punk_gateway_def deploy_uniswapv3_debtswap_adapter_def
    deploy_wrapper_gateway_def deploy_bend_collector_def upgrade_bend_collector_def
    bend_collector_approve_erc20_def convertToCurrencyDecimals_def Let_def task_parts
  by (intro task_evolves)+

lemma admin_tasks_evolve:
  "obeys evolves (deploy_proxy_admin verify pool all i)"
  "obeys evolves (deploy_address_provider_registry verify pool)"
  "obeys evolves (deploy_data_provider verify wallet protocol ui)"
  unfolding deploy_proxy_admin_def deploy_one_proxy_admin_def deploy_address_provider_registry_def
    deploy_data_provider_def task_parts
  by (intro task_evolves)+

lemma registry_tasks_evolve:
  "obeys evolves (add_market_to_registry verify provider pool deployRegistry)"
  "obeys evolves (deploy_address_provider verify pool skipRegistry)"
  unfolding deploy_address_provider_def add_market_to_registry_def market_registry_def registry_signer_def
    deployer_address_def Let_def task_parts
  by (intro task_evolves admin_tasks_evolve)+

lemma library_evolves: "obeys evolves (deployBendLibraries verify)" "obeys evolves getLendPoolLibraries"
  unfolding deployBendLibraries_def deployLendPoolLibraries_def deployConfiguratorLibraries_def
    getLendPoolLibraries_def deployGenericLogic_def deployReserveLogicLibrary_def deployNftLogicLibrary_def
    deployValidationLogic_def deploySupplyLogicLibrary_def deployBorrowLogicLibrary_def
    deployLiquidateLogicLibrary_def deployConfiguratorLogicLibrary_def
  by (intro task_evolves)+

lemma set_impl_evolves:
  "obeys evolves dep \<Longrightarrow> (\<And>a. obeys evolves (getter a)) \<Longrightarrow>
     obeys evolves (set_impl p dep setter reader getter i)"
  unfolding set_impl_def by (intro task_evolves)

lemma chooseB_evolves: "obeys evolves (case chooseBTokenDeployment i of
    Inl e \<Rightarrow> tthrow e | Inr d \<Rightarrow> tseq (d verify) (tret ()))"
  by (cases "i = C_BToken") (auto simp: chooseBTokenDeployment_def deployGenericBTokenImpl_def
      intro!: task_evolves simp del: tthrow_run tret_run)

lemma tokens_evolve: "obeys evolves (deployBTokenImplementations pool reserves verify)"
  unfolding deployBTokenImplementations_def deployImplementations_def deployGenericDebtToken_def
  by (intro task_evolves chooseB_evolves)

lemma pool_tasks_evolve:
  "obeys evolves (deploy_lend_pool verify pool)"
  "obeys evolves (initialize_lend_pool verify pool)"
  "obeys evolves (initialize_gateway verify pool)"
  unfolding deploy_lend_pool_def deployLendPool_def deployLendPoolLoan_def deployLendPoolConfigurator_def
    initialize_lend_pool_def initialize_gateway_def or_exit_def assets_on_def task_parts
  by (intro task_evolves library_evolves set_impl_evolves tokens_evolve)+

text \<open>Whatever a task of \<open>tasks/full\<close> does, it leaves every entry of the database under its name.\<close>

lemmas full_tasks_evolve = proxy_tasks_evolve admin_tasks_evolve registry_tasks_evolve pool_tasks_evolve

end
