(* ===== verification/Migrations.thy ===== *)
theory Migrations
  imports Outcomes
begin

text \<open>
  The verification tasks \<open>tasks/verifications/{general,reserves,nfts,mocks,gateway}.ts\<close> and the migrations of
  \<open>tasks/migrations\<close> for a live network. A migration is the sequence of the tasks it runs; a task of
  the repository that it runs through \<open>DRE.run\<close> is a call of the model of that task.
\<close>

section \<open>Verification\<close>

definition verify_one :: "eContractid \<Rightarrow> contract \<Rightarrow> jsval list \<Rightarrow> unit task" where
  "verify_one i c args = tseq (verifyContract (cid i) c args) (tret ())"

definition addr :: "contract \<Rightarrow> jsval" where
  "addr c = JStr (c_address c)"

text \<open>\<open>impl.interface.encodeFunctionData("initialize", args)\<close>, then verify the proxy with it.\<close>

definition verify_proxy :: "eContractid \<Rightarrow> contract \<Rightarrow> contract \<Rightarrow> contract \<Rightarrow> jsval list \<Rightarrow> unit task" where
  "verify_proxy i proxy impl admin initArgs =
     tbind (encodeFunctionData ''initialize'' initArgs) (\<lambda>data.
     verify_one i proxy [addr impl, addr admin, data])"

definition verify_general_all :: "ICommonConfiguration \<Rightarrow> contract \<Rightarrow> contract \<Rightarrow> contract \<Rightarrow> contract \<Rightarrow>
    contract \<Rightarrow> contract \<Rightarrow> contract \<Rightarrow> contract \<Rightarrow> contract \<Rightarrow> contract \<Rightarrow> unit task" where
  "verify_general_all poolConfig bendCollectorImpl providerRegistry addressesProvider lendPoolImpl
     lendPoolConfiguratorImpl lendPoolLoanImpl reserveOracleImpl nftOracleImpl wethGatewayImpl punkGatewayImpl =
     tbind (getBendProtocolDataProvider None) (\<lambda>dataProvider.
     tbind (getWalletProvider None) (\<lambda>walletProvider.
     tbind (getUIPoolDataProvider None) (\<lambda>uiProvider.
     tseq (verify_one C_BendCollectorImpl bendCollectorImpl [])
     (tseq (verify_one C_LendPoolAddressesProviderRegistry providerRegistry [])
     (tseq (verify_one C_LendPoolAddressesProvider addressesProvider [JStr (MarketId poolConfig)])
     (tseq (verify_one C_LendPoolImpl lendPoolImpl [])
     (tseq (verify_one C_LendPoolConfiguratorImpl lendPoolConfiguratorImpl [])
     (tseq (verify_one C_LendPoolLoanImpl lendPoolLoanImpl [])
     (tseq (verify_one C_BendProtocolDataProvider dataProvider [addr addressesProvider])
     (tseq (verify_one C_WalletBalanceProvider walletProvider [])
     (tbind (view addressesProvider ''getReserveOracle'' []) (\<lambda>reserveOracle.
     tbind (view addressesProvider ''getNFTOracle'' []) (\<lambda>nftOracle.
     tseq (verify_one C_UIPoolDataProvider uiProvider [reserveOracle, nftOracle])
     (tseq (verify_one C_ReserveOracleImpl reserveOracleImpl [])
     (tseq (verify_one C_NFTOracleImpl nftOracleImpl [])
     (tseq (verify_one C_WETHGatewayImpl wethGatewayImpl [])
     (verify_one C_PunkGatewayImpl punkGatewayImpl [])))))))))))))))))"

definition verify_general :: "bool \<Rightarrow> string \<Rightarrow> unit task" where
  "verify_general all pool =
     tbind (loadPoolConfig pool) (\<lambda>poolConfig.
     tbind (getBendCollectorImpl None) (\<lambda>bendCollectorImpl.
     tbind (getLendPoolAddressesProviderRegistry None) (\<lambda>providerRegistry.
     tbind (getLendPoolAddressesProvider None) (\<lambda>addressesProvider.
     tbind (view addressesProvider ''getLendPool'' []) (\<lambda>lendPoolAddress.
     tbind (view addressesProvider ''getLendPoolConfigurator'' []) (\<lambda>lendPoolConfiguratorAddress.
     tbind (view addressesProvider ''getLendPoolLoan'' []) (\<lambda>lendPoolLoanAddress.
     tbind (getBendUpgradeableProxy (js_str lendPoolAddress)) (\<lambda>lendPoolProxy.
     tbind (getBendUpgradeableProxy (js_str lendPoolConfiguratorAddress)) (\<lambda>lendPoolConfiguratorProxy.
     tbind (getBendUpgradeableProxy (js_str lendPoolLoanAddress)) (\<lambda>lendPoolLoanProxy.
     tbind (tget (\<lambda>w. addressParam w (CryptoPunksMarket poolConfig))) (\<lambda>punkAddress.
     tbind (tget (\<lambda>w. addressParam w (WrappedPunkToken poolConfig))) (\<lambda>wpunkAddress.
     tbind (getWETHGateway None) (\<lambda>wethGateway.
     tbind (getPunkGateway None) (\<lambda>punkGateway.
     tbind (getLendPoolImpl None) (\<lambda>lendPoolImpl.
     tbind (getLendPoolConfiguratorImpl None) (\<lambda>lendPoolConfiguratorImpl.
     tbind (getLendPoolLoanImpl None) (\<lambda>lendPoolLoanImpl.
     tbind (getReserveOracleImpl None) (\<lambda>reserveOracleImpl.
     tbind (getNFTOracleImpl None) (\<lambda>nftOracleImpl.
     tbind (getWETHGatewayImpl None) (\<lambda>wethGatewayImpl.
     tbind (getPunkGatewayImpl None) (\<lambda>punkGatewayImpl.
     tbind (getBendProxyAdminById (cid C_BendProxyAdminFund)) (\<lambda>proxyAdminFund.
     tseq (verify_one C_BendProxyAdminFund proxyAdminFund [])
     (tbind (getBendProxyAdminById (cid C_BendProxyAdminPool)) (\<lambda>proxyAdminPool.
     tseq (verify_one C_BendProxyAdminPool proxyAdminPool [])
     (tbind (getBendProxyAdminById (cid C_BendProxyAdminWTL)) (\<lambda>proxyAdminWTL.
     tseq (verify_one C_BendProxyAdminWTL proxyAdminWTL [])
     (tseq (twhen all (verify_general_all poolConfig bendCollectorImpl providerRegistry addressesProvider
       lendPoolImpl lendPoolConfiguratorImpl lendPoolLoanImpl reserveOracleImpl nftOracleImpl
       wethGatewayImpl punkGatewayImpl))
     (tbind (getBendCollectorProxy None) (\<lambda>bendCollectorProxy.
     tbind (getBendProxyAdminById (cid C_BendProxyAdminFund)) (\<lambda>collectorProxyAdmin.
     tseq (verify_proxy C_BendCollector bendCollectorProxy bendCollectorImpl collectorProxyAdmin [])
     (tseq (verify_proxy C_BendUpgradeableProxy lendPoolProxy lendPoolImpl addressesProvider
       [addr addressesProvider])
     (tseq (verify_proxy C_BendUpgradeableProxy lendPoolConfiguratorProxy lendPoolConfiguratorImpl
       addressesProvider [addr addressesProvider])
     (tseq (verify_proxy C_BendUpgradeableProxy lendPoolLoanProxy lendPoolLoanImpl addressesProvider
       [addr addressesProvider])
     (tbind (getWrappedNativeTokenAddress poolConfig) (\<lambda>weth.
     tseq (verify_proxy C_BendUpgradeableProxy wethGateway wethGatewayImpl proxyAdminPool
       [addr addressesProvider, JStr weth])
     (verify_proxy C_BendUpgradeableProxy punkGateway punkGatewayImpl proxyAdminPool
       [addr addressesProvider, addr wethGateway, opt_val punkAddress, opt_val wpunkAddress]))))))))))))))))))))))))))))))))))))"

definition verify_libraries :: "string \<Rightarrow> unit task" where
  "verify_libraries pool =
     tbind (loadPoolConfig pool) (\<lambda>poolConfig.
     tbind (getContractAddressInDb (cid C_NftLogic)) (\<lambda>nftLogicAddress.
     tbind (getContractAddressInDb (cid C_ValidationLogic)) (\<lambda>validationLogicAddress.
     tseq (verifyEtherscanContract nftLogicAddress [] None)
     (tseq (verifyEtherscanContract validationLogicAddress [] None)
     (tbind (getGenericLogic None) (\<lambda>genLogic.
     tseq (verify_one C_GenericLogic genLogic [])
     (tbind (getReserveLogic None) (\<lambda>resLogic.
     tseq (verify_one C_ReserveLogic resLogic [])
     (tbind (getSupplyLogic None) (\<lambda>supLogic.
     tseq (verify_one C_SupplyLogic supLogic [])
     (tbind (getBorrowLogic None) (\<lambda>borLogic.
     tseq (verify_one C_BorrowLogic borLogic [])
     (tbind (getLiquidateLogic None) (\<lambda>liqLogic.
     verify_one C_LiquidateLogic liqLogic []))))))))))))))"

text \<open>\<open>const { a, b } = await contract.method(args)\<close>: a property of a struct the node returned.\<close>

definition struct_field :: "string \<Rightarrow> jsval \<Rightarrow> jsval task" where
  "struct_field k v = (case js_prop k v of None \<Rightarrow> tthrow JsTypeError | Some x \<Rightarrow> tret x)"

definition getter_arg :: "jsval \<Rightarrow> string option" where
  "getter_arg v = (if v = JUndef then None else Some (js_str v))"

text \<open>
  One reserve of \<open>verify:reserves\<close>. The initialisation data of the debt token's proxy is encoded from
  the names and the decimals of the reserve's bToken, as in the source.
\<close>

definition verify_reserve ::
  "ICommonConfiguration \<Rightarrow> contract \<Rightarrow> contract \<Rightarrow> contract \<Rightarrow> contract \<Rightarrow> contract \<Rightarrow> string \<Rightarrow> string \<Rightarrow> unit task" where
  "verify_reserve poolConfig addressesProvider lendPoolProxy lendPoolConfigurator genericBToken genericDebtToken
     token tokenAddress =
     (case oget (ReservesConfig poolConfig) token of
        None \<Rightarrow> tthrow (JsThrow (''ReservesConfig not found for '' @ token @ '' token''))
      | Some tokenConfig \<Rightarrow>
     tbind (view lendPoolProxy ''getReserveData'' [JStr tokenAddress]) (\<lambda>reserveData.
     tbind (struct_field ''bTokenAddress'' reserveData) (\<lambda>bTokenAddress.
     tbind (struct_field ''debtTokenAddress'' reserveData) (\<lambda>debtTokenAddress.
     tbind (struct_field ''interestRateAddress'' reserveData) (\<lambda>interestRateAddress.
     tbind (getBToken (getter_arg bTokenAddress)) (\<lambda>bTokenContract.
     tbind (view bTokenContract ''RESERVE_TREASURY_ADDRESS'' []) (\<lambda>treasury.
     tbind (view bTokenContract ''UNDERLYING_ASSET_ADDRESS'' []) (\<lambda>underlying.
     tbind (view bTokenContract ''decimals'' []) (\<lambda>decimals.
     tbind (view bTokenContract ''name'' []) (\<lambda>name.
     tbind (view bTokenContract ''symbol'' []) (\<lambda>symbol.
     tbind (encodeFunctionData ''initialize''
       [addr addressesProvider, treasury, underlying, decimals, name, symbol]) (\<lambda>bTokenInitEncodeData.
     tbind (getBendUpgradeableProxy (js_str bTokenAddress)) (\<lambda>bTokenProxy.
     tseq (verify_one C_BendUpgradeableProxy bTokenProxy
       [addr genericBToken, addr lendPoolConfigurator, bTokenInitEncodeData])
     (tbind (view bTokenContract ''UNDERLYING_ASSET_ADDRESS'' []) (\<lambda>underlying.
     tbind (view bTokenContract ''decimals'' []) (\<lambda>decimals.
     tbind (view bTokenContract ''name'' []) (\<lambda>name.
     tbind (view bTokenContract ''symbol'' []) (\<lambda>symbol.
     tbind (encodeFunctionData ''initialize''
       [addr addressesProvider, underlying, decimals, name, symbol]) (\<lambda>debtTokenInitEncodeData.
     tbind (getBendUpgradeableProxy (js_str debtTokenAddress)) (\<lambda>debtTokenProxy.
     tseq (verify_one C_BendUpgradeableProxy debtTokenProxy
       [addr genericDebtToken, addr lendPoolConfigurator, debtTokenInitEncodeData])
     (tbind (getInterestRate (getter_arg interestRateAddress)) (\<lambda>rate.
     verify_one C_InterestRate rate
       (map JStr (strategy_args (c_address addressesProvider) (strategy tokenConfig)))))))))))))))))))))))))"

definition verify_reserves :: "string \<Rightarrow> unit task" where
  "verify_reserves pool =
     tbind (loadPoolConfig pool) (\<lambda>poolConfig.
     tbind (getLendPoolAddressesProvider None) (\<lambda>addressesProvider.
     tbind (view addressesProvider ''getLendPool'' []) (\<lambda>lendPoolAddress.
     tbind (getLendPool (getter_arg lendPoolAddress)) (\<lambda>lendPoolProxy.
     tbind (view addressesProvider ''getLendPoolConfigurator'' []) (\<lambda>configuratorAddress.
     tbind (getLendPoolConfiguratorProxy (getter_arg configuratorAddress)) (\<lambda>lendPoolConfigurator.
     tbind (getBToken None) (\<lambda>bTokenImpl.
     tseq (verify_one C_BToken bTokenImpl [])
     (tbind (getDebtToken None) (\<lambda>debtTokenImpl.
     tseq (verify_one C_DebtToken debtTokenImpl [])
     (tbind (assets_on (ReserveAssets poolConfig) JsTypeError) (\<lambda>reserveAssets.
     tfor reserveAssets (\<lambda>(token, tokenAddress).
       verify_reserve poolConfig addressesProvider lendPoolProxy lendPoolConfigurator bTokenImpl debtTokenImpl
         token tokenAddress))))))))))))"

definition verify_interest_rate :: "string \<Rightarrow> string \<Rightarrow> unit task" where
  "verify_interest_rate pool interest =
     tbind (loadPoolConfig pool) (\<lambda>poolConfig.
     tbind (getInterestRate (Some interest)) (\<lambda>rateInstance.
     tbind (getLendPoolAddressesProvider None) (\<lambda>addressesProvider.
     tbind (view rateInstance ''OPTIMAL_UTILIZATION_RATE'' []) (\<lambda>optimalUtilizationRate.
     tbind (view rateInstance ''baseVariableBorrowRate'' []) (\<lambda>baseVariableBorrowRate.
     tbind (view rateInstance ''variableRateSlope1'' []) (\<lambda>variableRateSlope1.
     tbind (view rateInstance ''variableRateSlope2'' []) (\<lambda>variableRateSlope2.
     verify_one C_InterestRate rateInstance [addr addressesProvider, JStr (js_str optimalUtilizationRate),
       JStr (js_str baseVariableBorrowRate), JStr (js_str variableRateSlope1),
       JStr (js_str variableRateSlope2)])))))))"

definition verify_nft :: "ICommonConfiguration \<Rightarrow> contract \<Rightarrow> contract \<Rightarrow> string \<Rightarrow> string \<Rightarrow> unit task" where
  "verify_nft poolConfig lendPoolProxy bnftRegistry token tokenAddress =
     (case oget (NftsConfig poolConfig) token of
        None \<Rightarrow> tthrow (JsThrow (''NftsConfig not found for '' @ token @ '' token''))
      | Some tokenConfig \<Rightarrow>
     tbind (view lendPoolProxy ''getNftData'' [JStr tokenAddress]) (\<lambda>nftData.
     tbind (struct_field ''bNftAddress'' nftData) (\<lambda>bNftAddress.
     tbind (getBendUpgradeableProxy (js_str bNftAddress)) (\<lambda>bNftProxy.
     verify_one C_BendUpgradeableProxy bNftProxy [addr bnftRegistry]))))"

definition verify_nfts :: "string \<Rightarrow> unit task" where
  "verify_nfts pool =
     tbind (loadPoolConfig pool) (\<lambda>poolConfig.
     tbind (getLendPoolAddressesProvider None) (\<lambda>addressesProvider.
     tbind (view addressesProvider ''getLendPool'' []) (\<lambda>lendPoolAddress.
     tbind (getLendPool (getter_arg lendPoolAddress)) (\<lambda>lendPoolProxy.
     tbind (view addressesProvider ''getBNFTRegistry'' []) (\<lambda>bnftRegistryAddress.
     tbind (getBendUpgradeableProxy (js_str bnftRegistryAddress)) (\<lambda>bnftRegistryProxy.
     tbind (getBNFTRegistryImpl None) (\<lambda>bnftRegistryImpl.
     tbind (getBNFTRegistryProxy (getter_arg bnftRegistryAddress)) (\<lambda>bnftRegistry.
     tbind (view bnftRegistry ''bNftGenericImpl'' []) (\<lambda>genericImplAddress.
     tbind (getBNFT (getter_arg genericImplAddress)) (\<lambda>bnftGenericImpl.
     tseq (verify_proxy C_BendUpgradeableProxy bnftRegistryProxy bnftRegistryImpl addressesProvider
       [addr bnftGenericImpl, JStr (BNftNamePrefix (Mocks poolConfig)), JStr (BNftSymbolPrefix (Mocks poolConfig))])
     (tseq (verify_one C_BNFT bnftGenericImpl [])
     (tbind (assets_on (NftsAssets poolConfig) JsTypeError) (\<lambda>nftsAssets.
     tfor nftsAssets (\<lambda>(token, tokenAddress).
       verify_nft poolConfig lendPoolProxy bnftRegistry token tokenAddress))))))))))))))"

definition verify_wrapper_gateway :: "string \<Rightarrow> string \<Rightarrow> unit task" where
  "verify_wrapper_gateway pool gatewayid =
     tbind (loadPoolConfig pool) (\<lambda>poolConfig.
     tbind (getBendProxyAdminById (cid C_BendProxyAdminWTL)) (\<lambda>proxyAdminWTL.
     tbind (getWrapperGateway (gatewayid @ ''Impl'') None) (\<lambda>gatewayImpl.
     tseq (verifyContract (gatewayid @ ''Impl'') gatewayImpl [])
     (tbind (getWrapperGateway gatewayid None) (\<lambda>gatewayProxy.
     tbind (view gatewayProxy ''addressProvider'' []) (\<lambda>addressesProvider.
     tbind (view gatewayProxy ''wethGateway'' []) (\<lambda>wethGateway.
     tbind (view gatewayProxy ''underlying'' []) (\<lambda>underlying.
     tbind (view gatewayProxy ''wrappedToken'' []) (\<lambda>wrappedToken.
     verify_proxy C_BendUpgradeableProxy gatewayProxy gatewayImpl proxyAdminWTL
       [addressesProvider, wethGateway, underlying, wrappedToken])))))))))"

definition not_on_mainnet :: "string \<Rightarrow> unit task" where
  "not_on_mainnet message = tbind (tget net_name) (\<lambda>network.
     twhen (str_includes network ''main'') (tthrow (JsError message)))"

definition verify_mocks :: "string \<Rightarrow> unit task" where
  "verify_mocks pool =
     tseq (not_on_mainnet ''Mocks not used at mainnet configuration.'')
     (tbind (loadPoolConfig pool) (\<lambda>poolConfig.
     tbind (tget (\<lambda>w. addressParam w (CryptoPunksMarket poolConfig))) (\<lambda>punkAddress.
     tbind (tget (\<lambda>w. addressParam w (WrappedPunkToken poolConfig))) (\<lambda>wpunkAddress.
     tbind (tget (\<lambda>w. addressParam w (WrappedNativeToken poolConfig))) (\<lambda>wethAddress.
     tbind (getCryptoPunksMarket punkAddress) (\<lambda>punkImpl.
     tseq (verify_one C_CryptoPunksMarket punkImpl [])
     (tbind (getWrappedPunk wpunkAddress) (\<lambda>wpunkImpl.
     tseq (verify_one C_WrappedPunk wpunkImpl [opt_val punkAddress])
     (tbind (tget (\<lambda>w. getParamPerNetwork (procenv w) (NftsAssets poolConfig) (net_name w))) (\<lambda>mockNfts.
     tbind (tget (\<lambda>w. getParamPerNetwork (procenv w) (ReserveAssets poolConfig) (net_name w))) (\<lambda>mockTokens.
     case mockNfts of None \<Rightarrow> tthrow JsTypeError | Some nfts \<Rightarrow>
     tseq (tfor nfts (\<lambda>(nftSymbol, address).
       if nftSymbol = ''WPUNKS'' then tret ()
       else tbind (getMintableERC721 (Some address)) (\<lambda>mocked.
         tbind (view mocked ''name'' []) (\<lambda>name.
         tbind (view mocked ''symbol'' []) (\<lambda>symbol.
         verify_one C_MintableERC721 mocked [name, symbol])))))
     (tbind (getWETHMocked wethAddress) (\<lambda>wethImpl.
     tseq (verify_one C_WETHMocked wethImpl [])
     (case mockTokens of None \<Rightarrow> tthrow JsTypeError | Some tokens \<Rightarrow>
     tfor tokens (\<lambda>(tokenSymbol, address).
       if tokenSymbol = ''WETH'' then tret ()
       else tbind (getMintableERC20 (Some address)) (\<lambda>mocked.
         tbind (view mocked ''name'' []) (\<lambda>name.
         tbind (view mocked ''symbol'' []) (\<lambda>symbol.
         tbind (view mocked ''decimals'' []) (\<lambda>decimals.
         verify_one C_MintableERC20 mocked [name, symbol, JStr (js_str decimals)])))))))))))))))))))"

section \<open>The migration of a live network\<close>

text \<open>\<open>await signer.getAddress()\<close> and \<open>await signer.getBalance()\<close>, printed before and after\<close>

definition print_balance :: "string option \<Rightarrow> unit task" where
  "print_balance signer = tseq (ask (External ''getBalance'' [opt_val signer])) (tret ())"

definition print_balances :: "string option list \<Rightarrow> unit task" where
  "print_balances signers = tfor signers print_balance"

definition bend_mainnet_steps :: "bool \<Rightarrow> bool \<Rightarrow> (string \<times> unit task) list" where
  "bend_mainnet_steps skipRegistry skipOracle = [
     (''full:deploy-proxy-admin'', deploy_proxy_admin False ''Bend'' True None),
     (''full:deploy-bend-collector'', deploy_bend_collector False ''Bend''),
     (''full:deploy-address-provider'', deploy_address_provider False ''Bend'' skipRegistry),
     (''full:deploy-lend-pool'', deploy_lend_pool False ''Bend''),
     (''full:deploy-oracle-reserve'', deploy_oracle_reserve False skipOracle ''Bend''),
     (''full:deploy-oracle-nft'', deploy_oracle_nft False ''Bend'' skipOracle False None),
     (''full:initialize-lend-pool'', initialize_lend_pool False ''Bend''),
     (''full:deploy-weth-gateway'', deploy_weth_gateway False ''Bend''),
     (''full:deploy-punk-gateway'', deploy_punk_gateway False ''Bend''),
     (''full:initialize-gateway'', initialize_gateway False ''Bend''),
     (''full:deploy-data-provider'', deploy_data_provider False True True True)]"

definition bend_mainnet :: "bool \<Rightarrow> bool \<Rightarrow> bool \<Rightarrow> unit task" where
  "bend_mainnet verify skipRegistry skipOracle =
     tseq run_compile
     (tbind (loadPoolConfig ''Bend'') (\<lambda>poolConfig.
     tbind getDeploySigner (\<lambda>deployerSigner.
     tbind (getGenesisPoolAdmin poolConfig) (\<lambda>poolAdminSigner.
     tbind (getEmergencyAdmin poolConfig) (\<lambda>emergencyAdminSigner.
     tseq (print_balances [deployerSigner, poolAdminSigner, emergencyAdminSigner])
     (tseq (twhen verify checkVerification)
     (tseq (tfor (bend_mainnet_steps skipRegistry skipOracle) snd)
     (tseq (twhen verify
       (tseq (tseq printContracts (tret ()))
       (tseq (verify_general True ''Bend'')
       (tseq (verify_reserves ''Bend'')
       (verify_nfts ''Bend'')))))
     (tseq (tseq printContracts (tret ()))
     (print_balances [deployerSigner, poolAdminSigner, emergencyAdminSigner]))))))))))"

section \<open>The parts of the tasks, for the proofs about them\<close>

lemmas verify_parts = task_parts getBendProtocolDataProvider_def getWalletProvider_def getUIPoolDataProvider_def
  getBendCollectorImpl_def getLendPoolImpl_def getLendPoolConfiguratorImpl_def getLendPoolLoanImpl_def
  getReserveOracleImpl_def getNFTOracleImpl_def getWETHGatewayImpl_def getPunkGatewayImpl_def
  getGenericLogic_def getReserveLogic_def getSupplyLogic_def getBorrowLogic_def getLiquidateLogic_def
  getBToken_def getDebtToken_def getInterestRate_def getBNFT_def getBNFTRegistryImpl_def
  getCryptoPunksMarket_def getWrappedPunk_def getMintableERC721_def getMintableERC20_def getWETHMocked_def

end
