(* ===== verification/NftConfiguration.thy ===== *)
theory NftConfiguration
  imports MarketConfig "HOL-Library.Word"
begin

text \<open>
  The on-chain side of \<open>configureNftsByHelper\<close>: \<open>executeBatchConfigNft\<close> of
  \<open>contracts/libraries/logic/ConfiguratorLogic.sol\<close> with the bitmap of
  \<open>contracts/libraries/configuration/NftConfiguration.sol\<close>. A configuration is one 256-bit word; a setter
  checks its bound, clears the field with a mask and writes the value. The lemmas show that the
  fields are apart, and that every parameter the market configures is accepted and read back.
\<close>

unbundle bit_operations_syntax

type_synonym u256 = "256 word"

section \<open>The bitmap\<close>

definition LTV_MASK :: u256 where
  "LTV_MASK = 0xFFFFFFFFFFFFFFFFFFFFFFFFFFFFFFFFFFFFFFFFFFFFFFFFFFFFFFFFFFFF0000"

definition LIQUIDATION_THRESHOLD_MASK :: u256 where
  "LIQUIDATION_THRESHOLD_MASK = 0xFFFFFFFFFFFFFFFFFFFFFFFFFFFFFFFFFFFFFFFFFFFFFFFFFFFFFFFF0000FFFF"

definition LIQUIDATION_BONUS_MASK :: u256 where
  "LIQUIDATION_BONUS_MASK = 0xFFFFFFFFFFFFFFFFFFFFFFFFFFFFFFFFFFFFFFFFFFFFFFFFFFFF0000FFFFFFFF"

definition ACTIVE_MASK :: u256 where
  "ACTIVE_MASK = 0xFFFFFFFFFFFFFFFFFFFFFFFFFFFFFFFFFFFFFFFFFFFFFFFFFEFFFFFFFFFFFFFF"

definition FROZEN_MASK :: u256 where
  "FROZEN_MASK = 0xFFFFFFFFFFFFFFFFFFFFFFFFFFFFFFFFFFFFFFFFFFFFFFFFFDFFFFFFFFFFFFFF"

definition REDEEM_DURATION_MASK :: u256 where
  "REDEEM_DURATION_MASK = 0xFFFFFFFFFFFFFFFFFFFFFFFFFFFFFFFFFFFFFFFFFFFFFF00FFFFFFFFFFFFFFFF"

definition AUCTION_DURATION_MASK :: u256 where
  "AUCTION_DURATION_MASK = 0xFFFFFFFFFFFFFFFFFFFFFFFFFFFFFFFFFFFFFFFFFFFF00FFFFFFFFFFFFFFFFFF"

definition REDEEM_FINE_MASK :: u256 where
  "REDEEM_FINE_MASK = 0xFFFFFFFFFFFFFFFFFFFFFFFFFFFFFFFFFFFFFFFF0000FFFFFFFFFFFFFFFFFFFF"

definition REDEEM_THRESHOLD_MASK :: u256 where
  "REDEEM_THRESHOLD_MASK = 0xFFFFFFFFFFFFFFFFFFFFFFFFFFFFFFFFFFFF0000FFFFFFFFFFFFFFFFFFFFFFFF"

definition MIN_BIDFINE_MASK :: u256 where
  "MIN_BIDFINE_MASK = 0xFFFFFFFFFFFFFFFFFFFFFFFFFFFFFFFF0000FFFFFFFFFFFFFFFFFFFFFFFFFFFF"

text \<open>\<open>require(v <= max, code); self.data = (self.data & MASK) | (v << POS)\<close> and its getter\<close>

definition set_field :: "u256 \<Rightarrow> nat \<Rightarrow> u256 \<Rightarrow> string \<Rightarrow> u256 \<Rightarrow> u256 \<Rightarrow> string + u256" where
  "set_field msk pos max_valid code v data =
     (if v \<le> max_valid then Inr ((data AND msk) OR push_bit pos v) else Inl code)"

definition get_field :: "u256 \<Rightarrow> nat \<Rightarrow> u256 \<Rightarrow> u256" where
  "get_field msk pos data = drop_bit pos (data AND NOT msk)"

definition setLtv :: "u256 \<Rightarrow> u256 \<Rightarrow> string + u256" where
  "setLtv = set_field LTV_MASK 0 65535 ''RC_INVALID_LTV''"

definition getLtv :: "u256 \<Rightarrow> u256" where "getLtv = get_field LTV_MASK 0"

definition setLiquidationThreshold :: "u256 \<Rightarrow> u256 \<Rightarrow> string + u256" where
  "setLiquidationThreshold = set_field LIQUIDATION_THRESHOLD_MASK 16 65535 ''RC_INVALID_LIQ_THRESHOLD''"

definition getLiquidationThreshold :: "u256 \<Rightarrow> u256" where
  "getLiquidationThreshold = get_field LIQUIDATION_THRESHOLD_MASK 16"

definition setLiquidationBonus :: "u256 \<Rightarrow> u256 \<Rightarrow> string + u256" where
  "setLiquidationBonus = set_field LIQUIDATION_BONUS_MASK 32 65535 ''RC_INVALID_LIQ_BONUS''"

definition getLiquidationBonus :: "u256 \<Rightarrow> u256" where
  "getLiquidationBonus = get_field LIQUIDATION_BONUS_MASK 32"

definition setActive :: "bool \<Rightarrow> u256 \<Rightarrow> u256" where
  "setActive active data = (data AND ACTIVE_MASK) OR push_bit 56 (if active then 1 else 0)"

definition getActive :: "u256 \<Rightarrow> bool" where
  "getActive data = (data AND NOT ACTIVE_MASK \<noteq> 0)"

definition setFrozen :: "bool \<Rightarrow> u256 \<Rightarrow> u256" where
  "setFrozen frozen data = (data AND FROZEN_MASK) OR push_bit 57 (if frozen then 1 else 0)"

definition getFrozen :: "u256 \<Rightarrow> bool" where
  "getFrozen data = (data AND NOT FROZEN_MASK \<noteq> 0)"

definition setRedeemDuration :: "u256 \<Rightarrow> u256 \<Rightarrow> string + u256" where
  "setRedeemDuration = set_field REDEEM_DURATION_MASK 64 255 ''RC_INVALID_REDEEM_DURATION''"

definition getRedeemDuration :: "u256 \<Rightarrow> u256" where
  "getRedeemDuration = get_field REDEEM_DURATION_MASK 64"

definition setAuctionDuration :: "u256 \<Rightarrow> u256 \<Rightarrow> string + u256" where
  "setAuctionDuration = set_field AUCTION_DURATION_MASK 72 255 ''RC_INVALID_AUCTION_DURATION''"

definition getAuctionDuration :: "u256 \<Rightarrow> u256" where
  "getAuctionDuration = get_field AUCTION_DURATION_MASK 72"

definition setRedeemFine :: "u256 \<Rightarrow> u256 \<Rightarrow> string + u256" where
  "setRedeemFine = set_field REDEEM_FINE_MASK 80 65535 ''RC_INVALID_REDEEM_FINE''"

definition getRedeemFine :: "u256 \<Rightarrow> u256" where "getRedeemFine = get_field REDEEM_FINE_MASK 80"

definition setRedeemThreshold :: "u256 \<Rightarrow> u256 \<Rightarrow> string + u256" where
  "setRedeemThreshold = set_field REDEEM_THRESHOLD_MASK 96 65535 ''RC_INVALID_REDEEM_THRESHOLD''"

definition getRedeemThreshold :: "u256 \<Rightarrow> u256" where
  "getRedeemThreshold = get_field REDEEM_THRESHOLD_MASK 96"

definition setMinBidFine :: "u256 \<Rightarrow> u256 \<Rightarrow> string + u256" where
  "setMinBidFine = set_field MIN_BIDFINE_MASK 112 65535 ''RC_INVALID_MIN_BID_FINE''"

definition getMinBidFine :: "u256 \<Rightarrow> u256" where "getMinBidFine = get_field MIN_BIDFINE_MASK 112"

section \<open>Configuring one NFT\<close>

record ConfigNftInput =
  baseLTV :: u256
  liqThreshold :: u256
  liqBonus :: u256
  redeemDur :: u256
  auctionDur :: u256
  redeemFee :: u256
  redeemThres :: u256
  minBid :: u256

definition PERCENTAGE_FACTOR_U256 :: u256 where "PERCENTAGE_FACTOR_U256 = 10000"

definition executeConfigNft :: "ConfigNftInput \<Rightarrow> u256 \<Rightarrow> string + u256" where
  "executeConfigNft i data =
     (if \<not> baseLTV i \<le> liqThreshold i then Inl ''LPC_INVALID_CONFIGURATION''
      else if liqThreshold i \<noteq> 0 \<and> \<not> liqBonus i \<le> PERCENTAGE_FACTOR_U256 then Inl ''LPC_INVALID_CONFIGURATION''
      else if liqThreshold i = 0 \<and> liqBonus i \<noteq> 0 then Inl ''LPC_INVALID_CONFIGURATION''
      else case setLtv (baseLTV i) data of Inl e \<Rightarrow> Inl e | Inr data \<Rightarrow>
           case setLiquidationThreshold (liqThreshold i) data of Inl e \<Rightarrow> Inl e | Inr data \<Rightarrow>
           case setLiquidationBonus (liqBonus i) data of Inl e \<Rightarrow> Inl e | Inr data \<Rightarrow>
           case setRedeemDuration (redeemDur i) data of Inl e \<Rightarrow> Inl e | Inr data \<Rightarrow>
           case setAuctionDuration (auctionDur i) data of Inl e \<Rightarrow> Inl e | Inr data \<Rightarrow>
           case setRedeemFine (redeemFee i) data of Inl e \<Rightarrow> Inl e | Inr data \<Rightarrow>
           case setRedeemThreshold (redeemThres i) data of Inl e \<Rightarrow> Inl e | Inr data \<Rightarrow>
           setMinBidFine (minBid i) data)"

text \<open>The values of a market's parameters, as \<open>ethers\<close> reads the decimal strings.\<close>

definition u256_of :: "string \<Rightarrow> u256" where
  "u256_of s = of_nat (the (parse_nat s))"

definition input_of :: "INftParams \<Rightarrow> ConfigNftInput" where
  "input_of p = \<lparr>baseLTV = u256_of (baseLTVAsCollateral p), liqThreshold = u256_of (liquidationThreshold p),
     liqBonus = u256_of (liquidationBonus p), redeemDur = u256_of (redeemDuration p),
     auctionDur = u256_of (auctionDuration p), redeemFee = u256_of (redeemFine p),
     redeemThres = u256_of (redeemThreshold p), minBid = u256_of (minBidFine p)\<rparr>"

section \<open>Fields\<close>

text \<open>A mask clears \<open>len\<close> bits from position \<open>pos\<close>.\<close>

definition field_mask :: "nat \<Rightarrow> nat \<Rightarrow> u256" where
  "field_mask pos len = NOT (push_bit pos (mask len))"

lemma field_masks:
  "LTV_MASK = field_mask 0 16" "LIQUIDATION_THRESHOLD_MASK = field_mask 16 16"
  "LIQUIDATION_BONUS_MASK = field_mask 32 16" "ACTIVE_MASK = field_mask 56 1" "FROZEN_MASK = field_mask 57 1"
  "REDEEM_DURATION_MASK = field_mask 64 8" "AUCTION_DURATION_MASK = field_mask 72 8"
  "REDEEM_FINE_MASK = field_mask 80 16" "REDEEM_THRESHOLD_MASK = field_mask 96 16"
  "MIN_BIDFINE_MASK = field_mask 112 16"
  by (simp_all add: LTV_MASK_def LIQUIDATION_THRESHOLD_MASK_def LIQUIDATION_BONUS_MASK_def ACTIVE_MASK_def
      FROZEN_MASK_def REDEEM_DURATION_MASK_def AUCTION_DURATION_MASK_def REDEEM_FINE_MASK_def
      REDEEM_THRESHOLD_MASK_def MIN_BIDFINE_MASK_def field_mask_def mask_eq_exp_minus_1 push_bit_eq_mult
      not_eq_complement)

text \<open>A written field reads back, if the value fits; the other fields keep theirs.\<close>

lemma bit_fits:
  fixes v :: u256
  assumes "unat v < 2 ^ len" and "bit v n"
  shows "n < len"
proof -
  from assms(1) have "unat (take_bit len v) = unat v"
    by (simp add: unsigned_take_bit_eq take_bit_nat_eq_self)
  then have "take_bit len v = v" by (simp only: word_unat_eq_iff)
  with assms(2) show ?thesis by (metis bit_take_bit_iff)
qed

definition put_field :: "nat \<Rightarrow> nat \<Rightarrow> u256 \<Rightarrow> u256 \<Rightarrow> u256" where
  "put_field pos len v data = (data AND field_mask pos len) OR push_bit pos v"

lemma get_put_same:
  assumes "pos + len \<le> 256" and "unat v < 2 ^ len"
  shows "get_field (field_mask pos len) pos (put_field pos len v data) = v"
proof (rule bit_word_eqI)
  fix n :: nat assume n: "n < LENGTH(256)"
  show "bit (get_field (field_mask pos len) pos (put_field pos len v data)) n = bit v n"
    using n assms(1) bit_fits [OF assms(2), of n]
    by (auto simp: get_field_def field_mask_def put_field_def bit_drop_bit_eq bit_and_iff bit_or_iff bit_not_iff
        bit_push_bit_iff bit_mask_iff)
qed

definition apart :: "nat \<Rightarrow> nat \<Rightarrow> nat \<Rightarrow> nat \<Rightarrow> bool" where
  "apart pos len pos' len' \<longleftrightarrow> pos + len \<le> pos' \<or> pos' + len' \<le> pos"

lemma keep_put_other:
  assumes "apart pos len pos' len'" and "unat v < 2 ^ len"
  shows "put_field pos len v data AND NOT (field_mask pos' len') = data AND NOT (field_mask pos' len')"
proof (rule bit_word_eqI)
  fix n :: nat assume n: "n < LENGTH(256)"
  show "bit (put_field pos len v data AND NOT (field_mask pos' len')) n = bit (data AND NOT (field_mask pos' len')) n"
    using n assms(1) bit_fits [OF assms(2), of "n - pos"] unfolding apart_def
    by (auto simp: field_mask_def put_field_def bit_and_iff bit_or_iff bit_not_iff bit_push_bit_iff bit_mask_iff)
qed

lemma get_put_other:
  "apart pos len pos' len' \<Longrightarrow> unat v < 2 ^ len \<Longrightarrow>
     get_field (field_mask pos' len') pos'' (put_field pos len v data) = get_field (field_mask pos' len') pos'' data"
  by (simp add: get_field_def keep_put_other)

lemma set_field_ok: "v \<le> m \<Longrightarrow> set_field (field_mask pos len) pos m code v data = Inr (put_field pos len v data)"
  by (simp add: set_field_def put_field_def)

section \<open>The whole configuration\<close>

text \<open>Parameters the contracts accept.\<close>

definition valid_input :: "ConfigNftInput \<Rightarrow> bool" where
  "valid_input i \<longleftrightarrow> baseLTV i \<le> liqThreshold i \<and>
     (if liqThreshold i \<noteq> 0 then liqBonus i \<le> PERCENTAGE_FACTOR_U256 else liqBonus i = 0) \<and>
     liqThreshold i \<le> 65535 \<and> redeemDur i \<le> 255 \<and> auctionDur i \<le> 255 \<and> redeemFee i \<le> 65535 \<and>
     redeemThres i \<le> 65535 \<and> minBid i \<le> 65535"

definition packed :: "ConfigNftInput \<Rightarrow> u256 \<Rightarrow> u256" where
  "packed i data = put_field 112 16 (minBid i) (put_field 96 16 (redeemThres i) (put_field 80 16 (redeemFee i)
     (put_field 72 8 (auctionDur i) (put_field 64 8 (redeemDur i) (put_field 32 16 (liqBonus i)
     (put_field 16 16 (liqThreshold i) (put_field 0 16 (baseLTV i) data)))))))"

lemma fits: "v \<le> (65535 :: u256) \<Longrightarrow> unat v < 2 ^ 16" "v \<le> (255 :: u256) \<Longrightarrow> unat v < 2 ^ 8"
  by (simp_all add: word_le_nat_alt)

lemma valid_input_bounds:
  assumes "valid_input i"
  shows "baseLTV i \<le> 65535" "liqThreshold i \<le> 65535" "liqBonus i \<le> 65535" "redeemDur i \<le> 255"
    "auctionDur i \<le> 255" "redeemFee i \<le> 65535" "redeemThres i \<le> 65535" "minBid i \<le> 65535"
proof -
  have "liqBonus i \<le> 10000" using assms by (auto simp: valid_input_def PERCENTAGE_FACTOR_U256_def split: if_splits)
  also have "(10000 :: u256) \<le> 65535" by simp
  finally show "liqBonus i \<le> 65535" .
qed (use assms in \<open>auto simp: valid_input_def intro: order_trans\<close>)

lemma executeConfigNft_valid:
  assumes "valid_input i"
  shows "executeConfigNft i data = Inr (packed i data)"
  using assms valid_input_bounds [OF assms]
  by (simp add: executeConfigNft_def setLtv_def setLiquidationThreshold_def setLiquidationBonus_def
      setRedeemDuration_def setAuctionDuration_def setRedeemFine_def setRedeemThreshold_def setMinBidFine_def
      field_masks set_field_ok packed_def valid_input_def split: if_splits)

lemma executeConfigNft_rejects:
  assumes "\<not> valid_input i"
  shows "\<exists>code. executeConfigNft i data = Inl code"
  using assms
  by (auto simp: executeConfigNft_def setLtv_def setLiquidationThreshold_def setLiquidationBonus_def
      setRedeemDuration_def setAuctionDuration_def setRedeemFine_def setRedeemThreshold_def setMinBidFine_def
      set_field_def valid_input_def split: if_splits)

text \<open>Every parameter reads back, and the state flags are not touched.\<close>

lemma packed_reads_back:
  assumes "valid_input i"
  shows "getLtv (packed i data) = baseLTV i" "getLiquidationThreshold (packed i data) = liqThreshold i"
    "getLiquidationBonus (packed i data) = liqBonus i" "getRedeemDuration (packed i data) = redeemDur i"
    "getAuctionDuration (packed i data) = auctionDur i" "getRedeemFine (packed i data) = redeemFee i"
    "getRedeemThreshold (packed i data) = redeemThres i" "getMinBidFine (packed i data) = minBid i"
    "getActive (packed i data) = getActive data" "getFrozen (packed i data) = getFrozen data"
proof -
  note b = valid_input_bounds [OF assms]
  note bounds = b(1-3,6-8) [THEN fits(1), simplified] b(4,5) [THEN fits(2), simplified]
  note facts = packed_def field_masks get_put_same get_put_other keep_put_other bounds apart_def
  show "getLtv (packed i data) = baseLTV i" by (simp add: getLtv_def facts)
  show "getLiquidationThreshold (packed i data) = liqThreshold i"
    by (simp add: getLiquidationThreshold_def facts)
  show "getLiquidationBonus (packed i data) = liqBonus i" by (simp add: getLiquidationBonus_def facts)
  show "getRedeemDuration (packed i data) = redeemDur i" by (simp add: getRedeemDuration_def facts)
  show "getAuctionDuration (packed i data) = auctionDur i" by (simp add: getAuctionDuration_def facts)
  show "getRedeemFine (packed i data) = redeemFee i" by (simp add: getRedeemFine_def facts)
  show "getRedeemThreshold (packed i data) = redeemThres i" by (simp add: getRedeemThreshold_def facts)
  show "getMinBidFine (packed i data) = minBid i" by (simp add: getMinBidFine_def facts)
  show "getActive (packed i data) = getActive data" by (simp add: getActive_def facts)
  show "getFrozen (packed i data) = getFrozen data" by (simp add: getFrozen_def facts)
qed

text \<open>The market's own parameters are valid, whatever the asset.\<close>

lemma market_nfts_valid:
  "list_all (\<lambda>(symbol, p). valid_input (input_of p)) Bend_NftsConfig"
  by (simp add: Bend_NftsConfig_def strategyNft_WPUNKS_def strategyNft_BAYC_def strategyNft_DOODLE_def
      strategyNft_MAYC_def strategyNft_CLONEX_def strategyNft_AZUKI_def strategyNft_WKODA_def
      strategyNftClassB_def strategyNftClassA_def strategyNftClassC_def strategyNftClassD_def strategyNftClassE_def
      valid_input_def input_of_def u256_of_def parse_nat_def digit_val_def PERCENTAGE_FACTOR_U256_def)

text \<open>C37: The configurator accepts the configuration of an NFT exactly if it is valid: the LTV does not
  exceed the liquidation threshold, the bonus is at most 100\% and zero without a threshold, and every
  parameter fits its field.\<close>

theorem config_accepted_iff_valid:
  "(\<exists>data'. executeConfigNft i data = Inr data') \<longleftrightarrow> valid_input i"
  using executeConfigNft_valid executeConfigNft_rejects by (metis Inl_Inr_False)

text \<open>C36: A configuration that the configurator accepted is read back parameter by parameter, and the flags
  that say whether the NFT is active and frozen are what they were.\<close>

theorem config_reads_back:
  assumes "executeConfigNft i data = Inr data'"
  shows "getLtv data' = baseLTV i \<and> getLiquidationThreshold data' = liqThreshold i \<and>
    getLiquidationBonus data' = liqBonus i \<and> getRedeemDuration data' = redeemDur i \<and>
    getAuctionDuration data' = auctionDur i \<and> getRedeemFine data' = redeemFee i \<and>
    getRedeemThreshold data' = redeemThres i \<and> getMinBidFine data' = minBid i \<and>
    getActive data' = getActive data \<and> getFrozen data' = getFrozen data"
proof -
  have "valid_input i" using assms executeConfigNft_rejects [of i data] by auto
  moreover from this have "data' = packed i data" using assms executeConfigNft_valid [of i data] by simp
  ultimately show ?thesis using packed_reads_back [of i data] by simp
qed

theorem config_reads_back_witness:
  "\<exists>data'. executeConfigNft (input_of strategyNftClassA) (setActive True 0) = Inr data' \<and>
     getLiquidationThreshold data' = u256_of (liquidationThreshold strategyNftClassA) \<and> getActive data'"
proof -
  have "valid_input (input_of strategyNftClassA)"
    by (simp add: valid_input_def input_of_def u256_of_def parse_nat_def digit_val_def PERCENTAGE_FACTOR_U256_def
        strategyNftClassA_def)
  then obtain d where d: "executeConfigNft (input_of strategyNftClassA) (setActive True 0) = Inr d"
    using executeConfigNft_valid by blast
  from config_reads_back [OF d] have "getLiquidationThreshold d = liqThreshold (input_of strategyNftClassA)"
    and "getActive d = getActive (setActive True 0)" by simp_all
  with d show ?thesis by (auto simp: input_of_def setActive_def getActive_def ACTIVE_MASK_def)
qed

text \<open>C38: Every NFT configuration of the Bend market is accepted by the configurator, whatever the NFT's
  configuration was before.\<close>

theorem market_configs_accepted:
  "\<forall>data. list_all (\<lambda>(symbol, p). \<exists>data'. executeConfigNft (input_of p) data = Inr data') Bend_NftsConfig"
proof
  fix data :: u256
  have "(case sp of (symbol, p) \<Rightarrow> valid_input (input_of p)) \<Longrightarrow>
      (case sp of (symbol, p) \<Rightarrow> \<exists>data'. executeConfigNft (input_of p) data = Inr data')" for sp :: "string \<times> INftParams"
    by (cases sp) (simp add: executeConfigNft_valid)
  with market_nfts_valid
  show "list_all (\<lambda>(symbol, p). \<exists>data'. executeConfigNft (input_of p) data = Inr data') Bend_NftsConfig"
    unfolding list_all_iff by blast
qed

end
