(* ===== verification/MarketChecks.thy ===== *)
theory MarketChecks
  imports Migrations NftConfiguration
begin

text \<open>
  Facts about the data of \<open>markets/bend\<close>: which assets of each network have a configuration, which have
  a price aggregator, and what the tasks do where one is missing.
\<close>

definition unconfigured :: "'p jsobj \<Rightarrow> string jsobj \<Rightarrow> string list" where
  "unconfigured config assets = filter (\<lambda>s. oget config s = None) (map fst assets)"

definition on_all_networks :: "'a iParamsPerNetwork \<Rightarrow> 'a list" where
  "on_all_networks p = [coverage p, hardhat p, localhost p, sepolia p, goerli p, rinkeby p, main p]"

text \<open>Every reserve asset of every network has a configuration in the Bend market.\<close>

theorem reserves_configured:
  "map (unconfigured Bend_ReservesConfig) (on_all_networks Bend_ReserveAssets) = [[], [], [], [], [], [], []]"
  by (simp add: unconfigured_def on_all_networks_def Bend_ReservesConfig_def Bend_ReserveAssets_def)

text \<open>Every NFT of every network has a configuration in the Bend market, but for \<open>COOL\<close> on \<open>rinkeby\<close>, which the
  market's tasks therefore never initialise.\<close>

theorem nfts_configured:
  "map (unconfigured Bend_NftsConfig) (on_all_networks Bend_NftsAssets) = [[], [], [], [], [], [''COOL''], []]"
  by (simp add: unconfigured_def on_all_networks_def Bend_NftsConfig_def Bend_NftsAssets_def)

text \<open>The pairs that \<open>full:deploy-oracle-reserve\<close> computes for a network.\<close>

definition oracle_pairs :: "string jsobj \<Rightarrow> string jsobj \<Rightarrow> js_error + (string list \<times> string list)" where
  "oracle_pairs assets aggregators = getPairsTokenAggregator
     (oset ''USD'' (UsdAddress (ProtocolGlobalParams BendConfig)) assets) aggregators
     (OracleQuoteCurrency BendConfig)"

text \<open>The pairs of asset and aggregator for the reserve oracle exist on every network but \<open>coverage\<close> and
  \<open>hardhat\<close>, whose tables have no aggregator for USD.\<close>

theorem oracle_pairs_per_network:
  "map (\<lambda>p. map_sum id (map_prod length length) p)
     (map2 oracle_pairs (on_all_networks Bend_ReserveAssets) (on_all_networks Commons_ReserveAggregators)) =
   [Inl (JsError ''can not find aggregator for USD''), Inl (JsError ''can not find aggregator for USD''),
    Inr (3, 3), Inr (1, 1), Inr (2, 2), Inr (3, 3), Inr (1, 1)]"
  by (simp add: on_all_networks_def oracle_pairs_def getPairsTokenAggregator_def omit_def getQuoteCurrencies_def
      Bend_ReserveAssets_def Commons_ReserveAggregators_def Let_def js_at_def)

lemma oracle_config:
  "ReserveAggregators BendConfig = Commons_ReserveAggregators" "ReserveAssets BendConfig = Bend_ReserveAssets"
  by (simp_all add: BendConfig_def CommonsConfig_def)

lemma no_usd_aggregator:
  assumes "net_name w \<in> {''coverage'', ''hardhat''}" and "\<not> truthy_opt (procenv w ''FORK'')"
  shows "reserve_pairs BendConfig w = Some (Inl (JsError ''can not find aggregator for USD''))"
proof -
  have p: "getParamPerNetwork (procenv w) p (net_name w) =
      Some (if net_name w = ''coverage'' then coverage p else hardhat p)" for p :: "'a iParamsPerNetwork"
    using assms by (auto simp: getParamPerNetwork_def)
  have "getPairsTokenAggregator (oset ''USD'' a (coverage Bend_ReserveAssets))
      (coverage Commons_ReserveAggregators) q = Inl (JsError ''can not find aggregator for USD'')"
    "getPairsTokenAggregator (oset ''USD'' a (hardhat Bend_ReserveAssets))
      (hardhat Commons_ReserveAggregators) q = Inl (JsError ''can not find aggregator for USD'')" for q a
    by (simp_all add: Bend_ReserveAssets_def Commons_ReserveAggregators_def getPairsTokenAggregator_def omit_def
        getQuoteCurrencies_def Let_def js_at_def)
  then show ?thesis by (simp add: reserve_pairs_def oracle_config p)
qed

text \<open>A run that stays quiet up to a point where it fails.\<close>

definition fails_quietly :: "world \<Rightarrow> (js_error + 'a) \<times> world \<Rightarrow> bool" where
  "fails_quietly w r \<longleftrightarrow> isl (fst r) \<and> quiet w (snd r)"

lemma fails_quietly_bind:
  assumes "quiet w0 w" and "obeys quiet m"
    and "\<And>x w'. m w = (Inr x, w') \<Longrightarrow> quiet w0 w' \<Longrightarrow> fails_quietly w0 (f x w')"
  shows "fails_quietly w0 (tbind m f w)"
proof (cases "m w")
  case (Pair r w')
  have "quiet w0 w'" using assms(1) qt.run [OF assms(2) Pair] by (rule qt.R_trans)
  with assms(3) Pair show ?thesis
    by (cases r) (auto simp: tbind_def fails_quietly_def)
qed

text \<open>On the in-process test networks \<open>full:deploy-oracle-reserve\<close> cannot succeed: their price tables have no
  aggregator for USD, the asset that the task itself adds. It fails before it deploys or sends anything.\<close>

theorem deploy_oracle_reserve_test_networks:
  assumes "net_name w \<in> {''coverage'', ''hardhat''}" and "\<not> truthy_opt (procenv w ''FORK'')"
  shows "isl (fst (deploy_oracle_reserve verify False ''Bend'' w)) \<and>
    effects (snd (deploy_oracle_reserve verify False ''Bend'' w)) = effects w"
proof -
  have pairs: "reserve_pairs BendConfig v = Some (Inl (JsError ''can not find aggregator for USD''))"
    if "quiet w v" for v
    using no_usd_aggregator [OF assms] reserve_pairs_quiet [OF that] by simp
  have "fails_quietly w (deploy_oracle_reserve verify False ''Bend'' w)"
    unfolding deploy_oracle_reserve_def tseq_def if_False getLendPoolAddressesProvider_def
    apply (rule fails_quietly_bind [OF qt.R_refl run_compile_quiet])
    apply (rule fails_quietly_bind, assumption, rule loadPoolConfig_quiet)
    apply (rule fails_quietly_bind, assumption, rule connectOrDb_quiet)
    apply (rule fails_quietly_bind, assumption, rule qt.tget)
    apply (rule fails_quietly_bind, assumption, rule getBendProxyAdminById_quiet)
    apply (rule fails_quietly_bind, assumption, rule owner_signer_quiet)
    apply (rule fails_quietly_bind, assumption, rule qt.tget)
    apply (rule fails_quietly_bind, assumption, rule qt.tget)
    subgoal for _ _ cfg _ _ _ _ _ _ _ _ _ assets v aggregators v'
      using pairs [of v']
      by (auto simp: loadPoolConfig_def reserve_pairs_def Let_def fails_quietly_def)
    done
  then show ?thesis by (simp add: fails_quietly_def quiet_def does_def)
qed

end
