(* ===== verification/Params.thy ===== *)
theory Params
  imports Migrations
begin

text \<open>
  The values the operating tasks work with: parameters of the command line, which are strings unless a
  task passes another value, and answers of the contracts. It holds the comparison \<open>==\<close> of a value
  with a number, the numbers that strings denote, \<open>split\<close>, and the methods of the big numbers that
  the answers carry.
\<close>

section \<open>Numbers written as strings\<close>

definition is_ws :: "char \<Rightarrow> bool" where
  "is_ws c \<longleftrightarrow> c \<in> {CHR '' '', CHR 0x09, CHR 0x0A, CHR 0x0B, CHR 0x0C, CHR 0x0D}"

definition trim :: "string \<Rightarrow> string" where
  "trim s = rev (dropWhile is_ws (rev (dropWhile is_ws s)))"

definition is_digit :: "char \<Rightarrow> bool" where
  "is_digit c \<longleftrightarrow> digit_val c \<noteq> None"

text \<open>An optional sign, and the exponent part of a decimal literal (\<open>None\<close> if it is malformed).\<close>

fun sign_of :: "string \<Rightarrow> int \<times> string" where
  "sign_of (c # s) = (if c = CHR ''-'' then (-1, s) else if c = CHR ''+'' then (1, s) else (1, c # s))"
| "sign_of [] = (1, [])"

definition exponent_of :: "string \<Rightarrow> int option" where
  "exponent_of s = (case s of [] \<Rightarrow> Some 0
     | c # r \<Rightarrow> if c = CHR ''e'' \<or> c = CHR ''E''
         then (let (g, ds) = sign_of r in map_option (\<lambda>n. g * int n) (parse_nat ds)) else None)"

text \<open>The digits before and after the point, and the exponent; the value is kept exact.\<close>

definition scaled :: "rat \<Rightarrow> int \<Rightarrow> rat" where
  "scaled m e = (if 0 \<le> e then m * 10 ^ nat e else m / 10 ^ nat (- e))"

definition unsigned_decimal :: "string \<Rightarrow> rat option" where
  "unsigned_decimal s =
     (let whole = takeWhile is_digit s; r = dropWhile is_digit s;
          (fraction, r') = (case r of c # t \<Rightarrow>
              if c = CHR ''.'' then (takeWhile is_digit t, dropWhile is_digit t) else ([], r)
            | [] \<Rightarrow> ([], []))
      in case (parse_nat (whole @ fraction), exponent_of r') of
           (Some m, Some e) \<Rightarrow> Some (scaled (of_nat m) (e - int (length fraction)))
         | _ \<Rightarrow> None)"

text \<open>\<open>0x\<close>, \<open>0o\<close> and \<open>0b\<close> literals.\<close>

definition base_digit :: "nat \<Rightarrow> char \<Rightarrow> nat option" where
  "base_digit b c = (let n = of_char c :: nat;
       d = (if 48 \<le> n \<and> n \<le> 57 then n - 48 else if 97 \<le> n \<and> n \<le> 102 then n - 87
            else if 65 \<le> n \<and> n \<le> 70 then n - 55 else b)
     in if d < b then Some d else None)"

fun parse_base :: "nat \<Rightarrow> nat \<Rightarrow> string \<Rightarrow> nat option" where
  "parse_base b acc [] = Some acc"
| "parse_base b acc (c # s) =
     (case base_digit b c of None \<Rightarrow> None | Some d \<Rightarrow> parse_base b (b * acc + d) s)"

definition prefixed :: "string \<Rightarrow> rat option" where
  "prefixed s = (case s of z # x # d # ds \<Rightarrow>
       if z \<noteq> CHR ''0'' then None
       else if x = CHR ''x'' \<or> x = CHR ''X'' then map_option of_nat (parse_base 16 0 (d # ds))
       else if x = CHR ''o'' \<or> x = CHR ''O'' then map_option of_nat (parse_base 8 0 (d # ds))
       else if x = CHR ''b'' \<or> x = CHR ''B'' then map_option of_nat (parse_base 2 0 (d # ds))
       else None
     | _ \<Rightarrow> None)"

text \<open>
  \<open>Number(s)\<close>. \<open>NaN\<close> is \<open>None\<close>, and so are the infinities, which equal no number the scripts compare
  with. The value is exact: a literal that a double would round is told apart from its neighbours.
\<close>

definition js_number :: "string \<Rightarrow> rat option" where
  "js_number s0 = (let s = trim s0 in
     if s = [] then Some 0
     else case prefixed s of Some r \<Rightarrow> Some r
       | None \<Rightarrow> (let (g, u) = sign_of s in map_option (\<lambda>r. of_int g * r) (unsigned_decimal u)))"

text \<open>\<open>new BigNumber(s)\<close> of \<open>bignumber.js\<close> reads the same literals, but not the empty string.\<close>

definition bn_of :: "string \<Rightarrow> BigNumber option" where
  "bn_of s = (if trim s = [] then None else js_number s)"

section \<open>Loose equality\<close>

text \<open>The string an object is converted to before it is compared with a number.\<close>

fun js_primitive :: "jsval \<Rightarrow> string" where
  "js_primitive (JArr []) = []"
| "js_primitive (JArr [JUndef]) = []"
| "js_primitive (JArr [v]) = js_primitive v"
| "js_primitive (JArr (v # w # vs)) = '',''"
| "js_primitive v = js_str v"

text \<open>\<open>v == n\<close> for a number \<open>n\<close>, and \<open>v == b\<close> for a boolean, which is converted to a number first.\<close>

fun js_eq_num :: "jsval \<Rightarrow> int \<Rightarrow> bool" where
  "js_eq_num JUndef n = False"
| "js_eq_num (JBool b) n = ((if b then 1 else 0) = n)"
| "js_eq_num (JNum i) n = (i = n)"
| "js_eq_num v n = (js_number (js_primitive v) = Some (of_int n))"

definition js_eq_bool :: "jsval \<Rightarrow> bool \<Rightarrow> bool" where
  "js_eq_bool v b = js_eq_num v (if b then 1 else 0)"

section \<open>Strings and big numbers\<close>

text \<open>\<open>s.split(c)\<close> for a separator of one character: the empty string gives one empty piece.\<close>

fun split_at :: "char \<Rightarrow> string \<Rightarrow> string list" where
  "split_at c [] = [[]]"
| "split_at c (d # s) = (if d = c then [] # split_at c s
     else (case split_at c s of p # ps \<Rightarrow> (d # p) # ps | [] \<Rightarrow> [[d]]))"

text \<open>
  The contracts answer integers as big numbers; \<open>big v\<close> calls one of their methods, which is a
  \<open>TypeError\<close> on anything else. \<open>big_arg\<close> converts an argument of such a method, a big number or a
  decimal string; \<open>to_number\<close> is \<open>toNumber()\<close>, which refuses what a double cannot hold exactly.
\<close>

definition big :: "jsval \<Rightarrow> int task" where
  "big v = (case v of JNum i \<Rightarrow> tret i | _ \<Rightarrow> tthrow JsTypeError)"

definition big_arg :: "jsval \<Rightarrow> int task" where
  "big_arg v = (case v of JNum i \<Rightarrow> tret i
     | JStr s \<Rightarrow> (case parse_nat s of Some n \<Rightarrow> tret (int n) | None \<Rightarrow> tthrow (JsError ''invalid BigNumber string''))
     | _ \<Rightarrow> tthrow (JsError ''invalid BigNumber value''))"

definition to_number :: "jsval \<Rightarrow> int task" where
  "to_number v = tbind (big v) (\<lambda>i.
     if \<bar>i\<bar> < 2 ^ 53 then tret i else tthrow (JsError ''overflow''))"

text \<open>\<open>v.toString()\<close>, which only \<open>undefined\<close> does not have.\<close>

definition to_string :: "jsval \<Rightarrow> string task" where
  "to_string v = (if v = JUndef then tthrow JsTypeError else tret (js_str v))"

text \<open>\<open>{ value: v }\<close>, the overrides of a payable call; they are its last argument.\<close>

definition with_value :: "jsval \<Rightarrow> jsval" where
  "with_value v = JObj [(''value'', v)]"

text \<open>\<open>x.toFixed(0)\<close> of \<open>bignumber.js\<close>, which rounds a half away from zero.\<close>

definition toFixed0 :: "BigNumber \<Rightarrow> string" where
  "toFixed0 x = show_int (if 0 \<le> x then \<lfloor>x + 1 / 2\<rfloor> else - \<lfloor>- x + 1 / 2\<rfloor>)"

text \<open>\<open>await (await getDeploySigner()).getAddress()\<close> where the script keeps the signer for later.\<close>

definition signer_address :: "string option \<Rightarrow> string task" where
  "signer_address signer = (case signer of None \<Rightarrow> tthrow JsTypeError | Some a \<Rightarrow> tret a)"

section \<open>Facts\<close>

lemma js_eq_num_bool [simp]: "js_eq_num (JBool b) 0 = (\<not> b)" "js_eq_num (JBool b) 1 = b"
  by auto

lemma js_eq_bool_bool [simp]: "js_eq_bool (JBool b) c = (b = c)"
  by (simp add: js_eq_bool_def)

lemma big_returns: "big v w = (Inr i, w') \<longleftrightarrow> w' = w \<and> v = JNum i"
  by (auto simp: big_def split: jsval.splits)

lemma to_string_returns: "to_string v w = (Inr s, w') \<longleftrightarrow> w' = w \<and> v \<noteq> JUndef \<and> s = js_str v"
  by (auto simp: to_string_def)

lemma struct_field_returns: "struct_field k v w = (Inr x, w') \<longleftrightarrow> w' = w \<and> js_prop k v = Some x"
  by (auto simp: struct_field_def split: option.splits)

lemma signer_address_returns: "signer_address s w = (Inr a, w') \<longleftrightarrow> w' = w \<and> s = Some a"
  by (auto simp: signer_address_def split: option.splits)

context run_relation
begin

lemma value_rules: "obeys R (big v)" "obeys R (big_arg v)" "obeys R (to_number v)" "obeys R (to_string v)"
    "obeys R (signer_address s)" "obeys R (struct_field k v)"
  unfolding big_def big_arg_def to_number_def to_string_def signer_address_def struct_field_def
  by (cases v; cases s; auto simp: big_def tret tthrow intro!: tbind tif split: option.splits)+

end

lemma split_at_not_Nil [simp]: "split_at c s \<noteq> []"
  by (induction s) (auto split: list.splits)

text \<open>\<open>split\<close> inverts joining with the separator, for pieces that do not contain it.\<close>

fun join_with :: "char \<Rightarrow> string list \<Rightarrow> string" where
  "join_with c [] = []"
| "join_with c [p] = p"
| "join_with c (p # q # ps) = p @ c # join_with c (q # ps)"

lemma split_at_append: "c \<notin> set p \<Longrightarrow> split_at c (p @ c # s) = p # split_at c s"
  by (induction p) auto

lemma split_at_single: "c \<notin> set p \<Longrightarrow> split_at c p = [p]"
  by (induction p) auto

lemma split_join: "ps \<noteq> [] \<Longrightarrow> \<forall>p \<in> set ps. c \<notin> set p \<Longrightarrow> split_at c (join_with c ps) = ps"
  by (induction c ps rule: join_with.induct) (auto simp: split_at_append split_at_single)

lemma join_split: "join_with c (split_at c s) = s"
proof (induction s)
  case (Cons d s)
  obtain p ps where "split_at c s = p # ps" by (cases "split_at c s") auto
  with Cons show ?case by (cases ps) auto
qed simp

end
