(* ===== verification/HardhatConfig.thy ===== *)
theory HardhatConfig
  imports Params
begin

text \<open>
  \<open>hardhat.config.ts\<close> and \<open>helper-hardhat-config.ts\<close>: the networks the scripts can run on, with their addresses,
  chain identifiers, gas prices and accounts, and the fork of a live network. They depend on \<open>process.env\<close>
  only. The options of the compiler and of the plugins are left out, and so is the loading of the task files.
\<close>

section \<open>\<open>buidler-constants.ts\<close> and \<open>test-wallets.js\<close>\<close>

definition TEST_SNAPSHOT_ID :: string where "TEST_SNAPSHOT_ID = ''0x1''"
definition BUIDLEREVM_CHAINID :: int where "BUIDLEREVM_CHAINID = 31337"
definition COVERAGE_CHAINID :: int where "COVERAGE_CHAINID = 1337"

definition test_wallets :: "(string \<times> string) list" where
  "test_wallets = map (\<lambda>secretKey. (secretKey, ''1000000000000000000000000'')) [
     ''0xa1fe94e437cbcf1ef6bf4de610b89ee459ca67cff976135f958a4c238e424baa'',
     ''0xaec050154a7412da0f32abfa8f80575036a10052278c61e819ab71972f21ac6c'',
     ''0x92901699decb6309b068a655be0191155a3b9611f3fcd5d3aa93e3e058a394d8'',
     ''0xeb21c7c3f922b1be7ea7342c5e5f488db02442c26caae26fccca831fbcdfed37'',
     ''0x9f69e5c1ac53649d61a63fbd9983dc1be963ff8e8d88db69ac9e1587e0750090'',
     ''0xf939df6b8a8219e2bedc05b1af2ad0e1621146f03e2df182c7c63f30757ae8fc'',
     ''0x3e533eaeb93089b0a77ec4ccab359e8f258907c27c86f6d75fda41d619a967dc'',
     ''0xdeb70f1d14f23a305d2d41ff0b2546eb2b10f7b4960627eee12beadfae12fd82'',
     ''0xc5130959324977df5afdf2ab43fa464d01d5baab4aa67ced57c82483c0c1c7c2'',
     ''0xb1e22ab3d3cc0cc8347fbb181322c32dfc5ad0aee4b162f409467b59af79d364'']"

section \<open>\<open>helper-hardhat-config.ts\<close>\<close>

text \<open>\<open>process.env.NAME || ""\<close>\<close>

definition env_or_empty :: "(string \<Rightarrow> string option) \<Rightarrow> string \<Rightarrow> string" where
  "env_or_empty env name = (case env name of None \<Rightarrow> [] | Some v \<Rightarrow> v)"

text \<open>
  \<open>parseInt(s)\<close>: the longest prefix that is a number, after white space and a sign; \<open>None\<close> is \<open>NaN\<close>. The
  digits after \<open>0x\<close> are hexadecimal.
\<close>

fun digits_prefix :: "nat \<Rightarrow> nat option \<Rightarrow> string \<Rightarrow> nat option" where
  "digits_prefix b acc [] = acc"
| "digits_prefix b acc (c # s) = (case base_digit b c of None \<Rightarrow> acc
     | Some d \<Rightarrow> digits_prefix b (Some (b * (case acc of None \<Rightarrow> 0 | Some n \<Rightarrow> n) + d)) s)"

definition parseInt :: "string \<Rightarrow> int option" where
  "parseInt s = (let (g, u) = sign_of (dropWhile is_ws s) in
     map_option (\<lambda>n. g * int n) (case u of
       z # x # r \<Rightarrow> if z = CHR ''0'' \<and> (x = CHR ''x'' \<or> x = CHR ''X'') then digits_prefix 16 None r
         else digits_prefix 10 None u
     | _ \<Rightarrow> digits_prefix 10 None u))"

text \<open>\<open>process.env.FORK_BLOCK_NUMBER ? parseInt(process.env.FORK_BLOCK_NUMBER) : 0\<close>; \<open>NaN\<close> is falsy, like 0.\<close>

definition FORK_BLOCK_NUMBER :: "(string \<Rightarrow> string option) \<Rightarrow> int" where
  "FORK_BLOCK_NUMBER env = (if truthy_opt (env ''FORK_BLOCK_NUMBER'')
     then (case parseInt (the (env ''FORK_BLOCK_NUMBER'')) of None \<Rightarrow> 0 | Some n \<Rightarrow> n) else 0)"

definition GWEI :: int where "GWEI = 1000 * 1000 * 1000"

definition rpc_url :: "(string \<Rightarrow> string option) \<Rightarrow> string \<Rightarrow> string \<Rightarrow> string" where
  "rpc_url env alchemy infura = (let key = env_or_empty env ''ALCHEMY_KEY'' in
     if key \<noteq> [] then ''https://'' @ alchemy @ ''.g.alchemy.com/v2/'' @ key
     else ''https://'' @ infura @ ''.infura.io/v3/'' @ env_or_empty env ''INFURA_KEY'')"

definition NETWORKS_RPC_URL :: "(string \<Rightarrow> string option) \<Rightarrow> string iParamsPerNetwork" where
  "NETWORKS_RPC_URL env = \<lparr>coverage = ''http://localhost:8555'',
     hardhat = ''http://localhost:8545'',
     localhost = ''http://localhost:8545'',
     goerli = rpc_url env ''eth-goerli'' ''goerli'',
     rinkeby = rpc_url env ''eth-rinkeby'' ''rinkeby'',
     sepolia = rpc_url env ''eth-sepolia'' ''sepolia'',
     main = rpc_url env ''eth-mainnet'' ''mainnet''\<rparr>"

definition NETWORKS_DEFAULT_GAS :: "int iParamsPerNetwork" where
  "NETWORKS_DEFAULT_GAS = \<lparr>coverage = 65 * GWEI,
     hardhat = 65 * GWEI,
     localhost = 65 * GWEI,
     goerli = 65 * GWEI,
     rinkeby = 65 * GWEI,
     sepolia = 15 * GWEI,
     main = 5 * GWEI\<rparr>"

definition BLOCK_TO_FORK :: "int iParamsPerNetwork" where
  "BLOCK_TO_FORK = \<lparr>coverage = 0,
     hardhat = 0,
     localhost = 0,
     goerli = 0,
     rinkeby = 0,
     sepolia = 0,
     main = 13623705\<rparr>"

text \<open>\<open>table[name]\<close>, which is \<open>undefined\<close> for a name that is no network\<close>

definition table_at :: "'a iParamsPerNetwork \<Rightarrow> string \<Rightarrow> 'a option" where
  "table_at p n = map_of [(''coverage'', coverage p), (''hardhat'', hardhat p), (''localhost'', localhost p),
     (''goerli'', goerli p), (''rinkeby'', rinkeby p), (''sepolia'', sepolia p), (''main'', main p)] n"

record fork_config =
  fork_url :: "string option"
  fork_block :: "int option"

definition buildForkConfig :: "(string \<Rightarrow> string option) \<Rightarrow> fork_config option" where
  "buildForkConfig env = (let FORK = env_or_empty env ''FORK'' in
     if FORK = [] then None
     else (let pinned = FORK_BLOCK_NUMBER env; table = table_at BLOCK_TO_FORK FORK;
               n = (if pinned \<noteq> 0 then Some pinned else table) in
       Some \<lparr>fork_url = table_at (NETWORKS_RPC_URL env) FORK,
             fork_block = (if n = None \<or> n = Some 0 then None else n)\<rparr>))"

section \<open>\<open>hardhat.config.ts\<close>\<close>

definition DEFAULT_BLOCK_GAS_LIMIT :: int where "DEFAULT_BLOCK_GAS_LIMIT = 12450000"
definition DEFAULT_GAS_MUL :: int where "DEFAULT_GAS_MUL = 5"
definition HARDFORK :: string where "HARDFORK = ''london''"
definition MNEMONIC_PATH :: string where "MNEMONIC_PATH = [CHR ''m'', CHR ''/'', CHR ''4'', CHR ''4'', CHR 0x27] @
  ''/60'' @ [CHR 0x27] @ ''/0'' @ [CHR 0x27] @ ''/0''"

definition hd_wallet :: "string \<Rightarrow> jsval" where
  "hd_wallet mnemonic = JObj [(''mnemonic'', JStr mnemonic), (''path'', JStr MNEMONIC_PATH),
     (''initialIndex'', JNum 0), (''count'', JNum 20)]"

definition getCommonNetworkConfig :: "(string \<Rightarrow> string option) \<Rightarrow> string \<Rightarrow> int \<Rightarrow> jsval" where
  "getCommonNetworkConfig env networkName networkId = (let key = env_or_empty env ''PRIVATE_KEY'' in JObj [
     (''url'', opt_val (table_at (NETWORKS_RPC_URL env) networkName)),
     (''hardfork'', JStr HARDFORK),
     (''blockGasLimit'', JNum DEFAULT_BLOCK_GAS_LIMIT),
     (''gasMultiplier'', JNum DEFAULT_GAS_MUL),
     (''gasPrice'', case table_at NETWORKS_DEFAULT_GAS networkName of None \<Rightarrow> JUndef | Some n \<Rightarrow> JNum n),
     (''chainId'', JNum networkId),
     (''accounts'', if key \<noteq> [] then JArr [JStr key] else hd_wallet (env_or_empty env ''MNEMONIC''))])"

definition forking :: "fork_config option \<Rightarrow> jsval" where
  "forking f = (case f of None \<Rightarrow> JUndef | Some c \<Rightarrow> JObj ((''url'', opt_val (fork_url c)) #
     (case fork_block c of None \<Rightarrow> [] | Some n \<Rightarrow> [(''blockNumber'', JNum n)])))"

definition config_networks :: "(string \<Rightarrow> string option) \<Rightarrow> jsval jsobj" where
  "config_networks env = [
     (''coverage'', JObj [(''hardfork'', JStr ''istanbul''), (''url'', JStr ''http://localhost:8555''),
       (''chainId'', JNum COVERAGE_CHAINID)]),
     (''localhost'', JObj [(''hardfork'', JStr ''london''), (''url'', JStr ''http://localhost:8545''),
       (''chainId'', JNum BUIDLEREVM_CHAINID), (''accounts'', JArr (map (JStr \<circ> fst) test_wallets))]),
     (''sepolia'', getCommonNetworkConfig env ''sepolia'' 11155111),
     (''goerli'', getCommonNetworkConfig env ''goerli'' 5),
     (''rinkeby'', getCommonNetworkConfig env ''rinkeby'' 4),
     (''main'', getCommonNetworkConfig env ''main'' 1),
     (''hardhat'', JObj [(''hardfork'', JStr ''london''), (''blockGasLimit'', JNum DEFAULT_BLOCK_GAS_LIMIT),
       (''gas'', JNum DEFAULT_BLOCK_GAS_LIMIT), (''gasPrice'', JNum (hardhat NETWORKS_DEFAULT_GAS)),
       (''allowUnlimitedContractSize'', JBool (env ''UNLIMITED_BYTECODE_SIZE'' = Some ''true'')),
       (''chainId'', JNum BUIDLEREVM_CHAINID), (''throwOnTransactionFailures'', JBool True),
       (''throwOnCallFailures'', JBool True),
       (''accounts'', JArr (map (\<lambda>(secretKey, balance).
          JObj [(''privateKey'', JStr secretKey), (''balance'', JStr balance)]) test_wallets)),
       (''forking'', forking (buildForkConfig env))]),
     (''ganache'', JObj [(''hardfork'', JStr ''istanbul''), (''url'', JStr ''http://ganache:8545''),
       (''accounts'', hd_wallet ''fox sight canyon orphan hotel grow hedgehog build bless august weather swarm'')])]"

text \<open>\<open>DRE.network.config.chainId\<close>; the network \<open>ganache\<close> has none.\<close>

definition config_chainId :: "(string \<Rightarrow> string option) \<Rightarrow> string \<Rightarrow> jsval" where
  "config_chainId env n = (case oget (config_networks env) n of None \<Rightarrow> JUndef
     | Some c \<Rightarrow> (case js_prop ''chainId'' c of None \<Rightarrow> JUndef | Some v \<Rightarrow> v))"

section \<open>Facts\<close>

lemma chain_ids:
  "map (config_chainId env) [''coverage'', ''localhost'', ''sepolia'', ''goerli'', ''rinkeby'', ''main'', ''hardhat'', ''ganache''] =
   [JNum 1337, JNum 31337, JNum 11155111, JNum 5, JNum 4, JNum 1, JNum 31337, JUndef]"
  by (simp add: config_chainId_def config_networks_def getCommonNetworkConfig_def Let_def COVERAGE_CHAINID_def
      BUIDLEREVM_CHAINID_def)

text \<open>
  The fork has an address exactly for the name of a network, and it is pinned to a block when the environment
  names one, or, on \<open>main\<close> alone, without.
\<close>

lemma fork_of_network:
  assumes "env ''FORK'' = Some n" and "n \<noteq> []"
  shows "\<exists>c. buildForkConfig env = Some c \<and>
    (fork_url c \<noteq> None \<longleftrightarrow> n \<in> {''coverage'', ''hardhat'', ''localhost'', ''goerli'', ''rinkeby'', ''sepolia'', ''main''}) \<and>
    (fork_block c \<noteq> None \<longleftrightarrow> FORK_BLOCK_NUMBER env \<noteq> 0 \<or> n = ''main'')"
  using assms by (auto simp: buildForkConfig_def env_or_empty_def table_at_def BLOCK_TO_FORK_def Let_def)

end
