(* ===== verification/Completion.thy ===== *)
theory Completion
  imports MarketChecks HardhatConfig
begin

text \<open>
  The migration of a live network runs to its end when the node co-operates: total correctness, where the
  other specifications say what a run has done when it has returned. \<open>ends_in m Q w\<close> is the weakest
  precondition: from \<open>w\<close> the script \<open>m\<close> returns, with a value and a world that satisfy \<open>Q\<close>.
\<close>

section \<open>Scripts that return\<close>

definition ends_in :: "'a task \<Rightarrow> ('a \<Rightarrow> world \<Rightarrow> bool) \<Rightarrow> world \<Rightarrow> bool" where
  "ends_in m Q w = (case m w of (Inl e, w') \<Rightarrow> False | (Inr x, w') \<Rightarrow> Q x w')"

lemma ends_inE:
  assumes "ends_in m Q w"
  obtains x w' where "m w = (Inr x, w')" "Q x w'"
  using assms by (auto simp: ends_in_def split: prod.splits sum.splits)

lemma ends_ret: "Q x w \<Longrightarrow> ends_in (tret x) Q w"
  by (simp add: ends_in_def)

lemma ends_bind: "ends_in m (\<lambda>x. ends_in (f x) Q) w \<Longrightarrow> ends_in (tbind m f) Q w"
  by (auto simp: ends_in_def tbind_def split: prod.splits sum.splits)

lemma ends_seq: "ends_in m (\<lambda>_. ends_in k Q) w \<Longrightarrow> ends_in (tseq m k) Q w"
  by (simp add: tseq_def ends_bind)

lemma ends_when: "(b \<Longrightarrow> ends_in m Q w) \<Longrightarrow> (\<not> b \<Longrightarrow> Q () w) \<Longrightarrow> ends_in (twhen b m) Q w"
  by (simp add: twhen_def ends_ret)

lemma ends_if: "(b \<Longrightarrow> ends_in m Q w) \<Longrightarrow> (\<not> b \<Longrightarrow> ends_in k Q w) \<Longrightarrow> ends_in (if b then m else k) Q w"
  by simp

lemma ends_prod: "(\<And>a b. p = (a, b) \<Longrightarrow> ends_in (f a b) Q w) \<Longrightarrow> ends_in (case p of (a, b) \<Rightarrow> f a b) Q w"
  by (simp split: prod.splits)

lemma ends_or_exit: "ends_in m Q w \<Longrightarrow> ends_in (or_exit m) Q w"
  by (auto simp: or_exit_def ends_in_def tcatch_def split: prod.splits sum.splits)

lemmas ends_ctrl = ends_bind ends_seq ends_or_exit

section \<open>A node that co-operates\<close>

text \<open>
  Every request is answered; a deployment and the three proxies of the address provider have valid
  addresses; hardhat gives the chain identifier of its configuration; the library knows the zero address.
\<close>

definition good :: "world \<Rightarrow> string \<Rightarrow> bool" where
  "good w a = notFalsyOrZeroAddress w (Some a)"

definition live :: "world \<Rightarrow> bool" where
  "live w \<longleftrightarrow> net_name w \<in> {''goerli'', ''rinkeby'', ''sepolia'', ''main''} \<and>
     \<not> truthy_opt (procenv w ''FORK'') \<and> procenv w ''MAINNET_FORK'' \<noteq> Some ''true''"

definition proxy_readers :: "string set" where
  "proxy_readers = {''getLendPool'', ''getLendPoolLoan'', ''getLendPoolConfigurator''}"

definition cooperates :: "world \<Rightarrow> bool" where
  "cooperates w \<longleftrightarrow>
     (\<forall>h r. \<exists>v. node w h r = Inr v) \<and>
     (\<forall>h s f args libs v. node w h (DeployTx s f args libs) = Inr v \<longrightarrow> good w (js_str v)) \<and>
     (\<forall>h a m args v. m \<in> proxy_readers \<longrightarrow> node w h (ViewCall a m args) = Inr v \<longrightarrow> good w (js_str v)) \<and>
     (\<forall>h. node w h (External ''DRE.network.config.chainId'' []) = Inr (config_chainId (procenv w) (net_name w))) \<and>
     isZeroAddress w ZERO_ADDRESS"

text \<open>
  A world that a run from \<open>w0\<close> has reached, where the database has valid addresses under the names \<open>K\<close>.
\<close>

definition ready :: "world \<Rightarrow> string set \<Rightarrow> world \<Rightarrow> bool" where
  "ready w0 K w \<longleftrightarrow> cooperates w0 \<and> same_env w0 w \<and>
     (\<forall>i\<in>K. \<exists>e. db_get i w = Some e \<and> good w0 (e_address e))"

lemma ready_mono: "ready w0 K w \<Longrightarrow> K' \<subseteq> K \<Longrightarrow> ready w0 K' w"
  by (auto simp: ready_def)

lemma ready_hist: "ready w0 K w \<Longrightarrow> ready w0 K (w\<lparr>hist := h\<rparr>)"
  by (simp add: ready_def same_env_def)

lemma ready_put: "ready w0 K w \<Longrightarrow> good w0 (e_address e) \<Longrightarrow> ready w0 (insert i K) (db_put i e w)"
  by (auto simp: ready_def same_env_def)

lemma good_nonempty: "good w a \<Longrightarrow> a \<noteq> []"
  by (auto simp: good_def notFalsyOrZeroAddress_def)

section \<open>The steps of the scripts\<close>

text \<open>What a script reads from its environment is the same in all these worlds.\<close>

lemma ends_get:
  assumes "ready w0 K w" and "\<And>w. same_env w0 w \<Longrightarrow> f w = f w0" and "ready w0 K w \<Longrightarrow> Q (f w0) w"
  shows "ends_in (tget f) Q w"
  using assms by (simp add: ends_in_def ready_def)

lemma same_env_reads:
  assumes "same_env w0 w"
  shows "notFalsyOrZeroAddress w a = notFalsyOrZeroAddress w0 a" "addressParam w p = addressParam w0 p"
    "networkOrFork w = networkOrFork w0" "networkOrMainFork w = networkOrMainFork w0"
    "procenv w = procenv w0" "net_name w = net_name w0"
    "getOptionalParamAddressPerNetwork w p' = getOptionalParamAddressPerNetwork w0 p'"
  using assms by (auto simp: same_env_def notFalsyOrZeroAddress_def addressParam_def networkOrFork_def
      networkOrMainFork_def getOptionalParamAddressPerNetwork_def split: option.splits)

lemma addressOn_reads:
  "same_env w0 w \<Longrightarrow> addressOn networkOrFork p w = addressOn networkOrFork p w0"
  "same_env w0 w \<Longrightarrow> addressOn networkOrMainFork p w = addressOn networkOrMainFork p w0"
  by (simp_all add: addressOn_def same_env_reads)

lemma ends_get_valid:
  "ready w0 K w \<Longrightarrow> (ready w0 K w \<Longrightarrow> Q (notFalsyOrZeroAddress w0 a) w) \<Longrightarrow>
     ends_in (tget (\<lambda>w. notFalsyOrZeroAddress w a)) Q w"
  by (rule ends_get) (assumption, rule same_env_reads, assumption)

lemma ends_get_address:
  "ready w0 K w \<Longrightarrow> (ready w0 K w \<Longrightarrow> Q (addressParam w0 p) w) \<Longrightarrow>
     ends_in (tget (\<lambda>w. addressParam w p)) Q w"
  by (rule ends_get) (assumption, rule same_env_reads, assumption)

lemma ends_get_param:
  "ready w0 K w \<Longrightarrow> (ready w0 K w \<Longrightarrow> Q (getParamPerNetwork (procenv w0) p (net_name w0)) w) \<Longrightarrow>
     ends_in (tget (\<lambda>w. getParamPerNetwork (procenv w) p (net_name w))) Q w"
  by (rule ends_get) (assumption, simp add: same_env_reads, assumption)

lemma ends_get_optional:
  "ready w0 K w \<Longrightarrow> (ready w0 K w \<Longrightarrow>
       Q (notFalsyOrZeroAddress w0 (getOptionalParamAddressPerNetwork w0 p)) w) \<Longrightarrow>
     ends_in (tget (\<lambda>w. notFalsyOrZeroAddress w (getOptionalParamAddressPerNetwork w p))) Q w"
  by (rule ends_get) (assumption, simp add: same_env_reads, assumption)

lemma ends_get_on:
  "ready w0 K w \<Longrightarrow> (ready w0 K w \<Longrightarrow> Q (addressOn networkOrFork p w0) w) \<Longrightarrow>
     ends_in (tget (addressOn networkOrFork p)) Q w"
  "ready w0 K w \<Longrightarrow> (ready w0 K w \<Longrightarrow> Q (addressOn networkOrMainFork p w0) w) \<Longrightarrow>
     ends_in (tget (addressOn networkOrMainFork p)) Q w"
  by (rule ends_get, assumption, rule addressOn_reads, assumption, assumption)+

lemma ends_get_network:
  "ready w0 K w \<Longrightarrow> (ready w0 K w \<Longrightarrow> Q (networkOrMainFork w0) w) \<Longrightarrow> ends_in (tget networkOrMainFork) Q w"
  by (rule ends_get) (assumption, rule same_env_reads, assumption)

lemma ends_ask:
  assumes "ready w0 K w"
    and "\<And>v. ready w0 K (w\<lparr>hist := hist w @ [r]\<rparr>) \<Longrightarrow> node w0 (hist w) r = Inr v \<Longrightarrow>
      Q v (w\<lparr>hist := hist w @ [r]\<rparr>)"
  shows "ends_in (ask r) Q w"
proof -
  have eq: "node w = node w0" and "\<exists>v. node w0 (hist w) r = Inr v"
    using assms(1) by (auto simp: ready_def same_env_def cooperates_def)
  then obtain v where v: "node w0 (hist w) r = Inr v" by auto
  then have "ask r w = (Inr v, w\<lparr>hist := hist w @ [r]\<rparr>)" by (simp add: ask_def eq)
  with v show ?thesis using assms(2) [OF ready_hist [OF assms(1)] v] by (simp add: ends_in_def)
qed

lemma ends_ask_any:
  "ready w0 K w \<Longrightarrow> (\<And>v w'. ready w0 K w' \<Longrightarrow> Q v w') \<Longrightarrow> ends_in (ask r) Q w"
  by (erule ends_ask) simp

lemma ends_get_any: "ready w0 K w \<Longrightarrow> (\<And>x. ready w0 K w \<Longrightarrow> Q x w) \<Longrightarrow> ends_in (tget f) Q w"
  by (simp add: ends_in_def)

lemmas ends_reads = ends_get_valid ends_get_address ends_get_param ends_get_optional ends_get_on ends_get_network

text \<open>The loops keep what is in the database.\<close>

lemma ends_for:
  assumes "ready w0 K w" and "\<And>x w. x \<in> set xs \<Longrightarrow> ready w0 K w \<Longrightarrow> ends_in (f x) (\<lambda>_. ready w0 K) w"
    and "\<And>w'. ready w0 K w' \<Longrightarrow> Q () w'"
  shows "ends_in (tfor xs f) Q w"
  using assms
proof (induction xs arbitrary: w)
  case (Cons x xs)
  have "ends_in (f x) (\<lambda>_. ready w0 K) w" using Cons.prems by simp
  then obtain u w' where "f x w = (Inr u, w')" "ready w0 K w'" by (rule ends_inE)
  moreover from this(2) have "ends_in (tfor xs f) Q w'" using Cons by simp
  ultimately show ?case by (simp add: ends_in_def tseq_Inr)
qed (simp add: ends_ret)

lemma ends_fold:
  assumes "ready w0 K w" and "P s"
    and "\<And>x s w. x \<in> set xs \<Longrightarrow> ready w0 K w \<Longrightarrow> P s \<Longrightarrow> ends_in (f x s) (\<lambda>s w'. ready w0 K w' \<and> P s) w"
    and "\<And>s w'. ready w0 K w' \<Longrightarrow> P s \<Longrightarrow> Q s w'"
  shows "ends_in (tfold xs f s) Q w"
  using assms
proof (induction xs arbitrary: w s)
  case (Cons x xs)
  have "ends_in (f x s) (\<lambda>s w'. ready w0 K w' \<and> P s) w" using Cons.prems by simp
  then obtain s' w' where "f x s w = (Inr s', w')" "ready w0 K w' \<and> P s'" by (rule ends_inE)
  moreover from this(2) have "ends_in (tfold xs f s') Q w'" using Cons by simp
  ultimately show ?case by (simp add: ends_in_def tbind_Inr)
qed (simp add: ends_ret)

section \<open>The helpers\<close>

lemma ready_coop: "ready w0 K w \<Longrightarrow> cooperates w0"
  by (simp add: ready_def)

lemma ends_signers: "ready w0 K w \<Longrightarrow> (\<And>x w'. ready w0 K w' \<Longrightarrow> Q x w') \<Longrightarrow> ends_in getEthersSigners Q w"
  unfolding getEthersSigners_def by (rule ends_bind, erule ends_ask_any, rule ends_ret)

lemma ends_signer: "ready w0 K w \<Longrightarrow> (\<And>x w'. ready w0 K w' \<Longrightarrow> Q x w') \<Longrightarrow> ends_in (nth_signer i) Q w"
  unfolding nth_signer_def by (rule ends_bind, erule ends_signers, rule ends_ret)

lemma ends_deploySigner: "ready w0 K w \<Longrightarrow> (\<And>x w'. ready w0 K w' \<Longrightarrow> Q x w') \<Longrightarrow> ends_in getDeploySigner Q w"
  unfolding getDeploySigner_def by (rule ends_signer)

lemma ends_view: "ready w0 K w \<Longrightarrow> (\<And>x w'. ready w0 K w' \<Longrightarrow> Q x w') \<Longrightarrow> ends_in (view c m args) Q w"
  unfolding view_def by (rule ends_ask_any)

lemma ends_view_proxy:
  assumes "ready w0 K w" and "m \<in> proxy_readers"
    and "\<And>x w'. ready w0 K w' \<Longrightarrow> good w0 (js_str x) \<Longrightarrow> Q x w'"
  shows "ends_in (view c m args) Q w"
  unfolding view_def
  by (rule ends_ask [OF assms(1)])
    (use assms(2,3) ready_coop [OF assms(1)] in \<open>simp add: cooperates_def\<close>)

lemma ends_send: "ready w0 K w \<Longrightarrow> (\<And>w'. ready w0 K w' \<Longrightarrow> Q () w') \<Longrightarrow> ends_in (send c m args) Q w"
  unfolding send_def send_and_wait_def
  by (rule ends_bind, erule ends_get_any, (rule ends_seq, erule ends_ask_any)+, rule ends_ret)

lemma ends_connect:
  assumes "ready w0 K w" and "i \<in> K" and "\<And>c w'. ready w0 K w' \<Longrightarrow> good w0 (c_address c) \<Longrightarrow> Q c w'"
  shows "ends_in (connectOrDb i None) Q w"
proof -
  obtain e where e: "db_get i w = Some e" "good w0 (e_address e)" using assms by (auto simp: ready_def)
  then have "connectOrDb i None w = tbind getDeploySigner (\<lambda>signer. tret (connect (e_address e) signer)) w"
    by (simp add: connectOrDb_def address_in_db_def tbind_def)
  moreover have "ends_in (tbind getDeploySigner (\<lambda>signer. tret (connect (e_address e) signer))) Q w"
    by (rule ends_bind, rule ends_deploySigner [OF assms(1)], rule ends_ret, erule assms(3))
      (simp add: connect_def e)
  ultimately show ?thesis by (simp add: ends_in_def)
qed

lemma ends_connect_to:
  assumes "ready w0 K w" and "good w0 a" and "\<And>s w'. ready w0 K w' \<Longrightarrow> Q (connect a s) w'"
  shows "ends_in (connectOrDb i (Some a)) Q w"
  unfolding connectOrDb_def using good_nonempty [OF assms(2)]
  by (simp, intro ends_bind, simp add: ends_in_def [of "tret a"])
    (rule ends_bind, rule ends_deploySigner [OF assms(1)], rule ends_ret, erule assms(3))

lemma ends_put:
  assumes "ready w0 K w" and "good w0 a" and "\<And>w'. ready w0 (insert i K) w' \<Longrightarrow> Q () w'"
  shows "ends_in (rawInsertContractAddressInDb i a) Q w"
  unfolding rawInsertContractAddressInDb_def ends_in_def
  using assms(3) [OF ready_put [OF assms(1), of "\<lparr>e_address = a, e_deployer = None\<rparr>" i]] assms(2) by simp

lemma ends_insert:
  "ready w0 K w \<Longrightarrow> good w0 a \<Longrightarrow> (\<And>w'. ready w0 (insert (cid i) K) w' \<Longrightarrow> Q () w') \<Longrightarrow>
     ends_in (insertContractAddressInDb i a) Q w"
  by (simp add: insertContractAddressInDb_def rawInsertContractAddressInDb_def [symmetric] ends_put)

lemma ends_register:
  assumes "ready w0 K w" and "c_deployTx c \<noteq> None" and "good w0 (c_address c)"
    and "\<And>w'. ready w0 (insert i K) w' \<Longrightarrow> Q () w'"
  shows "ends_in (registerContractInJsonDb i c) Q w"
  using assms(4) [OF ready_put [OF assms(1), of "\<lparr>e_address = c_address c, e_deployer = c_signer c\<rparr>" i]] assms(2,3)
  by (auto simp: registerContractInJsonDb_def ends_in_def)

lemma ends_in_db:
  assumes "ready w0 K w" and "i \<in> K" and "\<And>a. ready w0 K w \<Longrightarrow> good w0 a \<Longrightarrow> Q a w"
  shows "ends_in (getContractAddressInDb i) Q w"
proof -
  obtain e where e: "db_get i w = Some e" "good w0 (e_address e)" using assms by (auto simp: ready_def)
  then show ?thesis
    using assms(1,3) good_nonempty [OF e(2)]
    by (simp add: ends_in_def getContractAddressInDb_def tbind_def)
qed

lemma ends_deployFactory:
  assumes "ready w0 K w"
    and "\<And>c w'. ready w0 K w' \<Longrightarrow> good w0 (c_address c) \<Longrightarrow> c_deployTx c \<noteq> None \<Longrightarrow> Q c w'"
  shows "ends_in (deployFactory f libs args) Q w"
  unfolding deployFactory_def
  apply (rule ends_bind, rule ends_deploySigner [OF assms(1)], rule ends_bind, erule ends_get_any, rule ends_bind)
  apply (frule ready_coop, erule ends_ask, rule ends_ret, erule assms(2))
   apply (simp_all add: cooperates_def)
  done

lemma ends_wait:
  "ready w0 K w \<Longrightarrow> c_deployTx c \<noteq> None \<Longrightarrow> (\<And>x w'. ready w0 K w' \<Longrightarrow> Q x w') \<Longrightarrow> ends_in (wait_deployed c) Q w"
  unfolding wait_deployed_def waitForTx_def
  by (auto intro!: ends_seq ends_ret elim!: ends_ask_any simp del: tret_run)

lemma ends_withSave:
  assumes "ready w0 K w" and "c_deployTx c \<noteq> None" and "good w0 (c_address c)"
    and "\<And>w'. ready w0 (insert i K) w' \<Longrightarrow> Q c w'"
  shows "ends_in (withSaveAndVerify c i args False) Q w"
  unfolding withSaveAndVerify_def if_False
  by (rule ends_seq, rule ends_wait [OF assms(1,2)], rule ends_seq, erule ends_register [OF _ assms(2,3)],
      rule ends_seq, rule ends_ret, rule ends_ret, erule assms(4))

section \<open>Deployments\<close>

lemma ends_deploySaved:
  assumes "ready w0 K w" and "\<And>c w'. ready w0 (insert i K) w' \<Longrightarrow> good w0 (c_address c) \<Longrightarrow> Q c w'"
  shows "ends_in (deploySaved f args i False) Q w"
  unfolding deploySaved_def
  by (rule ends_bind, rule ends_deployFactory [OF assms(1)], erule ends_withSave, assumption+, erule assms(2))

lemma ends_deployImpl:
  assumes "ready w0 K w" and "\<And>c w'. ready w0 (insert i (insert j K)) w' \<Longrightarrow> good w0 (c_address c) \<Longrightarrow> Q c w'"
  shows "ends_in (deployImpl f libs j i False) Q w"
  unfolding deployImpl_def
  by (rule ends_bind, rule ends_deployFactory [OF assms(1)], rule ends_seq, erule ends_put, assumption,
      erule ends_withSave, assumption+, erule assms(2))

lemma ends_deployLinked:
  assumes "ready w0 K w" and "\<And>c w'. ready w0 (insert i K) w' \<Longrightarrow> good w0 (c_address c) \<Longrightarrow> Q c w'"
  shows "ends_in (deployLinked i libs False) Q w"
  unfolding deployLinked_def readArtifact_def
  by (rule ends_bind, rule ends_bind, rule ends_ask_any [OF assms(1)], rule ends_ret, rule ends_bind,
      erule ends_deployFactory, rule ends_seq, erule ends_wait, assumption, erule ends_withSave,
      assumption+, erule assms(2))

lemma ends_deployLib:
  assumes "ready w0 K w" and "cid C_ValidationLogic \<in> K"
    and "\<And>c w'. ready w0 (insert i K) w' \<Longrightarrow> good w0 (c_address c) \<Longrightarrow> Q c w'"
  shows "ends_in (deployLibOnValidation f i False) Q w"
  unfolding deployLibOnValidation_def
  by (rule ends_bind, rule ends_in_db [OF assms(1,2)], rule ends_bind, erule ends_deployFactory,
      erule ends_withSave, assumption+, erule assms(3))

lemma ends_deployProxy:
  assumes "ready w0 K w" and "\<And>c w'. ready w0 (insert i K) w' \<Longrightarrow> good w0 (c_address c) \<Longrightarrow> Q c w'"
  shows "ends_in (deployBendUpgradeableProxy i admin logic data False) Q w"
  unfolding deployBendUpgradeableProxy_def
  by (rule ends_bind, rule ends_deployFactory [OF assms(1)], rule ends_bind, erule ends_ask_any,
      erule ends_withSave, assumption+, erule assms(2))

section \<open>Shared steps of the tasks\<close>

lemma ends_compile: "ready w0 K w \<Longrightarrow> (\<And>w'. ready w0 K w' \<Longrightarrow> Q () w') \<Longrightarrow> ends_in run_compile Q w"
  unfolding run_compile_def by (rule ends_seq, erule ends_ask_any, rule ends_ret)

lemma ends_bend: "ready w0 K w \<Longrightarrow> (ready w0 K w \<Longrightarrow> Q BendConfig w) \<Longrightarrow> ends_in (loadPoolConfig ''Bend'') Q w"
  by (simp add: loadPoolConfig_def ends_ret)

lemma live_chainId: "live w \<Longrightarrow> js_truthy (config_chainId env (net_name w))"
  using chain_ids [of env] by (auto simp: live_def)

lemma ends_chainId:
  "ready w0 K w \<Longrightarrow> live w0 \<Longrightarrow> (\<And>w'. ready w0 K w' \<Longrightarrow> Q () w') \<Longrightarrow> ends_in require_chainId Q w"
  unfolding require_chainId_def
  by (rule ends_bind, frule ready_coop, erule ends_ask, rule ends_when) (auto simp: cooperates_def live_chainId)

lemma ends_encode: "ready w0 K w \<Longrightarrow> (\<And>x w'. ready w0 K w' \<Longrightarrow> Q x w') \<Longrightarrow> ends_in (encodeFunctionData f args) Q w"
  unfolding encodeFunctionData_def by (rule ends_ask_any)

lemma ends_owner: "ready w0 K w \<Longrightarrow> (\<And>x w'. ready w0 K w' \<Longrightarrow> Q x w') \<Longrightarrow> ends_in (owner_signer c) Q w"
  unfolding owner_signer_def by (rule ends_bind, erule ends_view, rule ends_ret)

lemma ends_admin_by_id:
  "ready w0 K w \<Longrightarrow> i \<in> K \<Longrightarrow> (\<And>c w'. ready w0 K w' \<Longrightarrow> good w0 (c_address c) \<Longrightarrow> Q c w') \<Longrightarrow>
     ends_in (getBendProxyAdminById i) Q w"
  unfolding getBendProxyAdminById_def by (rule ends_connect)

lemma ends_valid_admin:
  assumes "ready w0 K w" and "i \<in> K" and "\<And>c w'. ready w0 K w' \<Longrightarrow> good w0 (c_address c) \<Longrightarrow> Q c w'"
  shows "ends_in (valid_proxy_admin i msg) Q w"
  unfolding valid_proxy_admin_def
  by (rule ends_bind, rule ends_admin_by_id [OF assms(1,2)], rule ends_bind, erule ends_get_valid, rule ends_if)
    (simp add: good_def, rule ends_ret, erule assms(3), assumption)

lemma ends_admins:
  assumes "ready w0 K w" and "\<And>x w'. ready w0 K w' \<Longrightarrow> Q x w'"
  shows "ends_in (getGenesisPoolAdmin cfg) Q w" "ends_in (getEmergencyAdmin cfg) Q w"
  unfolding getGenesisPoolAdmin_def getEmergencyAdmin_def getEthersSignersAddresses_def
  by (rule ends_bind, rule ends_get_on [OF assms(1)], rule ends_if, rule ends_ret, erule assms(2),
      rule ends_bind, erule ends_signers, rule ends_ret, erule assms(2))+

lemma good_the: "notFalsyOrZeroAddress w0 a \<Longrightarrow> good w0 (the a)"
  by (cases a) (simp_all add: good_def notFalsyOrZeroAddress_def)

lemma ends_handle:
  "ready w0 K w \<Longrightarrow> (\<And>s w'. ready w0 K w' \<Longrightarrow> Q (connect a s) w') \<Longrightarrow> ends_in (getBendUpgradeableProxy a) Q w"
  "ready w0 K w \<Longrightarrow> (\<And>s w'. ready w0 K w' \<Longrightarrow> Q (connect a s) w') \<Longrightarrow> ends_in (getBendProxyAdminByAddress a) Q w"
  unfolding getBendUpgradeableProxy_def getBendProxyAdminByAddress_def
  by (rule ends_bind, erule ends_deploySigner, rule ends_ret, assumption)+

text \<open>Either way the proxy is in the database.\<close>

lemma connect_address [simp]: "c_address (connect a s) = a"
  by (simp add: connect_def)

lemma ends_upgrade_or_deploy:
  assumes "ready w0 K w"
    and getter: "\<And>a. getter a = connectOrDb j a"
    and after: "\<And>c w Q. ready w0 (insert i K) w \<Longrightarrow> (\<And>w'. ready w0 (insert i K) w' \<Longrightarrow> Q () w') \<Longrightarrow>
      ends_in (after c) Q w"
    and goal: "\<And>c w'. ready w0 (insert i K) w' \<Longrightarrow> Q c w'"
  shows "ends_in (upgrade_or_deploy i existing admin owner impl data False getter after) Q w"
proof -
  have upgrade: "ends_in (tseq (rawInsertContractAddressInDb i a) (tbind (getBendUpgradeableProxy a) (\<lambda>proxy.
      tseq (send (as_signer owner admin) ''upgrade'' [JStr (c_address proxy), JStr (c_address impl)])
      (getter (Some (c_address proxy)))))) Q w" if "good w0 a" for a
    unfolding getter
    by (rule ends_seq, rule ends_put [OF assms(1) that], rule ends_bind, erule ends_handle, rule ends_seq,
        erule ends_send, erule ends_connect_to) (simp_all add: that goal)
  show ?thesis
    unfolding upgrade_or_deploy_def
    by (rule ends_bind, rule ends_get_valid [OF assms(1)], rule ends_if, rule upgrade, erule good_the,
        rule ends_bind, erule ends_deployProxy, rule ends_bind, unfold getter, erule ends_connect_to, assumption, rule ends_seq,
        erule after, rule ends_ret, erule goal)
qed

text \<open>
  The steps that need nothing of the database. With \<open>ends_ctrl\<close> they run through a script from its first call
  to the next one that needs more.
\<close>

lemmas ends_steps = ends_reads ends_send ends_view ends_deploySigner ends_compile ends_bend ends_encode
  ends_owner ends_admins ends_deploySaved ends_deployImpl ends_deployProxy

end
