(* ===== verification/MainnetSpec.thy ===== *)
theory MainnetSpec
  imports Completion
begin

text \<open>
  The tasks of the migration of a live network return, and leave the contracts they deploy in the database;
  the migration is their composition. The hypotheses: the network is one in use (\<open>live\<close>), the node
  co-operates, the configured addresses are valid (\<open>configured\<close>), and the deployer owns the registry when
  the market is to be registered (\<open>owns_registry\<close>).
\<close>

section \<open>The tasks\<close>

lemma ends_one_proxy_admin:
  assumes "ready w0 K w" and "\<And>w'. ready w0 (insert (cid i) K) w' \<Longrightarrow> Q () w'"
  shows "ends_in (deploy_one_proxy_admin i param False) Q w"
  unfolding deploy_one_proxy_admin_def deployBendProxyAdmin_def
  by (insert assms(1), (rule ends_ctrl | erule ends_steps)+, rule ends_if,
      (rule ends_ctrl | erule ends_steps)+, rule ends_ret, erule assms(2), rule ends_seq, erule ends_insert,
      rule good_the, simp, erule ends_handle, rule ends_seq, erule ends_view, rule ends_ret, erule assms(2))

lemma ends_proxy_admins:
  assumes "ready w0 K w"
    and "\<And>w'. ready w0 (insert (cid C_BendProxyAdminWTL) (insert (cid C_BendProxyAdminFund)
      (insert (cid C_BendProxyAdminPool) K))) w' \<Longrightarrow> Q () w'"
  shows "ends_in (deploy_proxy_admin False ''Bend'' True None) Q w"
  unfolding deploy_proxy_admin_def twhen_def simp_thms if_True
  by (rule ends_seq, rule ends_compile [OF assms(1)], rule ends_bind, erule ends_bend,
      (rule ends_seq, erule ends_one_proxy_admin)+, erule ends_one_proxy_admin, erule assms(2))

lemma ends_collector:
  assumes "ready w0 K w" and "cid C_BendProxyAdminFund \<in> K"
    and "\<And>w'. ready w0 (insert (cid C_BendCollector) (insert (cid C_BendCollectorImpl) K)) w' \<Longrightarrow> Q () w'"
  shows "ends_in (deploy_bend_collector False ''Bend'') Q w"
  unfolding deploy_bend_collector_def deployBendCollector_def
  by (insert assms(1), (rule ends_ctrl | erule ends_steps | erule ends_admin_by_id [OF _ assms(2)])+,
      rule ends_ret, rule assms(3)) (simp add: insert_commute)

text \<open>
  The deployer owns the registry that the market's configuration names, so that the market can be
  registered there.
\<close>

definition owns_registry :: "world \<Rightarrow> bool" where
  "owns_registry w \<longleftrightarrow> notFalsyOrZeroAddress w (addressParam w (ProviderRegistry BendConfig)) \<and>
     (\<exists>owner. addressParam w (ProviderRegistryOwner BendConfig) = Some owner \<and> good w owner \<and>
       (\<forall>h. \<exists>a as. node w h Accounts = Inr (JArr (JStr a # as)) \<and> toLocaleLowerCase a = toLocaleLowerCase owner))"

lemma toLocaleLowerCase_idem [simp]: "toLocaleLowerCase (toLocaleLowerCase s) = toLocaleLowerCase s"
  by (simp add: toLocaleLowerCase_def char_lower_def Let_def)

lemma ends_deployer:
  assumes "ready w0 K w" and "\<And>h. \<exists>a as. node w0 h Accounts = Inr (JArr (JStr a # as)) \<and> P a"
    and "\<And>a w'. ready w0 K w' \<Longrightarrow> P a \<Longrightarrow> Q a w'"
  shows "ends_in deployer_address Q w"
proof -
  have "\<exists>a. js_at (js_strs v) 0 = Some a \<and> P a" if "node w0 (hist w) Accounts = Inr v" for v
    using assms(2) [of "hist w"] that by (auto simp: js_at_def)
  then show ?thesis
    unfolding deployer_address_def getDeploySigner_def nth_signer_def getEthersSigners_def
    by (intro ends_bind) (rule ends_ask [OF assms(1)], auto simp del: tret_run intro!: ends_ret ends_bind assms(3))
qed

lemma ends_add_market:
  assumes "ready w0 K w" and owns: "owns_registry w0" and fork: "\<not> truthy_opt (procenv w0 ''FORK'')"
    and provider: "good w0 provider" and goal: "\<And>w'. ready w0 K w' \<Longrightarrow> Q () w'"
  shows "ends_in (add_market_to_registry False (Some provider) ''Bend'' False) Q w"
proof -
  obtain owner where valid: "notFalsyOrZeroAddress w0 (addressParam w0 (ProviderRegistry BendConfig))"
    and owner: "addressParam w0 (ProviderRegistryOwner BendConfig) = Some owner" "good w0 owner"
    and accounts: "\<And>h. \<exists>a as. node w0 h Accounts = Inr (JArr (JStr a # as)) \<and>
      toLocaleLowerCase a = toLocaleLowerCase owner"
    using owns by (auto simp: owns_registry_def)
  obtain registry where registry: "addressParam w0 (ProviderRegistry BendConfig) = Some registry" "good w0 registry"
    using valid by (auto simp: good_def notFalsyOrZeroAddress_def split: option.splits)
  have find: "ends_in (market_registry False ''Bend'' False BendConfig) Q v"
    if "ready w0 K v" "\<And>v. ready w0 K v \<Longrightarrow> Q (Some registry, Some owner, False) v" for Q v
    unfolding market_registry_def
    by (rule ends_bind, rule ends_get_address [OF that(1)], rule ends_bind, erule ends_get_address,
        rule ends_bind, erule ends_get_valid) (simp add: registry owner valid [unfolded registry] ends_ret that)
  have signer: "ends_in (registry_signer owner s False) Q v"
    if "ready w0 K v" "toLocaleLowerCase s = toLocaleLowerCase owner" "\<And>v. ready w0 K v \<Longrightarrow> Q (Some owner) v" for Q v s
    unfolding registry_signer_def
    by (rule ends_bind, rule ends_get [OF that(1)])
      (simp_all add: same_env_reads fork that ends_ret)
  show ?thesis
    unfolding add_market_to_registry_def Let_def getLendPoolAddressesProviderRegistry_def
      getLendPoolAddressesProvider_def
    by (rule ends_bind, rule ends_bend [OF assms(1)], rule ends_bind, erule ends_deployer [OF _ accounts],
        rule ends_bind, erule find, simp only: prod.case option.sel registry, rule ends_bind, erule ends_get_valid,
        rule ends_if, simp add: owner(2) [unfolded good_def], rule ends_bind, erule signer, simp,
        rule ends_bind, erule ends_connect_to [OF _ registry(2)], rule ends_bind,
        erule ends_connect_to [OF _ provider], erule ends_send, erule goal)
qed

lemma ends_provider:
  assumes "ready w0 K w" and registry: "skipRegistry \<or> owns_registry w0"
    and fork: "\<not> truthy_opt (procenv w0 ''FORK'')"
    and goal: "\<And>w'. ready w0 (insert (cid C_LendPoolAddressesProvider) K) w' \<Longrightarrow> Q () w'"
  shows "ends_in (deploy_address_provider False ''Bend'' skipRegistry) Q w"
proof -
  have register: "ends_in (twhen (\<not> skipRegistry)
      (tbind (tget (\<lambda>w. addressParam w (ProviderRegistry BendConfig))) (\<lambda>r.
       tbind (tget (\<lambda>w. notFalsyOrZeroAddress w r)) (\<lambda>valid.
       add_market_to_registry False (Some p) ''Bend'' (\<not> valid))))) Q v"
    if "ready w0 K' v" "good w0 p" "\<And>v. ready w0 K' v \<Longrightarrow> Q () v" for Q v p K'
  proof (rule ends_when)
    assume "\<not> skipRegistry"
    then have owns: "owns_registry w0" using registry by simp
    then have "notFalsyOrZeroAddress w0 (addressParam w0 (ProviderRegistry BendConfig))"
      by (simp add: owns_registry_def)
    then show "ends_in (tbind (tget (\<lambda>w. addressParam w (ProviderRegistry BendConfig))) (\<lambda>r.
        tbind (tget (\<lambda>w. notFalsyOrZeroAddress w r)) (\<lambda>valid.
        add_market_to_registry False (Some p) ''Bend'' (\<not> valid)))) Q v"
      by (intro ends_bind) (rule ends_get_address [OF that(1)], intro ends_bind, erule ends_get_valid,
          simp, erule ends_add_market [OF _ owns fork that(2)], erule that(3))
  qed (rule that(3), rule that(1))
  show ?thesis
    unfolding deploy_address_provider_def deployLendPoolAddressesProvider_def
    by (insert assms(1), (rule ends_ctrl | erule ends_steps)+, erule register, assumption,
      (rule ends_ctrl | erule ends_steps)+, rule ends_ret, erule goal)
qed

section \<open>The lending pool\<close>

lemma ends_libraries:
  assumes "ready w0 K w"
    and "\<And>w'. ready w0 (K \<union> cid ` {C_GenericLogic, C_ReserveLogic, C_NftLogic, C_ValidationLogic, C_SupplyLogic,
      C_BorrowLogic, C_LiquidateLogic, C_ConfiguratorLogic}) w' \<Longrightarrow> Q () w'"
  shows "ends_in (deployBendLibraries False) Q w"
  unfolding deployBendLibraries_def deployLendPoolLibraries_def deployConfiguratorLibraries_def
    deployGenericLogic_def deployReserveLogicLibrary_def deployNftLogicLibrary_def deployValidationLogic_def
    deploySupplyLogicLibrary_def deployBorrowLogicLibrary_def deployLiquidateLogicLibrary_def
    deployConfiguratorLogicLibrary_def
  by (insert assms(1), (rule ends_ctrl | erule ends_steps)+, erule ends_deployLinked, rule ends_bind,
      erule ends_deployLinked, (rule ends_bind, erule ends_deployLib, simp)+, rule ends_ret, rule ends_bind,
      erule ends_deploySaved, rule ends_ret, rule assms(2), erule ready_mono) auto

lemma ends_pool_libraries:
  assumes "ready w0 K w" and "cid ` {C_ReserveLogic, C_NftLogic, C_ValidationLogic, C_GenericLogic, C_SupplyLogic,
      C_BorrowLogic, C_LiquidateLogic} \<subseteq> K" and "\<And>x w'. ready w0 K w' \<Longrightarrow> Q x w'"
  shows "ends_in getLendPoolLibraries Q w"
  unfolding getLendPoolLibraries_def using assms(2)
  by (intro ends_bind) (rule ends_in_db [OF assms(1)], simp, (rule ends_bind, erule ends_in_db, simp)+,
      rule ends_ret, erule assms(3))

lemma ends_set_impl:
  assumes "ready w0 K w" and "reader \<in> proxy_readers" and "cid i \<in> K'"
    and dep: "\<And>Q. (\<And>c w'. ready w0 K' w' \<Longrightarrow> Q c w') \<Longrightarrow> ends_in dep Q w"
    and getter: "\<And>a. getter a = connectOrDb j a"
    and goal: "\<And>c w'. ready w0 K' w' \<Longrightarrow> Q c w'"
  shows "ends_in (set_impl p dep setter reader getter i) Q w"
  unfolding set_impl_def getter
  by (rule ends_bind, rule dep, rule ends_seq, erule ends_send, rule ends_bind,
      erule ends_view_proxy [OF _ assms(2)], rule ends_bind, erule ends_connect_to, assumption,
      rule ends_seq, erule ends_insert, simp add: insert_absorb [OF assms(3)],
      simp add: insert_absorb [OF assms(3)], rule ends_ret, erule goal)

text \<open>The market's configuration names valid contracts where the tasks insist on them.\<close>

definition configured :: "bool \<Rightarrow> world \<Rightarrow> bool" where
  "configured skipOracle w \<longleftrightarrow>
     notFalsyOrZeroAddress w (addressParam w (BNFTRegistry BendConfig)) \<and>
     notFalsyOrZeroAddress w (addressParam w (IncentivesController BendConfig)) \<and>
     (skipOracle \<longrightarrow> notFalsyOrZeroAddress w (addressParam w (ReserveOracle BendConfig)) \<and>
        notFalsyOrZeroAddress w (addressParam w (NFTOracle BendConfig)))"

lemma zero_not_valid: "ready w0 K w \<Longrightarrow> \<not> notFalsyOrZeroAddress w0 (Some ZERO_ADDRESS)"
  by (auto simp: ready_def cooperates_def notFalsyOrZeroAddress_def ZERO_ADDRESS_def)

lemma bend_tokens:
  "js_set (map (bTokenImpl \<circ> snd) (ReservesConfig BendConfig)) = [C_BToken]"
  "config_field BendConfig (cid C_BToken) = None" "DebtTokenImplementation BendConfig = None"
  by (simp_all add: js_set_def config_field_def BendConfig_def CommonsConfig_def Bend_ReservesConfig_def
      strategyWETH_def strategyUSDT_def strategyDAI_def strategyUSDC_def)

lemma ends_tokens:
  assumes "ready w0 K w"
    and "\<And>w'. ready w0 (insert (cid C_DebtToken) (insert (cid C_BToken) K)) w' \<Longrightarrow> Q () w'"
  shows "ends_in (deployBTokenImplementations ''Bend'' (ReservesConfig BendConfig) False) Q w"
proof -
  have zero: "getOptionalParamAddressPerNetwork w0 None = Some ZERO_ADDRESS"
    by (simp add: getOptionalParamAddressPerNetwork_def)
  have btoken: "ends_in (deployImplementations chooseBTokenDeployment ''Bend''
      (map (bTokenImpl \<circ> snd) (ReservesConfig BendConfig)) False) Q v"
    if "ready w0 K v" "\<And>v. ready w0 (insert (cid C_BToken) K) v \<Longrightarrow> Q () v" for Q v
    unfolding deployImplementations_def bend_tokens(1) tfor.simps
    by (rule ends_bind, rule ends_bend [OF that(1)], rule ends_seq, rule ends_bind, erule ends_get_optional,
        rule ends_when, simp add: chooseBTokenDeployment_def deployGenericBTokenImpl_def del: cid.simps tret_run,
        rule ends_seq, erule ends_deploySaved, rule ends_ret, rule ends_ret, erule that(2))
      (simp add: zero bend_tokens zero_not_valid del: cid.simps)
  show ?thesis
    unfolding deployBTokenImplementations_def
    by (rule ends_bind, rule ends_bend [OF assms(1)], rule ends_seq, erule btoken, rule ends_bind,
        erule ends_get_optional, rule ends_when, unfold deployGenericDebtToken_def, rule ends_seq,
        erule ends_deploySaved, rule ends_ret, erule assms(2))
      (simp add: zero bend_tokens zero_not_valid)
qed

definition pool_contracts :: "eContractid list" where
  "pool_contracts = [C_GenericLogic, C_ReserveLogic, C_NftLogic, C_ValidationLogic, C_SupplyLogic,
     C_BorrowLogic, C_LiquidateLogic, C_ConfiguratorLogic, C_LendPoolImpl, C_LendPool, C_LendPoolLoanImpl,
     C_LendPoolLoan, C_LendPoolConfiguratorImpl, C_LendPoolConfigurator, C_BToken, C_DebtToken]"

lemma readers [simp]: "''getLendPool'' \<in> proxy_readers" "''getLendPoolLoan'' \<in> proxy_readers"
    "''getLendPoolConfigurator'' \<in> proxy_readers"
  by (simp_all add: proxy_readers_def)

lemma ends_setPool:
  assumes "ready w0 K w" and "cid ` {C_ReserveLogic, C_NftLogic, C_ValidationLogic, C_GenericLogic, C_SupplyLogic,
      C_BorrowLogic, C_LiquidateLogic} \<subseteq> K"
    and "\<And>c w'. ready w0 (insert (cid C_LendPool) (insert (cid C_LendPoolImpl) K)) w' \<Longrightarrow> Q c w'"
  shows "ends_in (set_impl p (deployLendPool False) ''setLendPoolImpl'' ''getLendPool'' getLendPool C_LendPool) Q w"
  by (rule ends_set_impl [OF assms(1) readers(1),
        where K' = "insert (cid C_LendPool) (insert (cid C_LendPoolImpl) K)"])
    (simp, unfold deployLendPool_def, rule ends_bind, rule ends_pool_libraries [OF assms(1,2)],
      erule ends_deployImpl, blast, rule getLendPool_def, erule assms(3))

lemma ends_setLoan:
  assumes "ready w0 K w"
    and "\<And>c w'. ready w0 (insert (cid C_LendPoolLoan) (insert (cid C_LendPoolLoanImpl) K)) w' \<Longrightarrow> Q c w'"
  shows "ends_in (set_impl p (deployLendPoolLoan False) ''setLendPoolLoanImpl'' ''getLendPoolLoan''
    getLendPoolLoanProxy C_LendPoolLoan) Q w"
  by (rule ends_set_impl [OF assms(1) readers(2),
        where K' = "insert (cid C_LendPoolLoan) (insert (cid C_LendPoolLoanImpl) K)"])
    (simp, unfold deployLendPoolLoan_def, rule ends_deployImpl [OF assms(1)], blast,
       rule getLendPoolLoanProxy_def, erule assms(2))

lemma ends_setConfigurator:
  assumes "ready w0 K w" and "cid C_ConfiguratorLogic \<in> K"
    and "\<And>c w'. ready w0 (insert (cid C_LendPoolConfigurator) (insert (cid C_LendPoolConfiguratorImpl) K)) w' \<Longrightarrow>
      Q c w'"
  shows "ends_in (set_impl p (deployLendPoolConfigurator False) ''setLendPoolConfiguratorImpl''
    ''getLendPoolConfigurator'' getLendPoolConfiguratorProxy C_LendPoolConfigurator) Q w"
  by (rule ends_set_impl [OF assms(1) readers(3),
        where K' = "insert (cid C_LendPoolConfigurator) (insert (cid C_LendPoolConfiguratorImpl) K)"])
    (simp, unfold deployLendPoolConfigurator_def, rule ends_bind, rule ends_in_db [OF assms(1,2)],
      erule ends_deployImpl, blast, rule getLendPoolConfiguratorProxy_def, erule assms(3))

lemma ends_lend_pool:
  assumes "ready w0 K w" and "cid C_LendPoolAddressesProvider \<in> K" and conf: "configured skipOracle w0"
    and "\<And>w'. ready w0 (K \<union> cid ` set pool_contracts) w' \<Longrightarrow> Q () w'"
  shows "ends_in (deploy_lend_pool False ''Bend'') Q w"
proof -
  obtain registry incentives where addresses:
      "addressParam w0 (BNFTRegistry BendConfig) = Some registry" "good w0 registry"
      "addressParam w0 (IncentivesController BendConfig) = Some incentives" "good w0 incentives"
    using conf by (auto simp: configured_def good_def notFalsyOrZeroAddress_def split: option.splits)
  note valid = addresses(2,4) [unfolded good_def]
  show ?thesis
    unfolding deploy_lend_pool_def getLendPoolAddressesProvider_def getBNFTRegistryProxy_def
    by (insert assms(1), (rule ends_ctrl | erule ends_steps | erule ends_connect [OF _ assms(2)])+,
      simp only: addresses valid if_False not_True_eq_False simp_thms,
      (rule ends_ctrl | erule ends_steps | erule ends_connect_to [OF _ addresses(2)])+,
      simp only: addresses valid if_False not_True_eq_False simp_thms option.sel, rule ends_seq,
      erule ends_send, rule ends_seq, erule ends_libraries, rule ends_seq, erule ends_setPool, simp,
      rule ends_seq, erule ends_setLoan, rule ends_bind, erule ends_setConfigurator, simp,
      (rule ends_ctrl | erule ends_steps)+, erule ends_tokens, rule assms(4), erule ready_mono)
      (auto simp: pool_contracts_def)
qed

section \<open>Networks in use\<close>

lemma live_param:
  assumes "live w"
  shows "\<exists>sel \<in> {goerli, rinkeby, sepolia, main}. getParamPerNetwork (procenv w) p (net_name w) = Some (sel p)"
  using assms by (auto simp: live_def getParamPerNetwork_def)

lemma live_tokens:
  assumes "live w0"
  shows "truthy_opt (addressOn networkOrMainFork (WrappedNativeToken BendConfig) w0)"
    "truthy_opt (addressOn networkOrMainFork (CryptoPunksMarket BendConfig) w0)"
    "truthy_opt (addressOn networkOrMainFork (WrappedPunkToken BendConfig) w0)"
  using assms by (auto simp: live_def addressOn_def networkOrMainFork_def getParamPerNetwork_def BendConfig_def
      CommonsConfig_def Commons_WrappedNativeToken_def Commons_CryptoPunksMarket_def Commons_WrappedPunkToken_def)

lemma live_pairs:
  assumes "live w" and "getParamPerNetwork (procenv w) (ReserveAssets BendConfig) (net_name w) = Some assets"
    and "getParamPerNetwork (procenv w) (ReserveAggregators BendConfig) (net_name w) = Some aggs"
  shows "\<not> isl (oracle_pairs assets aggs)"
proof -
  have "map isl (map2 oracle_pairs (on_all_networks Bend_ReserveAssets) (on_all_networks Commons_ReserveAggregators)) =
      [True, True, False, False, False, False, False]"
    using arg_cong [OF oracle_pairs_per_network, of "map isl"] by (simp add: comp_def case_prod_unfold isl_map_sum)
  then show ?thesis
    using assms by (auto simp: live_def getParamPerNetwork_def oracle_config on_all_networks_def)
qed

lemma ends_tokens_of:
  assumes "ready w0 K w" and "live w0" and "\<And>a w'. ready w0 K w' \<Longrightarrow> Q a w'"
  shows "ends_in (getWrappedNativeTokenAddress BendConfig) Q w" "ends_in (getCryptoPunksMarketAddress BendConfig) Q w"
    "ends_in (getWrappedPunkTokenAddress BendConfig punk) Q w"
  unfolding getWrappedNativeTokenAddress_def getCryptoPunksMarketAddress_def getWrappedPunkTokenAddress_def
  by (rule ends_bind, rule ends_get_network [OF assms(1)], rule ends_bind, erule ends_get_on,
      simp only: live_tokens [OF assms(2)] if_True, rule ends_ret, erule assms(3))+

section \<open>Oracles\<close>

lemma ends_oracle_reserve:
  assumes "ready w0 K w" and "live w0" and conf: "configured skipOracle w0"
    and provider: "cid C_LendPoolAddressesProvider \<in> K" and admin: "cid C_BendProxyAdminPool \<in> K"
    and goal: "\<And>w'. ready w0 (if skipOracle then K else insert (cid C_ReserveOracle) (insert (cid C_ReserveOracleImpl) K)) w' \<Longrightarrow>
      Q () w'"
  shows "ends_in (deploy_oracle_reserve False skipOracle ''Bend'') Q w"
proof -
  obtain assets aggs where params:
      "getParamPerNetwork (procenv w0) (ReserveAssets BendConfig) (net_name w0) = Some assets"
      "getParamPerNetwork (procenv w0) (ReserveAggregators BendConfig) (net_name w0) = Some aggs"
    using live_param [OF assms(2)] by metis
  then obtain tokens aggregators where "oracle_pairs assets aggs = Inr (tokens, aggregators)"
    using live_pairs [OF assms(2)] by (cases "oracle_pairs assets aggs") force+
  note pairs = this [unfolded oracle_pairs_def]
  show ?thesis
  proof (cases skipOracle)
    case True
    then have valid: "notFalsyOrZeroAddress w0 (addressParam w0 (ReserveOracle BendConfig))"
      using conf by (simp add: configured_def)
    show ?thesis
      unfolding deploy_oracle_reserve_def getLendPoolAddressesProvider_def
      by (insert assms(1), (rule ends_ctrl | erule ends_steps | erule ends_connect [OF _ provider])+,
      simp only: True if_True, rule ends_bind, erule ends_get_valid,
      simp only: valid not_True_eq_False if_False, erule ends_send, rule goal) (simp add: True)
  next
    case False
    show ?thesis
      unfolding deploy_oracle_reserve_def getLendPoolAddressesProvider_def deployReserveOracle_def Let_def
      by (insert assms(1), (rule ends_ctrl | erule ends_steps | erule ends_connect [OF _ provider])+,
      simp only: False if_False, (rule ends_ctrl | erule ends_steps | erule ends_admin_by_id [OF _ admin])+,
      simp only: params option.case pairs sum.case prod.case,
      (rule ends_ctrl | erule ends_steps | erule ends_tokens_of [OF _ assms(2)])+,
      erule ends_upgrade_or_deploy, rule getReserveOracle_def, (rule ends_ctrl | erule ends_steps)+,
      assumption, erule ends_send, rule goal) (simp add: False)
  qed
qed

lemma ends_feed_admin:
  assumes "ready w0 K w" and "\<And>x w'. ready w0 K w' \<Longrightarrow> Q x w'"
  shows "ends_in (feed_admin cfg fa) Q w"
  unfolding feed_admin_def
  by (rule ends_bind, rule ends_get_valid [OF assms(1)], rule ends_if, erule ends_admins, erule assms(2),
      rule ends_ret, erule assms(2))

lemma ends_oracle_nft:
  assumes "ready w0 K w" and "live w0" and conf: "configured skipOracle w0"
    and provider: "cid C_LendPoolAddressesProvider \<in> K" and admin: "cid C_BendProxyAdminPool \<in> K"
    and goal: "\<And>w'. ready w0 (if skipOracle then K else insert (cid C_NFTOracle) (insert (cid C_NFTOracleImpl) K)) w' \<Longrightarrow>
      Q () w'"
  shows "ends_in (deploy_oracle_nft False ''Bend'' skipOracle False None) Q w"
proof (cases skipOracle)
  case True
  then have valid: "notFalsyOrZeroAddress w0 (addressParam w0 (NFTOracle BendConfig))"
    using conf by (simp add: configured_def)
  show ?thesis
    unfolding deploy_oracle_nft_def getLendPoolAddressesProvider_def
    by (insert assms(1), (rule ends_ctrl | erule ends_steps)+, simp only: True if_True, rule ends_bind,
      erule ends_get_valid, simp only: valid not_True_eq_False if_False,
      (rule ends_ctrl | erule ends_steps | erule ends_connect [OF _ provider])+, rule goal) (simp add: True)
next
  case False
  obtain nfts where nfts: "getParamPerNetwork (procenv w0) (NftsAssets BendConfig) (net_name w0) = Some nfts"
    using live_param [OF assms(2)] by metis
  show ?thesis
    unfolding deploy_oracle_nft_def getLendPoolAddressesProvider_def deployNFTOracle_def
    by (insert assms(1), (rule ends_ctrl | erule ends_steps)+, simp only: False if_False,
      (rule ends_ctrl | erule ends_steps | erule ends_valid_admin [OF _ admin])+, erule ends_feed_admin,
      rule ends_bind, erule ends_get_param, simp only: nfts option.case, (rule ends_ctrl | erule ends_steps)+,
      erule ends_upgrade_or_deploy, rule getNFTOracle_def, (rule ends_ctrl | erule ends_steps)+, assumption,
      rule ends_when, rule ends_bind, erule ends_connect, simp add: provider del: cid.simps, erule ends_send,
      rule goal) (simp_all add: False)
qed

section \<open>Gateways\<close>

lemma ends_weth_gateway:
  assumes "ready w0 K w" and "live w0"
    and provider: "cid C_LendPoolAddressesProvider \<in> K" and admin: "cid C_BendProxyAdminPool \<in> K"
    and goal: "\<And>w'. ready w0 (insert (cid C_WETHGateway) (insert (cid C_WETHGatewayImpl) K)) w' \<Longrightarrow> Q () w'"
  shows "ends_in (deploy_weth_gateway False ''Bend'') Q w"
  unfolding deploy_weth_gateway_def getLendPoolAddressesProvider_def deployWETHGateway_def
  by (insert assms(1),
      (rule ends_ctrl | erule ends_steps | erule ends_chainId [OF _ assms(2)] ends_connect [OF _ provider]
      ends_valid_admin [OF _ admin] ends_tokens_of [OF _ assms(2)])+,
      erule ends_upgrade_or_deploy, rule getWETHGateway_def, rule ends_ret, assumption, erule ends_send,
      rule goal) simp

lemma ends_punk_gateway:
  assumes "ready w0 K w" and "live w0"
    and provider: "cid C_LendPoolAddressesProvider \<in> K" and admin: "cid C_BendProxyAdminPool \<in> K"
    and weth: "cid C_WETHGateway \<in> K"
    and goal: "\<And>w'. ready w0 (insert (cid C_PunkGateway) (insert (cid C_PunkGatewayImpl) K)) w' \<Longrightarrow> Q () w'"
  shows "ends_in (deploy_punk_gateway False ''Bend'') Q w"
  unfolding deploy_punk_gateway_def getLendPoolAddressesProvider_def deployPunkGateway_def getWETHGateway_def
  by (insert assms(1),
      (rule ends_ctrl | erule ends_steps | erule ends_chainId [OF _ assms(2)] ends_connect [OF _ provider]
      ends_valid_admin [OF _ admin] ends_connect [OF _ weth] ends_tokens_of [OF _ assms(2)])+,
      erule ends_upgrade_or_deploy, rule getPunkGateway_def, rule ends_ret, assumption, erule ends_send,
      rule goal) simp

section \<open>Initialising the market\<close>

lemma ends_fallback:
  assumes "ready w0 K w" and "i \<in> K" and "\<And>a w'. ready w0 K w' \<Longrightarrow> Q a w'"
  shows "ends_in (getContractAddressWithJsonFallback i ''Bend'') Q w"
  unfolding getContractAddressWithJsonFallback_def
  by (rule ends_bind, rule ends_bend [OF assms(1)], rule ends_bind, erule ends_get, simp add: same_env_reads,
      rule ends_bind, erule ends_get_valid, rule ends_if, rule ends_ret, erule assms(3),
      erule ends_in_db [OF _ assms(2)], erule assms(3))

lemma ends_strategy:
  assumes "ready w0 K w" and "\<And>s w'. ready w0 K w' \<Longrightarrow> Q s w'"
  shows "ends_in (deploy_strategy_once p strat False table) Q w"
  unfolding deploy_strategy_once_def deployRateStrategy_def deployInterestRate_def deployInterestRateWithID_def
  by (rule ends_if, rule ends_ret, rule assms(2), rule assms(1), rule ends_bind, rule ends_bind,
      rule ends_deploySaved [OF assms(1)], rule ends_ret, rule ends_seq, erule ends_put, assumption, rule ends_ret,
      rule assms(2), erule ready_mono, blast)

lemma ends_init_step:
  assumes "ready w0 K w" and "cid C_BToken \<in> K" and "cid C_DebtToken \<in> K"
    and x: "x \<in> set Bend_ReservesConfig"
  shows "ends_in (init_reserve_step tokens tn collector ''Bend'' False p x s) (\<lambda>_ w'. ready w0 K w' \<and> True) w"
proof -
  obtain symbol params syms inputs table where eq: "x = (symbol, params)" "s = (syms, inputs, table)"
    by (cases x, cases s) auto
  have "bTokenImpl params = C_BToken"
    using x eq by (auto simp: Bend_ReservesConfig_def strategyWETH_def strategyUSDT_def strategyDAI_def strategyUSDC_def)
  then show ?thesis
    unfolding init_reserve_step_def eq prod.case
    by (rule_tac ends_if, rule_tac ends_ret, simp_all only: assms simp_thms)
      (rule ends_bind, rule ends_strategy [OF assms(1)], rule ends_bind, erule ends_fallback [OF _ assms(2)],
        rule ends_bind, erule ends_fallback [OF _ assms(3)], rule ends_ret, simp)
qed

lemma ends_chunks:
  assumes "ready w0 K w" and "\<And>w'. ready w0 K w' \<Longrightarrow> Q () w'"
  shows "ends_in (send_chunks c m chs f) Q w"
  unfolding send_chunks_def by (rule ends_for [OF assms(1)], erule ends_send, assumption, erule assms(2))

lemma ends_entry:
  "ready w0 K w \<Longrightarrow> is_set tokens symbol \<Longrightarrow> (\<And>a w'. ready w0 K w' \<Longrightarrow> Q a w') \<Longrightarrow>
     ends_in (entry_at_key tokens symbol) Q w"
  by (simp add: ends_in_def)

text \<open>What the initialisation finds in the database: the contracts it needs.\<close>

definition init_names :: "string set" where
  "init_names = cid ` {C_BToken, C_DebtToken, C_LendPoolAddressesProvider, C_LendPoolConfigurator}"

lemma init_nameD:
  assumes "init_names \<subseteq> K"
  shows "cid C_BToken \<in> K" "cid C_DebtToken \<in> K" "cid C_LendPoolAddressesProvider \<in> K"
    "cid C_LendPoolConfigurator \<in> K"
  using assms by (auto simp: init_names_def)

lemma ends_initReserves:
  assumes "ready w0 K w" and names: "init_names \<subseteq> K" and "\<And>w'. ready w0 K w' \<Longrightarrow> Q () w'"
  shows "ends_in (initReservesByHelper (ReservesConfig BendConfig) tokens tn adm collector ''Bend'' False) Q w"
proof -
  have cfg: "ReservesConfig BendConfig = Bend_ReservesConfig" by (simp add: BendConfig_def)
  note K = init_nameD [OF names]
  show ?thesis
    unfolding initReservesByHelper_def getLendPoolAddressesProvider_def getLendPoolConfiguratorProxy_def cfg
    by (rule ends_bind, rule ends_connect [OF assms(1) K(3)], rule ends_bind, erule ends_fold [where P = "\<lambda>_. True"],
      rule TrueI, erule ends_init_step [OF _ K(1,2)], assumption, (rule ends_prod)+, rule ends_bind,
      erule ends_connect [OF _ K(4)], erule ends_chunks, erule assms(3))
qed

lemma ends_configureReserves:
  assumes "ready w0 K w" and names: "init_names \<subseteq> K" and "\<And>w'. ready w0 K w' \<Longrightarrow> Q () w'"
  shows "ends_in (configureReservesByHelper params tokens adm) Q w"
proof -
  note K = init_nameD [OF names]
  have step: "ends_in ((\<lambda>(assetSymbol, params) (inputParams, assetsParams).
       if \<not> is_set tokens assetSymbol then tret (inputParams, assetsParams)
       else tbind (entry_at_key tokens assetSymbol) (\<lambda>tokenAddress.
         tret (inputParams @ [config_reserve_input tokenAddress params],
               if borrowingEnabled params then assetsParams @ [JStr tokenAddress] else assetsParams))) x s)
      (\<lambda>_ w'. ready w0 K w' \<and> True) v" if "ready w0 K v" for x s v
    using that by (auto split: prod.splits simp: ends_in_def tbind_def)
  show ?thesis
    unfolding configureReservesByHelper_def getLendPoolAddressesProvider_def getLendPoolConfiguratorProxy_def
    by (rule ends_bind, rule ends_connect [OF assms(1) K(3)], rule ends_bind, erule ends_connect [OF _ K(4)],
      rule ends_bind, erule ends_fold [where P = "\<lambda>_. True"], rule TrueI, erule step, rule ends_prod,
      rule ends_when, rule ends_seq, erule ends_chunks, erule ends_send, erule assms(3), erule assms(3))
qed

lemma ends_initNfts:
  assumes "ready w0 K w" and names: "init_names \<subseteq> K" and "\<And>w'. ready w0 K w' \<Longrightarrow> Q () w'"
  shows "ends_in (initNftsByHelper params tokens adm pool verify) Q w"
proof -
  note K = init_nameD [OF names]
  show ?thesis
    unfolding initNftsByHelper_def getLendPoolAddressesProvider_def getLendPoolConfiguratorProxy_def
    by (rule ends_bind, rule ends_connect [OF assms(1) K(3)], rule ends_seq, erule ends_view, rule ends_bind,
      erule ends_connect [OF _ K(4)], erule ends_chunks, erule assms(3))
qed

lemma ends_configureNfts:
  assumes "ready w0 K w" and names: "init_names \<subseteq> K" and "\<And>w'. ready w0 K w' \<Longrightarrow> Q () w'"
  shows "ends_in (configureNftsByHelper params tokens adm) Q w"
proof -
  note K = init_nameD [OF names]
  have step: "ends_in ((\<lambda>(assetSymbol, params) inputParams.
       if \<not> is_set tokens assetSymbol then tret inputParams
       else if baseLTVAsCollateral params = ''-1'' then tret inputParams
       else tbind (entry_at_key tokens assetSymbol) (\<lambda>tokenAddress.
         tret (inputParams @ [config_nft_input tokenAddress params]))) x s)
      (\<lambda>_ w'. ready w0 K w' \<and> True) v" if "ready w0 K v" for x s v
    using that by (auto split: prod.splits simp: ends_in_def tbind_def)
  show ?thesis
    unfolding configureNftsByHelper_def getLendPoolAddressesProvider_def getLendPoolConfiguratorProxy_def
    by (rule ends_bind, rule ends_connect [OF assms(1) K(3)], rule ends_bind, erule ends_connect [OF _ K(4)],
      rule ends_bind, erule ends_fold [where P = "\<lambda>_. True"], rule TrueI, erule step,
      rule ends_when, erule ends_chunks, erule assms(3), erule assms(3))
qed

lemma ends_assets:
  assumes "ready w0 K w" and "live w0" and "\<And>a w'. ready w0 K w' \<Longrightarrow> Q a w'"
  shows "ends_in (assets_on p e) Q w"
proof -
  obtain a where a: "getParamPerNetwork (procenv w0) p (net_name w0) = Some a"
    using live_param [OF assms(2)] by metis
  show ?thesis
    unfolding assets_on_def
    by (rule ends_bind, rule ends_get_param [OF assms(1)], simp only: a option.case, rule ends_ret, erule assms(3))
qed

lemma ends_initialize_pool:
  assumes "ready w0 K w" and "live w0" and names: "init_names \<subseteq> K" and "\<And>w'. ready w0 K w' \<Longrightarrow> Q () w'"
  shows "ends_in (initialize_lend_pool False ''Bend'') Q w"
  unfolding initialize_lend_pool_def getLendPoolAddressesProvider_def getReserveFactorCollectorAddress_def
  by (insert assms(1),
      (rule ends_ctrl | erule ends_steps | erule ends_connect [OF _ init_nameD(3) [OF names]] ends_assets [OF _ assms(2)] ends_initReserves [OF _ names] ends_configureReserves [OF _ names] ends_initNfts [OF _ names] ends_configureNfts [OF _ names])+,
      erule assms(4))

lemma ends_initialize_gateway:
  assumes "ready w0 K w" and "live w0" and weth: "cid C_WETHGateway \<in> K" and punk: "cid C_PunkGateway \<in> K"
    and "\<And>w'. ready w0 K w' \<Longrightarrow> Q () w'"
  shows "ends_in (initialize_gateway False ''Bend'') Q w"
  unfolding initialize_gateway_def getWETHGateway_def getPunkGateway_def
  by (insert assms(1),
      (rule ends_ctrl | erule ends_steps | erule ends_assets [OF _ assms(2)] ends_connect [OF _ weth] ends_connect [OF _ punk])+,
      erule assms(5))

lemma ends_data_provider:
  assumes "ready w0 K w" and provider: "cid C_LendPoolAddressesProvider \<in> K"
    and "\<And>w'. ready w0 (insert (cid C_UIPoolDataProvider) (insert (cid C_BendProtocolDataProvider)
      (insert (cid C_WalletBalanceProvider) K))) w' \<Longrightarrow> Q () w'"
  shows "ends_in (deploy_data_provider False True True True) Q w"
  unfolding deploy_data_provider_def getLendPoolAddressesProvider_def deployWalletBalancerProvider_def
    deployBendProtocolDataProvider_def deployUiPoolDataProvider_def twhen_def if_True
  by (insert assms(1), (rule ends_ctrl | erule ends_steps ends_connect [OF _ provider])+, erule assms(3))

section \<open>The migration\<close>

definition market_contracts :: "bool \<Rightarrow> eContractid list" where
  "market_contracts skipOracle = [C_BendProxyAdminPool, C_BendProxyAdminFund, C_BendProxyAdminWTL,
     C_BendCollectorImpl, C_BendCollector, C_LendPoolAddressesProvider] @ pool_contracts @
     (if skipOracle then [] else [C_ReserveOracleImpl, C_ReserveOracle, C_NFTOracleImpl, C_NFTOracle]) @
     [C_WETHGatewayImpl, C_WETHGateway, C_PunkGatewayImpl, C_PunkGateway, C_WalletBalanceProvider,
      C_BendProtocolDataProvider, C_UIPoolDataProvider]"

definition market_complete :: "bool \<Rightarrow> world \<Rightarrow> bool" where
  "market_complete skipOracle w \<longleftrightarrow> list_all (\<lambda>i. case db_get (cid i) w of
     None \<Rightarrow> False | Some e \<Rightarrow> notFalsyOrZeroAddress w (Some (e_address e))) (market_contracts skipOracle)"

lemma ends_balances:
  assumes "ready w0 K w" and "\<And>w'. ready w0 K w' \<Longrightarrow> Q () w'"
  shows "ends_in (print_balances ss) Q w"
  unfolding print_balances_def print_balance_def
  by (rule ends_for [OF assms(1)], rule ends_seq, erule ends_ask_any, rule ends_ret, assumption, erule assms(2))

lemma ends_print: "ready w0 K w \<Longrightarrow> (\<And>w'. ready w0 K w' \<Longrightarrow> Q () w') \<Longrightarrow> ends_in (tseq printContracts (tret ())) Q w"
  unfolding printContracts_def by (rule ends_seq, erule ends_get_any, rule ends_ret)

lemma ends_steps_mainnet:
  assumes "ready w0 {} w" and live: "live w0" and conf: "configured skipOracle w0"
    and registry: "skipRegistry \<or> owns_registry w0"
    and goal: "\<And>w'. ready w0 (cid ` set (market_contracts skipOracle)) w' \<Longrightarrow> Q () w'"
  shows "ends_in (tfor (bend_mainnet_steps skipRegistry skipOracle) snd) Q w"
proof -
  have fork: "\<not> truthy_opt (procenv w0 ''FORK'')" using live by (simp add: live_def)
  show ?thesis
    unfolding bend_mainnet_steps_def tfor.simps snd_conv
    apply (rule ends_seq, rule ends_proxy_admins [OF assms(1)])
    apply (rule ends_seq, erule ends_collector, simp)
    apply (rule ends_seq, erule ends_provider [OF _ registry fork])
    apply (rule ends_seq, erule ends_lend_pool [OF _ _ conf], simp)
    apply (rule ends_seq, erule ends_oracle_reserve [OF _ live conf], simp, simp)
    apply (rule ends_seq, erule ends_oracle_nft [OF _ live conf], simp, simp)
    apply (rule ends_seq, erule ends_initialize_pool [OF _ live], simp add: init_names_def pool_contracts_def)
    apply (rule ends_seq, erule ends_weth_gateway [OF _ live], simp, simp)
    apply (rule ends_seq, erule ends_punk_gateway [OF _ live], simp, simp, simp)
    apply (rule ends_seq, erule ends_initialize_gateway [OF _ live], simp, simp)
    apply (rule ends_seq, erule ends_data_provider, simp)
    apply (rule ends_ret, rule goal, erule ready_mono)
    by (auto simp: market_contracts_def)
qed

text \<open>C5: \<open>bend:mainnet\<close>, run without verification, runs to its end, and then the database has a valid address for every
  contract of the market, on a network in use (\<open>live\<close>), with a node that answers every request (\<open>cooperates\<close>) and a
  configuration whose addresses are valid (\<open>configured\<close>), provided that the step of the registry is skipped or the
  deployer may take it (\<open>owns_registry\<close>: another configured owner ends the process with code 2, see the
  registry in \<open>FullSpec\<close>).\<close>

theorem bend_mainnet_completes:
  assumes "live w" and "cooperates w" and "configured skipOracle w" and "skipRegistry \<or> owns_registry w"
  shows "\<exists>w'. bend_mainnet False skipRegistry skipOracle w = (Inr (), w') \<and> market_complete skipOracle w'"
proof -
  have start: "ready w {} w" using assms(2) by (simp add: ready_def same_env_def)
  have "ends_in (bend_mainnet False skipRegistry skipOracle) (\<lambda>_. ready w (cid ` set (market_contracts skipOracle))) w"
    unfolding bend_mainnet_def twhen_def if_False
    by (insert start, (rule ends_ctrl | erule ends_steps ends_balances)+, rule ends_ret, rule ends_seq,
        erule ends_steps_mainnet [OF _ assms(1,3,4)], rule ends_seq, rule ends_ret, rule ends_seq, erule ends_print,
        erule ends_balances)
  then obtain w' where run: "bend_mainnet False skipRegistry skipOracle w = (Inr (), w')"
    and "ready w (cid ` set (market_contracts skipOracle)) w'"
    by (rule ends_inE) simp
  from this(2) have "market_complete skipOracle w'"
    by (fastforce simp: ready_def market_complete_def list_all_iff good_def same_env_reads)
  with run show ?thesis by blast
qed

end
