(* ===== verification/Demo.thy ===== *)
theory Demo
  imports MarketSpec OraclesHelpers
begin

text \<open>
  A concrete deployment environment, on which the hypotheses of the properties are shown to be
  satisfiable: a node that accepts every transaction, names a contract after its factory and answers
  a view call with an address made of the method's name; addresses are the strings that start
  with \<open>0x\<close>.
\<close>

fun demo_answer :: "request \<Rightarrow> jsval" where
  "demo_answer Accounts = JArr [JStr ''0xD0'', JStr ''0xE0'', JStr ''0xA0'']"
| "demo_answer (DeployTx s f args libs) = JStr (''0x'' @ f)"
| "demo_answer (ViewCall a m args) = JStr (''0x'' @ m)"
| "demo_answer (External n args) = (if n = ''Date.now'' then JNum 1000 else JStr n)"
| "demo_answer _ = JUndef"

definition demo :: "string \<Rightarrow> db_entry jsobj \<Rightarrow> world" where
  "demo net entries = \<lparr>net_name = net, procenv = (\<lambda>_. None),
     db = (\<lambda>n. if n = net then entries else []), hist = [],
     node = (\<lambda>h r. Inr (demo_answer r)),
     isAddress = (\<lambda>a. take 2 a = ''0x''), isZeroAddress = (\<lambda>a. a = ZERO_ADDRESS)\<rparr>"

text \<open>Worlds reached from it: the same environment with any database and any requests.\<close>

definition demo_at :: "string \<Rightarrow> db_entry jsobj \<Rightarrow> request list \<Rightarrow> world" where
  "demo_at net entries h = (demo net entries)\<lparr>hist := h\<rparr>"

lemma demo_start: "demo net entries = demo_at net entries []"
  by (simp add: demo_at_def demo_def)

lemma demo_simps [simp]:
  "net_name (demo_at net es h) = net" "procenv (demo_at net es h) v = None"
  "hist (demo_at net es h) = h" "db_get i (demo_at net es h) = oget es i"
  "db_put i e (demo_at net es h) = demo_at net (oset i e es) h"
  "(demo_at net es h)\<lparr>hist := h'\<rparr> = demo_at net es h'"
  "isAddress (demo_at net es h) a = (take 2 a = ''0x'')"
  "isZeroAddress (demo_at net es h) a = (a = ZERO_ADDRESS)"
  by (auto simp: demo_at_def demo_def db_get_def db_put_def fun_eq_iff)

lemma demo_ask [simp]: "ask r (demo_at net es h) = (Inr (demo_answer r), demo_at net es (h @ [r]))"
  by (simp add: ask_def demo_at_def demo_def)

lemma demo_send [simp]:
  "send_and_wait s a m args (demo_at net es h) =
     (Inr (), demo_at net es (h @ [SendTx s a m args, WaitTx (length h)]))"
  by (simp add: send_and_wait_def tbind_def tseq_def)

lemma demo_nth_signer [simp]:
  "nth_signer i (demo_at net es h) =
     (Inr (js_at [''0xD0'', ''0xE0'', ''0xA0''] (int i)), demo_at net es (h @ [Accounts]))"
  by (simp add: nth_signer_def getEthersSigners_def tbind_def)

lemma js_at_demo [simp]: "js_at [''0xD0'', ''0xE0'', ''0xA0''] 0 = Some ''0xD0''"
  "js_at [''0xD0'', ''0xE0'', ''0xA0''] 1 = Some ''0xE0''"
  by (simp_all add: js_at_def)

lemma demo_deployFactory [simp]:
  "deployFactory f libs args (demo_at net es h) =
     (Inr \<lparr>c_address = ''0x'' @ f, c_signer = Some ''0xD0'', c_deployTx = Some (Suc (length h))\<rparr>,
      demo_at net es (h @ [Accounts, DeployTx (Some ''0xD0'') f args libs]))"
  by (simp add: deployFactory_def getDeploySigner_def tbind_def)

lemma demo_withSave [simp]:
  "withSaveAndVerify \<lparr>c_address = a, c_signer = s, c_deployTx = Some t\<rparr> i args False (demo_at net es h) =
     (Inr \<lparr>c_address = a, c_signer = s, c_deployTx = Some t\<rparr>,
      demo_at net (oset i \<lparr>e_address = a, e_deployer = s\<rparr> es) (h @ [WaitTx t]))"
  by (simp add: withSaveAndVerify_def wait_deployed_def waitForTx_def registerContractInJsonDb_def
      getDb_set_def tbind_def tseq_def)

lemma demo_connectOrDb [simp]:
  "connectOrDb i None (demo_at net es h) = (case oget es i of
      None \<Rightarrow> (Inl JsTypeError, demo_at net es h)
    | Some e \<Rightarrow> (Inr (connect (e_address e) (Some ''0xD0'')), demo_at net es (h @ [Accounts])))"
  "connectOrDb i (Some (c # cs)) (demo_at net es h) =
     (Inr (connect (c # cs) (Some ''0xD0'')), demo_at net es (h @ [Accounts]))"
  by (simp_all add: connectOrDb_def address_in_db_def getDb_get_def getDeploySigner_def tbind_def
      split: option.splits)

lemma demo_view [simp]:
  "view c m args (demo_at net es h) =
     (Inr (JStr (''0x'' @ m)), demo_at net es (h @ [ViewCall (c_address c) m args]))"
  by (simp add: view_def)

lemma demo_send_contract [simp]:
  "send c m args (demo_at net es h) =
     (Inr (), demo_at net es (h @ [SendTx (c_signer c) (c_address c) m args, WaitTx (length h)]))"
  by (simp add: send_def)

definition after_chunks :: "contract \<Rightarrow> string \<Rightarrow> ('a list \<Rightarrow> jsval) \<Rightarrow> 'a list list \<Rightarrow> request list \<Rightarrow> request list" where
  "after_chunks c m f chs h =
     foldl (\<lambda>h ch. h @ [SendTx (c_signer c) (c_address c) m [f ch], WaitTx (length h)]) h chs"

lemma demo_send_chunks [simp]:
  "send_chunks c m chs f (demo_at net es h) = (Inr (), demo_at net es (after_chunks c m f chs h))"
proof (induction chs arbitrary: h)
  case Nil
  show ?case by (simp add: send_chunks_def after_chunks_def)
next
  case (Cons ch chs)
  then show ?case by (simp add: send_chunks_def after_chunks_def tseq_def tbind_def)
qed

lemma demo_fallback:
  "oget es i = Some e \<Longrightarrow> e_address e \<noteq> [] \<Longrightarrow> config_field BendConfig i = None \<Longrightarrow>
   getContractAddressWithJsonFallback i ''Bend'' (demo_at n es h) = (Inr (e_address e), demo_at n es h)"
  by (simp add: getContractAddressWithJsonFallback_def loadPoolConfig_def tbind_def
      getOptionalParamAddressPerNetwork_def notFalsyOrZeroAddress_def getContractAddressInDb_def ZERO_ADDRESS_def)

text \<open>The parts of the market configuration that the witnesses read.\<close>

lemma bend_fields:
  "ReserveAssets BendConfig = Bend_ReserveAssets" "NftsAssets BendConfig = Bend_NftsAssets"
  "ReservesConfig BendConfig = Bend_ReservesConfig" "NftsConfig BendConfig = Bend_NftsConfig"
  "ReserveFactorCollectorAddress BendConfig = Commons_ReserveFactorCollectorAddress"
  "ProxyAdminPool BendConfig = Commons_ProxyAdminPool" "ProxyAdminFund BendConfig = Commons_ProxyAdminFund"
  "ProxyAdminWTL BendConfig = Commons_ProxyAdminWTL" "ProviderRegistry BendConfig = Commons_ProviderRegistry"
  "ProviderRegistryOwner BendConfig = Commons_ProviderRegistryOwner"
  "NFTOracle BendConfig = Commons_NFTOracle" "PoolAdmin BendConfig = Commons_PoolAdmin"
  "EmergencyAdmin BendConfig = Commons_EmergencyAdmin" "BNFTRegistry BendConfig = Commons_BNFTRegistry"
  "IncentivesController BendConfig = Commons_IncentivesController"
  "WrappedNativeToken BendConfig = Commons_WrappedNativeToken" "ReserveOracle BendConfig = Commons_ReserveOracle"
  by (simp_all add: BendConfig_def CommonsConfig_def)

lemma demo_procenv [simp]: "procenv (demo_at n es h) = (\<lambda>_. None)"
  by (rule ext) simp

lemma param_sepolia [simp]: "getParamPerNetwork (\<lambda>_. None) p ''sepolia'' = Some (sepolia p)"
  by (simp add: getParamPerNetwork_def)

lemma bend_pool: "loadPoolConfig ''Bend'' w = (Inr BendConfig, w)"
  by (simp add: loadPoolConfig_def)

lemma tokens_not_configured:
  "config_field BendConfig ''BToken'' = None" "config_field BendConfig ''DebtToken'' = None"
  by (simp_all add: config_field_def)

lemma demo_configureNfts:
  assumes "oget es ''LendPoolAddressesProvider'' = Some p" and "oget es ''LendPoolConfigurator'' = Some c"
  shows "\<exists>h'. configureNftsByHelper ps as adm (demo_at n es h) = (Inr (), demo_at n es h')"
  using assms
  by (auto simp: configureNftsByHelper_def tbind_def tseq_def getLendPoolAddressesProvider_def
      getLendPoolConfiguratorProxy_def configureNfts_fold twhen_def)

lemma demo_configureReserves:
  assumes "oget es ''LendPoolAddressesProvider'' = Some p" and "oget es ''LendPoolConfigurator'' = Some c"
  shows "\<exists>h'. configureReservesByHelper ps as adm (demo_at n es h) = (Inr (), demo_at n es h')"
  using assms
  by (auto simp: configureReservesByHelper_def tbind_def tseq_def getLendPoolAddressesProvider_def
      getLendPoolConfiguratorProxy_def configureReserves_fold twhen_def)

lemma demo_initNfts:
  assumes "oget es ''LendPoolAddressesProvider'' = Some p" and "oget es ''LendPoolConfigurator'' = Some c"
  shows "\<exists>h'. initNftsByHelper ps as adm pool v (demo_at n es h) = (Inr (), demo_at n es h')"
  using assms
  by (auto simp: initNftsByHelper_def tbind_def tseq_def getLendPoolAddressesProvider_def
      getLendPoolConfiguratorProxy_def)

end
