(* ===== verification/DemoRuns.thy ===== *)
theory DemoRuns
  imports MainnetSpec Demo
begin

text \<open>
  Runs of the tasks on the demonstration node of \<open>Demo\<close>, on the data of the Bend market for \<open>sepolia\<close> and
  \<open>localhost\<close>: for each property of a task, a run that satisfies its hypotheses, with the effects that the
  property gives for it.
\<close>

section \<open>Tasks that put a contract behind a proxy\<close>

lemmas proxy_runs = demo_start tbind_def tseq_def twhen_def run_compile_def require_chainId_def bend_pool bend_fields
  getLendPoolAddressesProvider_def tryGetContractAddressInDb_def getBendProxyAdminById_def owner_signer_def
  encodeFunctionData_def upgrade_or_deploy_def deployImpl_def rawInsertContractAddressInDb_def getDb_set_def
  notFalsyOrZeroAddress_def ZERO_ADDRESS_def getBendUpgradeableProxy_def deployBendUpgradeableProxy_def
  getDeploySigner_def valid_proxy_admin_def bare_entry_def connect_def as_signer_def addressParam_def

definition proxy_entries :: "db_entry jsobj" where
  "proxy_entries = [(''LendPoolAddressesProvider'', bare_entry ''0xP''), (''BendProxyAdminPool'', bare_entry ''0xA''),
    (''ChainlinkAggregatorHelper'', bare_entry ''0xH'')]"

theorem deploy_aggregator_helper_does_witness:
  "\<exists>w' impl us. deploy_aggregator_helper False ''Bend'' (demo ''sepolia'' proxy_entries) = (Inr (), w') \<and>
     does (demo ''sepolia'' proxy_entries) w' [Deployed ''ChainlinkAggregatorHelperFactory'' [] [] impl,
       Sent ''0xA'' ''upgrade'' [JStr ''0xH'', JStr impl]] us"
proof -
  let ?w = "demo ''sepolia'' proxy_entries"
  obtain w' where run: "deploy_aggregator_helper False ''Bend'' ?w = (Inr (), w')"
    by (simp add: proxy_runs proxy_entries_def deploy_aggregator_helper_def deployChainlinkAggregatorHelper_def
        getChainlinkAggregatorHelper_def)
  have saved: "(case db_get (cid C_ChainlinkAggregatorHelper) ?w of
      Some e \<Rightarrow> if e_address e \<noteq> [] then e_address e else ZERO_ADDRESS | None \<Rightarrow> ZERO_ADDRESS) = ''0xH''"
    and adm: "db_get (cid C_BendProxyAdminPool) ?w = Some (bare_entry ''0xA'')"
    and valid: "notFalsyOrZeroAddress ?w (Some ''0xH'')"
    by (simp_all add: demo_start proxy_entries_def bare_entry_def notFalsyOrZeroAddress_def ZERO_ADDRESS_def)
  from deploy_aggregator_helper_does [OF run, unfolded saved] run adm valid show ?thesis
    by (auto simp: bare_entry_def)
qed

theorem deploy_oracle_nft_does_witness:
  "\<exists>w' impl provider us. deploy_oracle_nft False ''Bend'' False False None (demo ''sepolia'' proxy_entries) = (Inr (), w') \<and>
     does (demo ''sepolia'' proxy_entries) w' [Deployed ''NFTOracleFactory'' [] [] impl,
       Sent ''0xA'' ''upgrade'' [JStr ''0xF143144Fb2703C8aeefD0c4D06d29F5Bb0a9C60A'', JStr impl],
       Sent provider ''setNFTOracle'' [JStr ''0xF143144Fb2703C8aeefD0c4D06d29F5Bb0a9C60A'']] us"
proof -
  let ?w = "demo ''sepolia'' proxy_entries"
  let ?orc = "''0xF143144Fb2703C8aeefD0c4D06d29F5Bb0a9C60A''"
  obtain w' where run: "deploy_oracle_nft False ''Bend'' False False None ?w = (Inr (), w')"
    by (simp add: proxy_runs proxy_entries_def deploy_oracle_nft_def deployNFTOracle_def
        getNFTOracle_def feed_admin_def getGenesisPoolAdmin_def addressOn_def networkOrFork_def Commons_NFTOracle_def
        Commons_PoolAdmin_def)
  have conf: "addressParam ?w (NFTOracle BendConfig) = Some ?orc"
    and adm: "db_get (cid C_BendProxyAdminPool) ?w = Some (bare_entry ''0xA'')"
    and valid: "notFalsyOrZeroAddress ?w (Some ?orc)"
    by (simp_all add: demo_start addressParam_def bend_fields proxy_entries_def Commons_NFTOracle_def
        notFalsyOrZeroAddress_def ZERO_ADDRESS_def)
  from deploy_oracle_nft_does [OF run bend_pool, unfolded conf] run adm valid show ?thesis
    by (auto simp: bare_entry_def)
qed

theorem deploy_oracle_reserve_does_witness:
  "\<exists>w' impl us. deploy_oracle_reserve False False ''Bend'' (demo ''sepolia'' proxy_entries) = (Inr (), w') \<and>
     does (demo ''sepolia'' proxy_entries) w' [Deployed ''ReserveOracleFactory'' [] [] impl,
       Sent ''0xA'' ''upgrade'' [JStr ''0x0EBbD387769f012a3Bbf65eaCb4Ec3db3c7693f6'', JStr impl],
       Sent ''0xP'' ''setReserveOracle'' [JStr ''0x0EBbD387769f012a3Bbf65eaCb4Ec3db3c7693f6'']] us"
proof -
  let ?w = "demo ''sepolia'' proxy_entries"
  let ?orc = "''0x0EBbD387769f012a3Bbf65eaCb4Ec3db3c7693f6''"
  have conf: "addressParam ?w (ReserveOracle BendConfig) = Some ?orc"
    and adm: "db_get (cid C_BendProxyAdminPool) ?w = Some (bare_entry ''0xA'')"
    and prov: "db_get (cid C_LendPoolAddressesProvider) ?w = Some (bare_entry ''0xP'')"
    and valid: "notFalsyOrZeroAddress ?w (Some ?orc)"
    and weth: "addressOn networkOrMainFork (WrappedNativeToken BendConfig) ?w =
      Some ''0xfFf9976782d46CC05630D1f6eBAb18b2324d6B14''"
    by (simp_all add: demo_start addressParam_def addressOn_def networkOrMainFork_def bend_fields proxy_entries_def
        Commons_ReserveOracle_def Commons_WrappedNativeToken_def notFalsyOrZeroAddress_def ZERO_ADDRESS_def)
  obtain w' where run: "deploy_oracle_reserve False False ''Bend'' ?w = (Inr (), w')"
    by (simp add: proxy_runs proxy_entries_def deploy_oracle_reserve_def deployReserveOracle_def getReserveOracle_def
        getWrappedNativeTokenAddress_def addressOn_def networkOrMainFork_def Commons_ReserveOracle_def
        Commons_WrappedNativeToken_def oracle_config Bend_ReserveAssets_def Commons_ReserveAggregators_def
        getPairsTokenAggregator_def omit_def getQuoteCurrencies_def js_at_def)
  from deploy_oracle_reserve_does [OF run bend_pool, unfolded conf weth] run adm prov valid show ?thesis
    by (auto simp: bare_entry_def)
qed

theorem deploy_weth_gateway_does_witness:
  "\<exists>w' impl gateway data us. deploy_weth_gateway False ''Bend'' (demo ''sepolia'' proxy_entries) = (Inr (), w') \<and>
     does (demo ''sepolia'' proxy_entries) w' [Deployed ''WETHGatewayFactory'' [] [] impl,
       Deployed ''BendUpgradeableProxyFactory'' [JStr impl, JStr ''0xA'', data] [] gateway,
       Sent ''0xP'' ''setAddress'' [JStr ADDRESS_ID_WETH_GATEWAY, JStr gateway]] us"
proof -
  let ?w = "demo ''sepolia'' proxy_entries"
  have adm: "db_get (cid C_BendProxyAdminPool) ?w = Some (bare_entry ''0xA'')"
    and prov: "db_get (cid C_LendPoolAddressesProvider) ?w = Some (bare_entry ''0xP'')"
    and weth: "addressOn networkOrMainFork (WrappedNativeToken BendConfig) ?w =
      Some ''0xfFf9976782d46CC05630D1f6eBAb18b2324d6B14''"
    by (simp_all add: demo_start addressOn_def networkOrMainFork_def bend_fields proxy_entries_def
        Commons_WrappedNativeToken_def)
  obtain w' where run: "deploy_weth_gateway False ''Bend'' ?w = (Inr (), w')"
    by (simp add: proxy_runs proxy_entries_def deploy_weth_gateway_def deployWETHGateway_def getWETHGateway_def
        getWrappedNativeTokenAddress_def addressOn_def networkOrMainFork_def Commons_WrappedNativeToken_def)
  from deploy_weth_gateway_does [OF run bend_pool, unfolded weth] run adm prov show ?thesis
    by (auto simp: bare_entry_def)
qed

theorem deploy_proxy_admin_all_does_witness:
  "\<exists>w' a b c us. deploy_proxy_admin False ''Bend'' True None (demo ''localhost'' []) = (Inr (), w') \<and>
     does (demo ''localhost'' []) w' (map (Deployed ''BendProxyAdminFactory'' [] []) [a, b, c]) us"
proof -
  let ?w = "demo ''localhost'' []"
  have invalid: "\<not> notFalsyOrZeroAddress ?w (addressParam ?w (ProxyAdminPool BendConfig))"
    "\<not> notFalsyOrZeroAddress ?w (addressParam ?w (ProxyAdminFund BendConfig))"
    "\<not> notFalsyOrZeroAddress ?w (addressParam ?w (ProxyAdminWTL BendConfig))"
    by (simp_all add: demo_start addressParam_def getParamPerNetwork_def bend_fields notFalsyOrZeroAddress_def
        Commons_ProxyAdminPool_def Commons_ProxyAdminFund_def Commons_ProxyAdminWTL_def)
  obtain w' where run: "deploy_proxy_admin False ''Bend'' True None ?w = (Inr (), w')"
    by (simp add: proxy_runs deploy_proxy_admin_def deploy_one_proxy_admin_def deployBendProxyAdmin_def
        deploySaved_def getParamPerNetwork_def Commons_ProxyAdminPool_def Commons_ProxyAdminFund_def
        Commons_ProxyAdminWTL_def)
  from deploy_proxy_admin_all_does [OF run bend_pool] run invalid show ?thesis
    by auto
qed

section \<open>Registry and pool\<close>

theorem add_market_wrong_owner_witness:
  "fst (add_market_to_registry False None ''Bend'' False (demo ''sepolia'' [])) = Inl (Exit 2)"
proof -
  let ?w = "demo ''sepolia'' []"
  have d: "deployer_address ?w = (Inr ''0xD0'', demo_at ''sepolia'' [] [Accounts])"
    by (simp add: demo_start deployer_address_def getDeploySigner_def tbind_def)
  have "\<not> truthy_opt (procenv ?w ''FORK'')" by (simp add: demo_def)
  moreover have "addressParam ?w (ProviderRegistry BendConfig) = Some ''0x4e762Cd5695F9217E04c77df98BA9DcDadb6Cc33''"
    and o: "addressParam ?w (ProviderRegistryOwner BendConfig) = Some ''0xafF5C36642385b6c7Aaf7585eC785aB2316b5db6''"
    by (simp_all add: demo_start addressParam_def bend_fields Commons_ProviderRegistry_def Commons_ProviderRegistryOwner_def)
  moreover from this have "notFalsyOrZeroAddress ?w (addressParam ?w (ProviderRegistry BendConfig))"
    and "notFalsyOrZeroAddress ?w (addressParam ?w (ProviderRegistryOwner BendConfig))"
    by (simp_all add: demo_start notFalsyOrZeroAddress_def ZERO_ADDRESS_def)
  moreover have "toLocaleLowerCase (the (addressParam ?w (ProviderRegistryOwner BendConfig))) \<noteq>
      toLocaleLowerCase (toLocaleLowerCase ''0xD0'')"
    unfolding o by (simp add: toLocaleLowerCase_def)
  ultimately show ?thesis using add_market_wrong_owner [OF bend_pool d] by simp
qed

lemmas lend_pool_runs = deploy_lend_pool_def getBNFTRegistryProxy_def deployBendLibraries_def deployLendPoolLibraries_def
  deployConfiguratorLibraries_def deployGenericLogic_def deployReserveLogicLibrary_def deployNftLogicLibrary_def
  deployValidationLogic_def deploySupplyLogicLibrary_def deployBorrowLogicLibrary_def
  deployLiquidateLogicLibrary_def deployConfiguratorLogicLibrary_def deployLibOnValidation_def deployLinked_def
  wait_deployed_def waitForTx_def readArtifact_def deploySaved_def getContractAddressInDb_def set_impl_def deployLendPool_def getLendPoolLibraries_def
  deployLendPoolLoan_def deployLendPoolConfigurator_def insertContractAddressInDb_def getLendPool_def
  getLendPoolLoanProxy_def getLendPoolConfiguratorProxy_def getEmergencyAdmin_def addressOn_def networkOrFork_def
  Commons_BNFTRegistry_def Commons_IncentivesController_def Commons_EmergencyAdmin_def



lemma sepolia_tokens: "map (bTokenImpl \<circ> snd) Bend_ReservesConfig = [C_BToken, C_BToken, C_BToken, C_BToken]"
  by (simp add: Bend_ReservesConfig_def strategyWETH_def strategyDAI_def strategyUSDC_def strategyUSDT_def)

lemma demo_lend_pool: "\<exists>w'. deploy_lend_pool False ''Bend'' (demo ''sepolia'' proxy_entries) = (Inr (), w')"
  by (simp add: proxy_runs lend_pool_runs proxy_entries_def deployBTokenImplementations_def deployImplementations_def
      js_set_def sepolia_tokens tokens_not_configured getOptionalParamAddressPerNetwork_def
      chooseBTokenDeployment_def deployGenericBTokenImpl_def deployGenericDebtToken_def BendConfig_def CommonsConfig_def)

theorem deploy_lend_pool_does_witness:
  "\<exists>w' es us. deploy_lend_pool False ''Bend'' (demo ''sepolia'' proxy_entries) = (Inr (), w') \<and>
     does (demo ''sepolia'' proxy_entries) w'
       (Sent ''0xP'' ''setBNFTRegistry'' [JStr ''0x694b86Deef7C2C06d4C40A07a5995815C444170D''] # es) us"
proof -
  let ?w = "demo ''sepolia'' proxy_entries"
  obtain w' where run: "deploy_lend_pool False ''Bend'' ?w = (Inr (), w')" using demo_lend_pool by blast
  have conf: "the (addressParam ?w (BNFTRegistry BendConfig)) = ''0x694b86Deef7C2C06d4C40A07a5995815C444170D''"
    and prov: "db_get (cid C_LendPoolAddressesProvider) ?w = Some (bare_entry ''0xP'')"
    by (simp_all add: demo_start addressParam_def bend_fields proxy_entries_def Commons_BNFTRegistry_def)
  from deploy_lend_pool_does [OF run bend_pool, unfolded conf] run prov show ?thesis
    by (auto simp: bare_entry_def)
qed

section \<open>Saving and verifying\<close>

lemma demo_names_contracts: "node_names_contracts (demo net es)"
  by (simp add: node_names_contracts_def demo_def)

theorem saved_before_verification_witness:
  "db_get ''BToken'' (snd (withSaveAndVerify \<lparr>c_address = ''0xB'', c_signer = Some ''0xD0'', c_deployTx = Some 0\<rparr>
     ''BToken'' [] True (demo ''sepolia'' []))) = Some \<lparr>e_address = ''0xB'', e_deployer = Some ''0xD0''\<rparr>"
proof -
  let ?c = "\<lparr>c_address = ''0xB'', c_signer = Some ''0xD0'', c_deployTx = Some 0\<rparr>"
  have "wait_deployed ?c (demo ''sepolia'' []) = (Inr (), demo_at ''sepolia'' [] [WaitTx 0])"
    by (simp add: demo_start wait_deployed_def waitForTx_def tseq_def tbind_def)
  from saved_before_verification [OF this, of "''BToken''" "[]" True] show ?thesis
    by (simp add: entry_of_def)
qed


theorem deployed_is_found_witness:
  "\<exists>c w'. deploySaved ''BToken'' [] ''BToken'' False (demo ''sepolia'' []) = (Inr c, w') \<and>
     getContractAddressInDb ''BToken'' w' = (Inr ''0xBToken'', w')"
proof -
  obtain c w' where 1: "deploySaved ''BToken'' [] ''BToken'' False (demo ''sepolia'' []) = (Inr c, w')"
    and 2: "c_address c = ''0xBToken''"
    by (simp add: demo_start deploySaved_def tbind_def)
  from deployed_is_found [OF 1 demo_names_contracts] 1 2 show ?thesis by auto
qed

theorem verification_never_throws_witness:
  "\<exists>w'. verifyEtherscanContract ''0xB'' [] None ((demo ''main'' [])\<lparr>procenv := [''ETHERSCAN_KEY'' \<mapsto> ''k'']\<rparr>) = (Inr (), w')"
  using verification_never_throws [of "(demo ''main'' [])\<lparr>procenv := [''ETHERSCAN_KEY'' \<mapsto> ''k'']\<rparr>" "''0xB''" "[]" None]
  by (auto simp: cleans_up_def demo_def SUPPORTED_ETHERSCAN_NETWORKS_def)

theorem deploy_oracle_reserve_test_networks_witness:
  "isl (fst (deploy_oracle_reserve False False ''Bend'' (demo ''hardhat'' [(''LendPoolAddressesProvider'', bare_entry ''0xP''),
     (''BendProxyAdminPool'', bare_entry ''0xA'')])))"
  using deploy_oracle_reserve_test_networks [of "demo ''hardhat'' [(''LendPoolAddressesProvider'', bare_entry ''0xP''),
     (''BendProxyAdminPool'', bare_entry ''0xA'')]" False]
  by (simp add: demo_def)

section \<open>Oracles\<close>

theorem setPricesInNFTOracle_throws_witness:
  "fst (setPricesInNFTOracle [(''BAYC'', ''1'')] [(''BAYC'', ''0x1''), (''MAYC'', ''0x2'')] (connect ''0xO'' None)
     (demo ''sepolia'' [])) = Inl JsTypeError"
proof -
  obtain w' where "setPricesInNFTOracle [(''BAYC'', ''1'')] [(''BAYC'', ''0x1'')] (connect ''0xO'' None)
      (demo ''sepolia'' []) = (Inr (), w')"
    by (simp add: demo_start setPricesInNFTOracle_def entry_at_key_def js_at_def tbind_def tseq_def)
  from setPricesInNFTOracle_throws [OF this, of "''MAYC''" "''0x2''" "[]"] show ?thesis by simp
qed

theorem setAggregators_does_witness:
  "\<exists>w'. setAggregatorsInReserveOracle [(''DAI'', ''0x1'')] [(''USDC'', ''0xC''), (''DAI'', ''0xD'')] (connect ''0xO'' None)
      (demo ''sepolia'' []) = (Inr (), w') \<and>
    does (demo ''sepolia'' []) w' [Sent ''0xO'' ''addAggregator'' [JStr ''0x1'', JStr ''0xD'']] []"
proof -
  obtain w' where run: "setAggregatorsInReserveOracle [(''DAI'', ''0x1'')] [(''USDC'', ''0xC''), (''DAI'', ''0xD'')]
      (connect ''0xO'' None) (demo ''sepolia'' []) = (Inr (), w')"
    by (simp add: demo_start setAggregatorsInReserveOracle_def entry_at_key_def asset_bytes32_def js_at_def
        tbind_def tseq_def)
  from setAggregators_does [OF run] run show ?thesis by (simp add: per_asset_def connect_def)
qed

section \<open>The initialisation of the market\<close>

definition market_entries :: "db_entry jsobj" where
  "market_entries = [(''LendPoolAddressesProvider'', bare_entry ''0xP''), (''LendPoolConfigurator'', bare_entry ''0xC''),
    (''BToken'', bare_entry ''0xB''), (''DebtToken'', bare_entry ''0xT'')]"

lemma market_entries_get:
  "oget market_entries ''LendPoolAddressesProvider'' = Some (bare_entry ''0xP'')"
  "oget market_entries ''LendPoolConfigurator'' = Some (bare_entry ''0xC'')"
  by (simp_all add: market_entries_def)

lemmas market_runs = tbind_def tseq_def twhen_def bend_pool bend_fields getLendPoolAddressesProvider_def
  getLendPoolConfiguratorProxy_def initReservesByHelper_def init_reserve_step_def is_set_def
  deploy_strategy_once_def deployRateStrategy_def deployInterestRate_def deployInterestRateWithID_def
  deploySaved_def rawInsertContractAddressInDb_def getDb_set_def demo_fallback tokens_not_configured

lemma sepolia_reserves: "sepolia Bend_ReserveAssets = [(''WETH'', ''0xfFf9976782d46CC05630D1f6eBAb18b2324d6B14'')]"
  by (simp add: Bend_ReserveAssets_def)

lemma market_reserves: "Bend_ReservesConfig =
    [(''WETH'', strategyWETH), (''DAI'', strategyDAI), (''USDC'', strategyUSDC), (''USDT'', strategyUSDT)]"
  by (simp add: Bend_ReservesConfig_def)

lemma weth_strategy: "strategy strategyWETH = rateStrategyWETH" "strat_name rateStrategyWETH = ''rateStrategyWETH''"
    "bTokenImpl strategyWETH = C_BToken"
  by (simp_all add: strategyWETH_def rateStrategyWETH_def)

lemma market_names_apart: "names_apart Bend_ReservesConfig"
  by (auto simp: names_apart_def market_reserves strategyWETH_def strategyDAI_def strategyUSDC_def strategyUSDT_def
      rateStrategyWETH_def rateStrategyStableOne_def rateStrategyStableTwo_def rateStrategyStableThree_def)

lemma demo_initReserves:
  "\<exists>es h'. initReservesByHelper Bend_ReservesConfig [(''WETH'', ''0xfFf9976782d46CC05630D1f6eBAb18b2324d6B14'')]
      tn adm coll ''Bend'' False (demo_at ''sepolia'' market_entries h) = (Inr (), demo_at ''sepolia'' es h') \<and>
    oget es ''LendPoolAddressesProvider'' = Some (bare_entry ''0xP'') \<and>
    oget es ''LendPoolConfigurator'' = Some (bare_entry ''0xC'')"
  by (simp add: market_entries_def market_runs market_reserves weth_strategy bare_entry_def connect_def)
    (intro exI conjI, rule refl, simp_all)

theorem one_rate_contract_per_strategy_witness:
  "\<exists>w' es us. initReservesByHelper Bend_ReservesConfig (sepolia Bend_ReserveAssets) (token_naming_of BendConfig)
      ''0xA'' JUndef ''Bend'' False (demo ''sepolia'' market_entries) = (Inr (), w') \<and>
    does (demo ''sepolia'' market_entries) w' es us \<and> length (filter is_deployment es) = 1"
proof -
  obtain w' where run: "initReservesByHelper Bend_ReservesConfig (sepolia Bend_ReserveAssets)
      (token_naming_of BendConfig) ''0xA'' JUndef ''Bend'' False (demo ''sepolia'' market_entries) = (Inr (), w')"
    using demo_initReserves [of "token_naming_of BendConfig" "''0xA''" JUndef "[]"]
    by (auto simp: sepolia_reserves demo_start)
  have "selected (sepolia Bend_ReserveAssets) Bend_ReservesConfig = [(''WETH'', strategyWETH)]"
    by (simp add: selected_def is_set_def market_reserves sepolia_reserves)
  with one_rate_contract_per_strategy [OF run demo_names_contracts market_names_apart] run show ?thesis
    by (auto simp del: One_nat_def)
qed

theorem initialize_lend_pool_does_witness:
  "\<exists>w' a es us. initialize_lend_pool False ''Bend'' (demo ''sepolia'' market_entries) = (Inr (), w') \<and>
     does (demo ''sepolia'' market_entries) w'
       (strategy_deployment ''0xP'' rateStrategyWETH a # es) us"
proof -
  let ?w = "demo ''sepolia'' market_entries"
  let ?ra = "[(''WETH'', ''0xfFf9976782d46CC05630D1f6eBAb18b2324d6B14'')]"
  let ?coll = "opt_val (sepolia Commons_ReserveFactorCollectorAddress)"
  let ?h = "[Accounts, ViewCall ''0xP'' ''getPoolAdmin'' []]"
  obtain es h1 where
    1: "initReservesByHelper Bend_ReservesConfig ?ra (token_naming_of BendConfig) ''0xgetPoolAdmin'' ?coll ''Bend''
      False (demo_at ''sepolia'' market_entries ?h) = (Inr (), demo_at ''sepolia'' es h1)"
    and es: "oget es ''LendPoolAddressesProvider'' = Some (bare_entry ''0xP'')"
      "oget es ''LendPoolConfigurator'' = Some (bare_entry ''0xC'')"
    using demo_initReserves [of "token_naming_of BendConfig" "''0xgetPoolAdmin''" ?coll ?h] by blast
  obtain h2 where 2: "configureReservesByHelper Bend_ReservesConfig ?ra ''0xgetPoolAdmin''
      (demo_at ''sepolia'' es h1) = (Inr (), demo_at ''sepolia'' es h2)"
    using demo_configureReserves [OF es] by blast
  obtain h3 where 3: "initNftsByHelper Bend_NftsConfig (sepolia Bend_NftsAssets) ''0xgetPoolAdmin'' ''Bend'' False
      (demo_at ''sepolia'' es h2) = (Inr (), demo_at ''sepolia'' es h3)"
    using demo_initNfts [OF es] by blast
  obtain h4 where 4: "configureNftsByHelper Bend_NftsConfig (sepolia Bend_NftsAssets) ''0xgetPoolAdmin''
      (demo_at ''sepolia'' es h3) = (Inr (), demo_at ''sepolia'' es h4)"
    using demo_configureNfts [OF es] by blast
  have run: "initialize_lend_pool False ''Bend'' ?w = (Inr (), demo_at ''sepolia'' es h4)"
    by (simp add: demo_start initialize_lend_pool_def or_exit_def tcatch_def tbind_def tseq_def bend_pool bend_fields
       getLendPoolAddressesProvider_def market_entries_get getReserveFactorCollectorAddress_def addressOn_def
       networkOrFork_def assets_on_def bare_entry_def connect_def sepolia_reserves 1 2 3 4)
  have sel: "selected ?ra Bend_ReservesConfig = [(''WETH'', strategyWETH)]"
    by (simp add: selected_def is_set_def market_reserves)
  have ra: "getParamPerNetwork (procenv ?w) Bend_ReserveAssets (net_name ?w) = Some ?ra"
    and prov: "db_get (cid C_LendPoolAddressesProvider) ?w = Some (bare_entry ''0xP'')"
    by (simp_all add: demo_start sepolia_reserves market_entries_get)
  from initialize_lend_pool_does [OF run bend_pool demo_names_contracts, unfolded bend_fields, OF market_names_apart]
    ra prov sel run show ?thesis
    by (auto simp: bare_entry_def weth_strategy length_Suc_conv) (intro exI, assumption)
qed

section \<open>The whole migration\<close>

text \<open>
  A node whose first account owns the registry of \<open>sepolia\<close>, and whose deployments have addresses that are
  never the zero address.
\<close>

definition owner_node :: world where
  "owner_node = (demo ''sepolia'' [])\<lparr>node := (\<lambda>h r. Inr (case r of
     Accounts \<Rightarrow> JArr [JStr ''0xafF5C36642385b6c7Aaf7585eC785aB2316b5db6'']
   | DeployTx s f args libs \<Rightarrow> JStr (''0xC'' @ f)
   | External n args \<Rightarrow> if n = ''DRE.network.config.chainId'' then JNum 11155111 else JStr n
   | _ \<Rightarrow> demo_answer r))\<rparr>"

lemma owner_node_valid:
  "notFalsyOrZeroAddress owner_node (Some a) \<longleftrightarrow> take 2 a = ''0x'' \<and> a \<noteq> ZERO_ADDRESS"
  by (auto simp: notFalsyOrZeroAddress_def owner_node_def demo_def)

lemma owner_node_param: "addressParam owner_node p = sepolia p"
  by (simp add: addressParam_def getParamPerNetwork_def owner_node_def demo_def)

lemma owner_node_cooperates: "cooperates owner_node"
proof -
  have "config_chainId (procenv owner_node) (net_name owner_node) = JNum 11155111"
    using chain_ids by (simp add: owner_node_def demo_def)
  then show ?thesis
    unfolding cooperates_def good_def owner_node_valid
    by (auto simp: owner_node_def demo_def proxy_readers_def ZERO_ADDRESS_def)
qed

lemma owner_node_ready: "live owner_node" "configured skipOracle owner_node" "owns_registry owner_node"
proof -
  have "sepolia Commons_BNFTRegistry = Some ''0x694b86Deef7C2C06d4C40A07a5995815C444170D''"
    "sepolia Commons_IncentivesController = Some ''0x06A13f172ADce6fdE761c9A2Ff2d0ad50e9e38d0''"
    "sepolia Commons_ReserveOracle = Some ''0x0EBbD387769f012a3Bbf65eaCb4Ec3db3c7693f6''"
    "sepolia Commons_NFTOracle = Some ''0xF143144Fb2703C8aeefD0c4D06d29F5Bb0a9C60A''"
    "sepolia Commons_ProviderRegistry = Some ''0x4e762Cd5695F9217E04c77df98BA9DcDadb6Cc33''"
    "sepolia Commons_ProviderRegistryOwner = Some ''0xafF5C36642385b6c7Aaf7585eC785aB2316b5db6''"
    by (simp_all add: Commons_BNFTRegistry_def Commons_IncentivesController_def Commons_ReserveOracle_def
        Commons_NFTOracle_def Commons_ProviderRegistry_def Commons_ProviderRegistryOwner_def)
  then show "configured skipOracle owner_node" "owns_registry owner_node"
    by (simp_all add: configured_def owns_registry_def good_def owner_node_param bend_fields owner_node_valid
        ZERO_ADDRESS_def, simp add: owner_node_def)
  show "live owner_node" by (simp add: live_def owner_node_def demo_def)
qed

theorem bend_mainnet_completes_witness:
  "\<exists>w'. bend_mainnet False False False owner_node = (Inr (), w') \<and> market_complete False w'"
  using bend_mainnet_completes [OF owner_node_ready(1) owner_node_cooperates owner_node_ready(2)]
    owner_node_ready(3) by blast

end
