(* ===== verification/AdminTasks.thy ===== *)
theory AdminTasks
  imports Params
begin

text \<open>
  The operating tasks \<open>tasks/misc/pool-admin.ts\<close> and \<open>tasks/misc/oracle-admin.ts\<close>: pausing the pool,
  activating and freezing reserves and NFTs, updating their configuration, and the settings of the
  oracles. Parameters come from the command line as strings, or from a caller as any value.
\<close>

section \<open>The pool\<close>

text \<open>\<open>let want = true; if (state == 0 || state == false) want = false;\<close>\<close>

definition want_state :: "jsval \<Rightarrow> bool" where
  "want_state state = (if js_eq_num state 0 \<or> js_eq_bool state False then False else True)"

definition set_pause :: "string \<Rightarrow> jsval \<Rightarrow> unit task" where
  "set_pause pool state =
     (let wantPause = want_state state in
     tbind (getLendPoolAddressesProvider None) (\<lambda>addressesProvider.
     tbind (view addressesProvider ''getEmergencyAdmin'' []) (\<lambda>emAdmin.
     tbind (view addressesProvider ''getLendPoolConfigurator'' []) (\<lambda>configuratorAddress.
     tbind (getLendPoolConfiguratorProxy (getter_arg configuratorAddress)) (\<lambda>lendPoolConfiguratorProxy.
     tbind (view addressesProvider ''getLendPool'' []) (\<lambda>lendPoolAddress.
     tbind (getLendPool (getter_arg lendPoolAddress)) (\<lambda>lendPoolProxy.
     tbind (view lendPoolProxy ''paused'' []) (\<lambda>currentPause.
     if js_eq_bool currentPause wantPause then tret ()
     else
       tseq (send (as_signer (Some (js_str emAdmin)) lendPoolConfiguratorProxy) ''setPoolPause'' [JBool wantPause])
       (tseq (view lendPoolProxy ''paused'' []) (tret ()))))))))))"

definition update_nfts_config :: "string \<Rightarrow> unit task" where
  "update_nfts_config pool =
     tbind (loadPoolConfig pool) (\<lambda>poolConfig.
     tbind (getLendPoolAddressesProvider None) (\<lambda>addressesProvider.
     tbind (view addressesProvider ''getPoolAdmin'' []) (\<lambda>poolAdminAddress.
     tbind (assets_on (NftsAssets poolConfig) no_nft_assets) (\<lambda>nftsAssets.
     configureNftsByHelper (NftsConfig poolConfig) nftsAssets (js_str poolAdminAddress)))))"

definition update_reserves_config :: "string \<Rightarrow> unit task" where
  "update_reserves_config pool =
     tbind (loadPoolConfig pool) (\<lambda>poolConfig.
     tbind (getLendPoolAddressesProvider None) (\<lambda>addressesProvider.
     tbind (view addressesProvider ''getPoolAdmin'' []) (\<lambda>poolAdminAddress.
     tbind (assets_on (ReserveAssets poolConfig) no_reserve_assets) (\<lambda>reservesAssets.
     configureReservesByHelper (ReservesConfig poolConfig) reservesAssets (js_str poolAdminAddress)))))"

text \<open>
  The four switches differ in the view they read, the flag of its answer they compare, and the two
  methods of the configurator: \<open>on\<close> sets the flag, \<open>off\<close> clears it.
\<close>

definition pool_switch ::
  "string \<Rightarrow> string \<Rightarrow> string \<Rightarrow> string \<Rightarrow> string \<Rightarrow> jsval \<Rightarrow> unit task" where
  "pool_switch reader flag on off asset state =
     (let wantState = want_state state in
     tbind (getLendPoolAddressesProvider None) (\<lambda>addressesProvider.
     tbind (view addressesProvider ''getPoolAdmin'' []) (\<lambda>pmAdmin.
     tbind (view addressesProvider ''getLendPoolConfigurator'' []) (\<lambda>configuratorAddress.
     tbind (getLendPoolConfiguratorProxy (getter_arg configuratorAddress)) (\<lambda>lendPoolConfiguratorProxy.
     tbind (view addressesProvider ''getBendDataProvider'' []) (\<lambda>dataProviderAddress.
     tbind (getBendProtocolDataProvider (getter_arg dataProviderAddress)) (\<lambda>bendDataProvider.
     tbind (view bendDataProvider reader [JStr asset]) (\<lambda>config.
     tbind (struct_field flag config) (\<lambda>currentState.
     if js_eq_bool currentState wantState then tret ()
     else
       tseq (send (as_signer (Some (js_str pmAdmin)) lendPoolConfiguratorProxy)
         (if wantState then on else off) [JStr asset])
       (tbind (view bendDataProvider reader [JStr asset]) (\<lambda>newConfig.
       tseq (struct_field flag newConfig) (tret ()))))))))))))"

definition set_reserve_active :: "string \<Rightarrow> string \<Rightarrow> jsval \<Rightarrow> unit task" where
  "set_reserve_active pool asset state =
     pool_switch ''getReserveConfigurationData'' ''isActive'' ''activateReserve'' ''deactivateReserve'' asset state"

definition set_reserve_frozen :: "string \<Rightarrow> string \<Rightarrow> jsval \<Rightarrow> unit task" where
  "set_reserve_frozen pool asset state =
     pool_switch ''getReserveConfigurationData'' ''isFrozen'' ''freezeReserve'' ''unfreezeReserve'' asset state"

definition set_nft_active :: "string \<Rightarrow> string \<Rightarrow> jsval \<Rightarrow> unit task" where
  "set_nft_active pool asset state =
     pool_switch ''getNftConfigurationData'' ''isActive'' ''activateNft'' ''deactivateNft'' asset state"

definition set_nft_frozen :: "string \<Rightarrow> string \<Rightarrow> jsval \<Rightarrow> unit task" where
  "set_nft_frozen pool asset state =
     pool_switch ''getNftConfigurationData'' ''isFrozen'' ''freezeNft'' ''unfreezeNft'' asset state"

section \<open>The oracles\<close>

definition set_oracle_proxy :: "string \<Rightarrow> jsval \<Rightarrow> string \<Rightarrow> unit task" where
  "set_oracle_proxy pool type proxy =
     tbind (loadPoolConfig pool) (\<lambda>poolConfig.
     tbind (getLendPoolAddressesProvider None) (\<lambda>addressesProvider.
     tbind (view addressesProvider ''owner'' []) (\<lambda>owner.
     tbind (getEthersSignerByAddress (js_str owner)) (\<lambda>ownerSigner.
     if js_eq_num type 1 then send (as_signer ownerSigner addressesProvider) ''setNFTOracle'' [JStr proxy]
     else if js_eq_num type 2 then send (as_signer ownerSigner addressesProvider) ''setReserveOracle'' [JStr proxy]
     else tthrow (JsError ''invalid type'')))))"

text \<open>\<open>nftSymbol.length <= 0\<close>\<close>

definition no_symbol :: "jsval \<Rightarrow> bool task" where
  "no_symbol nftSymbol = (case nftSymbol of
       JUndef \<Rightarrow> tthrow JsTypeError
     | JStr s \<Rightarrow> tret (length s \<le> 0)
     | JArr vs \<Rightarrow> tret (length vs \<le> 0)
     | _ \<Rightarrow> tret False)"

definition check_new_asset :: "contract \<Rightarrow> string \<Rightarrow> unit task" where
  "check_new_asset nftOracle asset =
     tbind (view nftOracle ''nftPriceFeedMap'' [JStr asset]) (\<lambda>isExisted.
     if js_truthy isExisted
     then tthrow (JsError (''Asset '' @ asset @ '' existed in oracle already''))
     else
       tbind (getIErc721Detailed (Some asset)) (\<lambda>nftContract.
       tbind (view nftContract ''symbol'' []) (\<lambda>nftSymbol.
       tbind (no_symbol nftSymbol) (\<lambda>missing.
       twhen missing (tthrow (JsError (''Asset '' @ asset @ '' has no symbol'')))))))"

definition set_nft_assets :: "string \<Rightarrow> string \<Rightarrow> unit task" where
  "set_nft_assets pool assets =
     tbind (loadPoolConfig pool) (\<lambda>poolConfig.
     tbind (getNFTOracle None) (\<lambda>nftOracle.
     tbind (view nftOracle ''owner'' []) (\<lambda>owner.
     tbind (getEthersSignerByAddress (js_str owner)) (\<lambda>ownerSigner.
     let assetsArray = split_at (CHR '','') assets in
     tseq (tfor assetsArray (check_new_asset nftOracle))
     (send (as_signer ownerSigner nftOracle) ''setAssets'' [JArr (map JStr assetsArray)])))))"

definition set_price_feed_admin :: "string \<Rightarrow> string \<Rightarrow> unit task" where
  "set_price_feed_admin pool feedAdmin =
     tbind (loadPoolConfig pool) (\<lambda>poolConfig.
     tbind (getLendPoolAddressesProvider None) (\<lambda>addressesProvider.
     tbind (view addressesProvider ''getNFTOracle'' []) (\<lambda>oracleAddress.
     tbind (getNFTOracle (getter_arg oracleAddress)) (\<lambda>nftOracleProxy.
     tseq (view nftOracleProxy ''priceFeedAdmin'' [])
     (tseq (send nftOracleProxy ''setPriceFeedAdmin'' [JStr feedAdmin])
     (tseq (view nftOracleProxy ''priceFeedAdmin'' []) (tret ())))))))"

text \<open>\<open>Object.keys(undefined)\<close> is a \<open>TypeError\<close>; a symbol without a price passes \<open>undefined\<close>.\<close>

definition feed_init_nft_price :: "string \<Rightarrow> unit task" where
  "feed_init_nft_price pool =
     tbind (loadPoolConfig pool) (\<lambda>poolConfig.
     tbind (getLendPoolAddressesProvider None) (\<lambda>addressesProvider.
     tbind (view addressesProvider ''getNFTOracle'' []) (\<lambda>oracleAddress.
     tbind (getNFTOracle (getter_arg oracleAddress)) (\<lambda>nftOracleProxy.
     tbind getNowTimeInSeconds (\<lambda>latestTime.
     tbind (tget (\<lambda>w. getParamPerNetwork (procenv w) (NftsAssets poolConfig) (net_name w))) (\<lambda>nftsAssets.
     tbind (view nftOracleProxy ''priceFeedAdmin'' []) (\<lambda>feedAdminAddress.
     tbind (getEthersSignerByAddress (js_str feedAdminAddress)) (\<lambda>feedAdminSigner.
     case nftsAssets of None \<Rightarrow> tthrow JsTypeError | Some assets \<Rightarrow>
     tfor (map fst assets) (\<lambda>nftSymbol.
       send (as_signer feedAdminSigner nftOracleProxy) ''setAssetData''
         [opt_val (oget assets nftSymbol), opt_val (oget MOCK_NFT_AGGREGATORS_PRICES nftSymbol)])))))))))"

definition add_usd_eth_asset :: "string \<Rightarrow> unit task" where
  "add_usd_eth_asset pool =
     tbind (loadPoolConfig pool) (\<lambda>poolConfig.
     tbind (getLendPoolAddressesProvider None) (\<lambda>addressesProvider.
     tbind (view addressesProvider ''getReserveOracle'' []) (\<lambda>oracleAddress.
     tbind (getReserveOracle (getter_arg oracleAddress)) (\<lambda>oracle1.
     tbind (view oracle1 ''owner'' []) (\<lambda>ownerAddress.
     tbind (assets_on (ReserveAggregators poolConfig) JsTypeError) (\<lambda>aggregators.
     tseq (send (as_signer (Some (js_str ownerAddress)) oracle1) ''addAggregator''
       [JStr USD_ADDRESS, opt_val (oget aggregators ''USD'')])
     (tbind (view oracle1 ''getAssetPrice'' [JStr USD_ADDRESS]) (\<lambda>price.
     tseq (to_string price) (tret ())))))))))"

end
