(* ===== verification/HelperTasks.thy ===== *)
theory HelperTasks
  imports AdminTasks
begin

text \<open>
  The tasks of \<open>tasks/helpers\<close>: adding an NFT or a reserve to a running pool or to the oracle, encoding
  the same calls for a multisignature wallet, and deploying interest rate contracts and price
  aggregators. What \<open>helpers:add-reserve-to-pool\<close> and the encoding tasks compute is only printed: they
  return it.
\<close>

section \<open>NFTs\<close>

definition add_nft_to_oracle :: "string \<Rightarrow> string \<Rightarrow> unit task" where
  "add_nft_to_oracle pool asset =
     tbind (loadPoolConfig pool) (\<lambda>poolConfig.
     tbind (getLendPoolAddressesProvider None) (\<lambda>addressesProvider.
     tbind (view addressesProvider ''getNFTOracle'' []) (\<lambda>oracleAddress.
     tbind (getNFTOracle (getter_arg oracleAddress)) (\<lambda>nftOracle.
     tbind (view nftOracle ''owner'' []) (\<lambda>owner.
     tbind (getEthersSignerByAddress (js_str owner)) (\<lambda>ownerSigner.
     tbind (view nftOracle ''priceFeedAdmin'' []) (\<lambda>feedAdmin.
     tbind (getEthersSignerByAddress (js_str feedAdmin)) (\<lambda>adminSigner.
     tbind (view nftOracle ''nftPriceFeedMap'' [JStr asset]) (\<lambda>isExisted.
     if js_truthy isExisted then tthrow (JsError ''Asset existed in oracle already'')
     else
       tbind (getIErc721Detailed (Some asset)) (\<lambda>nftContract.
       tbind (view nftContract ''symbol'' []) (\<lambda>nftSymbol.
       case oget (AllNftsInitialPrices (Mocks poolConfig)) (js_str nftSymbol) of
         None \<Rightarrow> tthrow (JsError ''Invalid nft init price in pool config'')
       | Some nftPrice \<Rightarrow> send (as_signer ownerSigner nftOracle) ''addAsset'' [JStr asset])))))))))))"

text \<open>\<open>bNftProxy == undefined || !notFalsyOrZeroAddress(bNftProxy)\<close>\<close>

definition require_bnft :: "contract \<Rightarrow> string \<Rightarrow> unit task" where
  "require_bnft bnftRegistry asset =
     tbind (view bnftRegistry ''getBNFTAddresses'' [JStr asset]) (\<lambda>addresses.
     tbind (struct_field ''bNftProxy'' addresses) (\<lambda>bNftProxy.
     tbind (tget (\<lambda>w. notFalsyOrZeroAddress w (getter_arg bNftProxy))) (\<lambda>valid.
     twhen (\<not> valid) (tthrow (JsError ''The BNFT of asset is not created'')))))"

text \<open>The parameters of the strategy, if one is named, or those of the symbol.\<close>

definition chosen_params :: "'a jsobj \<Rightarrow> 'a jsobj \<Rightarrow> string option \<Rightarrow> string \<Rightarrow> js_error \<Rightarrow> 'a task" where
  "chosen_params strategies byName strategy_name symbol missing =
     (case (if truthy_opt strategy_name then oget strategies (the strategy_name) else oget byName symbol) of
        None \<Rightarrow> tthrow missing | Some p \<Rightarrow> tret p)"

definition no_strategy :: js_error where
  "no_strategy = JsError ''The strategy of asset is not exist''"

definition nft_init_input :: "string \<Rightarrow> jsval" where
  "nft_init_input asset = JObj [(''underlyingAsset'', JStr asset)]"

definition add_nft_to_pool :: "string \<Rightarrow> string \<Rightarrow> string option \<Rightarrow> unit task" where
  "add_nft_to_pool pool asset strategy_name =
     tbind (loadPoolConfig pool) (\<lambda>poolConfig.
     tbind (getLendPoolAddressesProvider None) (\<lambda>addressesProvider.
     tbind (view addressesProvider ''getPoolAdmin'' []) (\<lambda>poolAdmin.
     tbind (getEthersSignerByAddress (js_str poolAdmin)) (\<lambda>poolAdminSigner.
     tbind (view addressesProvider ''getLendPoolConfigurator'' []) (\<lambda>configuratorAddress.
     tbind (getLendPoolConfiguratorProxy (getter_arg configuratorAddress)) (\<lambda>lendPoolConfiguratorProxy.
     tbind (view addressesProvider ''getBNFTRegistry'' []) (\<lambda>bnftRegistryProxyAddress.
     tbind (getBNFTRegistryProxy (getter_arg bnftRegistryProxyAddress)) (\<lambda>bnftRegistry.
     tseq (require_bnft bnftRegistry asset)
     (tbind (view addressesProvider ''getAddress'' [JStr ADDRESS_ID_WETH_GATEWAY]) (\<lambda>gatewayAddress.
     tbind (getWETHGateway (getter_arg gatewayAddress)) (\<lambda>wethGateway.
     tbind (getIErc721Detailed (Some asset)) (\<lambda>nftContract.
     tbind (view nftContract ''symbol'' []) (\<lambda>nftSymbol.
     tbind (chosen_params strategyNftParams (NftsConfig poolConfig) strategy_name (js_str nftSymbol) no_strategy)
       (\<lambda>nftParam.
     let configurator = as_signer poolAdminSigner lendPoolConfiguratorProxy in
     tseq (send configurator ''batchInitNft'' [JArr [nft_init_input asset]])
     (tseq (send configurator ''configureNftAsCollateral''
       [JStr asset, JStr (baseLTVAsCollateral nftParam), JStr (liquidationThreshold nftParam),
        JStr (liquidationBonus nftParam)])
     (tseq (send configurator ''batchConfigNft'' [JArr [config_nft_input asset nftParam]])
     (send wethGateway ''authorizeLendPoolNFT'' [JArr [JStr asset]])))))))))))))))))"

text \<open>The encoded calls that \<open>helpers:encode-add-nft-to-pool\<close> prints.\<close>

definition encode_add_nft_to_pool :: "string \<Rightarrow> string \<Rightarrow> string option \<Rightarrow> (jsval \<times> jsval) task" where
  "encode_add_nft_to_pool pool asset strategy_name =
     tbind (loadPoolConfig pool) (\<lambda>poolConfig.
     tbind (getLendPoolAddressesProvider None) (\<lambda>addressesProvider.
     tbind (view addressesProvider ''getPoolAdmin'' []) (\<lambda>poolAdmin.
     tbind (getEthersSignerByAddress (js_str poolAdmin)) (\<lambda>poolAdminSigner.
     tbind (view addressesProvider ''getLendPoolConfigurator'' []) (\<lambda>configuratorAddress.
     tbind (getLendPoolConfiguratorProxy (getter_arg configuratorAddress)) (\<lambda>lendPoolConfiguratorProxy.
     tbind (view addressesProvider ''getBNFTRegistry'' []) (\<lambda>bnftRegistryProxyAddress.
     tbind (getBNFTRegistryProxy (getter_arg bnftRegistryProxyAddress)) (\<lambda>bnftRegistry.
     tseq (require_bnft bnftRegistry asset)
     (tbind (getIErc721Detailed (Some asset)) (\<lambda>nftContract.
     tbind (view nftContract ''symbol'' []) (\<lambda>nftSymbol.
     tbind (chosen_params strategyNftParams (NftsConfig poolConfig) strategy_name (js_str nftSymbol) no_strategy)
       (\<lambda>nftParam.
     tbind (encodeFunctionData ''batchInitNft'' [JArr [nft_init_input asset]]) (\<lambda>batchInitNftEncodeData.
     tbind (encodeFunctionData ''batchConfigNft'' [JArr [config_nft_input asset nftParam]])
       (\<lambda>batchCfgNftEncodeData.
     tret (batchInitNftEncodeData, batchCfgNftEncodeData)))))))))))))))"

definition encode_authorize_lendpool_nft :: "string \<Rightarrow> string \<Rightarrow> jsval task" where
  "encode_authorize_lendpool_nft pool assets =
     tbind (loadPoolConfig pool) (\<lambda>poolConfig.
     tbind (getLendPoolAddressesProvider None) (\<lambda>addressesProvider.
     tbind (view addressesProvider ''getAddress'' [JStr ADDRESS_ID_WETH_GATEWAY]) (\<lambda>gatewayAddress.
     tbind (getWETHGateway (getter_arg gatewayAddress)) (\<lambda>wethGateway.
     encodeFunctionData ''authorizeLendPoolNFT'' [JArr (map JStr (split_at (CHR '','') assets))]))))"

section \<open>Reserves\<close>

text \<open>\<open>helpers:add-reserve-to-pool\<close>; the transactions it prepares are commented out in the source.\<close>

definition add_reserve_to_pool :: "string \<Rightarrow> string \<Rightarrow> string \<Rightarrow> string option \<Rightarrow> (jsval \<times> jsval) task" where
  "add_reserve_to_pool pool asset interest strategy_name =
     tbind (loadPoolConfig pool) (\<lambda>poolConfig.
     tbind (getLendPoolAddressesProvider None) (\<lambda>addressesProvider.
     tbind (view addressesProvider ''getPoolAdmin'' []) (\<lambda>poolAdmin.
     tbind (getEthersSignerByAddress (js_str poolAdmin)) (\<lambda>poolAdminSigner.
     tbind (view addressesProvider ''getLendPoolConfigurator'' []) (\<lambda>configuratorAddress.
     tbind (getLendPoolConfiguratorProxy (getter_arg configuratorAddress)) (\<lambda>lendPoolConfiguratorProxy.
     tbind (tget (\<lambda>w. addressParam w (ReserveFactorCollectorAddress poolConfig))) (\<lambda>treasuryAddress.
     tbind (view addressesProvider ''getAddress'' [JStr ADDRESS_ID_PUNK_GATEWAY]) (\<lambda>gatewayAddress.
     tbind (getPunkGateway (getter_arg gatewayAddress)) (\<lambda>punkGateway.
     tbind (getBToken None) (\<lambda>genericBTokenImpl.
     tbind (getDebtToken None) (\<lambda>genericDebtTokenImpl.
     tbind (getIErc20Detailed (Some asset)) (\<lambda>reserveContract.
     tbind (view reserveContract ''name'' []) (\<lambda>reserveName.
     tbind (view reserveContract ''symbol'' []) (\<lambda>reserveSymbol.
     tbind (view reserveContract ''decimals'' []) (\<lambda>decimals.
     tbind (chosen_params strategyReserveParams (ReservesConfig poolConfig) strategy_name (js_str reserveSymbol)
       no_strategy) (\<lambda>reserveParam.
     tbind (to_string decimals) (\<lambda>decimalsString.
     if reserveDecimals reserveParam \<noteq> decimalsString
     then tthrow (JsError ''The decimals of asset is not match'')
     else
       tbind (getInterestRate (Some interest)) (\<lambda>rateInstance.
       let tn = token_naming_of poolConfig; symbol = js_str reserveSymbol in
       tret (JObj [
           (''bTokenImpl'', addr genericBTokenImpl),
           (''debtTokenImpl'', addr genericDebtTokenImpl),
           (''underlyingAssetDecimals'', JStr (reserveDecimals reserveParam)),
           (''interestRateAddress'', addr rateInstance),
           (''underlyingAsset'', JStr asset),
           (''treasury'', opt_val treasuryAddress),
           (''underlyingAssetName'', reserveName),
           (''bTokenName'', JStr (bTokenNamePrefix tn @ '' '' @ symbol)),
           (''bTokenSymbol'', JStr (bTokenSymbolPrefix tn @ symbol)),
           (''debtTokenName'', JStr (debtTokenNamePrefix tn @ '' '' @ symbol)),
           (''debtTokenSymbol'', JStr (debtTokenSymbolPrefix tn @ symbol))],
         config_reserve_input asset reserveParam)))))))))))))))))))"

section \<open>Interest rates and price aggregators\<close>

text \<open>\<open>addressesProviderRaw.connect(await getEthersSignerByAddress(await addressesProviderRaw.owner()))\<close>\<close>

definition provider_as_owner :: "contract task" where
  "provider_as_owner =
     tbind (getLendPoolAddressesProvider None) (\<lambda>addressesProviderRaw.
     tbind (view addressesProviderRaw ''owner'' []) (\<lambda>owner.
     tbind (getEthersSignerByAddress (js_str owner)) (\<lambda>providerOwnerSigner.
     tret (as_signer providerOwnerSigner addressesProviderRaw))))"

definition deploy_new_interest_rate_for_symbol ::
  "bool \<Rightarrow> string \<Rightarrow> string \<Rightarrow> string option \<Rightarrow> unit task" where
  "deploy_new_interest_rate_for_symbol verify pool symbol strategy_name =
     tbind (loadPoolConfig pool) (\<lambda>poolConfig.
     tbind provider_as_owner (\<lambda>addressesProvider.
     tbind (chosen_params strategyReserveParams (ReservesConfig poolConfig) strategy_name symbol
       (JsError ''The strategy of symbol is not exist'')) (\<lambda>reserveParam.
     let rateParams = strategy reserveParam in
     tseq (deployInterestRateWithID (strat_name rateParams)
       (strategy_args (c_address addressesProvider) rateParams) verify)
     (tret ()))))"

text \<open>\<open>new BigNumber(rate).multipliedBy(oneRay).toFixed()\<close>\<close>

definition in_ray :: "string \<Rightarrow> string" where
  "in_ray rate = (case bn_of rate of None \<Rightarrow> ''NaN'' | Some r \<Rightarrow> toFixed (r * oneRay))"

definition deploy_new_interest_rate ::
  "bool \<Rightarrow> string \<Rightarrow> string \<Rightarrow> string \<Rightarrow> string \<Rightarrow> string \<Rightarrow> string \<Rightarrow> unit task" where
  "deploy_new_interest_rate verify pool i optUtilRate baseRate rateSlope1 rateSlope2 =
     tbind (loadPoolConfig pool) (\<lambda>poolConfig.
     tbind provider_as_owner (\<lambda>addressesProvider.
     tseq (deployInterestRateWithID i
       [c_address addressesProvider, in_ray optUtilRate, in_ray baseRate, in_ray rateSlope1, in_ray rateSlope2]
       verify)
     (tret ())))"

definition deploy_wsteth_price_aggregator :: "bool \<Rightarrow> string \<Rightarrow> string \<Rightarrow> string \<Rightarrow> unit task" where
  "deploy_wsteth_price_aggregator verify pool stethagg wsteth =
     tseq run_compile
     (tbind (loadPoolConfig pool) (\<lambda>poolConfig.
     tseq (deployWstETHPriceAggregator stethagg wsteth verify) (tret ())))"

end
