(* ===== verification/UpgradeTasks.thy ===== *)
theory UpgradeTasks
  imports HelperTasks
begin

text \<open>
  \<open>tasks/misc/new-implementation.ts\<close>: deploying a new implementation of a contract given by its name,
  upgrading a proxy to it, and upgrading every debt token at once; with \<open>transfer-owner.ts\<close>,
  \<open>verify-sc.ts\<close>, \<open>hacker-task.ts\<close> and \<open>set-bre.ts\<close>. The identifiers of the enumeration \<open>eContractid\<close>
  have their own names as values, so \<open>eContractid[name]\<close> finds the identifier with that value.
\<close>

definition contract_id_of :: "string \<Rightarrow> eContractid option" where
  "contract_id_of name = find (\<lambda>i. cid i = name) all_contract_ids"

text \<open>\<open>insertContractAddressInDb(eContractid[name], address)\<close>: an unknown name is the key \<open>undefined\<close>.\<close>

definition insert_by_name :: "string \<Rightarrow> string \<Rightarrow> unit task" where
  "insert_by_name name address = (case contract_id_of name of
       Some i \<Rightarrow> insertContractAddressInDb i address
     | None \<Rightarrow> rawInsertContractAddressInDb ''undefined'' address)"

definition upgrade_implementation :: "string \<Rightarrow> string \<Rightarrow> string \<Rightarrow> string \<Rightarrow> string option \<Rightarrow> unit task" where
  "upgrade_implementation pool name proxy impl admin =
     tbind (loadPoolConfig pool) (\<lambda>poolConfig.
     tbind (getBendUpgradeableProxy proxy) (\<lambda>bendProxy.
     tbind (valid_proxy_admin (if truthy_opt admin then the admin else cid C_BendProxyAdminPool)
       ''Invalid pool proxy admin in config'') (\<lambda>proxyAdmin.
     tbind (owner_signer proxyAdmin) (\<lambda>proxyAdminOwnerSigner.
     tseq (send (as_signer proxyAdminOwnerSigner proxyAdmin) ''upgrade'' [addr bendProxy, JStr impl])
     (insert_by_name name proxy)))))"

section \<open>One block per contract name\<close>

text \<open>The contracts the addresses provider owns a proxy for.\<close>

definition new_provider_impl ::
  "contract \<Rightarrow> contract task \<Rightarrow> string \<Rightarrow> string \<Rightarrow> eContractid \<Rightarrow> bool \<Rightarrow> unit task" where
  "new_provider_impl addressesProvider deployImplementation setter reader i upgrade =
     tbind deployImplementation (\<lambda>impl.
     tseq (twhen upgrade (send addressesProvider setter [addr impl, JArr []]))
     (tbind (view addressesProvider reader []) (\<lambda>proxyAddress.
     insertContractAddressInDb i (js_str proxyAddress))))"

text \<open>The contracts behind a proxy whose admin is the pool's: oracles and gateways.\<close>

definition new_proxied_impl ::
  "string \<Rightarrow> contract task \<Rightarrow> jsval task \<Rightarrow> eContractid \<Rightarrow> bool \<Rightarrow> unit task" where
  "new_proxied_impl pool deployImplementation proxyOf i upgrade =
     tbind deployImplementation (\<lambda>impl.
     tbind proxyOf (\<lambda>proxyAddress.
     tseq (insertContractAddressInDb i (js_str proxyAddress))
     (twhen upgrade
       (upgrade_implementation pool (cid i) (js_str proxyAddress) (c_address impl) None))))"

definition new_weth_gateway :: "ICommonConfiguration \<Rightarrow> contract \<Rightarrow> bool \<Rightarrow> string \<Rightarrow> bool \<Rightarrow> unit task" where
  "new_weth_gateway poolConfig addressesProvider verify pool upgrade =
     tseq (getWrappedNativeTokenAddress poolConfig)
     (new_proxied_impl pool (deployWETHGateway verify)
       (view addressesProvider ''getAddress'' [JStr ADDRESS_ID_WETH_GATEWAY]) C_WETHGateway upgrade)"

definition new_punk_gateway :: "ICommonConfiguration \<Rightarrow> contract \<Rightarrow> bool \<Rightarrow> string \<Rightarrow> bool \<Rightarrow> unit task" where
  "new_punk_gateway poolConfig addressesProvider verify pool upgrade =
     tseq (getWETHGateway None)
     (tbind (getCryptoPunksMarketAddress poolConfig) (\<lambda>punkAddress.
     tseq (getWrappedPunkTokenAddress poolConfig punkAddress)
     (new_proxied_impl pool (deployPunkGateway verify)
       (view addressesProvider ''getAddress'' [JStr ADDRESS_ID_PUNK_GATEWAY]) C_PunkGateway upgrade)))"

definition new_koda_gateway :: "bool \<Rightarrow> string \<Rightarrow> bool \<Rightarrow> unit task" where
  "new_koda_gateway verify pool upgrade =
     tbind (getContractAddressInDb (cid C_KodaGateway)) (\<lambda>proxyAddress.
     tbind (deployWrapperGateway (cid C_KodaGateway) verify) (\<lambda>kodaGatewayImpl.
     tseq (insertContractAddressInDb C_KodaGateway proxyAddress)
     (twhen upgrade (upgrade_implementation pool (cid C_KodaGateway) proxyAddress (c_address kodaGatewayImpl)
       (Some (cid C_BendProxyAdminWTL))))))"

text \<open>The data providers, which are not upgradeable: a new one is set at the provider.\<close>

definition new_data_provider :: "contract \<Rightarrow> contract task \<Rightarrow> string \<Rightarrow> bool \<Rightarrow> unit task" where
  "new_data_provider addressesProvider deployImplementation setter upgrade =
     tbind deployImplementation (\<lambda>contractImpl.
     twhen upgrade (send addressesProvider setter [addr contractImpl]))"

text \<open>
  \<open>dev:deploy-new-implementation\<close>. \<open>deployReserveOracle(verify)\<close> passes the flag as the unused first
  parameter, so that deployment is not verified.
\<close>

definition new_implementation_blocks :: "bool \<Rightarrow> string \<Rightarrow> string \<Rightarrow> bool \<Rightarrow> ICommonConfiguration \<Rightarrow> contract \<Rightarrow>
    unit task" where
  "new_implementation_blocks verify pool name upgrade poolConfig addressesProvider =
     tseq (twhen (name = ''LendPool'')
       (tseq (deployLendPoolLibraries verify)
       (new_provider_impl addressesProvider (deployLendPool verify) ''setLendPoolImpl'' ''getLendPool''
         C_LendPool upgrade)))
     (tseq (twhen (name = ''LendPoolConfigurator'')
       (tseq (deployConfiguratorLibraries verify)
       (new_provider_impl addressesProvider (deployLendPoolConfigurator verify) ''setLendPoolConfiguratorImpl''
         ''getLendPoolConfigurator'' C_LendPoolConfigurator upgrade)))
     (tseq (twhen (name = ''LendPoolLoan'')
       (new_provider_impl addressesProvider (deployLendPoolLoan verify) ''setLendPoolLoanImpl'' ''getLendPoolLoan''
         C_LendPoolLoan upgrade))
     (tseq (twhen (name = ''ReserveOracle'')
       (new_proxied_impl pool (deployReserveOracle (JBool verify) False)
         (view addressesProvider ''getReserveOracle'' []) C_ReserveOracle upgrade))
     (tseq (twhen (name = ''NFTOracle'')
       (new_proxied_impl pool (deployNFTOracle verify)
         (view addressesProvider ''getNFTOracle'' []) C_NFTOracle upgrade))
     (tseq (twhen (name = ''WETHGateway'')
       (new_weth_gateway poolConfig addressesProvider verify pool upgrade))
     (tseq (twhen (name = ''PunkGateway'')
       (new_punk_gateway poolConfig addressesProvider verify pool upgrade))
     (tseq (twhen (name = ''KodaGateway'') (new_koda_gateway verify pool upgrade))
     (tseq (twhen (name = ''BendProtocolDataProvider'')
       (new_data_provider addressesProvider
         (deployBendProtocolDataProvider (c_address addressesProvider) verify) ''setBendDataProvider'' upgrade))
     (tseq (twhen (name = ''UiPoolDataProvider'')
       (tbind (view addressesProvider ''getReserveOracle'' []) (\<lambda>reserveOracle.
       tbind (view addressesProvider ''getNFTOracle'' []) (\<lambda>nftOracle.
       new_data_provider addressesProvider
         (deployUiPoolDataProvider (js_str reserveOracle) (js_str nftOracle) verify) ''setUIDataProvider'' upgrade))))
     (tseq (twhen (name = ''WalletBalancerProvider'')
       (new_data_provider addressesProvider (deployWalletBalancerProvider verify) ''setWalletBalanceProvider''
         upgrade))
     (twhen (name = ''BendCollector'')
       (tseq (deployBendCollector (JArr []) verify) (tret ())))))))))))))"

definition deploy_new_implementation :: "bool \<Rightarrow> string \<Rightarrow> string \<Rightarrow> bool \<Rightarrow> unit task" where
  "deploy_new_implementation verify pool name upgrade =
     tseq run_compile
     (tbind (loadPoolConfig pool) (\<lambda>poolConfig.
     tbind provider_as_owner (\<lambda>addressesProvider.
     new_implementation_blocks verify pool name upgrade poolConfig addressesProvider)))"

section \<open>Debt tokens\<close>

definition reserve_tokens :: "jsval \<Rightarrow> jsval list task" where
  "reserve_tokens v = (case v of JArr rs \<Rightarrow> tret rs | _ \<Rightarrow> tthrow JsTypeError)"

text \<open>One input per reserve; the symbol and the debt token of the reserve are printed.\<close>

definition debt_token_input :: "contract \<Rightarrow> jsval \<Rightarrow> jsval task" where
  "debt_token_input debtTokenImpl reserve =
     tseq (struct_field ''tokenSymbol'' reserve)
     (tbind (struct_field ''tokenAddress'' reserve) (\<lambda>tokenAddress.
     tseq (struct_field ''debtTokenAddress'' reserve)
     (tret (JObj [(''asset'', tokenAddress), (''implementation'', addr debtTokenImpl),
       (''encodedCallData'', JArr [])]))))"

definition upgrade_all_debtokens :: "bool \<Rightarrow> string \<Rightarrow> unit task" where
  "upgrade_all_debtokens verify pool =
     tbind (loadPoolConfig pool) (\<lambda>poolConfig.
     tbind (getLendPoolAddressesProvider None) (\<lambda>addressesProviderRaw.
     tbind (view addressesProviderRaw ''getPoolAdmin'' []) (\<lambda>poolAdminAddress.
     tbind (getEthersSignerByAddress (js_str poolAdminAddress)) (\<lambda>poolAdminSigner.
     tbind (view addressesProviderRaw ''getLendPoolConfigurator'' []) (\<lambda>configuratorAddress.
     tbind (getLendPoolConfiguratorProxy (getter_arg configuratorAddress)) (\<lambda>lendPoolConfigurator.
     tbind (view addressesProviderRaw ''getBendDataProvider'' []) (\<lambda>dataProviderAddress.
     tbind (getBendProtocolDataProvider (getter_arg dataProviderAddress)) (\<lambda>protocolDataProvider.
     tbind (deployGenericDebtToken verify) (\<lambda>debtTokenImpl.
     tbind (view protocolDataProvider ''getAllReservesTokenDatas'' []) (\<lambda>answer.
     tbind (reserve_tokens answer) (\<lambda>allReserves.
     tbind (tfold allReserves (\<lambda>reserve inputs.
       tbind (debt_token_input debtTokenImpl reserve) (\<lambda>input. tret (inputs @ [input]))) []) (\<lambda>inputs.
     send (as_signer poolAdminSigner lendPoolConfigurator) ''updateDebtToken'' [JArr inputs]))))))))))))"

section \<open>Other operations on one contract\<close>

definition transfer_owner :: "bool \<Rightarrow> string \<Rightarrow> string \<Rightarrow> string \<Rightarrow> unit task" where
  "transfer_owner verify pool ownable target =
     tbind (loadPoolConfig pool) (\<lambda>poolConfig.
     tbind (getLendPoolAddressesProvider None) (\<lambda>addressesProvider.
     tbind getDeploySigner (\<lambda>signer.
     let contractInst = connect ownable signer in
     tbind (view contractInst ''owner'' []) (\<lambda>currentOwnerAddress.
     tbind (getEthersSignerByAddress (js_str currentOwnerAddress)) (\<lambda>currentOwnerSigner.
     send (as_signer currentOwnerSigner contractInst) ''transferOwnership'' [JStr target])))))"

definition verify_sc :: "string \<Rightarrow> string list \<Rightarrow> string option \<Rightarrow> unit task" where
  "verify_sc address constructorArguments libraries =
     tseq checkVerification
     (verifyEtherscanContract address (map JStr constructorArguments) libraries)"

definition deploy_lendpool_selfdestruct :: "string \<Rightarrow> unit task" where
  "deploy_lendpool_selfdestruct pool =
     tbind (loadPoolConfig pool) (\<lambda>poolConfig.
     tbind (getLendPoolAddressesProvider None) (\<lambda>addressesProvider.
     tbind getDeploySigner (\<lambda>deployerSigner.
     tseq (signer_address deployerSigner) (tret ()))))"

section \<open>A new implementation of a wrapper gateway\<close>

text \<open>
  \<open>DRE.run("dev:upgrade-implementation", args)\<close> with the argument \<open>contract\<close>, which the task requires: where it
  is missing, hardhat rejects the call before the task starts.
\<close>

definition run_upgrade_implementation ::
  "string \<Rightarrow> string option \<Rightarrow> string \<Rightarrow> string \<Rightarrow> string option \<Rightarrow> unit task" where
  "run_upgrade_implementation pool contract_name proxy impl admin = (case contract_name of
       None \<Rightarrow> tthrow (JsError ''HH306: The 'contract' parameter of task 'dev:upgrade-implementation' expects a value, but none was passed.'')
     | Some name \<Rightarrow> upgrade_implementation pool name proxy impl admin)"

text \<open>The task passes the name of the gateway as \<open>id\<close>, and no \<open>contract\<close>.\<close>

definition new_wrapper_gateway_impl :: "string \<Rightarrow> string \<Rightarrow> bool \<Rightarrow> unit task" where
  "new_wrapper_gateway_impl pool i upgrade =
     tbind (loadPoolConfig pool) (\<lambda>poolConfig.
     tbind (getWrapperGateway i None) (\<lambda>gatewayProxy.
     tbind (deployWrapperGatewayImpl i True) (\<lambda>gatewayImpl.
     twhen upgrade (run_upgrade_implementation pool None (c_address gatewayProxy) (c_address gatewayImpl)
       (Some (cid C_BendProxyAdminWTL))))))"

lemma new_wrapper_gateway_impl_never_upgrades: "isl (fst (new_wrapper_gateway_impl pool i True w))"
  by (auto simp: new_wrapper_gateway_impl_def run_upgrade_implementation_def twhen_def tbind_def
      split: prod.splits sum.splits)

end
