(* ===== verification/DevTasks.thy ===== *)
theory DevTasks
  imports UpgradeTasks
begin

text \<open>
  The tasks of \<open>tasks/dev\<close>, which set up a pool of mock assets, and the migration \<open>bend:dev\<close> that runs
  them. A promise that the script does not await is started like the others, but its failure is not
  seen (\<open>floating\<close>). A JavaScript number that a transaction takes as an integer is converted by
  \<open>BigNumber.from\<close> of the library \<open>ethers\<close>; the conversion is a request where the number is not small.
\<close>

section \<open>Mock assets\<close>

definition deploy_mock_reserves :: "bool \<Rightarrow> unit task" where
  "deploy_mock_reserves verify = tseq (deployAllMockTokens False verify) (tret ())"

definition deploy_mock_weth :: "bool \<Rightarrow> unit task" where
  "deploy_mock_weth verify = tseq (deployWETH9 verify) (tret ())"

definition deploy_mock_usdt :: "bool \<Rightarrow> unit task" where
  "deploy_mock_usdt verify = tseq (deployOneMockToken ''USDT'' verify) (tret ())"

definition deploy_mock_nfts :: "bool \<Rightarrow> unit task" where
  "deploy_mock_nfts verify = tseq (deployAllMockNfts verify) (tret ())"

definition add_mock_nfts :: "bool \<Rightarrow> unit task" where
  "add_mock_nfts verify = tfor NftContractId_keys (\<lambda>tokenSymbol.
     let contractId = toUpperCase tokenSymbol in
     tbind (tryGetContractAddressInDb contractId) (\<lambda>tokenAddress.
     tbind (tget (\<lambda>w. notFalsyOrZeroAddress w (Some tokenAddress))) (\<lambda>valid.
     twhen (\<not> valid)
       (tbind (deployMintableERC721 [''Bend Mock '' @ tokenSymbol, tokenSymbol] verify) (\<lambda>token.
       registerContractInJsonDb contractId token)))))"

definition set_mock_nfts :: "bool \<Rightarrow> unit task" where
  "set_mock_nfts verify = tfor NftContractId_keys (\<lambda>tokenSymbol.
     let contractId = toUpperCase tokenSymbol; baseURI = oget MOCK_NFT_BASE_URIS tokenSymbol in
     twhen (contractId \<noteq> ''WPUNKS'' \<and> truthy_opt baseURI)
       (tbind (tryGetContractAddressInDb contractId) (\<lambda>tokenAddress.
       tbind (tget (\<lambda>w. notFalsyOrZeroAddress w (Some tokenAddress))) (\<lambda>valid.
       twhen valid
         (tbind (getMintableERC721 (Some tokenAddress)) (\<lambda>tokenContract.
         send tokenContract ''setBaseURI'' [opt_val baseURI]))))))"

definition deploy_all_mock_aggregators :: "bool \<Rightarrow> string \<Rightarrow> unit task" where
  "deploy_all_mock_aggregators verify pool =
     tbind (loadPoolConfig pool) (\<lambda>poolConfig.
     tseq (deployAllReservesMockAggregatorsInPoolConfig poolConfig verify) (tret ()))"

definition deploy_mock_aggregator :: "bool \<Rightarrow> string \<Rightarrow> string \<Rightarrow> string \<Rightarrow> string \<Rightarrow> unit task" where
  "deploy_mock_aggregator verify pool name decimals price =
     tbind (loadPoolConfig pool) (\<lambda>poolConfig.
     tseq (deployChainlinkMockAggregator name decimals price verify) (tret ()))"

definition deploy_mock_bnft_registry :: "bool \<Rightarrow> string \<Rightarrow> unit task" where
  "deploy_mock_bnft_registry verify pool =
     tbind getProxyAdminSigner (\<lambda>signer.
     tbind (signer_address signer) (\<lambda>proxyAdminAddress.
     tbind (loadPoolConfig pool) (\<lambda>poolConfig.
     tbind (deployGenericBNFTImpl verify) (\<lambda>bnftGenericImpl.
     tbind (deployBNFTRegistry verify) (\<lambda>bnftRegistryImpl.
     tbind (encodeFunctionData ''initialize'' [addr bnftGenericImpl,
       JStr (BNftNamePrefix (Mocks poolConfig)), JStr (BNftSymbolPrefix (Mocks poolConfig))])
       (\<lambda>initEncodedData.
     tseq (deployBendUpgradeableProxy (cid C_BNFTRegistry) proxyAdminAddress (c_address bnftRegistryImpl)
       initEncodedData verify)
     (tret ())))))))"

definition deploy_mock_bnft_tokens :: "bool \<Rightarrow> string \<Rightarrow> unit task" where
  "deploy_mock_bnft_tokens verify pool =
     tbind (loadPoolConfig pool) (\<lambda>poolConfig.
     tbind (getBNFTRegistryProxy None) (\<lambda>bnftRegistryProxy.
     tbind (getConfigMockedNfts poolConfig) (\<lambda>mockedNfts.
     tfor mockedNfts (\<lambda>(nftSymbol, mockedNft).
       tseq (send bnftRegistryProxy ''createBNFT'' [addr mockedNft])
       (tbind (view bnftRegistryProxy ''getBNFTAddresses'' [addr mockedNft]) (\<lambda>addresses.
       tseq (struct_field ''bNftProxy'' addresses) (tret ())))))))"

definition deploy_mock_interceptor :: "bool \<Rightarrow> string \<Rightarrow> unit task" where
  "deploy_mock_interceptor verify pool =
     tbind (loadPoolConfig pool) (\<lambda>poolConfig.
     tbind (getLendPoolAddressesProvider None) (\<lambda>addressesProvider.
     tseq (deployMockLoanRepaidInterceptor (c_address addressesProvider) verify) (tret ())))"

definition deploy_mock_stakes :: "bool \<Rightarrow> string \<Rightarrow> unit task" where
  "deploy_mock_stakes verify pool =
     tbind (loadPoolConfig pool) (\<lambda>poolConfig.
     tseq (deployMockIncentivesController verify) (tret ()))"

section \<open>Minting\<close>

text \<open>A number as an argument: one that is not an integer is kept as its decimal string.\<close>

definition num_arg :: "rat \<Rightarrow> jsval" where
  "num_arg r = (if of_int \<lfloor>r\<rfloor> = r then JNum \<lfloor>r\<rfloor> else JStr (toFixed r))"

text \<open>\<open>for (let i = Number(index); i < Number(index) + Number(amount); i++)\<close>: no turn on \<open>NaN\<close>.\<close>

definition mint_range :: "string \<Rightarrow> string \<Rightarrow> rat list" where
  "mint_range index amount = (case (js_number index, js_number amount) of
       (Some i, Some a) \<Rightarrow> map (\<lambda>k. i + of_nat k) [0..<nat \<lceil>a\<rceil>] | _ \<Rightarrow> [])"

definition at_most_one :: "string \<Rightarrow> bool" where
  "at_most_one index = (case js_number index of None \<Rightarrow> False | Some i \<Rightarrow> i \<le> 1)"

definition mint_mock_nfts :: "string \<Rightarrow> string \<Rightarrow> string \<Rightarrow> unit task" where
  "mint_mock_nfts index amount user =
     tseq (not_on_mainnet ''Mint mock not used at mainnet configuration.'')
     (tbind getDeploySigner (\<lambda>deployerSigner.
     tbind (signer_address deployerSigner) (\<lambda>deployerAddress.
     tbind (getCryptoPunksMarket None) (\<lambda>cryptoPunksMarket.
     tseq (twhen (at_most_one index) (send cryptoPunksMarket ''allInitialOwnersAssigned'' []))
     (tseq (tfor (mint_range index amount) (\<lambda>punkIndex.
       tseq (send cryptoPunksMarket ''getPunk'' [num_arg punkIndex])
       (send cryptoPunksMarket ''transferPunk'' [JStr user, num_arg punkIndex])))
     (tbind (view cryptoPunksMarket ''balanceOf'' [JStr user]) (\<lambda>balance.
     tseq (to_string balance)
     (tbind (getContractAddressInDb ''BAYC'') (\<lambda>baycAddress.
     tbind (getMintableERC721 (Some baycAddress)) (\<lambda>bayc.
     tseq (twhen (at_most_one index)
       (send bayc ''setBaseURI'' [JStr ''ipfs://QmeSjSinHpPnmXmspMjwiXyN6zS4E9zccariGR3jxcaWtq/'']))
     (tseq (tfor (mint_range index amount) (\<lambda>tokenIndex.
       tseq (send bayc ''mint'' [num_arg tokenIndex])
       (send bayc ''safeTransferFrom(address,address,uint256)''
         [JStr deployerAddress, JStr user, num_arg tokenIndex])))
     (tbind (view bayc ''balanceOf'' [JStr user]) (\<lambda>balance.
     tseq (to_string balance) (tret ()))))))))))))))"

definition mint_one_reserve :: "string \<Rightarrow> string \<Rightarrow> string \<Rightarrow> contract task" where
  "mint_one_reserve symbol amount user =
     tbind (getContractAddressInDb symbol) (\<lambda>address.
     tbind (getMintableERC20 (Some address)) (\<lambda>token.
     tbind (convertToCurrencyDecimals (c_address token) amount) (\<lambda>amountToMint.
     tseq (send token ''mint'' [amountToMint])
     (tseq (send token ''transfer'' [JStr user, amountToMint])
     (tret token)))))"

text \<open>The balance printed for USDC is read from the DAI contract.\<close>

definition mint_mock_reserves :: "string \<Rightarrow> string \<Rightarrow> unit task" where
  "mint_mock_reserves amount user =
     tseq (not_on_mainnet ''Mint mock not used at mainnet configuration.'')
     (tbind getDeploySigner (\<lambda>deployerSigner.
     tbind (signer_address deployerSigner) (\<lambda>deployerAddress.
     tbind (mint_one_reserve ''DAI'' amount user) (\<lambda>dai.
     tbind (view dai ''balanceOf'' [JStr user]) (\<lambda>balance.
     tseq (to_string balance)
     (tbind (mint_one_reserve ''USDC'' amount user) (\<lambda>usdc.
     tbind (view dai ''balanceOf'' [JStr user]) (\<lambda>balance.
     tseq (to_string balance) (tret ())))))))))"

definition floating :: "unit task \<Rightarrow> unit task" where
  "floating m = tcatch m (\<lambda>e. tret ())"

definition mint_top_punks :: "string \<Rightarrow> string \<Rightarrow> unit task" where
  "mint_top_punks target ids =
     tbind (getCryptoPunksMarket None) (\<lambda>punks.
     let idSplits = split_at (CHR '','') ids in
     tseq (send punks ''setInitialOwners'' [JArr (map (\<lambda>_. JStr target) idSplits), JArr (map JStr idSplits)])
     (floating (tseq (view punks ''balanceOf'' [JStr target]) (tret ()))))"

text \<open>
  \<open>dev:mint-top-tokens\<close> goes through the token ids with a minter that has minted fewer than 10 tokens:
  its index and address, and how many tokens it has minted (\<open>minterLimit\<close>, -1 before the first is
  chosen). Each time the limit is reached it looks for the next minter from the current index on; when
  no signer is left the loop ends.
\<close>

fun next_minter :: "contract \<Rightarrow> nat \<Rightarrow> string list \<Rightarrow> (nat \<times> string \<times> int) option task" where
  "next_minter erc721Token minterIndex [] = tret None"
| "next_minter erc721Token minterIndex (minterAddress # signers) =
     tbind (view erc721Token ''mintCounts'' [JStr minterAddress]) (\<lambda>count.
     tbind (to_number count) (\<lambda>tmpLimit.
     if tmpLimit < 10 then tret (Some (minterIndex, minterAddress, tmpLimit))
     else next_minter erc721Token (minterIndex + 1) signers))"

definition balance_of_signer :: "string \<Rightarrow> int task" where
  "balance_of_signer signer = tbind (ask (External ''getBalance'' [JStr signer])) big"

text \<open>\<open>await signer.sendTransaction({to, value})\<close>\<close>

definition send_ether :: "string \<Rightarrow> string \<Rightarrow> jsval list \<Rightarrow> unit task" where
  "send_ether signer receiver args =
     tbind (tget (\<lambda>w. length (hist w))) (\<lambda>tx.
     tseq (ask (SendTx (Some signer) receiver ''sendTransaction'' args))
     (floating (waitForTx tx)))"

definition fund_minter :: "string \<Rightarrow> string \<Rightarrow> unit task" where
  "fund_minter deployer minterAddress =
     tbind (balance_of_signer minterAddress) (\<lambda>minterBalance.
     tseq (twhen (minterBalance < 10 ^ 17) (send_ether deployer minterAddress [JNum (5 * 10 ^ 17)]))
     (tseq (balance_of_signer minterAddress) (tret ())))"

definition mint_or_transfer :: "contract \<Rightarrow> string \<Rightarrow> string \<Rightarrow> string \<Rightarrow> int \<Rightarrow> int task" where
  "mint_or_transfer erc721Token minterAddress target tokenId minterLimit =
     (let minter = as_signer (Some minterAddress) erc721Token;
          transfer = send minter ''transferFrom'' [JStr minterAddress, JStr target, JStr tokenId] in
      tcatch
        (tbind (view erc721Token ''ownerOf'' [JStr tokenId]) (\<lambda>tokenOwner.
        tseq (twhen (tokenOwner = JStr minterAddress) transfer) (tret minterLimit)))
        (\<lambda>e. tseq (send minter ''mint'' [JStr tokenId]) (tseq transfer (tret (minterLimit + 1)))))"

fun mint_tokens :: "contract \<Rightarrow> string \<Rightarrow> string list \<Rightarrow> string \<Rightarrow> nat \<times> string \<times> int \<Rightarrow> string list \<Rightarrow> unit task" where
  "mint_tokens erc721Token deployer allSingers target minter [] = tret ()"
| "mint_tokens erc721Token deployer allSingers target (minterIndex, minterAddress, minterLimit) (tokenId # ids) =
     tbind
       (if minterLimit < 0 \<or> 10 \<le> minterLimit then
          tbind (next_minter erc721Token minterIndex (drop minterIndex allSingers)) (\<lambda>next.
          case next of None \<Rightarrow> tret None
          | Some (i, a, l) \<Rightarrow> tseq (fund_minter deployer a) (tret (Some (i, a, l))))
        else tret (Some (minterIndex, minterAddress, minterLimit))) (\<lambda>chosen.
     case chosen of None \<Rightarrow> tret ()
     | Some (i, a, l) \<Rightarrow>
         tbind (mint_or_transfer erc721Token a target tokenId l) (\<lambda>l'.
         mint_tokens erc721Token deployer allSingers target (i, a, l') ids))"

definition mint_top_tokens :: "string \<Rightarrow> string \<Rightarrow> string \<Rightarrow> unit task" where
  "mint_top_tokens symbol ids target =
     tbind getDeploySigner (\<lambda>deployerSigner.
     tbind getEthersSigners (\<lambda>allSingers.
     tbind (getContractAddressInDb symbol) (\<lambda>tokenAddress.
     tbind (getMintableERC721 (Some tokenAddress)) (\<lambda>erc721Token.
     tbind (signer_address deployerSigner) (\<lambda>deployer.
     tseq (balance_of_signer deployer)
     (tseq (mint_tokens erc721Token deployer allSingers target (0, [], -1) (split_at (CHR '','') ids))
     (tseq (view erc721Token ''balanceOf'' [JStr target]) (tret ()))))))))"

section \<open>The pool\<close>

definition dev_address_provider :: "bool \<Rightarrow> string \<Rightarrow> unit task" where
  "dev_address_provider verify pool =
     tbind (loadPoolConfig pool) (\<lambda>poolConfig.
     tbind getDeploySigner (\<lambda>signer.
     tbind (signer_address signer) (\<lambda>admin.
     tbind (deployLendPoolAddressesProvider (MarketId poolConfig) verify) (\<lambda>addressesProvider.
     tseq (send addressesProvider ''setPoolAdmin'' [JStr admin])
     (tseq (send addressesProvider ''setEmergencyAdmin'' [JStr admin])
     (tbind (deployLendPoolAddressesProviderRegistry verify) (\<lambda>addressesProviderRegistry.
     send addressesProviderRegistry ''registerAddressesProvider''
       [addr addressesProvider, JNum (ProviderId poolConfig)])))))))"

definition dev_lend_pool :: "bool \<Rightarrow> string \<Rightarrow> unit task" where
  "dev_lend_pool verify pool =
     tbind (getLendPoolAddressesProvider None) (\<lambda>addressesProvider.
     tbind (loadPoolConfig pool) (\<lambda>poolConfig.
     tbind (getBNFTRegistryProxy None) (\<lambda>bnftRegistryProxy.
     tseq (send addressesProvider ''setBNFTRegistry'' [addr bnftRegistryProxy])
     (tseq (deployBendLibraries verify)
     (tseq (set_impl addressesProvider (deployLendPool verify)
       ''setLendPoolImpl'' ''getLendPool'' getLendPool C_LendPool)
     (tseq (set_impl addressesProvider (deployLendPoolConfigurator verify)
       ''setLendPoolConfiguratorImpl'' ''getLendPoolConfigurator'' getLendPoolConfiguratorProxy
       C_LendPoolConfigurator)
     (tseq (set_impl addressesProvider (deployLendPoolLoan verify)
       ''setLendPoolLoanImpl'' ''getLendPoolLoan'' getLendPoolLoanProxy C_LendPoolLoan)
     (deployBTokenImplementations pool (ReservesConfig poolConfig) verify))))))))"

definition dev_oracle_reserve :: "bool \<Rightarrow> string \<Rightarrow> unit task" where
  "dev_oracle_reserve verify pool =
     tbind (loadPoolConfig pool) (\<lambda>poolConfig.
     tbind (getLendPoolAddressesProvider None) (\<lambda>addressesProvider.
     tbind getAllMockedTokens (\<lambda>mockTokens.
     let allTokenAddresses = foldl (\<lambda>accum (tokenSymbol, token). oset tokenSymbol (c_address token) accum)
       [(''USD'', USD_ADDRESS)] mockTokens in
     tbind (deployAllReservesMockAggregatorsInPoolConfig poolConfig verify) (\<lambda>allAggregatorsAddresses.
     tbind (deployReserveOracle (JArr []) verify) (\<lambda>reserveOracleImpl.
     case oget mockTokens ''WETH'' of None \<Rightarrow> tthrow JsTypeError | Some weth \<Rightarrow>
     tseq (send reserveOracleImpl ''initialize'' [addr weth])
     (tseq (send addressesProvider ''setReserveOracle'' [addr reserveOracleImpl])
     (setAggregatorsInReserveOracle allTokenAddresses allAggregatorsAddresses reserveOracleImpl)))))))"

text \<open>\<open>BigNumber.from(n)\<close> for each of the numbers of a call, in order\<close>

definition from_numbers :: "int list \<Rightarrow> jsval list task" where
  "from_numbers ns = tfold ns (\<lambda>n args.
     tbind (ask (External ''BigNumber.from'' [JNum n])) (\<lambda>v. tret (args @ [v]))) []"

definition dev_oracle_nft :: "bool \<Rightarrow> string \<Rightarrow> unit task" where
  "dev_oracle_nft verify pool =
     tbind (loadPoolConfig pool) (\<lambda>poolConfig.
     tbind (getLendPoolAddressesProvider None) (\<lambda>addressesProvider.
     tbind getAllMockedNfts (\<lambda>mockNfts.
     let allNftAddresses = addresses_of mockNfts;
         allNftPrices = spread [] (AllNftsInitialPrices (Mocks poolConfig)) in
     tbind (deployNFTOracle verify) (\<lambda>nftOracleImpl.
     tbind (view addressesProvider ''getPoolAdmin'' []) (\<lambda>poolAdmin.
     tbind (from_numbers [2 * 10 ^ 17, 10 ^ 17, 1800, 600, 1800, 18]) (\<lambda>numbers.
     tseq (send nftOracleImpl ''initialize'' (poolAdmin # numbers))
     (tseq (send addressesProvider ''setNFTOracle'' [addr nftOracleImpl])
     (tseq (addAssetsInNFTOracle allNftAddresses nftOracleImpl)
     (setPricesInNFTOracle allNftPrices allNftAddresses nftOracleImpl)))))))))"

definition dev_initialize_lend_pool :: "bool \<Rightarrow> string \<Rightarrow> unit task" where
  "dev_initialize_lend_pool verify pool =
     tbind (loadPoolConfig pool) (\<lambda>poolConfig.
     tbind (getLendPoolAddressesProvider None) (\<lambda>addressesProvider.
     tbind (view addressesProvider ''getPoolAdmin'' []) (\<lambda>admin.
     tbind (getReserveFactorCollectorAddress poolConfig) (\<lambda>collectorAddress.
     tbind (tget (\<lambda>w. notFalsyOrZeroAddress w collectorAddress)) (\<lambda>valid.
     if \<not> valid then tthrow (JsError ''Invalid collector address in pool config'') else
     tbind (deployBendProtocolDataProvider (c_address addressesProvider) verify) (\<lambda>dataProvider.
     tseq (insertContractAddressInDb C_BendProtocolDataProvider (c_address dataProvider))
     (tbind getAllMockedTokens (\<lambda>mockTokens.
     let allTokenAddresses = getAllTokenAddresses mockTokens in
     tseq (initReservesByHelper (ReservesConfig poolConfig) allTokenAddresses (token_naming_of poolConfig)
       (js_str admin) (opt_val collectorAddress) pool verify)
     (tseq (configureReservesByHelper (ReservesConfig poolConfig) allTokenAddresses (js_str admin))
     (tbind getAllMockedNfts (\<lambda>mockNfts.
     let allNftAddresses = getAllNftAddresses mockNfts in
     tseq (initNftsByHelper (NftsConfig poolConfig) allNftAddresses (js_str admin) (config_name_str Bend) verify)
     (tseq (configureNftsByHelper (NftsConfig poolConfig) allNftAddresses (js_str admin))
     (tbind (view addressesProvider ''getReserveOracle'' []) (\<lambda>reserveOracle.
     tbind (view addressesProvider ''getNFTOracle'' []) (\<lambda>nftOracle.
     tseq (deployWalletBalancerProvider verify)
     (tseq (deployBendProtocolDataProvider (c_address addressesProvider) verify)
     (tseq (deployUiPoolDataProvider (js_str reserveOracle) (js_str nftOracle) verify)
     (tseq (view addressesProvider ''getLendPool'' [])
     (tbind (getWETHGateway None) (\<lambda>wethGateway.
     tseq (send wethGateway ''authorizeLendPoolNFT'' [JArr (map (JStr \<circ> snd) allNftAddresses)])
     (tbind (getPunkGateway None) (\<lambda>punkGateway.
     send punkGateway ''authorizeLendPoolERC20'' [JArr (map (JStr \<circ> snd) allTokenAddresses)]))))))))))))))))))))))"

section \<open>The migration of a development network\<close>

definition bend_dev_steps :: "bool \<Rightarrow> (string \<times> unit task) list" where
  "bend_dev_steps verify = [
     (''dev:deploy-mock-reserves'', deploy_mock_reserves verify),
     (''dev:deploy-mock-nfts'', deploy_mock_nfts verify),
     (''dev:deploy-mock-bnft-registry'', deploy_mock_bnft_registry verify ''Bend''),
     (''dev:deploy-mock-bnft-tokens'', deploy_mock_bnft_tokens verify ''Bend''),
     (''full:deploy-proxy-admin'', deploy_proxy_admin verify ''Bend'' True None),
     (''dev:deploy-address-provider'', dev_address_provider verify ''Bend''),
     (''dev:deploy-lend-pool'', dev_lend_pool verify ''Bend''),
     (''dev:deploy-oracle-reserve'', dev_oracle_reserve verify ''Bend''),
     (''dev:deploy-oracle-nft'', dev_oracle_nft verify ''Bend''),
     (''full:deploy-weth-gateway'', deploy_weth_gateway verify ''Bend''),
     (''full:deploy-punk-gateway'', deploy_punk_gateway verify ''Bend''),
     (''dev:initialize-lend-pool'', dev_initialize_lend_pool verify ''Bend'')]"

definition bend_dev :: "bool \<Rightarrow> unit task" where
  "bend_dev verify =
     tseq (twhen verify checkVerification)
     (tseq (tfor (bend_dev_steps verify) snd)
     (tseq printContracts (tret ())))"

end
