(* ===== verification/PoolTasks.thy ===== *)
theory PoolTasks
  imports DevTasks
begin

text \<open>
  The tasks that use a deployed pool: \<open>tasks/misc/custom-task.ts\<close> (deposits, loans and repayments through
  the pool and its gateways), \<open>liquidate-task.ts\<close> (auctions, redemptions, liquidations) and
  \<open>recycle-task.ts\<close> (collecting the test assets). The overrides \<open>{ value: v }\<close> of a payable call are its
  last argument. What a receipt holds is only printed and is left out.
\<close>

section \<open>Shared steps\<close>

definition pool_of :: "contract \<Rightarrow> contract task" where
  "pool_of addressesProvider =
     tbind (view addressesProvider ''getLendPool'' []) (\<lambda>lendPoolAddress.
     getLendPool (getter_arg lendPoolAddress))"

definition data_provider_of :: "contract \<Rightarrow> contract task" where
  "data_provider_of addressesProvider =
     tbind (view addressesProvider ''getBendDataProvider'' []) (\<lambda>address.
     getBendProtocolDataProvider (getter_arg address))"

definition token_in_db :: "string \<Rightarrow> contract task" where
  "token_in_db symbol = tbind (getContractAddressInDb symbol) (\<lambda>address. getMintableERC20 (Some address))"

definition nft_in_db :: "string \<Rightarrow> contract task" where
  "nft_in_db symbol = tbind (getContractAddressInDb symbol) (\<lambda>address. getMintableERC721 (Some address))"

text \<open>\<open>if (allowance.lt(amount)) await waitForTx(await token.approve(spender, MAX_UINT_AMOUNT))\<close>\<close>

definition approve_if_below :: "contract \<Rightarrow> string \<Rightarrow> contract \<Rightarrow> jsval \<Rightarrow> unit task" where
  "approve_if_below token owner spender amount =
     tbind (view token ''allowance'' [JStr owner, addr spender]) (\<lambda>allowance.
     tbind (big allowance) (\<lambda>a.
     tbind (big_arg amount) (\<lambda>b.
     twhen (a < b) (send token ''approve'' [addr spender, JStr MAX_UINT_AMOUNT]))))"

text \<open>\<open>-1\<close> stands for everything.\<close>

definition amount_or_max :: "contract \<Rightarrow> string \<Rightarrow> jsval task" where
  "amount_or_max weth amount =
     (if amount = ''-1'' then tret (JStr MAX_UINT_AMOUNT) else convertToCurrencyDecimals (c_address weth) amount)"

text \<open>\<open>new BigNumber(n.toString()).multipliedBy(1.1).toFixed(0)\<close>\<close>

definition plus_tenth :: "int \<Rightarrow> string" where
  "plus_tenth n = toFixed0 (of_int n * (11 / 10))"

definition account :: "string list \<Rightarrow> nat \<Rightarrow> string task" where
  "account signers i = signer_address (js_at signers (int i))"

section \<open>Deposits, loans, repayments\<close>

definition cryptopunks_init :: "unit task" where
  "cryptopunks_init =
     tbind (getCryptoPunksMarket None) (\<lambda>punks.
     tseq (submit punks ''allInitialOwnersAssigned'' [])
     (send punks ''allInitialOwnersAssigned'' []))"

definition generate_subgraph_events :: "string \<Rightarrow> string \<Rightarrow> unit task" where
  "generate_subgraph_events pool nftTokenId =
     tbind (loadPoolConfig pool) (\<lambda>poolConfig.
     tbind (getLendPoolAddressesProvider None) (\<lambda>addressesProvider.
     tbind getEthersSigners (\<lambda>allSigners.
     tbind (account allSigners 5) (\<lambda>depositer.
     tbind (account allSigners 6) (\<lambda>borrower.
     tbind (pool_of addressesProvider) (\<lambda>lendPool.
     let depositerPool = as_signer (Some depositer) lendPool; borrowerPool = as_signer (Some borrower) lendPool in
     tbind (token_in_db ''DAI'') (\<lambda>dai.
     let depositerDai = as_signer (Some depositer) dai; borrowerDai = as_signer (Some borrower) dai in
     tseq (send depositerDai ''approve'' [addr lendPool, JStr ''100000000000000000000000000000''])
     (tseq (send depositerDai ''mint'' [JStr ''1000000000000000000000''])
     (tseq (send depositerPool ''deposit''
       [addr dai, JStr ''1000000000000000000000'', JStr depositer, JStr ''0''])
     (tbind (nft_in_db ''BAYC'') (\<lambda>bayc.
     let borrowerBayc = as_signer (Some borrower) bayc in
     tseq (send borrowerBayc ''setApprovalForAll'' [addr lendPool, JBool True])
     (tseq (send borrowerBayc ''mint'' [JStr nftTokenId])
     (tseq (send borrowerPool ''borrow'' [addr dai, JStr ''500000000000000000000'', addr bayc, JStr nftTokenId,
       JStr borrower, JStr ''0''])
     (tseq (send borrowerDai ''approve'' [addr lendPool, JStr ''100000000000000000000000000000''])
     (tseq (send borrowerDai ''mint'' [JStr ''1000000000000000000000''])
     (tseq (send borrowerPool ''repay'' [addr bayc, JStr nftTokenId, JStr ''100000000000000000000''])
     (send depositerPool ''withdraw'' [addr dai, JStr ''100000000000000000000'', JStr depositer])))))))))))))))))"

definition deposit_eth :: "string \<Rightarrow> string \<Rightarrow> unit task" where
  "deposit_eth pool amount =
     tbind (loadPoolConfig pool) (\<lambda>poolConfig.
     tbind (getLendPoolAddressesProvider None) (\<lambda>addressesProvider.
     tbind (pool_of addressesProvider) (\<lambda>lendPool.
     tbind getDeploySigner (\<lambda>signer.
     tbind (signer_address signer) (\<lambda>signerAddress.
     tbind (getWETHGateway None) (\<lambda>wethGateway.
     tbind (token_in_db ''WETH'') (\<lambda>weth.
     tbind (convertToCurrencyDecimals (c_address weth) amount) (\<lambda>amountDecimals.
     tseq (approve_if_below weth signerAddress wethGateway amountDecimals)
     (tbind (view lendPool ''getReserveData'' [addr weth]) (\<lambda>wethResData.
     tbind (struct_field ''bTokenAddress'' wethResData) (\<lambda>bTokenAddress.
     tbind (getBToken (getter_arg bTokenAddress)) (\<lambda>bWeth.
     tseq (send wethGateway ''depositETH'' [JStr signerAddress, JStr ''0'', with_value amountDecimals])
     (tbind (view bWeth ''balanceOf'' [JStr signerAddress]) (\<lambda>balance.
     tseq (to_string balance) (tret ())))))))))))))))"

definition withdraw_eth :: "string \<Rightarrow> string \<Rightarrow> unit task" where
  "withdraw_eth pool amount =
     tbind (loadPoolConfig pool) (\<lambda>poolConfig.
     tbind (getLendPoolAddressesProvider None) (\<lambda>addressesProvider.
     tbind getDeploySigner (\<lambda>signer.
     tbind (signer_address signer) (\<lambda>signerAddress.
     tbind (pool_of addressesProvider) (\<lambda>lendPool.
     tbind (getWETHGateway None) (\<lambda>wethGateway.
     tbind (token_in_db ''WETH'') (\<lambda>weth.
     tbind (amount_or_max weth amount) (\<lambda>amountDecimals.
     tbind (view lendPool ''getReserveData'' [addr weth]) (\<lambda>wethResData.
     tbind (struct_field ''bTokenAddress'' wethResData) (\<lambda>bTokenAddress.
     tbind (getBToken (getter_arg bTokenAddress)) (\<lambda>bWeth.
     tseq (approve_if_below bWeth signerAddress wethGateway amountDecimals)
     (tbind (view bWeth ''balanceOf'' [JStr signerAddress]) (\<lambda>balance.
     tseq (to_string balance)
     (send wethGateway ''withdrawETH'' [amountDecimals, JStr signerAddress]))))))))))))))"

definition borrow_eth_using_bayc :: "string \<Rightarrow> string \<Rightarrow> string \<Rightarrow> unit task" where
  "borrow_eth_using_bayc pool amount tokenId =
     tbind (loadPoolConfig pool) (\<lambda>poolConfig.
     tbind (getLendPoolAddressesProvider None) (\<lambda>addressesProvider.
     tbind getDeploySigner (\<lambda>signer.
     tbind (token_in_db ''WETH'') (\<lambda>weth.
     tbind (amount_or_max weth amount) (\<lambda>amountDecimals.
     tbind (getWETHGateway None) (\<lambda>wethGateway.
     tbind (nft_in_db ''BAYC'') (\<lambda>bayc.
     tseq (send bayc ''setApprovalForAll'' [addr wethGateway, JBool True])
     (tseq (send bayc ''mint'' [JStr tokenId])
     (tbind (signer_address signer) (\<lambda>signerAddress.
     send wethGateway ''borrowETH'' [amountDecimals, addr bayc, JStr tokenId, JStr signerAddress, JStr ''0'']))))))))))"

text \<open>The amount and the token id of the parameters are not used for the loan.\<close>

definition borrow_usdc_using_bayc :: "string \<Rightarrow> string \<Rightarrow> string \<Rightarrow> unit task" where
  "borrow_usdc_using_bayc pool amount tokenId =
     tbind (loadPoolConfig pool) (\<lambda>poolConfig.
     tbind (getLendPoolAddressesProvider None) (\<lambda>addressesProvider.
     tbind getDeploySigner (\<lambda>signer.
     tbind (token_in_db ''USDC'') (\<lambda>weth.
     tbind (amount_or_max weth amount) (\<lambda>amountDecimals.
     tbind (pool_of addressesProvider) (\<lambda>lendPool.
     tbind (token_in_db ''USDC'') (\<lambda>usdc.
     tbind (nft_in_db ''BAYC'') (\<lambda>bayc.
     tseq (send bayc ''setApprovalForAll'' [addr lendPool, JBool True])
     (tseq (send bayc ''mint'' [JNum 5003])
     (tbind (signer_address signer) (\<lambda>signerAddress.
     send lendPool ''borrow''
       [addr usdc, JStr ''100000000'', addr bayc, JStr ''5003'', JStr signerAddress, JStr ''0''])))))))))))"

definition borrow_eth_using_punk :: "string \<Rightarrow> string \<Rightarrow> string \<Rightarrow> unit task" where
  "borrow_eth_using_punk pool i amount =
     tbind (loadPoolConfig pool) (\<lambda>poolConfig.
     tbind (getLendPoolAddressesProvider None) (\<lambda>addressesProvider.
     tbind getDeploySigner (\<lambda>signer.
     tbind (signer_address signer) (\<lambda>signerAddress.
     tbind (getCryptoPunksMarket None) (\<lambda>punk.
     tbind (getWrappedPunk None) (\<lambda>wpunk.
     tbind (getPunkGateway None) (\<lambda>punkGateway.
     tbind (token_in_db ''WETH'') (\<lambda>weth.
     tbind (view wpunk ''isApprovedForAll'' [JStr signerAddress, addr punkGateway]) (\<lambda>isApproveOk.
     tseq (twhen (\<not> js_truthy isApproveOk) (send wpunk ''setApprovalForAll'' [addr punkGateway, JBool True]))
     (tbind (if amount = ''-1'' then
         tbind (data_provider_of addressesProvider) (\<lambda>bendDataProvider.
         tbind (view bendDataProvider ''getReserveData'' [addr weth]) (\<lambda>wethResData.
         tbind (struct_field ''availableLiquidity'' wethResData) (\<lambda>liquidity.
         tseq (to_string liquidity) (tret liquidity))))
       else convertToCurrencyDecimals (c_address weth) amount) (\<lambda>amountDecimals.
     tbind (view punk ''punkIndexToAddress'' [JStr i]) (\<lambda>punkAddress.
     tbind (tget (\<lambda>w. notFalsyOrZeroAddress w (getter_arg punkAddress))) (\<lambda>owned.
     tbind (if owned then tret (punkAddress \<noteq> JStr signerAddress)
       else tseq (send punk ''getPunk'' [JStr i]) (tret False)) (\<lambda>borrowMore.
     tseq (twhen (\<not> borrowMore) (send punk ''offerPunkForSaleToAddress'' [JStr i, JStr ''0'', addr punkGateway]))
     (tseq (send punkGateway ''borrowETH'' [amountDecimals, JStr i, JStr signerAddress, JStr ''0''])
     (tseq (view punk ''punkIndexToAddress'' [JStr i]) (tret ())))))))))))))))))"

definition borrow_usdc_using_punk :: "string \<Rightarrow> unit task" where
  "borrow_usdc_using_punk pool =
     tbind (loadPoolConfig pool) (\<lambda>poolConfig.
     tbind (getLendPoolAddressesProvider None) (\<lambda>addressesProvider.
     tbind getDeploySigner (\<lambda>signer.
     tbind (getContractAddressInDb ''DAI'') (\<lambda>daiAddress.
     tbind (getCryptoPunksMarket None) (\<lambda>punk.
     tbind (getPunkGateway None) (\<lambda>punkGateway.
     tseq (send punk ''getPunk'' [JStr ''5002''])
     (tseq (send punk ''offerPunkForSaleToAddress'' [JStr ''5002'', JStr ''0'', addr punkGateway])
     (tbind (signer_address signer) (\<lambda>signerAddress.
     send punkGateway ''borrow'' [JStr daiAddress, JStr ''100000000000000000000'', JStr ''5002'',
       JStr signerAddress, JStr ''0''])))))))))"

definition owed :: "contract \<Rightarrow> string \<Rightarrow> string \<Rightarrow> int task" where
  "owed addressesProvider token i =
     tbind (data_provider_of addressesProvider) (\<lambda>bendDataProvider.
     tbind (view bendDataProvider ''getLoanDataByCollateral'' [JStr token, JStr i]) (\<lambda>loanData.
     tbind (struct_field ''currentAmount'' loanData) big))"

definition repay_eth_using_punk :: "string \<Rightarrow> string \<Rightarrow> string \<Rightarrow> unit task" where
  "repay_eth_using_punk pool i amount =
     tbind (loadPoolConfig pool) (\<lambda>poolConfig.
     tbind (getLendPoolAddressesProvider None) (\<lambda>addressesProvider.
     tbind getDeploySigner (\<lambda>signer.
     tbind (getCryptoPunksMarket None) (\<lambda>punk.
     tbind (getWrappedPunkTokenAddress poolConfig (c_address punk)) (\<lambda>wpunkAddress.
     tbind (getWrappedPunk (Some wpunkAddress)) (\<lambda>wpunk.
     tbind (getPunkGateway None) (\<lambda>punkGateway.
     tbind (token_in_db ''WETH'') (\<lambda>weth.
     tbind (if amount = ''-1''
       then tbind (owed addressesProvider (c_address wpunk) i) (\<lambda>n. tret (JStr (plus_tenth n)))
       else convertToCurrencyDecimals (c_address weth) amount) (\<lambda>amountDecimals.
     tseq (send punkGateway ''repayETH'' [JStr i, amountDecimals, with_value amountDecimals])
     (tseq (view punk ''punkIndexToAddress'' [JStr i]) (tret ())))))))))))"

definition repay_eth_using_erc721 :: "string \<Rightarrow> string \<Rightarrow> string \<Rightarrow> string \<Rightarrow> unit task" where
  "repay_eth_using_erc721 pool token i amount =
     tbind (loadPoolConfig pool) (\<lambda>poolConfig.
     tbind (getLendPoolAddressesProvider None) (\<lambda>addressesProvider.
     tbind getDeploySigner (\<lambda>signer.
     tbind (getWETHGateway None) (\<lambda>wethGateway.
     tbind (token_in_db ''WETH'') (\<lambda>weth.
     tbind (if amount = ''-1'' \<or> amount = ''0''
       then tbind (owed addressesProvider token i) (\<lambda>n. tret (JNum n))
       else convertToCurrencyDecimals (c_address weth) amount) (\<lambda>amountDecimals.
     send wethGateway ''repayETH'' [JStr token, JStr i, amountDecimals, with_value amountDecimals]))))))"

definition debt_approve_delegate :: "string \<Rightarrow> string \<Rightarrow> unit task" where
  "debt_approve_delegate pool asset =
     tbind (loadPoolConfig pool) (\<lambda>poolConfig.
     tbind (getLendPoolAddressesProvider None) (\<lambda>addressesProvider.
     tbind (getBendProtocolDataProvider None) (\<lambda>bendDataProvider.
     tbind getDeploySigner (\<lambda>signer.
     tbind (getWETHGateway None) (\<lambda>wethGateway.
     tbind (view bendDataProvider ''getReserveTokenData'' [JStr asset]) (\<lambda>reserveToken.
     tbind (struct_field ''debtTokenAddress'' reserveToken) (\<lambda>debtTokenAddress.
     tbind (getDebtToken (getter_arg debtTokenAddress)) (\<lambda>debToken.
     tbind (signer_address signer) (\<lambda>signerAddress.
     tseq (view debToken ''borrowAllowance'' [JStr signerAddress, addr wethGateway])
     (tseq (send debToken ''approveDelegation'' [addr wethGateway, JStr MAX_UINT_AMOUNT])
     (tseq (view debToken ''borrowAllowance'' [JStr signerAddress, addr wethGateway]) (tret ()))))))))))))"

end
