(* ===== verification/LiquidationTasks.thy ===== *)
theory LiquidationTasks
  imports PoolTasks
begin

text \<open>
  \<open>tasks/misc/liquidate-task.ts\<close> (auctions, redemptions and liquidations through the pool, the WETH
  gateway and the punk gateway) and \<open>recycle-task.ts\<close> (sending the test assets of all signers to one
  address).
\<close>

section \<open>Through the pool\<close>

definition deployer_pair :: "(string option \<times> string) task" where
  "deployer_pair = tbind getDeploySigner (\<lambda>signer.
     tbind (signer_address signer) (\<lambda>address. tret (signer, address)))"

text \<open>\<open>dataProvider.getLoanDataByCollateral(token, id)\<close> and the amount in units of its reserve\<close>

definition loan_amount :: "contract \<Rightarrow> string \<Rightarrow> string \<Rightarrow> string \<Rightarrow> jsval task" where
  "loan_amount dataProvider token i amount =
     tbind (view dataProvider ''getLoanDataByCollateral'' [JStr token, JStr i]) (\<lambda>loanData.
     tbind (struct_field ''reserveAsset'' loanData) (\<lambda>reserveAsset.
     convertToCurrencyDecimals (js_str reserveAsset) amount))"

definition pool_auction :: "string \<Rightarrow> string \<Rightarrow> string \<Rightarrow> string \<Rightarrow> unit task" where
  "pool_auction pool token i amount =
     tbind (loadPoolConfig pool) (\<lambda>poolConfig.
     tbind (getLendPoolAddressesProvider None) (\<lambda>addressesProvider.
     tbind (pool_of addressesProvider) (\<lambda>lendPool.
     tbind (data_provider_of addressesProvider) (\<lambda>dataProvider.
     tbind deployer_pair (\<lambda>(signer, signerAddress).
     tbind (loan_amount dataProvider token i amount) (\<lambda>amountDecimals.
     send lendPool ''auction'' [JStr token, JStr i, amountDecimals, JStr signerAddress]))))))"

definition bid_fine :: "contract \<Rightarrow> string \<Rightarrow> string \<Rightarrow> jsval task" where
  "bid_fine lendPool token i =
     tbind (view lendPool ''getNftAuctionData'' [JStr token, JStr i]) (\<lambda>auctionData.
     struct_field ''bidFine'' auctionData)"

definition pool_redeem :: "string \<Rightarrow> string \<Rightarrow> string \<Rightarrow> string \<Rightarrow> unit task" where
  "pool_redeem pool token i amount =
     tbind (loadPoolConfig pool) (\<lambda>poolConfig.
     tbind (getLendPoolAddressesProvider None) (\<lambda>addressesProvider.
     tbind (pool_of addressesProvider) (\<lambda>lendPool.
     tbind (data_provider_of addressesProvider) (\<lambda>dataProvider.
     tbind deployer_pair (\<lambda>(signer, signerAddress).
     tbind (loan_amount dataProvider token i amount) (\<lambda>amountDecimals.
     tbind (bid_fine lendPool token i) (\<lambda>bidFine.
     send lendPool ''redeem'' [JStr token, JStr i, amountDecimals, bidFine])))))))"

definition pool_liquidate :: "string \<Rightarrow> string \<Rightarrow> string \<Rightarrow> unit task" where
  "pool_liquidate pool token i =
     tbind (loadPoolConfig pool) (\<lambda>poolConfig.
     tbind (getLendPoolAddressesProvider None) (\<lambda>addressesProvider.
     tbind (pool_of addressesProvider) (\<lambda>lendPool.
     tbind deployer_pair (\<lambda>(signer, signerAddress).
     tbind (getWETHGateway None) (\<lambda>wethGateway.
     send lendPool ''liquidate'' [JStr token, JStr i, JNum 0])))))"

section \<open>Through the gateways\<close>

text \<open>The amount in wei that a parameter like \<open>0.01\<close> stands for.\<close>

definition weth_amount :: "string \<Rightarrow> jsval task" where
  "weth_amount amount = tbind (token_in_db ''WETH'') (\<lambda>weth. convertToCurrencyDecimals (c_address weth) amount)"

definition weth_auction :: "string \<Rightarrow> string \<Rightarrow> string \<Rightarrow> string \<Rightarrow> unit task" where
  "weth_auction pool token i amount =
     tbind deployer_pair (\<lambda>(signer, signerAddress).
     tbind (getWETHGateway None) (\<lambda>wethGateway.
     tbind (weth_amount amount) (\<lambda>amountDecimals.
     send wethGateway ''auctionETH'' [JStr token, JStr i, JStr signerAddress, with_value amountDecimals])))"

text \<open>\<open>amountDecimals.add(auctionData.bidFine)\<close>\<close>

definition plus_fine :: "jsval \<Rightarrow> jsval \<Rightarrow> jsval task" where
  "plus_fine amount bidFine =
     tbind (big amount) (\<lambda>a. tbind (big_arg bidFine) (\<lambda>f. tret (JNum (a + f))))"

definition weth_redeem :: "string \<Rightarrow> string \<Rightarrow> string \<Rightarrow> string \<Rightarrow> unit task" where
  "weth_redeem pool token i amount =
     tbind (getLendPoolAddressesProvider None) (\<lambda>addressesProvider.
     tbind (pool_of addressesProvider) (\<lambda>lendPool.
     tbind (getWETHGateway None) (\<lambda>wethGateway.
     tbind (weth_amount amount) (\<lambda>amountDecimals.
     tbind (bid_fine lendPool token i) (\<lambda>bidFine.
     tbind (plus_fine amountDecimals bidFine) (\<lambda>sendValue.
     send wethGateway ''redeemETH'' [JStr token, JStr i, amountDecimals, bidFine, with_value sendValue]))))))"

text \<open>What the bid leaves uncovered of the debt, plus a tenth; nothing if the bid covers it.\<close>

definition extra_amount :: "int \<Rightarrow> int \<Rightarrow> string" where
  "extra_amount currentAmount bidPrice =
     (if bidPrice < currentAmount then plus_tenth (currentAmount - bidPrice) else toFixed0 0)"

definition weth_liquidate :: "string \<Rightarrow> string \<Rightarrow> string \<Rightarrow> unit task" where
  "weth_liquidate pool token i =
     tbind (getLendPoolAddressesProvider None) (\<lambda>addressesProvider.
     tbind (data_provider_of addressesProvider) (\<lambda>dataProvider.
     tbind (view dataProvider ''getLoanDataByCollateral'' [JStr token, JStr i]) (\<lambda>loanData.
     tbind (struct_field ''currentAmount'' loanData) (\<lambda>current.
     tbind (big current) (\<lambda>currentAmount.
     tbind (struct_field ''bidPrice'' loanData) (\<lambda>bid.
     tbind (big_arg bid) (\<lambda>bidPrice.
     tbind (getWETHGateway None) (\<lambda>wethGateway.
     send wethGateway ''liquidateETH''
       [JStr token, JStr i, with_value (JStr (extra_amount currentAmount bidPrice))]))))))))"

definition punk_auction_eth :: "string \<Rightarrow> string \<Rightarrow> string \<Rightarrow> unit task" where
  "punk_auction_eth pool i amount =
     tbind deployer_pair (\<lambda>(signer, signerAddress).
     tbind (getPunkGateway None) (\<lambda>punkGateway.
     tbind (weth_amount amount) (\<lambda>amountDecimals.
     send punkGateway ''auctionETH'' [JStr i, JStr signerAddress, with_value amountDecimals])))"

definition punk_redeem_eth :: "string \<Rightarrow> string \<Rightarrow> string \<Rightarrow> unit task" where
  "punk_redeem_eth pool i amount =
     tbind (loadPoolConfig pool) (\<lambda>poolConfig.
     tbind (getLendPoolAddressesProvider None) (\<lambda>addressesProvider.
     tbind (pool_of addressesProvider) (\<lambda>lendPool.
     tbind (getCryptoPunksMarketAddress poolConfig) (\<lambda>punksAddress.
     tbind (getWrappedPunkTokenAddress poolConfig punksAddress) (\<lambda>wpunksAddress.
     tbind (getPunkGateway None) (\<lambda>punkGateway.
     tbind (weth_amount amount) (\<lambda>amountDecimals.
     tbind (bid_fine lendPool wpunksAddress i) (\<lambda>bidFine.
     tbind (plus_fine amountDecimals bidFine) (\<lambda>sendValue.
     send punkGateway ''redeemETH'' [JStr i, amountDecimals, bidFine, with_value sendValue])))))))))"

definition punk_liquidate_eth :: "string \<Rightarrow> string \<Rightarrow> unit task" where
  "punk_liquidate_eth pool i =
     tbind (getPunkGateway None) (\<lambda>punkGateway. send punkGateway ''liquidateETH'' [JStr i])"

section \<open>Collecting the test assets\<close>

definition recycle_pool_eths :: "string \<Rightarrow> string \<Rightarrow> string \<Rightarrow> unit task" where
  "recycle_pool_eths pool i receiver =
     tbind deployer_pair (\<lambda>(deployerSigner, deployerAddress).
     tbind (getLendPoolAddressesProvider None) (\<lambda>addressesProvider.
     tbind (getLendPool None) (\<lambda>lendPool.
     tbind (getWETHMocked None) (\<lambda>weth.
     tbind (getWETHGateway None) (\<lambda>wethGateway.
     tbind (view lendPool ''getReserveData'' [addr weth]) (\<lambda>wethReserveData.
     tbind (struct_field ''bTokenAddress'' wethReserveData) (\<lambda>bTokenAddress.
     tbind (getBToken (getter_arg bTokenAddress)) (\<lambda>bwethToken.
     tbind (view weth ''balanceOf'' [addr bwethToken]) (\<lambda>balance.
     tbind (big balance) (\<lambda>availableBalance.
     if of_int availableBalance < oneEther / 100 then tret ()
     else
       tbind (nft_in_db ''BAYC'') (\<lambda>bayc.
       tseq (send bayc ''mint'' [JStr i])
       (tbind (view bayc ''isApprovedForAll'' [JStr deployerAddress, addr wethGateway]) (\<lambda>approved.
       tseq (twhen (\<not> js_truthy approved) (send bayc ''setApprovalForAll'' [addr wethGateway, JBool True]))
       (send wethGateway ''borrowETH''
         [JNum availableBalance, addr bayc, JStr i, JStr receiver, JStr ''0'']))))))))))))))"

text \<open>The three loops over the signers; each skips the deployer.\<close>

definition other_signers :: "string \<Rightarrow> string list \<Rightarrow> (string \<Rightarrow> unit task) \<Rightarrow> unit task" where
  "other_signers deployerAddress allSigners body =
     tfor allSigners (\<lambda>signer. if signer = deployerAddress then tret () else body signer)"

definition recycle_erc20s :: "string \<Rightarrow> string \<Rightarrow> unit task" where
  "recycle_erc20s receiver signer =
     tbind getAllMockedTokens (\<lambda>allMockERC20s.
     tfor allMockERC20s (\<lambda>(erc20Symbol, erc20Token).
       tbind (view erc20Token ''balanceOf'' [JStr signer]) (\<lambda>balance.
       tbind (big balance) (\<lambda>tokenBalance.
       twhen (0 < tokenBalance)
         (send (as_signer (Some signer) erc20Token) ''transfer'' [JStr receiver, JNum tokenBalance])))))"

definition recycle_erc721 :: "string \<Rightarrow> string \<Rightarrow> contract \<Rightarrow> nat \<Rightarrow> unit task" where
  "recycle_erc721 receiver signer nftToken index =
     tbind (view nftToken ''tokenOfOwnerByIndex'' [JStr signer, JNum (int index)]) (\<lambda>tokenId.
     tseq (to_string tokenId)
     (send (as_signer (Some signer) nftToken) ''transferFrom'' [JStr signer, JStr receiver, tokenId]))"

definition recycle_collection :: "string \<Rightarrow> string \<Rightarrow> contract \<Rightarrow> unit task" where
  "recycle_collection receiver signer nftToken =
     tbind (view nftToken ''balanceOf'' [JStr signer]) (\<lambda>balance.
     tbind (to_number balance) (\<lambda>tokenBalance.
     tfor [0..<nat tokenBalance] (recycle_erc721 receiver signer nftToken)))"

definition recycle_erc721s :: "string \<Rightarrow> string \<Rightarrow> unit task" where
  "recycle_erc721s receiver signer =
     tbind getAllMockedNfts (\<lambda>allMockNfts.
     tfor allMockNfts (\<lambda>(nftSymbol, nftToken). recycle_collection receiver signer nftToken))"

definition recycle_ether :: "string \<Rightarrow> string \<Rightarrow> unit task" where
  "recycle_ether receiver signer =
     tbind (balance_of_signer signer) (\<lambda>ethBalance.
     twhen (0 < ethBalance)
       (tbind (ask (External ''getGasPrice'' [JStr signer])) (\<lambda>price.
       tbind (big price) (\<lambda>gasPrice.
       let gasLimit = 21000; ethSend = ethBalance - gasPrice * gasLimit in
       twhen (0 < ethSend) (send_ether signer receiver [JNum ethSend, JNum gasPrice, JNum gasLimit])))))"

definition recycle_signer_tokens :: "string \<Rightarrow> unit task" where
  "recycle_signer_tokens receiver =
     tbind deployer_pair (\<lambda>(deployerSigner, deployerAddress).
     tbind getEthersSigners (\<lambda>allSigners.
     tseq (other_signers deployerAddress allSigners (recycle_erc20s receiver))
     (tseq (other_signers deployerAddress allSigners (recycle_erc721s receiver))
     (other_signers deployerAddress allSigners (recycle_ether receiver)))))"

end
