(* ===== verification/PrintTasks.thy ===== *)
theory PrintTasks
  imports LiquidationTasks
begin

text \<open>
  The tasks that only print: \<open>tasks/misc/print-config.ts\<close>, \<open>print-reserve.ts\<close>, \<open>print-nft.ts\<close>,
  \<open>print-contracts.ts\<close>, \<open>print-accounts.ts\<close>, and the printing tasks of \<open>custom-task.ts\<close>. What is modelled
  is what they read and when reading fails; a value that is printed through \<open>toString()\<close> must not be
  \<open>undefined\<close>.
\<close>

definition print_view :: "contract \<Rightarrow> string \<Rightarrow> jsval list \<Rightarrow> unit task" where
  "print_view c meth args = tseq (view c meth args) (tret ())"

text \<open>\<open>fields.forEach((field) => console.log(data[field].toString()))\<close>\<close>

definition print_fields :: "string list \<Rightarrow> jsval \<Rightarrow> unit task" where
  "print_fields names data =
     tfor names (\<lambda>field. tbind (struct_field field data) (\<lambda>v. tseq (to_string v) (tret ())))"

section \<open>Configuration of a market\<close>

text \<open>\<open>process.env.FORK ? process.env.FORK : localBRE.network.name\<close>\<close>

definition fork_or_network :: "world \<Rightarrow> string" where
  "fork_or_network w = (if truthy_opt (procenv w ''FORK'') then the (procenv w ''FORK'') else net_name w)"

definition on_fork_or_network :: "'a iParamsPerNetwork \<Rightarrow> 'a option task" where
  "on_fork_or_network param = tget (\<lambda>w. getParamPerNetwork (procenv w) param (fork_or_network w))"

text \<open>\<open>providers[0]\<close>\<close>

definition first_of :: "jsval \<Rightarrow> jsval task" where
  "first_of v = (case v of JUndef \<Rightarrow> tthrow JsTypeError
     | JArr vs \<Rightarrow> tret (case vs of [] \<Rightarrow> JUndef | x # xs \<Rightarrow> x) | _ \<Rightarrow> tret JUndef)"

definition print_provider :: "contract \<Rightarrow> unit task" where
  "print_provider addressesProvider =
     tseq (tfor [''getMarketId'', ''getPoolAdmin'', ''getEmergencyAdmin'', ''getLendPool'', ''getLendPoolLoan'',
         ''getLendPoolConfigurator'', ''getReserveOracle'', ''getNFTOracle'', ''getBNFTRegistry'',
         ''getIncentivesController'', ''getUIDataProvider'', ''getWalletBalanceProvider'']
       (\<lambda>reader. print_view addressesProvider reader []))
     (tfor [ADDRESS_ID_WETH_GATEWAY, ADDRESS_ID_PUNK_GATEWAY]
       (\<lambda>i. print_view addressesProvider ''getAddress'' [JStr i]))"

definition print_reserve_config :: "contract \<Rightarrow> string \<times> string \<Rightarrow> unit task" where
  "print_reserve_config protocolDataProvider = (\<lambda>(symbol, address).
     tbind (view protocolDataProvider ''getReserveConfigurationData'' [JStr address]) (\<lambda>reserveData.
     tbind (view protocolDataProvider ''getReserveTokenData'' [JStr address]) (\<lambda>reserveTokenData.
     tseq (print_fields [''decimals'', ''reserveFactor'', ''borrowingEnabled'', ''isActive'', ''isFrozen''] reserveData)
     (print_fields [''bTokenSymbol'', ''bTokenAddress'', ''debtTokenSymbol'', ''debtTokenAddress'']
       reserveTokenData))))"

definition print_nft_config :: "contract \<Rightarrow> string \<times> string \<Rightarrow> unit task" where
  "print_nft_config protocolDataProvider = (\<lambda>(symbol, address).
     tbind (view protocolDataProvider ''getNftConfigurationData'' [JStr address]) (\<lambda>nftData.
     tbind (view protocolDataProvider ''getNftTokenData'' [JStr address]) (\<lambda>nftTokenData.
     tseq (print_fields [''ltv'', ''liquidationThreshold'', ''liquidationBonus'', ''redeemDuration'',
       ''auctionDuration'', ''redeemFine'', ''redeemThreshold'', ''minBidFine'', ''isActive'', ''isFrozen''] nftData)
     (print_fields [''bNftSymbol'', ''bNftAddress''] nftTokenData))))"

definition print_config :: "string \<Rightarrow> unit task" where
  "print_config pool =
     tbind (loadPoolConfig pool) (\<lambda>poolConfig.
     tbind (on_fork_or_network (ProviderRegistry poolConfig)) (\<lambda>providerRegistryAddress.
     tbind (getLendPoolAddressesProviderRegistry (Option.bind providerRegistryAddress id)) (\<lambda>providerRegistry.
     tbind (view providerRegistry ''getAddressesProvidersList'' []) (\<lambda>providers.
     tbind (first_of providers) (\<lambda>first.
     tbind (getLendPoolAddressesProvider (getter_arg first)) (\<lambda>addressesProvider.
     tbind (data_provider_of addressesProvider) (\<lambda>protocolDataProvider.
     tseq (print_provider addressesProvider)
     (tbind (pool_of addressesProvider) (\<lambda>lendPoolProxy.
     tseq (tfor [''getMaxNumberOfReserves'', ''getMaxNumberOfNfts'', ''paused'']
       (\<lambda>reader. print_view lendPoolProxy reader []))
     (tbind (on_fork_or_network (ReserveAssets poolConfig)) (\<lambda>reserveAssets.
     case reserveAssets of None \<Rightarrow> tthrow JsTypeError | Some reserves \<Rightarrow>
     tseq (tfor reserves (print_reserve_config protocolDataProvider))
     (tbind (on_fork_or_network (NftsAssets poolConfig)) (\<lambda>nftsAsset.
     case nftsAsset of None \<Rightarrow> tthrow JsTypeError | Some nfts \<Rightarrow>
     tfor nfts (print_nft_config protocolDataProvider))))))))))))))"

section \<open>One reserve, one NFT\<close>

definition print_reserve :: "string \<Rightarrow> string \<Rightarrow> string option \<Rightarrow> unit task" where
  "print_reserve pool asset user =
     tbind (loadPoolConfig pool) (\<lambda>poolConfig.
     tbind (getLendPoolAddressesProvider None) (\<lambda>addressProvider.
     tbind (data_provider_of addressProvider) (\<lambda>protocolDataProvider.
     tbind (view addressProvider ''getUIDataProvider'' []) (\<lambda>uiAddress.
     tbind (getUIPoolDataProvider (getter_arg uiAddress)) (\<lambda>uiDataProvider.
     tbind (view protocolDataProvider ''getReserveTokenData'' [JStr asset]) (\<lambda>reserveToken.
     tbind (struct_field ''bTokenAddress'' reserveToken) (\<lambda>bTokenAddress.
     tbind (getBToken (getter_arg bTokenAddress)) (\<lambda>bTokenContract.
     tbind (view bTokenContract ''totalSupply'' []) (\<lambda>bTokenTotalSupply.
     tbind (struct_field ''debtTokenAddress'' reserveToken) (\<lambda>debtTokenAddress.
     tbind (getDebtToken (getter_arg debtTokenAddress)) (\<lambda>debtTokenContract.
     tbind (view debtTokenContract ''totalSupply'' []) (\<lambda>debtTokenTotalSupply.
     tbind (getIErc20Detailed (Some asset)) (\<lambda>underlyingContract.
     tbind (view underlyingContract ''balanceOf'' [bTokenAddress]) (\<lambda>underlyingBalance.
     tseq (print_view underlyingContract ''symbol'' [])
     (tseq (print_view underlyingContract ''decimals'' [])
     (tseq (to_string underlyingBalance)
     (tseq (to_string bTokenTotalSupply)
     (tseq (to_string debtTokenTotalSupply)
     (tbind (view protocolDataProvider ''getReserveData'' [JStr asset]) (\<lambda>reserveData.
     tseq (print_fields [''availableLiquidity'', ''totalVariableDebt'', ''liquidityRate'', ''variableBorrowRate'',
       ''liquidityIndex'', ''variableBorrowIndex'', ''lastUpdateTimestamp''] reserveData)
     (case user of None \<Rightarrow> tret () | Some u \<Rightarrow>
       tbind (view protocolDataProvider ''getUserReserveData'' [JStr asset, JStr u]) (\<lambda>userReserveData.
       print_fields [''currentBTokenBalance'', ''currentVariableDebt'', ''scaledVariableDebt'']
         userReserveData))))))))))))))))))))))"

definition print_nft :: "string \<Rightarrow> string option \<Rightarrow> string option \<Rightarrow> string option \<Rightarrow> unit task" where
  "print_nft pool asset tokenId loanId =
     tbind (loadPoolConfig pool) (\<lambda>poolConfig.
     tbind (getBendProtocolDataProvider None) (\<lambda>protocolDataProvider.
     tbind (case loanId of
         Some l \<Rightarrow> view protocolDataProvider ''getLoanDataByLoanId'' [JStr l]
       | None \<Rightarrow> view protocolDataProvider ''getLoanDataByCollateral'' [opt_val asset, opt_val tokenId]) (\<lambda>loanData.
     print_fields [''loanId'', ''state'', ''nftAsset'', ''nftTokenId'', ''borrower'', ''reserveAsset'',
       ''scaledAmount'', ''currentAmount''] loanData)))"

section \<open>Contracts, accounts\<close>

definition print_contracts_task :: "string list task" where
  "print_contracts_task = printContracts"

definition print_accounts :: "unit task" where
  "print_accounts =
     tbind getEthersSigners (\<lambda>allSigners.
     tfor allSigners (\<lambda>signer.
       tbind (ask (External ''getBalance'' [JStr signer])) (\<lambda>balance.
       tseq (ask (External ''formatEther'' [balance])) (tret ()))))"

text \<open>The wallets are made by the library \<open>ethers\<close>, from the mnemonic or at random.\<close>

definition generate_accounts :: "unit task" where
  "generate_accounts =
     tbind (tget (\<lambda>w. procenv w ''MNEMONIC'')) (\<lambda>mnemonic.
     tfor [0..<20] (\<lambda>index.
       if truthy_opt mnemonic then
         (let mpath = ''m/44'' @ [CHR 0x27] @ ''/60'' @ [CHR 0x27] @ ''/0'' @ [CHR 0x27] @ ''/0/'' @ show_nat index in
          tseq (ask (External ''Wallet.fromMnemonic'' [opt_val mnemonic, JStr mpath])) (tret ()))
       else tseq (ask (External ''Wallet.createRandom'' [])) (tret ())))"

definition generate_mnemonics :: "unit task" where
  "generate_mnemonics = tfor [0..<20] (\<lambda>index.
     tbind (ask (External ''randomBytes'' [JNum 16])) (\<lambda>randomBytes.
     tseq (ask (External ''entropyToMnemonic'' [randomBytes])) (tret ())))"

section \<open>Data for the user interface\<close>

definition ui_providers :: "string \<Rightarrow> (contract \<times> contract) task" where
  "ui_providers pool =
     tbind (loadPoolConfig pool) (\<lambda>poolConfig.
     tbind (getLendPoolAddressesProvider None) (\<lambda>addressesProvider.
     tbind (getBendProtocolDataProvider None) (\<lambda>dataProvider.
     tbind (getUIPoolDataProvider None) (\<lambda>uiProvider.
     tret (addressesProvider, uiProvider)))))"

definition print_ui_reserve_data :: "string \<Rightarrow> string \<Rightarrow> unit task" where
  "print_ui_reserve_data pool user =
     tbind (ui_providers pool) (\<lambda>(addressesProvider, uiProvider).
     tseq (print_view uiProvider ''getSimpleReservesData'' [addr addressesProvider])
     (print_view uiProvider ''getUserReservesData'' [addr addressesProvider, JStr user]))"

definition print_ui_nft_data :: "string \<Rightarrow> string \<Rightarrow> unit task" where
  "print_ui_nft_data pool user =
     tbind (ui_providers pool) (\<lambda>(addressesProvider, uiProvider).
     tseq (print_view uiProvider ''getSimpleNftsData'' [addr addressesProvider])
     (print_view uiProvider ''getUserNftsData'' [addr addressesProvider, JStr user]))"

definition print_ui_loan_data :: "string \<Rightarrow> string \<Rightarrow> string \<Rightarrow> unit task" where
  "print_ui_loan_data pool token i =
     tbind (getLendPoolAddressesProvider None) (\<lambda>addressesProvider.
     tbind (getUIPoolDataProvider None) (\<lambda>uiProvider.
     print_view uiProvider ''getSimpleLoansData'' [addr addressesProvider, JArr [JStr token], JArr [JStr i]]))"

text \<open>\<open>v.join(",")\<close>\<close>

definition joined :: "jsval \<Rightarrow> unit task" where
  "joined v = (case v of JArr vs \<Rightarrow> tret () | _ \<Rightarrow> tthrow JsTypeError)"

definition print_wallet_balance ::
  "string \<Rightarrow> string \<Rightarrow> string \<Rightarrow> string \<Rightarrow> string option \<Rightarrow> string option \<Rightarrow> unit task" where
  "print_wallet_balance pool meth user token start count1 =
     tbind (getWalletProvider None) (\<lambda>walletProvider.
     if meth = ''batchPunkOfOwner'' then
       tbind (view walletProvider ''batchPunkOfOwner'' [JStr user, JStr token, opt_val start, opt_val count1]) joined
     else if meth = ''batchTokenOfOwner'' then
       tbind (view walletProvider ''batchTokenOfOwner'' [JStr user, JStr token, opt_val start, opt_val count1]) joined
     else if meth = ''batchTokenOfOwnerByIndex'' then
       tbind (view walletProvider ''batchTokenOfOwnerByIndex'' [JStr user, JStr token]) joined
     else tret ())"

end
