(* ===== verification/Answers.thy ===== *)
theory Answers
  imports PrintTasks
begin

text \<open>
  Tools for the properties of the operating tasks. \<open>accepted\<close> lists the requests of a history that the
  node answered, so that the state of a contract can be stated as a function of the transactions it has
  accepted. \<open>touches P\<close> says of a run, however it ends, that it leaves the database alone and makes only
  requests that satisfy \<open>P\<close>; it composes like the other relations on runs.
\<close>

section \<open>Accepted requests\<close>

definition accepted :: "(request list \<Rightarrow> request \<Rightarrow> string + jsval) \<Rightarrow> request list \<Rightarrow> request list" where
  "accepted nd h = map (\<lambda>i. h ! i) (filter (\<lambda>i. \<not> isl (nd (take i h) (h ! i))) [0..<length h])"

lemma accepted_Nil [simp]: "accepted nd [] = []"
  by (simp add: accepted_def)

lemma accepted_snoc [simp]:
  "accepted nd (h @ [r]) = accepted nd h @ (if isl (nd h r) then [] else [r])"
proof -
  have "filter (\<lambda>i. \<not> isl (nd (take i (h @ [r])) ((h @ [r]) ! i))) [0..<length h]
      = filter (\<lambda>i. \<not> isl (nd (take i h) (h ! i))) [0..<length h]"
    by (rule filter_cong) (auto simp: nth_append)
  moreover have "map (\<lambda>i. (h @ [r]) ! i) (filter Q [0..<length h]) = map (\<lambda>i. h ! i) (filter Q [0..<length h])" for Q
    by (auto simp: nth_append)
  ultimately show ?thesis by (simp add: accepted_def)
qed

lemma accepted_append_quiet:
  "\<exists>rs'. accepted nd (h @ rs) = accepted nd h @ rs' \<and> set rs' \<subseteq> set rs"
proof (induction rs rule: rev_induct)
  case Nil
  then show ?case by simp
next
  case (snoc r rs)
  then obtain rs' where "accepted nd (h @ rs) = accepted nd h @ rs'" "set rs' \<subseteq> set rs" by blast
  then show ?case
    using accepted_snoc [of nd "h @ rs" r]
    by (intro exI [of _ "rs' @ (if isl (nd (h @ rs) r) then [] else [r])"]) auto
qed

section \<open>Steps whose result matters\<close>

context run_relation
begin

lemma bind_run:
  assumes "obeys R m" and "\<And>x v. m w = (Inr x, v) \<Longrightarrow> R v (snd (f x v))"
  shows "R w (snd (tbind m f w))"
proof (cases "m w")
  case (Pair r v)
  have "R w v" using assms(1) Pair by (rule run)
  with assms(2) Pair show ?thesis by (cases r) (auto simp: tbind_def intro: R_trans)
qed

lemma seq_run:
  assumes "R w (snd (m w))" and "obeys R k"
  shows "R w (snd (tseq m k w))"
proof (cases "m w")
  case (Pair r v)
  with assms obeysD [OF assms(2), of v] show ?thesis by (cases r) (auto simp: tseq_def tbind_def intro: R_trans)
qed

end

section \<open>Runs that make only certain requests\<close>

definition touches :: "(request \<Rightarrow> bool) \<Rightarrow> world \<Rightarrow> world \<Rightarrow> bool" where
  "touches P w w' \<longleftrightarrow> same_env w w' \<and> db w' = db w \<and> (\<exists>rs. hist w' = hist w @ rs \<and> (\<forall>r \<in> set rs. P r))"

interpretation tch: run_relation "touches P" for P
proof
  show "touches P w w" for w by (simp add: touches_def same_env_def)
  show "touches P u v \<Longrightarrow> touches P v w \<Longrightarrow> touches P u w" for u v w
    unfolding touches_def by (auto intro: same_env_trans)
qed

lemma touches_ask: "P r \<Longrightarrow> obeys (touches P) (ask r)"
  by (auto simp: obeys_def touches_def same_env_def ask_world)

text \<open>The requests that change nothing on the chain, and the worlds that differ only by them.\<close>

fun reading :: "request \<Rightarrow> bool" where
  "reading (DeployTx s f args libs) = False"
| "reading (SendTx s a m args) = False"
| "reading _ = True"

definition reads_allowed :: "(request \<Rightarrow> bool) \<Rightarrow> bool" where
  "reads_allowed P \<longleftrightarrow> (\<forall>r. reading r \<longrightarrow> P r)"

lemma reads_allowed_reading [simp]: "reads_allowed reading"
  by (simp add: reads_allowed_def)

lemma touches_reading: "reads_allowed P \<Longrightarrow> reading r \<Longrightarrow> obeys (touches P) (ask r)"
  by (simp add: reads_allowed_def touches_ask)

lemma touches_asks:
  assumes "reads_allowed P"
  shows "obeys (touches P) (ask Accounts)" "obeys (touches P) (ask (WaitTx tx))"
    "obeys (touches P) (ask (ViewCall a m args))" "obeys (touches P) (ask (ProviderSend m args))"
    "obeys (touches P) (ask (RunTask n v))" "obeys (touches P) (ask (External n args))"
  using assms by (simp_all add: touches_reading)

text \<open>What reads: signers, getters, the configuration, amounts in units of a token.\<close>

lemma touches_signers:
  assumes "reads_allowed P"
  shows "obeys (touches P) getEthersSigners" "obeys (touches P) getEthersSignersAddresses"
    "obeys (touches P) (nth_signer i)" "obeys (touches P) getDeploySigner"
    "obeys (touches P) (getEthersSignerByAddress s)" "obeys (touches P) deployer_pair"
    "obeys (touches P) (account ss n)" "obeys (touches P) (balance_of_signer s)"
  unfolding getEthersSigners_def getEthersSignersAddresses_def nth_signer_def getDeploySigner_def
    getEthersSignerByAddress_def deployer_pair_def account_def balance_of_signer_def
  by (intro tch.rules tch.value_rules touches_asks assms)+

lemma touches_db:
  assumes "reads_allowed P"
  shows "obeys (touches P) (getDb_get i)" "obeys (touches P) (address_in_db i)"
    "obeys (touches P) (getContractAddressInDb i)" "obeys (touches P) (tryGetContractAddressInDb i)"
    "obeys (touches P) (loadPoolConfig p)" "obeys (touches P) (connectOrDb i a)" "obeys (touches P) printContracts"
  unfolding getDb_get_def address_in_db_def getContractAddressInDb_def tryGetContractAddressInDb_def
    loadPoolConfig_def connectOrDb_def printContracts_def
  by (intro tch.rules touches_asks touches_signers assms)+

lemma touches_view: "reads_allowed P \<Longrightarrow> obeys (touches P) (view c m args)"
  unfolding view_def by (intro touches_asks)

lemma touches_print:
  assumes "reads_allowed P"
  shows "obeys (touches P) (print_view c m args)" "obeys (touches P) (print_fields ns v)"
    "obeys (touches P) (first_of v)" "obeys (touches P) (joined v)"
  unfolding print_view_def print_fields_def first_of_def joined_def
  by (intro tch.rules tch.value_rules touches_view assms | simp add: tch.tret tch.tthrow split: jsval.split)+

lemma touches_encode: "reads_allowed P \<Longrightarrow> obeys (touches P) (encodeFunctionData f args)"
  unfolding encodeFunctionData_def by (intro touches_asks)

lemmas touches_rules = touches_encode touches_print touches_view touches_db touches_signers touches_asks
  tch.value_rules tch.rules

lemma send_touches:
  assumes "reads_allowed P" and "P (SendTx s a m args)"
  shows "obeys (touches P) (send_and_wait s a m args)"
  unfolding send_and_wait_def by (intro touches_rules assms(1) touches_ask assms(2))

end
