(* ===== verification/AdminSpec.thy ===== *)
theory AdminSpec
  imports Answers
begin

text \<open>
  What the operating tasks on the pool and on the oracles do. The switches of the pool are specified
  against contracts that report a flag: the flag is the one set by the last transaction that the node
  accepted for it.
\<close>

section \<open>Steps\<close>

lemma quiet_then:
  assumes "tbind m f w = (Inr x, w')" and "obeys quiet m"
  obtains y v where "m w = (Inr y, v)" "quiet w v" "f y v = (Inr x, w')"
  using assms qt.run by (fastforce simp: tbind_returns)

lemma touches_quiet: "touches reading w w' \<Longrightarrow> quiet w w'"
proof -
  assume t: "touches reading w w'"
  then obtain rs where rs: "hist w' = hist w @ rs" "\<forall>r \<in> set rs. reading r" by (auto simp: touches_def)
  have "effect_of r v = []" if "reading r" for r v using that by (cases r) auto
  with rs(2) have "effects_from (node w) (hist w) rs = []" by (intro effects_from_none) simp
  with t rs show "quiet w w'"
    by (auto simp: quiet_def does_def touches_def effects_def effects_from_append hist_grows_def db_get_def
        same_env_def)
qed

lemma obeys_touches_quiet: "obeys (touches reading) m \<Longrightarrow> obeys quiet m"
  by (simp add: obeys_def touches_quiet)

lemma reads_run:
  assumes "m w = (r, w')" and "touches reading u w" and "obeys (touches reading) m"
  shows "touches reading u w'"
  using tch.run [OF assms(3,1)] assms(2) by (rule tch.R_trans [rotated])

lemma view_reads: "view c m args w = (r, w') \<Longrightarrow> touches reading u w \<Longrightarrow> touches reading u w'"
  by (erule reads_run) (simp_all add: touches_rules)

lemma connectOrDb_reads: "connectOrDb i a w = (r, w') \<Longrightarrow> touches reading u w \<Longrightarrow> touches reading u w'"
  by (erule reads_run) (simp_all add: touches_rules)

lemmas reads = touches_rules reads_allowed_reading

text \<open>A getter called with an address that the node answered.\<close>

lemma getter_arg_str [simp]: "getter_arg (JStr s) = Some s"
  by (simp add: getter_arg_def)

lemma connectOrDb_at: "connectOrDb i (Some a) w = (Inr c, w') \<Longrightarrow> a \<noteq> [] \<Longrightarrow> c_address c = a"
  using connectOrDb_returns [of i "Some a" w c w'] by simp

section \<open>Flags of a contract\<close>

text \<open>
  The flag after the transactions \<open>rs\<close>: \<open>on\<close> and \<open>off\<close> are the method and the arguments that set and
  clear it at the contract \<open>conf\<close>.
\<close>

definition flag_state ::
  "string \<Rightarrow> string \<times> jsval list \<Rightarrow> string \<times> jsval list \<Rightarrow> bool \<Rightarrow> request list \<Rightarrow> bool" where
  "flag_state conf on off b0 rs = foldl (\<lambda>b r. case r of
       SendTx s a m args \<Rightarrow> if a = conf \<and> (m, args) = on then True
         else if a = conf \<and> (m, args) = off then False else b
     | _ \<Rightarrow> b) b0 rs"

lemma flag_state_reading: "\<forall>r \<in> set rs. reading r \<Longrightarrow> flag_state conf on off b rs = b"
proof (induction rs)
  case (Cons r rs)
  then show ?case by (cases r) (auto simp: flag_state_def)
qed (simp add: flag_state_def)

lemma flag_state_append: "flag_state conf on off b (rs @ ss) = flag_state conf on off (flag_state conf on off b rs) ss"
  by (simp add: flag_state_def)

definition flag_at :: "world \<Rightarrow> string \<Rightarrow> string \<times> jsval list \<Rightarrow> string \<times> jsval list \<Rightarrow> bool \<Rightarrow> bool" where
  "flag_at w conf on off b0 = flag_state conf on off b0 (accepted (node w) (hist w))"

lemma flag_at_touches: "touches reading w w' \<Longrightarrow> flag_at w' conf on off b0 = flag_at w conf on off b0"
proof -
  assume t: "touches reading w w'"
  then obtain rs where rs: "hist w' = hist w @ rs" "\<forall>r \<in> set rs. reading r" by (auto simp: touches_def)
  from accepted_append_quiet [of "node w" "hist w" rs] obtain rs' where
    "accepted (node w) (hist w @ rs) = accepted (node w) (hist w) @ rs'" "set rs' \<subseteq> set rs" by blast
  with t rs show ?thesis
    by (auto simp: flag_at_def touches_def same_env_def flag_state_append flag_state_reading subset_eq)
qed

lemma send_accepted:
  assumes "send c m args w = (Inr u, w')"
  shows "accepted (node w') (hist w') = accepted (node w) (hist w) @
    [SendTx (c_signer c) (c_address c) m args, WaitTx (length (hist w))]"
  using assms accepted_snoc [of "node w" "hist w @ [SendTx (c_signer c) (c_address c) m args]" "WaitTx (length (hist w))"]
  by (auto simp: send_def send_and_wait_returns)

lemma switch_core:
  assumes run: "(if js_eq_bool (JBool (flag_at w conf on off b0)) want then tret ()
      else tseq (send c m args) rest) w = (Inr u, w')"
    and c: "c_address c = conf" "(m, args) = (if want then on else off)" "on \<noteq> off"
    and rest: "obeys (touches reading) rest"
  shows "flag_at w' conf on off b0 = want \<and>
    does w w' (if flag_at w conf on off b0 = want then [] else [Sent conf m args]) []"
proof (cases "flag_at w conf on off b0 = want")
  case True
  with run show ?thesis by (auto simp: does_refl)
next
  case False
  with run obtain w1 where 1: "send c m args w = (Inr (), w1)" and 2: "rest w1 = (Inr u, w')"
    by (auto simp: task_returns split: if_splits)
  have t: "touches reading w1 w'" using rest 2 by (rule tch.run)
  have "flag_at w1 conf on off b0 = want"
    using c by (auto simp: flag_at_def send_accepted [OF 1] flag_state_def split: if_splits)
  with False flag_at_touches [OF t] does_quiet_right [OF send_does [OF 1] touches_quiet [OF t]] c(1)
  show ?thesis by simp
qed


section \<open>The switches of the pool\<close>

text \<open>
  The provider of the database answers the method \<open>m\<close> with the arguments \<open>args\<close> with the address \<open>a\<close>; the request \<open>q\<close> is answered with a
  value whose part \<open>get\<close> is the flag.
\<close>

definition provider_says :: "world \<Rightarrow> string \<Rightarrow> jsval list \<Rightarrow> string \<Rightarrow> bool" where
  "provider_says w m args a \<longleftrightarrow> a \<noteq> [] \<and> (\<exists>e. db_get (cid C_LendPoolAddressesProvider) w = Some e \<and>
     (\<forall>h. node w h (ViewCall (e_address e) m args) = Inr (JStr a)))"

definition reports_flag :: "world \<Rightarrow> request \<Rightarrow> (jsval \<Rightarrow> jsval option) \<Rightarrow> string \<Rightarrow>
    string \<times> jsval list \<Rightarrow> string \<times> jsval list \<Rightarrow> bool \<Rightarrow> bool" where
  "reports_flag w q get conf on off b0 \<longleftrightarrow> (\<forall>h. \<exists>v. node w h q = Inr v \<and>
     get v = Some (JBool (flag_state conf on off b0 (accepted (node w) h))))"

lemma touches_env: "touches P w w' \<Longrightarrow> node w' = node w \<and> db_get i w' = db_get i w"
  by (simp add: touches_def same_env_def db_get_def)

lemma provider_says_view:
  assumes "provider_says w m args a" and "getLendPoolAddressesProvider None w = (Inr p, w1)"
    and "view p m args v = (Inr x, v')" and "touches reading w v"
  shows "x = JStr a"
  using assms(1,3) touches_env [OF assms(4)] provider_returns [OF assms(2)]
  by (auto simp: provider_says_def view_def ask_returns)

lemma getter_said:
  "connectOrDb i (getter_arg (JStr a)) v = (Inr c, v') \<Longrightarrow> a \<noteq> [] \<Longrightarrow> c_address c = a"
  by (simp add: connectOrDb_at)

lemma reports_flag_view:
  assumes "reports_flag w (ViewCall (c_address c) m args) get conf on off b0"
    and "view c m args v = (Inr x, v')" and "touches reading w v"
  shows "get x = Some (JBool (flag_at v conf on off b0))"
  using assms(1) [unfolded reports_flag_def, rule_format, of "hist v"] assms(2) touches_env [OF assms(3)]
  by (auto simp: view_def ask_returns flag_at_def)

text \<open>What the task makes of its parameter, whatever that is.\<close>

lemma set_pause_reaches:
  assumes run: "set_pause pool state w = (Inr u, w')"
    and conf: "provider_says w ''getLendPoolConfigurator'' [] conf" and lp: "provider_says w ''getLendPool'' [] lp"
    and flag: "reports_flag w (ViewCall lp ''paused'' []) Some conf
      (''setPoolPause'', [JBool True]) (''setPoolPause'', [JBool False]) b0"
  defines "paused \<equiv> \<lambda>v. flag_at v conf (''setPoolPause'', [JBool True]) (''setPoolPause'', [JBool False]) b0"
  shows "paused w' = want_state state \<and>
    does w w' (if paused w = want_state state then []
      else [Sent conf ''setPoolPause'' [JBool (want_state state)]]) []"
proof -
  note gets = getLendPoolAddressesProvider_def getLendPoolConfiguratorProxy_def getLendPool_def
  from run obtain p w1 ea w2 ca w3 c w4 la w5 l w6 cur v where
    1: "getLendPoolAddressesProvider None w = (Inr p, w1)" and
    2: "view p ''getEmergencyAdmin'' [] w1 = (Inr ea, w2)" and
    3: "view p ''getLendPoolConfigurator'' [] w2 = (Inr ca, w3)" and
    4: "getLendPoolConfiguratorProxy (getter_arg ca) w3 = (Inr c, w4)" and
    5: "view p ''getLendPool'' [] w4 = (Inr la, w5)" and
    6: "getLendPool (getter_arg la) w5 = (Inr l, w6)" and
    7: "view l ''paused'' [] w6 = (Inr cur, v)" and
    8: "(if js_eq_bool cur (want_state state) then tret ()
      else tseq (send (as_signer (Some (js_str ea)) c) ''setPoolPause'' [JBool (want_state state)])
        (tseq (view l ''paused'' []) (tret ()))) v = (Inr u, w')"
    unfolding set_pause_def Let_def tbind_returns by blast
  note t2 = view_reads [OF 2 connectOrDb_reads [OF 1 [unfolded gets] tch.R_refl]]
  note t4 = connectOrDb_reads [OF 4 [unfolded gets] view_reads [OF 3 t2]]
  note t6 = connectOrDb_reads [OF 6 [unfolded gets] view_reads [OF 5 t4]]
  note tv = view_reads [OF 7 t6]
  have ca: "ca = JStr conf" "la = JStr lp"
    using provider_says_view [OF conf 1 3 t2] provider_says_view [OF lp 1 5 t4] by simp_all
  have c: "c_address c = conf" "c_address l = lp"
    using 4 6 conf lp unfolding ca gets provider_says_def by (auto intro: connectOrDb_at)
  have flag': "reports_flag w (ViewCall (c_address l) ''paused'' []) Some conf
      (''setPoolPause'', [JBool True]) (''setPoolPause'', [JBool False]) b0" using flag c(2) by simp
  have "cur = JBool (paused v)"
    using reports_flag_view [OF flag' 7 t6] flag_at_touches [OF view_reads [OF 7 tch.R_refl]]
    by (simp add: paused_def reads)
  then have "paused w' = want_state state \<and>
      does v w' (if paused v = want_state state then []
        else [Sent conf ''setPoolPause'' [JBool (want_state state)]]) []"
    using 8 c(1) unfolding paused_def
    by (intro switch_core [where c = "as_signer (Some (js_str ea)) c" and u = u
          and rest = "tseq (view l ''paused'' []) (tret ())"]) (simp_all add: reads)
  with flag_at_touches [OF tv] does_quiet_left [OF touches_quiet [OF tv]] show ?thesis
    by (simp add: paused_def)
qed

lemma pool_switch_settles:
  assumes run: "pool_switch reader flag on off asset state w = (Inr u, w')"
    and conf: "provider_says w ''getLendPoolConfigurator'' [] conf" and dp: "provider_says w ''getBendDataProvider'' [] dp"
    and reports: "reports_flag w (ViewCall dp reader [JStr asset]) (js_prop flag) conf
      (on, [JStr asset]) (off, [JStr asset]) b0"
    and differ: "on \<noteq> off"
  defines "now \<equiv> \<lambda>v. flag_at v conf (on, [JStr asset]) (off, [JStr asset]) b0"
  shows "now w' = want_state state \<and>
    does w w' (if now w = want_state state then []
      else [Sent conf (if want_state state then on else off) [JStr asset]]) []"
proof -
  note gets = getLendPoolAddressesProvider_def getLendPoolConfiguratorProxy_def getBendProtocolDataProvider_def
  from run obtain p w1 pa w2 ca w3 c w4 da w5 d w6 x w7 cur v where
    1: "getLendPoolAddressesProvider None w = (Inr p, w1)" and
    2: "view p ''getPoolAdmin'' [] w1 = (Inr pa, w2)" and
    3: "view p ''getLendPoolConfigurator'' [] w2 = (Inr ca, w3)" and
    4: "getLendPoolConfiguratorProxy (getter_arg ca) w3 = (Inr c, w4)" and
    5: "view p ''getBendDataProvider'' [] w4 = (Inr da, w5)" and
    6: "getBendProtocolDataProvider (getter_arg da) w5 = (Inr d, w6)" and
    7: "view d reader [JStr asset] w6 = (Inr x, w7)" and
    8: "struct_field flag x w7 = (Inr cur, v)" and
    9: "(if js_eq_bool cur (want_state state) then tret ()
      else tseq (send (as_signer (Some (js_str pa)) c) (if want_state state then on else off) [JStr asset])
        (tbind (view d reader [JStr asset]) (\<lambda>newConfig. tseq (struct_field flag newConfig) (tret ())))) v
      = (Inr u, w')"
    unfolding pool_switch_def Let_def tbind_returns by blast
  note t2 = view_reads [OF 2 connectOrDb_reads [OF 1 [unfolded gets] tch.R_refl]]
  note t4 = connectOrDb_reads [OF 4 [unfolded gets] view_reads [OF 3 t2]]
  note t6 = connectOrDb_reads [OF 6 [unfolded gets] view_reads [OF 5 t4]]
  note t7 = view_reads [OF 7 t6]
  have v: "v = w7" "js_prop flag x = Some cur" using 8 by (simp_all add: struct_field_returns)
  have ca: "ca = JStr conf" "da = JStr dp"
    using provider_says_view [OF conf 1 3 t2] provider_says_view [OF dp 1 5 t4] by simp_all
  have c: "c_address c = conf" "c_address d = dp"
    using 4 6 conf dp unfolding ca gets provider_says_def by (auto intro: connectOrDb_at)
  have reports': "reports_flag w (ViewCall (c_address d) reader [JStr asset]) (js_prop flag) conf
      (on, [JStr asset]) (off, [JStr asset]) b0" using reports c(2) by simp
  have "cur = JBool (now v)"
    using reports_flag_view [OF reports' 7 t6] flag_at_touches [OF view_reads [OF 7 tch.R_refl]] v
    by (simp add: now_def)
  then have "now w' = want_state state \<and>
      does v w' (if now v = want_state state then []
        else [Sent conf (if want_state state then on else off) [JStr asset]]) []"
    using 9 c(1) differ unfolding now_def
    by (intro switch_core [where c = "as_signer (Some (js_str pa)) c" and u = u
          and rest = "tbind (view d reader [JStr asset]) (\<lambda>newConfig. tseq (struct_field flag newConfig) (tret ()))"])
      (simp_all add: reads)
  with flag_at_touches [OF t7] does_quiet_left [OF touches_quiet [OF t7]] show ?thesis
    by (simp add: now_def v)
qed

text \<open>
  What the parameter of these tasks asks for, as they document it: \<open>0-false, 1-true\<close>, as a word of the command line, or
  a number or a boolean of a caller.
\<close>

definition state_asks :: "jsval \<Rightarrow> bool \<Rightarrow> bool" where
  "state_asks state want \<longleftrightarrow>
     state \<in> {JStr (if want then ''1'' else ''0''), JNum (if want then 1 else 0), JBool want}"

lemma state_asks_want: "state_asks state want \<Longrightarrow> want_state state = want"
  by (cases want)
    (auto simp: state_asks_def want_state_def js_eq_bool_def js_number_def trim_def is_ws_def prefixed_def
      unsigned_decimal_def is_digit_def digit_val_def parse_nat_def exponent_of_def scaled_def)

text \<open>The word \<open>false\<close>, which is not documented but accepted, is not loosely equal to 0.\<close>

lemma want_state_word_false: "want_state (JStr ''false'')"
  by (simp add: want_state_def js_eq_bool_def js_number_def trim_def is_ws_def prefixed_def unsigned_decimal_def
      is_digit_def digit_val_def parse_nat_def exponent_of_def)

text \<open>C20: When \<open>pool-admin:set-pause\<close> with a documented parameter returns, the pool is in the state that the parameter
  asks for; it has sent the one transaction that brings it there if it was not there before, and none otherwise.\<close>

theorem set_pause_settles:
  assumes run: "set_pause pool state w = (Inr u, w')" and asks: "state_asks state want"
    and conf: "provider_says w ''getLendPoolConfigurator'' [] conf" and lp: "provider_says w ''getLendPool'' [] lp"
    and flag: "reports_flag w (ViewCall lp ''paused'' []) Some conf
      (''setPoolPause'', [JBool True]) (''setPoolPause'', [JBool False]) b0"
  defines "paused \<equiv> \<lambda>v. flag_at v conf (''setPoolPause'', [JBool True]) (''setPoolPause'', [JBool False]) b0"
  shows "paused w' = want \<and>
    does w w' (if paused w = want then [] else [Sent conf ''setPoolPause'' [JBool want]]) []"
  using set_pause_reaches [OF run conf lp flag] unfolding state_asks_want [OF asks] paused_def .

text \<open>C23: The word \<open>false\<close> on the command line does the opposite of what it says: when \<open>pool-admin:set-pause\<close> returns,
  the pool is paused, by the transaction that pauses it if it was not paused before.\<close>

theorem set_pause_word_false:
  assumes run: "set_pause pool (JStr ''false'') w = (Inr u, w')"
    and conf: "provider_says w ''getLendPoolConfigurator'' [] conf" and lp: "provider_says w ''getLendPool'' [] lp"
    and flag: "reports_flag w (ViewCall lp ''paused'' []) Some conf
      (''setPoolPause'', [JBool True]) (''setPoolPause'', [JBool False]) b0"
  defines "paused \<equiv> \<lambda>v. flag_at v conf (''setPoolPause'', [JBool True]) (''setPoolPause'', [JBool False]) b0"
  shows "paused w' \<and> does w w' (if paused w then [] else [Sent conf ''setPoolPause'' [JBool True]]) []"
  using set_pause_reaches [OF run conf lp flag] unfolding eqTrueI [OF want_state_word_false] paused_def by simp

text \<open>The four switches: the task, the view and the flag it reads, the methods that set and clear the flag.\<close>

definition pool_switches ::
  "((string \<Rightarrow> string \<Rightarrow> jsval \<Rightarrow> unit task) \<times> string \<times> string \<times> string \<times> string) list" where
  "pool_switches = [
     (set_reserve_active, ''getReserveConfigurationData'', ''isActive'', ''activateReserve'', ''deactivateReserve''),
     (set_reserve_frozen, ''getReserveConfigurationData'', ''isFrozen'', ''freezeReserve'', ''unfreezeReserve''),
     (set_nft_active, ''getNftConfigurationData'', ''isActive'', ''activateNft'', ''deactivateNft''),
     (set_nft_frozen, ''getNftConfigurationData'', ''isFrozen'', ''freezeNft'', ''unfreezeNft'')]"


end
