(* ===== verification/HelperSpec.thy ===== *)
theory HelperSpec
  imports AdminSpec
begin

text \<open>
  What the oracle settings and the helper tasks do: which transactions they send, that a failed check
  leaves everything as it was, and that the encoded calls are the ones the sending task makes.
\<close>

section \<open>Loops that stop\<close>

text \<open>A run that fails and has only read until then.\<close>

definition stops :: "'a task \<Rightarrow> world \<Rightarrow> bool" where
  "stops m w \<longleftrightarrow> (\<exists>e. fst (m w) = Inl e) \<and> touches reading w (snd (m w))"

lemma stops_throw: "stops (tthrow e) w"
  by (simp add: stops_def tch.R_refl)

lemma stops_bind:
  assumes "obeys (touches reading) m" and "\<And>x v. m w = (Inr x, v) \<Longrightarrow> stops (f x) v"
  shows "stops (tbind m f) w"
proof (cases "m w")
  case (Pair r v)
  have t: "touches reading w v" using assms(1) Pair by (rule tch.run)
  then show ?thesis
  proof (cases r)
    case (Inr x)
    with assms(2) Pair t show ?thesis by (auto simp: stops_def tbind_def intro: tch.R_trans)
  qed (simp add: stops_def tbind_def Pair)
qed

lemma stops_first: "stops m w \<Longrightarrow> stops (tbind m f) w"
  by (auto simp: stops_def tbind_def split: prod.splits sum.splits)

lemma stops_seq: "obeys (touches reading) m \<Longrightarrow> (\<And>x v. m w = (Inr x, v) \<Longrightarrow> stops k v) \<Longrightarrow> stops (tseq m k) w"
  by (simp add: tseq_def stops_bind)

lemma stops_let: "(\<And>x. x = a \<Longrightarrow> stops (f x) w) \<Longrightarrow> stops (let x = a in f x) w"
  by simp

lemma stops_for:
  assumes "x \<in> set xs" and "\<And>y. obeys (touches reading) (f y)"
    and "\<And>v. touches reading w v \<Longrightarrow> stops (f x) v"
  shows "stops (tfor xs f) w"
  using assms(1,3)
proof (induction xs arbitrary: w)
  case (Cons y ys)
  show ?case
  proof (cases "x = y")
    case True
    then show ?thesis using Cons.prems(2) [OF tch.R_refl] by (simp add: tseq_def stops_first)
  next
    case False
    have "stops (tseq (f y) (tfor ys f)) w"
    proof (rule stops_seq [OF assms(2)])
      fix u v assume "f y w = (Inr u, v)"
      then have "touches reading w v" using assms(2) tch.run by blast
      with False Cons.prems show "stops (tfor ys f) v" by (auto intro: Cons.IH tch.R_trans)
    qed
    then show ?thesis by simp
  qed
qed simp

lemma tfor_quiet_returns:
  assumes "tfor xs f w = (Inr u, w')" and "\<And>y. obeys (touches reading) (f y)"
  shows "touches reading w w'"
  using tch.run [OF tch.tfor [OF assms(2)] assms(1)] .

section \<open>Assets of the NFT oracle\<close>

lemma check_new_asset_reads: "obeys (touches reading) (check_new_asset c a)"
  unfolding check_new_asset_def no_symbol_def getIErc721Detailed_def
  by (intro reads | simp add: tch.tret tch.tthrow split: jsval.split)+

lemma check_existing_stops:
  assumes "\<forall>h. \<exists>x. node v h (ViewCall (c_address c) ''nftPriceFeedMap'' [JStr a]) = Inr x \<and> js_truthy x"
  shows "stops (check_new_asset c a) v"
  unfolding check_new_asset_def
  using assms [rule_format, of "hist v"] by (intro stops_bind reads) (auto simp: view_def ask_returns stops_throw)

text \<open>C29: \<open>oracle-admin:set-nft-assets\<close> checks every asset before it sends anything: when it returns it has sent one
  transaction, with all the assets of the list; if the oracle knows one of them already it fails, having
  only read.\<close>

theorem set_nft_assets_all_or_nothing:
  assumes orc: "db_get (cid C_NFTOracle) w = Some orc"
    and pool: "loadPoolConfig pool w = (Inr cfg, w)"
  shows "(\<forall>u w'. set_nft_assets pool assets w = (Inr u, w') \<longrightarrow>
      does w w' [Sent (e_address orc) ''setAssets'' [JArr (map JStr (split_at (CHR '','') assets))]] []) \<and>
    (\<forall>a \<in> set (split_at (CHR '','') assets).
      (\<forall>h. \<exists>v. node w h (ViewCall (e_address orc) ''nftPriceFeedMap'' [JStr a]) = Inr v \<and> js_truthy v) \<longrightarrow>
      stops (set_nft_assets pool assets) w)"
proof (intro conjI allI impI ballI)
  fix u w' assume "set_nft_assets pool assets w = (Inr u, w')"
  with pool obtain c w1 v w2 w3 where
    1: "getNFTOracle None w = (Inr c, w1)" and 2: "view c ''owner'' [] w1 = (Inr v, w2)" and
    3: "tfor (split_at (CHR '','') assets) (check_new_asset c) w2 = (Inr (), w3)" and
    4: "send (as_signer (Some (js_str v)) c) ''setAssets'' [JArr (map JStr (split_at (CHR '','') assets))] w3
      = (Inr u, w')"
    unfolding set_nft_assets_def getEthersSignerByAddress_def by (auto simp: Let_def task_returns)
  have "touches reading w w3"
    using tfor_quiet_returns [OF 3 check_new_asset_reads]
      view_reads [OF 2 connectOrDb_reads [OF 1 [unfolded getNFTOracle_def] tch.R_refl]] by (rule tch.R_trans [rotated])
  from does_quiet_left [OF touches_quiet [OF this] send_does [OF 4]] orc
    connectOrDb_returns [OF 1 [unfolded getNFTOracle_def]]
  show "does w w' [Sent (e_address orc) ''setAssets'' [JArr (map JStr (split_at (CHR '','') assets))]] []" by simp
next
  fix a assume a: "a \<in> set (split_at (CHR '','') assets)"
    and known: "\<forall>h. \<exists>v. node w h (ViewCall (e_address orc) ''nftPriceFeedMap'' [JStr a]) = Inr v \<and> js_truthy v"
  show "stops (set_nft_assets pool assets) w"
    unfolding set_nft_assets_def getEthersSignerByAddress_def getNFTOracle_def Let_def
  proof (intro stops_bind reads)
    fix cfg' w0 c w1 v w2 s w3
    assume 1: "loadPoolConfig pool w = (Inr cfg', w0)" and 2: "connectOrDb (cid C_NFTOracle) None w0 = (Inr c, w1)"
      and 3: "view c ''owner'' [] w1 = (Inr v, w2)" and 4: "tret (Some (js_str v)) w2 = (Inr s, w3)"
    have w: "w0 = w" "w3 = w2" using 1 4 pool by simp_all
    have t: "touches reading w w2" using view_reads [OF 3 connectOrDb_reads [OF 2 tch.R_refl]] w by simp
    have "c_address c = e_address orc" using connectOrDb_returns [OF 2] orc w by simp
    then show "stops (tseq (tfor (split_at (CHR '','') assets) (check_new_asset c))
        (send (as_signer s c) ''setAssets'' [JArr (map JStr (split_at (CHR '','') assets))])) w3"
      unfolding tseq_def using known touches_env [OF t] w
      by (auto intro!: stops_first stops_for [OF a] check_new_asset_reads check_existing_stops
          simp: touches_def same_env_def)
  qed
qed

section \<open>Adding an NFT to a running pool\<close>

text \<open>
  The abstract specification: the transactions that list an NFT with the parameters \<open>p\<close> at the configurator
  \<open>conf\<close>, and at the gateway \<open>gw\<close>.
\<close>

definition list_nft :: "string \<Rightarrow> string \<Rightarrow> string \<Rightarrow> INftParams \<Rightarrow> effect list" where
  "list_nft conf gw asset p =
     [Sent conf ''batchInitNft'' [JArr [nft_init_input asset]],
      Sent conf ''configureNftAsCollateral'' [JStr asset, JStr (baseLTVAsCollateral p),
        JStr (liquidationThreshold p), JStr (liquidationBonus p)],
      Sent conf ''batchConfigNft'' [JArr [config_nft_input asset p]],
      Sent gw ''authorizeLendPoolNFT'' [JArr [JStr asset]]]"

text \<open>The parameters for an asset: those of the named strategy, or those of its symbol.\<close>

definition params_for :: "ICommonConfiguration \<Rightarrow> string option \<Rightarrow> string \<Rightarrow> INftParams option" where
  "params_for cfg strategy_name symbol =
     (if truthy_opt strategy_name then oget strategyNftParams (the strategy_name) else oget (NftsConfig cfg) symbol)"

lemma chosen_params_returns: "chosen_params strategies byName strategy_name symbol missing w = (Inr p, w') \<longleftrightarrow>
    w' = w \<and> (if truthy_opt strategy_name then oget strategies (the strategy_name) else oget byName symbol) = Some p"
  by (auto simp: chosen_params_def split: option.splits)

lemma require_bnft_reads: "obeys (touches reading) (require_bnft r a)"
  unfolding require_bnft_def by (intro reads)

lemma add_nft_to_pool_sends:
  assumes run: "add_nft_to_pool pool asset strategy_name w = (Inr u, w')"
    and cfg: "loadPoolConfig pool w = (Inr cfg, w)" and "asset \<noteq> []"
    and conf: "provider_says w ''getLendPoolConfigurator'' [] conf"
    and gw: "provider_says w ''getAddress'' [JStr ADDRESS_ID_WETH_GATEWAY] gw"
  shows "\<exists>h v p. node w h (ViewCall asset ''symbol'' []) = Inr v \<and>
    params_for cfg strategy_name (js_str v) = Some p \<and> does w w' (list_nft conf gw asset p) []"
proof -
  note gets = getLendPoolAddressesProvider_def getLendPoolConfiguratorProxy_def getBNFTRegistryProxy_def
    getWETHGateway_def getIErc721Detailed_def
  from run cfg obtain a w1 pa w2 ca w3 c w4 ba w5 b w6 w7 ga w8 g w9 n w10 v w11 p w12 w13 w14 where
    1: "getLendPoolAddressesProvider None w = (Inr a, w1)" and
    2: "view a ''getPoolAdmin'' [] w1 = (Inr pa, w2)" and
    3: "view a ''getLendPoolConfigurator'' [] w2 = (Inr ca, w3)" and
    4: "getLendPoolConfiguratorProxy (getter_arg ca) w3 = (Inr c, w4)" and
    5: "view a ''getBNFTRegistry'' [] w4 = (Inr ba, w5)" and
    6: "getBNFTRegistryProxy (getter_arg ba) w5 = (Inr b, w6)" and
    7: "require_bnft b asset w6 = (Inr (), w7)" and
    8: "view a ''getAddress'' [JStr ADDRESS_ID_WETH_GATEWAY] w7 = (Inr ga, w8)" and
    9: "getWETHGateway (getter_arg ga) w8 = (Inr g, w9)" and
    10: "getIErc721Detailed (Some asset) w9 = (Inr n, w10)" and
    11: "view n ''symbol'' [] w10 = (Inr v, w11)" and
    p: "params_for cfg strategy_name (js_str v) = Some p" and
    12: "send (as_signer (Some (js_str pa)) c) ''batchInitNft'' [JArr [nft_init_input asset]] w11 = (Inr (), w12)" and
    13: "send (as_signer (Some (js_str pa)) c) ''configureNftAsCollateral'' [JStr asset, JStr (baseLTVAsCollateral p),
        JStr (liquidationThreshold p), JStr (liquidationBonus p)] w12 = (Inr (), w13)" and
    14: "send (as_signer (Some (js_str pa)) c) ''batchConfigNft'' [JArr [config_nft_input asset p]] w13
      = (Inr (), w14)" and
    15: "send g ''authorizeLendPoolNFT'' [JArr [JStr asset]] w14 = (Inr u, w')"
    unfolding add_nft_to_pool_def getEthersSignerByAddress_def params_for_def
    by (auto simp: tbind_returns tseq_returns chosen_params_returns Let_def)
  note t3 = view_reads [OF 3 view_reads [OF 2 connectOrDb_reads [OF 1 [unfolded gets] tch.R_refl]]]
  note t7 = reads_run [OF 7 connectOrDb_reads [OF 6 [unfolded gets] view_reads [OF 5
        connectOrDb_reads [OF 4 [unfolded gets] t3]]] require_bnft_reads]
  note t10 = connectOrDb_reads [OF 10 [unfolded gets] connectOrDb_reads [OF 9 [unfolded gets] view_reads [OF 8 t7]]]
  have "ca = JStr conf" "ga = JStr gw"
    using provider_says_view [OF conf 1 3] provider_says_view [OF gw 1 8 t7]
      view_reads [OF 2 connectOrDb_reads [OF 1 [unfolded gets] tch.R_refl]] by simp_all
  then have c: "c_address c = conf" "c_address g = gw" "c_address n = asset"
    using 4 9 10 conf gw \<open>asset \<noteq> []\<close> unfolding gets provider_says_def by (auto intro: connectOrDb_at)
  have "node w (hist w10) (ViewCall asset ''symbol'' []) = Inr v"
    using 11 touches_env [OF t10] c(3) by (auto simp: view_def ask_returns)
  moreover have "does w w' (list_nft conf gw asset p) []"
    using does_quiet_left [OF touches_quiet [OF view_reads [OF 11 t10]] does_trans [OF send_does [OF 12]
        does_trans [OF send_does [OF 13] does_trans [OF send_does [OF 14] send_does [OF 15]]]]] c
    by (simp add: list_nft_def)
  ultimately show ?thesis using p by blast
qed

text \<open>The transactions among them that the initialisation of a market sends too.\<close>

definition batched :: "effect \<Rightarrow> bool" where
  "batched e = (case e of Sent a m args \<Rightarrow> m = ''batchInitNft'' \<or> m = ''batchConfigNft'' | Deployed _ _ _ _ \<Rightarrow> False)"

lemma market_of_one_nft:
  assumes init: "initNftsByHelper [(s, p)] [(s, asset)] adm pool verify v = (Inr (), v1)"
    and config: "configureNftsByHelper [(s, p)] [(s, asset)] adm v1 = (Inr (), v')"
    and "asset \<noteq> []" and "baseLTVAsCollateral p \<noteq> ''-1''"
    and e: "db_get (cid C_LendPoolConfigurator) v = Some e"
  shows "does v v' [Sent (e_address e) ''batchInitNft'' [JArr [nft_init_input asset]],
    Sent (e_address e) ''batchConfigNft'' [JArr [config_nft_input asset p]]] []"
proof -
  have "init_nft_inputs [(s, p)] [(s, asset)] = [nft_init_input asset]"
    and "configurable [(s, asset)] [(s, p)] = [(s, p)]"
    using assms(3,4) by (simp_all add: init_nft_inputs_def nft_init_input_def is_set_def configurable_def)
  moreover have "chunk [x] 1 = [[x]]" "chunk [x] 20 = [[x]]" for x :: jsval
    by (simp_all add: chunk_def slice_def)
  ultimately have d1: "does v v1 [Sent (e_address e) ''batchInitNft'' [JArr [nft_init_input asset]]] []"
    and "\<exists>e'. db_get (cid C_LendPoolConfigurator) v1 = Some e' \<and>
      does v1 v' [Sent (e_address e') ''batchConfigNft'' [JArr [config_nft_input asset p]]] []"
    using initNfts_does [OF init] configureNfts_does [OF config] e by auto
  with does_db [OF d1] e does_trans [OF d1] show ?thesis by auto
qed


section \<open>Encoding the same calls\<close>

text \<open>The ABI coder is a function of the method and the arguments.\<close>

definition coder_is :: "world \<Rightarrow> (string \<Rightarrow> jsval list \<Rightarrow> jsval) \<Rightarrow> bool" where
  "coder_is w enc \<longleftrightarrow> (\<forall>h f args. node w h (External ''encodeFunctionData'' [JStr f, JArr args]) = Inr (enc f args))"

lemma encode_nft_reads: "obeys (touches reading) (encode_add_nft_to_pool pool asset strategy_name)"
  unfolding encode_add_nft_to_pool_def getLendPoolAddressesProvider_def getLendPoolConfiguratorProxy_def
    getBNFTRegistryProxy_def getIErc721Detailed_def getEthersSignerByAddress_def chosen_params_def
  by (intro reads require_bnft_reads)

lemma encode_nft_encodes:
  assumes run: "encode_add_nft_to_pool pool asset strategy_name w = (Inr (x, y), w')"
    and cfg: "loadPoolConfig pool w = (Inr cfg, w)" and "asset \<noteq> []"
    and symbol: "\<forall>h. node w h (ViewCall asset ''symbol'' []) = Inr (JStr s)" and coder: "coder_is w enc"
  shows "\<exists>p. params_for cfg strategy_name s = Some p \<and> x = enc ''batchInitNft'' [JArr [nft_init_input asset]] \<and>
    y = enc ''batchConfigNft'' [JArr [config_nft_input asset p]]"
proof -
  note gets = getLendPoolAddressesProvider_def getLendPoolConfiguratorProxy_def getBNFTRegistryProxy_def
    getIErc721Detailed_def
  from run cfg obtain a w1 pa w2 ca w3 c w4 ba w5 b w6 w7 n w10 v w11 p w12 where
    1: "getLendPoolAddressesProvider None w = (Inr a, w1)" and
    2: "view a ''getPoolAdmin'' [] w1 = (Inr pa, w2)" and
    3: "view a ''getLendPoolConfigurator'' [] w2 = (Inr ca, w3)" and
    4: "getLendPoolConfiguratorProxy (getter_arg ca) w3 = (Inr c, w4)" and
    5: "view a ''getBNFTRegistry'' [] w4 = (Inr ba, w5)" and
    6: "getBNFTRegistryProxy (getter_arg ba) w5 = (Inr b, w6)" and
    7: "require_bnft b asset w6 = (Inr (), w7)" and
    8: "getIErc721Detailed (Some asset) w7 = (Inr n, w10)" and
    9: "view n ''symbol'' [] w10 = (Inr v, w11)" and
    p: "params_for cfg strategy_name (js_str v) = Some p" and
    10: "encodeFunctionData ''batchInitNft'' [JArr [nft_init_input asset]] w11 = (Inr x, w12)" and
    11: "encodeFunctionData ''batchConfigNft'' [JArr [config_nft_input asset p]] w12 = (Inr y, w')"
    unfolding encode_add_nft_to_pool_def getEthersSignerByAddress_def params_for_def
    by (auto simp: tbind_returns tseq_returns chosen_params_returns)
  note t3 = view_reads [OF 3 view_reads [OF 2 connectOrDb_reads [OF 1 [unfolded gets] tch.R_refl]]]
  note t7 = reads_run [OF 7 connectOrDb_reads [OF 6 [unfolded gets] view_reads [OF 5
        connectOrDb_reads [OF 4 [unfolded gets] t3]]] require_bnft_reads]
  note t10 = connectOrDb_reads [OF 8 [unfolded gets] t7]
  note t11 = view_reads [OF 9 t10]
  have "obeys (touches reading) (encodeFunctionData f args)" for f args by (intro reads)
  note t12 = reads_run [OF 10 t11 this]
  have "c_address n = asset" using 8 \<open>asset \<noteq> []\<close> unfolding gets by (auto intro: connectOrDb_at)
  then have "v = JStr s" using 9 symbol touches_env [OF t10] by (auto simp: view_def ask_returns)
  moreover have "x = enc ''batchInitNft'' [JArr [nft_init_input asset]]"
    and "y = enc ''batchConfigNft'' [JArr [config_nft_input asset p]]"
    using 10 11 coder touches_env [OF t11] touches_env [OF t12]
    by (auto simp: encodeFunctionData_def ask_returns coder_is_def)
  ultimately show ?thesis using p by auto
qed


end
