(* ===== verification/OperateSpec.thy ===== *)
theory OperateSpec
  imports HelperSpec
begin

text \<open>
  Facts about the tasks that operate a deployed pool: which of them only read, whose assets the
  collecting task moves, what value a liquidation sends, and how many test tokens a signer mints.
\<close>

section \<open>Tasks that only read\<close>

lemma touches_verify:
  assumes "reads_allowed P"
  shows "obeys (touches P) (verifyContract i c args)" "obeys (touches P) (verifyEtherscanContract a vs l)"
    "obeys (touches P) (verify_one j c args)" "obeys (touches P) (verify_proxy j c c' a' args)"
proof -
  have retry: "obeys (touches P) (runTaskWithRetry fuel name params tries cleanup)"
    if "obeys (touches P) cleanup" for fuel name params tries cleanup
    using that
  proof (induction fuel arbitrary: params tries)
    case 0
    show ?case unfolding runTaskWithRetry.simps by (rule tch.tthrow)
  next
    case (Suc fuel)
    then show ?case unfolding runTaskWithRetry.simps by (intro touches_rules assms)
  qed
  show e: "obeys (touches P) (verifyEtherscanContract a vs l)" for a vs l
    unfolding verifyEtherscanContract_def by (intro retry touches_rules assms)
  show v: "obeys (touches P) (verifyContract i c args)" for i c args
    unfolding verifyContract_def by (intro e touches_rules assms)
  show "obeys (touches P) (verify_one j c args)" "obeys (touches P) (verify_proxy j c c' a' args)"
    unfolding verify_one_def verify_proxy_def by (intro v e touches_rules assms)+
qed

lemmas getters = verify_parts getIErc721Detailed_def getIErc20Detailed_def getLendPoolAddressesProviderRegistry_def
  data_provider_of_def pool_of_def

lemma print_parts_read:
  "obeys (touches reading) (print_provider c)" "obeys (touches reading) (print_reserve_config c sa)"
  "obeys (touches reading) (print_nft_config c sa)" "obeys (touches reading) (on_fork_or_network p)"
  "obeys (touches reading) (ui_providers pool)"
  unfolding print_provider_def print_reserve_config_def print_nft_config_def on_fork_or_network_def ui_providers_def
    getters
  by (intro reads | simp)+

lemma print_tasks_read:
  "obeys (touches reading) (print_config pool)" "obeys (touches reading) (print_reserve pool asset user)"
  "obeys (touches reading) (print_nft pool asset' tokenId loanId)"
  "obeys (touches reading) print_contracts_task" "obeys (touches reading) print_accounts"
  "obeys (touches reading) (print_ui_reserve_data pool owner)" "obeys (touches reading) (print_ui_nft_data pool owner)"
  "obeys (touches reading) (print_ui_loan_data pool token i)"
  "obeys (touches reading) (print_wallet_balance pool meth owner token start count1)"
  unfolding print_config_def print_reserve_def print_nft_def print_contracts_task_def print_accounts_def
    print_ui_reserve_data_def print_ui_nft_data_def print_ui_loan_data_def print_wallet_balance_def getters
  by (intro reads print_parts_read)+

lemma verification_tasks_read:
  "obeys (touches reading) (verify_libraries pool)" "obeys (touches reading) (verify_reserves pool)"
  "obeys (touches reading) (verify_nfts pool)" "obeys (touches reading) (verify_mocks pool)"
  "obeys (touches reading) (verify_wrapper_gateway pool gateway)" "obeys (touches reading) (verify_interest_rate pool rate)"
  "obeys (touches reading) (verify_sc address arguments libraries)"
  unfolding verify_libraries_def verify_reserves_def verify_reserve_def
    verify_nfts_def verify_nft_def verify_mocks_def verify_wrapper_gateway_def verify_interest_rate_def verify_sc_def
    checkVerification_def not_on_mainnet_def assets_on_def getters
  by (intro reads touches_verify)+

lemma encoding_tasks_read:
  "obeys (touches reading) (encode_authorize_lendpool_nft pool assets)"
  "obeys (touches reading) (add_reserve_to_pool pool asset interest strategy_name)"
  unfolding encode_authorize_lendpool_nft_def add_reserve_to_pool_def chosen_params_def getters
  by (intro reads)+

text \<open>C31: These tasks send no transaction, deploy nothing and leave the database as it is, on any node and however they
  end: the nine printing tasks, the three that print encoded calls (\<open>helpers:encode-add-nft-to-pool\<close>,
  \<open>helpers:encode-authorize-lendpool-nft\<close>, \<open>helpers:add-reserve-to-pool\<close>), and the verification of the libraries, the
  reserves, one interest rate, the NFTs, a wrapper gateway, the mocks and any one contract (\<open>verify-sc\<close>).
  \<open>verify:general\<close> is not one of them: it deploys a WETH9 where none is configured.\<close>

theorem reading_tasks_only_read:
  "touches reading w (snd (print_config pool w)) \<and>
   touches reading w (snd (print_reserve pool asset user w)) \<and>
   touches reading w (snd (print_nft pool asset' tokenId loanId w)) \<and>
   touches reading w (snd (print_contracts_task w)) \<and> touches reading w (snd (print_accounts w)) \<and>
   touches reading w (snd (print_ui_reserve_data pool owner w)) \<and>
   touches reading w (snd (print_ui_nft_data pool owner w)) \<and>
   touches reading w (snd (print_ui_loan_data pool token i w)) \<and>
   touches reading w (snd (print_wallet_balance pool meth owner token start count1 w)) \<and>
   touches reading w (snd (encode_add_nft_to_pool pool asset strategy_name w)) \<and>
   touches reading w (snd (encode_authorize_lendpool_nft pool assets w)) \<and>
   touches reading w (snd (add_reserve_to_pool pool asset interest strategy_name w)) \<and>
   touches reading w (snd (verify_libraries pool w)) \<and> touches reading w (snd (verify_reserves pool w)) \<and>
   touches reading w (snd (verify_interest_rate pool rate w)) \<and>
   touches reading w (snd (verify_nfts pool w)) \<and> touches reading w (snd (verify_wrapper_gateway pool gateway w)) \<and>
   touches reading w (snd (verify_mocks pool w)) \<and>
   touches reading w (snd (verify_sc address arguments libraries w))"
  by (simp add: print_tasks_read [THEN obeysD] verification_tasks_read [THEN obeysD]
      encoding_tasks_read [THEN obeysD] encode_nft_reads [THEN obeysD])

section \<open>Collecting the test assets\<close>

text \<open>
  A request that reads, or that moves assets of an account other than \<open>dep\<close> to \<open>receiver\<close>, signed by that
  account.
\<close>

fun collects :: "string \<Rightarrow> string \<Rightarrow> request \<Rightarrow> bool" where
  "collects dep receiver (SendTx s a m args) = (case s of None \<Rightarrow> False | Some b \<Rightarrow> b \<noteq> dep \<and>
     (m = ''transfer'' \<and> take 1 args = [JStr receiver] \<or>
      m = ''transferFrom'' \<and> take 2 args = [JStr b, JStr receiver] \<or>
      m = ''sendTransaction'' \<and> a = receiver))"
| "collects dep receiver (DeployTx s f args libs) = False"
| "collects dep receiver _ = True"

lemma collects_reading: "reads_allowed (collects dep receiver)"
proof -
  have "collects dep receiver r" if "reading r" for r using that by (cases r) auto
  then show ?thesis by (simp add: reads_allowed_def)
qed

lemma touches_mocks: "reads_allowed P \<Longrightarrow> obeys (touches P) getAllMockedTokens"
    "reads_allowed P \<Longrightarrow> obeys (touches P) getAllMockedNfts"
  unfolding getAllMockedTokens_def getAllMockedNfts_def collect_mocks_def getMintableERC20_def getMintableERC721_def
  by (intro touches_rules | assumption)+

lemma recycle_parts:
  assumes "signer \<noteq> dep"
  shows "obeys (touches (collects dep receiver)) (recycle_erc20s receiver signer)"
    "obeys (touches (collects dep receiver)) (recycle_erc721s receiver signer)"
    "obeys (touches (collects dep receiver)) (recycle_ether receiver signer)"
proof -
  note all = collects_reading [of dep receiver]
  have t: "obeys (touches (collects dep receiver)) (send (as_signer (Some signer) c) ''transfer'' [JStr receiver, v])"
    and tf: "obeys (touches (collects dep receiver))
      (send (as_signer (Some signer) c) ''transferFrom'' [JStr signer, JStr receiver, v])" for c v
    using assms unfolding send_def by (intro send_touches all; simp)+
  have e: "obeys (touches (collects dep receiver)) (send_ether signer receiver args)" for args
    unfolding send_ether_def floating_def waitForTx_def
    using assms by (intro touches_rules all touches_ask) simp_all
  show "obeys (touches (collects dep receiver)) (recycle_erc20s receiver signer)"
    unfolding recycle_erc20s_def by (intro t touches_mocks touches_rules all)
  show "obeys (touches (collects dep receiver)) (recycle_erc721s receiver signer)"
    unfolding recycle_erc721s_def recycle_collection_def recycle_erc721_def by (intro tf touches_mocks touches_rules all)
  show "obeys (touches (collects dep receiver)) (recycle_ether receiver signer)"
    unfolding recycle_ether_def Let_def by (intro e touches_rules all)
qed

text \<open>C25: \<open>dev:recycle-signer-tokens\<close> never moves an asset of the deployer: on any node whose first account is the
  deployer, and however it ends, every transaction it sends is signed by another account and moves that
  account's assets to the receiver; nothing is deployed and the database is left as it is.\<close>

theorem recycling_spares_deployer:
  assumes accounts: "\<And>h. node w h Accounts = Inr (JArr (JStr dep # others))"
  shows "touches (collects dep receiver) w (snd (recycle_signer_tokens receiver w))"
proof -
  note all = collects_reading [of dep receiver]
  show ?thesis unfolding recycle_signer_tokens_def
  proof (rule tch.bind_run)
    show "obeys (touches (collects dep receiver)) deployer_pair" by (intro touches_rules all)
    fix x v assume "deployer_pair w = (Inr x, v)"
    then have "snd x = dep"
      using accounts [of "hist w"]
      by (auto simp: deployer_pair_def getDeploySigner_def nth_signer_def getEthersSigners_def task_returns
          ask_returns signer_address_returns js_at_def)
    have spare: "obeys (touches (collects dep receiver)) (other_signers dep signers body)"
      if "\<And>signer. signer \<noteq> dep \<Longrightarrow> obeys (touches (collects dep receiver)) (body signer)" for signers body
      unfolding other_signers_def using that by (intro touches_rules)
    have "obeys (touches (collects dep receiver)) (tbind getEthersSigners (\<lambda>allSigners.
          tseq (other_signers dep allSigners (recycle_erc20s receiver))
          (tseq (other_signers dep allSigners (recycle_erc721s receiver))
          (other_signers dep allSigners (recycle_ether receiver)))))"
      by (intro spare touches_rules all recycle_parts)
    from obeysD [OF this, of v] \<open>snd x = dep\<close>
    show "touches (collects dep receiver) v (snd ((case x of (deployerSigner, deployerAddress) \<Rightarrow>
        tbind getEthersSigners (\<lambda>allSigners.
          tseq (other_signers deployerAddress allSigners (recycle_erc20s receiver))
          (tseq (other_signers deployerAddress allSigners (recycle_erc721s receiver))
          (other_signers deployerAddress allSigners (recycle_ether receiver))))) v))"
      by (cases x) simp
  qed
qed

text \<open>
  An enumerable NFT contract that gives \<open>signer\<close> \<open>n\<close> tokens at the start: each accepted \<open>transferFrom\<close> of the
  signer takes one away, and an index past the tokens left is refused.
\<close>

definition transferred :: "string \<Rightarrow> string \<Rightarrow> request list \<Rightarrow> nat" where
  "transferred signer nft rs = length (filter (\<lambda>r. case r of
     SendTx s a m args \<Rightarrow> s = Some signer \<and> a = nft \<and> m = ''transferFrom'' | _ \<Rightarrow> False) rs)"

definition enumerable :: "world \<Rightarrow> string \<Rightarrow> string \<Rightarrow> nat \<Rightarrow> bool" where
  "enumerable w signer nft n \<longleftrightarrow> (\<forall>h i.
     let left = n - transferred signer nft (accepted (node w) h) in
     node w h (ViewCall nft ''balanceOf'' [JStr signer]) = Inr (JNum (int left)) \<and>
     (left \<le> i \<longrightarrow> isl (node w h (ViewCall nft ''tokenOfOwnerByIndex'' [JStr signer, JNum (int i)]))))"

lemma transferred_append [simp]: "transferred s nft (rs @ qs) = transferred s nft rs + transferred s nft qs"
  by (simp add: transferred_def)

lemma tfor_append_returns: "tfor (xs @ ys) f w = (Inr u, w') \<longleftrightarrow>
    (\<exists>v. tfor xs f w = (Inr (), v) \<and> tfor ys f v = (Inr u, w'))"
  by (induction xs arbitrary: w) (auto simp: task_returns)

lemma recycle_erc721_step:
  assumes "recycle_erc721 receiver signer c i w = (Inr u, w')" and "enumerable w signer (c_address c) n"
  shows "i < n - transferred signer (c_address c) (accepted (node w) (hist w)) \<and> node w' = node w \<and>
    transferred signer (c_address c) (accepted (node w') (hist w')) =
      Suc (transferred signer (c_address c) (accepted (node w) (hist w)))"
proof -
  from assms(1) obtain v w1 where
    1: "view c ''tokenOfOwnerByIndex'' [JStr signer, JNum (int i)] w = (Inr v, w1)" and
    2: "send (as_signer (Some signer) c) ''transferFrom'' [JStr signer, JStr receiver, v] w1 = (Inr u, w')"
    by (auto simp: recycle_erc721_def task_returns to_string_returns)
  have "i < n - transferred signer (c_address c) (accepted (node w) (hist w))"
    using 1 assms(2) [unfolded enumerable_def Let_def, rule_format, of "hist w" i]
    by (auto simp: view_def ask_returns not_le [symmetric])
  moreover have "accepted (node w1) (hist w1) = accepted (node w) (hist w) @
      [ViewCall (c_address c) ''tokenOfOwnerByIndex'' [JStr signer, JNum (int i)]]" "node w1 = node w"
    using 1 by (auto simp: view_def ask_returns)
  moreover have "node w' = node w1" using does_env [OF send_does [OF 2]] by simp
  ultimately show ?thesis using send_accepted [OF 2] by (simp add: transferred_def)
qed

lemma recycle_turns:
  assumes "tfor [0..<k] (recycle_erc721 receiver signer c) w = (Inr u, w')"
    and e: "enumerable w signer (c_address c) n"
  defines "t \<equiv> transferred signer (c_address c) (accepted (node w) (hist w))"
  shows "node w' = node w \<and> transferred signer (c_address c) (accepted (node w') (hist w')) = t + k \<and>
    (0 < k \<longrightarrow> 2 * k \<le> Suc (n - t))"
  using assms(1)
proof (induction k arbitrary: u w')
  case 0
  then show ?case by (simp add: t_def)
next
  case (Suc k)
  from Suc.prems obtain v where 1: "tfor [0..<k] (recycle_erc721 receiver signer c) w = (Inr (), v)"
    and 2: "recycle_erc721 receiver signer c k v = (Inr (), w')"
    by (auto simp: tfor_append_returns task_returns)
  note IH = Suc.IH [OF 1]
  then have "enumerable v signer (c_address c) n" using e by (simp add: enumerable_def)
  from recycle_erc721_step [OF 2 this] IH show ?case by auto
qed


section \<open>What a liquidation sends\<close>

lemma plus_tenth_bounds:
  assumes "0 < n"
  shows "\<exists>x. plus_tenth n = show_int x \<and> n \<le> x \<and> \<bar>10 * x - 11 * n\<bar> \<le> 5"
proof -
  define x where "x = \<lfloor>of_int n * (11 / 10) + 1 / 2 :: rat\<rfloor>"
  have p: "plus_tenth n = show_int x" using assms by (simp add: plus_tenth_def toFixed0_def x_def)
  have 1: "of_int x \<le> of_int n * (11 / 10) + (1 / 2 :: rat)"
    and 2: "of_int n * (11 / 10) + (1 / 2 :: rat) < of_int x + 1"
    unfolding x_def by linarith+
  from 1 have "(of_int (10 * x) :: rat) \<le> of_int (11 * n + 5)" by simp
  then have u: "10 * x \<le> 11 * n + 5" by (simp only: of_int_le_iff)
  from 2 have "(of_int (11 * n + 5) :: rat) < of_int (10 * x + 10)" by simp
  then have l: "11 * n + 5 < 10 * x + 10" by (simp only: of_int_less_iff)
  from u l have "n \<le> x \<and> \<bar>10 * x - 11 * n\<bar> \<le> 5" using assms by linarith
  with p show ?thesis by blast
qed

text \<open>The integer that a big number or a decimal string denotes.\<close>

fun amount_in :: "jsval \<Rightarrow> int option" where
  "amount_in (JNum i) = Some i"
| "amount_in (JStr s) = map_option int (parse_nat s)"
| "amount_in _ = None"

lemma big_arg_returns: "big_arg v w = (Inr i, w') \<longleftrightarrow> w' = w \<and> amount_in v = Some i"
  by (cases v) (auto simp: big_arg_def split: option.splits)

text \<open>C30: What \<open>loan:weth-liquidate\<close> sends: one \<open>liquidateETH\<close>, whose value is 0 if the bid covers the debt the data
  provider reports, and otherwise the shortfall plus a tenth of it, to the nearest wei: never less than
  the shortfall.\<close>

theorem weth_liquidate_value:
  assumes "weth_liquidate pool token i w = (Inr u, w')"
  shows "\<exists>gateway debt bid x. does w w' [Sent gateway ''liquidateETH''
      [JStr token, JStr i, with_value (JStr (show_int x))]] [] \<and>
    (\<exists>h a loan. node w h (ViewCall a ''getLoanDataByCollateral'' [JStr token, JStr i]) = Inr loan \<and>
      js_prop ''currentAmount'' loan = Some (JNum debt) \<and>
      Option.bind (js_prop ''bidPrice'' loan) amount_in = Some bid) \<and>
    (debt \<le> bid \<longrightarrow> x = 0) \<and> (bid < debt \<longrightarrow> debt - bid \<le> x \<and> \<bar>10 * x - 11 * (debt - bid)\<bar> \<le> 5)"
proof -
  from assms obtain p w1 d w2 loan w3 c w4 b bid w5 g w6 where
    1: "getLendPoolAddressesProvider None w = (Inr p, w1)" and 2: "data_provider_of p w1 = (Inr d, w2)" and
    3: "view d ''getLoanDataByCollateral'' [JStr token, JStr i] w2 = (Inr loan, w3)" and
    4: "js_prop ''currentAmount'' loan = Some (JNum c)" and
    5: "js_prop ''bidPrice'' loan = Some b" and 6: "big_arg b w3 = (Inr bid, w5)" and
    7: "getWETHGateway None w5 = (Inr g, w6)" and
    8: "send g ''liquidateETH'' [JStr token, JStr i, with_value (JStr (extra_amount c bid))] w6 = (Inr u, w')"
    by (auto simp: weth_liquidate_def task_returns struct_field_returns big_returns)
  have "obeys (touches reading) (data_provider_of p)"
    unfolding data_provider_of_def getBendProtocolDataProvider_def by (intro reads)
  from reads_run [OF 2 connectOrDb_reads [OF 1 [unfolded getLendPoolAddressesProvider_def] tch.R_refl] this]
  have t2: "touches reading w w2" .
  have b: "w5 = w3" "Option.bind (js_prop ''bidPrice'' loan) amount_in = Some bid"
    using 5 6 by (simp_all add: big_arg_returns)
  have "touches reading w w6"
    using connectOrDb_reads [OF 7 [unfolded getWETHGateway_def b(1)] view_reads [OF 3 t2]] .
  from does_quiet_left [OF touches_quiet [OF this] send_does [OF 8]]
  have d: "does w w' [Sent (c_address g) ''liquidateETH''
      [JStr token, JStr i, with_value (JStr (extra_amount c bid))]] []" .
  have n: "node w (hist w2) (ViewCall (c_address d) ''getLoanDataByCollateral'' [JStr token, JStr i]) = Inr loan"
    using 3 touches_env [OF t2] by (auto simp: view_def ask_returns)
  have zero: "toFixed0 0 = show_int 0"
    by (simp add: toFixed0_def) (rule arg_cong [of _ _ show_int], simp add: floor_eq_iff)
  have "\<exists>x. extra_amount c bid = show_int x \<and> (c \<le> bid \<longrightarrow> x = 0) \<and>
      (bid < c \<longrightarrow> c - bid \<le> x \<and> \<bar>10 * x - 11 * (c - bid)\<bar> \<le> 5)"
    using plus_tenth_bounds [of "c - bid"] by (cases "bid < c") (auto simp: extra_amount_def zero)
  then obtain x where x: "extra_amount c bid = show_int x" "c \<le> bid \<longrightarrow> x = 0"
      "bid < c \<longrightarrow> c - bid \<le> x \<and> \<bar>10 * x - 11 * (c - bid)\<bar> \<le> 5" by blast
  show ?thesis
    using d n 4 b x unfolding x(1) by blast
qed

end
