(* ===== verification/MintSpec.thy ===== *)
theory MintSpec
  imports OperateSpec
begin

text \<open>
  The limit of \<open>dev:mint-top-tokens\<close>: the contract lets a signer mint ten tokens, and the task changes the
  signer in time.
\<close>

text \<open>The tokens of the contract \<open>nft\<close> that \<open>signer\<close> has minted, and the mints a run may send.\<close>

fun is_mint :: "string \<Rightarrow> request \<Rightarrow> bool" where
  "is_mint nft (SendTx s a m args) = (a = nft \<and> m = ''mint'')"
| "is_mint nft _ = False"

fun mints_as :: "string \<Rightarrow> string \<Rightarrow> request \<Rightarrow> bool" where
  "mints_as signer nft (SendTx s a m args) = (s = Some signer \<and> a = nft \<and> m = ''mint'')"
| "mints_as signer nft _ = False"

definition minted :: "string \<Rightarrow> string \<Rightarrow> request list \<Rightarrow> nat" where
  "minted signer nft rs = length (filter (mints_as signer nft) rs)"

fun within_limit :: "(request list \<Rightarrow> request \<Rightarrow> string + jsval) \<Rightarrow> string \<Rightarrow> request list \<Rightarrow> request list \<Rightarrow> bool" where
  "within_limit nd nft h [] = True"
| "within_limit nd nft h (r # rs) =
     ((case r of SendTx s a m args \<Rightarrow> a = nft \<and> m = ''mint'' \<longrightarrow>
         (case s of None \<Rightarrow> False | Some b \<Rightarrow> minted b nft (accepted nd h) < 10)
       | _ \<Rightarrow> True) \<and> within_limit nd nft (h @ [r]) rs)"

definition limited :: "string \<Rightarrow> world \<Rightarrow> world \<Rightarrow> bool" where
  "limited nft w w' \<longleftrightarrow> same_env w w' \<and> (\<exists>rs. hist w' = hist w @ rs \<and> within_limit (node w) nft (hist w) rs)"

lemma within_limit_append:
  "within_limit nd nft h (rs @ qs) \<longleftrightarrow> within_limit nd nft h rs \<and> within_limit nd nft (h @ rs) qs"
  by (induction rs arbitrary: h) auto

interpretation lim: run_relation "limited nft" for nft
proof
  show "limited nft w w" for w by (simp add: limited_def same_env_def)
  show "limited nft u w" if "limited nft u v" "limited nft v w" for u v w
    using that by (auto simp: limited_def within_limit_append same_env_def)
qed

definition mint_count :: "world \<Rightarrow> string \<Rightarrow> string \<Rightarrow> int" where
  "mint_count w nft a = int (minted a nft (accepted (node w) (hist w)))"

section \<open>Steps that mint nothing\<close>

definition no_mint :: "string \<Rightarrow> request \<Rightarrow> bool" where
  "no_mint nft r \<longleftrightarrow> \<not> is_mint nft r"

lemma no_mint_reads: "reads_allowed (no_mint nft)"
proof -
  have "no_mint nft r" if "reading r" for r using that by (cases r) (auto simp: no_mint_def)
  then show ?thesis by (simp add: reads_allowed_def)
qed

lemma minted_append [simp]: "minted a nft (rs @ qs) = minted a nft rs + minted a nft qs"
  by (simp add: minted_def)

lemma no_mint_none: "\<forall>r \<in> set rs. no_mint nft r \<Longrightarrow> minted a nft rs = 0 \<and> within_limit nd nft h rs"
proof (induction rs arbitrary: h)
  case (Cons r rs)
  then show ?case by (cases r) (auto simp: minted_def no_mint_def)
qed (simp add: minted_def)

lemma no_mint_steps:
  assumes "touches (no_mint nft) w w'"
  shows "limited nft w w' \<and> mint_count w' nft a = mint_count w nft a \<and> node w' = node w"
proof -
  from assms obtain rs where rs: "hist w' = hist w @ rs" "\<forall>r \<in> set rs. no_mint nft r" and e: "same_env w w'"
    by (auto simp: touches_def)
  from accepted_append_quiet [of "node w" "hist w" rs] obtain rs' where
    "accepted (node w) (hist w @ rs) = accepted (node w) (hist w) @ rs'" "set rs' \<subseteq> set rs" by blast
  moreover from this rs have "\<forall>r \<in> set rs'. no_mint nft r" by blast
  ultimately show ?thesis
    using rs e no_mint_none [of rs' nft a] no_mint_none [of rs nft a]
    by (auto simp: limited_def mint_count_def same_env_def)
qed

lemma mint_step:
  assumes "send (as_signer (Some a) c) ''mint'' args w = (r, w')" and "mint_count w (c_address c) a < 10"
  shows "limited (c_address c) w w' \<and> mint_count w' (c_address c) a \<le> mint_count w (c_address c) a + 1 \<and>
    node w' = node w"
  using assms accepted_snoc [of "node w" "hist w @ [SendTx (Some a) (c_address c) ''mint'' args]" "WaitTx (length (hist w))"]
  by (auto simp: send_def send_and_wait_def tbind_def tseq_def ask_def Let_def limited_def same_env_def
      mint_count_def minted_def split: sum.splits if_splits)

section \<open>The task\<close>

text \<open>The contract answers at least the mints it has accepted.\<close>

definition counts_mints :: "world \<Rightarrow> string \<Rightarrow> bool" where
  "counts_mints w nft \<longleftrightarrow> (\<forall>h a n. node w h (ViewCall nft ''mintCounts'' [JStr a]) = Inr (JNum n) \<longrightarrow>
     int (minted a nft (accepted (node w) h)) \<le> n)"

lemma next_minter_touches: "obeys (touches (no_mint nft)) (next_minter c i signers)"
proof (induction c i signers rule: next_minter.induct)
  case (1 c i)
  show ?case unfolding next_minter.simps by (rule tch.tret)
next
  case (2 c i a signers)
  show ?case unfolding next_minter.simps by (intro touches_rules no_mint_reads 2)
qed

lemma next_minter_count:
  assumes "next_minter c i signers w = (Inr (Some (j, a, l)), w')" and "counts_mints w (c_address c)"
  shows "mint_count w' (c_address c) a \<le> l \<and> l < 10"
  using assms
proof (induction c i signers arbitrary: w rule: next_minter.induct)
  case (2 c i b signers)
  from "2.prems"(1) obtain v n where
    1: "view c ''mintCounts'' [JStr b] w = (Inr (JNum n), v)" and
    2: "(if n < 10 then tret (Some (i, b, n)) else next_minter c (i + 1) signers) v = (Inr (Some (j, a, l)), w')"
    by (auto simp: task_returns to_number_def big_returns split: if_splits)
  have v: "node v = node w" "hist v = hist w @ [ViewCall (c_address c) ''mintCounts'' [JStr b]]"
    "int (minted b (c_address c) (accepted (node w) (hist w))) \<le> n"
    using 1 "2.prems"(2) by (auto simp: view_def ask_returns counts_mints_def)
  then have "mint_count v (c_address c) b \<le> n" by (simp add: mint_count_def minted_def)
  moreover have "counts_mints v (c_address c)" using "2.prems"(2) v by (simp add: counts_mints_def)
  ultimately show ?case using 2 "2.IH" by (cases "n < 10") auto
qed simp

lemma fund_minter_touches: "obeys (touches (no_mint nft)) (fund_minter d a)"
  unfolding fund_minter_def send_ether_def floating_def waitForTx_def
  by (intro touches_rules no_mint_reads touches_ask) (simp add: no_mint_def)

lemma transfer_touches: "obeys (touches (no_mint nft)) (send c ''transferFrom'' args)"
  unfolding send_def by (intro send_touches no_mint_reads) (simp add: no_mint_def)

text \<open>One token: the mint, if there is one, is sent by a signer below the limit.\<close>

lemma mint_or_transfer_limited:
  assumes "mint_or_transfer c a target tokenId l w = (r, w')" and "mint_count w (c_address c) a \<le> l" and "l < 10"
  shows "limited (c_address c) w w' \<and> node w' = node w \<and>
    (\<forall>l'. r = Inr l' \<longrightarrow> mint_count w' (c_address c) a \<le> l' \<and> 0 \<le> l')"
proof -
  let ?nft = "c_address c"
  let ?transfer = "send (as_signer (Some a) c) ''transferFrom'' [JStr a, JStr target, JStr tokenId]"
  let ?look = "tbind (view c ''ownerOf'' [JStr tokenId]) (\<lambda>tokenOwner.
    tseq (twhen (tokenOwner = JStr a) ?transfer) (tret l))"
  have pos: "0 \<le> mint_count u ?nft a" for u by (simp add: mint_count_def)
  obtain q v where look: "?look w = (q, v)" by fastforce
  have "obeys (touches (no_mint ?nft)) ?look" by (intro touches_rules transfer_touches no_mint_reads)
  from no_mint_steps [OF tch.run [OF this look]]
  have v: "limited ?nft w v" "mint_count v ?nft a = mint_count w ?nft a" "node v = node w" by auto
  show ?thesis
  proof (cases "\<exists>e. q = Inl e \<and> catchable e")
    case False
    with look assms(1) have "w' = v" "\<forall>l'. r = Inr l' \<longrightarrow> l' = l"
      by (auto simp: mint_or_transfer_def Let_def tcatch_def task_returns split: sum.splits)
    with v assms(2) pos [of w] show ?thesis by auto
  next
    case True
    with look assms(1) have m: "tseq (send (as_signer (Some a) c) ''mint'' [JStr tokenId])
        (tseq ?transfer (tret (l + 1))) v = (r, w')"
      by (auto simp: mint_or_transfer_def Let_def tcatch_def)
    obtain q1 v1 where 1: "send (as_signer (Some a) c) ''mint'' [JStr tokenId] v = (q1, v1)" by fastforce
    have "mint_count v ?nft a < 10" using v(2) assms(2,3) by simp
    note s = mint_step [OF 1 this]
    obtain q2 v2 where 2: "tseq ?transfer (tret (l + 1)) v1 = (q2, v2)" by fastforce
    have "obeys (touches (no_mint ?nft)) (tseq ?transfer (tret (l + 1)))" by (intro touches_rules transfer_touches)
    from no_mint_steps [OF tch.run [OF this 2]]
    have v2: "limited ?nft v1 v2" "mint_count v2 ?nft a = mint_count v1 ?nft a" "node v2 = node v1" by auto
    have "q2 = Inr l' \<Longrightarrow> l' = l + 1" for l' using 2 by (auto simp: task_returns)
    note t1 = lim.R_trans [OF v(1) conjunct1 [OF s]]
    show ?thesis
    proof (cases q1)
      case (Inl e)
      with m 1 have "w' = v1" "r = Inl e" by (simp_all add: tseq_def tbind_def)
      with t1 s v(3) show ?thesis by simp
    next
      case (Inr x)
      with m 1 2 have "w' = v2" "r = q2" by (simp_all add: tseq_Inr)
      with lim.R_trans [OF t1 v2(1)] s v v2 assms(2) pos [of v2] \<open>\<And>l'. q2 = Inr l' \<Longrightarrow> l' = l + 1\<close>
      show ?thesis by auto
    qed
  qed
qed

lemma mint_tokens_limited:
  assumes "counts_mints w (c_address c)" and "0 \<le> l \<longrightarrow> mint_count w (c_address c) a \<le> l"
  shows "limited (c_address c) w (snd (mint_tokens c d signers target (i, a, l) ids w))"
  using assms
proof (induction c d signers target "(i, a, l)" ids arbitrary: i a l w rule: mint_tokens.induct)
  case (2 c d signers target i a l tokenId ids)
  let ?nft = "c_address c"
  let ?choose = "if l < 0 \<or> 10 \<le> l then
      tbind (next_minter c i (drop i signers)) (\<lambda>next.
        case next of None \<Rightarrow> tret None
        | Some (i, a, l) \<Rightarrow> tseq (fund_minter d a) (tret (Some (i, a, l))))
    else tret (Some (i, a, l))"
  have chooses: "obeys (touches (no_mint ?nft)) ?choose"
    by (intro touches_rules next_minter_touches fund_minter_touches no_mint_reads)
  obtain q v where choose: "?choose w = (q, v)" by fastforce
  from no_mint_steps [OF tch.run [OF chooses choose]]
  have v: "limited ?nft w v" "\<And>b. mint_count v ?nft b = mint_count w ?nft b" "node v = node w" by auto
  show ?case
  proof (cases "\<exists>i' a' l'. q = Inr (Some (i', a', l'))")
    case False
    then show ?thesis using choose v(1)
      by (auto simp: tbind_def split: sum.splits option.splits)
  next
    case True
    then obtain i' a' l' where q: "q = Inr (Some (i', a', l'))" by blast
    have l': "mint_count v ?nft a' \<le> l' \<and> l' < 10"
    proof (cases "l < 0 \<or> 10 \<le> l")
      case True
      with choose q obtain u where 1: "next_minter c i (drop i signers) w = (Inr (Some (i', a', l')), u)"
        by (auto simp: task_returns split: option.splits)
      from no_mint_steps [OF tch.run [OF next_minter_touches 1]] next_minter_count [OF 1 "2.prems"(1)] v(2)
      show ?thesis by simp
    next
      case False
      with choose q v(2) "2.prems"(2) show ?thesis by auto
    qed
    obtain r u where m: "mint_or_transfer c a' target tokenId l' v = (r, u)" by fastforce
    note s = mint_or_transfer_limited [OF m conjunct1 [OF l'] conjunct2 [OF l']]
    have run: "snd (mint_tokens c d signers target (i, a, l) (tokenId # ids) w) =
        (case r of Inl e \<Rightarrow> u | Inr l2 \<Rightarrow> snd (mint_tokens c d signers target (i', a', l2) ids u))"
      using choose q m by (simp add: tbind_def split: sum.splits)
    have "counts_mints u ?nft" using "2.prems"(1) s v(3) by (simp add: counts_mints_def)
    then have "limited ?nft u (snd (mint_tokens c d signers target (i', a', l2) ids u))" if "r = Inr l2" for l2
      using that s "2.hyps" by auto
    with run s v(1) show ?thesis by (auto split: sum.splits intro: lim.R_trans)
  qed
qed (simp add: lim.R_refl)

text \<open>What the task does before the first token, and the rest.\<close>

definition mint_start :: "string \<Rightarrow> (string \<times> string list \<times> contract) task" where
  "mint_start symbol =
     tbind getDeploySigner (\<lambda>deployerSigner.
     tbind getEthersSigners (\<lambda>allSingers.
     tbind (getContractAddressInDb symbol) (\<lambda>tokenAddress.
     tbind (getMintableERC721 (Some tokenAddress)) (\<lambda>erc721Token.
     tbind (signer_address deployerSigner) (\<lambda>deployer.
     tseq (balance_of_signer deployer) (tret (deployer, allSingers, erc721Token)))))))"

lemma mint_top_tokens_split: "mint_top_tokens symbol ids target = tbind (mint_start symbol) (\<lambda>(d, signers, c).
    tseq (mint_tokens c d signers target (0, [], -1) (split_at (CHR '','') ids))
      (tseq (view c ''balanceOf'' [JStr target]) (tret ())))"
  by (rule ext) (auto simp: mint_top_tokens_def mint_start_def tbind_def tseq_def split: prod.splits sum.splits)

lemma mint_start_reads: "obeys (touches reading) (mint_start symbol)"
  unfolding mint_start_def getMintableERC721_def by (intro reads)

lemma mint_start_token:
  assumes "mint_start symbol w = (Inr (d, signers, c), v)" and "getContractAddressInDb symbol w = (Inr nft, w)"
  shows "c_address c = nft"
proof -
  from assms(1) obtain s w1 ss w2 a w3 w4 where 1: "getDeploySigner w = (Inr s, w1)"
    and 2: "getEthersSigners w1 = (Inr ss, w2)" and 3: "getContractAddressInDb symbol w2 = (Inr a, w3)"
    and 4: "connectOrDb (cid C_MintableERC721) (Some a) w3 = (Inr c, w4)"
    by (auto simp: mint_start_def getMintableERC721_def task_returns)
  have "touches reading w w2"
    using tch.run [of reading getDeploySigner w "Inr s" w1] tch.run [of reading getEthersSigners w1 "Inr ss" w2] 1 2 by (auto simp: reads intro: tch.R_trans)
  then have "a = nft" "a \<noteq> []" using 3 assms(2) touches_env by (auto simp: getContractAddressInDb_returns)
  then show ?thesis using connectOrDb_at [OF 4] by simp
qed

text \<open>C24: Every mint that \<open>dev:mint-top-tokens\<close> sends is signed by an account that has minted fewer than ten tokens of
  the collection at that time, whatever the node answers (as long as \<open>mintCounts\<close> counts the mints) and
  however the task ends: the limit of the contract never reverts one.\<close>

theorem mint_top_tokens_within_limit:
  assumes token: "getContractAddressInDb symbol w = (Inr nft, w)" and counts: "counts_mints w nft"
  shows "limited nft w (snd (mint_top_tokens symbol ids target w))"
proof -
  have reading: "limited nft u (snd (m u))" if "obeys (touches reading) m" for u and m :: "'a task"
  proof -
    have "touches (no_mint nft) u (snd (m u))"
      using obeysD [OF that, of u] no_mint_reads [of nft] by (auto simp: touches_def reads_allowed_def)
    then show ?thesis using no_mint_steps by blast
  qed
  have start: "obeys (limited nft) (mint_start symbol)"
    using reading [OF mint_start_reads] by (simp add: obeys_def)
  show ?thesis unfolding mint_top_tokens_split
  proof (rule lim.bind_run [OF start])
    fix x v assume run: "mint_start symbol w = (Inr x, v)"
    obtain d signers c where x: "x = (d, signers, c)" by (cases x)
    have c: "c_address c = nft" using mint_start_token run token x by blast
    have "counts_mints v nft"
      using counts touches_env [OF tch.run [OF mint_start_reads run]] by (simp add: counts_mints_def)
    then have "limited nft v (snd (mint_tokens c d signers target (0, [], -1) ts v))" for ts
      using mint_tokens_limited [of v c "-1" "[]" d signers target 0 ts] c by simp
    moreover have "obeys (limited nft) (tseq (view c ''balanceOf'' [JStr target]) (tret ()))"
      unfolding obeys_def by (intro allI reading) (intro reads)
    ultimately show "limited nft v (snd ((case x of (d, signers, c) \<Rightarrow>
        tseq (mint_tokens c d signers target (0, [], -1) (split_at (CHR '','') ids))
          (tseq (view c ''balanceOf'' [JStr target]) (tret ()))) v))"
      unfolding x by (simp add: lim.seq_run)
  qed
qed

end
