(* ===== verification/DevSpec.thy ===== *)
theory DevSpec
  imports MintSpec
begin

text \<open>
  Upgrades of implementations, the tasks that write the database, and the migration of a development
  network: what it keeps, and how it ends.
\<close>

section \<open>They only add to the database\<close>

lemmas dev_parts = verify_parts getCryptoPunksMarket_def getWrappedPunk_def collect_mocks_def getAllMockedTokens_def
  getAllMockedNfts_def getConfigMockedNfts_def getBNFTRegistryProxy_def deployMintableERC20_def
  deployMintableERC721_def deployMockChainlinkOracle_def deployMockIncentivesController_def deployBNFTRegistry_def
  deployGenericBNFTImpl_def deployMockERC721Underlying_def deployMockERC721Wrapper_def
  deployMockLoanRepaidInterceptor_def deployWETHMocked_def address_in_db_def

lemma values_evolve: "obeys evolves (tget f)" "obeys evolves getProxyAdminSigner"
    "obeys evolves (getEthersSignerByAddress s)" "obeys evolves checkVerification" "obeys evolves printContracts"
  unfolding getProxyAdminSigner_def getEthersSignerByAddress_def checkVerification_def printContracts_def
  by (intro task_evolves)+

lemma now_evolves: "obeys evolves getNowTimeInSeconds"
  unfolding getNowTimeInSeconds_def by (intro task_evolves | simp add: ev.tret del: tret_run split: jsval.split)+

lemma aggregator_evolves: "obeys evolves (deployChainlinkMockAggregator n d p verify)"
    "obeys evolves (deployAllReservesMockAggregatorsInPoolConfig cfg verify)"
  unfolding deployChainlinkMockAggregator_def deployAllReservesMockAggregatorsInPoolConfig_def
    deployAllChainlinkMockAggregators_def entry_at_key_def Let_def dev_parts
  by (intro task_evolves now_evolves)+

lemma mocks_evolve: "obeys evolves (deployAllMockTokens t verify)" "obeys evolves (deployAllMockNfts verify)"
    "obeys evolves (registerContractInJsonDb i c)"
  unfolding deployAllMockTokens_def deployAllMockNfts_def registerContractInJsonDb_def dev_parts
  by (intro task_evolves)+

lemma mock_tasks_evolve:
  "obeys evolves (deploy_mock_reserves verify)" "obeys evolves (deploy_mock_nfts verify)"
  "obeys evolves (deploy_mock_bnft_registry verify pool)" "obeys evolves (deploy_mock_bnft_tokens verify pool)"
  "obeys evolves (add_mock_nfts verify)"
  unfolding deploy_mock_reserves_def deploy_mock_nfts_def deploy_mock_bnft_registry_def deploy_mock_bnft_tokens_def
    add_mock_nfts_def getConfigMockedNfts_def Let_def dev_parts
  by (intro task_evolves values_evolve mocks_evolve ev.value_rules)+

lemma dev_pool_tasks_evolve:
  "obeys evolves (dev_address_provider verify pool)" "obeys evolves (dev_lend_pool verify pool)"
  "obeys evolves (dev_oracle_reserve verify pool)" "obeys evolves (dev_oracle_nft verify pool)"
  "obeys evolves (dev_initialize_lend_pool verify pool)"
  unfolding dev_address_provider_def dev_lend_pool_def dev_oracle_reserve_def dev_oracle_nft_def
    dev_initialize_lend_pool_def from_numbers_def setAggregatorsInReserveOracle_def asset_bytes32_def
    addAssetsInNFTOracle_def setPricesInNFTOracle_def entry_at_key_def deployLendPool_def deployLendPoolLoan_def
    deployLendPoolConfigurator_def Let_def dev_parts
  by (intro task_evolves values_evolve library_evolves set_impl_evolves tokens_evolve aggregator_evolves ev.value_rules)+

lemma dev_steps_evolve: "ns \<in> set (bend_dev_steps verify) \<Longrightarrow> obeys evolves (snd ns)"
  by (auto simp: bend_dev_steps_def mock_tasks_evolve dev_pool_tasks_evolve full_tasks_evolve)

section \<open>A new implementation\<close>

text \<open>The proxies whose address the provider reports, with the call that reports it.\<close>

definition provider_proxies :: "(eContractid \<times> string \<times> jsval list) list" where
  "provider_proxies = [
     (C_LendPool, ''getLendPool'', []), (C_LendPoolConfigurator, ''getLendPoolConfigurator'', []),
     (C_LendPoolLoan, ''getLendPoolLoan'', []), (C_ReserveOracle, ''getReserveOracle'', []),
     (C_NFTOracle, ''getNFTOracle'', []), (C_WETHGateway, ''getAddress'', [JStr ADDRESS_ID_WETH_GATEWAY]),
     (C_PunkGateway, ''getAddress'', [JStr ADDRESS_ID_PUNK_GATEWAY])]"

lemma contract_id_of_cid: "contract_id_of (cid i) = Some i"
proof -
  have "find (\<lambda>j. cid j = cid i) all_contract_ids \<noteq> None"
    using all_contract_ids_complete [of i] by (auto simp: find_None_iff simp del: cid.simps)
  then obtain j where j: "find (\<lambda>j. cid j = cid i) all_contract_ids = Some j" by blast
  then have "cid j = cid i" by (auto simp: find_Some_iff simp del: cid.simps)
  with j show ?thesis by (simp add: contract_id_of_def cid_inject del: cid.simps)
qed

lemma insert_saves: "insertContractAddressInDb i a w = (Inr u, w') \<Longrightarrow> map_option e_address (db_get (cid i) w') = Some a"
  using does_db [OF insert_does, of i a w u w' "cid i"] by (simp add: bare_entry_def)

lemma upgrade_saves:
  assumes "upgrade_implementation pool (cid i) proxy impl admin w = (Inr u, w')"
  shows "map_option e_address (db_get (cid i) w') = Some proxy"
proof -
  from assms obtain v u' where "insert_by_name (cid i) proxy v = (Inr u', w')"
    by (auto simp: upgrade_implementation_def task_returns simp del: cid.simps)
  then show ?thesis using insert_saves by (simp add: insert_by_name_def contract_id_of_cid del: cid.simps)
qed

lemma provider_impl_saves:
  assumes run: "new_provider_impl p dep setter reader i upgrade v = (Inr u, w')"
    and says: "\<forall>h. node v h (ViewCall (c_address p) reader []) = Inr (JStr a)" and dep: "obeys evolves dep"
  shows "map_option e_address (db_get (cid i) w') = Some a"
proof -
  from run obtain c v1 v2 x v3 where 1: "dep v = (Inr c, v1)"
    and 2: "twhen upgrade (send p setter [addr c, JArr []]) v1 = (Inr (), v2)"
    and 3: "view p reader [] v2 = (Inr x, v3)" and 4: "insertContractAddressInDb i (js_str x) v3 = (Inr u, w')"
    by (auto simp: new_provider_impl_def task_returns(1,2))
  have "obeys evolves (twhen upgrade (send p setter [addr c, JArr []]))" by (intro task_evolves)
  from ev.R_trans [OF ev.run [OF dep 1] ev.run [OF this 2]] have "node v2 = node v"
    by (simp add: evolves_def same_env_def)
  then have "x = JStr a" using 3 says by (auto simp: view_def ask_returns)
  with insert_saves [OF 4] show ?thesis by simp
qed

lemma proxied_impl_saves:
  assumes run: "new_proxied_impl pool dep (view p reader args) i upgrade v = (Inr u, w')"
    and says: "\<forall>h. node v h (ViewCall (c_address p) reader args) = Inr (JStr a)" and dep: "obeys evolves dep"
  shows "map_option e_address (db_get (cid i) w') = Some a"
proof -
  from run obtain c v1 x v2 v3 where 1: "dep v = (Inr c, v1)" and 2: "view p reader args v1 = (Inr x, v2)"
    and 3: "insertContractAddressInDb i (js_str x) v2 = (Inr (), v3)"
    and 4: "twhen upgrade (upgrade_implementation pool (cid i) (js_str x) (c_address c) None) v3 = (Inr u, w')"
    by (auto simp: new_proxied_impl_def task_returns(1,2) simp del: cid.simps)
  have "node v1 = node v" using ev.run [OF dep 1] by (simp add: evolves_def same_env_def)
  then have "x = JStr a" using 2 says by (auto simp: view_def ask_returns)
  with 4 insert_saves [OF 3] upgrade_saves [of pool i "js_str x"] show ?thesis
    by (cases upgrade) (auto simp: twhen_def simp del: cid.simps)
qed

lemma provider_as_owner_returns:
  assumes "provider_as_owner w = (Inr p, w')" and "provider_says w reader args a"
  shows "\<forall>h. node w' h (ViewCall (c_address p) reader args) = Inr (JStr a)"
proof -
  from assms(1) obtain c w1 v w2 where 1: "getLendPoolAddressesProvider None w = (Inr c, w1)"
    and 2: "view c ''owner'' [] w1 = (Inr v, w2)" and p: "w' = w2" "p = as_signer (Some (js_str v)) c"
    by (auto simp: provider_as_owner_def getEthersSignerByAddress_def task_returns)
  have "touches reading w w'"
    using view_reads [OF 2 connectOrDb_reads [OF 1 [unfolded getLendPoolAddressesProvider_def] tch.R_refl]] p by simp
  from touches_env [OF this] provider_returns [OF 1] assms(2) p show ?thesis
    by (auto simp: provider_says_def)
qed

lemma pool_deployments_evolve:
  "obeys evolves (deployLendPool verify)" "obeys evolves (deployLendPoolConfigurator verify)"
  "obeys evolves (deployLendPoolLoan verify)" "obeys evolves (deployReserveOracle v verify)"
  "obeys evolves (deployNFTOracle verify)" "obeys evolves (deployWETHGateway verify)"
  "obeys evolves (deployPunkGateway verify)"
  "obeys evolves (deployLendPoolLibraries verify)" "obeys evolves (deployConfiguratorLibraries verify)"
  "obeys evolves (getWETHGateway a)"
  unfolding deployLendPool_def deployLendPoolConfigurator_def deployLendPoolLoan_def deployLendPoolLibraries_def
    deployConfiguratorLibraries_def deployGenericLogic_def deployReserveLogicLibrary_def deployNftLogicLibrary_def
    deployValidationLogic_def deploySupplyLogicLibrary_def deployBorrowLogicLibrary_def
    deployLiquidateLogicLibrary_def deployConfiguratorLogicLibrary_def dev_parts
  by (intro task_evolves library_evolves)+

lemma says_later:
  "evolves v v' \<Longrightarrow> \<forall>h. node v h r = Inr x \<Longrightarrow> \<forall>h. node v' h r = Inr x"
  by (simp add: evolves_def same_env_def)

lemma provider_impl_after:
  assumes "tseq m (new_provider_impl p dep setter reader i upgrade) v = (Inr u, w')"
    and "\<forall>h. node v h (ViewCall (c_address p) reader []) = Inr (JStr a)" and "obeys evolves m" and "obeys evolves dep"
  shows "map_option e_address (db_get (cid i) w') = Some a"
proof -
  from assms(1) obtain x v1 where 1: "m v = (Inr x, v1)"
    and 2: "new_provider_impl p dep setter reader i upgrade v1 = (Inr u, w')" by (auto simp: tseq_returns)
  from provider_impl_saves [OF 2 says_later [OF ev.run [OF assms(3) 1] assms(2)] assms(4)] show ?thesis .
qed

lemma gateway_impl_saves:
  "new_weth_gateway cfg p verify pool upgrade v = (Inr u, w') \<Longrightarrow>
     \<forall>h. node v h (ViewCall (c_address p) ''getAddress'' [JStr ADDRESS_ID_WETH_GATEWAY]) = Inr (JStr a) \<Longrightarrow>
     map_option e_address (db_get (cid C_WETHGateway) w') = Some a"
  "new_punk_gateway cfg p verify pool upgrade v = (Inr u, w') \<Longrightarrow>
     \<forall>h. node v h (ViewCall (c_address p) ''getAddress'' [JStr ADDRESS_ID_PUNK_GATEWAY]) = Inr (JStr a) \<Longrightarrow>
     map_option e_address (db_get (cid C_PunkGateway) w') = Some a"
proof -
  assume 1: "new_weth_gateway cfg p verify pool upgrade v = (Inr u, w')"
    and 2: "\<forall>h. node v h (ViewCall (c_address p) ''getAddress'' [JStr ADDRESS_ID_WETH_GATEWAY]) = Inr (JStr a)"
  from 1 obtain x v1 where 3: "getWrappedNativeTokenAddress cfg v = (Inr x, v1)"
    and 4: "new_proxied_impl pool (deployWETHGateway verify)
      (view p ''getAddress'' [JStr ADDRESS_ID_WETH_GATEWAY]) C_WETHGateway upgrade v1 = (Inr u, w')"
    by (auto simp: new_weth_gateway_def tseq_returns simp del: cid.simps)
  show "map_option e_address (db_get (cid C_WETHGateway) w') = Some a"
    by (rule proxied_impl_saves [OF 4 says_later [OF ev.run [OF config_evolves(3) 3] 2] pool_deployments_evolve(6)])
next
  assume 1: "new_punk_gateway cfg p verify pool upgrade v = (Inr u, w')"
    and 2: "\<forall>h. node v h (ViewCall (c_address p) ''getAddress'' [JStr ADDRESS_ID_PUNK_GATEWAY]) = Inr (JStr a)"
  from 1 obtain g v1 k v2 x v3 where 3: "getWETHGateway None v = (Inr g, v1)"
    and 4: "getCryptoPunksMarketAddress cfg v1 = (Inr k, v2)"
    and 5: "getWrappedPunkTokenAddress cfg k v2 = (Inr x, v3)"
    and 6: "new_proxied_impl pool (deployPunkGateway verify)
      (view p ''getAddress'' [JStr ADDRESS_ID_PUNK_GATEWAY]) C_PunkGateway upgrade v3 = (Inr u, w')"
    by (auto simp: new_punk_gateway_def task_returns(1,2) simp del: cid.simps)
  have "evolves v v3"
    using ev.run [OF pool_deployments_evolve(10) 3] ev.run [OF config_evolves(5) 4] ev.run [OF config_evolves(4) 5]
    by (meson ev.R_trans)
  from proxied_impl_saves [OF 6 says_later [OF this 2] pool_deployments_evolve(7)]
  show "map_option e_address (db_get (cid C_PunkGateway) w') = Some a" .
qed

lemma tseq_tret [simp]: "tseq (tret x) k = k"
  by (rule ext) (simp add: tseq_def tbind_def)

lemma tseq_unit: "tseq m (tret ()) w = (Inr u, w') \<longleftrightarrow> m w = (Inr u, w')" for m :: "unit task"
  by (auto simp: tseq_returns)

text \<open>The block that runs for each of these names.\<close>

lemma provider_blocks:
  "new_implementation_blocks verify pool (cid C_LendPool) upgrade cfg p v = (Inr u, w') \<longleftrightarrow>
     tseq (deployLendPoolLibraries verify)
       (new_provider_impl p (deployLendPool verify) ''setLendPoolImpl'' ''getLendPool'' C_LendPool upgrade) v
     = (Inr u, w')"
  "new_implementation_blocks verify pool (cid C_LendPoolConfigurator) upgrade cfg p v = (Inr u, w') \<longleftrightarrow>
     tseq (deployConfiguratorLibraries verify) (new_provider_impl p (deployLendPoolConfigurator verify)
       ''setLendPoolConfiguratorImpl'' ''getLendPoolConfigurator'' C_LendPoolConfigurator upgrade) v = (Inr u, w')"
  "new_implementation_blocks verify pool (cid C_LendPoolLoan) upgrade cfg p v = (Inr u, w') \<longleftrightarrow>
     new_provider_impl p (deployLendPoolLoan verify) ''setLendPoolLoanImpl'' ''getLendPoolLoan'' C_LendPoolLoan
       upgrade v = (Inr u, w')"
  "new_implementation_blocks verify pool (cid C_ReserveOracle) upgrade cfg p v = (Inr u, w') \<longleftrightarrow>
     new_proxied_impl pool (deployReserveOracle (JBool verify) False) (view p ''getReserveOracle'' [])
       C_ReserveOracle upgrade v = (Inr u, w')"
  "new_implementation_blocks verify pool (cid C_NFTOracle) upgrade cfg p v = (Inr u, w') \<longleftrightarrow>
     new_proxied_impl pool (deployNFTOracle verify) (view p ''getNFTOracle'' []) C_NFTOracle upgrade v = (Inr u, w')"
  "new_implementation_blocks verify pool (cid C_WETHGateway) upgrade cfg p v = (Inr u, w') \<longleftrightarrow>
     new_weth_gateway cfg p verify pool upgrade v = (Inr u, w')"
  "new_implementation_blocks verify pool (cid C_PunkGateway) upgrade cfg p v = (Inr u, w') \<longleftrightarrow>
     new_punk_gateway cfg p verify pool upgrade v = (Inr u, w')"
  by (simp_all add: new_implementation_blocks_def tseq_unit twhen_def)

text \<open>The Koda gateway's proxy is the one that the database names, and it is upgraded by the admin of the wallet.\<close>

lemma koda_impl_saves:
  assumes "new_koda_gateway verify pool upgrade v = (Inr u, w')"
    and "map_option e_address (db_get (cid C_KodaGateway) v) = Some a"
  shows "map_option e_address (db_get (cid C_KodaGateway) w') = Some a"
proof -
  from assms(1) obtain proxy c v1 v2 where 1: "getContractAddressInDb (cid C_KodaGateway) v = (Inr proxy, v)"
    and 2: "deployWrapperGateway (cid C_KodaGateway) verify v = (Inr c, v1)"
    and 3: "insertContractAddressInDb C_KodaGateway proxy v1 = (Inr (), v2)"
    and 4: "twhen upgrade (upgrade_implementation pool (cid C_KodaGateway) proxy (c_address c)
        (Some (cid C_BendProxyAdminWTL))) v2 = (Inr u, w')"
    by (auto simp: new_koda_gateway_def task_returns(1,2) getContractAddressInDb_returns simp del: cid.simps)
  from 1 assms(2) have "proxy = a" by (auto simp: getContractAddressInDb_returns simp del: cid.simps)
  with 4 insert_saves [OF 3] upgrade_saves [of pool C_KodaGateway a] show ?thesis
    by (cases upgrade) (auto simp: twhen_def simp del: cid.simps)
qed

lemma koda_block:
  "new_implementation_blocks verify pool (cid C_KodaGateway) upgrade cfg p v = (Inr u, w') \<longleftrightarrow>
     new_koda_gateway verify pool upgrade v = (Inr u, w')"
  by (simp add: new_implementation_blocks_def tseq_unit twhen_def)

text \<open>The proxy \<open>a\<close> of the contract \<open>i\<close>: the address that the provider reports for the pool, its configurator, the loan
  manager, the two oracles and the gateways of WETH and of the punks; for the Koda gateway, which the provider does
  not know, the address that the database has. The collector is not among them.\<close>

definition proxy_of :: "world \<Rightarrow> eContractid \<Rightarrow> string \<Rightarrow> bool" where
  "proxy_of w i a \<longleftrightarrow> (\<exists>(j, reader, args) \<in> set provider_proxies. j = i \<and> provider_says w reader args a) \<or>
     i = C_KodaGateway \<and> map_option e_address (db_get (cid i) w) = Some a"

lemma provider_as_owner_quiet: "provider_as_owner w = (Inr p, w') \<Longrightarrow> quiet w w'"
proof -
  assume "provider_as_owner w = (Inr p, w')"
  then obtain c w1 v where 1: "getLendPoolAddressesProvider None w = (Inr c, w1)"
    and 2: "view c ''owner'' [] w1 = (Inr v, w')"
    by (auto simp: provider_as_owner_def getEthersSignerByAddress_def task_returns)
  from touches_quiet [OF view_reads [OF 2 connectOrDb_reads [OF 1 [unfolded getLendPoolAddressesProvider_def] tch.R_refl]]]
  show "quiet w w'" .
qed

text \<open>C19: After \<open>dev:deploy-new-implementation\<close> of one of the eight contracts of \<open>proxy_of\<close> the database still has the
  proxy under the contract's name, with and without an upgrade: the implementation's address, which the deployment
  writes there first, does not stay. (The collector is the exception, see below; the data providers have no proxy.)\<close>

theorem new_implementation_keeps_proxy:
  assumes run: "deploy_new_implementation verify pool (cid i) upgrade w = (Inr u, w')"
    and proxy: "proxy_of w i a"
  shows "map_option e_address (db_get (cid i) w') = Some a"
proof -
  from run obtain w1 cfg p v where 1: "run_compile w = (Inr (), w1)" and 2: "loadPoolConfig pool w1 = (Inr cfg, w1)"
    and 3: "provider_as_owner w1 = (Inr p, v)"
    and 4: "new_implementation_blocks verify pool (cid i) upgrade cfg p v = (Inr u, w')"
    by (auto simp: deploy_new_implementation_def task_returns loadPoolConfig_def simp del: cid.simps
        split: if_splits)
  have q: "quiet w w1" using run_compile_quiet 1 by (rule qt.run)
  from proxy consider (provider) reader args where "(i, reader, args) \<in> set provider_proxies" "provider_says w reader args a"
    | (koda) "i = C_KodaGateway" "map_option e_address (db_get (cid i) w) = Some a"
    unfolding proxy_of_def by blast
  then show ?thesis
  proof cases
    case provider
    with q have "provider_says w1 reader args a"
      by (auto simp: provider_says_def quiet_def does_db dest: does_env)
    from provider_as_owner_returns [OF 3 this]
    have p: "\<forall>h. node v h (ViewCall (c_address p) reader args) = Inr (JStr a)" .
    show ?thesis
      using provider(1) 4 p provider_impl_saves proxied_impl_saves provider_impl_after gateway_impl_saves
        pool_deployments_evolve
      unfolding provider_proxies_def set_simps
      by (elim insertE emptyE Pair_inject; simp only: provider_blocks; metis)
  next
    case koda
    have "db_get (cid i) v = db_get (cid i) w"
      using quiet_db [OF qt.R_trans [OF q provider_as_owner_quiet [OF 3]]] by simp
    with koda 4 koda_impl_saves show ?thesis by (simp only: koda_block)
  qed
qed

text \<open>
  The collector has no such step: its entry, which was the proxy's, becomes the new implementation.
\<close>

lemma new_collector_replaces_entry:
  assumes "deploy_new_implementation verify pool (cid C_BendCollector) upgrade w = (Inr u, w')"
  shows "\<exists>e. db_get (cid C_BendCollector) w' = Some e \<and>
    map_option e_address (db_get (cid C_BendCollectorImpl) w') = Some (e_address e)"
proof -
  from assms obtain cfg p v where
    "new_implementation_blocks verify pool (cid C_BendCollector) upgrade cfg p v = (Inr u, w')"
    by (auto simp: deploy_new_implementation_def task_returns simp del: cid.simps)
  then obtain c where "deployBendCollector (JArr []) verify v = (Inr c, w')"
    by (auto simp: new_implementation_blocks_def tseq_unit twhen_def tseq_returns simp del: cid.simps)
      (auto simp: tseq_unit tseq_returns)
  from deployImpl_does [OF this [unfolded deployBendCollector_def]] show ?thesis
    by (simp add: does_db entry_of_def bare_entry_def)
qed

section \<open>The development network\<close>

lemma from_numbers_asks:
  assumes "from_numbers (n # ns) w = (Inr vs, w')"
  shows "\<exists>v. node w (hist w) (External ''BigNumber.from'' [JNum n]) = Inr v"
  using assms by (auto simp: from_numbers_def task_returns ask_returns)

lemma tfor_member_runs:
  assumes "tfor xs f w = (Inr u, w')" and "x \<in> set xs" and "\<And>y. y \<in> set xs \<Longrightarrow> obeys evolves (f y)"
  shows "\<exists>v v'. evolves w v \<and> f x v = (Inr (), v')"
  using assms
proof (induction xs arbitrary: w)
  case (Cons y ys)
  from Cons.prems(1) obtain v where 1: "f y w = (Inr (), v)" and 2: "tfor ys f v = (Inr u, w')"
    by (auto simp: task_returns)
  show ?case
  proof (cases "x = y")
    case True
    with 1 show ?thesis using evolves_refl by blast
  next
    case False
    with Cons.IH [OF 2] Cons.prems(2,3) obtain z z' where "evolves v z" "f x z = (Inr (), z')" by auto
    moreover have "obeys evolves (f y)" using Cons.prems(3) by simp
    then have "evolves w v" using 1 by (rule ev.run)
    ultimately show ?thesis by (meson evolves_trans)
  qed
qed simp

lemma dev_oracle_nft_asks:
  assumes "dev_oracle_nft verify pool w = (Inr u, w')"
  shows "\<exists>h v. node w h (External ''BigNumber.from'' [JNum (2 * 10 ^ 17)]) = Inr v"
proof -
  from assms obtain cfg w1 p w2 ms w3 c w4 v w5 ns w6 where 1: "loadPoolConfig pool w = (Inr cfg, w1)"
    and 2: "getLendPoolAddressesProvider None w1 = (Inr p, w2)" and 3: "getAllMockedNfts w2 = (Inr ms, w3)"
    and 4: "deployNFTOracle verify w3 = (Inr c, w4)" and 5: "view p ''getPoolAdmin'' [] w4 = (Inr v, w5)"
    and 6: "from_numbers [2 * 10 ^ 17, 10 ^ 17, 1800, 600, 1800, 18] w5 = (Inr ns, w6)"
    unfolding dev_oracle_nft_def Let_def tbind_returns by blast
  have "obeys evolves (getLendPoolAddressesProvider None)" "obeys evolves getAllMockedNfts"
    unfolding dev_parts by (intro task_evolves)+
  then have "evolves w w5"
    using ev.run [OF loadPoolConfig_evolves 1] ev.run [of _ w1 "Inr p" w2] ev.run [of _ w2 "Inr ms" w3] 2 3
      ev.run [OF pool_deployments_evolve(5) 4] ev.run [OF contract_evolves(3) 5] by (meson evolves_trans)
  then have "node w5 = node w" by (simp add: evolves_def same_env_def)
  with from_numbers_asks [OF 6] show ?thesis by metis
qed

text \<open>C32: \<open>bend:dev\<close> never completes: \<open>dev:deploy-oracle-nft\<close> passes 2e17 as a JavaScript number, which
  \<open>BigNumber.from\<close> of ethers refuses like every number from 2^53 on, so the migration ends with an error
  whatever else the node answers.\<close>

theorem bend_dev_fails:
  assumes refuses: "\<And>h n. 2 ^ 53 \<le> n \<Longrightarrow> isl (node w h (External ''BigNumber.from'' [JNum n]))"
  shows "\<exists>e. fst (bend_dev verify w) = Inl e"
proof (rule ccontr)
  assume "\<not> ?thesis"
  then obtain u w' where "bend_dev verify w = (Inr u, w')" by (metis prod.exhaust_sel sum.exhaust)
  then obtain w1 w2 where 1: "twhen verify checkVerification w = (Inr (), w1)"
    and 2: "tfor (bend_dev_steps verify) snd w1 = (Inr (), w2)"
    by (auto simp: bend_dev_def tseq_returns)
  have "(''dev:deploy-oracle-nft'', dev_oracle_nft verify ''Bend'') \<in> set (bend_dev_steps verify)"
    by (simp add: bend_dev_steps_def)
  from tfor_member_runs [OF 2 this] dev_steps_evolve [of _ verify] obtain v v' where
    "evolves w1 v" and 3: "dev_oracle_nft verify ''Bend'' v = (Inr (), v')" by (metis snd_conv)
  moreover have "obeys evolves (twhen verify checkVerification)" by (intro task_evolves values_evolve)
  then have "evolves w w1" using 1 by (rule ev.run)
  ultimately have "node v = node w" by (simp add: evolves_def same_env_def)
  then obtain h x where "node w h (External ''BigNumber.from'' [JNum (2 * 10 ^ 17)]) = Inr x"
    using dev_oracle_nft_asks [OF 3] by auto
  with refuses [of "2 * 10 ^ 17" h] show False by simp
qed

end
