(* ===== verification/AbiTypes.thy ===== *)
theory AbiTypes
  imports DevSpec
begin

text \<open>
  The structures the configurator takes, as \<open>contracts/libraries/types/ConfigTypes.sol\<close> declares them, and
  the values that the ABI coder accepts for them. The scripts build these structures from strings, which
  no compiler checks against the contracts.
\<close>

datatype sol_type = SolAddress | SolUint nat | SolText | SolBytes

text \<open>
  The values of a type: addresses satisfy a predicate of the library; an integer is a number or a decimal
  numeral in range.
\<close>

fun has_type :: "(string \<Rightarrow> bool) \<Rightarrow> sol_type \<Rightarrow> jsval \<Rightarrow> bool" where
  "has_type adr SolAddress (JStr s) = adr s"
| "has_type adr (SolUint n) (JNum i) = (0 \<le> i \<and> i < 2 ^ n)"
| "has_type adr (SolUint n) (JStr s) = (case parse_nat s of None \<Rightarrow> False | Some k \<Rightarrow> k < 2 ^ n)"
| "has_type adr SolText (JStr s) = True"
| "has_type adr SolBytes (JArr vs) = list_all (\<lambda>v. case v of JNum i \<Rightarrow> 0 \<le> i \<and> i < 256 | _ \<Rightarrow> False) vs"
| "has_type adr _ _ = False"

type_synonym sol_struct = "(string \<times> sol_type) list"

fun has_struct :: "(string \<Rightarrow> bool) \<Rightarrow> sol_struct \<Rightarrow> jsval \<Rightarrow> bool" where
  "has_struct adr s (JObj o1) = (map fst o1 = map fst s \<and> list_all2 (has_type adr) (map snd s) (map snd o1))"
| "has_struct adr s _ = False"

definition InitReserveInput :: sol_struct where
  "InitReserveInput = [
     (''bTokenImpl'', SolAddress), (''debtTokenImpl'', SolAddress), (''underlyingAssetDecimals'', SolUint 8),
     (''interestRateAddress'', SolAddress), (''underlyingAsset'', SolAddress), (''treasury'', SolAddress),
     (''underlyingAssetName'', SolText), (''bTokenName'', SolText), (''bTokenSymbol'', SolText),
     (''debtTokenName'', SolText), (''debtTokenSymbol'', SolText)]"

definition ConfigReserveInput :: sol_struct where
  "ConfigReserveInput = [(''asset'', SolAddress), (''reserveFactor'', SolUint 256),
     (''maxUtilizationRate'', SolUint 256)]"

definition InitNftInput :: sol_struct where
  "InitNftInput = [(''underlyingAsset'', SolAddress)]"

definition ConfigNftInput :: sol_struct where
  "ConfigNftInput = [(''asset'', SolAddress), (''baseLTV'', SolUint 256), (''liquidationThreshold'', SolUint 256),
     (''liquidationBonus'', SolUint 256), (''redeemDuration'', SolUint 256), (''auctionDuration'', SolUint 256),
     (''redeemFine'', SolUint 256), (''redeemThreshold'', SolUint 256), (''minBidFine'', SolUint 256),
     (''maxSupply'', SolUint 256), (''maxTokenId'', SolUint 256), (''maxCollateralCap'', SolUint 256)]"

definition UpdateDebtTokenInput :: sol_struct where
  "UpdateDebtTokenInput = [(''asset'', SolAddress), (''implementation'', SolAddress), (''encodedCallData'', SolBytes)]"

section \<open>The structures of the market\<close>

definition numerals :: "INftParams \<Rightarrow> bool" where
  "numerals p \<longleftrightarrow> list_all (\<lambda>s. has_type (\<lambda>_. False) (SolUint 256) (JStr s))
     [baseLTVAsCollateral p, liquidationThreshold p, liquidationBonus p, redeemDuration p, auctionDuration p,
      redeemFine p, redeemThreshold p, minBidFine p, maxSupply p, maxTokenId p]"

lemma nft_typed: "numerals p \<Longrightarrow> has_struct adr ConfigNftInput (config_nft_input a p) = adr a"
  by (simp add: numerals_def config_nft_input_def ConfigNftInput_def)

lemma strategies_numeral:
  "numerals strategyNftClassA" "numerals strategyNftClassB" "numerals strategyNftClassC"
  "numerals strategyNftClassD" "numerals strategyNftClassE"
  by (simp_all add: numerals_def strategyNftClassA_def strategyNftClassB_def strategyNftClassC_def
      strategyNftClassD_def strategyNftClassE_def parse_nat_def digit_val_def)

lemma numerals_update: "numerals p \<Longrightarrow> has_type (\<lambda>_. False) (SolUint 256) (JStr s) \<Longrightarrow>
    has_type (\<lambda>_. False) (SolUint 256) (JStr t) \<Longrightarrow> numerals (p\<lparr>maxSupply := s, maxTokenId := t\<rparr>)"
  by (simp add: numerals_def)

lemmas nft_strategies = strategyNft_WPUNKS_def strategyNft_BAYC_def strategyNft_DOODLE_def strategyNft_MAYC_def
  strategyNft_CLONEX_def strategyNft_AZUKI_def strategyNft_KONGZ_def strategyNft_COOL_def strategyNft_MEEBITS_def
  strategyNft_WOW_def strategyNft_WKODA_def

lemma nfts_numeral: "list_all (\<lambda>(s, p). numerals p) (Bend_NftsConfig @ strategyNftParams)"
  by (simp add: Bend_NftsConfig_def strategyNftParams_def nft_strategies strategies_numeral numerals_update
      parse_nat_def digit_val_def)

lemma reserve_strategies: "list_all (\<lambda>(symbol, p).
    p \<in> {strategyWETH, strategyDAI, strategyUSDC, strategyUSDT}) Bend_ReservesConfig"
  by (simp add: Bend_ReservesConfig_def)

lemma maxUtilization: "toFixed (3 * oneRay / 4) = show_nat 750000000000000000000000000"
proof -
  have "3 * oneRay / 4 = 750000000000000000000000000" by (simp add: oneRay_def)
  then show ?thesis by (simp only: toFixed_numeral)
qed

lemma reserve_config_typed:
  assumes "p \<in> {strategyWETH, strategyDAI, strategyUSDC, strategyUSDT}"
  shows "has_struct adr ConfigReserveInput (config_reserve_input a p) = adr a"
    "has_struct adr InitReserveInput (reserve_input tn (JStr t) s p b d r a) =
      (adr b \<and> adr d \<and> adr r \<and> adr a \<and> adr t)"
  using assms
  by (auto simp: config_reserve_input_def ConfigReserveInput_def maxUtilization reserve_input_def InitReserveInput_def
      strategyWETH_def strategyDAI_def strategyUSDC_def strategyUSDT_def parse_nat_def digit_val_def parse_digits_show)

text \<open>C26: The structures that the scripts build for the market are of the types the contracts declare: field for
  field and in the order of \<open>ConfigTypes.sol\<close>, each numeral in range of its type, so that only the
  addresses can be wrong. It covers every NFT and reserve of the market, and the strategies that
  \<open>helpers:add-nft-to-pool\<close> offers.\<close>

theorem market_structs_typed:
  "list_all (\<lambda>(symbol, p). has_struct adr ConfigNftInput (config_nft_input a p) = adr a)
     (Bend_NftsConfig @ strategyNftParams) \<and>
   list_all (\<lambda>(symbol, p).
     has_struct adr ConfigReserveInput (config_reserve_input a p) = adr a \<and>
     has_struct adr InitReserveInput (reserve_input tn (JStr treasury) symbol p b d rate a) =
       (adr b \<and> adr d \<and> adr rate \<and> adr a \<and> adr treasury)) Bend_ReservesConfig \<and>
   has_struct adr InitNftInput (nft_init_input a) = adr a"
proof (intro conjI)
  show "list_all (\<lambda>(symbol, p). has_struct adr ConfigNftInput (config_nft_input a p) = adr a)
     (Bend_NftsConfig @ strategyNftParams)"
    using nfts_numeral unfolding list_all_iff by (fastforce simp: nft_typed)
  show "list_all (\<lambda>(symbol, p).
     has_struct adr ConfigReserveInput (config_reserve_input a p) = adr a \<and>
     has_struct adr InitReserveInput (reserve_input tn (JStr treasury) symbol p b d rate a) =
       (adr b \<and> adr d \<and> adr rate \<and> adr a \<and> adr treasury)) Bend_ReservesConfig"
    using reserve_strategies by (auto simp: list_all_iff reserve_config_typed)
  show "has_struct adr InitNftInput (nft_init_input a) = adr a"
    by (simp add: nft_init_input_def InitNftInput_def)
qed

end
