(* ===== verification/OperationsRuns.thy ===== *)
theory OperationsRuns
  imports AbiTypes Demo
begin

text \<open>
  Runs of the operating tasks on concrete nodes, which show that the hypotheses of their properties can
  hold. \<open>site ans es h\<close> is a network whose node accepts every request and answers \<open>ans h r\<close>.
\<close>

definition site :: "(request list \<Rightarrow> request \<Rightarrow> jsval) \<Rightarrow> db_entry jsobj \<Rightarrow> request list \<Rightarrow> world" where
  "site ans es h = (demo_at ''sepolia'' es h)\<lparr>node := (\<lambda>h r. Inr (ans h r))\<rparr>"

lemma site_simps [simp]:
  "net_name (site ans es h) = ''sepolia''" "procenv (site ans es h) = (\<lambda>_. None)"
  "hist (site ans es h) = h" "db_get i (site ans es h) = oget es i"
  "node (site ans es h) = (\<lambda>h r. Inr (ans h r))"
  "db_put i e (site ans es h) = site ans (oset i e es) h"
  "(site ans es h)\<lparr>hist := h'\<rparr> = site ans es h'"
  "isAddress (site ans es h) a = (take 2 a = ''0x'')" "isZeroAddress (site ans es h) a = (a = ZERO_ADDRESS)"
  by (auto simp: site_def demo_at_def demo_def db_get_def db_put_def fun_eq_iff)

lemma accepted_all [simp]: "accepted (\<lambda>h r. Inr (f h r)) h = h"
  by (induction h rule: rev_induct) simp_all

lemma site_ask [simp]: "ask r (site ans es h) = (Inr (ans h r), site ans es (h @ [r]))"
  by (simp add: ask_def)

lemma site_send [simp]: "send c m args (site ans es h) =
    (Inr (), site ans es (h @ [SendTx (c_signer c) (c_address c) m args, WaitTx (length h)]))"
  by (simp add: send_def send_and_wait_def tbind_def tseq_def)

lemma site_view [simp]: "view c m args (site ans es h) =
    (Inr (ans h (ViewCall (c_address c) m args)), site ans es (h @ [ViewCall (c_address c) m args]))"
  by (simp add: view_def)

text \<open>The nodes of this theory have the accounts of the demonstration node.\<close>

definition accounts :: jsval where
  "accounts = JArr [JStr ''0xD0'', JStr ''0xE0'', JStr ''0xA0'']"

lemma site_signer:
  "ans h Accounts = accounts \<Longrightarrow> getDeploySigner (site ans es h) = (Inr (Some ''0xD0''), site ans es (h @ [Accounts]))"
  by (simp add: getDeploySigner_def nth_signer_def getEthersSigners_def tbind_def accounts_def)

lemma site_connect:
  assumes "\<And>h. ans h Accounts = accounts"
  shows "connectOrDb i None (site ans es h) = (case oget es i of
      None \<Rightarrow> (Inl JsTypeError, site ans es h)
    | Some e \<Rightarrow> (Inr (connect (e_address e) (Some ''0xD0'')), site ans es (h @ [Accounts])))"
  "connectOrDb i (Some (c # cs)) (site ans es h) =
     (Inr (connect (c # cs) (Some ''0xD0'')), site ans es (h @ [Accounts]))"
  by (simp_all add: connectOrDb_def address_in_db_def getDb_get_def site_signer assms tbind_def split: option.splits)

lemma site_pool [simp]: "loadPoolConfig ''Bend'' (site ans es h) = (Inr BendConfig, site ans es h)"
  by (rule bend_pool)

lemmas site_getters = getLendPoolAddressesProvider_def getLendPoolConfiguratorProxy_def getLendPool_def
  getBendProtocolDataProvider_def getBNFTRegistryProxy_def getWETHGateway_def getIErc721Detailed_def
  getEthersSignerByAddress_def getNFTOracle_def

lemmas site_runs = tbind_def tseq_def twhen_def site_getters bare_entry_def getter_arg_def connect_def as_signer_def

definition provider_entries :: "db_entry jsobj" where
  "provider_entries = [(''LendPoolAddressesProvider'', bare_entry ''0xP''), (''LendPoolConfigurator'', bare_entry ''0xC'')]"

section \<open>Switches\<close>

text \<open>A pool that is paused by its configurator, and a data provider that reports the frozen NFTs.\<close>

definition pause_flag :: "request list \<Rightarrow> bool" where
  "pause_flag = flag_state ''0xC'' (''setPoolPause'', [JBool True]) (''setPoolPause'', [JBool False]) False"

definition frozen_flag :: "request list \<Rightarrow> bool" where
  "frozen_flag = flag_state ''0xC'' (''freezeNft'', [JStr ''0xN'']) (''unfreezeNft'', [JStr ''0xN'']) False"

fun pool_answer :: "request list \<Rightarrow> request \<Rightarrow> jsval" where
  "pool_answer h Accounts = accounts"
| "pool_answer h (ViewCall a m args) =
     (if m = ''getLendPoolConfigurator'' then JStr ''0xC'' else if m = ''getLendPool'' then JStr ''0xL''
      else if m = ''getBendDataProvider'' then JStr ''0xB'' else if m = ''paused'' then JBool (pause_flag h)
      else if m = ''getNftConfigurationData'' then JObj [(''isFrozen'', JBool (frozen_flag h))] else JStr ''0xA0'')"
| "pool_answer h r = JUndef"

lemma provider_says_pool:
  "provider_says (site pool_answer provider_entries h) ''getLendPoolConfigurator'' [] ''0xC''"
  "provider_says (site pool_answer provider_entries h) ''getLendPool'' [] ''0xL''"
  "provider_says (site pool_answer provider_entries h) ''getBendDataProvider'' [] ''0xB''"
  by (simp_all add: provider_says_def provider_entries_def)

lemma pool_reports_pause:
  "reports_flag (site pool_answer provider_entries []) (ViewCall ''0xL'' ''paused'' []) Some ''0xC''
     (''setPoolPause'', [JBool True]) (''setPoolPause'', [JBool False]) False"
  by (simp add: reports_flag_def pause_flag_def)

text \<open>Parameters as they come from the command line.\<close>

lemma asks_word: "state_asks (JStr ''1'') True"
  by (simp add: state_asks_def)

theorem set_pause_settles_witness:
  "\<exists>w'. set_pause ''Bend'' (JStr ''1'') (site pool_answer provider_entries []) = (Inr (), w') \<and>
     does (site pool_answer provider_entries []) w' [Sent ''0xC'' ''setPoolPause'' [JBool True]] []"
proof -
  let ?w = "site pool_answer provider_entries []"
  obtain w' where run: "set_pause ''Bend'' (JStr ''1'') ?w = (Inr (), w')"
    by (simp add: set_pause_def state_asks_want [OF asks_word] site_runs site_connect provider_entries_def
        pause_flag_def flag_state_def)
  from set_pause_settles [OF run asks_word provider_says_pool(1,2) pool_reports_pause] run show ?thesis
    by (simp add: flag_at_def flag_state_def)
qed

theorem set_pause_word_false_witness:
  "\<exists>w'. set_pause ''Bend'' (JStr ''false'') (site pool_answer provider_entries []) = (Inr (), w') \<and>
     does (site pool_answer provider_entries []) w' [Sent ''0xC'' ''setPoolPause'' [JBool True]] []"
proof -
  let ?w = "site pool_answer provider_entries []"
  obtain w' where run: "set_pause ''Bend'' (JStr ''false'') ?w = (Inr (), w')"
    by (simp add: set_pause_def want_state_word_false site_runs site_connect provider_entries_def
        pause_flag_def flag_state_def)
  from set_pause_word_false [OF run provider_says_pool(1,2) pool_reports_pause] run show ?thesis
    by (simp add: flag_at_def flag_state_def)
qed


section \<open>Assets\<close>

fun truthy_answer :: "request list \<Rightarrow> request \<Rightarrow> jsval" where
  "truthy_answer h Accounts = accounts"
| "truthy_answer h r = JBool True"

theorem set_nft_assets_all_or_nothing_witness:
  "stops (set_nft_assets ''Bend'' ''0xN'') (site truthy_answer [(''NFTOracle'', bare_entry ''0xO'')] [])"
proof -
  let ?w = "site truthy_answer [(''NFTOracle'', bare_entry ''0xO'')] []"
  have "db_get (cid C_NFTOracle) ?w = Some (bare_entry ''0xO'')" by simp
  from set_nft_assets_all_or_nothing [OF this site_pool, of "''0xN''"] show ?thesis by simp
qed

text \<open>A node on which an NFT is listed: every contract is known to the provider, the NFT is called BAYC.\<close>

definition encoded_call :: "string \<Rightarrow> jsval list \<Rightarrow> jsval" where
  "encoded_call f args = JObj [(f, JArr args)]"

fun listing_answer :: "request list \<Rightarrow> request \<Rightarrow> jsval" where
  "listing_answer h Accounts = accounts"
| "listing_answer h (ViewCall a m args) =
     (if m = ''getLendPoolConfigurator'' then JStr ''0xC'' else if m = ''getAddress'' then JStr ''0xG''
      else if m = ''symbol'' then JStr ''BAYC''
      else if m = ''getBNFTAddresses'' then JObj [(''bNftProxy'', JStr ''0xBN'')] else JStr ''0xA0'')"
| "listing_answer h (External n args) =
     (case args of [JStr f, JArr vs] \<Rightarrow> encoded_call f vs | _ \<Rightarrow> JUndef)"
| "listing_answer h r = JUndef"

lemma provider_says_listing:
  "provider_says (site listing_answer provider_entries h) ''getLendPoolConfigurator'' [] ''0xC''"
  "provider_says (site listing_answer provider_entries h) ''getAddress'' [JStr ADDRESS_ID_WETH_GATEWAY] ''0xG''"
  by (simp_all add: provider_says_def provider_entries_def)

lemmas listing_runs = site_runs site_connect provider_entries_def require_bnft_def struct_field_def
  notFalsyOrZeroAddress_def ZERO_ADDRESS_def chosen_params_def

lemma bayc_params: "params_for BendConfig None ''BAYC'' = Some strategyNft_BAYC"
    "oget (NftsConfig BendConfig) ''BAYC'' = Some strategyNft_BAYC"
  by (simp_all add: params_for_def bend_fields Bend_NftsConfig_def)

lemma listing_runs_add: "\<exists>w'. add_nft_to_pool ''Bend'' ''0xN'' None (site listing_answer provider_entries []) = (Inr (), w')"
  by (simp add: add_nft_to_pool_def listing_runs bayc_params Let_def)



section \<open>Collecting, liquidating, minting\<close>

theorem recycling_spares_deployer_witness:
  "touches (collects ''0xD0'' ''0xR'') (demo ''sepolia'' [(''BAYC'', bare_entry ''0xN'')])
     (snd (recycle_signer_tokens ''0xR'' (demo ''sepolia'' [(''BAYC'', bare_entry ''0xN'')])))"
  using recycling_spares_deployer [of "demo ''sepolia'' [(''BAYC'', bare_entry ''0xN'')]" "''0xD0''"
      "[JStr ''0xE0'', JStr ''0xA0'']" "''0xR''"]
  by (simp add: demo_def)

text \<open>A collection in which 0xS holds two tokens, 7 and 8, that are refused by index once transferred.\<close>

definition sends :: "request list \<Rightarrow> request list" where
  "sends = filter (\<lambda>r. case r of SendTx s a m args \<Rightarrow> True | _ \<Rightarrow> False)"

definition tokens_left :: "request list \<Rightarrow> nat" where
  "tokens_left h = 2 - transferred ''0xS'' ''0xN'' (sends h)"

fun two_node :: "request list \<Rightarrow> request \<Rightarrow> string + jsval" where
  "two_node h (ViewCall a m args) = (if m = ''balanceOf'' then Inr (JNum (int (tokens_left h)))
     else (case args of [JStr s, JNum i] \<Rightarrow>
         if int (tokens_left h) \<le> i then Inl ''index out of bounds'' else Inr (JNum (7 + i))
       | _ \<Rightarrow> Inr JUndef))"
| "two_node h r = Inr JUndef"

definition two_tokens :: world where
  "two_tokens = (demo ''sepolia'' [])\<lparr>node := two_node\<rparr>"

lemma accepted_sends:
  assumes "\<And>h s a m args. \<exists>v. nd h (SendTx s a m args) = Inr v"
  shows "transferred x c (sends h) = transferred x c (accepted nd h)"
proof (induction h rule: rev_induct)
  case (snoc r h)
  show ?case
  proof (cases r)
    case (SendTx s a m args)
    obtain v where "nd h r = Inr v" using assms SendTx by blast
    with snoc SendTx show ?thesis by (simp add: sends_def)
  qed (use snoc in \<open>simp_all add: transferred_def sends_def\<close>)
qed (simp add: sends_def)

lemma two_tokens_enumerable: "enumerable two_tokens ''0xS'' ''0xN'' 2"
proof -
  have "tokens_left h = 2 - transferred ''0xS'' ''0xN'' (accepted two_node h)" for h
    unfolding tokens_left_def by (subst accepted_sends [of two_node]) simp_all
  then show ?thesis unfolding enumerable_def Let_def by (simp add: two_tokens_def)
qed


text \<open>A loan with a debt of 100 and a bid of 40: the liquidation sends 66.\<close>

fun loan_answer :: "request list \<Rightarrow> request \<Rightarrow> jsval" where
  "loan_answer h Accounts = accounts"
| "loan_answer h (ViewCall a m args) = (if m = ''getLoanDataByCollateral''
     then JObj [(''currentAmount'', JNum 100), (''bidPrice'', JNum 40)] else JStr ''0xB'')"
| "loan_answer h r = JUndef"

theorem weth_liquidate_value_witness:
  "\<exists>w' gateway x. weth_liquidate ''Bend'' ''0xN'' ''5'' (site loan_answer
       ((''WETHGateway'', bare_entry ''0xG'') # provider_entries) []) = (Inr (), w') \<and>
     does (site loan_answer ((''WETHGateway'', bare_entry ''0xG'') # provider_entries) []) w'
       [Sent gateway ''liquidateETH'' [JStr ''0xN'', JStr ''5'', with_value (JStr (show_int x))]] [] \<and> x = 66"
proof -
  let ?w = "site loan_answer ((''WETHGateway'', bare_entry ''0xG'') # provider_entries) []"
  obtain w' where run: "weth_liquidate ''Bend'' ''0xN'' ''5'' ?w = (Inr (), w')"
    by (simp add: weth_liquidate_def data_provider_of_def site_runs site_connect provider_entries_def struct_field_def
        big_def big_arg_def)
  from weth_liquidate_value [OF run] obtain gateway debt bid x h a loan where
    d: "does ?w w' [Sent gateway ''liquidateETH'' [JStr ''0xN'', JStr ''5'', with_value (JStr (show_int x))]] []"
    and l: "loan = JObj [(''currentAmount'', JNum 100), (''bidPrice'', JNum 40)]"
      "js_prop ''currentAmount'' loan = Some (JNum debt)" "Option.bind (js_prop ''bidPrice'' loan) amount_in = Some bid"
    and x: "bid < debt \<longrightarrow> debt - bid \<le> x \<and> \<bar>10 * x - 11 * (debt - bid)\<bar> \<le> 5"
    by auto
  from l have "debt = 100" "bid = 40" by simp_all
  with x have "\<bar>10 * x - 660\<bar> \<le> 5" by simp
  then have "x = 66" by presburger
  with run d show ?thesis by blast
qed

text \<open>A collection that counts the mints it has accepted.\<close>

fun counting_answer :: "request list \<Rightarrow> request \<Rightarrow> jsval" where
  "counting_answer h Accounts = accounts"
| "counting_answer h (ViewCall a m args) = (case args of [JStr s] \<Rightarrow>
     (if m = ''mintCounts'' then JNum (int (minted s ''0xN'' h)) else JNum 0) | _ \<Rightarrow> JNum 0)"
| "counting_answer h r = JNum 0"

theorem mint_top_tokens_within_limit_witness:
  "limited ''0xN'' (site counting_answer [(''BAYC'', bare_entry ''0xN'')] [])
     (snd (mint_top_tokens ''BAYC'' ''1,2'' ''0xT'' (site counting_answer [(''BAYC'', bare_entry ''0xN'')] [])))"
proof -
  let ?w = "site counting_answer [(''BAYC'', bare_entry ''0xN'')] []"
  have "getContractAddressInDb ''BAYC'' ?w = (Inr ''0xN'', ?w)"
    by (simp add: getContractAddressInDb_returns bare_entry_def)
  moreover have "counts_mints ?w ''0xN''" by (simp add: counts_mints_def)
  ultimately show ?thesis by (rule mint_top_tokens_within_limit)
qed

section \<open>Upgrades, the development network\<close>

theorem new_implementation_keeps_proxy_witness:
  "\<exists>w'. deploy_new_implementation False ''Bend'' (cid C_NFTOracle) False
       (site pool_answer provider_entries []) = (Inr (), w') \<and>
     map_option e_address (db_get (cid C_NFTOracle) w') = Some ''0xA0''"
proof -
  let ?w = "site pool_answer provider_entries []"
  obtain w' where run: "deploy_new_implementation False ''Bend'' (cid C_NFTOracle) False ?w = (Inr (), w')"
    by (simp add: deploy_new_implementation_def new_implementation_blocks_def run_compile_def provider_as_owner_def
        new_proxied_impl_def deployNFTOracle_def deployImpl_def deployFactory_def site_runs site_connect site_signer
        provider_entries_def rawInsertContractAddressInDb_def getDb_set_def withSaveAndVerify_def wait_deployed_def
        waitForTx_def registerContractInJsonDb_def insertContractAddressInDb_def)
  have "provider_says ?w ''getNFTOracle'' [] ''0xA0''" by (simp add: provider_says_def provider_entries_def)
  then have "proxy_of ?w C_NFTOracle ''0xA0''" by (simp add: proxy_of_def provider_proxies_def)
  from new_implementation_keeps_proxy [OF run this] run show ?thesis by blast
qed

text \<open>A node whose library refuses the numbers that are not safe, as ethers does.\<close>

definition ethers_node :: world where
  "ethers_node = (demo ''hardhat'' [])\<lparr>node := (\<lambda>h r. case r of
     External n args \<Rightarrow> (case args of [JNum i] \<Rightarrow> if 2 ^ 53 \<le> i then Inl ''overflow'' else Inr (JNum i)
       | _ \<Rightarrow> Inr (demo_answer r))
     | _ \<Rightarrow> Inr (demo_answer r))\<rparr>"

theorem bend_dev_fails_witness: "\<exists>e. fst (bend_dev False ethers_node) = Inl e"
  by (rule bend_dev_fails) (simp add: ethers_node_def)

end
