(* ===== verification/Checked.thy ===== *)
theory Checked
  imports Main
begin

text \<open>
  Arithmetic of the contracts (Solidity 0.8.4, \<open>contracts/\<close>): an unsigned integer is a natural number,
  and every operation on \<open>uint256\<close> is checked against the width: it reverts with \<open>Panic(0x11)\<close> on an overflow or
  underflow and with \<open>Panic(0x12)\<close> on a division by zero. A revert is a value of the left summand: the
  panic code, or the reason of a failed \<open>require\<close> (the name of the constant of \<open>Errors.sol\<close>).
\<close>

datatype revert = Panic nat | Require string

type_synonym uint = nat

named_theorems checked_simps \<open>when a checked computation returns, and what\<close>

section \<open>Sequences of checked computations\<close>

definition sbind :: "revert + 'a \<Rightarrow> ('a \<Rightarrow> revert + 'b) \<Rightarrow> revert + 'b" where
  "sbind m f = (case m of Inl e \<Rightarrow> Inl e | Inr x \<Rightarrow> f x)"

definition require_that :: "bool \<Rightarrow> string \<Rightarrow> revert + unit" where
  "require_that c code = (if c then Inr () else Inl (Require code))"

lemma sbind_Inl [simp]: "sbind (Inl e) f = Inl e"
  by (simp add: sbind_def)

lemma sbind_Inr [simp]: "sbind (Inr x) f = f x"
  by (simp add: sbind_def)

lemma sbind_returns [checked_simps]: "sbind m f = Inr y \<longleftrightarrow> (\<exists>x. m = Inr x \<and> f x = Inr y)"
  by (cases m) auto

lemma require_returns [checked_simps]: "require_that c code = Inr u \<longleftrightarrow> c"
  by (simp add: require_that_def)

lemma require_True [simp]: "require_that True code = Inr ()"
  by (simp add: require_that_def)

lemma require_False [simp]: "require_that False code = Inl (Require code)"
  by (simp add: require_that_def)

section \<open>Checked arithmetic\<close>

definition uint256_max :: uint where "uint256_max = 2 ^ 256 - 1"
definition uint128_max :: uint where "uint128_max = 2 ^ 128 - 1"

definition to_uint128 :: "uint \<Rightarrow> uint" where "to_uint128 x = x mod 2 ^ 128"
definition to_uint40 :: "uint \<Rightarrow> uint" where "to_uint40 x = x mod 2 ^ 40"

definition add256 :: "uint \<Rightarrow> uint \<Rightarrow> revert + uint" where
  "add256 a b = (if a + b \<le> uint256_max then Inr (a + b) else Inl (Panic 17))"

definition sub256 :: "uint \<Rightarrow> uint \<Rightarrow> revert + uint" where
  "sub256 a b = (if b \<le> a then Inr (a - b) else Inl (Panic 17))"

definition mul256 :: "uint \<Rightarrow> uint \<Rightarrow> revert + uint" where
  "mul256 a b = (if a * b \<le> uint256_max then Inr (a * b) else Inl (Panic 17))"

definition div256 :: "uint \<Rightarrow> uint \<Rightarrow> revert + uint" where
  "div256 a b = (if b = 0 then Inl (Panic 18) else Inr (a div b))"

definition pow256 :: "uint \<Rightarrow> uint \<Rightarrow> revert + uint" where
  "pow256 a b = (if a ^ b \<le> uint256_max then Inr (a ^ b) else Inl (Panic 17))"

lemma add256_returns [checked_simps]: "add256 a b = Inr r \<longleftrightarrow> a + b \<le> uint256_max \<and> r = a + b"
  by (auto simp: add256_def)

lemma sub256_returns [checked_simps]: "sub256 a b = Inr r \<longleftrightarrow> b \<le> a \<and> r = a - b"
  by (auto simp: sub256_def)

lemma mul256_returns [checked_simps]: "mul256 a b = Inr r \<longleftrightarrow> a * b \<le> uint256_max \<and> r = a * b"
  by (auto simp: mul256_def)

lemma div256_returns [checked_simps]: "div256 a b = Inr r \<longleftrightarrow> b \<noteq> 0 \<and> r = a div b"
  by (auto simp: div256_def)

lemma pow256_returns [checked_simps]: "pow256 a b = Inr r \<longleftrightarrow> a ^ b \<le> uint256_max \<and> r = a ^ b"
  by (auto simp: pow256_def)

lemma add256_fits: "a + b \<le> uint256_max \<Longrightarrow> add256 a b = Inr (a + b)"
  by (simp add: add256_def)

lemma mul256_fits: "a * b \<le> uint256_max \<Longrightarrow> mul256 a b = Inr (a * b)"
  by (simp add: mul256_def)

lemma sub256_fits: "b \<le> a \<Longrightarrow> sub256 a b = Inr (a - b)"
  by (simp add: sub256_def)

lemma div256_fits: "b \<noteq> 0 \<Longrightarrow> div256 a b = Inr (a div b)"
  by (simp add: div256_def)

lemmas fits256 = add256_fits mul256_fits sub256_fits div256_fits

lemma to_uint128_id [simp]: "x \<le> uint128_max \<Longrightarrow> to_uint128 x = x"
  by (simp add: to_uint128_def uint128_max_def)

lemma to_uint40_id: "x < 2 ^ 40 \<Longrightarrow> to_uint40 x = x"
  by (simp add: to_uint40_def)

section \<open>Rounded division\<close>

text \<open>
  The quotient of two naturals rounded half up, the value that the libraries compute. It is within half
  a unit of the exact quotient, monotone in the numerator, and the nearest integer is found again.
\<close>

definition round_div :: "nat \<Rightarrow> nat \<Rightarrow> nat" where
  "round_div n d = (n + d div 2) div d"

lemma round_div_0 [simp]: "0 < d \<Longrightarrow> round_div 0 d = 0"
  by (simp add: round_div_def)

lemma round_div_bounds:
  assumes "0 < d"
  shows "round_div n d * d \<le> n + d div 2" and "n + d div 2 < round_div n d * d + d"
proof -
  have "(n + d div 2) div d * d + (n + d div 2) mod d = n + d div 2" by (rule div_mult_mod_eq)
  with mod_less_divisor [OF assms, of "n + d div 2"]
  show "round_div n d * d \<le> n + d div 2" "n + d div 2 < round_div n d * d + d"
    unfolding round_div_def by linarith+
qed

lemma round_div_mono: "m \<le> n \<Longrightarrow> round_div m d \<le> round_div n d"
  by (simp add: round_div_def div_le_mono)

lemma round_div_unique:
  assumes "0 < d" "q * d \<le> n + d div 2" "n + d div 2 < q * d + d"
  shows "round_div n d = q"
proof -
  have "(n + d div 2) div d = q"
  proof (rule div_nat_eqI)
    show "d * q \<le> n + d div 2" using assms(2) by (simp add: mult.commute)
    show "n + d div 2 < d * Suc q" using assms(3) by (simp add: mult.commute)
  qed
  then show ?thesis by (simp add: round_div_def)
qed

lemma round_div_exact [simp]: "0 < d \<Longrightarrow> round_div (q * d) d = q"
  by (rule round_div_unique) auto

lemma round_div_ge: "0 < d \<Longrightarrow> q * d \<le> n \<Longrightarrow> q \<le> round_div n d"
  using round_div_mono [of "q * d" n d] by simp

lemma round_div_le: "0 < d \<Longrightarrow> n \<le> q * d \<Longrightarrow> round_div n d \<le> q"
  using round_div_mono [of n "q * d" d] by simp

text \<open>Scaling by \<open>i / d\<close> and back finds the same number, if \<open>i\<close> is at least \<open>d\<close>.\<close>

lemma round_div_roundtrip:
  assumes d: "0 < d" and le: "d \<le> i"
  shows "round_div (round_div (s * i) d * d) i = s"
proof (cases "i = d")
  case True
  with d show ?thesis by simp
next
  case False
  let ?r = "round_div (s * i) d"
  have "?r * d \<le> s * i + d div 2" "s * i + d div 2 < ?r * d + d"
    using round_div_bounds [OF d, of "s * i"] by auto
  moreover have "d div 2 \<le> i div 2" "d - d div 2 \<le> i - i div 2" "d div 2 < i - i div 2"
    using le False d by linarith+
  ultimately have "s * i \<le> ?r * d + i div 2" "?r * d + i div 2 < s * i + i"
    by linarith+
  then show ?thesis using d le by (intro round_div_unique) auto
qed

end
