(* ===== verification/WadRay.thy ===== *)
theory WadRay
  imports Checked
begin

text \<open>
  \<open>contracts/libraries/math/WadRayMath.sol\<close> and \<open>PercentageMath.sol\<close>: products and quotients of fixed point
  numbers (18, 27 and 4 decimals), rounded half up. Every operation is translated with its guards in the
  checked arithmetic; the lemmas \<open>*_value\<close> reduce it to the rounded quotient \<open>round_div\<close> and say exactly when
  it reverts, and with which code: no operation ever panics.
\<close>

section \<open>WadRayMath.sol\<close>

definition wad :: uint where "wad = 10 ^ 18"
definition halfWad :: uint where "halfWad = wad div 2"
definition ray :: uint where "ray = 10 ^ 27"
definition halfRay :: uint where "halfRay = ray div 2"
definition wad_ray_ratio :: uint where "wad_ray_ratio = 10 ^ 9"

text \<open>\<open>a * b\<close> and \<open>a / b\<close> of numbers with the unit \<open>one\<close>, as the three pairs of functions are written\<close>

definition fixed_mul :: "uint \<Rightarrow> uint \<Rightarrow> uint \<Rightarrow> uint \<Rightarrow> revert + uint" where
  "fixed_mul one half a b =
     (if a = 0 \<or> b = 0 then Inr 0 else
      sbind (sub256 uint256_max half) (\<lambda>room.
      sbind (div256 room b) (\<lambda>bound.
      sbind (require_that (a \<le> bound) ''MATH_MULTIPLICATION_OVERFLOW'') (\<lambda>_.
      sbind (mul256 a b) (\<lambda>p.
      sbind (add256 p half) (\<lambda>n. div256 n one))))))"

definition fixed_div :: "uint \<Rightarrow> uint \<Rightarrow> uint \<Rightarrow> revert + uint" where
  "fixed_div one a b =
     sbind (require_that (b \<noteq> 0) ''MATH_DIVISION_BY_ZERO'') (\<lambda>_.
     sbind (div256 b 2) (\<lambda>halfB.
     sbind (sub256 uint256_max halfB) (\<lambda>room.
     sbind (div256 room one) (\<lambda>bound.
     sbind (require_that (a \<le> bound) ''MATH_MULTIPLICATION_OVERFLOW'') (\<lambda>_.
     sbind (mul256 a one) (\<lambda>p.
     sbind (add256 p halfB) (\<lambda>n. div256 n b)))))))"

definition wadMul :: "uint \<Rightarrow> uint \<Rightarrow> revert + uint" where "wadMul = fixed_mul wad halfWad"
definition wadDiv :: "uint \<Rightarrow> uint \<Rightarrow> revert + uint" where "wadDiv = fixed_div wad"
definition rayMul :: "uint \<Rightarrow> uint \<Rightarrow> revert + uint" where "rayMul = fixed_mul ray halfRay"
definition rayDiv :: "uint \<Rightarrow> uint \<Rightarrow> revert + uint" where "rayDiv = fixed_div ray"

definition rayToWad :: "uint \<Rightarrow> revert + uint" where
  "rayToWad a =
     sbind (div256 wad_ray_ratio 2) (\<lambda>halfRatio.
     sbind (add256 halfRatio a) (\<lambda>result.
     sbind (require_that (halfRatio \<le> result) ''MATH_ADDITION_OVERFLOW'') (\<lambda>_.
     div256 result wad_ray_ratio)))"

definition wadToRay :: "uint \<Rightarrow> revert + uint" where
  "wadToRay a =
     sbind (mul256 a wad_ray_ratio) (\<lambda>result.
     sbind (div256 result wad_ray_ratio) (\<lambda>back.
     sbind (require_that (back = a) ''MATH_MULTIPLICATION_OVERFLOW'') (\<lambda>_. Inr result)))"

section \<open>PercentageMath.sol\<close>

definition percentage_factor :: uint where "percentage_factor = 10 ^ 4"
definition half_percent :: uint where "half_percent = percentage_factor div 2"
definition one_percent :: uint where "one_percent = 10 ^ 2"
definition ten_percent :: uint where "ten_percent = 10 ^ 3"

definition percentMul :: "uint \<Rightarrow> uint \<Rightarrow> revert + uint" where
  "percentMul value percentage = fixed_mul percentage_factor half_percent value percentage"

definition percentDiv :: "uint \<Rightarrow> uint \<Rightarrow> revert + uint" where
  "percentDiv value percentage = fixed_div percentage_factor value percentage"

section \<open>Values\<close>

lemma units_pos [simp]: "0 < wad" "0 < ray" "0 < percentage_factor" "0 < wad_ray_ratio" "0 < uint256_max"
  by (simp_all add: wad_def ray_def percentage_factor_def wad_ray_ratio_def uint256_max_def)

lemma halves: "halfWad = wad div 2" "halfRay = ray div 2" "half_percent = percentage_factor div 2"
  by (simp_all add: halfWad_def halfRay_def half_percent_def)

lemma fixed_mul_value:
  assumes "0 < one" "half = one div 2" "half \<le> uint256_max"
  shows "fixed_mul one half a b =
     (if a = 0 \<or> b = 0 \<or> a * b + half \<le> uint256_max then Inr (round_div (a * b) one)
      else Inl (Require ''MATH_MULTIPLICATION_OVERFLOW''))"
proof (cases "a = 0 \<or> b = 0")
  case True
  with assms(1) show ?thesis by (auto simp: fixed_mul_def)
next
  case False
  then have iff: "a \<le> (uint256_max - half) div b \<longleftrightarrow> a * b + half \<le> uint256_max"
    using assms(3) by (auto simp: less_eq_div_iff_mult_less_eq)
  show ?thesis
  proof (cases "a * b + half \<le> uint256_max")
    case True
    with False iff assms show ?thesis by (simp add: fixed_mul_def fits256 round_div_def)
  next
    case over: False
    with False iff assms show ?thesis by (simp add: fixed_mul_def fits256)
  qed
qed

lemma fixed_div_value:
  assumes "0 < one" "b \<le> uint256_max"
  shows "fixed_div one a b =
     (if b = 0 then Inl (Require ''MATH_DIVISION_BY_ZERO'')
      else if a * one + b div 2 \<le> uint256_max then Inr (round_div (a * one) b)
      else Inl (Require ''MATH_MULTIPLICATION_OVERFLOW''))"
proof (cases "b = 0")
  case True
  then show ?thesis by (simp add: fixed_div_def)
next
  case False
  have half: "b div 2 \<le> uint256_max" using assms(2) by linarith
  then have iff: "a \<le> (uint256_max - b div 2) div one \<longleftrightarrow> a * one + b div 2 \<le> uint256_max"
    using assms(1) by (auto simp: less_eq_div_iff_mult_less_eq)
  show ?thesis
  proof (cases "a * one + b div 2 \<le> uint256_max")
    case True
    with False iff half assms show ?thesis by (simp add: fixed_div_def fits256 round_div_def)
  next
    case over: False
    with False iff half assms show ?thesis by (simp add: fixed_div_def fits256)
  qed
qed

lemma fixed_div_returns:
  assumes "0 < one"
  shows "fixed_div one a b = Inr r \<longleftrightarrow>
    b \<noteq> 0 \<and> b div 2 \<le> uint256_max \<and> a * one + b div 2 \<le> uint256_max \<and> r = round_div (a * one) b"
  using assms
  by (auto simp: fixed_div_def checked_simps less_eq_div_iff_mult_less_eq round_div_def)

lemma half_bounds: "halfWad \<le> uint256_max" "halfRay \<le> uint256_max" "half_percent \<le> uint256_max"
  by (simp_all add: halfWad_def halfRay_def half_percent_def wad_def ray_def percentage_factor_def uint256_max_def)

lemma rayMul_value:
  "rayMul a b = (if a = 0 \<or> b = 0 \<or> a * b + halfRay \<le> uint256_max then Inr (round_div (a * b) ray)
     else Inl (Require ''MATH_MULTIPLICATION_OVERFLOW''))"
  unfolding rayMul_def by (rule fixed_mul_value) (simp_all add: halves half_bounds [unfolded halves])

lemma wadMul_value:
  "wadMul a b = (if a = 0 \<or> b = 0 \<or> a * b + halfWad \<le> uint256_max then Inr (round_div (a * b) wad)
     else Inl (Require ''MATH_MULTIPLICATION_OVERFLOW''))"
  unfolding wadMul_def by (rule fixed_mul_value) (simp_all add: halves half_bounds [unfolded halves])

lemma percentMul_value:
  "percentMul a b = (if a = 0 \<or> b = 0 \<or> a * b + half_percent \<le> uint256_max then Inr (round_div (a * b) percentage_factor)
     else Inl (Require ''MATH_MULTIPLICATION_OVERFLOW''))"
  unfolding percentMul_def by (rule fixed_mul_value) (simp_all add: halves half_bounds [unfolded halves])

lemma rayDiv_value:
  "b \<le> uint256_max \<Longrightarrow> rayDiv a b =
     (if b = 0 then Inl (Require ''MATH_DIVISION_BY_ZERO'')
      else if a * ray + b div 2 \<le> uint256_max then Inr (round_div (a * ray) b)
      else Inl (Require ''MATH_MULTIPLICATION_OVERFLOW''))"
  unfolding rayDiv_def by (rule fixed_div_value) simp_all

lemma wadDiv_value:
  "b \<le> uint256_max \<Longrightarrow> wadDiv a b =
     (if b = 0 then Inl (Require ''MATH_DIVISION_BY_ZERO'')
      else if a * wad + b div 2 \<le> uint256_max then Inr (round_div (a * wad) b)
      else Inl (Require ''MATH_MULTIPLICATION_OVERFLOW''))"
  unfolding wadDiv_def by (rule fixed_div_value) simp_all

lemma percentDiv_value:
  "b \<le> uint256_max \<Longrightarrow> percentDiv a b =
     (if b = 0 then Inl (Require ''MATH_DIVISION_BY_ZERO'')
      else if a * percentage_factor + b div 2 \<le> uint256_max then Inr (round_div (a * percentage_factor) b)
      else Inl (Require ''MATH_MULTIPLICATION_OVERFLOW''))"
  unfolding percentDiv_def by (rule fixed_div_value) simp_all

text \<open>What an operation that returns has computed\<close>

lemma rayMul_returns [checked_simps]:
  "rayMul a b = Inr r \<longleftrightarrow> (a = 0 \<or> b = 0 \<or> a * b + halfRay \<le> uint256_max) \<and> r = round_div (a * b) ray"
  by (auto simp: rayMul_value)

lemma percentMul_returns [checked_simps]:
  "percentMul a b = Inr r \<longleftrightarrow>
     (a = 0 \<or> b = 0 \<or> a * b + half_percent \<le> uint256_max) \<and> r = round_div (a * b) percentage_factor"
  by (auto simp: percentMul_value)

lemma rayDiv_returns [checked_simps]:
  "rayDiv a b = Inr r \<longleftrightarrow> b \<noteq> 0 \<and> b div 2 \<le> uint256_max \<and> a * ray + b div 2 \<le> uint256_max \<and> r = round_div (a * ray) b"
  unfolding rayDiv_def by (rule fixed_div_returns) simp

lemma wadDiv_returns [checked_simps]:
  "wadDiv a b = Inr r \<longleftrightarrow> b \<noteq> 0 \<and> b div 2 \<le> uint256_max \<and> a * wad + b div 2 \<le> uint256_max \<and> r = round_div (a * wad) b"
  unfolding wadDiv_def by (rule fixed_div_returns) simp

lemma percentDiv_returns [checked_simps]:
  "percentDiv a b = Inr r \<longleftrightarrow>
     b \<noteq> 0 \<and> b div 2 \<le> uint256_max \<and> a * percentage_factor + b div 2 \<le> uint256_max \<and>
     r = round_div (a * percentage_factor) b"
  unfolding percentDiv_def by (rule fixed_div_returns) simp

lemma wadToRay_value:
  "wadToRay a = (if a * wad_ray_ratio \<le> uint256_max then Inr (a * wad_ray_ratio) else Inl (Panic 17))"
  by (simp add: wadToRay_def mul256_def fits256)

lemma wadToRay_returns [checked_simps]:
  "wadToRay a = Inr r \<longleftrightarrow> a * wad_ray_ratio \<le> uint256_max \<and> r = a * wad_ray_ratio"
  by (auto simp: wadToRay_value)

lemma rayToWad_value:
  "rayToWad a = (if a + wad_ray_ratio div 2 \<le> uint256_max then Inr (round_div a wad_ray_ratio) else Inl (Panic 17))"
  by (simp add: rayToWad_def add256_def fits256 round_div_def add.commute)

end
