(* ===== verification/InterestRate.thy ===== *)
theory InterestRate
  imports WadRay
begin

text \<open>
  \<open>contracts/libraries/math/MathUtils.sol\<close>, the interest accumulated over a time at a yearly rate, and
  \<open>contracts/protocol/InterestRate.sol\<close>, the rates of a reserve from its utilization: two slopes, one up to the
  optimal utilization and one beyond it. The lemmas bound what the libraries return: an accumulation factor is
  at least one, the borrow rate lies between the base rate and the advertised maximum, the liquidity rate is
  at most the borrow rate; and the rates of a reserve of any realistic size are computed without a revert.
\<close>

section \<open>MathUtils.sol\<close>

definition SECONDS_PER_YEAR :: uint where "SECONDS_PER_YEAR = 365 * 24 * 60 * 60"

definition calculateLinearInterest :: "uint \<Rightarrow> uint \<Rightarrow> uint \<Rightarrow> revert + uint" where
  "calculateLinearInterest rate lastUpdateTimestamp block_timestamp =
     sbind (sub256 block_timestamp lastUpdateTimestamp) (\<lambda>timeDifference.
     sbind (mul256 rate timeDifference) (\<lambda>p.
     sbind (div256 p SECONDS_PER_YEAR) (\<lambda>q. add256 q ray)))"

definition calculateCompoundedInterest :: "uint \<Rightarrow> uint \<Rightarrow> uint \<Rightarrow> revert + uint" where
  "calculateCompoundedInterest rate lastUpdateTimestamp currentTimestamp =
     sbind (sub256 currentTimestamp lastUpdateTimestamp) (\<lambda>exp.
     if exp = 0 then Inr ray else
     sbind (sub256 exp 1) (\<lambda>expMinusOne.
     sbind (if 2 < exp then sub256 exp 2 else Inr 0) (\<lambda>expMinusTwo.
     sbind (div256 rate SECONDS_PER_YEAR) (\<lambda>ratePerSecond.
     sbind (rayMul ratePerSecond ratePerSecond) (\<lambda>basePowerTwo.
     sbind (rayMul basePowerTwo ratePerSecond) (\<lambda>basePowerThree.
     sbind (mul256 exp expMinusOne) (\<lambda>n2.
     sbind (mul256 n2 basePowerTwo) (\<lambda>p2.
     sbind (div256 p2 2) (\<lambda>secondTerm.
     sbind (mul256 n2 expMinusTwo) (\<lambda>n3.
     sbind (mul256 n3 basePowerThree) (\<lambda>p3.
     sbind (div256 p3 6) (\<lambda>thirdTerm.
     sbind (mul256 ratePerSecond exp) (\<lambda>firstTerm.
     sbind (add256 ray firstTerm) (\<lambda>s1.
     sbind (add256 s1 secondTerm) (\<lambda>s2. add256 s2 thirdTerm)))))))))))))))"

text \<open>What they return\<close>

definition linear_factor :: "uint \<Rightarrow> uint \<Rightarrow> uint" where
  "linear_factor rate t = ray + rate * t div SECONDS_PER_YEAR"

definition compound_factor :: "uint \<Rightarrow> uint \<Rightarrow> uint" where
  "compound_factor rate t =
     (let r = rate div SECONDS_PER_YEAR; r2 = round_div (r * r) ray; r3 = round_div (r2 * r) ray
      in ray + r * t + t * (t - 1) * r2 div 2 + t * (t - 1) * (t - 2) * r3 div 6)"

lemma seconds_pos [simp]: "0 < SECONDS_PER_YEAR"
  by (simp add: SECONDS_PER_YEAR_def)

lemma linear_returns [checked_simps]:
  "calculateLinearInterest rate since now = Inr f \<longleftrightarrow>
     since \<le> now \<and> rate * (now - since) \<le> uint256_max \<and> linear_factor rate (now - since) \<le> uint256_max \<and>
     f = linear_factor rate (now - since)"
  by (auto simp: calculateLinearInterest_def checked_simps linear_factor_def add.commute)

lemma compounded_value:
  assumes "calculateCompoundedInterest rate since now = Inr f"
  shows "since \<le> now" and "f = compound_factor rate (now - since)"
proof -
  from assms show "since \<le> now"
    by (auto simp: calculateCompoundedInterest_def checked_simps)
  let ?t = "now - since"
  consider "?t = 0" | "?t = 1 \<or> ?t = 2" | "2 < ?t" by linarith
  then show "f = compound_factor rate ?t"
  proof cases
    case 1
    with assms show ?thesis
      by (auto simp: calculateCompoundedInterest_def checked_simps compound_factor_def Let_def)
  next
    case 2
    then have "(if 2 < ?t then sub256 ?t 2 else Inr 0) = Inr 0" "?t \<noteq> 0" "?t - 2 = 0" by auto
    with assms show ?thesis
      unfolding calculateCompoundedInterest_def compound_factor_def Let_def
      by (auto simp: checked_simps)
  next
    case 3
    then have "?t \<noteq> 0" by simp
    with 3 assms show ?thesis
      unfolding calculateCompoundedInterest_def compound_factor_def Let_def
      by (auto simp: checked_simps)
  qed
qed

lemma linear_ge: "ray \<le> linear_factor rate t"
  by (simp add: linear_factor_def)

lemma linear_mono: "t \<le> t' \<Longrightarrow> linear_factor rate t \<le> linear_factor rate t'"
  by (simp add: linear_factor_def div_le_mono)

lemma compound_ge_simple: "ray + rate div SECONDS_PER_YEAR * t \<le> compound_factor rate t"
  by (simp add: compound_factor_def Let_def)

lemma compound_ge: "ray \<le> compound_factor rate t"
  using compound_ge_simple [of rate t] by linarith

lemma compound_mono: "t \<le> t' \<Longrightarrow> compound_factor rate t \<le> compound_factor rate t'"
  unfolding compound_factor_def Let_def
  by (intro add_mono div_le_mono mult_le_mono) auto

lemma compound_0 [simp]: "compound_factor rate 0 = ray" and linear_0 [simp]: "linear_factor rate 0 = ray"
  by (simp_all add: compound_factor_def linear_factor_def Let_def)

text \<open>The second and third order terms are what a borrower pays more than simple interest.\<close>

lemma compound_covers_linear:
  "linear_factor rate t \<le> compound_factor rate t + t"
proof -
  have "rate * t div SECONDS_PER_YEAR \<le> rate div SECONDS_PER_YEAR * t + t"
  proof -
    let ?y = SECONDS_PER_YEAR
    have "rate \<le> (rate div ?y + 1) * ?y"
      unfolding add_mult_distrib
      using div_mult_mod_eq [of rate ?y] mod_less_divisor [OF seconds_pos, of rate] by linarith
    then have "rate * t \<le> (rate div ?y * t + t) * ?y"
      using mult_le_mono1 [of rate "(rate div ?y + 1) * ?y" t] by (simp add: algebra_simps)
    then have "rate * t div ?y \<le> (rate div ?y * t + t) * ?y div ?y" by (rule div_le_mono)
    then show ?thesis by (simp only: div_mult_self_is_m [OF seconds_pos])
  qed
  with compound_ge_simple [of rate t] show ?thesis by (simp add: linear_factor_def)
qed

section \<open>InterestRate.sol\<close>

record rate_strategy =
  optimal_utilization :: uint
  excess_utilization :: uint
  base_rate :: uint
  slope1 :: uint
  slope2 :: uint

text \<open>The constructor, and \<open>setInterestRateParams\<close> of the owner\<close>

definition new_rate_strategy :: "uint \<Rightarrow> uint \<Rightarrow> uint \<Rightarrow> uint \<Rightarrow> revert + rate_strategy" where
  "new_rate_strategy optimal base s1 s2 =
     sbind (sub256 ray optimal) (\<lambda>excess.
     Inr \<lparr>optimal_utilization = optimal, excess_utilization = excess, base_rate = base, slope1 = s1, slope2 = s2\<rparr>)"

definition getMaxVariableBorrowRate :: "rate_strategy \<Rightarrow> revert + uint" where
  "getMaxVariableBorrowRate r = sbind (add256 (base_rate r) (slope1 r)) (\<lambda>s. add256 s (slope2 r))"

definition overall_borrow_rate :: "uint \<Rightarrow> uint \<Rightarrow> revert + uint" where
  "overall_borrow_rate totalVariableDebt currentVariableBorrowRate =
     (if totalVariableDebt = 0 then Inr 0 else
      sbind (wadToRay totalVariableDebt) (\<lambda>debt.
      sbind (rayMul debt currentVariableBorrowRate) (\<lambda>weightedVariableRate.
      rayDiv weightedVariableRate debt)))"

definition variable_borrow_rate :: "rate_strategy \<Rightarrow> uint \<Rightarrow> revert + uint" where
  "variable_borrow_rate r utilizationRate =
     (if optimal_utilization r < utilizationRate then
        sbind (sub256 utilizationRate (optimal_utilization r)) (\<lambda>over.
        sbind (rayDiv over (excess_utilization r)) (\<lambda>ratio.
        sbind (add256 (base_rate r) (slope1 r)) (\<lambda>b.
        sbind (rayMul (slope2 r) ratio) (\<lambda>m. add256 b m))))
      else
        sbind (rayMul utilizationRate (slope1 r)) (\<lambda>m.
        sbind (rayDiv m (optimal_utilization r)) (\<lambda>d. add256 (base_rate r) d)))"

definition utilization :: "uint \<Rightarrow> uint \<Rightarrow> revert + uint" where
  "utilization availableLiquidity totalDebt =
     (if totalDebt = 0 then Inr 0 else
      sbind (add256 availableLiquidity totalDebt) (\<lambda>total. rayDiv totalDebt total))"

definition calculateInterestRates :: "rate_strategy \<Rightarrow> uint \<Rightarrow> uint \<Rightarrow> uint \<Rightarrow> revert + (uint \<times> uint)" where
  "calculateInterestRates r availableLiquidity totalVariableDebt reserveFactor =
     sbind (utilization availableLiquidity totalVariableDebt) (\<lambda>utilizationRate.
     sbind (variable_borrow_rate r utilizationRate) (\<lambda>currentVariableBorrowRate.
     sbind (overall_borrow_rate totalVariableDebt currentVariableBorrowRate) (\<lambda>overall.
     sbind (rayMul overall utilizationRate) (\<lambda>used.
     sbind (sub256 percentage_factor reserveFactor) (\<lambda>share.
     sbind (percentMul used share) (\<lambda>currentLiquidityRate.
     Inr (currentLiquidityRate, currentVariableBorrowRate)))))))"

text \<open>The entry that the pool calls: \<open>balance\<close> is \<open>IERC20(reserve).balanceOf(bToken)\<close>.\<close>

definition calculateInterestRatesFor :: "rate_strategy \<Rightarrow> uint \<Rightarrow> uint \<Rightarrow> uint \<Rightarrow> uint \<Rightarrow> uint \<Rightarrow> revert + (uint \<times> uint)" where
  "calculateInterestRatesFor r balance liquidityAdded liquidityTaken totalVariableDebt reserveFactor =
     sbind (add256 balance liquidityAdded) (\<lambda>s.
     sbind (sub256 s liquidityTaken) (\<lambda>availableLiquidity.
     calculateInterestRates r availableLiquidity totalVariableDebt reserveFactor))"

section \<open>Bounds of the rates\<close>

lemma utilization_le_ray:
  "utilization avail debt = Inr u \<Longrightarrow> u \<le> ray"
  by (auto simp: utilization_def checked_simps split: if_splits intro!: round_div_le)

lemma variable_rate_low:
  assumes "variable_borrow_rate r u = Inr b" "u \<le> optimal_utilization r"
  shows "base_rate r \<le> b" and "b \<le> base_rate r + slope1 r + ray div optimal_utilization r"
proof -
  let ?o = "optimal_utilization r" and ?m = "round_div (u * slope1 r) ray"
  from assms have o: "0 < ?o" and b: "b = base_rate r + round_div (?m * ray) ?o"
    by (auto simp: variable_borrow_rate_def checked_simps)
  show "base_rate r \<le> b" by (simp add: b)
  have "?m * ray \<le> u * slope1 r + ray div 2" by (rule round_div_bounds) simp
  also have "\<dots> \<le> ?o * slope1 r + ray div 2" using assms(2) by simp
  finally have "?m * ray + ?o div 2 \<le> slope1 r * ?o + (ray div 2 + ?o div 2)" by (simp add: mult.commute)
  then have "(?m * ray + ?o div 2) div ?o \<le> (slope1 r * ?o + (ray div 2 + ?o div 2)) div ?o"
    by (rule div_le_mono)
  also have "\<dots> = slope1 r + (ray div 2 + ?o div 2) div ?o" using o by simp
  also have "(ray div 2 + ?o div 2) div ?o \<le> ray div ?o"
  proof (cases "?o \<le> ray")
    case True
    then have "ray div 2 + ?o div 2 \<le> ray" by linarith
    then show ?thesis by (rule div_le_mono)
  next
    case False
    then have "ray div 2 + ?o div 2 < ?o" by linarith
    then show ?thesis by simp
  qed
  finally show "b \<le> base_rate r + slope1 r + ray div ?o" by (simp add: b round_div_def)
qed

lemma variable_rate_high:
  assumes "variable_borrow_rate r u = Inr b" "optimal_utilization r < u" "u \<le> ray"
    and "excess_utilization r = ray - optimal_utilization r"
  shows "base_rate r + slope1 r \<le> b" and "b \<le> base_rate r + slope1 r + slope2 r"
proof -
  let ?e = "excess_utilization r" and ?x = "u - optimal_utilization r"
  from assms have e: "0 < ?e" and b: "b = base_rate r + slope1 r + round_div (slope2 r * round_div (?x * ray) ?e) ray"
    by (auto simp: variable_borrow_rate_def checked_simps)
  show "base_rate r + slope1 r \<le> b" by (simp add: b)
  have "?x * ray \<le> ray * ?e" using assms by simp
  with e have "round_div (?x * ray) ?e \<le> ray" by (intro round_div_le)
  then have "round_div (slope2 r * round_div (?x * ray) ?e) ray \<le> slope2 r"
    by (intro round_div_le) simp_all
  with b show "b \<le> base_rate r + slope1 r + slope2 r" by simp
qed

text \<open>
  The weighted average of a single debt is its own rate: exactly so from one whole unit of a token of 18
  decimals on. Below that the detour over rays loses digits.
\<close>

lemma overall_rate_exact:
  assumes "overall_borrow_rate debt b = Inr o1" "wad \<le> debt"
  shows "o1 = b"
proof -
  from assms(2) have pos: "debt \<noteq> 0" using units_pos(1) by linarith
  have "ray \<le> debt * wad_ray_ratio"
    using mult_le_mono1 [OF assms(2), of wad_ray_ratio] by (simp add: wad_def ray_def wad_ray_ratio_def)
  with assms(1) pos show ?thesis
    using round_div_roundtrip [of ray "debt * wad_ray_ratio" b]
    by (auto simp: overall_borrow_rate_def checked_simps mult.commute)
qed

lemma rates_returns:
  assumes "calculateInterestRates r avail debt rf = Inr (lr, br)"
  obtains u o1 where "utilization avail debt = Inr u" "variable_borrow_rate r u = Inr br"
    "overall_borrow_rate debt br = Inr o1" "rf \<le> percentage_factor"
    "lr = round_div (round_div (o1 * u) ray * (percentage_factor - rf)) percentage_factor"
  using assms by (auto simp: calculateInterestRates_def checked_simps)

text \<open>A strategy as the constructor makes it, whose second slope is not negligible\<close>

definition valid_strategy :: "rate_strategy \<Rightarrow> bool" where
  "valid_strategy r \<longleftrightarrow> 0 < optimal_utilization r \<and> optimal_utilization r \<le> ray \<and>
     excess_utilization r = ray - optimal_utilization r \<and> ray div optimal_utilization r \<le> slope2 r"

lemma borrow_rate_bounds:
  assumes "valid_strategy r" "calculateInterestRates r avail debt rf = Inr (lr, br)"
  shows "base_rate r \<le> br" and "br \<le> base_rate r + slope1 r + slope2 r"
proof -
  from assms(2) obtain u where u: "utilization avail debt = Inr u" "variable_borrow_rate r u = Inr br"
    by (rule rates_returns)
  note * = variable_rate_low [OF u(2)] variable_rate_high [OF u(2) _ utilization_le_ray [OF u(1)]]
  show "base_rate r \<le> br" "br \<le> base_rate r + slope1 r + slope2 r"
    using * assms(1) by (cases "optimal_utilization r < u"; force simp: valid_strategy_def)+
qed

lemma liquidity_rate_le:
  assumes "calculateInterestRates r avail debt rf = Inr (lr, br)" "wad \<le> debt \<or> debt = 0"
  shows "lr \<le> br"
proof -
  from assms(1) obtain u o1 where u: "utilization avail debt = Inr u" and o1: "overall_borrow_rate debt br = Inr o1"
    and rf: "rf \<le> percentage_factor"
    and lr: "lr = round_div (round_div (o1 * u) ray * (percentage_factor - rf)) percentage_factor"
    by (rule rates_returns)
  have "o1 \<le> br" using assms(2)
  proof
    assume "wad \<le> debt" then show ?thesis using overall_rate_exact [OF o1] by simp
  next
    assume "debt = 0" then show ?thesis using o1 by (simp add: overall_borrow_rate_def)
  qed
  have "o1 * u \<le> o1 * ray" using utilization_le_ray [OF u] by simp
  then have "round_div (o1 * u) ray \<le> o1" by (intro round_div_le) auto
  moreover have "round_div (round_div (o1 * u) ray * (percentage_factor - rf)) percentage_factor \<le> round_div (o1 * u) ray"
    by (intro round_div_le) auto
  ultimately show ?thesis using \<open>o1 \<le> br\<close> lr by linarith
qed

section \<open>The rates of a reserve of realistic size\<close>

text \<open>
  Amounts up to \<open>2 ^ 112\<close> and rates up to \<open>2 ^ 94\<close> (nearly 20 times 100 percent) leave room in 256 bits:
  the computation never reverts.
\<close>

lemma prod_fits: "a \<le> A \<Longrightarrow> b \<le> B \<Longrightarrow> A * B + c \<le> uint256_max \<Longrightarrow> a * b + c \<le> uint256_max"
  by (meson add_le_mono1 le_trans mult_le_mono)

lemma ray_bound: "ray \<le> 2 ^ 90"
  by (simp add: ray_def)

lemma utilization_computed:
  assumes "avail \<le> 2 ^ 112" "debt \<le> 2 ^ 112"
  shows "\<exists>u. utilization avail debt = Inr u"
proof (cases "debt = 0")
  case True
  then show ?thesis by (simp add: utilization_def)
next
  case False
  have total: "avail + debt \<le> 2 ^ 113" using assms by simp
  have "debt * ray + 2 ^ 113 \<le> uint256_max"
    by (rule prod_fits [OF assms(2) ray_bound]) (simp add: uint256_max_def)
  with total have "debt * ray + (avail + debt) div 2 \<le> uint256_max" by linarith
  moreover have "avail + debt \<le> uint256_max" using total by (simp add: uint256_max_def)
  ultimately show ?thesis using False by (simp add: utilization_def fits256 rayDiv_value)
qed

lemma variable_rate_computed:
  assumes r: "valid_strategy r" and u: "u \<le> ray"
    and b: "base_rate r \<le> 2 ^ 94" "slope1 r \<le> 2 ^ 94" "slope2 r \<le> 2 ^ 94"
  shows "\<exists>br. variable_borrow_rate r u = Inr br"
proof (cases "optimal_utilization r < u")
  case True
  let ?e = "excess_utilization r" and ?x = "u - optimal_utilization r"
  let ?q = "round_div (?x * ray) ?e"
  from r True u have e: "0 < ?e" "?e \<le> ray" "?x \<le> ?e" by (auto simp: valid_strategy_def)
  have "?x * ray + ray \<le> uint256_max"
    by (rule prod_fits [of _ "2 ^ 90" _ "2 ^ 90"]) (use e ray_bound in \<open>auto simp: uint256_max_def ray_def\<close>)
  with e have q: "rayDiv ?x ?e = Inr ?q" by (auto simp: rayDiv_returns)
  have "?q \<le> ray" using e by (intro round_div_le) (auto simp: mult.commute)
  have fits: "slope2 r * ?q + halfRay \<le> uint256_max"
    by (rule prod_fits [of _ "2 ^ 94" _ "2 ^ 90"]) (use \<open>?q \<le> ray\<close> b ray_bound in \<open>auto simp: uint256_max_def halfRay_def ray_def\<close>)
  have "round_div (slope2 r * ?q) ray \<le> slope2 r"
    using \<open>?q \<le> ray\<close> by (intro round_div_le) auto
  with b have "base_rate r + slope1 r + round_div (slope2 r * ?q) ray \<le> uint256_max"
    "base_rate r + slope1 r \<le> uint256_max" by (auto simp: uint256_max_def)
  with True q fits show ?thesis
    by (simp add: variable_borrow_rate_def fits256 rayMul_value)
next
  case False
  let ?o = "optimal_utilization r"
  let ?m = "round_div (u * slope1 r) ray"
  from r have o: "0 < ?o" "?o \<le> ray" by (auto simp: valid_strategy_def)
  have fits: "u * slope1 r + halfRay \<le> uint256_max"
    by (rule prod_fits [of _ "2 ^ 90" _ "2 ^ 94"]) (use u b ray_bound in \<open>auto simp: uint256_max_def halfRay_def ray_def\<close>)
  have m: "?m \<le> 2 ^ 94"
    using mult_le_mono [OF u b(2)] by (intro round_div_le) (simp_all add: mult.commute)
  have "?m * ray + ray \<le> uint256_max"
    by (rule prod_fits [of _ "2 ^ 94" _ "2 ^ 90"]) (use m ray_bound in \<open>auto simp: uint256_max_def ray_def\<close>)
  with o have d: "rayDiv ?m ?o = Inr (round_div (?m * ray) ?o)" by (auto simp: rayDiv_returns)
  have "?m * ray + ?o div 2 \<le> 2 ^ 94 * 2 ^ 90 + 2 ^ 90"
    using mult_le_mono [OF m ray_bound] o ray_bound by linarith
  moreover have "round_div (?m * ray) ?o \<le> ?m * ray + ?o div 2"
    unfolding round_div_def by (rule div_le_dividend)
  ultimately have "base_rate r + round_div (?m * ray) ?o \<le> 2 ^ 94 + (2 ^ 94 * 2 ^ 90 + 2 ^ 90)"
    using b(1) by linarith
  then have "base_rate r + round_div (?m * ray) ?o \<le> uint256_max"
    by (rule order_trans) (simp add: uint256_max_def)
  with False fits d show ?thesis
    by (simp add: variable_borrow_rate_def fits256 rayMul_value)
qed

lemma overall_rate_computed:
  assumes "debt \<le> 2 ^ 112" "br \<le> 2 ^ 96"
  obtains o1 where "overall_borrow_rate debt br = Inr o1" "o1 \<le> 2 ^ 97"
proof (cases "debt = 0")
  case True
  then show ?thesis using that by (simp add: overall_borrow_rate_def)
next
  case False
  let ?x = "debt * wad_ray_ratio" and ?w = "round_div (debt * wad_ray_ratio * br) ray"
  have x: "?x \<le> 2 ^ 142" "0 < ?x"
    using mult_le_mono [OF assms(1), of wad_ray_ratio "2 ^ 30"] False by (auto simp: wad_ray_ratio_def)
  have fits: "?x * br + halfRay \<le> uint256_max"
    by (rule prod_fits [OF x(1) assms(2)]) (simp add: uint256_max_def halfRay_def ray_def)
  have w: "?w * ray \<le> ?x * br + ray div 2" by (rule round_div_bounds) simp
  have xb: "?x * br \<le> 2 ^ 142 * 2 ^ 96" by (rule mult_le_mono [OF x(1) assms(2)])
  have "?w * ray + ?x \<le> uint256_max"
    using w xb x(1) by (simp add: uint256_max_def ray_def)
  then have "?x \<le> uint256_max" "?x div 2 \<le> uint256_max" "?w * ray + ?x div 2 \<le> uint256_max" by linarith+
  with fits x(2) have o1: "overall_borrow_rate debt br = Inr (round_div (?w * ray) ?x)"
    using False x(1)
    by (simp add: overall_borrow_rate_def wadToRay_value rayMul_value rayDiv_returns)
  have "ray div 2 \<le> 2 ^ 96 * ?x"
  proof -
    have "wad_ray_ratio \<le> ?x" using False by simp
    then have "2 ^ 96 * wad_ray_ratio \<le> 2 ^ 96 * ?x" by (rule mult_le_mono2)
    moreover have "ray div 2 \<le> 2 ^ 96 * wad_ray_ratio" by (simp add: ray_def wad_ray_ratio_def)
    ultimately show ?thesis by (rule order_trans [rotated])
  qed
  moreover have "?x * br \<le> 2 ^ 96 * ?x" using mult_le_mono2 [OF assms(2), of ?x] by (simp only: mult.commute)
  moreover have "2 ^ 97 * ?x = 2 ^ 96 * ?x + 2 ^ 96 * ?x" by simp
  ultimately have "?w * ray \<le> 2 ^ 97 * ?x" using w by linarith
  then have "round_div (?w * ray) ?x \<le> 2 ^ 97" using x(2) by (rule round_div_le [rotated])
  with o1 that show ?thesis by blast
qed

lemma rates_computed:
  assumes r: "valid_strategy r" and b: "base_rate r \<le> 2 ^ 94" "slope1 r \<le> 2 ^ 94" "slope2 r \<le> 2 ^ 94"
    and v: "avail \<le> 2 ^ 112" "debt \<le> 2 ^ 112" "rf \<le> percentage_factor"
  obtains lr br where "calculateInterestRates r avail debt rf = Inr (lr, br)"
proof -
  from utilization_computed [OF v(1,2)] obtain u where u: "utilization avail debt = Inr u" ..
  note ur = utilization_le_ray [OF u]
  from variable_rate_computed [OF r ur b] obtain br where br: "variable_borrow_rate r u = Inr br" ..
  have "br \<le> base_rate r + slope1 r + slope2 r"
    using variable_rate_low [OF br] variable_rate_high [OF br _ ur] r
    by (cases "optimal_utilization r < u") (force simp: valid_strategy_def)+
  with b have "br \<le> 2 ^ 96" by simp
  then obtain o1 where o1: "overall_borrow_rate debt br = Inr o1" "o1 \<le> 2 ^ 97"
    using overall_rate_computed [OF v(2)] by blast
  let ?m = "round_div (o1 * u) ray"
  have fits: "o1 * u + halfRay \<le> uint256_max"
    by (rule prod_fits [OF o1(2), of _ "2 ^ 90"]) (use ur ray_bound in \<open>auto simp: uint256_max_def halfRay_def ray_def\<close>)
  have "?m \<le> o1" using ur by (intro round_div_le) auto
  have "?m * (percentage_factor - rf) + half_percent \<le> uint256_max"
    by (rule prod_fits [of _ "2 ^ 97" _ percentage_factor])
      (use \<open>?m \<le> o1\<close> o1(2) in \<open>auto simp: uint256_max_def half_percent_def percentage_factor_def\<close>)
  with u br o1 fits v(3) show ?thesis
    using that by (simp add: calculateInterestRates_def rayMul_value percentMul_value fits256)
qed

end
