(* ===== verification/ReserveConfiguration.thy ===== *)
theory ReserveConfiguration
  imports NftConfiguration
begin

text \<open>
  The configuration word of a reserve, \<open>contracts/libraries/configuration/ReserveConfiguration.sol\<close>: what the
  pool reads of it (decimals, the four flags, the reserve factor) and what the configurator writes. The layout
  is that of \<open>NftConfiguration\<close>, whose field lemmas show that each parameter reads back and leaves the others.
\<close>

unbundle bit_operations_syntax

definition DECIMALS_MASK :: u256 where
  "DECIMALS_MASK = 0xFFFFFFFFFFFFFFFFFFFFFFFFFFFFFFFFFFFFFFFFFFFFFFFFFF00FFFFFFFFFFFF"

definition BORROWING_MASK :: u256 where
  "BORROWING_MASK = 0xFFFFFFFFFFFFFFFFFFFFFFFFFFFFFFFFFFFFFFFFFFFFFFFFFBFFFFFFFFFFFFFF"

definition STABLE_BORROWING_MASK :: u256 where
  "STABLE_BORROWING_MASK = 0xFFFFFFFFFFFFFFFFFFFFFFFFFFFFFFFFFFFFFFFFFFFFFFFFF7FFFFFFFFFFFFFF"

definition RESERVE_FACTOR_MASK :: u256 where
  "RESERVE_FACTOR_MASK = 0xFFFFFFFFFFFFFFFFFFFFFFFFFFFFFFFFFFFFFFFFFFFF0000FFFFFFFFFFFFFFFF"

definition setDecimals :: "u256 \<Rightarrow> u256 \<Rightarrow> string + u256" where
  "setDecimals = set_field DECIMALS_MASK 48 255 ''RC_INVALID_DECIMALS''"

definition getDecimals :: "u256 \<Rightarrow> u256" where "getDecimals = get_field DECIMALS_MASK 48"

definition setBorrowingEnabled :: "bool \<Rightarrow> u256 \<Rightarrow> u256" where
  "setBorrowingEnabled enabled data = (data AND BORROWING_MASK) OR push_bit 58 (if enabled then 1 else 0)"

definition getBorrowingEnabled :: "u256 \<Rightarrow> bool" where
  "getBorrowingEnabled data = (data AND NOT BORROWING_MASK \<noteq> 0)"

definition setStableRateBorrowingEnabled :: "bool \<Rightarrow> u256 \<Rightarrow> u256" where
  "setStableRateBorrowingEnabled enabled data = (data AND STABLE_BORROWING_MASK) OR push_bit 59 (if enabled then 1 else 0)"

definition getStableRateBorrowingEnabled :: "u256 \<Rightarrow> bool" where
  "getStableRateBorrowingEnabled data = (data AND NOT STABLE_BORROWING_MASK \<noteq> 0)"

definition setReserveFactor :: "u256 \<Rightarrow> u256 \<Rightarrow> string + u256" where
  "setReserveFactor = set_field RESERVE_FACTOR_MASK 64 65535 ''RC_INVALID_RESERVE_FACTOR''"

definition getReserveFactor :: "u256 \<Rightarrow> u256" where "getReserveFactor = get_field RESERVE_FACTOR_MASK 64"

definition getFlags :: "u256 \<Rightarrow> bool \<times> bool \<times> bool \<times> bool" where
  "getFlags data = (data AND NOT ACTIVE_MASK \<noteq> 0, data AND NOT FROZEN_MASK \<noteq> 0,
     data AND NOT BORROWING_MASK \<noteq> 0, data AND NOT STABLE_BORROWING_MASK \<noteq> 0)"

lemma reserve_field_masks:
  "DECIMALS_MASK = field_mask 48 8" "BORROWING_MASK = field_mask 58 1"
  "STABLE_BORROWING_MASK = field_mask 59 1" "RESERVE_FACTOR_MASK = field_mask 64 16"
  by (simp_all add: DECIMALS_MASK_def BORROWING_MASK_def STABLE_BORROWING_MASK_def RESERVE_FACTOR_MASK_def
      field_mask_def mask_eq_exp_minus_1 push_bit_eq_mult not_eq_complement)

text \<open>
  The flags as the pool reads them are those of the single getters, a reserve factor reads back, and setting
  it leaves the decimals and the flags as they were.
\<close>

lemma getFlags_are_getters:
  "getFlags data = (getActive data, getFrozen data, getBorrowingEnabled data, getStableRateBorrowingEnabled data)"
  by (simp add: getFlags_def getActive_def getFrozen_def getBorrowingEnabled_def getStableRateBorrowingEnabled_def)

lemma setReserveFactor_reads_back:
  assumes "setReserveFactor v data = Inr data'"
  shows "getReserveFactor data' = v" "getDecimals data' = getDecimals data" "getFlags data' = getFlags data"
proof -
  from assms have v: "v \<le> 65535" and d: "data' = put_field 64 16 v data"
    by (auto simp: setReserveFactor_def set_field_def reserve_field_masks put_field_def split: if_splits)
  have fit: "unat v < 2 ^ 16" using v by (rule fits)
  note facts = d reserve_field_masks field_masks get_put_same get_put_other keep_put_other apart_def fit [simplified]
  show "getReserveFactor data' = v" by (simp add: getReserveFactor_def facts)
  show "getDecimals data' = getDecimals data" by (simp add: getDecimals_def facts)
  show "getFlags data' = getFlags data" by (simp add: getFlags_def facts)
qed

lemma setDecimals_reads_back:
  assumes "setDecimals v data = Inr data'"
  shows "getDecimals data' = v" "getReserveFactor data' = getReserveFactor data" "getFlags data' = getFlags data"
proof -
  from assms have v: "v \<le> 255" and d: "data' = put_field 48 8 v data"
    by (auto simp: setDecimals_def set_field_def reserve_field_masks put_field_def split: if_splits)
  have fit: "unat v < 2 ^ 8" using v by (rule fits)
  note facts = d reserve_field_masks field_masks get_put_same get_put_other keep_put_other apart_def fit [simplified]
  show "getDecimals data' = v" by (simp add: getDecimals_def facts)
  show "getReserveFactor data' = getReserveFactor data" by (simp add: getReserveFactor_def facts)
  show "getFlags data' = getFlags data" by (simp add: getFlags_def facts)
qed

end
