(* ===== verification/PoolState.thy ===== *)
theory PoolState
  imports InterestRate ReserveConfiguration
begin

text \<open>
  The state of the lending pool (\<open>contracts/protocol/LendPoolStorage.sol\<close>, \<open>LendPoolLoan.sol\<close> and the
  structures of \<open>contracts/libraries/types/DataTypes.sol\<close>), the contracts outside the repository that it calls,
  and the computations on both: a call reads and changes the state, or reverts, which undoes all of it. An
  account is the number of its address, 0 the zero address. Events are not modelled.
\<close>

type_synonym acct = nat

datatype LoanState = L_None | L_Created | L_Active | L_Auction | L_Repaid | L_Defaulted

record reserve_data =
  r_configuration :: u256
  liquidityIndex :: uint
  variableBorrowIndex :: uint
  currentLiquidityRate :: uint
  currentVariableBorrowRate :: uint
  lastUpdateTimestamp :: uint
  bTokenAddress :: acct
  debtTokenAddress :: acct
  interestRateAddress :: acct
  r_id :: uint
  maxUtilizationRate :: uint

record nft_data =
  n_configuration :: u256
  bNftAddress :: acct
  n_id :: uint
  nft_maxSupply :: uint
  nft_maxTokenId :: uint
  maxCollateralCap :: uint

record loan_data =
  loanId :: uint
  loan_state :: LoanState
  borrower :: acct
  nftAsset :: acct
  nftTokenId :: uint
  reserveAsset :: acct
  scaledAmount :: uint
  bidStartTimestamp :: uint
  bidderAddress :: acct
  bidPrice :: uint
  bidBorrowAmount :: uint
  firstBidderAddress :: acct

type_synonym interceptor_table = "acct \<Rightarrow> uint \<Rightarrow> acct list"

text \<open>
  The book of loans is the storage of \<open>LendPoolLoan\<close>; the pool holds its own storage, the book, and what its
  tokens and rate contracts store. \<open>external\<close> is the state of every other contract; what the code
  reads and changes of it are the functions of \<open>externals\<close>.
\<close>

record loan_book =
  loans :: "uint \<Rightarrow> loan_data"
  loanIdTracker :: uint
  nftToLoanIds :: "acct \<Rightarrow> uint \<Rightarrow> uint"
  nftTotalCollateral :: "acct \<Rightarrow> uint"
  userNftCollateral :: "acct \<Rightarrow> acct \<Rightarrow> uint"
  loanRepaidInterceptors :: interceptor_table

record 'h pool =
  reserves :: "acct \<Rightarrow> reserve_data"
  nfts :: "acct \<Rightarrow> nft_data"
  reservesList :: "uint \<Rightarrow> acct"
  reservesCount :: uint
  nftsList :: "uint \<Rightarrow> acct"
  nftsCount :: uint
  maxNumberOfReserves :: uint
  maxNumberOfNfts :: uint
  is_paused :: bool
  pauseStartTime :: uint
  pauseDurationTime :: uint
  entered :: bool
  book :: loan_book
  borrowAllowances :: "acct \<Rightarrow> acct \<Rightarrow> acct \<Rightarrow> uint"
  rate_strategies :: "acct \<Rightarrow> rate_strategy"
  treasuries :: "acct \<Rightarrow> acct"
  external :: 'h

text \<open>
  The contracts outside the repository, and the addresses that the addresses provider answers:
  \<open>token_*\<close> are the functions of OpenZeppelin's \<open>ERC20Upgradeable\<close> at an address, on which the assets and the
  pool's own tokens rest; \<open>nft_*\<close> and \<open>bnft_*\<close> those of the NFT collections and of the bound NFTs;
  \<open>handle_action\<close> is the incentives controller, \<open>call_interceptor\<close> a loan-repaid interceptor (before or after),
  which may change the table of interceptors.
\<close>

record 'h externals =
  pool_addr :: acct
  loan_addr :: acct
  controller :: acct
  configurator :: acct
  is_contract :: "acct \<Rightarrow> 'h \<Rightarrow> bool"
  bnft_proxy :: "acct \<Rightarrow> acct"
  token_balance :: "acct \<Rightarrow> acct \<Rightarrow> 'h \<Rightarrow> uint"
  token_supply :: "acct \<Rightarrow> 'h \<Rightarrow> uint"
  token_mint :: "acct \<Rightarrow> acct \<Rightarrow> uint \<Rightarrow> 'h \<Rightarrow> revert + 'h"
  token_burn :: "acct \<Rightarrow> acct \<Rightarrow> uint \<Rightarrow> 'h \<Rightarrow> revert + 'h"
  token_transfer :: "acct \<Rightarrow> acct \<Rightarrow> acct \<Rightarrow> uint \<Rightarrow> 'h \<Rightarrow> revert + 'h"
  token_transfer_from :: "acct \<Rightarrow> acct \<Rightarrow> acct \<Rightarrow> acct \<Rightarrow> uint \<Rightarrow> 'h \<Rightarrow> revert + 'h"
  handle_action :: "acct \<Rightarrow> uint \<Rightarrow> uint \<Rightarrow> 'h \<Rightarrow> revert + 'h"
  nft_supply :: "acct \<Rightarrow> 'h \<Rightarrow> uint"
  nft_transfer :: "acct \<Rightarrow> acct \<Rightarrow> acct \<Rightarrow> acct \<Rightarrow> uint \<Rightarrow> 'h \<Rightarrow> revert + 'h"
  nft_approve :: "acct \<Rightarrow> acct \<Rightarrow> acct \<Rightarrow> 'h \<Rightarrow> revert + 'h"
  bnft_mint :: "acct \<Rightarrow> acct \<Rightarrow> uint \<Rightarrow> 'h \<Rightarrow> revert + 'h"
  bnft_burn :: "acct \<Rightarrow> uint \<Rightarrow> 'h \<Rightarrow> revert + 'h"
  bnft_lock :: "acct \<Rightarrow> uint \<Rightarrow> acct \<Rightarrow> bool \<Rightarrow> 'h \<Rightarrow> revert + 'h"
  call_interceptor :: "bool \<Rightarrow> acct \<Rightarrow> acct \<Rightarrow> uint \<Rightarrow> 'h \<times> interceptor_table \<Rightarrow> revert + (bool \<times> 'h \<times> interceptor_table)"

text \<open>What a block and the price oracles of the market say at the time of a transaction\<close>

record block_data =
  block_timestamp :: uint
  reserve_price :: "acct \<Rightarrow> revert + uint"
  nft_price :: "acct \<Rightarrow> revert + uint"
  price_stale :: "acct \<Rightarrow> bool"

section \<open>Calls\<close>

type_synonym ('h, 'a) call = "'h pool \<Rightarrow> revert + ('a \<times> 'h pool)"

named_theorems call_simps \<open>when a call returns, with what, and in which state\<close>

definition ret :: "'a \<Rightarrow> ('h, 'a) call" where "ret x s = Inr (x, s)"

definition cbind :: "('h, 'a) call \<Rightarrow> ('a \<Rightarrow> ('h, 'b) call) \<Rightarrow> ('h, 'b) call" where
  "cbind m f s = (case m s of Inl e \<Rightarrow> Inl e | Inr (x, s') \<Rightarrow> f x s')"

definition cthen :: "('h, 'a) call \<Rightarrow> ('h, 'b) call \<Rightarrow> ('h, 'b) call" where
  "cthen m n = cbind m (\<lambda>_. n)"

definition crequire :: "bool \<Rightarrow> string \<Rightarrow> ('h, unit) call" where
  "crequire c code s = (if c then Inr ((), s) else Inl (Require code))"

definition clift :: "revert + 'a \<Rightarrow> ('h, 'a) call" where
  "clift m s = (case m of Inl e \<Rightarrow> Inl e | Inr x \<Rightarrow> Inr (x, s))"

definition cget :: "('h pool \<Rightarrow> 'a) \<Rightarrow> ('h, 'a) call" where "cget f s = Inr (f s, s)"

definition cset :: "('h pool \<Rightarrow> 'h pool) \<Rightarrow> ('h, unit) call" where "cset f s = Inr ((), f s)"

text \<open>A call of another contract\<close>

definition cext :: "('h \<Rightarrow> revert + 'h) \<Rightarrow> ('h, unit) call" where
  "cext f s = (case f (external s) of Inl e \<Rightarrow> Inl e | Inr w \<Rightarrow> Inr ((), s\<lparr>external := w\<rparr>))"

lemma cbind_returns [call_simps]:
  "cbind m f s = Inr (y, s') \<longleftrightarrow> (\<exists>x t. m s = Inr (x, t) \<and> f x t = Inr (y, s'))"
  by (cases "m s") (auto simp: cbind_def)

lemma cthen_returns [call_simps]:
  "cthen m n s = Inr (y, s') \<longleftrightarrow> (\<exists>x t. m s = Inr (x, t) \<and> n t = Inr (y, s'))"
  by (simp add: cthen_def cbind_returns)

lemma ret_returns [call_simps]: "ret x s = Inr (y, s') \<longleftrightarrow> y = x \<and> s' = s"
  by (auto simp: ret_def)

lemma crequire_returns [call_simps]: "crequire c code s = Inr (u, s') \<longleftrightarrow> c \<and> s' = s"
  by (auto simp: crequire_def)

lemma clift_returns [call_simps]: "clift m s = Inr (x, s') \<longleftrightarrow> m = Inr x \<and> s' = s"
  by (cases m) (auto simp: clift_def)

lemma cget_returns [call_simps]: "cget f s = Inr (x, s') \<longleftrightarrow> x = f s \<and> s' = s"
  by (auto simp: cget_def)

lemma cset_returns [call_simps]: "cset f s = Inr (u, s') \<longleftrightarrow> s' = f s"
  by (auto simp: cset_def)

lemma cext_returns [call_simps]:
  "cext f s = Inr (u, s') \<longleftrightarrow> (\<exists>w. f (external s) = Inr w \<and> s' = s\<lparr>external := w\<rparr>)"
  by (cases "f (external s)") (auto simp: cext_def)

text \<open>The same, with the calls of other contracts left as they are\<close>

lemmas step_simps = cbind_returns cthen_returns ret_returns crequire_returns clift_returns cget_returns cset_returns

text \<open>An error stops a call.\<close>

lemma crequire_fails: "\<not> c \<Longrightarrow> cthen (crequire c code) n s = Inl (Require code)"
  by (simp add: cthen_def cbind_def crequire_def)

lemma crequire_passes: "c \<Longrightarrow> cthen (crequire c code) n s = n s"
  by (simp add: cthen_def cbind_def crequire_def)

lemma cget_cbind: "cbind (cget f) n s = n (f s) s"
  by (simp add: cbind_def cget_def)

lemma cthen_Inl: "m s = Inl e \<Longrightarrow> cthen m n s = Inl e"
  by (simp add: cthen_def cbind_def)

lemma cbind_Inl: "m s = Inl e \<Longrightarrow> cbind m f s = Inl e"
  by (simp add: cbind_def)

section \<open>Updates of one entry\<close>

definition set_reserve :: "acct \<Rightarrow> (reserve_data \<Rightarrow> reserve_data) \<Rightarrow> 'h pool \<Rightarrow> 'h pool" where
  "set_reserve a f s = s\<lparr>reserves := (reserves s)(a := f (reserves s a))\<rparr>"

definition on_book :: "(loan_book \<Rightarrow> loan_book) \<Rightarrow> ('h, unit) call" where
  "on_book f = cset (\<lambda>s. s\<lparr>book := f (book s)\<rparr>)"

definition set_loan :: "uint \<Rightarrow> (loan_data \<Rightarrow> loan_data) \<Rightarrow> loan_book \<Rightarrow> loan_book" where
  "set_loan i f b = b\<lparr>loans := (loans b)(i := f (loans b i))\<rparr>"

lemma on_book_returns [call_simps]: "on_book f s = Inr (u, s') \<longleftrightarrow> s' = s\<lparr>book := f (book s)\<rparr>"
  by (simp add: on_book_def cset_returns)

text \<open>Updates of different fields, in the order of the fields\<close>

lemma pool_order [simp]:
  "s\<lparr>external := w, reserves := r\<rparr> = s\<lparr>reserves := r, external := w\<rparr>"
  "s\<lparr>external := w, book := b\<rparr> = s\<lparr>book := b, external := w\<rparr>"
  "s\<lparr>external := w, borrowAllowances := al\<rparr> = s\<lparr>borrowAllowances := al, external := w\<rparr>"
  "s\<lparr>external := w, entered := e\<rparr> = s\<lparr>entered := e, external := w\<rparr>"
  "s\<lparr>book := b, reserves := r\<rparr> = s\<lparr>reserves := r, book := b\<rparr>"
  "s\<lparr>book := b, entered := e\<rparr> = s\<lparr>entered := e, book := b\<rparr>"
  "s\<lparr>borrowAllowances := al, reserves := r\<rparr> = s\<lparr>reserves := r, borrowAllowances := al\<rparr>"
  "s\<lparr>borrowAllowances := al, book := b\<rparr> = s\<lparr>book := b, borrowAllowances := al\<rparr>"
  "s\<lparr>borrowAllowances := al, entered := e\<rparr> = s\<lparr>entered := e, borrowAllowances := al\<rparr>"
  "s\<lparr>entered := e, reserves := r\<rparr> = s\<lparr>reserves := r, entered := e\<rparr>"
  by simp_all

section \<open>The pool's own tokens\<close>

text \<open>\<open>IncentivizedERC20._mint\<close> and \<open>_burn\<close>: the incentives controller is told the old supply and balance.\<close>

definition told :: "'h externals \<Rightarrow> acct \<Rightarrow> uint \<Rightarrow> uint \<Rightarrow> ('h, unit) call" where
  "told E user oldSupply oldBalance =
     (if controller E \<noteq> 0 then cext (handle_action E user oldSupply oldBalance) else ret ())"

definition incentivized_mint :: "'h externals \<Rightarrow> acct \<Rightarrow> acct \<Rightarrow> uint \<Rightarrow> ('h, unit) call" where
  "incentivized_mint E token user amount =
     cbind (cget (\<lambda>s. token_supply E token (external s))) (\<lambda>oldTotalSupply.
     cbind (cget (\<lambda>s. token_balance E token user (external s))) (\<lambda>oldAccountBalance.
     cthen (cext (token_mint E token user amount))
     (told E user oldTotalSupply oldAccountBalance)))"

definition incentivized_burn :: "'h externals \<Rightarrow> acct \<Rightarrow> acct \<Rightarrow> uint \<Rightarrow> ('h, unit) call" where
  "incentivized_burn E token user amount =
     cbind (cget (\<lambda>s. token_supply E token (external s))) (\<lambda>oldTotalSupply.
     cbind (cget (\<lambda>s. token_balance E token user (external s))) (\<lambda>oldAccountBalance.
     cthen (cext (token_burn E token user amount))
     (told E user oldTotalSupply oldAccountBalance)))"

text \<open>\<open>BToken.sol\<close>; every call is the pool's, so \<open>onlyLendPool\<close> holds.\<close>

definition BToken_mint :: "'h externals \<Rightarrow> acct \<Rightarrow> acct \<Rightarrow> uint \<Rightarrow> uint \<Rightarrow> ('h, bool) call" where
  "BToken_mint E bToken user amount index =
     cbind (cget (\<lambda>s. token_balance E bToken user (external s))) (\<lambda>previousBalance.
     cbind (clift (rayDiv amount index)) (\<lambda>amountScaled.
     cthen (crequire (amountScaled \<noteq> 0) ''CT_INVALID_MINT_AMOUNT'')
     (cthen (incentivized_mint E bToken user amountScaled)
     (ret (previousBalance = 0)))))"

definition BToken_burn :: "'h externals \<Rightarrow> acct \<Rightarrow> acct \<Rightarrow> acct \<Rightarrow> acct \<Rightarrow> uint \<Rightarrow> uint \<Rightarrow> ('h, unit) call" where
  "BToken_burn E bToken underlying user receiverOfUnderlying amount index =
     cbind (clift (rayDiv amount index)) (\<lambda>amountScaled.
     cthen (crequire (amountScaled \<noteq> 0) ''CT_INVALID_BURN_AMOUNT'')
     (cthen (incentivized_burn E bToken user amountScaled)
     (cext (token_transfer E underlying bToken receiverOfUnderlying amount))))"

definition mintToTreasury :: "'h externals \<Rightarrow> acct \<Rightarrow> uint \<Rightarrow> uint \<Rightarrow> ('h, unit) call" where
  "mintToTreasury E bToken amount index =
     (if amount = 0 then ret () else
      cbind (cget (\<lambda>s. treasuries s bToken)) (\<lambda>treasury.
      cbind (clift (rayDiv amount index)) (\<lambda>amountScaled.
      incentivized_mint E bToken treasury amountScaled)))"

definition transferUnderlyingTo :: "'h externals \<Rightarrow> acct \<Rightarrow> acct \<Rightarrow> acct \<Rightarrow> uint \<Rightarrow> ('h, uint) call" where
  "transferUnderlyingTo E bToken underlying target amount =
     cthen (cext (token_transfer E underlying bToken target amount)) (ret amount)"

text \<open>\<open>DebtToken.sol\<close>\<close>

definition decreaseBorrowAllowance :: "acct \<Rightarrow> acct \<Rightarrow> acct \<Rightarrow> uint \<Rightarrow> ('h, unit) call" where
  "decreaseBorrowAllowance debtToken delegator delegatee amount =
     cbind (cget (\<lambda>s. borrowAllowances s debtToken delegator delegatee)) (\<lambda>allowance.
     cthen (crequire (amount \<le> allowance) ''CT_BORROW_ALLOWANCE_NOT_ENOUGH'')
     (cbind (clift (sub256 allowance amount)) (\<lambda>newAllowance.
      cset (\<lambda>s. s\<lparr>borrowAllowances := (borrowAllowances s)(debtToken := (borrowAllowances s debtToken)
        (delegator := (borrowAllowances s debtToken delegator)(delegatee := newAllowance)))\<rparr>))))"

definition approveDelegation :: "acct \<Rightarrow> acct \<Rightarrow> acct \<Rightarrow> uint \<Rightarrow> ('h, unit) call" where
  "approveDelegation debtToken sender delegatee amount =
     cset (\<lambda>s. s\<lparr>borrowAllowances := (borrowAllowances s)(debtToken := (borrowAllowances s debtToken)
        (sender := (borrowAllowances s debtToken sender)(delegatee := amount)))\<rparr>)"

definition DebtToken_mint :: "'h externals \<Rightarrow> acct \<Rightarrow> acct \<Rightarrow> acct \<Rightarrow> uint \<Rightarrow> uint \<Rightarrow> ('h, bool) call" where
  "DebtToken_mint E debtToken initiator onBehalfOf amount index =
     cthen (if initiator \<noteq> onBehalfOf then decreaseBorrowAllowance debtToken onBehalfOf initiator amount else ret ())
     (cbind (cget (\<lambda>s. token_balance E debtToken onBehalfOf (external s))) (\<lambda>previousBalance.
      cbind (clift (rayDiv amount index)) (\<lambda>amountScaled.
      cthen (crequire (amountScaled \<noteq> 0) ''CT_INVALID_MINT_AMOUNT'')
      (cthen (incentivized_mint E debtToken onBehalfOf amountScaled)
      (ret (previousBalance = 0))))))"

definition DebtToken_burn :: "'h externals \<Rightarrow> acct \<Rightarrow> acct \<Rightarrow> uint \<Rightarrow> uint \<Rightarrow> ('h, unit) call" where
  "DebtToken_burn E debtToken user amount index =
     cbind (clift (rayDiv amount index)) (\<lambda>amountScaled.
     cthen (crequire (amountScaled \<noteq> 0) ''CT_INVALID_BURN_AMOUNT'')
     (incentivized_burn E debtToken user amountScaled))"

end
