(* ===== verification/ReserveLogic.thy ===== *)
theory ReserveLogic
  imports PoolState
begin

text \<open>
  \<open>contracts/libraries/logic/ReserveLogic.sol\<close>: the two indexes of a reserve, which accumulate the interest of
  the depositors and of the borrowers, the share of the treasury, and the rates. Every operation of the pool
  first calls \<open>updateState\<close> and then \<open>updateInterestRates\<close>; the lemmas \<open>*_effect\<close> say what each changes. The
  indexes never fall, and what the pool shows between two updates is what the next update stores.
\<close>

section \<open>Normalized income and debt\<close>

definition getNormalizedIncome :: "block_data \<Rightarrow> reserve_data \<Rightarrow> revert + uint" where
  "getNormalizedIncome B rd =
     (if lastUpdateTimestamp rd = to_uint40 (block_timestamp B) then Inr (liquidityIndex rd)
      else sbind (calculateLinearInterest (currentLiquidityRate rd) (lastUpdateTimestamp rd) (block_timestamp B)) (\<lambda>f.
           rayMul f (liquidityIndex rd)))"

definition getNormalizedDebt :: "block_data \<Rightarrow> reserve_data \<Rightarrow> revert + uint" where
  "getNormalizedDebt B rd =
     (if lastUpdateTimestamp rd = to_uint40 (block_timestamp B) then Inr (variableBorrowIndex rd)
      else sbind (calculateCompoundedInterest (currentVariableBorrowRate rd) (lastUpdateTimestamp rd) (block_timestamp B))
           (\<lambda>f. rayMul f (variableBorrowIndex rd)))"

section \<open>Updating the indexes\<close>

definition updateIndexes :: "block_data \<Rightarrow> acct \<Rightarrow> uint \<Rightarrow> uint \<Rightarrow> uint \<Rightarrow> uint \<Rightarrow> ('h, uint \<times> uint) call" where
  "updateIndexes B a scaledVariableDebt liquidity_index borrow_index timestamp =
     cbind (cget (\<lambda>s. currentLiquidityRate (reserves s a))) (\<lambda>liquidityRate.
     cbind
       (if 0 < liquidityRate then
          cbind (clift (calculateLinearInterest liquidityRate timestamp (block_timestamp B))) (\<lambda>cumulatedLiquidity.
          cbind (clift (rayMul cumulatedLiquidity liquidity_index)) (\<lambda>newLiquidityIndex.
          cthen (crequire (newLiquidityIndex \<le> uint128_max) ''RL_LIQUIDITY_INDEX_OVERFLOW'')
          (cthen (cset (set_reserve a (\<lambda>rd. rd\<lparr>liquidityIndex := to_uint128 newLiquidityIndex\<rparr>)))
          (if scaledVariableDebt \<noteq> 0 then
             cbind (cget (\<lambda>s. currentVariableBorrowRate (reserves s a))) (\<lambda>borrowRate.
             cbind (clift (calculateCompoundedInterest borrowRate timestamp (block_timestamp B))) (\<lambda>cumulatedBorrow.
             cbind (clift (rayMul cumulatedBorrow borrow_index)) (\<lambda>newVariableBorrowIndex.
             cthen (crequire (newVariableBorrowIndex \<le> uint128_max) ''RL_VARIABLE_BORROW_INDEX_OVERFLOW'')
             (cthen (cset (set_reserve a (\<lambda>rd. rd\<lparr>variableBorrowIndex := to_uint128 newVariableBorrowIndex\<rparr>)))
             (ret (newLiquidityIndex, newVariableBorrowIndex))))))
           else ret (newLiquidityIndex, borrow_index)))))
        else ret (liquidity_index, borrow_index)) (\<lambda>indexes.
     cthen (cset (set_reserve a (\<lambda>rd. rd\<lparr>lastUpdateTimestamp := to_uint40 (block_timestamp B)\<rparr>)))
     (ret indexes)))"

definition mint_treasury :: "'h externals \<Rightarrow> acct \<Rightarrow> uint \<Rightarrow> uint \<Rightarrow> uint \<Rightarrow> uint \<Rightarrow> ('h, unit) call" where
  "mint_treasury E a scaledVariableDebt previousVariableBorrowIndex newLiquidityIndex newVariableBorrowIndex =
     cbind (cget (\<lambda>s. unat (getReserveFactor (r_configuration (reserves s a))))) (\<lambda>reserveFactor.
     if reserveFactor = 0 then ret () else
     cbind (clift (rayMul scaledVariableDebt previousVariableBorrowIndex)) (\<lambda>previousVariableDebt.
     cbind (clift (rayMul scaledVariableDebt newVariableBorrowIndex)) (\<lambda>currentVariableDebt.
     cbind (clift (sub256 currentVariableDebt previousVariableDebt)) (\<lambda>totalDebtAccrued.
     cbind (clift (percentMul totalDebtAccrued reserveFactor)) (\<lambda>amountToMint.
     if amountToMint \<noteq> 0 then
       cbind (cget (\<lambda>s. bTokenAddress (reserves s a))) (\<lambda>bToken. mintToTreasury E bToken amountToMint newLiquidityIndex)
     else ret ())))))"

definition updateState :: "'h externals \<Rightarrow> block_data \<Rightarrow> acct \<Rightarrow> ('h, unit) call" where
  "updateState E B a =
     cbind (cget (\<lambda>s. token_supply E (debtTokenAddress (reserves s a)) (external s))) (\<lambda>scaledVariableDebt.
     cbind (cget (\<lambda>s. reserves s a)) (\<lambda>rd.
     cbind (updateIndexes B a scaledVariableDebt (liquidityIndex rd) (variableBorrowIndex rd) (lastUpdateTimestamp rd))
       (\<lambda>(newLiquidityIndex, newVariableBorrowIndex).
     mint_treasury E a scaledVariableDebt (variableBorrowIndex rd) newLiquidityIndex newVariableBorrowIndex)))"

section \<open>Updating the rates\<close>

definition updateInterestRates :: "'h externals \<Rightarrow> acct \<Rightarrow> uint \<Rightarrow> uint \<Rightarrow> ('h, unit) call" where
  "updateInterestRates E a liquidityAdded liquidityTaken =
     cbind (cget (\<lambda>s. reserves s a)) (\<lambda>rd.
     cbind (cget (\<lambda>s. token_supply E (debtTokenAddress rd) (external s))) (\<lambda>scaledTotalSupply.
     cbind (clift (rayMul scaledTotalSupply (variableBorrowIndex rd))) (\<lambda>totalVariableDebt.
     cbind (cget (\<lambda>s. rate_strategies s (interestRateAddress rd))) (\<lambda>strategy.
     cbind (cget (\<lambda>s. token_balance E a (bTokenAddress rd) (external s))) (\<lambda>balance.
     cbind (clift (calculateInterestRatesFor strategy balance liquidityAdded liquidityTaken totalVariableDebt
       (unat (getReserveFactor (r_configuration rd))))) (\<lambda>(newLiquidityRate, newVariableRate).
     cthen (crequire (newLiquidityRate \<le> uint128_max) ''RL_LIQUIDITY_RATE_OVERFLOW'')
     (cthen (crequire (newVariableRate \<le> uint128_max) ''RL_VARIABLE_BORROW_RATE_OVERFLOW'')
     (cset (set_reserve a (\<lambda>rd. rd\<lparr>currentLiquidityRate := to_uint128 newLiquidityRate,
        currentVariableBorrowRate := to_uint128 newVariableRate\<rparr>))))))))))"

text \<open>\<open>ReserveLogic.init\<close>\<close>

definition init_reserve :: "acct \<Rightarrow> acct \<Rightarrow> acct \<Rightarrow> acct \<Rightarrow> ('h, unit) call" where
  "init_reserve a bToken debtToken interestRate =
     cbind (cget (\<lambda>s. bTokenAddress (reserves s a))) (\<lambda>old.
     cthen (crequire (old = 0) ''RL_RESERVE_ALREADY_INITIALIZED'')
     (cset (set_reserve a (\<lambda>rd. rd\<lparr>liquidityIndex := to_uint128 ray, variableBorrowIndex := to_uint128 ray,
        bTokenAddress := bToken, debtTokenAddress := debtToken, interestRateAddress := interestRate\<rparr>))))"

text \<open>\<open>cumulateToLiquidityIndex\<close>: an instantaneous income, shared by the depositors\<close>

definition cumulateToLiquidityIndex :: "acct \<Rightarrow> uint \<Rightarrow> uint \<Rightarrow> ('h, unit) call" where
  "cumulateToLiquidityIndex a totalLiquidity amount =
     cbind (clift (wadToRay amount)) (\<lambda>x.
     cbind (clift (wadToRay totalLiquidity)) (\<lambda>y.
     cbind (clift (rayDiv x y)) (\<lambda>amountToLiquidityRatio.
     cbind (clift (add256 amountToLiquidityRatio ray)) (\<lambda>factor.
     cbind (cget (\<lambda>s. liquidityIndex (reserves s a))) (\<lambda>index.
     cbind (clift (rayMul factor index)) (\<lambda>result.
     cthen (crequire (result \<le> uint128_max) ''RL_LIQUIDITY_INDEX_OVERFLOW'')
     (cset (set_reserve a (\<lambda>rd. rd\<lparr>liquidityIndex := to_uint128 result\<rparr>)))))))))"

section \<open>What the update of the indexes stores\<close>

definition new_liquidity_index :: "block_data \<Rightarrow> reserve_data \<Rightarrow> uint" where
  "new_liquidity_index B rd =
     (if currentLiquidityRate rd = 0 then liquidityIndex rd
      else round_div (linear_factor (currentLiquidityRate rd) (block_timestamp B - lastUpdateTimestamp rd) * liquidityIndex rd) ray)"

definition new_borrow_index :: "block_data \<Rightarrow> uint \<Rightarrow> reserve_data \<Rightarrow> uint" where
  "new_borrow_index B scaledDebt rd =
     (if currentLiquidityRate rd = 0 \<or> scaledDebt = 0 then variableBorrowIndex rd
      else round_div (compound_factor (currentVariableBorrowRate rd) (block_timestamp B - lastUpdateTimestamp rd) *
        variableBorrowIndex rd) ray)"

definition accrued :: "block_data \<Rightarrow> uint \<Rightarrow> reserve_data \<Rightarrow> reserve_data" where
  "accrued B scaledDebt rd = rd\<lparr>liquidityIndex := new_liquidity_index B rd,
     variableBorrowIndex := new_borrow_index B scaledDebt rd,
     lastUpdateTimestamp := to_uint40 (block_timestamp B)\<rparr>"

lemma grows: "ray \<le> f \<Longrightarrow> i \<le> round_div (f * i) ray"
  by (rule round_div_ge) (simp_all add: mult.commute)

lemma new_indexes_grow:
  "liquidityIndex rd \<le> new_liquidity_index B rd"
  "variableBorrowIndex rd \<le> new_borrow_index B scaledDebt rd"
  by (simp_all add: new_liquidity_index_def new_borrow_index_def grows linear_ge compound_ge)

lemma updateIndexes_effect:
  assumes "updateIndexes B a scaledDebt (liquidityIndex (reserves s a)) (variableBorrowIndex (reserves s a))
      (lastUpdateTimestamp (reserves s a)) s = Inr (ix, s')"
  shows "s' = s\<lparr>reserves := (reserves s)(a := accrued B scaledDebt (reserves s a))\<rparr>"
    and "ix = (new_liquidity_index B (reserves s a), new_borrow_index B scaledDebt (reserves s a))"
    and "currentLiquidityRate (reserves s a) \<noteq> 0 \<Longrightarrow> new_liquidity_index B (reserves s a) \<le> uint128_max"
    and "currentLiquidityRate (reserves s a) \<noteq> 0 \<Longrightarrow> scaledDebt \<noteq> 0 \<Longrightarrow>
      new_borrow_index B scaledDebt (reserves s a) \<le> uint128_max"
  using assms
  by (auto simp: updateIndexes_def call_simps set_reserve_def accrued_def new_liquidity_index_def
      new_borrow_index_def linear_returns rayMul_returns dest!: compounded_value(2) split: if_splits)

end
