(* ===== verification/Custody.thy ===== *)
theory Custody
  imports ReserveLogic
begin

text \<open>
  What the pool relies on of the contracts outside the repository, as the standards document it: an ERC-20
  token moves exactly the amount asked for and mints and burns exactly at one account; a call of an NFT
  collection, of the incentives controller or of an interceptor does not change the debt tokens (they cannot
  be transferred) and takes nothing from the pool (which approves nobody). \<open>moves\<close> sums up the effect of a call
  on the balances: what each debt token gained per account and in total, and a lower bound of what the pool
  itself gained. It composes by addition, so the effect of an operation is the sum of its steps.
\<close>

section \<open>Documented behaviour of the contracts outside\<close>

definition bal :: "'h externals \<Rightarrow> acct \<Rightarrow> acct \<Rightarrow> 'h \<Rightarrow> int" where
  "bal E t u w = int (token_balance E t u w)"

definition moves :: "'h externals \<Rightarrow> acct set \<Rightarrow> (acct \<Rightarrow> acct \<Rightarrow> int) \<Rightarrow> (acct \<Rightarrow> int) \<Rightarrow> (acct \<Rightarrow> int) \<Rightarrow> 'h \<Rightarrow> 'h \<Rightarrow> bool" where
  "moves E D debt supply custody w w' \<longleftrightarrow>
     (\<forall>t\<in>D. \<forall>u. bal E t u w' = bal E t u w + debt t u) \<and>
     (\<forall>t\<in>D. int (token_supply E t w') = int (token_supply E t w) + supply t) \<and>
     (\<forall>t. t \<notin> D \<longrightarrow> bal E t (pool_addr E) w + custody t \<le> bal E t (pool_addr E) w')"

definition harmless :: "'h externals \<Rightarrow> acct set \<Rightarrow> 'h \<Rightarrow> 'h \<Rightarrow> bool" where
  "harmless E D = moves E D (\<lambda>t u. 0) (\<lambda>t. 0) (\<lambda>t. 0)"

definition at1 :: "'a \<Rightarrow> int \<Rightarrow> 'a \<Rightarrow> int" where "at1 x n y = (if y = x then n else 0)"
definition at2 :: "'a \<Rightarrow> 'b \<Rightarrow> int \<Rightarrow> 'a \<Rightarrow> 'b \<Rightarrow> int" where "at2 x y n x' y' = (if x' = x \<and> y' = y then n else 0)"

definition erc20_ok :: "'h externals \<Rightarrow> bool" where
  "erc20_ok E \<longleftrightarrow>
     (\<forall>t u x w w'. token_mint E t u x w = Inr w' \<longrightarrow>
        (\<forall>t' u'. bal E t' u' w' = bal E t' u' w + at2 t u (int x) t' u') \<and>
        (\<forall>t'. int (token_supply E t' w') = int (token_supply E t' w) + at1 t (int x) t')) \<and>
     (\<forall>t u x w w'. token_burn E t u x w = Inr w' \<longrightarrow>
        (\<forall>t' u'. bal E t' u' w' = bal E t' u' w - at2 t u (int x) t' u') \<and>
        (\<forall>t'. int (token_supply E t' w') = int (token_supply E t' w) - at1 t (int x) t')) \<and>
     (\<forall>t f g x w w'. token_transfer E t f g x w = Inr w' \<longrightarrow>
        (\<forall>t' u'. bal E t' u' w' = bal E t' u' w - at2 t f (int x) t' u' + at2 t g (int x) t' u') \<and>
        (\<forall>t'. token_supply E t' w' = token_supply E t' w)) \<and>
     (\<forall>t p f g x w w'. token_transfer_from E t p f g x w = Inr w' \<longrightarrow>
        (\<forall>t' u'. bal E t' u' w' = bal E t' u' w - at2 t f (int x) t' u' + at2 t g (int x) t' u') \<and>
        (\<forall>t'. token_supply E t' w' = token_supply E t' w))"

definition callbacks_ok :: "'h externals \<Rightarrow> acct set \<Rightarrow> bool" where
  "callbacks_ok E D \<longleftrightarrow>
     (\<forall>u x y w w'. handle_action E u x y w = Inr w' \<longrightarrow> harmless E D w w') \<and>
     (\<forall>n p f g i w w'. nft_transfer E n p f g i w = Inr w' \<longrightarrow> harmless E D w w') \<and>
     (\<forall>n u p w w'. nft_approve E n u p w = Inr w' \<longrightarrow> harmless E D w w') \<and>
     (\<forall>n u i w w'. bnft_mint E n u i w = Inr w' \<longrightarrow> harmless E D w w') \<and>
     (\<forall>n i w w'. bnft_burn E n i w = Inr w' \<longrightarrow> harmless E D w w') \<and>
     (\<forall>n i u l w w'. bnft_lock E n i u l w = Inr w' \<longrightarrow> harmless E D w w') \<and>
     (\<forall>b c n i w t r w' t'. call_interceptor E b c n i (w, t) = Inr (r, w', t') \<longrightarrow> harmless E D w w')"

definition externals_ok :: "'h externals \<Rightarrow> acct set \<Rightarrow> bool" where
  "externals_ok E D \<longleftrightarrow> erc20_ok E \<and> callbacks_ok E D"

section \<open>The calculus of moves\<close>

lemma moves_trans:
  assumes m: "moves E D d p c w w'" and m': "moves E D d' p' c' w' w''"
  shows "moves E D (\<lambda>t u. d t u + d' t u) (\<lambda>t. p t + p' t) (\<lambda>t. c t + c' t) w w''"
  unfolding moves_def
proof (intro conjI ballI allI impI)
  fix t u
  assume t: "t \<in> D"
  show "bal E t u w'' = bal E t u w + (d t u + d' t u)"
    "int (token_supply E t w'') = int (token_supply E t w) + (p t + p' t)"
    using m m' t by (auto simp: moves_def)
next
  fix t
  assume t: "t \<notin> D"
  from m m' t have "bal E t (pool_addr E) w + c t \<le> bal E t (pool_addr E) w'"
    "bal E t (pool_addr E) w' + c' t \<le> bal E t (pool_addr E) w''" by (auto simp: moves_def)
  then show "bal E t (pool_addr E) w + (c t + c' t) \<le> bal E t (pool_addr E) w''" by linarith
qed

lemma harmless_refl [simp, intro]: "harmless E D w w"
  by (simp add: harmless_def moves_def)

lemma harmless_trans [trans]: "harmless E D w w' \<Longrightarrow> harmless E D w' w'' \<Longrightarrow> harmless E D w w''"
  unfolding harmless_def by (drule (1) moves_trans) simp

lemma harmless_moves: "harmless E D w w' \<Longrightarrow> moves E D d p c w' w'' \<Longrightarrow> moves E D d p c w w''"
  unfolding harmless_def by (drule (1) moves_trans) simp

lemma moves_harmless: "moves E D d p c w w' \<Longrightarrow> harmless E D w' w'' \<Longrightarrow> moves E D d p c w w''"
  unfolding harmless_def by (drule (1) moves_trans) simp

lemma moves_weaken: "moves E D d p c w w' \<Longrightarrow> (\<And>t. c' t \<le> c t) \<Longrightarrow> moves E D d p c' w w'"
  unfolding moves_def by (meson add_left_mono order_trans)

lemma mint_moves:
  assumes "externals_ok E D" "token_mint E t u x w = Inr w'"
  shows "moves E D (at2 t u (int x)) (at1 t (int x)) (\<lambda>_. 0) w w'"
proof -
  from assms have "bal E t' u' w' = bal E t' u' w + at2 t u (int x) t' u'"
    "int (token_supply E t' w') = int (token_supply E t' w) + at1 t (int x) t'" for t' u'
    by (auto simp: externals_ok_def erc20_ok_def)
  then show ?thesis by (simp add: moves_def at2_def)
qed

lemma mint_harmless:
  assumes "externals_ok E D" "t \<notin> D" "token_mint E t u x w = Inr w'"
  shows "harmless E D w w'"
  using mint_moves [OF assms(1,3)] assms(2) by (auto simp: harmless_def moves_def at1_def at2_def)

lemma burn_moves:
  assumes "externals_ok E D" "token_burn E t u x w = Inr w'" "t \<in> D \<or> u \<noteq> pool_addr E"
  shows "moves E D (at2 t u (- int x)) (at1 t (- int x)) (\<lambda>_. 0) w w'"
proof -
  from assms(1,2) have "bal E t' u' w' = bal E t' u' w - at2 t u (int x) t' u'"
    "int (token_supply E t' w') = int (token_supply E t' w) - at1 t (int x) t'" for t' u'
    by (auto simp: externals_ok_def erc20_ok_def)
  with assms(3) show ?thesis by (auto simp: moves_def at2_def at1_def)
qed

lemma burn_harmless:
  assumes "externals_ok E D" "t \<notin> D" "token_burn E t u x w = Inr w'" "u \<noteq> pool_addr E"
  shows "harmless E D w w'"
  using burn_moves [OF assms(1,3)] assms(2,4) by (auto simp: harmless_def moves_def at1_def at2_def)

text \<open>A transfer of a token that is no debt token\<close>

lemma transfer_moves:
  assumes "externals_ok E D" "t \<notin> D" "token_transfer E t f g x w = Inr w'"
  shows "moves E D (\<lambda>t u. 0) (\<lambda>t. 0)
    (at1 t ((if f = pool_addr E then - int x else 0) + (if g = pool_addr E then int x else 0))) w w'"
proof -
  from assms(1,3) have "bal E t' u' w' = bal E t' u' w - at2 t f (int x) t' u' + at2 t g (int x) t' u'"
    "token_supply E t' w' = token_supply E t' w" for t' u'
    by (auto simp: externals_ok_def erc20_ok_def)
  with assms(2) show ?thesis by (auto simp: moves_def at2_def at1_def)
qed

lemma transfer_from_moves:
  assumes "externals_ok E D" "t \<notin> D" "token_transfer_from E t p f g x w = Inr w'"
  shows "moves E D (\<lambda>t u. 0) (\<lambda>t. 0)
    (at1 t ((if f = pool_addr E then - int x else 0) + (if g = pool_addr E then int x else 0))) w w'"
proof -
  from assms(1,3) have "bal E t' u' w' = bal E t' u' w - at2 t f (int x) t' u' + at2 t g (int x) t' u'"
    "token_supply E t' w' = token_supply E t' w" for t' u'
    by (auto simp: externals_ok_def erc20_ok_def)
  with assms(2) show ?thesis by (auto simp: moves_def at2_def at1_def)
qed

lemma transfer_harmless:
  assumes "externals_ok E D" "t \<notin> D" "token_transfer E t f g x w = Inr w'" "f \<noteq> pool_addr E"
  shows "harmless E D w w'"
  unfolding harmless_def
  by (rule moves_weaken [OF transfer_moves [OF assms(1-3)]]) (use assms(4) in \<open>auto simp: at1_def\<close>)

lemma transfer_from_harmless:
  assumes "externals_ok E D" "t \<notin> D" "token_transfer_from E t p f g x w = Inr w'" "f \<noteq> pool_addr E"
  shows "harmless E D w w'"
  unfolding harmless_def
  by (rule moves_weaken [OF transfer_from_moves [OF assms(1-3)]]) (use assms(4) in \<open>auto simp: at1_def\<close>)

lemma callback_harmless:
  assumes "externals_ok E D"
  shows "handle_action E u x y w = Inr w' \<Longrightarrow> harmless E D w w'"
    and "nft_transfer E n p f g i w = Inr w' \<Longrightarrow> harmless E D w w'"
    and "bnft_mint E n u i w = Inr w' \<Longrightarrow> harmless E D w w'"
    and "bnft_burn E n i w = Inr w' \<Longrightarrow> harmless E D w w'"
    and "bnft_lock E n i u l w = Inr w' \<Longrightarrow> harmless E D w w'"
    and "nft_approve E n u p w = Inr w' \<Longrightarrow> harmless E D w w'"
    and "call_interceptor E b c n i (w, tab) = Inr (r, w', tab') \<Longrightarrow> harmless E D w w'"
proof -
  from assms have ok: "callbacks_ok E D" by (simp add: externals_ok_def)
  note c = ok [unfolded callbacks_ok_def]
  show "handle_action E u x y w = Inr w' \<Longrightarrow> harmless E D w w'" using c by simp
  show "nft_transfer E n p f g i w = Inr w' \<Longrightarrow> harmless E D w w'" using c by simp
  show "bnft_mint E n u i w = Inr w' \<Longrightarrow> harmless E D w w'" using c by simp
  show "bnft_burn E n i w = Inr w' \<Longrightarrow> harmless E D w w'" using c by simp
  show "bnft_lock E n i u l w = Inr w' \<Longrightarrow> harmless E D w w'" using c by simp
  show "nft_approve E n u p w = Inr w' \<Longrightarrow> harmless E D w w'" using c by simp
  show "call_interceptor E b c n i (w, tab) = Inr (r, w', tab') \<Longrightarrow> harmless E D w w'"
    using c [THEN conjunct2, THEN conjunct2, THEN conjunct2, THEN conjunct2, THEN conjunct2, THEN conjunct2, rule_format] .
qed

section \<open>The pool's own tokens\<close>

lemma told_effect:
  assumes "externals_ok E D" "told E user x y s = Inr (u, s')"
  shows "\<exists>w. s' = s\<lparr>external := w\<rparr> \<and> harmless E D (external s) w"
proof (cases "controller E = 0")
  case True
  with assms(2) show ?thesis by (auto simp: told_def call_simps intro!: exI [of _ "external s"])
next
  case False
  with assms(2) show ?thesis by (auto simp: told_def call_simps callback_harmless(1) [OF assms(1)])
qed

lemma incentivized_mint_effect:
  assumes "externals_ok E D" "incentivized_mint E t user x s = Inr (u, s')"
  shows "\<exists>w. s' = s\<lparr>external := w\<rparr> \<and> moves E D (at2 t user (int x)) (at1 t (int x)) (\<lambda>_. 0) (external s) w"
proof -
  from assms(2) obtain w where w: "token_mint E t user x (external s) = Inr w"
    and rest: "told E user (token_supply E t (external s)) (token_balance E t user (external s)) (s\<lparr>external := w\<rparr>) = Inr (u, s')"
    by (auto simp: incentivized_mint_def call_simps)
  from told_effect [OF assms(1) rest] obtain w' where s': "s' = s\<lparr>external := w'\<rparr>" and q: "harmless E D w w'" by auto
  show ?thesis by (intro exI [of _ w'] conjI s' moves_harmless [OF mint_moves [OF assms(1) w] q])
qed

lemma incentivized_burn_effect:
  assumes "externals_ok E D" "t \<in> D \<or> user \<noteq> pool_addr E" "incentivized_burn E t user x s = Inr (u, s')"
  shows "\<exists>w. s' = s\<lparr>external := w\<rparr> \<and> moves E D (at2 t user (- int x)) (at1 t (- int x)) (\<lambda>_. 0) (external s) w"
proof -
  from assms(3) obtain w where w: "token_burn E t user x (external s) = Inr w"
    and rest: "told E user (token_supply E t (external s)) (token_balance E t user (external s)) (s\<lparr>external := w\<rparr>) = Inr (u, s')"
    by (auto simp: incentivized_burn_def call_simps)
  from told_effect [OF assms(1) rest] obtain w' where s': "s' = s\<lparr>external := w'\<rparr>" and q: "harmless E D w w'" by auto
  show ?thesis by (intro exI [of _ w'] conjI s' moves_harmless [OF burn_moves [OF assms(1) w assms(2)] q])
qed

text \<open>Minting and burning a token that is no debt token leaves the debts alone.\<close>

lemma moves_not_debt:
  "t \<notin> D \<Longrightarrow> moves E D (at2 t u x) (at1 t y) (\<lambda>_. 0) w w' \<Longrightarrow> harmless E D w w'"
  by (auto simp: harmless_def moves_def at1_def at2_def)

end
