(* ===== verification/LendPoolLoan.thy ===== *)
theory LendPoolLoan
  imports Custody
begin

text \<open>
  \<open>contracts/protocol/LendPoolLoan.sol\<close>: the book of loans. A loan is created active; while active it is
  updated, repaid, or auctioned; in an auction it gets further bids, is redeemed, or is liquidated. The
  lemmas \<open>*_effect\<close> give the book after each operation as a function of the book before (\<open>book_*\<close>), and say
  that the calls of other contracts on the way are harmless.
\<close>

section \<open>Interceptors\<close>

fun handle_interceptors :: "'h externals \<Rightarrow> bool \<Rightarrow> acct list \<Rightarrow> acct \<Rightarrow> uint \<Rightarrow> string \<Rightarrow> ('h, unit) call" where
  "handle_interceptors E aft [] nft tokenId msg = ret ()"
| "handle_interceptors E aft (c # cs) nft tokenId msg =
     cbind (\<lambda>s. case call_interceptor E aft c nft tokenId (external s, loanRepaidInterceptors (book s)) of
              Inl e \<Rightarrow> Inl e
            | Inr (ok, w, tab) \<Rightarrow> Inr (ok, s\<lparr>external := w, book := (book s)\<lparr>loanRepaidInterceptors := tab\<rparr>\<rparr>)) (\<lambda>checkHandle.
     cthen (crequire checkHandle msg)
     (handle_interceptors E aft cs nft tokenId msg))"

definition handleBeforeLoanRepaid :: "'h externals \<Rightarrow> acct \<Rightarrow> uint \<Rightarrow> ('h, unit) call" where
  "handleBeforeLoanRepaid E nft tokenId =
     cbind (cget (\<lambda>s. loanRepaidInterceptors (book s) nft tokenId)) (\<lambda>cs.
     handle_interceptors E False cs nft tokenId ''BNFT: call interceptor before token burn failed'')"

definition handleAfterLoanRepaid :: "'h externals \<Rightarrow> acct \<Rightarrow> uint \<Rightarrow> ('h, unit) call" where
  "handleAfterLoanRepaid E nft tokenId =
     cbind (cget (\<lambda>s. loanRepaidInterceptors (book s) nft tokenId)) (\<lambda>cs.
     handle_interceptors E True cs nft tokenId ''BNFT: call interceptor after token burn failed'')"

definition setFlashLoanLocking :: "'h externals \<Rightarrow> acct \<Rightarrow> uint \<Rightarrow> bool \<Rightarrow> ('h, unit) call" where
  "setFlashLoanLocking E nft tokenId locked = cext (bnft_lock E (bnft_proxy E nft) tokenId (loan_addr E) locked)"

text \<open>\<open>addLoanRepaidInterceptor\<close> and \<open>_deleteLoanRepaidInterceptor\<close>: the list of one token has no duplicates\<close>

definition add_interceptor :: "acct \<Rightarrow> acct list \<Rightarrow> acct list" where
  "add_interceptor c cs = (if c \<in> set cs then cs else cs @ [c])"

fun index_of :: "acct \<Rightarrow> acct list \<Rightarrow> nat option" where
  "index_of c [] = None"
| "index_of c (x # xs) = (if x = c then Some 0 else map_option Suc (index_of c xs))"

definition delete_at :: "nat \<Rightarrow> acct list \<Rightarrow> acct list" where
  "delete_at i cs = (let l = length cs - 1 in take l (if i < l then cs[i := cs ! l] else cs))"

definition delete_interceptor :: "acct \<Rightarrow> acct list \<Rightarrow> acct list" where
  "delete_interceptor c cs = (case index_of c cs of None \<Rightarrow> cs | Some i \<Rightarrow> delete_at i cs)"

section \<open>The operations\<close>

definition take_loan_id :: "acct \<Rightarrow> uint \<Rightarrow> ('h, uint) call" where
  "take_loan_id nft tokenId =
     cbind (cget (\<lambda>s. loanIdTracker (book s))) (\<lambda>i.
     cthen (on_book (\<lambda>b. b\<lparr>loanIdTracker := i + 1\<rparr>))
     (cthen (on_book (\<lambda>b. b\<lparr>nftToLoanIds := (nftToLoanIds b)(nft := (nftToLoanIds b nft)(tokenId := i))\<rparr>))
     (ret i)))"

definition count_collateral :: "acct \<Rightarrow> acct \<Rightarrow> ('h, unit) call" where
  "count_collateral user nft =
     cbind (cget (\<lambda>s. userNftCollateral (book s) user nft)) (\<lambda>c.
     cbind (clift (add256 c 1)) (\<lambda>c'.
     cthen (on_book (\<lambda>b. b\<lparr>userNftCollateral := (userNftCollateral b)(user := (userNftCollateral b user)(nft := c'))\<rparr>))
     (cbind (cget (\<lambda>s. nftTotalCollateral (book s) nft)) (\<lambda>c.
      cbind (clift (add256 c 1)) (\<lambda>c'.
      on_book (\<lambda>b. b\<lparr>nftTotalCollateral := (nftTotalCollateral b)(nft := c')\<rparr>))))))"

definition createLoan ::
    "'h externals \<Rightarrow> acct \<Rightarrow> acct \<Rightarrow> acct \<Rightarrow> uint \<Rightarrow> acct \<Rightarrow> acct \<Rightarrow> uint \<Rightarrow> uint \<Rightarrow> ('h, uint) call" where
  "createLoan E initiator onBehalfOf nft tokenId bNft reserve amount borrowIndex =
     cbind (cget (\<lambda>s. nftToLoanIds (book s) nft tokenId)) (\<lambda>used.
     cthen (crequire (used = 0) ''LP_NFT_HAS_USED_AS_COLLATERAL'')
     (cbind (clift (rayDiv amount borrowIndex)) (\<lambda>amountScaled.
      cbind (take_loan_id nft tokenId) (\<lambda>i.
      cthen (cext (nft_transfer E nft (loan_addr E) (pool_addr E) (loan_addr E) tokenId))
      (cthen (cext (bnft_mint E bNft onBehalfOf tokenId))
      (cthen (on_book (set_loan i (\<lambda>l. l\<lparr>loanId := i, loan_state := L_Active, borrower := onBehalfOf,
          nftAsset := nft, nftTokenId := tokenId, reserveAsset := reserve, scaledAmount := amountScaled\<rparr>)))
      (cthen (count_collateral onBehalfOf nft)
      (ret i))))))))"

definition updateLoan :: "uint \<Rightarrow> uint \<Rightarrow> uint \<Rightarrow> uint \<Rightarrow> ('h, unit) call" where
  "updateLoan i amountAdded amountTaken borrowIndex =
     cbind (cget (\<lambda>s. loans (book s) i)) (\<lambda>loan.
     cthen (crequire (loan_state loan = L_Active) ''LPL_INVALID_LOAN_STATE'')
     (cthen
       (if 0 < amountAdded then
          cbind (clift (rayDiv amountAdded borrowIndex)) (\<lambda>amountScaled.
          cthen (crequire (amountScaled \<noteq> 0) ''LPL_INVALID_LOAN_AMOUNT'')
          (cbind (clift (add256 (scaledAmount loan) amountScaled)) (\<lambda>v.
           on_book (set_loan i (\<lambda>l. l\<lparr>scaledAmount := v\<rparr>)))))
        else ret ())
       (if 0 < amountTaken then
          cbind (clift (rayDiv amountTaken borrowIndex)) (\<lambda>amountScaled.
          cthen (crequire (amountScaled \<noteq> 0) ''LPL_INVALID_TAKEN_AMOUNT'')
          (cbind (cget (\<lambda>s. scaledAmount (loans (book s) i))) (\<lambda>old.
           cthen (crequire (amountScaled \<le> old) ''LPL_AMOUNT_OVERFLOW'')
           (cbind (clift (sub256 old amountScaled)) (\<lambda>v.
            on_book (set_loan i (\<lambda>l. l\<lparr>scaledAmount := v\<rparr>)))))))
        else ret ())))"

text \<open>The end of a loan, by repayment or liquidation: the NFT is free again, and the counters go down.\<close>

definition close_loan :: "uint \<Rightarrow> loan_data \<Rightarrow> ('h, unit) call" where
  "close_loan i loan =
     cthen (on_book (\<lambda>b. b\<lparr>nftToLoanIds := (nftToLoanIds b)(nftAsset loan := (nftToLoanIds b (nftAsset loan))(nftTokenId loan := 0))\<rparr>))
     (cbind (cget (\<lambda>s. userNftCollateral (book s) (borrower loan) (nftAsset loan))) (\<lambda>c.
      cthen (crequire (1 \<le> c) ''LP_INVALIED_USER_NFT_AMOUNT'')
      (cbind (clift (sub256 c 1)) (\<lambda>c'.
       cthen (on_book (\<lambda>b. b\<lparr>userNftCollateral := (userNftCollateral b)(borrower loan := (userNftCollateral b (borrower loan))(nftAsset loan := c'))\<rparr>))
       (cbind (cget (\<lambda>s. nftTotalCollateral (book s) (nftAsset loan))) (\<lambda>c.
        cthen (crequire (1 \<le> c) ''LP_INVALIED_NFT_AMOUNT'')
        (cbind (clift (sub256 c 1)) (\<lambda>c'.
         on_book (\<lambda>b. b\<lparr>nftTotalCollateral := (nftTotalCollateral b)(nftAsset loan := c')\<rparr>)))))))))"

definition repayLoan :: "'h externals \<Rightarrow> uint \<Rightarrow> acct \<Rightarrow> ('h, unit) call" where
  "repayLoan E i bNft =
     cbind (cget (\<lambda>s. loans (book s) i)) (\<lambda>loan.
     cthen (crequire (loan_state loan = L_Active) ''LPL_INVALID_LOAN_STATE'')
     (cthen (handleBeforeLoanRepaid E (nftAsset loan) (nftTokenId loan))
     (cthen (on_book (set_loan i (\<lambda>l. l\<lparr>loan_state := L_Repaid\<rparr>)))
     (cthen (close_loan i loan)
     (cthen (cext (bnft_burn E bNft (nftTokenId loan)))
     (cthen (cext (nft_transfer E (nftAsset loan) (loan_addr E) (loan_addr E) (pool_addr E) (nftTokenId loan)))
     (handleAfterLoanRepaid E (nftAsset loan) (nftTokenId loan))))))))"

definition auctionLoan :: "'h externals \<Rightarrow> block_data \<Rightarrow> uint \<Rightarrow> acct \<Rightarrow> uint \<Rightarrow> uint \<Rightarrow> ('h, unit) call" where
  "auctionLoan E B i onBehalfOf bid borrowAmount =
     cbind (cget (\<lambda>s. loans (book s) i)) (\<lambda>loan.
     cthen
       (if bidStartTimestamp loan = 0 then
          cthen (crequire (loan_state loan = L_Active) ''LPL_INVALID_LOAN_STATE'')
          (cthen (on_book (set_loan i (\<lambda>l. l\<lparr>loan_state := L_Auction, bidStartTimestamp := block_timestamp B,
             firstBidderAddress := onBehalfOf\<rparr>)))
          (setFlashLoanLocking E (nftAsset loan) (nftTokenId loan) True))
        else
          cthen (crequire (loan_state loan = L_Auction) ''LPL_INVALID_LOAN_STATE'')
          (crequire (bidPrice loan < bid) ''LPL_BID_PRICE_LESS_THAN_HIGHEST_PRICE''))
     (on_book (set_loan i (\<lambda>l. l\<lparr>bidBorrowAmount := borrowAmount, bidderAddress := onBehalfOf, bidPrice := bid\<rparr>))))"

definition redeemLoan :: "'h externals \<Rightarrow> uint \<Rightarrow> uint \<Rightarrow> uint \<Rightarrow> ('h, unit) call" where
  "redeemLoan E i amountTaken borrowIndex =
     cbind (cget (\<lambda>s. loans (book s) i)) (\<lambda>loan.
     cthen (crequire (loan_state loan = L_Auction) ''LPL_INVALID_LOAN_STATE'')
     (cbind (clift (rayDiv amountTaken borrowIndex)) (\<lambda>amountScaled.
      cthen (crequire (amountScaled \<noteq> 0) ''LPL_INVALID_TAKEN_AMOUNT'')
      (cthen (crequire (amountScaled \<le> scaledAmount loan) ''LPL_AMOUNT_OVERFLOW'')
      (cbind (clift (sub256 (scaledAmount loan) amountScaled)) (\<lambda>v.
       cthen (on_book (set_loan i (\<lambda>l. l\<lparr>scaledAmount := v, loan_state := L_Active, bidStartTimestamp := 0,
          bidBorrowAmount := 0, bidderAddress := 0, bidPrice := 0, firstBidderAddress := 0\<rparr>)))
       (setFlashLoanLocking E (nftAsset loan) (nftTokenId loan) False)))))))"

definition liquidateLoan :: "'h externals \<Rightarrow> uint \<Rightarrow> acct \<Rightarrow> uint \<Rightarrow> ('h, unit) call" where
  "liquidateLoan E i bNft borrowAmount =
     cbind (cget (\<lambda>s. loans (book s) i)) (\<lambda>loan.
     cthen (crequire (loan_state loan = L_Auction) ''LPL_INVALID_LOAN_STATE'')
     (cthen (handleBeforeLoanRepaid E (nftAsset loan) (nftTokenId loan))
     (cthen (on_book (set_loan i (\<lambda>l. l\<lparr>loan_state := L_Defaulted, bidBorrowAmount := borrowAmount\<rparr>)))
     (cthen (close_loan i loan)
     (cthen (setFlashLoanLocking E (nftAsset loan) (nftTokenId loan) False)
     (cthen (cext (bnft_burn E bNft (nftTokenId loan)))
     (cthen (cext (nft_transfer E (nftAsset loan) (loan_addr E) (loan_addr E) (pool_addr E) (nftTokenId loan)))
     (handleAfterLoanRepaid E (nftAsset loan) (nftTokenId loan)))))))))"

text \<open>\<open>getLoanReserveBorrowAmount\<close>: the debt of a loan with the interest up to now\<close>

definition getLoanReserveBorrowAmount :: "block_data \<Rightarrow> uint \<Rightarrow> ('h, uint) call" where
  "getLoanReserveBorrowAmount B i =
     cbind (cget (\<lambda>s. loans (book s) i)) (\<lambda>loan.
     if scaledAmount loan = 0 then ret 0 else
     cbind (cget (\<lambda>s. reserves s (reserveAsset loan))) (\<lambda>rd.
     cbind (clift (getNormalizedDebt B rd)) (\<lambda>n.
     clift (rayMul (scaledAmount loan) n))))"

section \<open>The book after an operation\<close>

definition book_create :: "acct \<Rightarrow> uint \<Rightarrow> acct \<Rightarrow> acct \<Rightarrow> uint \<Rightarrow> loan_book \<Rightarrow> loan_book" where
  "book_create nft tokenId user reserve x b =
     (let i = loanIdTracker b in b\<lparr>loanIdTracker := i + 1,
        nftToLoanIds := (nftToLoanIds b)(nft := (nftToLoanIds b nft)(tokenId := i)),
        loans := (loans b)(i := (loans b i)\<lparr>loanId := i, loan_state := L_Active, borrower := user, nftAsset := nft,
          nftTokenId := tokenId, reserveAsset := reserve, scaledAmount := x\<rparr>),
        userNftCollateral := (userNftCollateral b)(user := (userNftCollateral b user)(nft := userNftCollateral b user nft + 1)),
        nftTotalCollateral := (nftTotalCollateral b)(nft := nftTotalCollateral b nft + 1)\<rparr>)"

definition book_scale :: "uint \<Rightarrow> uint \<Rightarrow> loan_book \<Rightarrow> loan_book" where
  "book_scale i x = set_loan i (\<lambda>l. l\<lparr>scaledAmount := x\<rparr>)"

definition book_bid :: "uint \<Rightarrow> uint \<Rightarrow> acct \<Rightarrow> uint \<Rightarrow> uint \<Rightarrow> loan_book \<Rightarrow> loan_book" where
  "book_bid i now u bid debt = set_loan i (\<lambda>l.
     (if bidStartTimestamp l = 0 then l\<lparr>loan_state := L_Auction, bidStartTimestamp := now, firstBidderAddress := u\<rparr> else l)
       \<lparr>bidBorrowAmount := debt, bidderAddress := u, bidPrice := bid\<rparr>)"

definition book_redeem :: "uint \<Rightarrow> uint \<Rightarrow> loan_book \<Rightarrow> loan_book" where
  "book_redeem i x = set_loan i (\<lambda>l. l\<lparr>scaledAmount := x, loan_state := L_Active, bidStartTimestamp := 0,
     bidBorrowAmount := 0, bidderAddress := 0, bidPrice := 0, firstBidderAddress := 0\<rparr>)"

definition book_close :: "uint \<Rightarrow> (loan_data \<Rightarrow> loan_data) \<Rightarrow> loan_book \<Rightarrow> loan_book" where
  "book_close i f b =
     (let l = loans b i; u = borrower l; n = nftAsset l in b\<lparr>loans := (loans b)(i := f l),
        nftToLoanIds := (nftToLoanIds b)(n := (nftToLoanIds b n)(nftTokenId l := 0)),
        userNftCollateral := (userNftCollateral b)(u := (userNftCollateral b u)(n := userNftCollateral b u n - 1)),
        nftTotalCollateral := (nftTotalCollateral b)(n := nftTotalCollateral b n - 1)\<rparr>)"

lemma setFlashLoanLocking_effect:
  assumes "externals_ok E D" "setFlashLoanLocking E nft tokenId locked s = Inr (u, s')"
  shows "\<exists>w. s' = s\<lparr>external := w\<rparr> \<and> harmless E D (external s) w"
  using assms(2) by (auto simp: setFlashLoanLocking_def call_simps dest: callback_harmless(5) [OF assms(1)])

lemma handle_interceptors_effect:
  assumes "externals_ok E D"
  shows "handle_interceptors E aft cs nft tokenId msg s = Inr (u, s') \<Longrightarrow>
    \<exists>w tab. s' = s\<lparr>external := w, book := (book s)\<lparr>loanRepaidInterceptors := tab\<rparr>\<rparr> \<and> harmless E D (external s) w"
proof (induction cs arbitrary: s)
  case Nil
  then have "s' = s\<lparr>external := external s, book := (book s)\<lparr>loanRepaidInterceptors := loanRepaidInterceptors (book s)\<rparr>\<rparr>"
    by (simp add: call_simps)
  then show ?case using harmless_refl by blast
next
  case (Cons c cs)
  from Cons.prems obtain w tab where c: "call_interceptor E aft c nft tokenId (external s, loanRepaidInterceptors (book s)) = Inr (True, w, tab)"
    and rest: "handle_interceptors E aft cs nft tokenId msg
      (s\<lparr>external := w, book := (book s)\<lparr>loanRepaidInterceptors := tab\<rparr>\<rparr>) = Inr (u, s')"
    by (auto simp: call_simps split: sum.splits prod.splits)
  from Cons.IH [OF rest] obtain w' tab' where
    s': "s' = s\<lparr>external := w', book := (book s)\<lparr>loanRepaidInterceptors := tab'\<rparr>\<rparr>" and q: "harmless E D w w'"
    by auto
  from callback_harmless(7) [OF assms c] q have "harmless E D (external s) w'" by (rule harmless_trans)
  with s' show ?case by blast
qed

lemma before_effect:
  assumes "externals_ok E D" "handleBeforeLoanRepaid E nft tokenId s = Inr (u, s')"
  shows "\<exists>w tab. s' = s\<lparr>external := w, book := (book s)\<lparr>loanRepaidInterceptors := tab\<rparr>\<rparr> \<and> harmless E D (external s) w"
  using assms(2) handle_interceptors_effect [OF assms(1)] by (auto simp: handleBeforeLoanRepaid_def call_simps)

lemma after_effect:
  assumes "externals_ok E D" "handleAfterLoanRepaid E nft tokenId s = Inr (u, s')"
  shows "\<exists>w tab. s' = s\<lparr>external := w, book := (book s)\<lparr>loanRepaidInterceptors := tab\<rparr>\<rparr> \<and> harmless E D (external s) w"
  using assms(2) handle_interceptors_effect [OF assms(1)] by (auto simp: handleAfterLoanRepaid_def call_simps)

lemma take_loan_id_effect:
  "take_loan_id nft tokenId s = Inr (i, s') \<longleftrightarrow> i = loanIdTracker (book s) \<and>
     s' = s\<lparr>book := (book s)\<lparr>loanIdTracker := i + 1,
       nftToLoanIds := (nftToLoanIds (book s))(nft := (nftToLoanIds (book s) nft)(tokenId := i))\<rparr>\<rparr>"
  by (auto simp: take_loan_id_def call_simps)

lemma count_collateral_effect:
  assumes "count_collateral user nft s = Inr (u, s')"
  shows "s' = s\<lparr>book := (book s)\<lparr>
       userNftCollateral := (userNftCollateral (book s))(user := (userNftCollateral (book s) user)(nft := userNftCollateral (book s) user nft + 1)),
       nftTotalCollateral := (nftTotalCollateral (book s))(nft := nftTotalCollateral (book s) nft + 1)\<rparr>\<rparr>"
  using assms by (auto simp: count_collateral_def call_simps checked_simps)

lemma createLoan_effect:
  assumes ok: "externals_ok E D"
    and run: "createLoan E initiator user nft tokenId bNft reserve amount index s = Inr (i, s')"
  obtains x w where "rayDiv amount index = Inr x" "i = loanIdTracker (book s)" "nftToLoanIds (book s) nft tokenId = 0"
    "s' = s\<lparr>book := book_create nft tokenId user reserve x (book s), external := w\<rparr>" "harmless E D (external s) w"
proof -
  from run obtain x s1 w1 w2 where x: "rayDiv amount index = Inr x" "nftToLoanIds (book s) nft tokenId = 0"
    and s1: "take_loan_id nft tokenId s = Inr (i, s1)"
    and w: "nft_transfer E nft (loan_addr E) (pool_addr E) (loan_addr E) tokenId (external s1) = Inr w1"
      "bnft_mint E bNft user tokenId w1 = Inr w2"
    and s': "count_collateral user nft (s1\<lparr>external := w2, book := set_loan i (\<lambda>l. l\<lparr>loanId := i,
        loan_state := L_Active, borrower := user, nftAsset := nft, nftTokenId := tokenId, reserveAsset := reserve,
        scaledAmount := x\<rparr>) (book s1)\<rparr>) = Inr ((), s')"
    by (auto simp: createLoan_def call_simps)
  from s1 have i: "i = loanIdTracker (book s)" and e1: "external s1 = external s"
    by (simp_all add: take_loan_id_effect)
  from harmless_trans [OF callback_harmless(2) [OF ok w(1)] callback_harmless(3) [OF ok w(2)]] e1
  have q: "harmless E D (external s) w2" by simp
  have "s' = s\<lparr>book := book_create nft tokenId user reserve x (book s), external := w2\<rparr>"
    using count_collateral_effect [OF s'] s1 by (simp add: take_loan_id_effect book_create_def set_loan_def Let_def)
  with x i q that show ?thesis by blast
qed

lemma updateLoan_adds:
  assumes "updateLoan i amount 0 index s = Inr (u, s')" "amount \<noteq> 0"
  obtains x where "rayDiv amount index = Inr x" "loan_state (loans (book s) i) = L_Active"
    "s' = s\<lparr>book := book_scale i (scaledAmount (loans (book s) i) + x) (book s)\<rparr>"
  using assms by (auto simp: updateLoan_def call_simps checked_simps book_scale_def)

lemma updateLoan_takes:
  assumes "updateLoan i 0 amount index s = Inr (u, s')" "amount \<noteq> 0"
  obtains x where "rayDiv amount index = Inr x" "loan_state (loans (book s) i) = L_Active"
    "x \<le> scaledAmount (loans (book s) i)"
    "s' = s\<lparr>book := book_scale i (scaledAmount (loans (book s) i) - x) (book s)\<rparr>"
  using assms by (auto simp: updateLoan_def call_simps checked_simps book_scale_def)

lemma auctionLoan_effect:
  assumes ok: "externals_ok E D" and run: "auctionLoan E B i user bid debt s = Inr (u, s')"
  obtains w where "s' = s\<lparr>book := book_bid i (block_timestamp B) user bid debt (book s), external := w\<rparr>"
    "harmless E D (external s) w"
    "loan_state (loans (book s) i) = (if bidStartTimestamp (loans (book s) i) = 0 then L_Active else L_Auction)"
    "bidStartTimestamp (loans (book s) i) \<noteq> 0 \<Longrightarrow> bidPrice (loans (book s) i) < bid"
proof (cases "bidStartTimestamp (loans (book s) i) = 0")
  case True
  with run obtain t where t: "setFlashLoanLocking E (nftAsset (loans (book s) i)) (nftTokenId (loans (book s) i)) True
      (s\<lparr>book := set_loan i (\<lambda>l. l\<lparr>loan_state := L_Auction, bidStartTimestamp := block_timestamp B,
         firstBidderAddress := user\<rparr>) (book s)\<rparr>) = Inr ((), t)"
    and s': "s' = t\<lparr>book := set_loan i (\<lambda>l. l\<lparr>bidBorrowAmount := debt, bidderAddress := user, bidPrice := bid\<rparr>) (book t)\<rparr>"
    and st: "loan_state (loans (book s) i) = L_Active"
    by (auto simp: auctionLoan_def call_simps)
  from setFlashLoanLocking_effect [OF ok t] True that st s' show ?thesis
    by (auto simp: book_bid_def set_loan_def)
next
  case False
  with run have "s' = s\<lparr>book := book_bid i (block_timestamp B) user bid debt (book s), external := external s\<rparr>"
    "loan_state (loans (book s) i) = L_Auction" "bidPrice (loans (book s) i) < bid"
    by (auto simp: auctionLoan_def call_simps book_bid_def set_loan_def)
  with False that [of "external s"] show ?thesis by simp
qed

lemma redeemLoan_effect:
  assumes ok: "externals_ok E D" and run: "redeemLoan E i amount index s = Inr (u, s')"
  obtains x w where "rayDiv amount index = Inr x" "x \<le> scaledAmount (loans (book s) i)"
    "loan_state (loans (book s) i) = L_Auction"
    "s' = s\<lparr>book := book_redeem i (scaledAmount (loans (book s) i) - x) (book s), external := w\<rparr>"
    "harmless E D (external s) w"
proof -
  from run obtain x where x: "rayDiv amount index = Inr x" "x \<le> scaledAmount (loans (book s) i)"
      "loan_state (loans (book s) i) = L_Auction"
    and t: "setFlashLoanLocking E (nftAsset (loans (book s) i)) (nftTokenId (loans (book s) i)) False
      (s\<lparr>book := book_redeem i (scaledAmount (loans (book s) i) - x) (book s)\<rparr>) = Inr (u, s')"
    by (auto simp: redeemLoan_def call_simps checked_simps book_redeem_def)
  from setFlashLoanLocking_effect [OF ok t] x that show ?thesis by auto
qed

lemma close_loan_effect:
  assumes "close_loan i (loans (book s) i) (s\<lparr>book := set_loan i f (book s)\<rparr>) = Inr (u, s')"
    and "borrower (f (loans (book s) i)) = borrower (loans (book s) i)"
  shows "s' = s\<lparr>book := book_close i f (book s)\<rparr>"
    and "1 \<le> userNftCollateral (book s) (borrower (loans (book s) i)) (nftAsset (loans (book s) i))"
    and "1 \<le> nftTotalCollateral (book s) (nftAsset (loans (book s) i))"
  using assms by (auto simp: close_loan_def call_simps checked_simps book_close_def set_loan_def Let_def)

lemma close_loan_any:
  assumes "close_loan i l t = Inr (u, s')" "t = s\<lparr>book := set_loan i f (book s)\<rparr>" "l = loans (book s) i"
  shows "s' = s\<lparr>book := book_close i f (book s)\<rparr>"
  using assms by (auto simp: close_loan_def call_simps checked_simps book_close_def set_loan_def Let_def)

lemma repayLoan_effect:
  assumes ok: "externals_ok E D" and run: "repayLoan E i bNft s = Inr (u, s')"
  obtains w tab where "loan_state (loans (book s) i) = L_Active"
    "s' = s\<lparr>book := (book_close i (\<lambda>l. l\<lparr>loan_state := L_Repaid\<rparr>) (book s))\<lparr>loanRepaidInterceptors := tab\<rparr>, external := w\<rparr>"
    "harmless E D (external s) w"
proof -
  let ?l = "loans (book s) i"
  from run obtain s1 s2 w3 w4 where st: "loan_state ?l = L_Active"
    and s1: "handleBeforeLoanRepaid E (nftAsset ?l) (nftTokenId ?l) s = Inr ((), s1)"
    and s2: "close_loan i ?l (s1\<lparr>book := set_loan i (\<lambda>l. l\<lparr>loan_state := L_Repaid\<rparr>) (book s1)\<rparr>) = Inr ((), s2)"
    and w3: "bnft_burn E bNft (nftTokenId ?l) (external s2) = Inr w3"
    and w4: "nft_transfer E (nftAsset ?l) (loan_addr E) (loan_addr E) (pool_addr E) (nftTokenId ?l) w3 = Inr w4"
    and s': "handleAfterLoanRepaid E (nftAsset ?l) (nftTokenId ?l) (s2\<lparr>external := w4\<rparr>) = Inr (u, s')"
    by (auto simp: repayLoan_def call_simps)
  from before_effect [OF ok s1] obtain w1 tab where
    e1: "s1 = s\<lparr>external := w1, book := (book s)\<lparr>loanRepaidInterceptors := tab\<rparr>\<rparr>" and q1: "harmless E D (external s) w1" by blast
  from e1 have l: "?l = loans (book s1) i" by simp
  from close_loan_any [OF s2 refl l] have e2: "s2 = s1\<lparr>book := book_close i (\<lambda>l. l\<lparr>loan_state := L_Repaid\<rparr>) (book s1)\<rparr>" .
  from after_effect [OF ok s'] obtain w5 tab5 where
    e5: "s' = s2\<lparr>external := w5, book := (book s2)\<lparr>loanRepaidInterceptors := tab5\<rparr>\<rparr>" and q5: "harmless E D w4 w5"
    by (auto simp: e2)
  have "harmless E D (external s) w5"
    using harmless_trans [OF q1 harmless_trans [OF _ harmless_trans [OF callback_harmless(2) [OF ok w4] q5]]]
      callback_harmless(4) [OF ok w3] e1 e2 by simp
  moreover have "s' = s\<lparr>book := (book_close i (\<lambda>l. l\<lparr>loan_state := L_Repaid\<rparr>) (book s))\<lparr>loanRepaidInterceptors := tab5\<rparr>, external := w5\<rparr>"
    by (simp add: e5 e2 e1 book_close_def Let_def)
  ultimately show ?thesis using st that by blast
qed

lemma liquidateLoan_effect:
  assumes ok: "externals_ok E D" and run: "liquidateLoan E i bNft debt s = Inr (u, s')"
  obtains w tab where "loan_state (loans (book s) i) = L_Auction"
    "s' = s\<lparr>book := (book_close i (\<lambda>l. l\<lparr>loan_state := L_Defaulted, bidBorrowAmount := debt\<rparr>) (book s))
       \<lparr>loanRepaidInterceptors := tab\<rparr>, external := w\<rparr>"
    "harmless E D (external s) w"
proof -
  let ?l = "loans (book s) i" and ?f = "\<lambda>l. l\<lparr>loan_state := L_Defaulted, bidBorrowAmount := debt\<rparr>"
  from run obtain s1 s2 s3 w4 w5 where st: "loan_state ?l = L_Auction"
    and s1: "handleBeforeLoanRepaid E (nftAsset ?l) (nftTokenId ?l) s = Inr ((), s1)"
    and s2: "close_loan i ?l (s1\<lparr>book := set_loan i ?f (book s1)\<rparr>) = Inr ((), s2)"
    and s3: "setFlashLoanLocking E (nftAsset ?l) (nftTokenId ?l) False s2 = Inr ((), s3)"
    and w4: "bnft_burn E bNft (nftTokenId ?l) (external s3) = Inr w4"
    and w5: "nft_transfer E (nftAsset ?l) (loan_addr E) (loan_addr E) (pool_addr E) (nftTokenId ?l) w4 = Inr w5"
    and s': "handleAfterLoanRepaid E (nftAsset ?l) (nftTokenId ?l) (s3\<lparr>external := w5\<rparr>) = Inr (u, s')"
    by (auto simp: liquidateLoan_def call_simps)
  from before_effect [OF ok s1] obtain w1 tab where
    e1: "s1 = s\<lparr>external := w1, book := (book s)\<lparr>loanRepaidInterceptors := tab\<rparr>\<rparr>" and q1: "harmless E D (external s) w1" by blast
  from e1 have l: "?l = loans (book s1) i" by simp
  from close_loan_any [OF s2 refl l] have e2: "s2 = s1\<lparr>book := book_close i ?f (book s1)\<rparr>" .
  from setFlashLoanLocking_effect [OF ok s3] obtain w3 where e3: "s3 = s2\<lparr>external := w3\<rparr>" and q3: "harmless E D w1 w3"
    by (auto simp: e1 e2)
  from after_effect [OF ok s'] obtain w6 tab6 where
    e6: "s' = s3\<lparr>external := w6, book := (book s3)\<lparr>loanRepaidInterceptors := tab6\<rparr>\<rparr>" and q6: "harmless E D w5 w6"
    by (auto simp: e2)
  have "harmless E D w3 w6"
    using harmless_trans [OF callback_harmless(4) [OF ok w4] harmless_trans [OF callback_harmless(2) [OF ok w5] q6]] e3 by simp
  with harmless_trans [OF q1 q3] have "harmless E D (external s) w6" by (rule harmless_trans)
  moreover have "s' = s\<lparr>book := (book_close i ?f (book s))\<lparr>loanRepaidInterceptors := tab6\<rparr>, external := w6\<rparr>"
    by (simp add: e6 e3 e2 e1 book_close_def Let_def)
  ultimately show ?thesis using st that by blast
qed

end
