(* ===== verification/PoolLogic.thy ===== *)
theory PoolLogic
  imports LendPoolLoan
begin

text \<open>
  The operations of the pool: the prices, debts and health factors of \<open>contracts/libraries/logic/GenericLogic.sol\<close>,
  the guards of \<open>ValidationLogic.sol\<close>, and what \<open>SupplyLogic.sol\<close>, \<open>BorrowLogic.sol\<close> and \<open>LiquidateLogic.sol\<close>
  do, each a sequence of calls of the reserve, the book of loans and the tokens, as \<open>LendPool.sol\<close> enters them.
\<close>

section \<open>GenericLogic.sol\<close>

definition HEALTH_FACTOR_LIQUIDATION_THRESHOLD :: uint where "HEALTH_FACTOR_LIQUIDATION_THRESHOLD = 10 ^ 18"

definition nft_ltv :: "nft_data \<Rightarrow> uint" where "nft_ltv nd = unat (getLtv (n_configuration nd))"
definition nft_threshold :: "nft_data \<Rightarrow> uint" where
  "nft_threshold nd = unat (getLiquidationThreshold (n_configuration nd))"
definition nft_bonus :: "nft_data \<Rightarrow> uint" where "nft_bonus nd = unat (getLiquidationBonus (n_configuration nd))"

definition reserve_unit :: "reserve_data \<Rightarrow> revert + uint" where
  "reserve_unit rd = pow256 10 (unat (getDecimals (r_configuration rd)))"

definition calculateNftDebtData :: "block_data \<Rightarrow> acct \<Rightarrow> uint \<Rightarrow> ('h, uint \<times> uint) call" where
  "calculateNftDebtData B reserve i =
     cbind (cget (\<lambda>s. reserves s reserve)) (\<lambda>rd.
     cbind (clift (reserve_unit rd)) (\<lambda>reserveUnit.
     cbind (clift (reserve_price B reserve)) (\<lambda>reserveUnitPrice.
     cbind (getLoanReserveBorrowAmount B i) (\<lambda>totalDebtInReserve.
     cbind (clift (sbind (mul256 totalDebtInReserve reserveUnitPrice) (\<lambda>p. div256 p reserveUnit))) (\<lambda>totalDebtInETH.
     ret (totalDebtInETH, totalDebtInReserve))))))"

definition calculateNftCollateralData :: "block_data \<Rightarrow> acct \<Rightarrow> acct \<Rightarrow> ('h, uint \<times> uint) call" where
  "calculateNftCollateralData B reserve nft =
     cbind (clift (nft_price B nft)) (\<lambda>nftUnitPrice.
     if reserve \<noteq> 0 then
       cbind (cget (\<lambda>s. reserves s reserve)) (\<lambda>rd.
       cbind (clift (reserve_unit rd)) (\<lambda>reserveUnit.
       cbind (clift (reserve_price B reserve)) (\<lambda>reserveUnitPrice.
       cbind (clift (sbind (mul256 nftUnitPrice reserveUnit) (\<lambda>p. div256 p reserveUnitPrice))) (\<lambda>inReserve.
       ret (nftUnitPrice, inReserve)))))
     else ret (nftUnitPrice, 0))"

definition calculateHealthFactorFromBalances :: "uint \<Rightarrow> uint \<Rightarrow> uint \<Rightarrow> revert + uint" where
  "calculateHealthFactorFromBalances totalCollateral totalDebt threshold =
     (if totalDebt = 0 then Inr uint256_max
      else sbind (percentMul totalCollateral threshold) (\<lambda>x. wadDiv x totalDebt))"

definition calculateLoanData :: "block_data \<Rightarrow> acct \<Rightarrow> acct \<Rightarrow> uint \<Rightarrow> ('h, uint \<times> uint \<times> uint) call" where
  "calculateLoanData B reserve nft i =
     cbind (cget (\<lambda>s. nft_threshold (nfts s nft))) (\<lambda>threshold.
     cbind (if i \<noteq> 0 then calculateNftDebtData B reserve i else ret (0, 0)) (\<lambda>(debtETH, totalDebtInReserve).
     cbind (calculateNftCollateralData B reserve nft) (\<lambda>(collETH, totalCollateralInReserve).
     cbind (clift (calculateHealthFactorFromBalances totalCollateralInReserve totalDebtInReserve threshold)) (\<lambda>healthFactor.
     ret (totalCollateralInReserve, totalDebtInReserve, healthFactor)))))"

definition calculateAvailableBorrows :: "uint \<Rightarrow> uint \<Rightarrow> uint \<Rightarrow> revert + uint" where
  "calculateAvailableBorrows totalCollateral totalDebt ltv =
     sbind (percentMul totalCollateral ltv) (\<lambda>availableBorrows.
     if availableBorrows < totalDebt then Inr 0 else sub256 availableBorrows totalDebt)"

definition calculateLoanLiquidatePrice :: "block_data \<Rightarrow> uint \<Rightarrow> acct \<Rightarrow> acct \<Rightarrow> ('h, uint \<times> uint \<times> uint) call" where
  "calculateLoanLiquidatePrice B i reserve nft =
     cbind (cget (\<lambda>s. reserves s reserve)) (\<lambda>rd.
     cbind (getLoanReserveBorrowAmount B i) (\<lambda>borrowAmount.
     cbind (cget (\<lambda>s. nfts s nft)) (\<lambda>nd.
     cbind (clift (nft_price B nft)) (\<lambda>nftPriceInETH.
     cbind (clift (reserve_price B reserve)) (\<lambda>reservePriceInETH.
     cbind (clift (reserve_unit rd)) (\<lambda>unit.
     cbind (clift (sbind (mul256 unit nftPriceInETH) (\<lambda>p. div256 p reservePriceInETH))) (\<lambda>nftPriceInReserve.
     cbind (clift (percentMul nftPriceInReserve (nft_threshold nd))) (\<lambda>thresholdPrice.
     cbind (clift (if nft_bonus nd < percentage_factor
                   then sbind (sub256 percentage_factor (nft_bonus nd)) (percentMul nftPriceInReserve)
                   else Inr 0)) (\<lambda>discounted.
     ret (borrowAmount, thresholdPrice, if discounted < borrowAmount then borrowAmount else discounted))))))))))"

definition calculateLoanBidFine :: "block_data \<Rightarrow> acct \<Rightarrow> acct \<Rightarrow> loan_data \<Rightarrow> ('h, uint \<times> uint) call" where
  "calculateLoanBidFine B reserve nft loan =
     (if bidPrice loan = 0 then ret (0, 0) else
      cbind (cget (\<lambda>s. reserves s reserve)) (\<lambda>rd.
      cbind (cget (\<lambda>s. n_configuration (nfts s nft))) (\<lambda>cfg.
      cbind (clift (reserve_price B reserve)) (\<lambda>reservePriceInETH.
      cbind (clift (sbind (reserve_unit rd) (\<lambda>unit. sbind (mul256 (10 ^ 18) unit) (\<lambda>p. div256 p reservePriceInETH)))) (\<lambda>baseBidFine.
      cbind (clift (percentMul baseBidFine (unat (getMinBidFine cfg)))) (\<lambda>minBidFine.
      cbind (getLoanReserveBorrowAmount B (loanId loan)) (\<lambda>debtAmount.
      cbind (clift (percentMul debtAmount (unat (getRedeemFine cfg)))) (\<lambda>bidFine.
      ret (minBidFine, if bidFine < minBidFine then minBidFine else bidFine)))))))))"

text \<open>The end of an auction or of the time to redeem, prolonged by a pause during the auction\<close>

definition end_timestamp :: "loan_data \<Rightarrow> uint \<Rightarrow> ('h, uint) call" where
  "end_timestamp loan hours =
     cbind (cget (\<lambda>s. if 0 < pauseDurationTime s \<and> bidStartTimestamp loan \<le> pauseStartTime s
                      then pauseDurationTime s else 0)) (\<lambda>extraDuration.
     clift (sbind (add256 (bidStartTimestamp loan) extraDuration) (\<lambda>t.
            sbind (mul256 hours 3600) (\<lambda>d. add256 t d))))"

definition auction_hours :: "nft_data \<Rightarrow> uint" where
  "auction_hours nd = unat (getAuctionDuration (n_configuration nd))"
definition redeem_hours :: "nft_data \<Rightarrow> uint" where
  "redeem_hours nd = unat (getRedeemDuration (n_configuration nd))"

section \<open>ValidationLogic.sol\<close>

definition validateDeposit :: "reserve_data \<Rightarrow> uint \<Rightarrow> ('h, unit) call" where
  "validateDeposit rd amount =
     cthen (crequire (amount \<noteq> 0) ''VL_INVALID_AMOUNT'')
     (cthen (crequire (getActive (r_configuration rd)) ''VL_NO_ACTIVE_RESERVE'')
     (crequire (\<not> getFrozen (r_configuration rd)) ''VL_RESERVE_FROZEN''))"

definition validateWithdraw :: "reserve_data \<Rightarrow> uint \<Rightarrow> uint \<Rightarrow> ('h, unit) call" where
  "validateWithdraw rd amount userBalance =
     cthen (crequire (amount \<noteq> 0) ''VL_INVALID_AMOUNT'')
     (cthen (crequire (amount \<le> userBalance) ''VL_NOT_ENOUGH_AVAILABLE_USER_BALANCE'')
     (crequire (getActive (r_configuration rd)) ''VL_NO_ACTIVE_RESERVE''))"

text \<open>The guards that \<open>validateRepay\<close>, \<open>validateAuction\<close>, \<open>validateRedeem\<close> and \<open>validateLiquidate\<close> begin with\<close>

definition validate_market :: "reserve_data \<Rightarrow> nft_data \<Rightarrow> ('h, unit) call" where
  "validate_market rd nd =
     cthen (crequire (bNftAddress nd \<noteq> 0) ''LPC_INVALIED_BNFT_ADDRESS'')
     (cthen (crequire (bTokenAddress rd \<noteq> 0) ''VL_INVALID_RESERVE_ADDRESS'')
     (cthen (crequire (getActive (r_configuration rd)) ''VL_NO_ACTIVE_RESERVE'')
     (crequire (getActive (n_configuration nd)) ''VL_NO_ACTIVE_NFT'')))"

definition validateRepay :: "reserve_data \<Rightarrow> nft_data \<Rightarrow> loan_data \<Rightarrow> uint \<Rightarrow> uint \<Rightarrow> ('h, unit) call" where
  "validateRepay rd nd loan amountSent borrowAmount =
     cthen (validate_market rd nd)
     (cthen (crequire (0 < amountSent) ''VL_INVALID_AMOUNT'')
     (cthen (crequire (0 < borrowAmount) ''VL_NO_DEBT_OF_SELECTED_TYPE'')
     (crequire (loan_state loan = L_Active) ''LPL_INVALID_LOAN_STATE'')))"

definition validateAuction :: "reserve_data \<Rightarrow> nft_data \<Rightarrow> loan_data \<Rightarrow> uint \<Rightarrow> ('h, unit) call" where
  "validateAuction rd nd loan bid =
     cthen (validate_market rd nd)
     (cthen (crequire (loan_state loan = L_Active \<or> loan_state loan = L_Auction) ''LPL_INVALID_LOAN_STATE'')
     (crequire (0 < bid) ''VL_INVALID_AMOUNT''))"

definition validateRedeem :: "reserve_data \<Rightarrow> nft_data \<Rightarrow> loan_data \<Rightarrow> uint \<Rightarrow> ('h, unit) call" where
  "validateRedeem rd nd loan amount =
     cthen (validate_market rd nd)
     (cthen (crequire (loan_state loan = L_Auction) ''LPL_INVALID_LOAN_STATE'')
     (cthen (crequire (bidderAddress loan \<noteq> 0) ''LPL_INVALID_BIDDER_ADDRESS'')
     (crequire (0 < amount) ''VL_INVALID_AMOUNT'')))"

definition validateLiquidate :: "reserve_data \<Rightarrow> nft_data \<Rightarrow> loan_data \<Rightarrow> ('h, unit) call" where
  "validateLiquidate rd nd loan =
     cthen (validate_market rd nd)
     (cthen (crequire (loan_state loan = L_Auction) ''LPL_INVALID_LOAN_STATE'')
     (crequire (bidderAddress loan \<noteq> 0) ''LPL_INVALID_BIDDER_ADDRESS''))"

definition validate_loan :: "acct \<Rightarrow> acct \<Rightarrow> uint \<Rightarrow> ('h, unit) call" where
  "validate_loan user reserve i =
     (if i \<noteq> 0 then
        cbind (cget (\<lambda>s. loans (book s) i)) (\<lambda>loan.
        cthen (crequire (loan_state loan = L_Active) ''LPL_INVALID_LOAN_STATE'')
        (cthen (crequire (reserve = reserveAsset loan) ''VL_SPECIFIED_RESERVE_NOT_BORROWED_BY_USER'')
        (crequire (user = borrower loan) ''VL_SPECIFIED_LOAN_NOT_BORROWED_BY_USER'')))
      else ret ())"

definition validate_flags :: "block_data \<Rightarrow> acct \<Rightarrow> reserve_data \<Rightarrow> nft_data \<Rightarrow> ('h, unit) call" where
  "validate_flags B nft rd nd =
     (let (isActive, isFrozen, borrowingEnabled, stable) = getFlags (r_configuration rd) in
      cthen (crequire isActive ''VL_NO_ACTIVE_RESERVE'')
      (cthen (crequire (\<not> isFrozen) ''VL_RESERVE_FROZEN'')
      (cthen (crequire borrowingEnabled ''VL_BORROWING_NOT_ENABLED'')
      (cthen (crequire (getActive (n_configuration nd)) ''VL_NO_ACTIVE_NFT'')
      (cthen (crequire (\<not> getFrozen (n_configuration nd)) ''VL_NFT_FROZEN'')
      (crequire (\<not> price_stale B nft) ''VL_PRICE_STALE''))))))"

definition validate_utilization :: "'h externals \<Rightarrow> acct \<Rightarrow> uint \<Rightarrow> reserve_data \<Rightarrow> ('h, unit) call" where
  "validate_utilization E reserve amount rd =
     cbind (cget (\<lambda>s. token_balance E reserve (bTokenAddress rd) (external s))) (\<lambda>availableLiquidity.
     cbind (cget (\<lambda>s. token_supply E (debtTokenAddress rd) (external s))) (\<lambda>scaled.
     cbind (clift (sbind (rayMul scaled (variableBorrowIndex rd)) (\<lambda>d. add256 d amount))) (\<lambda>totalDebt.
     cbind (clift (sbind (add256 availableLiquidity totalDebt) (rayDiv totalDebt))) (\<lambda>utilizationRate.
     crequire (utilizationRate \<le> maxUtilizationRate rd) ''VL_EXCEED_MAX_UTILIZATION_RATE''))))"

definition validate_collateral :: "block_data \<Rightarrow> acct \<Rightarrow> uint \<Rightarrow> acct \<Rightarrow> uint \<Rightarrow> ('h, unit) call" where
  "validate_collateral B reserve amount nft i =
     cbind (cget (\<lambda>s. nft_ltv (nfts s nft))) (\<lambda>ltv.
     cbind (calculateLoanData B reserve nft i) (\<lambda>(userCollateralBalance, userBorrowBalance, healthFactor).
     cthen (crequire (0 < userCollateralBalance) ''VL_COLLATERAL_BALANCE_IS_0'')
     (cthen (crequire (HEALTH_FACTOR_LIQUIDATION_THRESHOLD < healthFactor) ''VL_HEALTH_FACTOR_LOWER_THAN_LIQUIDATION_THRESHOLD'')
     (cbind (clift (sbind (add256 userBorrowBalance amount) (\<lambda>d. percentDiv d ltv))) (\<lambda>amountOfCollateralNeeded.
     crequire (amountOfCollateralNeeded \<le> userCollateralBalance) ''VL_COLLATERAL_CANNOT_COVER_NEW_BORROW'')))))"

definition validateBorrow :: "'h externals \<Rightarrow> block_data \<Rightarrow> acct \<Rightarrow> acct \<Rightarrow> uint \<Rightarrow> acct \<Rightarrow> uint \<Rightarrow> ('h, unit) call" where
  "validateBorrow E B user reserve amount nft i =
     cbind (cget (\<lambda>s. reserves s reserve)) (\<lambda>rd.
     cbind (cget (\<lambda>s. nfts s nft)) (\<lambda>nd.
     cthen (crequire (bTokenAddress rd \<noteq> 0) ''VL_INVALID_RESERVE_ADDRESS'')
     (cthen (crequire (bNftAddress nd \<noteq> 0) ''LPC_INVALIED_BNFT_ADDRESS'')
     (cthen (crequire (0 < amount) ''VL_INVALID_AMOUNT'')
     (cthen (validate_loan user reserve i)
     (cthen (validate_flags B nft rd nd)
     (cthen (validate_utilization E reserve amount rd)
     (validate_collateral B reserve amount nft i))))))))"

section \<open>SupplyLogic.sol\<close>

definition executeDeposit :: "'h externals \<Rightarrow> block_data \<Rightarrow> acct \<Rightarrow> acct \<Rightarrow> uint \<Rightarrow> acct \<Rightarrow> ('h, unit) call" where
  "executeDeposit E B initiator asset amount onBehalfOf =
     cthen (crequire (onBehalfOf \<noteq> 0) ''VL_INVALID_ONBEHALFOF_ADDRESS'')
     (cbind (cget (\<lambda>s. reserves s asset)) (\<lambda>rd.
      let bToken = bTokenAddress rd in
      cthen (crequire (bToken \<noteq> 0) ''VL_INVALID_RESERVE_ADDRESS'')
      (cthen (validateDeposit rd amount)
      (cthen (updateState E B asset)
      (cthen (updateInterestRates E asset amount 0)
      (cthen (cext (token_transfer_from E asset (pool_addr E) initiator bToken amount))
      (cbind (cget (\<lambda>s. liquidityIndex (reserves s asset))) (\<lambda>index.
       cthen (BToken_mint E bToken onBehalfOf amount index) (ret ())))))))))"

definition BToken_balanceOf :: "'h externals \<Rightarrow> block_data \<Rightarrow> acct \<Rightarrow> acct \<Rightarrow> acct \<Rightarrow> ('h, uint) call" where
  "BToken_balanceOf E B bToken underlying user =
     cbind (cget (\<lambda>s. token_balance E bToken user (external s))) (\<lambda>scaled.
     cbind (cget (\<lambda>s. reserves s underlying)) (\<lambda>rd.
     cbind (clift (getNormalizedIncome B rd)) (\<lambda>income.
     clift (rayMul scaled income))))"

definition executeWithdraw :: "'h externals \<Rightarrow> block_data \<Rightarrow> acct \<Rightarrow> acct \<Rightarrow> uint \<Rightarrow> acct \<Rightarrow> ('h, uint) call" where
  "executeWithdraw E B initiator asset amount receiver =
     cthen (crequire (receiver \<noteq> 0) ''VL_INVALID_TARGET_ADDRESS'')
     (cbind (cget (\<lambda>s. reserves s asset)) (\<lambda>rd.
      let bToken = bTokenAddress rd in
      cthen (crequire (bToken \<noteq> 0) ''VL_INVALID_RESERVE_ADDRESS'')
      (cbind (BToken_balanceOf E B bToken asset initiator) (\<lambda>userBalance.
       let amountToWithdraw = (if amount = uint256_max then userBalance else amount) in
       cthen (validateWithdraw rd amountToWithdraw userBalance)
       (cthen (updateState E B asset)
       (cthen (updateInterestRates E asset 0 amountToWithdraw)
       (cbind (cget (\<lambda>s. liquidityIndex (reserves s asset))) (\<lambda>index.
        cthen (BToken_burn E bToken asset initiator receiver amountToWithdraw index)
        (ret amountToWithdraw)))))))))"

section \<open>BorrowLogic.sol\<close>

text \<open>
  The loan of an NFT that is no collateral yet is created, and the NFT pulled from the initiator; otherwise the
  loan is increased.
\<close>

definition open_or_draw :: "'h externals \<Rightarrow> acct \<Rightarrow> acct \<Rightarrow> uint \<Rightarrow> acct \<Rightarrow> uint \<Rightarrow> acct \<Rightarrow> nft_data \<Rightarrow> uint \<Rightarrow> uint \<Rightarrow> ('h, unit) call" where
  "open_or_draw E initiator asset amount nft tokenId onBehalfOf nd i index =
     (if i = 0 then
        cbind (cget (\<lambda>s. nft_supply E (bNftAddress nd) (external s))) (\<lambda>bnftTotalSupply.
        cthen (crequire (bnftTotalSupply < maxCollateralCap nd) ''LP_NFT_COLLATERAL_NUM_EXCEED_CAP_LIMIT'')
        (cthen (cext (nft_transfer E nft (pool_addr E) initiator (pool_addr E) tokenId))
        (cthen (createLoan E initiator onBehalfOf nft tokenId (bNftAddress nd) asset amount index)
        (ret ()))))
      else updateLoan i amount 0 index)"

definition executeBorrow :: "'h externals \<Rightarrow> block_data \<Rightarrow> acct \<Rightarrow> acct \<Rightarrow> uint \<Rightarrow> acct \<Rightarrow> uint \<Rightarrow> acct \<Rightarrow> ('h, unit) call" where
  "executeBorrow E B initiator asset amount nft tokenId onBehalfOf =
     cthen (crequire (onBehalfOf \<noteq> 0) ''VL_INVALID_ONBEHALFOF_ADDRESS'')
     (cthen (updateState E B asset)
     (cbind (cget (\<lambda>s. nftToLoanIds (book s) nft tokenId)) (\<lambda>i.
      cbind (cget (\<lambda>s. nfts s nft)) (\<lambda>nd.
      cbind (cget (\<lambda>s. nft_supply E nft (external s))) (\<lambda>totalSupply.
      cthen (crequire (totalSupply \<le> nft_maxSupply nd) ''LP_NFT_SUPPLY_NUM_EXCEED_MAX_LIMIT'')
      (cthen (crequire (tokenId \<le> nft_maxTokenId nd) ''LP_NFT_TOKEN_ID_EXCEED_MAX_LIMIT'')
      (cthen (validateBorrow E B onBehalfOf asset amount nft i)
      (cbind (cget (\<lambda>s. reserves s asset)) (\<lambda>rd.
      cthen (open_or_draw E initiator asset amount nft tokenId onBehalfOf nd i (variableBorrowIndex rd))
      (cthen (DebtToken_mint E (debtTokenAddress rd) initiator onBehalfOf amount (variableBorrowIndex rd))
      (cthen (updateInterestRates E asset 0 amount)
      (cthen (transferUnderlyingTo E (bTokenAddress rd) asset initiator amount)
      (ret ())))))))))))))"

definition executeRepay :: "'h externals \<Rightarrow> block_data \<Rightarrow> acct \<Rightarrow> acct \<Rightarrow> uint \<Rightarrow> uint \<Rightarrow> ('h, uint \<times> bool) call" where
  "executeRepay E B initiator nft tokenId amount =
     cbind (cget (\<lambda>s. nftToLoanIds (book s) nft tokenId)) (\<lambda>i.
     cthen (crequire (i \<noteq> 0) ''LP_NFT_IS_NOT_USED_AS_COLLATERAL'')
     (cbind (cget (\<lambda>s. loans (book s) i)) (\<lambda>loan.
      let asset = reserveAsset loan in
      cthen (updateState E B asset)
      (cbind (getLoanReserveBorrowAmount B i) (\<lambda>borrowAmount.
       cbind (cget (\<lambda>s. reserves s asset)) (\<lambda>rd.
       cbind (cget (\<lambda>s. nfts s (nftAsset loan))) (\<lambda>nd.
       cthen (validateRepay rd nd loan amount borrowAmount)
       (let isUpdate = amount < borrowAmount; repayAmount = (if isUpdate then amount else borrowAmount) in
        cthen (if isUpdate then updateLoan i 0 repayAmount (variableBorrowIndex rd)
               else repayLoan E i (bNftAddress nd))
        (cthen (DebtToken_burn E (debtTokenAddress rd) (borrower loan) repayAmount (variableBorrowIndex rd))
        (cthen (updateInterestRates E asset repayAmount 0)
        (cthen (cext (token_transfer_from E asset (pool_addr E) initiator (bTokenAddress rd) repayAmount))
        (cthen (if \<not> isUpdate
                then cext (nft_transfer E (nftAsset loan) (pool_addr E) (pool_addr E) (borrower loan) tokenId)
                else ret ())
        (ret (repayAmount, \<not> isUpdate))))))))))))))"

text \<open>The batches: one after the other, all or nothing\<close>

fun batch_borrow :: "'h externals \<Rightarrow> block_data \<Rightarrow> acct \<Rightarrow> (acct \<times> uint \<times> acct \<times> uint) list \<Rightarrow> acct \<Rightarrow> ('h, unit) call" where
  "batch_borrow E B initiator [] onBehalfOf = ret ()"
| "batch_borrow E B initiator ((asset, amount, nft, tokenId) # ps) onBehalfOf =
     cthen (executeBorrow E B initiator asset amount nft tokenId onBehalfOf)
     (batch_borrow E B initiator ps onBehalfOf)"

definition executeBatchBorrow ::
    "'h externals \<Rightarrow> block_data \<Rightarrow> acct \<Rightarrow> acct list \<Rightarrow> uint list \<Rightarrow> acct list \<Rightarrow> uint list \<Rightarrow> acct \<Rightarrow> ('h, unit) call" where
  "executeBatchBorrow E B initiator assets amounts nftAssets nftTokenIds onBehalfOf =
     cthen (crequire (length nftAssets = length assets) ''inconsistent assets length'')
     (cthen (crequire (length nftAssets = length amounts) ''inconsistent amounts length'')
     (cthen (crequire (length nftAssets = length nftTokenIds) ''inconsistent tokenIds length'')
     (batch_borrow E B initiator (zip assets (zip amounts (zip nftAssets nftTokenIds))) onBehalfOf)))"

fun batch_repay :: "'h externals \<Rightarrow> block_data \<Rightarrow> acct \<Rightarrow> (acct \<times> uint \<times> uint) list \<Rightarrow> ('h, (uint \<times> bool) list) call" where
  "batch_repay E B initiator [] = ret []"
| "batch_repay E B initiator ((nft, tokenId, amount) # ps) =
     cbind (executeRepay E B initiator nft tokenId amount) (\<lambda>r.
     cbind (batch_repay E B initiator ps) (\<lambda>rs. ret (r # rs)))"

definition executeBatchRepay ::
    "'h externals \<Rightarrow> block_data \<Rightarrow> acct \<Rightarrow> acct list \<Rightarrow> uint list \<Rightarrow> uint list \<Rightarrow> ('h, (uint \<times> bool) list) call" where
  "executeBatchRepay E B initiator nftAssets nftTokenIds amounts =
     cthen (crequire (length nftAssets = length amounts) ''inconsistent amounts length'')
     (cthen (crequire (length nftAssets = length nftTokenIds) ''inconsistent tokenIds length'')
     (batch_repay E B initiator (zip nftAssets (zip nftTokenIds amounts))))"

section \<open>LiquidateLogic.sol\<close>

text \<open>The requirements on a bid: a first bid needs an unhealthy loan, a further one beats the highest by one percent.\<close>

definition check_bid :: "block_data \<Rightarrow> nft_data \<Rightarrow> loan_data \<Rightarrow> uint \<Rightarrow> uint \<Rightarrow> uint \<Rightarrow> uint \<Rightarrow> ('h, unit) call" where
  "check_bid B nd loan bid borrowAmount thresholdPrice liquidatePrice =
     (if loan_state loan = L_Active then
        cthen (crequire (thresholdPrice < borrowAmount) ''LP_BORROW_NOT_EXCEED_LIQUIDATION_THRESHOLD'')
        (cthen (crequire (borrowAmount \<le> bid) ''LPL_BID_PRICE_LESS_THAN_BORROW'')
        (crequire (liquidatePrice \<le> bid) ''LPL_BID_PRICE_LESS_THAN_LIQUIDATION_PRICE''))
      else
        cthen (crequire (borrowAmount \<le> bid) ''LPL_BID_PRICE_LESS_THAN_BORROW'')
        (cbind (end_timestamp loan (auction_hours nd)) (\<lambda>auctionEndTimestamp.
         cthen (crequire (block_timestamp B \<le> auctionEndTimestamp) ''LPL_BID_AUCTION_DURATION_HAS_END'')
         (cbind (clift (percentMul borrowAmount one_percent)) (\<lambda>minBidDelta.
          cbind (clift (add256 (bidPrice loan) minBidDelta)) (\<lambda>least.
          crequire (least \<le> bid) ''LPL_BID_PRICE_LESS_THAN_HIGHEST_PRICE''))))))"

definition executeAuction :: "'h externals \<Rightarrow> block_data \<Rightarrow> acct \<Rightarrow> acct \<Rightarrow> uint \<Rightarrow> uint \<Rightarrow> acct \<Rightarrow> ('h, unit) call" where
  "executeAuction E B initiator nft tokenId bid onBehalfOf =
     cthen (crequire (onBehalfOf \<noteq> 0) ''VL_INVALID_ONBEHALFOF_ADDRESS'')
     (cbind (cget (\<lambda>s. nftToLoanIds (book s) nft tokenId)) (\<lambda>i.
      cthen (crequire (i \<noteq> 0) ''LP_NFT_IS_NOT_USED_AS_COLLATERAL'')
      (cbind (cget (\<lambda>s. loans (book s) i)) (\<lambda>loan.
       let asset = reserveAsset loan in
       cbind (cget (\<lambda>s. reserves s asset)) (\<lambda>rd.
       cbind (cget (\<lambda>s. nfts s (nftAsset loan))) (\<lambda>nd.
       cthen (validateAuction rd nd loan bid)
       (cthen (updateState E B asset)
       (cbind (calculateLoanLiquidatePrice B i asset (nftAsset loan)) (\<lambda>(borrowAmount, thresholdPrice, liquidatePrice).
        cthen (check_bid B nd loan bid borrowAmount thresholdPrice liquidatePrice)
        (cthen (auctionLoan E B i onBehalfOf bid borrowAmount)
        (cthen (cext (token_transfer_from E asset (pool_addr E) initiator (pool_addr E) bid))
        (cthen (if bidderAddress loan \<noteq> 0
                then cext (token_transfer E asset (pool_addr E) (bidderAddress loan) (bidPrice loan))
                else ret ())
        (updateInterestRates E asset 0 0)))))))))))))"

definition executeRedeem :: "'h externals \<Rightarrow> block_data \<Rightarrow> acct \<Rightarrow> acct \<Rightarrow> uint \<Rightarrow> uint \<Rightarrow> uint \<Rightarrow> ('h, uint) call" where
  "executeRedeem E B initiator nft tokenId amount fine =
     cbind (cget (\<lambda>s. nftToLoanIds (book s) nft tokenId)) (\<lambda>i.
     cthen (crequire (i \<noteq> 0) ''LP_NFT_IS_NOT_USED_AS_COLLATERAL'')
     (cbind (cget (\<lambda>s. loans (book s) i)) (\<lambda>loan.
      let asset = reserveAsset loan in
      cbind (cget (\<lambda>s. reserves s asset)) (\<lambda>rd.
      cbind (cget (\<lambda>s. nfts s (nftAsset loan))) (\<lambda>nd.
      cthen (validateRedeem rd nd loan amount)
      (cbind (end_timestamp loan (redeem_hours nd)) (\<lambda>redeemEndTimestamp.
       cthen (crequire (block_timestamp B \<le> redeemEndTimestamp) ''LPL_BID_REDEEM_DURATION_HAS_END'')
       (cthen (updateState E B asset)
       (cbind (calculateLoanLiquidatePrice B i asset (nftAsset loan)) (\<lambda>(borrowAmount, thresholdPrice, liquidatePrice).
        cbind (calculateLoanBidFine B asset (nftAsset loan) loan) (\<lambda>(minBidFine, bidFine).
        cthen (crequire (bidFine \<le> fine) ''LPL_INVALID_BID_FINE'')
        (cbind (clift (percentMul borrowAmount (unat (getRedeemThreshold (n_configuration nd))))) (\<lambda>minRepayAmount.
         cthen (crequire (minRepayAmount \<le> amount) ''LP_AMOUNT_LESS_THAN_REDEEM_THRESHOLD'')
         (cbind (clift (sbind (sub256 percentage_factor ten_percent) (percentMul borrowAmount))) (\<lambda>maxRepayAmount.
          cthen (crequire (amount \<le> maxRepayAmount) ''LP_AMOUNT_GREATER_THAN_MAX_REPAY'')
          (cbind (cget (\<lambda>s. reserves s asset)) (\<lambda>rd.
           cthen (redeemLoan E i amount (variableBorrowIndex rd))
           (cthen (DebtToken_burn E (debtTokenAddress rd) (borrower loan) amount (variableBorrowIndex rd))
           (cthen (updateInterestRates E asset amount 0)
           (cthen (cext (token_transfer_from E asset (pool_addr E) initiator (bTokenAddress rd) amount))
           (cthen (if bidderAddress loan \<noteq> 0 then
                     cthen (cext (token_transfer E asset (pool_addr E) (bidderAddress loan) (bidPrice loan)))
                     (cext (token_transfer_from E asset (pool_addr E) initiator (firstBidderAddress loan) bidFine))
                   else ret ())
           (clift (add256 amount bidFine)))))))))))))))))))))))"

definition executeLiquidate :: "'h externals \<Rightarrow> block_data \<Rightarrow> acct \<Rightarrow> acct \<Rightarrow> uint \<Rightarrow> uint \<Rightarrow> ('h, uint) call" where
  "executeLiquidate E B initiator nft tokenId amount =
     cbind (cget (\<lambda>s. nftToLoanIds (book s) nft tokenId)) (\<lambda>i.
     cthen (crequire (i \<noteq> 0) ''LP_NFT_IS_NOT_USED_AS_COLLATERAL'')
     (cbind (cget (\<lambda>s. loans (book s) i)) (\<lambda>loan.
      let asset = reserveAsset loan in
      cbind (cget (\<lambda>s. reserves s asset)) (\<lambda>rd.
      cbind (cget (\<lambda>s. nfts s (nftAsset loan))) (\<lambda>nd.
      cthen (validateLiquidate rd nd loan)
      (cbind (end_timestamp loan (auction_hours nd)) (\<lambda>auctionEndTimestamp.
       cthen (crequire (auctionEndTimestamp < block_timestamp B) ''LPL_BID_AUCTION_DURATION_NOT_END'')
       (cthen (updateState E B asset)
       (cbind (calculateLoanLiquidatePrice B i asset (nftAsset loan)) (\<lambda>(borrowAmount, thresholdPrice, liquidatePrice).
        let extraDebtAmount = (if bidPrice loan < borrowAmount then borrowAmount - bidPrice loan else 0);
            remainAmount = (if borrowAmount < bidPrice loan then bidPrice loan - borrowAmount else 0) in
        cthen (crequire (bidPrice loan < borrowAmount \<longrightarrow> extraDebtAmount \<le> amount) ''LP_AMOUNT_LESS_THAN_EXTRA_DEBT'')
        (cbind (cget (\<lambda>s. reserves s asset)) (\<lambda>rd.
         cthen (liquidateLoan E i (bNftAddress nd) borrowAmount)
         (cthen (DebtToken_burn E (debtTokenAddress rd) (borrower loan) borrowAmount (variableBorrowIndex rd))
         (cthen (updateInterestRates E asset borrowAmount 0)
         (cthen (if 0 < extraDebtAmount
                 then cext (token_transfer_from E asset (pool_addr E) initiator (pool_addr E) extraDebtAmount) else ret ())
         (cthen (cext (token_transfer E asset (pool_addr E) (bTokenAddress rd) borrowAmount))
         (cthen (if 0 < remainAmount
                 then cext (token_transfer E asset (pool_addr E) (borrower loan) remainAmount) else ret ())
         (cthen (cext (nft_transfer E (nftAsset loan) (pool_addr E) (pool_addr E) (bidderAddress loan) tokenId))
         (ret extraDebtAmount)))))))))))))))))))"

end
