(* ===== verification/LoanEvents.thy ===== *)
theory LoanEvents
  imports LendPoolLoan
begin

text \<open>
  The specification of the book of loans: seven events that change it, when each may happen, and what each means
  for the debt of an account and for the bids that the pool keeps. The operations of the pool are shown to be
  such events; here the book is shown to stay in order under every sequence of them. Amounts are scaled, that is
  divided by the borrow index of the reserve.
\<close>

datatype loan_event =
    Open acct uint acct acct uint        \<comment> \<open>NFT, token, borrower, reserve, scaled amount\<close>
  | Draw uint uint                        \<comment> \<open>loan, scaled amount\<close>
  | PayDown uint uint
  | Close uint
  | Bid uint uint acct uint uint          \<comment> \<open>loan, time, bidder, price, debt\<close>
  | Redeem uint uint
  | Foreclose uint uint                   \<comment> \<open>loan, debt\<close>

abbreviation "loan_of b i \<equiv> loans b i"

definition is_open :: "loan_data \<Rightarrow> bool" where
  "is_open l \<longleftrightarrow> loan_state l = L_Active \<or> loan_state l = L_Auction"

definition listed :: "loan_book \<Rightarrow> uint \<Rightarrow> bool" where
  "listed b i \<longleftrightarrow> i \<noteq> 0 \<and> (\<exists>n t. nftToLoanIds b n t = i)"

fun enabled :: "loan_event \<Rightarrow> loan_book \<Rightarrow> bool" where
  "enabled (Open n t u a x) b \<longleftrightarrow> nftToLoanIds b n t = 0"
| "enabled (Draw i x) b \<longleftrightarrow> listed b i \<and> loan_state (loan_of b i) = L_Active"
| "enabled (PayDown i x) b \<longleftrightarrow> listed b i \<and> loan_state (loan_of b i) = L_Active \<and> x \<le> scaledAmount (loan_of b i)"
| "enabled (Close i) b \<longleftrightarrow> listed b i \<and> loan_state (loan_of b i) = L_Active"
| "enabled (Bid i now u p d) b \<longleftrightarrow> listed b i \<and> is_open (loan_of b i) \<and> u \<noteq> 0 \<and> now \<noteq> 0 \<and>
     bidPrice (loan_of b i) < p"
| "enabled (Redeem i x) b \<longleftrightarrow> listed b i \<and> loan_state (loan_of b i) = L_Auction \<and> x \<le> scaledAmount (loan_of b i)"
| "enabled (Foreclose i d) b \<longleftrightarrow> listed b i \<and> loan_state (loan_of b i) = L_Auction"

fun happen :: "loan_event \<Rightarrow> loan_book \<Rightarrow> loan_book" where
  "happen (Open n t u a x) b = book_create n t u a x b"
| "happen (Draw i x) b = book_scale i (scaledAmount (loan_of b i) + x) b"
| "happen (PayDown i x) b = book_scale i (scaledAmount (loan_of b i) - x) b"
| "happen (Close i) b = book_close i (\<lambda>l. l\<lparr>loan_state := L_Repaid\<rparr>) b"
| "happen (Bid i now u p d) b = book_bid i now u p d b"
| "happen (Redeem i x) b = book_redeem i (scaledAmount (loan_of b i) - x) b"
| "happen (Foreclose i d) b = book_close i (\<lambda>l. l\<lparr>loan_state := L_Defaulted, bidBorrowAmount := d\<rparr>) b"

section \<open>The book in order\<close>

text \<open>
  Every open loan has a number below the next one and is the loan of its NFT; an NFT in use has an open loan;
  a loan that is not in an auction has no bid; the two counters count the open loans.
\<close>

definition loan_ok :: "loan_data \<Rightarrow> bool" where
  "loan_ok l \<longleftrightarrow>
     (loan_state l = L_Active \<longrightarrow> bidStartTimestamp l = 0 \<and> bidPrice l = 0 \<and> bidderAddress l = 0) \<and>
     (loan_state l = L_Auction \<longrightarrow> bidStartTimestamp l \<noteq> 0 \<and> bidderAddress l \<noteq> 0 \<and> 0 < bidPrice l)"

definition open_count :: "(loan_data \<Rightarrow> bool) \<Rightarrow> loan_book \<Rightarrow> nat" where
  "open_count P b = (\<Sum>i<loanIdTracker b. if is_open (loan_of b i) \<and> P (loan_of b i) then 1 else 0)"

definition book_ok :: "loan_book \<Rightarrow> bool" where
  "book_ok b \<longleftrightarrow> 0 < loanIdTracker b \<and>
     (\<forall>i. is_open (loan_of b i) \<longrightarrow> 0 < i \<and> i < loanIdTracker b \<and> loanId (loan_of b i) = i \<and>
        nftToLoanIds b (nftAsset (loan_of b i)) (nftTokenId (loan_of b i)) = i) \<and>
     (\<forall>n t. nftToLoanIds b n t \<noteq> 0 \<longrightarrow> is_open (loan_of b (nftToLoanIds b n t)) \<and>
        nftAsset (loan_of b (nftToLoanIds b n t)) = n \<and> nftTokenId (loan_of b (nftToLoanIds b n t)) = t) \<and>
     (\<forall>i. loan_ok (loan_of b i)) \<and>
     (\<forall>i\<ge>loanIdTracker b. loan_state (loan_of b i) = L_None \<and> bidStartTimestamp (loan_of b i) = 0 \<and>
        bidPrice (loan_of b i) = 0 \<and> bidderAddress (loan_of b i) = 0) \<and>
     (\<forall>n. nftTotalCollateral b n = open_count (\<lambda>l. nftAsset l = n) b) \<and>
     (\<forall>u n. userNftCollateral b u n = open_count (\<lambda>l. borrower l = u \<and> nftAsset l = n) b)"

definition empty_book :: "loan_book \<Rightarrow> bool" where
  "empty_book b \<longleftrightarrow> loanIdTracker b = 1 \<and> (\<forall>i. loan_state (loan_of b i) = L_None \<and>
     bidStartTimestamp (loan_of b i) = 0 \<and> bidPrice (loan_of b i) = 0 \<and> bidderAddress (loan_of b i) = 0) \<and>
     (\<forall>n t. nftToLoanIds b n t = 0) \<and> (\<forall>n. nftTotalCollateral b n = 0) \<and> (\<forall>u n. userNftCollateral b u n = 0)"

text \<open>The scaled debt of an account in a reserve, all of a reserve, and the bids that wait in an auction\<close>

definition loan_sum :: "(loan_data \<Rightarrow> nat) \<Rightarrow> loan_book \<Rightarrow> nat" where
  "loan_sum f b = (\<Sum>i<loanIdTracker b. f (loan_of b i))"

definition owed_by :: "acct \<Rightarrow> acct \<Rightarrow> loan_data \<Rightarrow> nat" where
  "owed_by a u l = (if is_open l \<and> reserveAsset l = a \<and> borrower l = u then scaledAmount l else 0)"

definition owed_all :: "acct \<Rightarrow> loan_data \<Rightarrow> nat" where
  "owed_all a l = (if is_open l \<and> reserveAsset l = a then scaledAmount l else 0)"

definition bid_kept :: "acct \<Rightarrow> loan_data \<Rightarrow> nat" where
  "bid_kept a l = (if loan_state l = L_Auction \<and> reserveAsset l = a then bidPrice l else 0)"

lemma open_count_sum: "open_count P = loan_sum (\<lambda>l. if is_open l \<and> P l then 1 else 0)"
  by (simp add: open_count_def loan_sum_def fun_eq_iff)

section \<open>Sums over the loans\<close>

lemma sum_update:
  fixes f :: "'a \<Rightarrow> nat" and g :: "nat \<Rightarrow> 'a"
  assumes "i < n"
  shows "(\<Sum>j<n. f ((g(i := x)) j)) + f (g i) = (\<Sum>j<n. f (g j)) + f x"
proof -
  have "(\<Sum>j<n. f ((g(i := x)) j)) = f x + (\<Sum>j\<in>{..<n} - {i}. f (g j))"
    using assms by (subst sum.remove [of _ i]) (auto intro!: sum.cong)
  moreover have "(\<Sum>j<n. f (g j)) = f (g i) + (\<Sum>j\<in>{..<n} - {i}. f (g j))"
    using assms by (subst sum.remove [of _ i]) auto
  ultimately show ?thesis by simp
qed

lemma loan_sum_change:
  assumes "i < loanIdTracker b" "loanIdTracker b' = loanIdTracker b" "loans b' = (loans b)(i := l)"
  shows "int (loan_sum f b') = int (loan_sum f b) - int (f (loan_of b i)) + int (f l)"
  unfolding loan_sum_def assms(2,3) using sum_update [OF assms(1), of f "loans b" l] by linarith

lemma loan_sum_new:
  assumes "loanIdTracker b' = loanIdTracker b + 1" "loans b' = (loans b)(loanIdTracker b := l)"
  shows "loan_sum f b' = loan_sum f b + f l"
  using assms by (simp add: loan_sum_def)

lemma loan_sum_cong: "loanIdTracker b' = loanIdTracker b \<Longrightarrow> loans b' = loans b \<Longrightarrow> loan_sum f b' = loan_sum f b"
  by (simp add: loan_sum_def)

lemma loan_sum_mem:
  assumes "i < loanIdTracker b"
  shows "f (loan_of b i) \<le> loan_sum f b"
  using assms unfolding loan_sum_def by (intro member_le_sum) auto

section \<open>Every event keeps the book in order\<close>

lemma listed_open:
  assumes "book_ok b" "listed b i"
  shows "is_open (loan_of b i)" "0 < i" "i < loanIdTracker b"
proof -
  show "is_open (loan_of b i)" using assms by (auto simp: book_ok_def listed_def)
  with assms(1) show "0 < i" "i < loanIdTracker b" by (auto simp: book_ok_def)
qed

lemma ids_below: "book_ok b \<Longrightarrow> nftToLoanIds b n t < loanIdTracker b"
  using listed_open(3) [of b "nftToLoanIds b n t"] by (cases "nftToLoanIds b n t = 0") (auto simp: listed_def book_ok_def)

lemma book_ok_loan: "book_ok b \<Longrightarrow> loan_ok (loan_of b i)"
  by (simp add: book_ok_def)

text \<open>A loan changes, but remains the open loan of the same borrower and NFT.\<close>

lemma book_ok_replace:
  assumes ok: "book_ok b" and i: "listed b i"
    and same: "is_open (f (loan_of b i))" "loanId (f (loan_of b i)) = loanId (loan_of b i)"
      "nftAsset (f (loan_of b i)) = nftAsset (loan_of b i)" "nftTokenId (f (loan_of b i)) = nftTokenId (loan_of b i)"
      "borrower (f (loan_of b i)) = borrower (loan_of b i)"
    and l: "loan_ok (f (loan_of b i))"
  shows "book_ok (set_loan i f b)"
proof -
  note o = listed_open [OF ok i]
  let ?b = "set_loan i f b"
  have count: "open_count P ?b = open_count P b"
    if "P (f (loan_of b i)) = P (loan_of b i)" for P
  proof -
    have "int (open_count P ?b) = int (open_count P b)"
      unfolding open_count_sum
      using loan_sum_change [of i b ?b "f (loan_of b i)" "\<lambda>l. if is_open l \<and> P l then 1 else 0"] o same(1) that
      by (simp add: set_loan_def)
    then show ?thesis by simp
  qed
  show ?thesis
    using ok o same l count [of "\<lambda>l. nftAsset l = n" for n] count [of "\<lambda>l. borrower l = u \<and> nftAsset l = n" for u n]
    unfolding book_ok_def by (auto simp: set_loan_def)
qed

lemma book_ok_scale:
  assumes "book_ok b" "listed b i"
  shows "book_ok (book_scale i x b)"
  unfolding book_scale_def
  using book_ok_loan [OF assms(1), of i] listed_open(1) [OF assms]
  by (intro book_ok_replace [OF assms]) (simp_all add: is_open_def loan_ok_def)

lemma book_ok_bid:
  assumes "book_ok b" "listed b i" "now \<noteq> 0" "u \<noteq> 0" "0 < p"
  shows "book_ok (book_bid i now u p d b)"
  unfolding book_bid_def
  using book_ok_loan [OF assms(1), of i] listed_open(1) [OF assms(1,2)] assms(3-5)
  by (intro book_ok_replace [OF assms(1,2)]) (auto simp: is_open_def loan_ok_def)

lemma book_ok_redeem:
  assumes "book_ok b" "listed b i"
  shows "book_ok (book_redeem i x b)"
  unfolding book_redeem_def by (intro book_ok_replace [OF assms]) (simp_all add: is_open_def loan_ok_def)

lemma book_ok_close:
  assumes ok: "book_ok b" and i: "listed b i"
    and f: "\<not> is_open (f (loan_of b i))" "loan_ok (f (loan_of b i))"
  shows "book_ok (book_close i f b)"
proof -
  note o = listed_open [OF ok i]
  let ?b = "book_close i f b" and ?l = "loan_of b i"
  have l': "loans ?b = (loans b)(i := f ?l)" "loanIdTracker ?b = loanIdTracker b"
    by (simp_all add: book_close_def Let_def)
  have count: "open_count P ?b = open_count P b - (if P ?l then 1 else 0)" for P
  proof -
    have "int (open_count P ?b) = int (open_count P b) - int (if P ?l then 1 else 0)"
      unfolding open_count_sum
      using loan_sum_change [of i b ?b "f ?l" "\<lambda>l. if is_open l \<and> P l then 1 else 0"] o f(1) l' by simp
    then show ?thesis by (simp split: if_splits)
  qed
  have "nftToLoanIds b (nftAsset ?l) (nftTokenId ?l) = i" using ok o by (simp add: book_ok_def)
  moreover have ids: "nftToLoanIds ?b = (nftToLoanIds b)(nftAsset ?l := (nftToLoanIds b (nftAsset ?l))(nftTokenId ?l := 0))"
    by (simp add: book_close_def Let_def)
  moreover have "nftTotalCollateral ?b n = nftTotalCollateral b n - (if nftAsset ?l = n then 1 else 0)"
    "userNftCollateral ?b u n = userNftCollateral b u n - (if borrower ?l = u \<and> nftAsset ?l = n then 1 else 0)" for u n
    by (auto simp: book_close_def Let_def)
  ultimately show ?thesis
    using ok o f count [of "\<lambda>l. nftAsset l = n" for n] count [of "\<lambda>l. borrower l = u \<and> nftAsset l = n" for u n]
    unfolding book_ok_def l' by (auto; metis)
qed

lemma book_ok_create:
  assumes ok: "book_ok b" and free: "nftToLoanIds b n t = 0"
  shows "book_ok (book_create n t u a x b)"
proof -
  let ?b = "book_create n t u a x b" and ?i = "loanIdTracker b"
  let ?l = "(loan_of b ?i)\<lparr>loanId := ?i, loan_state := L_Active, borrower := u, nftAsset := n, nftTokenId := t,
    reserveAsset := a, scaledAmount := x\<rparr>"
  have l': "loans ?b = (loans b)(?i := ?l)" "loanIdTracker ?b = ?i + 1"
    by (simp_all add: book_create_def Let_def)
  have fresh: "loan_state (loan_of b ?i) = L_None" "bidStartTimestamp (loan_of b ?i) = 0"
    "bidPrice (loan_of b ?i) = 0" "bidderAddress (loan_of b ?i) = 0" using ok by (auto simp: book_ok_def)
  have count: "open_count P ?b = open_count P b + (if P ?l then 1 else 0)" for P
    unfolding open_count_sum by (subst loan_sum_new [OF l'(2,1)]) (simp add: is_open_def)
  have "nftToLoanIds ?b = (nftToLoanIds b)(n := (nftToLoanIds b n)(t := ?i))"
    "nftTotalCollateral ?b n' = nftTotalCollateral b n' + (if n = n' then 1 else 0)"
    "userNftCollateral ?b u' n' = userNftCollateral b u' n' + (if u = u' \<and> n = n' then 1 else 0)" for u' n'
    by (auto simp: book_create_def Let_def)
  moreover have "is_open ?l" "loan_ok ?l" using fresh by (auto simp: is_open_def loan_ok_def)
  ultimately show ?thesis
    using ok free fresh less_imp_neq [OF ids_below [OF ok]] count [of "\<lambda>l. nftAsset l = n" for n] count [of "\<lambda>l. borrower l = u \<and> nftAsset l = n" for u n]
    unfolding book_ok_def l' by (auto simp: is_open_def)
qed

lemma book_ok_happen:
  assumes ok: "book_ok b" and e: "enabled e b"
  shows "book_ok (happen e b)"
proof (cases e)
  case (Open n t u a x)
  with book_ok_create [OF ok] e show ?thesis by simp
next
  case (Draw i x)
  with book_ok_scale [OF ok] e show ?thesis by simp
next
  case (PayDown i x)
  with book_ok_scale [OF ok] e show ?thesis by simp
next
  case (Close i)
  with e book_ok_loan [OF ok, of i] show ?thesis
    by (auto intro!: book_ok_close [OF ok] simp: is_open_def loan_ok_def)
next
  case (Bid i now u p d)
  with e book_ok_bid [OF ok, of i now u p d] show ?thesis by simp
next
  case (Redeem i x)
  with book_ok_redeem [OF ok] e show ?thesis by simp
next
  case (Foreclose i d)
  with e book_ok_loan [OF ok, of i] show ?thesis
    by (auto intro!: book_ok_close [OF ok] simp: is_open_def loan_ok_def)
qed

lemma book_ok_empty: "empty_book b \<Longrightarrow> book_ok b"
  by (auto simp: empty_book_def book_ok_def is_open_def loan_ok_def open_count_def)

section \<open>What an event means for the debts and the bids\<close>

fun event_reserve :: "loan_event \<Rightarrow> loan_book \<Rightarrow> acct" where
  "event_reserve (Open n t u a x) b = a"
| "event_reserve (Draw i x) b = reserveAsset (loan_of b i)"
| "event_reserve (PayDown i x) b = reserveAsset (loan_of b i)"
| "event_reserve (Close i) b = reserveAsset (loan_of b i)"
| "event_reserve (Bid i now u p d) b = reserveAsset (loan_of b i)"
| "event_reserve (Redeem i x) b = reserveAsset (loan_of b i)"
| "event_reserve (Foreclose i d) b = reserveAsset (loan_of b i)"

fun event_borrower :: "loan_event \<Rightarrow> loan_book \<Rightarrow> acct" where
  "event_borrower (Open n t u a x) b = u"
| "event_borrower (Draw i x) b = borrower (loan_of b i)"
| "event_borrower (PayDown i x) b = borrower (loan_of b i)"
| "event_borrower (Close i) b = borrower (loan_of b i)"
| "event_borrower (Bid i now u p d) b = borrower (loan_of b i)"
| "event_borrower (Redeem i x) b = borrower (loan_of b i)"
| "event_borrower (Foreclose i d) b = borrower (loan_of b i)"

fun debt_change :: "loan_event \<Rightarrow> loan_book \<Rightarrow> int" where
  "debt_change (Open n t u a x) b = int x"
| "debt_change (Draw i x) b = int x"
| "debt_change (PayDown i x) b = - int x"
| "debt_change (Close i) b = - int (scaledAmount (loan_of b i))"
| "debt_change (Bid i now u p d) b = 0"
| "debt_change (Redeem i x) b = - int x"
| "debt_change (Foreclose i d) b = - int (scaledAmount (loan_of b i))"

fun bid_change :: "loan_event \<Rightarrow> loan_book \<Rightarrow> int" where
  "bid_change (Bid i now u p d) b = int p - int (bidPrice (loan_of b i))"
| "bid_change (Redeem i x) b = - int (bidPrice (loan_of b i))"
| "bid_change (Foreclose i d) b = - int (bidPrice (loan_of b i))"
| "bid_change e b = 0"

text \<open>How a sum over the loans changes\<close>

lemma loan_sum_set:
  assumes "book_ok b" "listed b i"
  shows "int (loan_sum f (set_loan i g b)) = int (loan_sum f b) - int (f (loan_of b i)) + int (f (g (loan_of b i)))"
  by (rule loan_sum_change [OF listed_open(3) [OF assms]]) (simp_all add: set_loan_def)

lemma loan_sum_close:
  assumes "book_ok b" "listed b i"
  shows "int (loan_sum f (book_close i g b)) = int (loan_sum f b) - int (f (loan_of b i)) + int (f (g (loan_of b i)))"
  by (rule loan_sum_change [OF listed_open(3) [OF assms]]) (simp_all add: book_close_def Let_def)

lemma loan_sum_create:
  "loan_sum f (book_create n t u a x b) = loan_sum f b + f ((loan_of b (loanIdTracker b))\<lparr>loanId := loanIdTracker b,
     loan_state := L_Active, borrower := u, nftAsset := n, nftTokenId := t, reserveAsset := a, scaledAmount := x\<rparr>)"
  by (rule loan_sum_new) (simp_all add: book_create_def Let_def)

lemmas loan_sums = loan_sum_set loan_sum_close loan_sum_create

lemma owed_happen:
  assumes ok: "book_ok b" and e: "enabled e b"
  shows "int (loan_sum (owed_by a u) (happen e b)) =
    int (loan_sum (owed_by a u) b) + at2 (event_reserve e b) (event_borrower e b) (debt_change e b) a u"
  using e listed_open(1) [OF ok]
  by (cases e)
    (auto simp: loan_sum_set [OF ok] loan_sum_close [OF ok] loan_sum_create book_scale_def book_bid_def book_redeem_def
      owed_by_def is_open_def at2_def)

lemma owed_all_happen:
  assumes ok: "book_ok b" and e: "enabled e b"
  shows "int (loan_sum (owed_all a) (happen e b)) =
    int (loan_sum (owed_all a) b) + at1 (event_reserve e b) (debt_change e b) a"
  using e listed_open(1) [OF ok]
  by (cases e)
    (auto simp: loan_sum_set [OF ok] loan_sum_close [OF ok] loan_sum_create book_scale_def book_bid_def book_redeem_def
      owed_all_def is_open_def at1_def)

lemma bid_kept_happen:
  assumes ok: "book_ok b" and e: "enabled e b"
  shows "int (loan_sum (bid_kept a) (happen e b)) =
    int (loan_sum (bid_kept a) b) + at1 (event_reserve e b) (bid_change e b) a"
proof -
  have free: "bidStartTimestamp (loan_of b i) = 0 \<and> bidPrice (loan_of b i) = 0" if "loan_state (loan_of b i) = L_Active" for i
    using book_ok_loan [OF ok, of i] that by (simp add: loan_ok_def)
  have busy: "bidStartTimestamp (loan_of b i) \<noteq> 0" if "loan_state (loan_of b i) = L_Auction" for i
    using book_ok_loan [OF ok, of i] that by (simp add: loan_ok_def)
  show ?thesis
    using e listed_open(1) [OF ok] free busy
    by (cases e)
      (auto simp: loan_sum_set [OF ok] loan_sum_close [OF ok] loan_sum_create book_scale_def book_bid_def book_redeem_def
        bid_kept_def is_open_def at1_def)
qed

end
