(* ===== verification/PoolSpec.thy ===== *)
theory PoolSpec
  imports PoolLogic LoanEvents
begin

text \<open>
  The operations of the pool refine the events of the book of loans: an operation that returns has changed the
  book by at most one event, which was enabled, has moved the debt tokens exactly by what the event means, has
  paid at most what it means of the bids, and has let the indexes of the reserves only grow.
\<close>

section \<open>Steps that leave the book alone\<close>

definition evolved :: "reserve_data \<Rightarrow> reserve_data \<Rightarrow> bool" where
  "evolved rd rd' \<longleftrightarrow> r_configuration rd' = r_configuration rd \<and> bTokenAddress rd' = bTokenAddress rd \<and>
     debtTokenAddress rd' = debtTokenAddress rd \<and> interestRateAddress rd' = interestRateAddress rd \<and>
     r_id rd' = r_id rd \<and> maxUtilizationRate rd' = maxUtilizationRate rd \<and>
     liquidityIndex rd \<le> liquidityIndex rd' \<and> variableBorrowIndex rd \<le> variableBorrowIndex rd'"

definition shifts :: "'h externals \<Rightarrow> acct set \<Rightarrow> (acct \<Rightarrow> acct \<Rightarrow> int) \<Rightarrow> (acct \<Rightarrow> int) \<Rightarrow> (acct \<Rightarrow> int) \<Rightarrow> 'h pool \<Rightarrow> 'h pool \<Rightarrow> bool" where
  "shifts E D d p c s s' \<longleftrightarrow> (\<exists>rs al w. s' = s\<lparr>reserves := rs, borrowAllowances := al, external := w\<rparr> \<and>
     (\<forall>a. evolved (reserves s a) (rs a)) \<and> moves E D d p c (external s) w)"

abbreviation "settles E D \<equiv> shifts E D (\<lambda>t u. 0) (\<lambda>t. 0) (\<lambda>t. 0)"

lemma evolved_refl [simp, intro]: "evolved rd rd"
  by (simp add: evolved_def)

lemma evolved_trans: "evolved rd rd' \<Longrightarrow> evolved rd' rd'' \<Longrightarrow> evolved rd rd''"
  by (auto simp: evolved_def)

lemma shiftsI:
  assumes "s' = s\<lparr>external := w\<rparr>" "moves E D d p c (external s) w"
  shows "shifts E D d p c s s'"
  unfolding shifts_def
  by (rule exI [of _ "reserves s"], rule exI [of _ "borrowAllowances s"], rule exI [of _ w]) (simp add: assms)

lemma settlesI:
  assumes "s' = s\<lparr>external := w\<rparr>" "harmless E D (external s) w"
  shows "settles E D s s'"
  using assms by (intro shiftsI) (auto simp: harmless_def)

lemma settles_reserve:
  assumes "s' = s\<lparr>reserves := (reserves s)(a := rd)\<rparr>" "evolved (reserves s a) rd"
  shows "settles E D s s'"
  unfolding shifts_def
  by (rule exI [of _ "(reserves s)(a := rd)"], rule exI [of _ "borrowAllowances s"], rule exI [of _ "external s"])
    (use assms harmless_refl [unfolded harmless_def] in auto)

lemma settles_refl [simp, intro]: "settles E D s s"
  by (rule settlesI [where w = "external s"]) auto

lemma shifts_trans:
  assumes "shifts E D d p c s s'" "shifts E D d' p' c' s' s''"
  shows "shifts E D (\<lambda>t u. d t u + d' t u) (\<lambda>t. p t + p' t) (\<lambda>t. c t + c' t) s s''"
proof -
  from assms(1) obtain rs al w where s': "s' = s\<lparr>reserves := rs, borrowAllowances := al, external := w\<rparr>"
    and e: "\<forall>a. evolved (reserves s a) (rs a)" and m: "moves E D d p c (external s) w"
    unfolding shifts_def by blast
  from assms(2) obtain rs' al' w' where s'': "s'' = s'\<lparr>reserves := rs', borrowAllowances := al', external := w'\<rparr>"
    and e': "\<forall>a. evolved (reserves s' a) (rs' a)" and m': "moves E D d' p' c' (external s') w'"
    unfolding shifts_def by blast
  have "s'' = s\<lparr>reserves := rs', borrowAllowances := al', external := w'\<rparr>" by (simp add: s'' s')
  moreover have "\<forall>a. evolved (reserves s a) (rs' a)" using e e' s' by (auto intro: evolved_trans)
  moreover have "moves E D (\<lambda>t u. d t u + d' t u) (\<lambda>t. p t + p' t) (\<lambda>t. c t + c' t) (external s) w'"
    using m m' s' by (intro moves_trans [OF m]) simp
  ultimately show ?thesis unfolding shifts_def by blast
qed

lemma settles_shifts: "settles E D s s' \<Longrightarrow> shifts E D d p c s' s'' \<Longrightarrow> shifts E D d p c s s''"
  by (drule (1) shifts_trans) simp

lemma shifts_settles: "shifts E D d p c s s' \<Longrightarrow> settles E D s' s'' \<Longrightarrow> shifts E D d p c s s''"
  by (drule (1) shifts_trans) simp

lemma shifts_book: "shifts E D d p c s s' \<Longrightarrow> book s' = book s"
  by (auto simp: shifts_def)

lemma shifts_others:
  assumes "shifts E D d p c s s'"
  shows "nfts s' = nfts s" "is_paused s' = is_paused s" "pauseStartTime s' = pauseStartTime s"
    "pauseDurationTime s' = pauseDurationTime s" "entered s' = entered s" "rate_strategies s' = rate_strategies s"
    "treasuries s' = treasuries s"
  using assms by (auto simp: shifts_def)

lemma shifts_reserve: "shifts E D d p c s s' \<Longrightarrow> evolved (reserves s a) (reserves s' a)"
  by (auto simp: shifts_def)

lemma shifts_same:
  assumes "shifts E D d p c s s'"
  shows "bTokenAddress (reserves s' a) = bTokenAddress (reserves s a)"
    "debtTokenAddress (reserves s' a) = debtTokenAddress (reserves s a)"
    "liquidityIndex (reserves s a) \<le> liquidityIndex (reserves s' a)"
    "variableBorrowIndex (reserves s a) \<le> variableBorrowIndex (reserves s' a)"
  using shifts_reserve [OF assms, of a] by (auto simp: evolved_def)

section \<open>The parts of the operations\<close>

lemma incentivized_mint_harmless:
  assumes ok: "externals_ok E D" and t: "t \<notin> D" and run: "incentivized_mint E t user x s = Inr (u, s')"
  obtains w where "s' = s\<lparr>external := w\<rparr>" "harmless E D (external s) w"
proof -
  from incentivized_mint_effect [OF ok run] obtain w where w: "s' = s\<lparr>external := w\<rparr>"
    and "moves E D (at2 t user (int x)) (at1 t (int x)) (\<lambda>_. 0) (external s) w" by auto
  from that [OF w moves_not_debt [OF t this(2)]] show ?thesis .
qed

lemma mint_treasury_settles:
  assumes ok: "externals_ok E D" and "bTokenAddress (reserves s a) \<notin> D"
    and run: "mint_treasury E a debt i j k s = Inr (u, s')"
  shows "\<exists>w. s' = s\<lparr>external := w\<rparr> \<and> harmless E D (external s) w"
proof -
  have none: "\<exists>w. s = s\<lparr>external := w\<rparr> \<and> harmless E D (external s) w" by (intro exI [of _ "external s"]) simp
  have treasury: "\<exists>w. s' = s\<lparr>external := w\<rparr> \<and> harmless E D (external s) w"
    if "incentivized_mint E (bTokenAddress (reserves s a)) t x s = Inr (u, s')" for t x
    by (rule incentivized_mint_harmless [OF ok assms(2) that]) (intro exI conjI)
  from run none treasury show ?thesis
    unfolding mint_treasury_def mintToTreasury_def by (auto simp: call_simps split: if_splits)
qed

lemma accrued_evolved: "evolved rd (accrued B d rd)"
  by (simp add: evolved_def accrued_def new_indexes_grow)

lemma updateState_effect:
  assumes ok: "externals_ok E D" and b: "bTokenAddress (reserves s a) \<notin> D"
    and run: "updateState E B a s = Inr (u, s')"
  obtains w where "s' = s\<lparr>reserves := (reserves s)(a :=
      accrued B (token_supply E (debtTokenAddress (reserves s a)) (external s)) (reserves s a)), external := w\<rparr>"
    "harmless E D (external s) w"
proof -
  let ?d = "token_supply E (debtTokenAddress (reserves s a)) (external s)"
  from run obtain ix s1 where ix: "updateIndexes B a ?d (liquidityIndex (reserves s a)) (variableBorrowIndex (reserves s a))
      (lastUpdateTimestamp (reserves s a)) s = Inr (ix, s1)"
    and m: "mint_treasury E a ?d (variableBorrowIndex (reserves s a)) (fst ix) (snd ix) s1 = Inr (u, s')"
    by (auto simp: updateState_def call_simps split: prod.splits)
  note s1 = updateIndexes_effect(1) [OF ix]
  have "bTokenAddress (reserves s1 a) \<notin> D" using b by (simp add: s1 accrued_def)
  from mint_treasury_settles [OF ok this m] that s1 show ?thesis by auto
qed

lemma updateState_settles:
  assumes "externals_ok E D" "bTokenAddress (reserves s a) \<notin> D" "updateState E B a s = Inr (u, s')"
  shows "settles E D s s'"
proof -
  let ?rd = "accrued B (token_supply E (debtTokenAddress (reserves s a)) (external s)) (reserves s a)"
  from updateState_effect [OF assms] obtain w where
    s': "s' = s\<lparr>reserves := (reserves s)(a := ?rd), external := w\<rparr>" and q: "harmless E D (external s) w" .
  have "settles E D s (s\<lparr>reserves := (reserves s)(a := ?rd)\<rparr>)"
    by (rule settles_reserve [OF refl accrued_evolved])
  moreover have "settles E D (s\<lparr>reserves := (reserves s)(a := ?rd)\<rparr>) s'"
    by (rule settlesI [where w = w]) (simp_all add: s' q)
  ultimately show ?thesis by (rule settles_shifts)
qed

lemma updateState_now:
  assumes "externals_ok E D" "bTokenAddress (reserves s a) \<notin> D" "updateState E B a s = Inr (u, s')"
  shows "lastUpdateTimestamp (reserves s' a) = to_uint40 (block_timestamp B)"
  by (rule updateState_effect [OF assms]) (simp add: accrued_def)

lemma updateInterestRates_settles:
  assumes "updateInterestRates E a x y s = Inr (u, s')"
  shows "settles E D s s'"
proof -
  from assms obtain lr br where "s' = s\<lparr>reserves := (reserves s)(a := (reserves s a)\<lparr>currentLiquidityRate := lr,
      currentVariableBorrowRate := br\<rparr>)\<rparr>"
    by (auto simp: updateInterestRates_def call_simps set_reserve_def split: prod.splits)
  then show ?thesis by (rule settles_reserve) (simp add: evolved_def)
qed

lemma BToken_mint_settles:
  assumes ok: "externals_ok E D" and t: "t \<notin> D" and run: "BToken_mint E t user amount index s = Inr (r, s')"
  shows "settles E D s s'"
proof -
  from run obtain x where x: "incentivized_mint E t user x s = Inr ((), s')"
    by (auto simp: BToken_mint_def call_simps)
  show ?thesis by (rule incentivized_mint_harmless [OF ok t x]) (rule settlesI)
qed

lemma BToken_burn_settles:
  assumes ok: "externals_ok E D" and t: "t \<notin> D" "a \<notin> D" "t \<noteq> pool_addr E" "user \<noteq> pool_addr E"
    and run: "BToken_burn E t a user receiver amount index s = Inr (r, s')"
  shows "settles E D s s'"
proof -
  from run obtain x s1 w where x: "incentivized_burn E t user x s = Inr ((), s1)"
    and w: "token_transfer E a t receiver amount (external s1) = Inr w" and s': "s' = s1\<lparr>external := w\<rparr>"
    by (auto simp: BToken_burn_def call_simps)
  from incentivized_burn_effect [OF ok _ x] t obtain w1 where
    s1: "s1 = s\<lparr>external := w1\<rparr>" and m: "moves E D (at2 t user (- int x)) (at1 t (- int x)) (\<lambda>_. 0) (external s) w1"
    by auto
  have "harmless E D (external s) w"
    using harmless_trans [OF moves_not_debt [OF t(1) m]] transfer_harmless [OF ok t(2) w t(3)] s1 by simp
  then show ?thesis by (intro settlesI [where w = w]) (simp_all add: s' s1)
qed

lemma DebtToken_mint_shifts:
  assumes ok: "externals_ok E D" and run: "DebtToken_mint E t initiator user amount index s = Inr (r, s')"
  obtains x where "rayDiv amount index = Inr x" "x \<noteq> 0" "shifts E D (at2 t user (int x)) (at1 t (int x)) (\<lambda>_. 0) s s'"
proof -
  from run obtain x al where x: "rayDiv amount index = Inr x" "x \<noteq> 0"
    and m: "incentivized_mint E t user x (s\<lparr>borrowAllowances := al\<rparr>) = Inr ((), s')"
  proof (cases "initiator = user")
    case True
    with run have "\<exists>x. rayDiv amount index = Inr x \<and> x \<noteq> 0 \<and>
        incentivized_mint E t user x (s\<lparr>borrowAllowances := borrowAllowances s\<rparr>) = Inr ((), s')"
      by (auto simp: DebtToken_mint_def call_simps)
    then show ?thesis using that by blast
  next
    case False
    with run that show ?thesis by (auto simp: DebtToken_mint_def decreaseBorrowAllowance_def call_simps)
  qed
  from incentivized_mint_effect [OF ok m] obtain w where
    s': "s' = s\<lparr>borrowAllowances := al, external := w\<rparr>"
    and mv: "moves E D (at2 t user (int x)) (at1 t (int x)) (\<lambda>_. 0) (external s) w" by auto
  have "shifts E D (at2 t user (int x)) (at1 t (int x)) (\<lambda>_. 0) s s'"
    unfolding shifts_def
    by (rule exI [of _ "reserves s"], rule exI [of _ al], rule exI [of _ w]) (simp add: s' mv)
  with x that show ?thesis by blast
qed

lemma DebtToken_burn_shifts:
  assumes ok: "externals_ok E D" and t: "t \<in> D" and run: "DebtToken_burn E t user amount index s = Inr (r, s')"
  obtains x where "rayDiv amount index = Inr x" "x \<noteq> 0" "shifts E D (at2 t user (- int x)) (at1 t (- int x)) (\<lambda>_. 0) s s'"
proof -
  from run obtain x where x: "rayDiv amount index = Inr x" "x \<noteq> 0"
    and m: "incentivized_burn E t user x s = Inr ((), s')"
    by (auto simp: DebtToken_burn_def call_simps)
  from incentivized_burn_effect [OF ok _ m] t obtain w where
    "s' = s\<lparr>external := w\<rparr>" "moves E D (at2 t user (- int x)) (at1 t (- int x)) (\<lambda>_. 0) (external s) w" by auto
  then have "shifts E D (at2 t user (- int x)) (at1 t (- int x)) (\<lambda>_. 0) s s'" by (rule shiftsI)
  with x that show ?thesis by blast
qed

text \<open>Transfers of an asset: paid by another account than the pool, received or paid by the pool\<close>

lemma pays_settles:
  assumes "externals_ok E D" "a \<notin> D" "f \<noteq> pool_addr E"
  shows "cext (token_transfer_from E a p f g x) s = Inr (u, s') \<Longrightarrow> settles E D s s'"
    and "cext (token_transfer E a f g x) s = Inr (u, s') \<Longrightarrow> settles E D s s'"
  using transfer_from_harmless [OF assms(1,2) _ assms(3)] transfer_harmless [OF assms(1,2) _ assms(3)]
  by (auto simp: call_simps intro: settlesI)

lemma pool_receives:
  assumes "externals_ok E D" "a \<notin> D" "f \<noteq> pool_addr E" "cext (token_transfer_from E a p f (pool_addr E) x) s = Inr (u, s')"
  shows "shifts E D (\<lambda>t u. 0) (\<lambda>t. 0) (at1 a (int x)) s s'"
proof -
  from assms(4) obtain w where w: "token_transfer_from E a p f (pool_addr E) x (external s) = Inr w" "s' = s\<lparr>external := w\<rparr>"
    by (auto simp: call_simps)
  from transfer_from_moves [OF assms(1,2) w(1)] assms(3) w(2) show ?thesis by (intro shiftsI) auto
qed

lemma pool_pays:
  assumes "externals_ok E D" "a \<notin> D" "cext (token_transfer E a (pool_addr E) g x) s = Inr (u, s')"
  shows "shifts E D (\<lambda>t u. 0) (\<lambda>t. 0) (at1 a (- int x)) s s'"
proof -
  from assms(3) obtain w where w: "token_transfer E a (pool_addr E) g x (external s) = Inr w" "s' = s\<lparr>external := w\<rparr>"
    by (auto simp: call_simps)
  have "moves E D (\<lambda>t u. 0) (\<lambda>t. 0) (at1 a (- int x)) (external s) w"
    by (rule moves_weaken [OF transfer_moves [OF assms(1,2) w(1)]]) (auto simp: at1_def)
  with w(2) show ?thesis by (rule shiftsI)
qed

lemma nft_moves_settles:
  assumes "externals_ok E D" "cext (nft_transfer E n p f g i) s = Inr (u, s')"
  shows "settles E D s s'"
  using assms(2) callback_harmless(2) [OF assms(1)] by (auto simp: call_simps intro: settlesI)

section \<open>Reads\<close>

text \<open>The checks and prices change nothing.\<close>

lemma getLoanReserveBorrowAmount_reads:
  "getLoanReserveBorrowAmount B i s = Inr (x, s') \<Longrightarrow> s' = s"
  by (auto simp: getLoanReserveBorrowAmount_def call_simps split: if_splits)

lemma calculateLoanLiquidatePrice_reads:
  assumes "calculateLoanLiquidatePrice B i a n s = Inr ((debt, threshold, price), s')"
  shows "s' = s" "getLoanReserveBorrowAmount B i s = Inr (debt, s)"
  using assms
  by (auto simp: calculateLoanLiquidatePrice_def call_simps dest: getLoanReserveBorrowAmount_reads)

lemma calculateLoanBidFine_reads:
  "calculateLoanBidFine B a n l s = Inr (x, s') \<Longrightarrow> s' = s"
  by (auto simp: calculateLoanBidFine_def call_simps dest: getLoanReserveBorrowAmount_reads split: if_splits)

lemma end_timestamp_reads: "end_timestamp l h s = Inr (x, s') \<Longrightarrow> s' = s"
  by (auto simp: end_timestamp_def call_simps)

lemma check_bid_reads: "check_bid B nd l bid debt threshold price s = Inr (x, s') \<Longrightarrow> s' = s"
  by (auto simp: check_bid_def call_simps dest: end_timestamp_reads split: if_splits)

lemma validate_market_reads:
  assumes "validate_market rd nd s = Inr (u, s')"
  shows "s' = s" "bTokenAddress rd \<noteq> 0" "bNftAddress nd \<noteq> 0"
  using assms by (auto simp: validate_market_def call_simps)

lemma validateRepay_reads:
  assumes "validateRepay rd nd l x debt s = Inr (u, s')"
  shows "s' = s" "bTokenAddress rd \<noteq> 0" "0 < x" "0 < debt" "loan_state l = L_Active"
  using assms by (auto simp: validateRepay_def call_simps dest: validate_market_reads)

lemma validateAuction_reads:
  assumes "validateAuction rd nd l bid s = Inr (u, s')"
  shows "s' = s" "bTokenAddress rd \<noteq> 0" "is_open l" "0 < bid"
  using assms by (auto simp: validateAuction_def is_open_def call_simps dest: validate_market_reads)

lemma validateRedeem_reads:
  assumes "validateRedeem rd nd l x s = Inr (u, s')"
  shows "s' = s" "bTokenAddress rd \<noteq> 0" "loan_state l = L_Auction" "bidderAddress l \<noteq> 0" "0 < x"
  using assms by (auto simp: validateRedeem_def call_simps dest: validate_market_reads)

lemma validateLiquidate_reads:
  assumes "validateLiquidate rd nd l s = Inr (u, s')"
  shows "s' = s" "bTokenAddress rd \<noteq> 0" "loan_state l = L_Auction" "bidderAddress l \<noteq> 0"
  using assms by (auto simp: validateLiquidate_def call_simps dest: validate_market_reads)

lemma calculateLoanData_reads:
  "calculateLoanData B a n i s = Inr (x, s') \<Longrightarrow> s' = s"
  by (auto simp: calculateLoanData_def calculateNftDebtData_def calculateNftCollateralData_def call_simps
      dest!: getLoanReserveBorrowAmount_reads split: if_splits)

lemma validate_loan_reads:
  assumes "validate_loan u a i s = Inr (r, s')"
  shows "s' = s" "i \<noteq> 0 \<Longrightarrow> loan_state (loans (book s) i) = L_Active \<and> reserveAsset (loans (book s) i) = a \<and>
    borrower (loans (book s) i) = u"
  using assms by (auto simp: validate_loan_def call_simps split: if_splits)

lemma validate_rest_reads:
  "validate_flags B n rd nd s = Inr (r, s') \<Longrightarrow> s' = s"
  "validate_utilization E a x rd s = Inr (r, s') \<Longrightarrow> s' = s"
  "validate_collateral B a x n i s = Inr (r, s') \<Longrightarrow> s' = s"
  by (auto simp: validate_flags_def validate_utilization_def validate_collateral_def call_simps Let_def
      dest!: calculateLoanData_reads split: prod.splits)

lemma validateBorrow_reads:
  assumes "validateBorrow E B u a x n i s = Inr (r, s')"
  shows "s' = s" "bTokenAddress (reserves s a) \<noteq> 0" "0 < x"
    "i \<noteq> 0 \<Longrightarrow> loan_state (loans (book s) i) = L_Active \<and> reserveAsset (loans (book s) i) = a \<and> borrower (loans (book s) i) = u"
  using assms
  by (auto simp: validateBorrow_def call_simps dest!: validate_rest_reads dest: validate_loan_reads)

section \<open>One event\<close>

definition with_book :: "loan_event \<Rightarrow> interceptor_table \<Rightarrow> 'h pool \<Rightarrow> 'h pool" where
  "with_book e tab s = s\<lparr>book := (happen e (book s))\<lparr>loanRepaidInterceptors := tab\<rparr>\<rparr>"

definition performs :: "'h externals \<Rightarrow> acct set \<Rightarrow> loan_event \<Rightarrow> 'h pool \<Rightarrow> 'h pool \<Rightarrow> bool" where
  "performs E D e s s' \<longleftrightarrow> enabled e (book s) \<and>
     (let b = book s; a = event_reserve e b; t = debtTokenAddress (reserves s a) in
      bTokenAddress (reserves s a) \<noteq> 0 \<and>
      (\<exists>tab. shifts E D (at2 t (event_borrower e b) (debt_change e b)) (at1 t (debt_change e b))
        (at1 a (bid_change e b)) (with_book e tab s) s'))"

text \<open>The reserves in use, and what holds of their addresses and indexes\<close>

definition in_use :: "'h pool \<Rightarrow> acct \<Rightarrow> bool" where
  "in_use s a \<longleftrightarrow> bTokenAddress (reserves s a) \<noteq> 0"

definition market_ok :: "'h externals \<Rightarrow> acct set \<Rightarrow> 'h pool \<Rightarrow> bool" where
  "market_ok E D s \<longleftrightarrow> 0 \<notin> D \<and>
     (\<forall>a. in_use s a \<longrightarrow> debtTokenAddress (reserves s a) \<in> D \<and> a \<notin> D \<and> bTokenAddress (reserves s a) \<notin> D \<and>
        bTokenAddress (reserves s a) \<noteq> pool_addr E \<and> ray \<le> liquidityIndex (reserves s a) \<and>
        ray \<le> variableBorrowIndex (reserves s a)) \<and>
     (\<forall>a a'. in_use s a \<longrightarrow> in_use s a' \<longrightarrow> debtTokenAddress (reserves s a) = debtTokenAddress (reserves s a') \<longrightarrow> a = a')"

lemma market_bToken: "market_ok E D s \<Longrightarrow> bTokenAddress (reserves s a) \<notin> D"
  by (cases "in_use s a") (auto simp: market_ok_def in_use_def)

lemma market_live:
  assumes "market_ok E D s" "in_use s a"
  shows "debtTokenAddress (reserves s a) \<in> D" "a \<notin> D" "bTokenAddress (reserves s a) \<notin> D"
    "bTokenAddress (reserves s a) \<noteq> pool_addr E" "ray \<le> liquidityIndex (reserves s a)"
    "ray \<le> variableBorrowIndex (reserves s a)"
  using assms by (auto simp: market_ok_def)

lemma shifts_live: "shifts E D d p c s s' \<Longrightarrow> in_use s' a = in_use s a"
  by (simp add: in_use_def shifts_same)

lemma shifts_market_ok:
  assumes "market_ok E D s" "shifts E D d p c s s'"
  shows "market_ok E D s'"
  using assms(1) le_trans [OF _ shifts_same(3) [OF assms(2)]] le_trans [OF _ shifts_same(4) [OF assms(2)]]
  by (auto simp: market_ok_def shifts_live [OF assms(2)] shifts_same(1,2) [OF assms(2)])

lemma with_book_same [simp]:
  "reserves (with_book e tab s) = reserves s" "external (with_book e tab s) = external s"
  "in_use (with_book e tab s) a = in_use s a" "market_ok E D (with_book e tab s) = market_ok E D s"
  by (simp_all add: with_book_def in_use_def market_ok_def)

lemma shifts_under_book:
  assumes "shifts E D d p c s s'"
  shows "shifts E D d p c (s\<lparr>book := b\<rparr>) (s'\<lparr>book := b\<rparr>)"
proof -
  from assms obtain rs al w where "s' = s\<lparr>reserves := rs, borrowAllowances := al, external := w\<rparr>"
    and "\<forall>a. evolved (reserves s a) (rs a)" and "moves E D d p c (external s) w" by (auto simp: shifts_def)
  then show ?thesis unfolding shifts_def
    by (intro exI [of _ rs] exI [of _ al] exI [of _ w]) simp
qed

text \<open>An operation: the reserve is updated, the book changes, and the tokens move.\<close>

lemma performsI:
  assumes first: "settles E D s s1"
    and bk: "s2 = s1\<lparr>book := (happen e (book s1))\<lparr>loanRepaidInterceptors := tab\<rparr>, external := w\<rparr>" "harmless E D (external s1) w"
    and rest: "shifts E D d p c s2 s'"
    and e: "enabled e (book s)" "in_use s (event_reserve e (book s))"
    and d: "d = at2 (debtTokenAddress (reserves s (event_reserve e (book s)))) (event_borrower e (book s)) (debt_change e (book s))"
      "p = at1 (debtTokenAddress (reserves s (event_reserve e (book s)))) (debt_change e (book s))"
      "c = at1 (event_reserve e (book s)) (bid_change e (book s))"
  shows "performs E D e s s'"
proof -
  have b: "book s1 = book s" by (rule shifts_book [OF first])
  have "settles E D (with_book e tab s) (s1\<lparr>book := (happen e (book s))\<lparr>loanRepaidInterceptors := tab\<rparr>\<rparr>)"
    unfolding with_book_def by (rule shifts_under_book [OF first])
  moreover have "settles E D (s1\<lparr>book := (happen e (book s))\<lparr>loanRepaidInterceptors := tab\<rparr>\<rparr>) s2"
    by (rule settlesI [where w = w]) (simp_all add: bk b)
  ultimately have "settles E D (with_book e tab s) s2" by (rule settles_shifts)
  from settles_shifts [OF this rest] have "shifts E D d p c (with_book e tab s) s'" .
  then show ?thesis using e unfolding performs_def in_use_def d by (auto simp: Let_def)
qed

section \<open>Deposits and withdrawals\<close>

lemma deposit_settles:
  assumes ok: "externals_ok E D" and m: "market_ok E D s" and i: "initiator \<noteq> pool_addr E"
    and run: "executeDeposit E B initiator a amount user s = Inr (u, s')"
  shows "settles E D s s'"
proof -
  let ?t = "bTokenAddress (reserves s a)"
  from run obtain s1 s2 s3 r where live: "in_use s a"
    and s1: "updateState E B a s = Inr ((), s1)" and s2: "updateInterestRates E a amount 0 s1 = Inr ((), s2)"
    and s3: "cext (token_transfer_from E a (pool_addr E) initiator ?t amount) s2 = Inr ((), s3)"
    and s4: "BToken_mint E ?t user amount (liquidityIndex (reserves s3 a)) s3 = Inr (r, s')"
    by (auto simp: executeDeposit_def validateDeposit_def step_simps in_use_def Let_def)
  note ml = market_live [OF m live]
  have "settles E D s s2"
    using updateState_settles [OF ok market_bToken [OF m] s1] updateInterestRates_settles [OF s2] by (rule settles_shifts)
  then have "settles E D s s3" using pays_settles(1) [OF ok ml(2) i s3] by (rule settles_shifts)
  then show ?thesis using BToken_mint_settles [OF ok ml(3) s4] by (rule settles_shifts)
qed

lemma withdraw_settles:
  assumes ok: "externals_ok E D" and m: "market_ok E D s" and i: "initiator \<noteq> pool_addr E"
    and run: "executeWithdraw E B initiator a amount receiver s = Inr (u, s')"
  shows "settles E D s s'"
proof -
  let ?t = "bTokenAddress (reserves s a)"
  from run obtain s1 s2 x where live: "in_use s a"
    and s1: "updateState E B a s = Inr ((), s1)" and s2: "updateInterestRates E a 0 x s1 = Inr ((), s2)"
    and s3: "BToken_burn E ?t a initiator receiver x (liquidityIndex (reserves s2 a)) s2 = Inr ((), s')"
    by (auto simp: executeWithdraw_def validateWithdraw_def BToken_balanceOf_def call_simps in_use_def Let_def)
  note ml = market_live [OF m live]
  have "settles E D s s2"
    using updateState_settles [OF ok market_bToken [OF m] s1] updateInterestRates_settles [OF s2] by (rule settles_shifts)
  then show ?thesis using BToken_burn_settles [OF ok ml(3,2,4) i s3] by (rule settles_shifts)
qed

section \<open>Borrowing and repaying\<close>

text \<open>The debt of a loan, right after its reserve was updated\<close>

lemma debt_now:
  assumes "getLoanReserveBorrowAmount B i s = Inr (x, s')"
    and "lastUpdateTimestamp (reserves s (reserveAsset (loans (book s) i))) = to_uint40 (block_timestamp B)"
  shows "x = round_div (scaledAmount (loans (book s) i) * variableBorrowIndex (reserves s (reserveAsset (loans (book s) i)))) ray"
  using assms by (auto simp: getLoanReserveBorrowAmount_def getNormalizedDebt_def call_simps checked_simps split: if_splits)

lemma interceptors_same: "b = b\<lparr>loanRepaidInterceptors := loanRepaidInterceptors b\<rparr>"
  by simp

lemma book_interceptors:
  "loanRepaidInterceptors (book_scale i x b) = loanRepaidInterceptors b"
  "loanRepaidInterceptors (book_create n t u a x b) = loanRepaidInterceptors b"
  "loanRepaidInterceptors (book_bid i now u p d b) = loanRepaidInterceptors b"
  "loanRepaidInterceptors (book_redeem i x b) = loanRepaidInterceptors b"
  by (simp_all add: book_scale_def book_create_def book_bid_def book_redeem_def set_loan_def Let_def)

lemma listed_book: "nftToLoanIds b n t = i \<Longrightarrow> i \<noteq> 0 \<Longrightarrow> listed b i"
  by (auto simp: listed_def)

lemma borrow_performs:
  assumes ok: "externals_ok E D" and m: "market_ok E D s" and bk: "book_ok (book s)" and i: "initiator \<noteq> pool_addr E"
    and run: "executeBorrow E B initiator a amount n t user s = Inr (u, s')"
  shows "\<exists>x. performs E D (if nftToLoanIds (book s) n t = 0 then Open n t user a x else Draw (nftToLoanIds (book s) n t) x) s s'"
proof -
  let ?i = "nftToLoanIds (book s) n t"
  from run obtain s1 sv s2 b s3 s4 where s1: "updateState E B a s = Inr ((), s1)"
    and v': "validateBorrow E B user a amount n (nftToLoanIds (book s1) n t) s1 = Inr ((), sv)"
    and s2': "open_or_draw E initiator a amount n t user (nfts s1 n) (nftToLoanIds (book s1) n t)
      (variableBorrowIndex (reserves sv a)) sv = Inr ((), s2)"
    and s3'': "DebtToken_mint E (debtTokenAddress (reserves sv a)) initiator user amount (variableBorrowIndex (reserves sv a)) s2 = Inr (b, s3)"
    and s4: "updateInterestRates E a 0 amount s3 = Inr ((), s4)"
    and s5': "cext (token_transfer E a (bTokenAddress (reserves sv a)) initiator amount) s4 = Inr ((), s')"
    by (auto simp: executeBorrow_def transferUnderlyingTo_def step_simps)
  have sv: "sv = s1" by (rule validateBorrow_reads(1) [OF v'])
  note v = v' [unfolded sv] and s2 = s2' [unfolded sv] and s3' = s3'' [unfolded sv] and s5 = s5' [unfolded sv]
  note first = updateState_settles [OF ok market_bToken [OF m] s1]
  have b1: "book s1 = book s" by (rule shifts_book [OF first])
  note vr = validateBorrow_reads [OF v]
  have live1: "in_use s1 a" using vr(2) by (simp add: in_use_def)
  then have live: "in_use s a" by (simp add: shifts_live [OF first])
  note ml = market_live [OF shifts_market_ok [OF m first] live1]
  have dt: "debtTokenAddress (reserves s1 a) = debtTokenAddress (reserves s a)" by (simp add: shifts_same(2) [OF first])
  from DebtToken_mint_shifts [OF ok s3'] obtain x where x: "rayDiv amount (variableBorrowIndex (reserves s1 a)) = Inr x"
    and mint: "shifts E D (at2 (debtTokenAddress (reserves s a)) user (int x)) (at1 (debtTokenAddress (reserves s a)) (int x)) (\<lambda>_. 0) s2 s3"
    unfolding dt by blast
  have rest: "shifts E D (at2 (debtTokenAddress (reserves s a)) user (int x)) (at1 (debtTokenAddress (reserves s a)) (int x)) (\<lambda>_. 0) s2 s'"
    using shifts_settles [OF shifts_settles [OF mint updateInterestRates_settles [OF s4]] pays_settles(2) [OF ok ml(2,4) s5]] .
  show ?thesis
  proof (cases "?i = 0")
    case True
    with s2 b1 obtain w j where w: "nft_transfer E n (pool_addr E) initiator (pool_addr E) t (external s1) = Inr w"
      and c: "createLoan E initiator user n t (bNftAddress (nfts s1 n)) a amount (variableBorrowIndex (reserves s1 a)) (s1\<lparr>external := w\<rparr>) = Inr (j, s2)"
      by (auto simp: open_or_draw_def call_simps)
    from createLoan_effect [OF ok c] x obtain w' where
      s2': "s2 = s1\<lparr>book := book_create n t user a x (book s1), external := w'\<rparr>" and q: "harmless E D w w'"
      by auto
    have "performs E D (Open n t user a x) s s'"
    proof (rule performsI [OF first _ _ rest])
      show "s2 = s1\<lparr>book := (happen (Open n t user a x) (book s1))\<lparr>loanRepaidInterceptors := loanRepaidInterceptors (book s1)\<rparr>, external := w'\<rparr>"
        using interceptors_same [of "book_create n t user a x (book s1)"] by (simp add: s2' book_interceptors)
      show "harmless E D (external s1) w'" by (rule harmless_trans [OF callback_harmless(2) [OF ok w] q])
    qed (use True live in \<open>simp_all add: at1_def fun_eq_iff\<close>)
    with True show ?thesis by auto
  next
    case False
    with s2 b1 have up: "updateLoan ?i amount 0 (variableBorrowIndex (reserves s1 a)) s1 = Inr ((), s2)"
      by (simp add: open_or_draw_def)
    from updateLoan_adds [OF up] vr(3) x obtain
      s2': "s2 = s1\<lparr>book := book_scale ?i (scaledAmount (loans (book s1) ?i) + x) (book s1)\<rparr>" by auto
    have l: "loan_state (loans (book s) ?i) = L_Active" "reserveAsset (loans (book s) ?i) = a" "borrower (loans (book s) ?i) = user"
      using vr(4) False b1 by auto
    have "performs E D (Draw ?i x) s s'"
    proof (rule performsI [OF first _ _ rest])
      show "s2 = s1\<lparr>book := (happen (Draw ?i x) (book s1))\<lparr>loanRepaidInterceptors := loanRepaidInterceptors (book s1)\<rparr>, external := external s1\<rparr>"
        using interceptors_same [of "book_scale ?i (scaledAmount (loans (book s1) ?i) + x) (book s1)"]
        by (simp add: s2' book_interceptors)
      show "enabled (Draw ?i x) (book s)" using False l by (auto simp: listed_def)
    qed (use False live l in \<open>simp_all add: at1_def fun_eq_iff\<close>)
    with False show ?thesis by auto
  qed
qed

lemma rayDiv_rayMul:
  assumes "ray \<le> index" "rayDiv (round_div (x * index) ray) index = Inr y"
  shows "y = x"
  using assms round_div_roundtrip [of ray index x] by (simp add: rayDiv_returns)

lemma repay_performs:
  assumes ok: "externals_ok E D" and m: "market_ok E D s" and bk: "book_ok (book s)" and i: "initiator \<noteq> pool_addr E"
    and run: "executeRepay E B initiator n t amount s = Inr (r, s')"
  shows "\<exists>x. performs E D (if snd r then Close (nftToLoanIds (book s) n t) else PayDown (nftToLoanIds (book s) n t) x) s s'"
proof -
  let ?i = "nftToLoanIds (book s) n t"
  let ?l = "loans (book s) ?i"
  let ?a = "reserveAsset ?l"
  from run obtain s1 debt sb sv s2 s3 s4 s5 where i0: "?i \<noteq> 0"
    and s1: "updateState E B ?a s = Inr ((), s1)"
    and debt: "getLoanReserveBorrowAmount B ?i s1 = Inr (debt, sb)"
    and v: "validateRepay (reserves sb ?a) (nfts sb (nftAsset ?l)) ?l amount debt sb = Inr ((), sv)"
    and s2: "(if amount < debt then updateLoan ?i 0 (if amount < debt then amount else debt) (variableBorrowIndex (reserves sb ?a))
      else repayLoan E ?i (bNftAddress (nfts sb (nftAsset ?l)))) sv = Inr ((), s2)"
    and s3: "DebtToken_burn E (debtTokenAddress (reserves sb ?a)) (borrower ?l) (if amount < debt then amount else debt)
      (variableBorrowIndex (reserves sb ?a)) s2 = Inr ((), s3)"
    and s4: "updateInterestRates E ?a (if amount < debt then amount else debt) 0 s3 = Inr ((), s4)"
    and s5: "cext (token_transfer_from E ?a (pool_addr E) initiator (bTokenAddress (reserves sb ?a))
      (if amount < debt then amount else debt)) s4 = Inr ((), s5)"
    and s6: "(if \<not> amount < debt then cext (nft_transfer E (nftAsset ?l) (pool_addr E) (pool_addr E) (borrower ?l) t) else ret ()) s5 = Inr ((), s')"
    and r: "r = (if amount < debt then amount else debt, \<not> amount < debt)"
    by (auto simp: executeRepay_def step_simps Let_def cong: if_weak_cong)
  note first = updateState_settles [OF ok market_bToken [OF m] s1]
  have b1: "book s1 = book s" by (rule shifts_book [OF first])
  have sb: "sb = s1" by (rule getLoanReserveBorrowAmount_reads [OF debt])
  note vr = validateRepay_reads [OF v]
  have sv: "sv = s1" using vr(1) sb by simp
  have live1: "in_use s1 ?a" using vr(2) by (simp add: in_use_def sb)
  then have live: "in_use s ?a" by (simp add: shifts_live [OF first])
  note ml = market_live [OF shifts_market_ok [OF m first] live1]
  have dt: "debtTokenAddress (reserves s1 ?a) = debtTokenAddress (reserves s ?a)" by (simp add: shifts_same(2) [OF first])
  let ?vi = "variableBorrowIndex (reserves s1 ?a)" and ?t = "debtTokenAddress (reserves s ?a)"
  have dtD: "?t \<in> D" using ml(1) dt by simp
  from DebtToken_burn_shifts [OF ok dtD s3 [unfolded sb dt]] obtain x
    where x: "rayDiv (if amount < debt then amount else debt) ?vi = Inr x" "x \<noteq> 0"
      and burn: "shifts E D (at2 ?t (borrower ?l) (- int x)) (at1 ?t (- int x)) (\<lambda>_. 0) s2 s3" .
  have "settles E D s4 s'"
  proof (cases "amount < debt")
    case True
    with s6 pays_settles(1) [OF ok ml(2) i s5] show ?thesis by (simp add: step_simps)
  next
    case False
    with s6 nft_moves_settles [OF ok] have "settles E D s5 s'" by simp
    with pays_settles(1) [OF ok ml(2) i s5] show ?thesis by (rule settles_shifts)
  qed
  from shifts_settles [OF shifts_settles [OF burn updateInterestRates_settles [OF s4]] this]
  have rest: "shifts E D (at2 ?t (borrower ?l) (- int x)) (at1 ?t (- int x)) (\<lambda>_. 0) s2 s'" .
  show ?thesis
  proof (cases "amount < debt")
    case True
    with s2 have up: "updateLoan ?i 0 amount ?vi s1 = Inr ((), s2)" by (simp add: sv sb)
    from updateLoan_takes [OF up] vr(3) x True b1 have le: "x \<le> scaledAmount ?l"
      and s2': "s2 = s1\<lparr>book := book_scale ?i (scaledAmount (loans (book s1) ?i) - x) (book s1)\<rparr>" by auto
    have "performs E D (PayDown ?i x) s s'"
    proof (rule performsI [OF first _ _ rest])
      show "s2 = s1\<lparr>book := (happen (PayDown ?i x) (book s1))\<lparr>loanRepaidInterceptors := loanRepaidInterceptors (book s1)\<rparr>, external := external s1\<rparr>"
        using interceptors_same [of "book_scale ?i (scaledAmount (loans (book s1) ?i) - x) (book s1)"]
        by (simp add: s2' book_interceptors)
      show "enabled (PayDown ?i x) (book s)" using i0 vr(5) le by (auto simp: listed_def)
    qed (use live in \<open>simp_all add: at1_def fun_eq_iff\<close>)
    with True r show ?thesis by auto
  next
    case False
    have now: "lastUpdateTimestamp (reserves s1 ?a) = to_uint40 (block_timestamp B)"
      by (rule updateState_now [OF ok market_bToken [OF m] s1])
    have "debt = round_div (scaledAmount ?l * ?vi) ray"
      using debt_now [OF debt] now b1 by simp
    with x(1) False have xs: "x = scaledAmount ?l" using rayDiv_rayMul [OF ml(6)] by simp
    from s2 False have rp: "repayLoan E ?i (bNftAddress (nfts s1 (nftAsset ?l))) s1 = Inr ((), s2)" by (simp add: sv sb)
    have "performs E D (Close ?i) s s'"
    proof (rule repayLoan_effect [OF ok rp], rule performsI [OF first _ _ rest])
      show "s2 = s1\<lparr>book := (happen (Close ?i) (book s1))\<lparr>loanRepaidInterceptors := tab\<rparr>, external := w\<rparr>"
        if "s2 = s1\<lparr>book := (book_close ?i (\<lambda>l. l\<lparr>loan_state := L_Repaid\<rparr>) (book s1))\<lparr>loanRepaidInterceptors := tab\<rparr>, external := w\<rparr>" for tab w
        using that by simp
    qed (use i0 vr(5) xs live in \<open>auto simp: listed_def at1_def fun_eq_iff\<close>)
    with False r show ?thesis by auto
  qed
qed

end
