(* ===== verification/PoolAuction.thy ===== *)
theory PoolAuction
  imports PoolSpec
begin

text \<open>
  Auctions: a bid, a redemption and a liquidation refine the events \<open>Bid\<close>, \<open>Redeem\<close> and \<open>Foreclose\<close>. What the
  pool receives and pays on the way adds up to the change of the bids it has to keep.
\<close>

lemma at1_add: "(\<lambda>t. at1 a x t + at1 a y t) = at1 a (x + y)"
  by (simp add: at1_def fun_eq_iff)

lemma at1_zero [simp]: "at1 a 0 = (\<lambda>_. 0)"
  by (simp add: at1_def fun_eq_iff)

lemma at2_zero [simp]: "at2 a b 0 = (\<lambda>_ _. 0)"
  by (simp add: at2_def fun_eq_iff)

text \<open>Two steps that only move the pool's own assets\<close>

lemma custody_trans:
  assumes "shifts E D (\<lambda>t u. 0) (\<lambda>t. 0) (at1 a x) s s'" "shifts E D (\<lambda>t u. 0) (\<lambda>t. 0) (at1 a y) s' s''"
  shows "shifts E D (\<lambda>t u. 0) (\<lambda>t. 0) (at1 a (x + y)) s s''"
  using shifts_trans [OF assms] by (simp add: at1_add)

lemma debt_then_custody:
  assumes "shifts E D d p (\<lambda>_. 0) s s'" "shifts E D (\<lambda>t u. 0) (\<lambda>t. 0) (at1 a y) s' s''"
  shows "shifts E D d p (at1 a y) s s''"
  using shifts_trans [OF assms] by simp

lemma auction_performs:
  assumes ok: "externals_ok E D" and m: "market_ok E D s" and bk: "book_ok (book s)" and i: "initiator \<noteq> pool_addr E"
    and t0: "0 < block_timestamp B"
    and run: "executeAuction E B initiator n t bid user s = Inr (r, s')"
  shows "\<exists>debt. performs E D (Bid (nftToLoanIds (book s) n t) (block_timestamp B) user bid debt) s s'"
proof -
  let ?i = "nftToLoanIds (book s) n t"
  let ?l = "loans (book s) ?i"
  let ?a = "reserveAsset ?l"
  from run obtain sv s1 debt thr price sc sd s2 s3 s4 where u0: "user \<noteq> 0" and i0: "?i \<noteq> 0"
    and v: "validateAuction (reserves s ?a) (nfts s (nftAsset ?l)) ?l bid s = Inr ((), sv)"
    and s1': "updateState E B ?a sv = Inr ((), s1)"
    and price: "calculateLoanLiquidatePrice B ?i ?a (nftAsset ?l) s1 = Inr ((debt, thr, price), sc)"
    and cb: "check_bid B (nfts s (nftAsset ?l)) ?l bid debt thr price sc = Inr ((), sd)"
    and s2': "auctionLoan E B ?i user bid debt sd = Inr ((), s2)"
    and s3: "cext (token_transfer_from E ?a (pool_addr E) initiator (pool_addr E) bid) s2 = Inr ((), s3)"
    and s4: "(if bidderAddress ?l \<noteq> 0 then cext (token_transfer E ?a (pool_addr E) (bidderAddress ?l) (bidPrice ?l)) else ret ()) s3 = Inr ((), s4)"
    and s5: "updateInterestRates E ?a 0 0 s4 = Inr (r, s')"
    by (auto simp: executeAuction_def step_simps Let_def cong: if_weak_cong)
  note vr = validateAuction_reads [OF v]
  note s1 = s1' [unfolded vr(1)]
  have sd: "sd = s1" using check_bid_reads [OF cb] calculateLoanLiquidatePrice_reads(1) [OF price] by simp
  note first = updateState_settles [OF ok market_bToken [OF m] s1]
  have b1: "book s1 = book s" by (rule shifts_book [OF first])
  have live: "in_use s ?a" using vr(2) by (simp add: in_use_def)
  note ml = market_live [OF m live]
  from auctionLoan_effect [OF ok s2' [unfolded sd]] obtain w where
    s2: "s2 = s1\<lparr>book := book_bid ?i (block_timestamp B) user bid debt (book s1), external := w\<rparr>"
    and q: "harmless E D (external s1) w"
    and st: "loan_state ?l = (if bidStartTimestamp ?l = 0 then L_Active else L_Auction)"
    and up: "bidStartTimestamp ?l \<noteq> 0 \<Longrightarrow> bidPrice ?l < bid"
    unfolding b1 by auto
  note lok = book_ok_loan [OF bk, of ?i]
  have low: "bidPrice ?l < bid" using st up lok vr(4) by (cases "bidStartTimestamp ?l = 0") (auto simp: loan_ok_def)
  have refund: "shifts E D (\<lambda>t u. 0) (\<lambda>t. 0) (at1 ?a (- int (bidPrice ?l))) s3 s4"
  proof (cases "bidderAddress ?l = 0")
    case True
    then have "bidPrice ?l = 0" using lok vr(3) by (auto simp: loan_ok_def is_open_def)
    moreover have "s4 = s3" using s4 True by (simp add: step_simps)
    ultimately show ?thesis by simp
  next
    case False
    with s4 show ?thesis by (intro pool_pays [OF ok ml(2)]) simp
  qed
  have rest: "shifts E D (\<lambda>t u. 0) (\<lambda>t. 0) (at1 ?a (int bid + - int (bidPrice ?l))) s2 s'"
    using shifts_settles [OF custody_trans [OF pool_receives [OF ok ml(2) i s3] refund] updateInterestRates_settles [OF s5]] .
  have "performs E D (Bid ?i (block_timestamp B) user bid debt) s s'"
  proof (rule performsI [OF first _ q rest])
    show "s2 = s1\<lparr>book := (happen (Bid ?i (block_timestamp B) user bid debt) (book s1))
        \<lparr>loanRepaidInterceptors := loanRepaidInterceptors (book s1)\<rparr>, external := w\<rparr>"
      using interceptors_same [of "book_bid ?i (block_timestamp B) user bid debt (book s1)"] by (simp add: s2 book_interceptors)
    show "enabled (Bid ?i (block_timestamp B) user bid debt) (book s)"
      using i0 u0 t0 vr(3) low by (auto simp: listed_def)
  qed (use live in simp_all)
  then show ?thesis ..
qed

lemma redeem_performs:
  assumes ok: "externals_ok E D" and m: "market_ok E D s" and i: "initiator \<noteq> pool_addr E"
    and run: "executeRedeem E B initiator n t amount fine s = Inr (r, s')"
  shows "\<exists>x. performs E D (Redeem (nftToLoanIds (book s) n t) x) s s'"
proof -
  let ?i = "nftToLoanIds (book s) n t"
  let ?l = "loans (book s) ?i"
  let ?a = "reserveAsset ?l"
  from run obtain sv e se s1 debt thr price sc f g sd s2 s3 s4 s5 s6 where i0: "?i \<noteq> 0"
    and v: "validateRedeem (reserves s ?a) (nfts s (nftAsset ?l)) ?l amount s = Inr ((), sv)"
    and e: "end_timestamp ?l (redeem_hours (nfts s (nftAsset ?l))) sv = Inr (e, se)"
    and s1': "updateState E B ?a se = Inr ((), s1)"
    and price: "calculateLoanLiquidatePrice B ?i ?a (nftAsset ?l) s1 = Inr ((debt, thr, price), sc)"
    and fine: "calculateLoanBidFine B ?a (nftAsset ?l) ?l sc = Inr ((f, g), sd)"
    and s2': "redeemLoan E ?i amount (variableBorrowIndex (reserves sd ?a)) sd = Inr ((), s2)"
    and s3: "DebtToken_burn E (debtTokenAddress (reserves sd ?a)) (borrower ?l) amount (variableBorrowIndex (reserves sd ?a)) s2 = Inr ((), s3)"
    and s4: "updateInterestRates E ?a amount 0 s3 = Inr ((), s4)"
    and s5: "cext (token_transfer_from E ?a (pool_addr E) initiator (bTokenAddress (reserves sd ?a)) amount) s4 = Inr ((), s5)"
    and s6: "(if bidderAddress ?l \<noteq> 0 then
        cthen (cext (token_transfer E ?a (pool_addr E) (bidderAddress ?l) (bidPrice ?l)))
          (cext (token_transfer_from E ?a (pool_addr E) initiator (firstBidderAddress ?l) g))
      else ret ()) s5 = Inr ((), s6)"
    and s': "s' = s6"
    by (auto simp: executeRedeem_def step_simps Let_def cong: if_weak_cong)
  note vr = validateRedeem_reads [OF v]
  have se: "se = s" using end_timestamp_reads [OF e] vr(1) by simp
  note s1 = s1' [unfolded se]
  have sd: "sd = s1" using calculateLoanBidFine_reads [OF fine] calculateLoanLiquidatePrice_reads(1) [OF price] by simp
  note first = updateState_settles [OF ok market_bToken [OF m] s1]
  have b1: "book s1 = book s" by (rule shifts_book [OF first])
  have live: "in_use s ?a" using vr(2) by (simp add: in_use_def)
  note ml = market_live [OF m live]
  have dt: "debtTokenAddress (reserves s1 ?a) = debtTokenAddress (reserves s ?a)" by (simp add: shifts_same(2) [OF first])
  let ?vi = "variableBorrowIndex (reserves s1 ?a)" and ?t = "debtTokenAddress (reserves s ?a)"
  from redeemLoan_effect [OF ok s2' [unfolded sd], unfolded b1] obtain x w where x: "rayDiv amount ?vi = Inr x"
    and le: "x \<le> scaledAmount ?l" and "loan_state ?l = L_Auction"
    and s2: "s2 = s1\<lparr>book := book_redeem ?i (scaledAmount ?l - x) (book s), external := w\<rparr>"
    and q: "harmless E D (external s1) w" .
  from DebtToken_burn_shifts [OF ok ml(1) s3 [unfolded sd dt]] obtain y where y: "rayDiv amount ?vi = Inr y"
    and burn': "shifts E D (at2 ?t (borrower ?l) (- int y)) (at1 ?t (- int y)) (\<lambda>_. 0) s2 s3" .
  from x y have "y = x" by simp
  note burn = burn' [unfolded this]
  from s6 vr(4) obtain sp where sp: "cext (token_transfer E ?a (pool_addr E) (bidderAddress ?l) (bidPrice ?l)) s5 = Inr ((), sp)"
    and sq: "cext (token_transfer_from E ?a (pool_addr E) initiator (firstBidderAddress ?l) g) sp = Inr ((), s6)"
    by (auto simp: step_simps)
  have pay: "shifts E D (\<lambda>t u. 0) (\<lambda>t. 0) (at1 ?a (- int (bidPrice ?l))) s5 s'"
    using shifts_settles [OF pool_pays [OF ok ml(2) sp] pays_settles(1) [OF ok ml(2) i sq]] s' by simp
  have rest: "shifts E D (at2 ?t (borrower ?l) (- int x)) (at1 ?t (- int x)) (at1 ?a (- int (bidPrice ?l))) s2 s'"
    using debt_then_custody [OF shifts_settles [OF shifts_settles [OF burn updateInterestRates_settles [OF s4]]
      pays_settles(1) [OF ok ml(2) i s5]] pay] .
  have "performs E D (Redeem ?i x) s s'"
  proof (rule performsI [OF first _ q rest])
    show "s2 = s1\<lparr>book := (happen (Redeem ?i x) (book s1))\<lparr>loanRepaidInterceptors := loanRepaidInterceptors (book s1)\<rparr>, external := w\<rparr>"
      using interceptors_same [of "book_redeem ?i (scaledAmount ?l - x) (book s1)"] by (simp add: s2 book_interceptors b1)
    show "enabled (Redeem ?i x) (book s)" using i0 vr(3) le by (auto simp: listed_def)
  qed (use live in simp_all)
  then show ?thesis ..
qed

lemma liquidate_performs:
  assumes ok: "externals_ok E D" and m: "market_ok E D s" and i: "initiator \<noteq> pool_addr E"
    and run: "executeLiquidate E B initiator n t amount s = Inr (r, s')"
  shows "\<exists>debt. performs E D (Foreclose (nftToLoanIds (book s) n t) debt) s s'"
proof -
  let ?i = "nftToLoanIds (book s) n t"
  let ?l = "loans (book s) ?i"
  let ?a = "reserveAsset ?l"
  from run obtain sv e se s1 debt thr price sc s2 s3 s4 s5 s6 s7 where i0: "?i \<noteq> 0"
    and v: "validateLiquidate (reserves s ?a) (nfts s (nftAsset ?l)) ?l s = Inr ((), sv)"
    and e: "end_timestamp ?l (auction_hours (nfts s (nftAsset ?l))) sv = Inr (e, se)"
    and s1': "updateState E B ?a se = Inr ((), s1)"
    and price: "calculateLoanLiquidatePrice B ?i ?a (nftAsset ?l) s1 = Inr ((debt, thr, price), sc)"
    and s2': "liquidateLoan E ?i (bNftAddress (nfts s (nftAsset ?l))) debt sc = Inr ((), s2)"
    and s3: "DebtToken_burn E (debtTokenAddress (reserves sc ?a)) (borrower ?l) debt (variableBorrowIndex (reserves sc ?a)) s2 = Inr ((), s3)"
    and s4: "updateInterestRates E ?a debt 0 s3 = Inr ((), s4)"
    and s5: "(if 0 < (if bidPrice ?l < debt then debt - bidPrice ?l else 0)
        then cext (token_transfer_from E ?a (pool_addr E) initiator (pool_addr E) (if bidPrice ?l < debt then debt - bidPrice ?l else 0))
        else ret ()) s4 = Inr ((), s5)"
    and s6: "cext (token_transfer E ?a (pool_addr E) (bTokenAddress (reserves sc ?a)) debt) s5 = Inr ((), s6)"
    and s7: "(if 0 < (if debt < bidPrice ?l then bidPrice ?l - debt else 0)
        then cext (token_transfer E ?a (pool_addr E) (borrower ?l) (if debt < bidPrice ?l then bidPrice ?l - debt else 0))
        else ret ()) s6 = Inr ((), s7)"
    and s8: "cext (nft_transfer E (nftAsset ?l) (pool_addr E) (pool_addr E) (bidderAddress ?l) t) s7 = Inr ((), s')"
    by (auto simp: executeLiquidate_def step_simps Let_def cong: if_weak_cong)
  note vr = validateLiquidate_reads [OF v]
  have se: "se = s" using end_timestamp_reads [OF e] vr(1) by simp
  note s1 = s1' [unfolded se]
  have sc: "sc = s1" by (rule calculateLoanLiquidatePrice_reads(1) [OF price])
  note first = updateState_settles [OF ok market_bToken [OF m] s1]
  have b1: "book s1 = book s" by (rule shifts_book [OF first])
  have live: "in_use s ?a" using vr(2) by (simp add: in_use_def)
  note ml = market_live [OF m live]
  have dt: "debtTokenAddress (reserves s1 ?a) = debtTokenAddress (reserves s ?a)" by (simp add: shifts_same(2) [OF first])
  let ?vi = "variableBorrowIndex (reserves s1 ?a)" and ?t = "debtTokenAddress (reserves s ?a)"
  from DebtToken_burn_shifts [OF ok ml(1) s3 [unfolded sc dt]] obtain x where x: "rayDiv debt ?vi = Inr x"
    and burn': "shifts E D (at2 ?t (borrower ?l) (- int x)) (at1 ?t (- int x)) (\<lambda>_. 0) s2 s3" .
  have now: "lastUpdateTimestamp (reserves s1 ?a) = to_uint40 (block_timestamp B)"
    by (rule updateState_now [OF ok market_bToken [OF m] s1])
  have "debt = round_div (scaledAmount ?l * ?vi) ray"
    using debt_now [OF calculateLoanLiquidatePrice_reads(2) [OF price]] now b1 by simp
  moreover have "ray \<le> ?vi" using ml(6) shifts_same(4) [OF first] le_trans by blast
  ultimately have "x = scaledAmount ?l" using x rayDiv_rayMul by simp
  note burn = burn' [unfolded this]
  have "shifts E D (\<lambda>t u. 0) (\<lambda>t. 0) (at1 ?a (int (debt - bidPrice ?l))) s4 s5"
  proof (cases "bidPrice ?l < debt")
    case True
    with s5 show ?thesis by (intro pool_receives [OF ok ml(2) i]) simp
  next
    case False
    with s5 show ?thesis by (simp add: step_simps)
  qed
  from custody_trans [OF this pool_pays [OF ok ml(2) s6]]
  have in_out: "shifts E D (\<lambda>t u. 0) (\<lambda>t. 0) (at1 ?a (int (debt - bidPrice ?l) + - int debt)) s4 s6" .
  have "shifts E D (\<lambda>t u. 0) (\<lambda>t. 0) (at1 ?a (- int (bidPrice ?l - debt))) s6 s7"
  proof (cases "debt < bidPrice ?l")
    case True
    with s7 show ?thesis by (intro pool_pays [OF ok ml(2)]) simp
  next
    case False
    with s7 show ?thesis by (simp add: step_simps)
  qed
  from custody_trans [OF in_out this]
  have "shifts E D (\<lambda>t u. 0) (\<lambda>t. 0) (at1 ?a (- int (bidPrice ?l))) s4 s7"
    by (cases "bidPrice ?l \<le> debt") (simp_all add: of_nat_diff)
  then have pay: "shifts E D (\<lambda>t u. 0) (\<lambda>t. 0) (at1 ?a (- int (bidPrice ?l))) s4 s'"
    using nft_moves_settles [OF ok s8] by (rule shifts_settles)
  have rest: "shifts E D (at2 ?t (borrower ?l) (- int (scaledAmount ?l))) (at1 ?t (- int (scaledAmount ?l)))
      (at1 ?a (- int (bidPrice ?l))) s2 s'"
    using debt_then_custody [OF shifts_settles [OF burn updateInterestRates_settles [OF s4]] pay] .
  have "performs E D (Foreclose ?i debt) s s'"
  proof (rule liquidateLoan_effect [OF ok s2' [unfolded sc]], rule performsI [OF first _ _ rest])
    show "s2 = s1\<lparr>book := (happen (Foreclose ?i debt) (book s1))\<lparr>loanRepaidInterceptors := tab\<rparr>, external := w\<rparr>"
      if "s2 = s1\<lparr>book := (book_close ?i (\<lambda>l. l\<lparr>loan_state := L_Defaulted, bidBorrowAmount := debt\<rparr>) (book s1))
        \<lparr>loanRepaidInterceptors := tab\<rparr>, external := w\<rparr>" for tab w
      using that by simp
    show "enabled (Foreclose ?i debt) (book s)" using i0 vr(3) by (auto simp: listed_def)
  qed (use live in simp_all)
  then show ?thesis ..
qed

end
