(* ===== verification/LendPool.thy ===== *)
theory LendPool
  imports PoolLogic
begin

text \<open>
  \<open>contracts/protocol/LendPool.sol\<close>: the entries of the pool. What users call is guarded against reentrance
  and by the pause; what the configurator calls is guarded by its address. \<open>run_call\<close> is one transaction.
\<close>

definition guarded :: "('h, 'a) call \<Rightarrow> ('h, 'a) call" where
  "guarded m =
     cbind (cget entered) (\<lambda>e.
     cthen (crequire (\<not> e) ''ReentrancyGuard: reentrant call'')
     (cthen (cset (\<lambda>s. s\<lparr>entered := True\<rparr>))
     (cbind (cget is_paused) (\<lambda>p.
      cthen (crequire (\<not> p) ''LP_IS_PAUSED'')
      (cbind m (\<lambda>r.
       cthen (cset (\<lambda>s. s\<lparr>entered := False\<rparr>)) (ret r)))))))"

definition onlyLendPoolConfigurator :: "'h externals \<Rightarrow> acct \<Rightarrow> ('h, unit) call \<Rightarrow> ('h, unit) call" where
  "onlyLendPoolConfigurator E sender m =
     cthen (crequire (configurator E = sender) ''LP_CALLER_NOT_LEND_POOL_CONFIGURATOR'') m"

datatype pool_call =
    CDeposit acct uint acct
  | CWithdraw acct uint acct
  | CBorrow acct uint acct uint acct
  | CBatchBorrow "acct list" "uint list" "acct list" "uint list" acct
  | CRepay acct uint uint
  | CBatchRepay "acct list" "uint list" "uint list"
  | CAuction acct uint uint acct
  | CRedeem acct uint uint uint
  | CLiquidate acct uint uint
  | CSetPause bool
  | CSetPausedTime uint uint
  | CSetMaxNumberOfReserves uint
  | CSetMaxNumberOfNfts uint
  | CInitReserve acct acct acct acct
  | CInitNft acct acct
  | CSetReserveInterestRateAddress acct acct
  | CSetReserveMaxUtilizationRate acct uint
  | CSetReserveConfiguration acct u256
  | CSetNftConfiguration acct u256
  | CSetNftMaxSupplyAndTokenId acct uint uint
  | CSetNftMaxCollateralCap acct uint

definition setPause :: "block_data \<Rightarrow> bool \<Rightarrow> ('h, unit) call" where
  "setPause B val =
     cbind (cget is_paused) (\<lambda>old.
     if old \<noteq> val then
       cthen (cset (\<lambda>s. s\<lparr>is_paused := val\<rparr>))
       (if val then cset (\<lambda>s. s\<lparr>pauseStartTime := block_timestamp B\<rparr>)
        else cbind (cget pauseStartTime) (\<lambda>t0.
             cbind (clift (sub256 (block_timestamp B) t0)) (\<lambda>d.
             cset (\<lambda>s. s\<lparr>pauseDurationTime := d\<rparr>))))
     else ret ())"

definition addReserveToList :: "acct \<Rightarrow> ('h, unit) call" where
  "addReserveToList asset =
     cbind (cget reservesCount) (\<lambda>n.
     cbind (cget maxNumberOfReserves) (\<lambda>mx.
     cthen (crequire (n < mx) ''LP_NO_MORE_RESERVES_ALLOWED'')
     (cbind (cget (\<lambda>s. r_id (reserves s asset) \<noteq> 0 \<or> reservesList s 0 = asset)) (\<lambda>reserveAlreadyAdded.
      if \<not> reserveAlreadyAdded then
        cthen (cset (set_reserve asset (\<lambda>rd. rd\<lparr>r_id := n mod 256\<rparr>)))
        (cthen (cset (\<lambda>s. s\<lparr>reservesList := (reservesList s)(n := asset)\<rparr>))
        (cbind (clift (add256 n 1)) (\<lambda>n'. cset (\<lambda>s. s\<lparr>reservesCount := n'\<rparr>))))
      else ret ()))))"

definition set_nft :: "acct \<Rightarrow> (nft_data \<Rightarrow> nft_data) \<Rightarrow> 'h pool \<Rightarrow> 'h pool" where
  "set_nft n f s = s\<lparr>nfts := (nfts s)(n := f (nfts s n))\<rparr>"

definition addNftToList :: "acct \<Rightarrow> ('h, unit) call" where
  "addNftToList asset =
     cbind (cget nftsCount) (\<lambda>n.
     cbind (cget maxNumberOfNfts) (\<lambda>mx.
     cthen (crequire (n < mx) ''LP_NO_MORE_NFTS_ALLOWED'')
     (cbind (cget (\<lambda>s. n_id (nfts s asset) \<noteq> 0 \<or> nftsList s 0 = asset)) (\<lambda>nftAlreadyAdded.
      if \<not> nftAlreadyAdded then
        cthen (cset (set_nft asset (\<lambda>nd. nd\<lparr>n_id := n mod 256\<rparr>)))
        (cthen (cset (\<lambda>s. s\<lparr>nftsList := (nftsList s)(n := asset)\<rparr>))
        (cbind (clift (add256 n 1)) (\<lambda>n'. cset (\<lambda>s. s\<lparr>nftsCount := n'\<rparr>))))
      else ret ()))))"

definition initReserve :: "'h externals \<Rightarrow> acct \<Rightarrow> acct \<Rightarrow> acct \<Rightarrow> acct \<Rightarrow> ('h, unit) call" where
  "initReserve E asset bToken debtToken interestRate =
     cbind (cget (\<lambda>s. is_contract E asset (external s))) (\<lambda>c.
     cthen (crequire c ''LP_NOT_CONTRACT'')
     (cthen (init_reserve asset bToken debtToken interestRate)
     (addReserveToList asset)))"

text \<open>\<open>NftLogic.init\<close>, and the approvals of the collection for the book of loans and for the bound NFT\<close>

definition init_nft :: "acct \<Rightarrow> acct \<Rightarrow> ('h, unit) call" where
  "init_nft asset bNft =
     cbind (cget (\<lambda>s. bNftAddress (nfts s asset))) (\<lambda>old.
     cthen (crequire (old = 0) ''RL_RESERVE_ALREADY_INITIALIZED'')
     (cset (set_nft asset (\<lambda>nd. nd\<lparr>bNftAddress := bNft\<rparr>))))"

definition initNft :: "'h externals \<Rightarrow> acct \<Rightarrow> acct \<Rightarrow> ('h, unit) call" where
  "initNft E asset bNft =
     cbind (cget (\<lambda>s. is_contract E asset (external s))) (\<lambda>c.
     cthen (crequire c ''LP_NOT_CONTRACT'')
     (cthen (init_nft asset bNft)
     (cthen (addNftToList asset)
     (cthen (crequire (loan_addr E \<noteq> 0) ''LPC_INVALIED_LOAN_ADDRESS'')
     (cthen (cext (nft_approve E asset (pool_addr E) (loan_addr E)))
     (cext (nft_approve E asset (loan_addr E) bNft)))))))"

fun run_call :: "'h externals \<Rightarrow> block_data \<Rightarrow> acct \<Rightarrow> pool_call \<Rightarrow> ('h, unit) call" where
  "run_call E B sender (CDeposit asset amount user) = guarded (executeDeposit E B sender asset amount user)"
| "run_call E B sender (CWithdraw asset amount receiver) =
     cthen (guarded (executeWithdraw E B sender asset amount receiver)) (ret ())"
| "run_call E B sender (CBorrow asset amount nft tokenId user) =
     guarded (executeBorrow E B sender asset amount nft tokenId user)"
| "run_call E B sender (CBatchBorrow assets amounts nftAssets nftTokenIds user) =
     guarded (executeBatchBorrow E B sender assets amounts nftAssets nftTokenIds user)"
| "run_call E B sender (CRepay nft tokenId amount) =
     cthen (guarded (executeRepay E B sender nft tokenId amount)) (ret ())"
| "run_call E B sender (CBatchRepay nftAssets nftTokenIds amounts) =
     cthen (guarded (executeBatchRepay E B sender nftAssets nftTokenIds amounts)) (ret ())"
| "run_call E B sender (CAuction nft tokenId bid user) = guarded (executeAuction E B sender nft tokenId bid user)"
| "run_call E B sender (CRedeem nft tokenId amount fine) =
     cthen (guarded (executeRedeem E B sender nft tokenId amount fine)) (ret ())"
| "run_call E B sender (CLiquidate nft tokenId amount) =
     cthen (guarded (executeLiquidate E B sender nft tokenId amount)) (ret ())"
| "run_call E B sender (CSetPause val) = onlyLendPoolConfigurator E sender (setPause B val)"
| "run_call E B sender (CSetPausedTime start duration) =
     onlyLendPoolConfigurator E sender (cset (\<lambda>s. s\<lparr>pauseStartTime := start, pauseDurationTime := duration\<rparr>))"
| "run_call E B sender (CSetMaxNumberOfReserves val) =
     onlyLendPoolConfigurator E sender (cset (\<lambda>s. s\<lparr>maxNumberOfReserves := val\<rparr>))"
| "run_call E B sender (CSetMaxNumberOfNfts val) =
     onlyLendPoolConfigurator E sender (cset (\<lambda>s. s\<lparr>maxNumberOfNfts := val\<rparr>))"
| "run_call E B sender (CInitReserve asset bToken debtToken rate) =
     onlyLendPoolConfigurator E sender (initReserve E asset bToken debtToken rate)"
| "run_call E B sender (CInitNft asset bNft) = onlyLendPoolConfigurator E sender (initNft E asset bNft)"
| "run_call E B sender (CSetReserveInterestRateAddress asset rate) =
     onlyLendPoolConfigurator E sender (cset (set_reserve asset (\<lambda>rd. rd\<lparr>interestRateAddress := rate\<rparr>)))"
| "run_call E B sender (CSetReserveMaxUtilizationRate asset v) =
     onlyLendPoolConfigurator E sender (cset (set_reserve asset (\<lambda>rd. rd\<lparr>maxUtilizationRate := v\<rparr>)))"
| "run_call E B sender (CSetReserveConfiguration asset c) =
     onlyLendPoolConfigurator E sender (cset (set_reserve asset (\<lambda>rd. rd\<lparr>r_configuration := c\<rparr>)))"
| "run_call E B sender (CSetNftConfiguration asset c) =
     onlyLendPoolConfigurator E sender (cset (set_nft asset (\<lambda>nd. nd\<lparr>n_configuration := c\<rparr>)))"
| "run_call E B sender (CSetNftMaxSupplyAndTokenId asset supply token) =
     onlyLendPoolConfigurator E sender (cset (set_nft asset (\<lambda>nd. nd\<lparr>nft_maxSupply := supply, nft_maxTokenId := token\<rparr>)))"
| "run_call E B sender (CSetNftMaxCollateralCap asset cap) =
     onlyLendPoolConfigurator E sender (cset (set_nft asset (\<lambda>nd. nd\<lparr>maxCollateralCap := cap\<rparr>)))"

end
