(* ===== verification/PoolInvariant.thy ===== *)
theory PoolInvariant
  imports PoolAuction LendPool
begin

text \<open>
  What holds in every state that the pool can reach: the book of loans is in order, each debt token is backed
  loan by loan, and the pool has the assets for the bids of all running auctions. An operation that refines an
  event of the book keeps this, and so does one that leaves the book alone.
\<close>

section \<open>The invariant\<close>

definition backed :: "'h externals \<Rightarrow> 'h pool \<Rightarrow> bool" where
  "backed E s \<longleftrightarrow> (\<forall>a. in_use s a \<longrightarrow>
     (\<forall>u. token_balance E (debtTokenAddress (reserves s a)) u (external s) = loan_sum (owed_by a u) (book s)) \<and>
     token_supply E (debtTokenAddress (reserves s a)) (external s) = loan_sum (owed_all a) (book s))"

definition bids_kept :: "'h externals \<Rightarrow> acct set \<Rightarrow> 'h pool \<Rightarrow> bool" where
  "bids_kept E D s \<longleftrightarrow> (\<forall>a. a \<notin> D \<longrightarrow>
     loan_sum (bid_kept a) (book s) \<le> token_balance E a (pool_addr E) (external s))"

definition loans_live :: "'h pool \<Rightarrow> bool" where
  "loans_live s \<longleftrightarrow> (\<forall>i. is_open (loans (book s) i) \<longrightarrow> in_use s (reserveAsset (loans (book s) i)))"

definition pool_ok :: "'h externals \<Rightarrow> acct set \<Rightarrow> 'h pool \<Rightarrow> bool" where
  "pool_ok E D s \<longleftrightarrow> market_ok E D s \<and> book_ok (book s) \<and> loans_live s \<and> backed E s \<and> bids_kept E D s"

lemma pool_okD:
  assumes "pool_ok E D s"
  shows "market_ok E D s" "book_ok (book s)" "loans_live s" "backed E s" "bids_kept E D s"
  using assms by (simp_all add: pool_ok_def)

section \<open>Steps that keep it\<close>

text \<open>Only the book, the tokens and indexes of the reserves and the world outside matter.\<close>

lemma pool_ok_cong:
  assumes "\<And>a. bTokenAddress (reserves s' a) = bTokenAddress (reserves s a)"
    and "\<And>a. debtTokenAddress (reserves s' a) = debtTokenAddress (reserves s a)"
    and "\<And>a. liquidityIndex (reserves s' a) = liquidityIndex (reserves s a)"
    and "\<And>a. variableBorrowIndex (reserves s' a) = variableBorrowIndex (reserves s a)"
    and "external s' = external s"
    and "loans (book s') = loans (book s)" "loanIdTracker (book s') = loanIdTracker (book s)"
    and "nftToLoanIds (book s') = nftToLoanIds (book s)" "nftTotalCollateral (book s') = nftTotalCollateral (book s)"
    and "userNftCollateral (book s') = userNftCollateral (book s)"
  shows "pool_ok E D s' = pool_ok E D s"
proof -
  have "loan_sum f (book s') = loan_sum f (book s)" for f by (rule loan_sum_cong) (use assms in auto)
  moreover have "in_use s' a = in_use s a" for a by (simp add: in_use_def assms)
  ultimately show ?thesis
    unfolding pool_ok_def market_ok_def book_ok_def loans_live_def backed_def bids_kept_def open_count_sum
    using assms by (simp add: loan_sum_def)
qed

lemma settles_pool_ok:
  assumes ok: "pool_ok E D s" and st: "settles E D s s'"
  shows "pool_ok E D s'"
proof -
  note same = shifts_live [OF st] shifts_book [OF st] shifts_same(1,2) [OF st]
  from st have mv: "moves E D (\<lambda>t u. 0) (\<lambda>t. 0) (\<lambda>t. 0) (external s) (external s')"
    by (auto simp: shifts_def)
  have "backed E s'"
    unfolding backed_def
  proof (intro allI impI)
    fix a
    assume "in_use s' a"
    then have l: "in_use s a" by (simp add: same)
    from pool_okD(4) [OF ok] l market_live(1) [OF pool_okD(1) [OF ok] l] mv
    show "(\<forall>u. token_balance E (debtTokenAddress (reserves s' a)) u (external s') = loan_sum (owed_by a u) (book s')) \<and>
        token_supply E (debtTokenAddress (reserves s' a)) (external s') = loan_sum (owed_all a) (book s')"
      by (simp add: same backed_def moves_def bal_def)
  qed
  moreover have "bids_kept E D s'"
    unfolding bids_kept_def
  proof (intro allI impI)
    fix a
    assume "a \<notin> D"
    with pool_okD(5) [OF ok] mv have "loan_sum (bid_kept a) (book s) \<le> token_balance E a (pool_addr E) (external s)"
      "token_balance E a (pool_addr E) (external s) \<le> token_balance E a (pool_addr E) (external s')"
      by (auto simp: bids_kept_def moves_def bal_def)
    then show "loan_sum (bid_kept a) (book s') \<le> token_balance E a (pool_addr E) (external s')" by (simp add: same)
  qed
  ultimately show ?thesis
    using ok shifts_market_ok [OF pool_okD(1) [OF ok] st] by (simp add: pool_ok_def loans_live_def same)
qed

text \<open>An event keeps the open loans in live reserves.\<close>

lemma open_happen:
  assumes ok: "book_ok b" and e: "enabled e b" and o: "is_open (loan_of (happen e b) i)"
  shows "reserveAsset (loan_of (happen e b) i) = event_reserve e b \<or>
    is_open (loan_of b i) \<and> reserveAsset (loan_of (happen e b) i) = reserveAsset (loan_of b i)"
  using e o listed_open(1) [OF ok]
  by (cases e)
    (auto simp: book_create_def book_scale_def book_bid_def book_redeem_def book_close_def set_loan_def Let_def
      is_open_def split: if_splits)

lemma performs_pool_ok:
  assumes ok: "pool_ok E D s" and pf: "performs E D e s s'"
  shows "pool_ok E D s'"
proof -
  let ?b = "book s" and ?a = "event_reserve e (book s)"
  let ?t = "debtTokenAddress (reserves s ?a)"
  from pf obtain tab where e: "enabled e ?b" and la: "in_use s ?a"
    and sh: "shifts E D (at2 ?t (event_borrower e ?b) (debt_change e ?b)) (at1 ?t (debt_change e ?b))
      (at1 ?a (bid_change e ?b)) (with_book e tab s) s'"
    by (auto simp: performs_def in_use_def Let_def)
  note bk = pool_okD(2) [OF ok] and mk = pool_okD(1) [OF ok]
  have book': "book s' = (happen e ?b)\<lparr>loanRepaidInterceptors := tab\<rparr>"
    using shifts_book [OF sh] by (simp add: with_book_def)
  have sums: "loan_sum f (book s') = loan_sum f (happen e ?b)" for f
    by (rule loan_sum_cong) (simp_all add: book')
  have same: "in_use s' a = in_use s a" "debtTokenAddress (reserves s' a) = debtTokenAddress (reserves s a)" for a
    using shifts_live [OF sh] shifts_same(2) [OF sh] by simp_all
  have mv: "moves E D (at2 ?t (event_borrower e ?b) (debt_change e ?b)) (at1 ?t (debt_change e ?b))
      (at1 ?a (bid_change e ?b)) (external s) (external s')"
    using sh by (auto simp: shifts_def with_book_def)
  have "market_ok E D s'" using shifts_market_ok [OF _ sh] mk by simp
  moreover have "book_ok (book s')"
    using book_ok_happen [OF bk e] by (simp add: book' book_ok_def open_count_sum loan_sum_def)
  moreover have "loans_live s'"
    using open_happen [OF bk e] la pool_okD(3) [OF ok] by (fastforce simp: loans_live_def same book')
  moreover have "backed E s'"
    unfolding backed_def
  proof (intro allI impI conjI)
    fix a u
    assume "in_use s' a"
    then have l: "in_use s a" by (simp add: same)
    have inj: "(debtTokenAddress (reserves s a) = ?t) = (a = ?a)"
      using mk l la by (auto simp: market_ok_def)
    note d = market_live(1) [OF mk l]
    from pool_okD(4) [OF ok] l have
      now: "int (token_balance E (debtTokenAddress (reserves s a)) u (external s)) = int (loan_sum (owed_by a u) ?b)"
      "int (token_supply E (debtTokenAddress (reserves s a)) (external s)) = int (loan_sum (owed_all a) ?b)"
      by (simp_all add: backed_def)
    from mv d now owed_happen [OF bk e, of a u] inj
    have "int (token_balance E (debtTokenAddress (reserves s' a)) u (external s')) = int (loan_sum (owed_by a u) (book s'))"
      by (simp add: same sums moves_def bal_def at2_def)
    then show "token_balance E (debtTokenAddress (reserves s' a)) u (external s') = loan_sum (owed_by a u) (book s')" by simp
    from mv d now owed_all_happen [OF bk e, of a] inj
    have "int (token_supply E (debtTokenAddress (reserves s' a)) (external s')) = int (loan_sum (owed_all a) (book s'))"
      by (simp add: same sums moves_def at1_def)
    then show "token_supply E (debtTokenAddress (reserves s' a)) (external s') = loan_sum (owed_all a) (book s')" by simp
  qed
  moreover have "bids_kept E D s'"
    unfolding bids_kept_def
  proof (intro allI impI)
    fix a
    assume a: "a \<notin> D"
    with pool_okD(5) [OF ok] have "int (loan_sum (bid_kept a) ?b) \<le> bal E a (pool_addr E) (external s)"
      by (simp add: bids_kept_def bal_def)
    moreover from mv a have "bal E a (pool_addr E) (external s) + at1 ?a (bid_change e ?b) a \<le> bal E a (pool_addr E) (external s')"
      by (simp add: moves_def)
    moreover note bid_kept_happen [OF bk e, of a]
    ultimately have "int (loan_sum (bid_kept a) (book s')) \<le> bal E a (pool_addr E) (external s')"
      unfolding sums by linarith
    then show "loan_sum (bid_kept a) (book s') \<le> token_balance E a (pool_addr E) (external s')" by (simp add: bal_def)
  qed
  ultimately show ?thesis by (simp add: pool_ok_def)
qed

end
