(* ===== verification/PoolReach.thy ===== *)
theory PoolReach
  imports PoolInvariant
begin

text \<open>
  Every state that the pool can reach satisfies the invariant. The steps are the transactions of \<open>LendPool\<close> by
  any sender, the delegation of borrowing power, changes of the rate contracts, of the treasuries and of the
  interceptors, and whatever happens elsewhere (\<open>harmless\<close>).
\<close>

section \<open>Transactions\<close>

lemma guarded_returns [call_simps]:
  "guarded m s = Inr (r, s') \<longleftrightarrow> \<not> entered s \<and> \<not> is_paused s \<and>
     (\<exists>t. m (s\<lparr>entered := True\<rparr>) = Inr (r, t) \<and> s' = t\<lparr>entered := False\<rparr>)"
  by (auto simp: guarded_def call_simps)

text \<open>A reserve in use stays in use with its tokens, and its indexes never fall.\<close>

definition grows_to :: "reserve_data \<Rightarrow> reserve_data \<Rightarrow> bool" where
  "grows_to rd rd' \<longleftrightarrow> bTokenAddress rd' = bTokenAddress rd \<and> debtTokenAddress rd' = debtTokenAddress rd \<and>
     liquidityIndex rd \<le> liquidityIndex rd' \<and> variableBorrowIndex rd \<le> variableBorrowIndex rd'"

definition reserves_grow :: "'h pool \<Rightarrow> 'h pool \<Rightarrow> bool" where
  "reserves_grow s s' \<longleftrightarrow> (\<forall>a. in_use s a \<longrightarrow> grows_to (reserves s a) (reserves s' a))"

lemma reserves_growI: "(\<And>a. grows_to (reserves s a) (reserves s' a)) \<Longrightarrow> reserves_grow s s'"
  by (simp add: reserves_grow_def)

lemma reserves_grow_refl [simp]: "reserves_grow s s"
  by (simp add: reserves_grow_def grows_to_def)

lemma grows_to_trans: "grows_to r r' \<Longrightarrow> grows_to r' r'' \<Longrightarrow> grows_to r r''"
  by (simp add: grows_to_def)

lemma reserves_grow_trans:
  assumes "reserves_grow s t" "reserves_grow t u" shows "reserves_grow s u"
  unfolding reserves_grow_def
proof (intro allI impI)
  fix a
  assume l: "in_use s a"
  with assms(1) have g: "grows_to (reserves s a) (reserves t a)" by (simp add: reserves_grow_def)
  with l have "in_use t a" by (simp add: in_use_def grows_to_def)
  with assms(2) have "grows_to (reserves t a) (reserves u a)" by (simp add: reserves_grow_def)
  with g show "grows_to (reserves s a) (reserves u a)" by (rule grows_to_trans)
qed

lemma shifts_grow: "shifts E D d p c s s' \<Longrightarrow> reserves_grow s s'"
  by (rule reserves_growI) (simp add: grows_to_def shifts_same)

lemma performs_grow:
  assumes "performs E D e s s'" shows "reserves_grow s s'"
proof -
  from assms obtain tab d p c where "shifts E D d p c (with_book e tab s) s'" by (auto simp: performs_def Let_def)
  then have "reserves_grow (with_book e tab s) s'" by (rule shifts_grow)
  then show ?thesis by (simp add: reserves_grow_def)
qed

text \<open>A call keeps the market if it keeps the invariant and lets the reserves grow.\<close>

definition keeps_ok :: "'h externals \<Rightarrow> acct set \<Rightarrow> ('h, 'a) call \<Rightarrow> bool" where
  "keeps_ok E D m \<longleftrightarrow> (\<forall>s r s'. pool_ok E D s \<longrightarrow> m s = Inr (r, s') \<longrightarrow> pool_ok E D s' \<and> reserves_grow s s')"

lemma keeps_okI:
  "(\<And>s r s'. pool_ok E D s \<Longrightarrow> m s = Inr (r, s') \<Longrightarrow> pool_ok E D s' \<and> reserves_grow s s') \<Longrightarrow> keeps_ok E D m"
  by (auto simp: keeps_ok_def)

lemma keeps_okD:
  assumes "keeps_ok E D m" "pool_ok E D s" "m s = Inr (r, s')"
  shows "pool_ok E D s'" "reserves_grow s s'"
  using assms by (auto simp: keeps_ok_def)

lemma settles_keeps: "pool_ok E D s \<Longrightarrow> settles E D s s' \<Longrightarrow> pool_ok E D s' \<and> reserves_grow s s'"
  by (simp add: settles_pool_ok shifts_grow)

lemma performs_keeps: "pool_ok E D s \<Longrightarrow> performs E D e s s' \<Longrightarrow> pool_ok E D s' \<and> reserves_grow s s'"
  by (simp add: performs_pool_ok performs_grow)

lemma pool_ok_entered [simp]: "pool_ok E D (s\<lparr>entered := e\<rparr>) = pool_ok E D s"
  by (rule pool_ok_cong) simp_all

lemma keeps_guarded:
  assumes "keeps_ok E D m" shows "keeps_ok E D (guarded m)"
proof (rule keeps_okI)
  fix s r s'
  assume ok: "pool_ok E D s" and "guarded m s = Inr (r, s')"
  then obtain t where t: "m (s\<lparr>entered := True\<rparr>) = Inr (r, t)" and s': "s' = t\<lparr>entered := False\<rparr>"
    by (auto simp: guarded_returns)
  have "pool_ok E D t" "reserves_grow (s\<lparr>entered := True\<rparr>) t" by (rule keeps_okD [OF assms _ t], simp add: ok)+
  then show "pool_ok E D s' \<and> reserves_grow s s'" by (simp add: s' reserves_grow_def in_use_def)
qed

lemma keeps_ret [simp]: "keeps_ok E D (ret x)"
  by (auto simp: keeps_ok_def call_simps)

lemma keeps_crequire [simp]: "keeps_ok E D (crequire c msg)"
  by (auto simp: keeps_ok_def call_simps)

lemma keeps_cbind:
  assumes "keeps_ok E D m" "\<And>x. keeps_ok E D (f x)" shows "keeps_ok E D (cbind m f)"
proof (rule keeps_okI)
  fix s r s'
  assume ok: "pool_ok E D s" and "cbind m f s = Inr (r, s')"
  then obtain x t where m: "m s = Inr (x, t)" and f: "f x t = Inr (r, s')" by (auto simp: call_simps)
  note first = keeps_okD [OF assms(1) ok m]
  note rest = keeps_okD [OF assms(2) first(1) f]
  show "pool_ok E D s' \<and> reserves_grow s s'" using rest(1) reserves_grow_trans [OF first(2) rest(2)] by simp
qed

lemma keeps_cthen:
  assumes "keeps_ok E D m" "keeps_ok E D n" shows "keeps_ok E D (cthen m n)"
  unfolding cthen_def by (rule keeps_cbind) (use assms in simp_all)

lemma keeps_cget [simp]: "keeps_ok E D (cget f)"
  by (auto simp: keeps_ok_def call_simps)

lemma keeps_clift [simp]: "keeps_ok E D (clift m)"
  by (auto simp: keeps_ok_def call_simps)

lemma keeps_cset:
  assumes "\<And>s. pool_ok E D (f s) = pool_ok E D s" "\<And>s. reserves_grow s (f s)" shows "keeps_ok E D (cset f)"
  using assms by (auto simp: keeps_ok_def call_simps)

lemmas keeps_rules = keeps_guarded keeps_cthen keeps_cbind

text \<open>What users call\<close>

lemma deposit_keeps:
  assumes "externals_ok E D" "u \<noteq> pool_addr E"
  shows "keeps_ok E D (executeDeposit E B u a amount v)"
  by (rule keeps_okI, rule settles_keeps, assumption)
    (blast intro: deposit_settles [OF assms(1) pool_okD(1) assms(2)])

lemma withdraw_keeps:
  assumes "externals_ok E D" "u \<noteq> pool_addr E"
  shows "keeps_ok E D (executeWithdraw E B u a amount v)"
  by (rule keeps_okI, rule settles_keeps, assumption)
    (blast intro: withdraw_settles [OF assms(1) pool_okD(1) assms(2)])

lemma borrow_keeps:
  assumes "externals_ok E D" "u \<noteq> pool_addr E"
  shows "keeps_ok E D (executeBorrow E B u a amount n t v)"
proof (rule keeps_okI)
  fix s r s'
  assume ok: "pool_ok E D s" and run: "executeBorrow E B u a amount n t v s = Inr (r, s')"
  from borrow_performs [OF assms(1) pool_okD(1,2) [OF ok] assms(2) run] obtain e where "performs E D e s s'" by blast
  with ok show "pool_ok E D s' \<and> reserves_grow s s'" by (rule performs_keeps)
qed

lemma repay_keeps:
  assumes "externals_ok E D" "u \<noteq> pool_addr E"
  shows "keeps_ok E D (executeRepay E B u n t amount)"
proof (rule keeps_okI)
  fix s r s'
  assume ok: "pool_ok E D s" and run: "executeRepay E B u n t amount s = Inr (r, s')"
  from repay_performs [OF assms(1) pool_okD(1,2) [OF ok] assms(2) run] obtain e where "performs E D e s s'" by blast
  with ok show "pool_ok E D s' \<and> reserves_grow s s'" by (rule performs_keeps)
qed

lemma auction_keeps:
  assumes "externals_ok E D" "u \<noteq> pool_addr E" "0 < block_timestamp B"
  shows "keeps_ok E D (executeAuction E B u n t bid v)"
proof (rule keeps_okI)
  fix s r s'
  assume ok: "pool_ok E D s" and run: "executeAuction E B u n t bid v s = Inr (r, s')"
  from auction_performs [OF assms(1) pool_okD(1,2) [OF ok] assms(2,3) run] obtain e where "performs E D e s s'" by blast
  with ok show "pool_ok E D s' \<and> reserves_grow s s'" by (rule performs_keeps)
qed

lemma redeem_keeps:
  assumes "externals_ok E D" "u \<noteq> pool_addr E"
  shows "keeps_ok E D (executeRedeem E B u n t amount fine)"
proof (rule keeps_okI)
  fix s r s'
  assume ok: "pool_ok E D s" and run: "executeRedeem E B u n t amount fine s = Inr (r, s')"
  from redeem_performs [OF assms(1) pool_okD(1) [OF ok] assms(2) run] obtain e where "performs E D e s s'" by blast
  with ok show "pool_ok E D s' \<and> reserves_grow s s'" by (rule performs_keeps)
qed

lemma liquidate_keeps:
  assumes "externals_ok E D" "u \<noteq> pool_addr E"
  shows "keeps_ok E D (executeLiquidate E B u n t amount)"
proof (rule keeps_okI)
  fix s r s'
  assume ok: "pool_ok E D s" and run: "executeLiquidate E B u n t amount s = Inr (r, s')"
  from liquidate_performs [OF assms(1) pool_okD(1) [OF ok] assms(2) run] obtain e where "performs E D e s s'" by blast
  with ok show "pool_ok E D s' \<and> reserves_grow s s'" by (rule performs_keeps)
qed

lemma batch_borrow_keeps:
  assumes "externals_ok E D" "u \<noteq> pool_addr E"
  shows "keeps_ok E D (batch_borrow E B u ps v)"
proof (induction ps)
  case (Cons p ps)
  then show ?case by (cases p) (auto intro!: keeps_cthen borrow_keeps [OF assms])
qed simp

lemma batch_repay_keeps:
  assumes "externals_ok E D" "u \<noteq> pool_addr E"
  shows "keeps_ok E D (batch_repay E B u ps)"
proof (induction ps)
  case (Cons p ps)
  then show ?case by (cases p) (auto intro!: keeps_cbind repay_keeps [OF assms])
qed simp

lemma batches_keep:
  assumes "externals_ok E D" "u \<noteq> pool_addr E"
  shows "keeps_ok E D (executeBatchBorrow E B u as xs ns ts v)" "keeps_ok E D (executeBatchRepay E B u ns ts xs)"
  by (auto simp: executeBatchBorrow_def executeBatchRepay_def
      intro!: keeps_cthen batch_borrow_keeps batch_repay_keeps assms)

section \<open>What the configurator calls\<close>

lemma onlyLendPoolConfigurator_keeps:
  "keeps_ok E D m \<Longrightarrow> keeps_ok E D (onlyLendPoolConfigurator E u m)"
  by (simp add: onlyLendPoolConfigurator_def keeps_cthen)

lemma set_reserve_same:
  assumes "\<And>rd. bTokenAddress (f rd) = bTokenAddress rd \<and> debtTokenAddress (f rd) = debtTokenAddress rd \<and>
    liquidityIndex (f rd) = liquidityIndex rd \<and> variableBorrowIndex (f rd) = variableBorrowIndex rd"
  shows "pool_ok E D (set_reserve a f s) = pool_ok E D s"
  by (rule pool_ok_cong) (simp_all add: set_reserve_def assms)

lemma set_reserve_grows:
  assumes "\<And>rd. bTokenAddress (f rd) = bTokenAddress rd \<and> debtTokenAddress (f rd) = debtTokenAddress rd \<and>
    liquidityIndex (f rd) = liquidityIndex rd \<and> variableBorrowIndex (f rd) = variableBorrowIndex rd"
  shows "reserves_grow s (set_reserve a f s)"
  by (rule reserves_growI) (simp add: set_reserve_def grows_to_def assms)

lemma other_reserves [simp]: "reserves s' = reserves s \<Longrightarrow> reserves_grow s s'"
  by (rule reserves_growI) (simp add: grows_to_def)

lemma set_nft_reserves [simp]: "reserves (set_nft n f s) = reserves s"
  by (simp add: set_nft_def)

lemma set_nft_same [simp]: "pool_ok E D (set_nft n f s) = pool_ok E D s"
  by (rule pool_ok_cong) (simp_all add: set_nft_def)

lemma other_fields [simp]:
  "pool_ok E D (s\<lparr>is_paused := p\<rparr>) = pool_ok E D s"
  "pool_ok E D (s\<lparr>pauseStartTime := t\<rparr>) = pool_ok E D s"
  "pool_ok E D (s\<lparr>pauseDurationTime := t\<rparr>) = pool_ok E D s"
  "pool_ok E D (s\<lparr>maxNumberOfReserves := t\<rparr>) = pool_ok E D s"
  "pool_ok E D (s\<lparr>maxNumberOfNfts := t\<rparr>) = pool_ok E D s"
  "pool_ok E D (s\<lparr>reservesList := l\<rparr>) = pool_ok E D s"
  "pool_ok E D (s\<lparr>reservesCount := t\<rparr>) = pool_ok E D s"
  "pool_ok E D (s\<lparr>nftsList := l\<rparr>) = pool_ok E D s"
  "pool_ok E D (s\<lparr>nftsCount := t\<rparr>) = pool_ok E D s"
  "pool_ok E D (s\<lparr>borrowAllowances := al\<rparr>) = pool_ok E D s"
  "pool_ok E D (s\<lparr>rate_strategies := rs\<rparr>) = pool_ok E D s"
  "pool_ok E D (s\<lparr>treasuries := tr\<rparr>) = pool_ok E D s"
  "pool_ok E D (s\<lparr>book := (book s)\<lparr>loanRepaidInterceptors := tab\<rparr>\<rparr>) = pool_ok E D s"
  by (rule pool_ok_cong; simp)+

lemma setPause_keeps: "keeps_ok E D (setPause B val)"
  by (auto simp: setPause_def intro!: keeps_cbind keeps_cthen keeps_cset)

lemma addToList_keeps: "keeps_ok E D (addReserveToList a)" "keeps_ok E D (addNftToList n)"
  by (auto simp: addReserveToList_def addNftToList_def set_reserve_same set_reserve_grows intro!: keeps_cbind keeps_cthen keeps_cset)

lemma harmless_elsewhere:
  assumes "pool_ok E D s" "harmless E D (external s) w" shows "pool_ok E D (s\<lparr>external := w\<rparr>)"
  by (rule settles_pool_ok [OF assms(1) settlesI [OF refl assms(2)]])

lemma nft_approve_keeps: "externals_ok E D \<Longrightarrow> keeps_ok E D (cext (nft_approve E n u p))"
  by (auto simp: call_simps intro!: keeps_okI harmless_elsewhere dest: callback_harmless(6))

lemma initNft_keeps: "externals_ok E D \<Longrightarrow> keeps_ok E D (initNft E n b)"
  by (auto simp: initNft_def init_nft_def intro!: keeps_cbind keeps_cthen keeps_cset addToList_keeps nft_approve_keeps)

text \<open>
  A new reserve brings a debt token of its own that nobody has any of yet, and a \<open>bToken\<close> that is neither a debt
  token nor the pool, as the configurator creates them.
\<close>

fun admissible :: "'h externals \<Rightarrow> acct set \<Rightarrow> 'h pool \<Rightarrow> pool_call \<Rightarrow> bool" where
  "admissible E D s (CInitReserve asset bToken debtToken rate) \<longleftrightarrow>
     asset \<notin> D \<and> bToken \<notin> D \<and> bToken \<noteq> 0 \<and> bToken \<noteq> pool_addr E \<and> debtToken \<in> D \<and>
     (\<forall>a. in_use s a \<longrightarrow> debtTokenAddress (reserves s a) \<noteq> debtToken) \<and>
     (\<forall>u. token_balance E debtToken u (external s) = 0) \<and> token_supply E debtToken (external s) = 0"
| "admissible E D s c \<longleftrightarrow> True"

lemma init_reserve_ok:
  assumes ok: "pool_ok E D s" and adm: "admissible E D s (CInitReserve asset bToken debtToken rate)"
    and run: "init_reserve asset bToken debtToken rate s = Inr (u, s')"
  shows "pool_ok E D s' \<and> reserves_grow s s'"
proof -
  from run have old: "bTokenAddress (reserves s asset) = 0"
    and s': "s' = set_reserve asset (\<lambda>rd. rd\<lparr>liquidityIndex := ray, variableBorrowIndex := ray,
      bTokenAddress := bToken, debtTokenAddress := debtToken, interestRateAddress := rate\<rparr>) s"
    by (auto simp: init_reserve_def call_simps to_uint128_def uint128_max_def ray_def)
  have live: "in_use s' a = (a = asset \<or> in_use s a)" for a
    using adm by (auto simp: s' set_reserve_def in_use_def)
  have unused: "reserveAsset (loans (book s) i) \<noteq> asset" if "is_open (loans (book s) i)" for i
    using pool_okD(3) [OF ok] old that by (auto simp: loans_live_def in_use_def)
  have none: "loan_sum (owed_by asset v) (book s) = 0" "loan_sum (owed_all asset) (book s) = 0" for v
    using unused by (auto simp: loan_sum_def owed_by_def owed_all_def)
  have "market_ok E D s'"
    using pool_okD(1) [OF ok] adm unfolding market_ok_def live
    by (auto simp: s' set_reserve_def)
  moreover have "backed E s'"
    using pool_okD(4) [OF ok] adm none unfolding backed_def live
    by (auto simp: s' set_reserve_def)
  moreover have "loans_live s'"
    using pool_okD(3) [OF ok] unfolding loans_live_def live by (simp add: s' set_reserve_def)
  moreover have "bids_kept E D s'" "book_ok (book s')"
    using pool_okD(2,5) [OF ok] by (simp_all add: bids_kept_def s' set_reserve_def)
  moreover have "reserves_grow s s'" using old by (auto simp: reserves_grow_def in_use_def s' set_reserve_def grows_to_def)
  ultimately show ?thesis by (simp add: pool_ok_def)
qed

lemma initReserve_ok:
  assumes ok: "pool_ok E D s" and adm: "admissible E D s (CInitReserve asset bToken debtToken rate)"
    and run: "initReserve E asset bToken debtToken rate s = Inr (u, s')"
  shows "pool_ok E D s' \<and> reserves_grow s s'"
proof -
  from run obtain s1 where s1: "init_reserve asset bToken debtToken rate s = Inr ((), s1)"
    and s': "addReserveToList asset s1 = Inr (u, s')"
    by (auto simp: initReserve_def call_simps)
  note first = init_reserve_ok [OF ok adm s1]
  note rest = keeps_okD [OF addToList_keeps(1) first [THEN conjunct1] s']
  show ?thesis using rest(1) reserves_grow_trans [OF first [THEN conjunct2] rest(2)] by simp
qed

lemmas operations_keep = deposit_keeps withdraw_keeps borrow_keeps repay_keeps auction_keeps redeem_keeps
  liquidate_keeps batches_keep

lemma run_call_ok:
  assumes ext: "externals_ok E D" and u: "u \<noteq> pool_addr E" "0 < block_timestamp B"
    and ok: "pool_ok E D s" and adm: "admissible E D s c" and run: "run_call E B u c s = Inr (r, s')"
  shows "pool_ok E D s' \<and> reserves_grow s s'"
proof (cases "\<exists>a b d i. c = CInitReserve a b d i")
  case True
  with run adm ok show ?thesis
    using initReserve_ok [OF ok] by (auto simp: onlyLendPoolConfigurator_def call_simps)
next
  case False
  then have "keeps_ok E D (run_call E B u c)"
    by (cases c)
      (auto simp: set_reserve_same set_reserve_grows intro!: keeps_guarded keeps_cthen operations_keep ext u onlyLendPoolConfigurator_keeps
        setPause_keeps initNft_keeps keeps_cset)
  from keeps_okD [OF this ok run] show ?thesis by blast
qed

section \<open>Reachable states\<close>

definition initial :: "acct set \<Rightarrow> 'h pool \<Rightarrow> bool" where
  "initial D s \<longleftrightarrow> 0 \<notin> D \<and> (\<forall>a. \<not> in_use s a) \<and> empty_book (book s)"

inductive pool_step :: "'h externals \<Rightarrow> acct set \<Rightarrow> 'h pool \<Rightarrow> 'h pool \<Rightarrow> bool" for E D where
  Transaction: "run_call E B sender c s = Inr ((), s') \<Longrightarrow> sender \<noteq> pool_addr E \<Longrightarrow> 0 < block_timestamp B \<Longrightarrow>
     admissible E D s c \<Longrightarrow> pool_step E D s s'"
| Delegation: "approveDelegation debtToken sender delegatee amount s = Inr ((), s') \<Longrightarrow> pool_step E D s s'"
| Rates: "pool_step E D s (s\<lparr>rate_strategies := rs\<rparr>)"
| Treasuries: "pool_step E D s (s\<lparr>treasuries := tr\<rparr>)"
| Interceptors: "pool_step E D s (s\<lparr>book := (book s)\<lparr>loanRepaidInterceptors := tab\<rparr>\<rparr>)"
| Elsewhere: "harmless E D (external s) w \<Longrightarrow> pool_step E D s (s\<lparr>external := w\<rparr>)"

inductive reachable :: "'h externals \<Rightarrow> acct set \<Rightarrow> 'h pool \<Rightarrow> bool" for E D where
  start: "initial D s \<Longrightarrow> reachable E D s"
| step: "reachable E D s \<Longrightarrow> pool_step E D s s' \<Longrightarrow> reachable E D s'"

lemma initial_ok:
  assumes "initial D s" shows "pool_ok E D s"
proof -
  from assms have b: "empty_book (book s)" and l: "\<not> in_use s a" "0 \<notin> D" for a by (simp_all add: initial_def)
  then have "loan_sum (bid_kept a) (book s) = 0" for a
    by (auto simp: loan_sum_def bid_kept_def empty_book_def)
  with l book_ok_empty [OF b] b show ?thesis
    by (auto simp: pool_ok_def market_ok_def backed_def bids_kept_def loans_live_def empty_book_def is_open_def)
qed

lemma step_ok:
  assumes "pool_step E D s s'" "externals_ok E D" "pool_ok E D s"
  shows "pool_ok E D s' \<and> reserves_grow s s'"
  using assms(1)
proof cases
  case (Transaction B sender c)
  then show ?thesis using run_call_ok assms(2,3) by blast
qed (use assms(3) in \<open>auto simp: approveDelegation_def call_simps intro: harmless_elsewhere\<close>)

lemma reachable_ok:
  assumes "externals_ok E D" "reachable E D s" shows "pool_ok E D s"
  using assms(2) by induction (auto intro: initial_ok dest: step_ok [OF _ assms(1)])

text \<open>What happens later\<close>

lemma later_ok:
  assumes ext: "externals_ok E D" and s: "reachable E D s" and later: "(pool_step E D)\<^sup>*\<^sup>* s s'"
  shows "reachable E D s' \<and> reserves_grow s s'"
  using later
proof induction
  case (step t u)
  then have t: "reachable E D t" "reserves_grow s t" by simp_all
  from step_ok [OF step.hyps(2) ext reachable_ok [OF ext t(1)]] have "reserves_grow t u" by simp
  with t step.hyps(2) show ?case by (auto intro: reachable.step reserves_grow_trans)
qed (use s in simp)

end
