(* ===== verification/PoolDemo.thy ===== *)
theory PoolDemo
  imports PoolReach
begin

text \<open>
  A small market on which the properties of the pool are tried: a ledger of balances as the world outside, one
  reserve, one collection, and a history of transactions up to a loan. The ledger satisfies the assumptions on
  the contracts outside the repository, so those can hold.
\<close>

type_synonym ledger = "(acct \<Rightarrow> acct \<Rightarrow> nat) \<times> (acct \<Rightarrow> nat)"

definition ledger_mint :: "acct \<Rightarrow> acct \<Rightarrow> uint \<Rightarrow> ledger \<Rightarrow> revert + ledger" where
  "ledger_mint t u x w = Inr ((fst w)(t := (fst w t)(u := fst w t u + x)), (snd w)(t := snd w t + x))"

definition ledger_burn :: "acct \<Rightarrow> acct \<Rightarrow> uint \<Rightarrow> ledger \<Rightarrow> revert + ledger" where
  "ledger_burn t u x w =
     (if x \<le> fst w t u \<and> x \<le> snd w t
      then Inr ((fst w)(t := (fst w t)(u := fst w t u - x)), (snd w)(t := snd w t - x))
      else Inl (Require ''ERC20: burn amount exceeds balance''))"

definition ledger_transfer :: "acct \<Rightarrow> acct \<Rightarrow> acct \<Rightarrow> uint \<Rightarrow> ledger \<Rightarrow> revert + ledger" where
  "ledger_transfer t f g x w =
     (if x \<le> fst w t f
      then let b = (fst w t)(f := fst w t f - x) in Inr ((fst w)(t := b(g := b g + x)), snd w)
      else Inl (Require ''ERC20: transfer amount exceeds balance''))"

definition mini :: "ledger externals" where
  "mini = \<lparr>pool_addr = 1, loan_addr = 2, controller = 0, configurator = 3, is_contract = \<lambda>a w. True,
     bnft_proxy = (\<lambda>n. n + 1), token_balance = (\<lambda>t u w. fst w t u), token_supply = (\<lambda>t w. snd w t),
     token_mint = ledger_mint, token_burn = ledger_burn, token_transfer = ledger_transfer,
     token_transfer_from = (\<lambda>t p. ledger_transfer t), handle_action = (\<lambda>u x y. Inr), nft_supply = (\<lambda>n w. 0),
     nft_transfer = (\<lambda>n p f g i. Inr), nft_approve = (\<lambda>n u p. Inr), bnft_mint = (\<lambda>n u i. Inr), bnft_burn = (\<lambda>n i. Inr),
     bnft_lock = (\<lambda>n i u l. Inr), call_interceptor = (\<lambda>b c n i (w, tab). Inr (True, w, tab))\<rparr>"

lemma mini_fields [simp]:
  "pool_addr mini = 1" "loan_addr mini = 2" "controller mini = 0" "configurator mini = 3" "is_contract mini a w"
  "token_balance mini t u w = fst w t u" "token_supply mini t w = snd w t" "token_mint mini = ledger_mint"
  "token_burn mini = ledger_burn" "token_transfer mini = ledger_transfer" "token_transfer_from mini t p = ledger_transfer t"
  "nft_supply mini n w = 0" "nft_transfer mini n p f g i w = Inr w" "nft_approve mini n u p w = Inr w"
  "bnft_mint mini n u i w = Inr w" "bnft_burn mini n i w = Inr w" "bnft_lock mini n i u l w = Inr w"
  "call_interceptor mini b c n i (w, tab) = Inr (True, w, tab)" "handle_action mini u x y w = Inr w"
  by (simp_all add: mini_def)

lemma mini_ok: "externals_ok mini D"
  unfolding externals_ok_def
proof
  show "erc20_ok mini"
    unfolding erc20_ok_def
    by (auto simp: bal_def ledger_mint_def ledger_burn_def ledger_transfer_def at1_def at2_def Let_def
        of_nat_diff split: if_splits)
  show "callbacks_ok mini D"
    by (auto simp: callbacks_ok_def)
qed

text \<open>
  The asset is 10, its tokens 11 and 12, its rate contract 13; the collection is 20, its bound NFT 21; 30
  deposits, 31 borrows, 32 and 33 bid.
\<close>

definition mini_start :: "ledger pool" where
  "mini_start = \<lparr>
     reserves = (\<lambda>a. \<lparr>r_configuration = 0, liquidityIndex = 0, variableBorrowIndex = 0, currentLiquidityRate = 0,
       currentVariableBorrowRate = 0, lastUpdateTimestamp = 0, bTokenAddress = 0, debtTokenAddress = 0,
       interestRateAddress = 0, r_id = 0, maxUtilizationRate = 0\<rparr>),
     nfts = (\<lambda>n. \<lparr>n_configuration = 0, bNftAddress = 0, n_id = 0, nft_maxSupply = 0, nft_maxTokenId = 0, maxCollateralCap = 0\<rparr>),
     reservesList = (\<lambda>i. 0), reservesCount = 0, nftsList = (\<lambda>i. 0), nftsCount = 0, maxNumberOfReserves = 32,
     maxNumberOfNfts = 255, is_paused = False, pauseStartTime = 0, pauseDurationTime = 0, entered = False,
     book = \<lparr>loans = (\<lambda>i. \<lparr>loanId = 0, loan_state = L_None, borrower = 0, nftAsset = 0, nftTokenId = 0, reserveAsset = 0,
         scaledAmount = 0, bidStartTimestamp = 0, bidderAddress = 0, bidPrice = 0, bidBorrowAmount = 0, firstBidderAddress = 0\<rparr>),
       loanIdTracker = 1, nftToLoanIds = (\<lambda>n t. 0), nftTotalCollateral = (\<lambda>n. 0), userNftCollateral = (\<lambda>u n. 0),
       loanRepaidInterceptors = (\<lambda>n t. [])\<rparr>,
     borrowAllowances = (\<lambda>t u v. 0),
     rate_strategies = (\<lambda>a. \<lparr>optimal_utilization = 65 * 10 ^ 25, excess_utilization = 35 * 10 ^ 25, base_rate = 10 ^ 26,
       slope1 = 8 * 10 ^ 25, slope2 = 10 ^ 27\<rparr>),
     treasuries = (\<lambda>t. 9),
     external = ((\<lambda>t u. if t = 10 \<and> 30 \<le> u then 1000 * 10 ^ 18 else 0), (\<lambda>t. 0))\<rparr>"

definition mini_block :: "uint \<Rightarrow> uint \<Rightarrow> block_data" where
  "mini_block t price = \<lparr>block_timestamp = t, reserve_price = (\<lambda>a. Inr (10 ^ 18)), nft_price = (\<lambda>n. Inr price),
     price_stale = (\<lambda>n. False)\<rparr>"

definition mini_reserve_word :: u256 where "mini_reserve_word = 55340597575648425279488"
definition mini_nft_word :: u256 where "mini_nft_word = 10384989858486916604941370219524788128"

fun run_all :: "'h externals \<Rightarrow> (block_data \<times> acct \<times> pool_call) list \<Rightarrow> 'h pool \<Rightarrow> revert + 'h pool" where
  "run_all E [] s = Inr s"
| "run_all E ((B, u, c) # cs) s = (case run_call E B u c s of Inl e \<Rightarrow> Inl e | Inr (r, s') \<Rightarrow> run_all E cs s')"

text \<open>The configurator sets up the market, 30 deposits 50 units, and 31 borrows 20 on token 7.\<close>

definition mini_setup :: "pool_call list" where
  "mini_setup = [CInitReserve 10 11 12 13, CSetReserveConfiguration 10 mini_reserve_word,
     CSetReserveMaxUtilizationRate 10 ray, CInitNft 20 21, CSetNftConfiguration 20 mini_nft_word,
     CSetNftMaxSupplyAndTokenId 20 10000 9999, CSetNftMaxCollateralCap 20 10000]"

definition mini_reserve :: "uint \<Rightarrow> uint \<Rightarrow> uint \<Rightarrow> uint \<Rightarrow> uint \<Rightarrow> reserve_data" where
  "mini_reserve li vi lr vr t = \<lparr>r_configuration = mini_reserve_word, liquidityIndex = li, variableBorrowIndex = vi,
     currentLiquidityRate = lr, currentVariableBorrowRate = vr, lastUpdateTimestamp = t, bTokenAddress = 11,
     debtTokenAddress = 12, interestRateAddress = 13, r_id = 0, maxUtilizationRate = ray\<rparr>"

definition mini_market :: "ledger pool" where
  "mini_market = mini_start\<lparr>
     reserves := (reserves mini_start)(10 := mini_reserve ray ray 0 0 0),
     nfts := (nfts mini_start)(20 := \<lparr>n_configuration = mini_nft_word, bNftAddress = 21, n_id = 0, nft_maxSupply = 10000,
       nft_maxTokenId = 9999, maxCollateralCap = 10000\<rparr>),
     reservesList := (\<lambda>i. 0)(0 := 10), reservesCount := 1, nftsList := (\<lambda>i. 0)(0 := 20), nftsCount := 1\<rparr>"

lemmas run_simps = run_call.simps guarded_def onlyLendPoolConfigurator_def cbind_def cthen_def ret_def crequire_def
  clift_def cget_def cset_def cext_def set_reserve_def set_nft_def on_book_def set_loan_def Let_def

lemmas arith_simps = to_uint128_def to_uint40_def add256_def sub256_def mul256_def div256_def pow256_def uint256_max_def
  uint128_max_def ray_def halfRay_def wad_def halfWad_def wad_ray_ratio_def percentage_factor_def half_percent_def

lemmas mini_simps = mini_market_def mini_start_def mini_block_def mini_reserve_def

lemma mini_sets_up:
  "run_all mini (map (Pair (mini_block 1000 (100 * 10 ^ 18)) \<circ> Pair 3) mini_setup) mini_start = Inr mini_market"
  by (simp add: mini_setup_def mini_simps run_simps arith_simps initReserve_def init_reserve_def addReserveToList_def
    initNft_def init_nft_def addNftToList_def)

lemma mini_words:
  "getActive mini_reserve_word" "\<not> getFrozen mini_reserve_word" "getBorrowingEnabled mini_reserve_word"
  "getFlags mini_reserve_word = (True, False, True, False)"
  "unat (getReserveFactor mini_reserve_word) = 3000" "unat (getDecimals mini_reserve_word) = 18"
  "getActive mini_nft_word" "\<not> getFrozen mini_nft_word" "unat (getLtv mini_nft_word) = 4000"
  "unat (getLiquidationThreshold mini_nft_word) = 7000" "unat (getLiquidationBonus mini_nft_word) = 500"
  "unat (getRedeemDuration mini_nft_word) = 24" "unat (getAuctionDuration mini_nft_word) = 48"
  "unat (getRedeemFine mini_nft_word) = 500" "unat (getRedeemThreshold mini_nft_word) = 5000"
  "unat (getMinBidFine mini_nft_word) = 2000"
  by (code_simp)+

lemmas token_simps = BToken_mint_def DebtToken_mint_def DebtToken_burn_def mintToTreasury_def incentivized_mint_def
  incentivized_burn_def told_def transferUnderlyingTo_def ledger_transfer_def ledger_mint_def ledger_burn_def

lemmas reserve_simps = updateState_def updateIndexes_def mint_treasury_def updateInterestRates_def calculateInterestRatesFor_def
  calculateInterestRates_def utilization_def variable_borrow_rate_def overall_borrow_rate_def rayMul_value rayDiv_value
  percentMul_value percentDiv_value wadDiv_value wadToRay_value round_div_def calculateLinearInterest_def
  calculateCompoundedInterest_def SECONDS_PER_YEAR_def getNormalizedDebt_def getNormalizedIncome_def

text \<open>30 deposits 50 units: no debt, no interest, and the base rate.\<close>

definition mini_funded :: "ledger pool" where
  "mini_funded = mini_market\<lparr>reserves := (reserves mini_start)(10 := mini_reserve ray ray 0 (10 ^ 26) 2000),
     external := ((fst (external mini_start))(10 := (\<lambda>u. if 30 \<le> u then 1000 * 10 ^ 18 else 0)
       (30 := 950 * 10 ^ 18, 11 := 50 * 10 ^ 18), 11 := (\<lambda>u. 0)(30 := 50 * 10 ^ 18)), (\<lambda>t. 0)(11 := 50 * 10 ^ 18))\<rparr>"

lemma mini_deposit:
  "run_call mini (mini_block 2000 (100 * 10 ^ 18)) 30 (CDeposit 10 (50 * 10 ^ 18) 30) mini_market = Inr ((), mini_funded)"
  by (simp add: mini_funded_def mini_simps mini_words run_simps arith_simps executeDeposit_def validateDeposit_def
    reserve_simps token_simps)

lemmas loan_simps = executeBorrow_def validateBorrow_def validate_loan_def validate_flags_def validate_utilization_def
  validate_collateral_def calculateLoanData_def calculateNftDebtData_def calculateNftCollateralData_def
  calculateHealthFactorFromBalances_def HEALTH_FACTOR_LIQUIDATION_THRESHOLD_def nft_ltv_def nft_threshold_def nft_bonus_def
  reserve_unit_def open_or_draw_def createLoan_def take_loan_id_def count_collateral_def updateLoan_def
  getLoanReserveBorrowAmount_def

text \<open>31 borrows 20 units on token 7 of the collection: loan 1.\<close>

definition mini_loan :: loan_data where
  "mini_loan = \<lparr>loanId = 1, loan_state = L_Active, borrower = 31, nftAsset = 20, nftTokenId = 7, reserveAsset = 10,
     scaledAmount = 20 * 10 ^ 18, bidStartTimestamp = 0, bidderAddress = 0, bidPrice = 0, bidBorrowAmount = 0,
     firstBidderAddress = 0\<rparr>"

definition mini_book :: "loan_data \<Rightarrow> loan_book" where
  "mini_book l = \<lparr>loans = (loans (book mini_start))(1 := l), loanIdTracker = 2, nftToLoanIds = (\<lambda>n t. 0)(20 := (\<lambda>t. 0)(7 := 1)),
     nftTotalCollateral = (\<lambda>n. 0)(20 := 1), userNftCollateral = (\<lambda>u n. 0)(31 := (\<lambda>n. 0)(20 := 1)),
     loanRepaidInterceptors = (\<lambda>n t. [])\<rparr>"

definition mini_lent :: "ledger pool" where
  "mini_lent = mini_market\<lparr>
     reserves := (reserves mini_start)(10 := mini_reserve ray ray 41784615384615384615384616 149230769230769230769230769 3000),
     book := mini_book mini_loan,
     external := ((fst (external mini_start))(11 := (\<lambda>u. 0)(30 := 50 * 10 ^ 18), 12 := (\<lambda>u. 0)(31 := 20 * 10 ^ 18),
       10 := (\<lambda>u. if 30 \<le> u then 1000 * 10 ^ 18 else 0)(30 := 950 * 10 ^ 18, 11 := 30 * 10 ^ 18, 31 := 1020 * 10 ^ 18)),
       (\<lambda>t. 0)(11 := 50 * 10 ^ 18, 12 := 20 * 10 ^ 18))\<rparr>"

lemmas mini_loan_simps = mini_loan_def mini_book_def

lemma mini_borrow:
  "run_call mini (mini_block 3000 (100 * 10 ^ 18)) 31 (CBorrow 10 (20 * 10 ^ 18) 20 7 31) mini_funded = Inr ((), mini_lent)"
  by (simp add: mini_lent_def mini_funded_def mini_loan_simps mini_simps mini_words run_simps arith_simps reserve_simps token_simps loan_simps
    fun_upd_twist)

lemmas auction_simps = executeAuction_def validateAuction_def validate_market_def calculateLoanLiquidatePrice_def check_bid_def
  auctionLoan_def setFlashLoanLocking_def end_timestamp_def auction_hours_def redeem_hours_def one_percent_def ten_percent_def


text \<open>After a million seconds the interest is due: 9 is the treasury.\<close>

definition mini_accrued :: "ledger pool" where
  "mini_accrued = mini_lent\<lparr>
     reserves := (reserves mini_start)(10 := mini_reserve 1001324981461967763337626351 1004743290580012261054000000
       41784615384615384615384616 149230769230769230769230769 1003000),
     external := ((fst (external mini_start))(11 := (\<lambda>u. 0)(9 := 28422084744676393, 30 := 50 * 10 ^ 18), 12 := (\<lambda>u. 0)(31 := 20 * 10 ^ 18),
       10 := (\<lambda>u. if 30 \<le> u then 1000 * 10 ^ 18 else 0)(30 := 950 * 10 ^ 18, 11 := 30 * 10 ^ 18, 31 := 1020 * 10 ^ 18)),
       (\<lambda>t. 0)(11 := 50028422084744676393, 12 := 20 * 10 ^ 18))\<rparr>"

lemma mini_accrues:
  "updateState mini (mini_block 1003000 price) 10 (mini_lent\<lparr>entered := e\<rparr>) = Inr ((), mini_accrued\<lparr>entered := e\<rparr>)"
  by (simp add: mini_accrued_def mini_lent_def mini_loan_simps mini_simps mini_words run_simps arith_simps reserve_simps token_simps fun_upd_twist)

lemma mini_lent_fields:
  "entered mini_lent = False" "is_paused mini_lent = False" "nfts mini_lent = nfts mini_market" "book mini_lent = mini_book mini_loan"
  "reserves mini_lent 10 = mini_reserve ray ray 41784615384615384615384616 149230769230769230769230769 3000"
  by (simp_all add: mini_lent_def mini_market_def mini_start_def)

lemma mini_price:
  "calculateLoanLiquidatePrice (mini_block 1003000 (25 * 10 ^ 18)) 1 10 20 (mini_accrued\<lparr>entered := True\<rparr>) =
     Inr ((20094865811600245221, 175 * 10 ^ 17, 2375 * 10 ^ 16), mini_accrued\<lparr>entered := True\<rparr>)"
  by (simp add: mini_accrued_def mini_lent_def mini_loan_simps mini_simps mini_words run_simps arith_simps reserve_simps loan_simps auction_simps)

text \<open>The price has fallen to 25: 32 bids 24 on the loan.\<close>

definition mini_bid :: loan_data where
  "mini_bid = mini_loan\<lparr>loan_state := L_Auction, bidStartTimestamp := 1003000, bidderAddress := 32, bidPrice := 24 * 10 ^ 18,
     bidBorrowAmount := 20094865811600245221, firstBidderAddress := 32\<rparr>"

definition mini_auctioned :: "ledger pool" where
  "mini_auctioned = mini_accrued\<lparr>
     reserves := (reserves mini_start)(10 := mini_reserve 1001324981461967763337626351 1004743290580012261054000000
       41942575727224984858272127 149370613408504301735866286 1003000),
     book := mini_book mini_bid,
     external := ((fst (external mini_start))(11 := (\<lambda>u. 0)(9 := 28422084744676393, 30 := 50 * 10 ^ 18), 12 := (\<lambda>u. 0)(31 := 20 * 10 ^ 18),
       10 := (\<lambda>u. if 30 \<le> u then 1000 * 10 ^ 18 else 0)(30 := 950 * 10 ^ 18, 11 := 30 * 10 ^ 18, 31 := 1020 * 10 ^ 18,
         32 := 976 * 10 ^ 18, 1 := 24 * 10 ^ 18)),
       (\<lambda>t. 0)(11 := 50028422084744676393, 12 := 20 * 10 ^ 18))\<rparr>"

lemma mini_auction:
  "run_call mini (mini_block 1003000 (25 * 10 ^ 18)) 32 (CAuction 20 7 (24 * 10 ^ 18) 32) mini_lent = Inr ((), mini_auctioned)"
  apply (simp add: run_simps executeAuction_def validateAuction_def validate_market_def mini_lent_fields mini_loan_simps
    mini_accrues mini_market_def mini_reserve_def mini_words mini_price [simplified])
  apply (simp add: mini_auctioned_def mini_bid_def check_bid_def mini_words run_simps auctionLoan_def setFlashLoanLocking_def
    ledger_transfer_def mini_accrued_def mini_lent_def mini_loan_simps mini_simps arith_simps reserve_simps)
  done

section \<open>Its states are reachable\<close>

fun all_admissible :: "'h externals \<Rightarrow> acct set \<Rightarrow> (block_data \<times> acct \<times> pool_call) list \<Rightarrow> 'h pool \<Rightarrow> bool" where
  "all_admissible E D [] s \<longleftrightarrow> True"
| "all_admissible E D ((B, u, c) # cs) s \<longleftrightarrow> u \<noteq> pool_addr E \<and> 0 < block_timestamp B \<and> admissible E D s c \<and>
     (case run_call E B u c s of Inl e \<Rightarrow> True | Inr (r, s') \<Rightarrow> all_admissible E D cs s')"

lemma run_all_reachable:
  "run_all E cs s = Inr s' \<Longrightarrow> all_admissible E D cs s \<Longrightarrow> reachable E D s \<Longrightarrow> reachable E D s'"
proof (induction cs arbitrary: s)
  case (Cons p cs)
  obtain B u c where p: "p = (B, u, c)" by (cases p)
  with Cons.prems obtain t where t: "run_call E B u c s = Inr ((), t)" "run_all E cs t = Inr s'" "all_admissible E D cs t"
    and a: "u \<noteq> pool_addr E" "0 < block_timestamp B" "admissible E D s c"
    by (auto split: sum.splits)
  from reachable.step [OF Cons.prems(3) Transaction [OF t(1) a]] have "reachable E D t" .
  with Cons.IH t(2,3) show ?case by blast
qed simp

lemma mini_start_initial: "initial {12} mini_start"
  by (simp add: initial_def mini_start_def in_use_def empty_book_def)

lemma mini_market_reachable: "reachable mini {12} mini_market"
proof (rule run_all_reachable [OF mini_sets_up])
  show "all_admissible mini {12} (map (Pair (mini_block 1000 (100 * 10 ^ 18)) \<circ> Pair 3) mini_setup) mini_start"
    by (simp add: mini_setup_def mini_block_def split: sum.splits prod.splits)
      (simp add: mini_start_def in_use_def)
  show "reachable mini {12} mini_start" by (rule start [OF mini_start_initial])
qed

lemma mini_lent_reachable: "reachable mini {12} mini_lent"
proof (rule reachable.step [OF reachable.step [OF mini_market_reachable]])
  show "pool_step mini {12} mini_market mini_funded"
    by (rule Transaction [OF mini_deposit]) (simp_all add: mini_block_def)
  show "pool_step mini {12} mini_funded mini_lent"
    by (rule Transaction [OF mini_borrow]) (simp_all add: mini_block_def)
qed

lemma mini_auctioned_reachable: "reachable mini {12} mini_auctioned"
  by (rule reachable.step [OF mini_lent_reachable Transaction [OF mini_auction]]) (simp_all add: mini_block_def)

end
