(* ===== verification/PoolMeaning.thy ===== *)
theory PoolMeaning
  imports PoolDemo
begin

text \<open>
  What the transactions mean for the book of loans, and what holds in every reachable state of the pool: each
  transaction refines the events that it is meant to be, the debt tokens are backed by the loans, the pool keeps
  the bids, the book is in order, and the indexes of the reserves never fall.
\<close>

section \<open>Transactions as events\<close>

fun run_events :: "loan_event list \<Rightarrow> loan_book \<Rightarrow> loan_book option" where
  "run_events [] b = Some b"
| "run_events (e # es) b = (if enabled e b then run_events es (happen e b) else None)"

text \<open>
  What borrowing and repaying are for one NFT, by the loan that the NFT has in the book before. A batch is one such
  event for each of its elements, in their order, each judged in the book that the events before it have left.
\<close>

fun borrow_event :: "acct \<Rightarrow> acct \<times> uint \<times> acct \<times> uint \<Rightarrow> loan_book \<Rightarrow> loan_event \<Rightarrow> bool" where
  "borrow_event user (asset, amount, n, t) b e \<longleftrightarrow>
     (\<exists>x. e = (if nftToLoanIds b n t = 0 then Open n t user asset x else Draw (nftToLoanIds b n t) x))"

fun repay_event :: "acct \<times> uint \<times> uint \<Rightarrow> loan_book \<Rightarrow> loan_event \<Rightarrow> bool" where
  "repay_event (n, t, amount) b e \<longleftrightarrow> e = Close (nftToLoanIds b n t) \<or> (\<exists>x. e = PayDown (nftToLoanIds b n t) x)"

fun one_by_one :: "('p \<Rightarrow> loan_book \<Rightarrow> loan_event \<Rightarrow> bool) \<Rightarrow> 'p list \<Rightarrow> loan_book \<Rightarrow> loan_event list \<Rightarrow> bool" where
  "one_by_one P [] b es \<longleftrightarrow> es = []"
| "one_by_one P (p # ps) b es \<longleftrightarrow>
     (case es of [] \<Rightarrow> False | e # es' \<Rightarrow> P p b e \<and> one_by_one P ps (happen e b) es')"

text \<open>The events that a transaction is meant to be\<close>

fun meant :: "block_data \<Rightarrow> pool_call \<Rightarrow> loan_book \<Rightarrow> loan_event list \<Rightarrow> bool" where
  "meant B (CBorrow asset amount n t user) b es \<longleftrightarrow>
     (\<exists>e. es = [e] \<and> borrow_event user (asset, amount, n, t) b e)"
| "meant B (CBatchBorrow assets amounts ns ts user) b es \<longleftrightarrow>
     length assets = length ns \<and> length amounts = length ns \<and> length ts = length ns \<and>
     one_by_one (borrow_event user) (zip assets (zip amounts (zip ns ts))) b es"
| "meant B (CRepay n t amount) b es \<longleftrightarrow> (\<exists>e. es = [e] \<and> repay_event (n, t, amount) b e)"
| "meant B (CBatchRepay ns ts amounts) b es \<longleftrightarrow>
     length amounts = length ns \<and> length ts = length ns \<and>
     one_by_one repay_event (zip ns (zip ts amounts)) b es"
| "meant B (CAuction n t bid user) b es \<longleftrightarrow> (\<exists>debt. es = [Bid (nftToLoanIds b n t) (block_timestamp B) user bid debt])"
| "meant B (CRedeem n t amount fine) b es \<longleftrightarrow> (\<exists>x. es = [Redeem (nftToLoanIds b n t) x])"
| "meant B (CLiquidate n t amount) b es \<longleftrightarrow> (\<exists>debt. es = [Foreclose (nftToLoanIds b n t) debt])"
| "meant B c b es \<longleftrightarrow> es = []"

text \<open>Two books with the same loans: they differ at most in the table of interceptors.\<close>

definition same_loans :: "loan_book \<Rightarrow> loan_book \<Rightarrow> bool" where
  "same_loans b b' \<longleftrightarrow> (\<exists>tab. b' = b\<lparr>loanRepaidInterceptors := tab\<rparr>)"

lemma same_loans_refl [simp]: "same_loans b b"
  unfolding same_loans_def by (rule exI [of _ "loanRepaidInterceptors b"]) simp

lemma same_loans_trans: "same_loans b b' \<Longrightarrow> same_loans b' b'' \<Longrightarrow> same_loans b b''"
  by (auto simp: same_loans_def)

lemma enabled_same:
  assumes "same_loans b b'" shows "enabled e b' = enabled e b"
proof -
  from assms obtain tab where b': "b' = b\<lparr>loanRepaidInterceptors := tab\<rparr>" by (auto simp: same_loans_def)
  have "listed b' i = listed b i" for i by (simp add: b' listed_def)
  then show ?thesis by (cases e) (simp_all add: b')
qed

lemma happen_same:
  assumes "same_loans b b'" shows "same_loans (happen e b) (happen e b')"
proof -
  from assms obtain tab where b': "b' = b\<lparr>loanRepaidInterceptors := tab\<rparr>" by (auto simp: same_loans_def)
  have "happen e b' = (happen e b)\<lparr>loanRepaidInterceptors := tab\<rparr>"
    by (cases e) (simp_all add: b' book_create_def book_scale_def book_bid_def book_redeem_def book_close_def set_loan_def Let_def)
  then show ?thesis by (auto simp: same_loans_def)
qed

lemma run_events_same:
  "same_loans b b' \<Longrightarrow> run_events es b' = Some c' \<Longrightarrow> \<exists>c. run_events es b = Some c \<and> same_loans c c'"
proof (induction es arbitrary: b b')
  case (Cons e es)
  from Cons.prems have "enabled e b" "run_events es (happen e b') = Some c'"
    by (auto simp: enabled_same split: if_splits)
  with Cons.IH [OF happen_same [OF Cons.prems(1)]] show ?case by simp
qed simp

lemma one_by_one_same:
  assumes "\<And>p c c' e. same_loans c c' \<Longrightarrow> P p c' e = P p c e"
  shows "same_loans b b' \<Longrightarrow> one_by_one P ps b' es = one_by_one P ps b es"
  by (induction ps arbitrary: b b' es) (auto simp: assms dest: happen_same split: list.splits)

lemma events_same:
  "same_loans b b' \<Longrightarrow> borrow_event u p b' e = borrow_event u p b e"
  "same_loans b b' \<Longrightarrow> repay_event q b' e = repay_event q b e"
  by (cases p; auto simp: same_loans_def) (cases q; auto simp: same_loans_def)

definition becomes :: "loan_event list \<Rightarrow> 'h pool \<Rightarrow> 'h pool \<Rightarrow> bool" where
  "becomes es s s' \<longleftrightarrow> (\<exists>b. run_events es (book s) = Some b \<and> same_loans b (book s'))"

lemma becomes_Nil: "same_loans (book s) (book s') \<Longrightarrow> becomes [] s s'"
  by (simp add: becomes_def)

lemma becomes_book: "book s' = book s \<Longrightarrow> becomes [] s s'"
  by (simp add: becomes_def)

lemma settles_becomes: "settles E D s s' \<Longrightarrow> becomes [] s s'"
  by (rule becomes_book) (rule shifts_book)

lemma performs_becomes:
  assumes "performs E D e s s'" shows "becomes [e] s s'"
proof -
  from assms obtain tab d p c where "enabled e (book s)" and sh: "shifts E D d p c (with_book e tab s) s'"
    by (auto simp: performs_def Let_def)
  moreover have "same_loans (happen e (book s)) (book s')"
    unfolding same_loans_def using shifts_book [OF sh] by (auto simp: with_book_def)
  ultimately show ?thesis by (simp add: becomes_def)
qed

lemma becomes_append:
  assumes "becomes [e] s t" "becomes es t s'"
  shows "becomes (e # es) s s'"
proof -
  from assms obtain c where e: "enabled e (book s)" "same_loans (happen e (book s)) (book t)"
    and c: "run_events es (book t) = Some c" "same_loans c (book s')"
    by (auto simp: becomes_def split: if_splits)
  from run_events_same [OF e(2) c(1)] e(1) c(2) show ?thesis
    by (auto simp: becomes_def intro: same_loans_trans)
qed

lemma one_by_one_Cons:
  assumes "\<And>p c c' e. same_loans c c' \<Longrightarrow> P p c' e = P p c e"
    and "P p (book s) e" "becomes [e] s t" and "one_by_one P ps (book t) es" "becomes es t s'"
  shows "\<exists>es. one_by_one P (p # ps) (book s) es \<and> becomes es s s'"
proof -
  have "same_loans (happen e (book s)) (book t)" using assms(3) by (simp add: becomes_def split: if_splits)
  from one_by_one_same [where P = P, OF assms(1) this] assms(4) have "one_by_one P ps (happen e (book s)) es" by simp
  with assms(2) becomes_append [OF assms(3,5)] show ?thesis by (intro exI [of _ "e # es"]) simp
qed

lemma becomes_entered [simp]:
  "becomes es (s\<lparr>entered := e\<rparr>) s' = becomes es s s'" "becomes es s (s'\<lparr>entered := e\<rparr>) = becomes es s s'"
  by (simp_all add: becomes_def)

text \<open>The batches\<close>

lemma batch_borrow_becomes:
  assumes "externals_ok E D" "u \<noteq> pool_addr E"
  shows "pool_ok E D s \<Longrightarrow> batch_borrow E B u ps v s = Inr (r, s') \<Longrightarrow>
    \<exists>es. one_by_one (borrow_event v) ps (book s) es \<and> becomes es s s'"
proof (induction ps arbitrary: s)
  case (Cons p ps)
  obtain a x n t where p: "p = (a, x, n, t)" by (cases p)
  with Cons.prems obtain s1 where s1: "executeBorrow E B u a x n t v s = Inr ((), s1)"
    and rest: "batch_borrow E B u ps v s1 = Inr (r, s')" by (auto simp: call_simps)
  from borrow_performs [OF assms(1) pool_okD(1,2) [OF Cons.prems(1)] assms(2) s1] obtain e
    where e: "borrow_event v p (book s) e" "becomes [e] s s1" by (auto simp: p dest!: performs_becomes)
  from Cons.IH [OF keeps_okD(1) [OF borrow_keeps [OF assms] Cons.prems(1) s1] rest] obtain es
    where "one_by_one (borrow_event v) ps (book s1) es" "becomes es s1 s'" by blast
  with one_by_one_Cons [where P = "borrow_event v", OF events_same(1) e] show ?case by simp
qed (auto simp: call_simps becomes_book)

lemma batch_repay_becomes:
  assumes "externals_ok E D" "u \<noteq> pool_addr E"
  shows "pool_ok E D s \<Longrightarrow> batch_repay E B u ps s = Inr (r, s') \<Longrightarrow>
    \<exists>es. one_by_one repay_event ps (book s) es \<and> becomes es s s'"
proof (induction ps arbitrary: s r)
  case (Cons p ps)
  obtain n t x where p: "p = (n, t, x)" by (cases p)
  with Cons.prems obtain s1 r1 r2 where s1: "executeRepay E B u n t x s = Inr (r1, s1)"
    and rest: "batch_repay E B u ps s1 = Inr (r2, s')" by (auto simp: call_simps)
  from repay_performs [OF assms(1) pool_okD(1,2) [OF Cons.prems(1)] assms(2) s1] obtain e
    where e: "repay_event p (book s) e" "becomes [e] s s1" by (auto simp: p dest!: performs_becomes split: if_splits)
  from Cons.IH [OF keeps_okD(1) [OF repay_keeps [OF assms] Cons.prems(1) s1] rest] obtain es
    where "one_by_one repay_event ps (book s1) es" "becomes es s1 s'" by blast
  with one_by_one_Cons [where P = repay_event, OF events_same(2) e] show ?case by simp
qed (auto simp: call_simps becomes_book)

text \<open>What the configurator calls leaves the loans alone.\<close>

lemma setPause_book: "setPause B v s = Inr (r, s') \<Longrightarrow> book s' = book s"
  by (auto simp: setPause_def call_simps split: if_splits)

lemma initReserve_book: "initReserve E a b d i s = Inr (r, s') \<Longrightarrow> book s' = book s"
  by (auto simp: initReserve_def init_reserve_def addReserveToList_def call_simps set_reserve_def split: if_splits)

lemma initNft_book: "initNft E n b s = Inr (r, s') \<Longrightarrow> book s' = book s"
  by (auto simp: initNft_def init_nft_def addNftToList_def call_simps set_nft_def split: if_splits)

text \<open>How a guarded operation becomes its events\<close>

definition acts_as :: "'h externals \<Rightarrow> acct set \<Rightarrow> ('h, 'a) call \<Rightarrow> (loan_book \<Rightarrow> loan_event list \<Rightarrow> bool) \<Rightarrow> bool" where
  "acts_as E D m P \<longleftrightarrow> (\<forall>s r s'. pool_ok E D s \<longrightarrow> m s = Inr (r, s') \<longrightarrow> (\<exists>es. P (book s) es \<and> becomes es s s'))"

lemma doesI:
  "(\<And>s r s'. pool_ok E D s \<Longrightarrow> m s = Inr (r, s') \<Longrightarrow> \<exists>es. P (book s) es \<and> becomes es s s') \<Longrightarrow> acts_as E D m P"
  by (simp add: acts_as_def)

lemma doesD:
  "acts_as E D m P \<Longrightarrow> pool_ok E D s \<Longrightarrow> m s = Inr (r, s') \<Longrightarrow> \<exists>es. P (book s) es \<and> becomes es s s'"
  by (simp add: acts_as_def)

lemma does_guarded:
  assumes "acts_as E D m P" shows "acts_as E D (guarded m) P"
proof (rule doesI)
  fix s r s'
  assume ok: "pool_ok E D s" and "guarded m s = Inr (r, s')"
  then obtain t where t: "m (s\<lparr>entered := True\<rparr>) = Inr (r, t)" "s' = t\<lparr>entered := False\<rparr>"
    by (auto simp: guarded_returns)
  from doesD [OF assms _ t(1)] ok t(2) show "\<exists>es. P (book s) es \<and> becomes es s s'" by simp
qed

lemma does_forgets: "acts_as E D m P \<Longrightarrow> acts_as E D (cthen m (ret ())) P"
  by (auto simp: acts_as_def call_simps)

lemma does_performs:
  assumes "\<And>s r s'. pool_ok E D s \<Longrightarrow> m s = Inr (r, s') \<Longrightarrow> \<exists>x. performs E D (f s r x) s s'"
    and "\<And>s r x. P (book s) [f s r x]"
  shows "acts_as E D m P"
proof (rule doesI)
  fix s r s'
  assume "pool_ok E D s" "m s = Inr (r, s')"
  from assms(1) [OF this] obtain x where "performs E D (f s r x) s s'" ..
  from assms(2) performs_becomes [OF this] show "\<exists>es. P (book s) es \<and> becomes es s s'" by blast
qed

lemma does_nothing:
  assumes "\<And>s r s'. pool_ok E D s \<Longrightarrow> m s = Inr (r, s') \<Longrightarrow> book s' = book s" "\<And>b. P b []"
  shows "acts_as E D m P"
  using assms becomes_book by (blast intro: doesI)

lemma does_configures:
  assumes "\<And>s r s'. m s = Inr (r, s') \<Longrightarrow> book s' = book s" "\<And>b. P b []"
  shows "acts_as E D (onlyLendPoolConfigurator E u m) P"
  by (rule does_nothing) (use assms in \<open>auto simp: onlyLendPoolConfigurator_def call_simps\<close>)

lemma batches_do:
  assumes "externals_ok E D" "u \<noteq> pool_addr E"
  shows "acts_as E D (executeBatchBorrow E B u as xs ns ts v) (meant B (CBatchBorrow as xs ns ts v))"
    and "acts_as E D (executeBatchRepay E B u ns ts xs) (meant B (CBatchRepay ns ts xs))"
  using batch_borrow_becomes [OF assms] batch_repay_becomes [OF assms]
  by (fastforce intro!: doesI simp: executeBatchBorrow_def executeBatchRepay_def call_simps)+

lemma operations_do:
  assumes ext: "externals_ok E D" and u: "u \<noteq> pool_addr E"
  shows "acts_as E D (executeDeposit E B u a x v) (meant B (CDeposit a x v))"
    and "acts_as E D (executeWithdraw E B u a x v) (meant B (CWithdraw a x v))"
    and "acts_as E D (executeBorrow E B u a x n t v) (meant B (CBorrow a x n t v))"
    and "acts_as E D (executeRepay E B u n t x) (meant B (CRepay n t x))"
    and "acts_as E D (executeRedeem E B u n t x y) (meant B (CRedeem n t x y))"
    and "acts_as E D (executeLiquidate E B u n t x) (meant B (CLiquidate n t x))"
    and "0 < block_timestamp B \<Longrightarrow> acts_as E D (executeAuction E B u n t x v) (meant B (CAuction n t x v))"
  subgoal by (rule does_nothing, rule shifts_book, erule deposit_settles [OF ext pool_okD(1) u]) simp_all
  subgoal by (rule does_nothing, rule shifts_book, erule withdraw_settles [OF ext pool_okD(1) u]) simp_all
  subgoal by (rule does_performs, rule borrow_performs [OF ext pool_okD(1) pool_okD(2) [where E = E and D = D] u], assumption+) auto
  subgoal by (rule does_performs, rule repay_performs [OF ext pool_okD(1) pool_okD(2) [where E = E and D = D] u], assumption+) auto
  subgoal by (rule does_performs, erule redeem_performs [OF ext pool_okD(1) u]) auto
  subgoal by (rule does_performs, erule liquidate_performs [OF ext pool_okD(1) u]) auto
  subgoal by (rule does_performs, rule auction_performs [OF ext pool_okD(1) pool_okD(2) [where E = E and D = D] u], assumption+) auto
  done

lemma run_call_does:
  assumes ext: "externals_ok E D" and u: "u \<noteq> pool_addr E" "0 < block_timestamp B"
  shows "acts_as E D (run_call E B u c) (meant B c)"
proof (cases c)
  case (CBatchBorrow as xs ns ts v)
  with does_guarded [OF batches_do(1) [OF ext u(1)]] show ?thesis by simp
next
  case (CBatchRepay ns ts xs)
  with does_forgets [OF does_guarded [OF batches_do(2) [OF ext u(1)]]] show ?thesis by simp
qed (use u in \<open>auto intro!: does_guarded does_forgets operations_do [OF ext] does_configures
      simp: call_simps set_reserve_def set_nft_def dest: setPause_book initReserve_book initNft_book\<close>)

end
