(* ===== verification/PoolSafety.thy ===== *)
theory PoolSafety
  imports PoolMeaning
begin

text \<open>
  What the checks of the operations guarantee: a loan that was just borrowed on cannot be auctioned in the same
  block at the same prices; a bid beats the one before and comes in time; a liquidation comes after the end of
  the auction and a redemption before the end of its own period; nothing runs in a paused pool or within another
  call of it.
\<close>

section \<open>The state after a loan\<close>

definition price_in_reserve :: "block_data \<Rightarrow> acct \<Rightarrow> reserve_data \<Rightarrow> acct \<Rightarrow> nat" where
  "price_in_reserve B a rd n =
     (case (nft_price B n, reserve_price B a) of
        (Inr q, Inr p) \<Rightarrow> q * 10 ^ unat (getDecimals (r_configuration rd)) div p | _ \<Rightarrow> 0)"

definition debt_at :: "uint \<Rightarrow> uint \<Rightarrow> nat" where
  "debt_at scaled index = round_div (scaled * index) ray"

lemma updateInterestRates_same:
  assumes "updateInterestRates E a x y s = Inr (u, s')"
  obtains lr br where "s' = s\<lparr>reserves := (reserves s)(a := (reserves s a)\<lparr>currentLiquidityRate := lr,
      currentVariableBorrowRate := br\<rparr>)\<rparr>"
  using assms by (auto simp: updateInterestRates_def call_simps set_reserve_def split: prod.splits)

lemma DebtToken_mint_same:
  assumes ok: "externals_ok E D" and run: "DebtToken_mint E t u v x i s = Inr (r, s')"
  shows "reserves s' = reserves s" "nfts s' = nfts s" "book s' = book s"
proof -
  from run obtain al y where "incentivized_mint E t v y (s\<lparr>borrowAllowances := al\<rparr>) = Inr ((), s')"
  proof (cases "u = v")
    case True
    have "s\<lparr>borrowAllowances := borrowAllowances s\<rparr> = s" by simp
    with run True that [of y "borrowAllowances s" for y] show ?thesis
      by (auto simp: DebtToken_mint_def step_simps)
  qed (auto simp: DebtToken_mint_def decreaseBorrowAllowance_def step_simps)
  from incentivized_mint_effect [OF ok this] show "reserves s' = reserves s" "nfts s' = nfts s" "book s' = book s"
    by auto
qed

lemma borrow_result:
  assumes ok: "externals_ok E D" and m: "market_ok E D s"
    and run: "executeBorrow E B u a amount n t v s = Inr (r, s')"
  obtains s1 x where "updateState E B a s = Inr ((), s1)" "book s1 = book s" "nfts s1 = nfts s"
    "validateBorrow E B v a amount n (nftToLoanIds (book s) n t) s1 = Inr ((), s1)"
    "rayDiv amount (variableBorrowIndex (reserves s1 a)) = Inr x"
    "book s' = (if nftToLoanIds (book s) n t = 0 then book_create n t v a x (book s)
       else book_scale (nftToLoanIds (book s) n t) (scaledAmount (loans (book s) (nftToLoanIds (book s) n t)) + x) (book s))"
    "nfts s' = nfts s" "variableBorrowIndex (reserves s' a) = variableBorrowIndex (reserves s1 a)"
    "lastUpdateTimestamp (reserves s' a) = to_uint40 (block_timestamp B)"
    "lastUpdateTimestamp (reserves s1 a) = to_uint40 (block_timestamp B)"
    "r_configuration (reserves s' a) = r_configuration (reserves s1 a)"
proof -
  let ?i = "nftToLoanIds (book s) n t"
  from run obtain s1 sv s2 b s3 s4 where s1: "updateState E B a s = Inr ((), s1)"
    and v': "validateBorrow E B v a amount n (nftToLoanIds (book s1) n t) s1 = Inr ((), sv)"
    and s2': "open_or_draw E u a amount n t v (nfts s1 n) (nftToLoanIds (book s1) n t)
      (variableBorrowIndex (reserves sv a)) sv = Inr ((), s2)"
    and s3': "DebtToken_mint E (debtTokenAddress (reserves sv a)) u v amount (variableBorrowIndex (reserves sv a)) s2 = Inr (b, s3)"
    and s4: "updateInterestRates E a 0 amount s3 = Inr ((), s4)"
    and s5: "cext (token_transfer E a (bTokenAddress (reserves sv a)) u amount) s4 = Inr ((), s')"
    by (auto simp: executeBorrow_def transferUnderlyingTo_def step_simps)
  have sv: "sv = s1" by (rule validateBorrow_reads(1) [OF v'])
  note vr = validateBorrow_reads [OF v']
  note first = updateState_settles [OF ok market_bToken [OF m] s1]
  note b1 = shifts_book [OF first]
  from DebtToken_mint_shifts [OF ok s3'] obtain x where x: "rayDiv amount (variableBorrowIndex (reserves s1 a)) = Inr x"
    unfolding sv by blast
  have s2: "reserves s2 = reserves s1 \<and> nfts s2 = nfts s1 \<and> book s2 = (if ?i = 0 then book_create n t v a x (book s)
       else book_scale ?i (scaledAmount (loans (book s) ?i) + x) (book s))"
  proof (cases "?i = 0")
    case True
    with s2' b1 sv obtain w j where
      c: "createLoan E u v n t (bNftAddress (nfts s1 n)) a amount (variableBorrowIndex (reserves s1 a)) (s1\<lparr>external := w\<rparr>) = Inr (j, s2)"
      by (auto simp: open_or_draw_def call_simps)
    from createLoan_effect [OF ok c] x obtain w' where "s2 = s1\<lparr>book := book_create n t v a x (book s1), external := w'\<rparr>"
      by auto
    with True b1 show ?thesis by simp
  next
    case False
    with s2' b1 sv have up: "updateLoan ?i amount 0 (variableBorrowIndex (reserves s1 a)) s1 = Inr ((), s2)"
      by (simp add: open_or_draw_def)
    from updateLoan_adds [OF up] vr(3) x have "s2 = s1\<lparr>book := book_scale ?i (scaledAmount (loans (book s1) ?i) + x) (book s1)\<rparr>"
      by auto
    with False b1 show ?thesis by simp
  qed
  note s3 = DebtToken_mint_same [OF ok s3']
  from updateInterestRates_same [OF s4] obtain lr br where
    s4': "s4 = s3\<lparr>reserves := (reserves s3)(a := (reserves s3 a)\<lparr>currentLiquidityRate := lr, currentVariableBorrowRate := br\<rparr>)\<rparr>" .
  from s5 obtain w where s': "s' = s4\<lparr>external := w\<rparr>" by (auto simp: call_simps)
  note now = updateState_now [OF ok market_bToken [OF m] s1]
  have r': "reserves s' a = (reserves s1 a)\<lparr>currentLiquidityRate := lr, currentVariableBorrowRate := br\<rparr>"
    by (simp add: s' s4' s3 s2)
  have "nfts s1 = nfts s" using shifts_others(1) [OF first] .
  show ?thesis
  proof (rule that [OF s1 b1 \<open>nfts s1 = nfts s\<close> _ x])
    show "validateBorrow E B v a amount n ?i s1 = Inr ((), s1)" using v' by (simp add: sv b1)
    show "book s' = (if ?i = 0 then book_create n t v a x (book s)
       else book_scale ?i (scaledAmount (loans (book s) ?i) + x) (book s))"
      using s2 by (simp add: s' s4' s3)
    show "nfts s' = nfts s" using s2 \<open>nfts s1 = nfts s\<close> by (simp add: s' s4' s3)
  qed (use now in \<open>simp_all add: r'\<close>)
qed

section \<open>Loans and their collateral\<close>

text \<open>What the check of the collateral guarantees of the debt before the loan\<close>

lemma percentDiv_covers:
  assumes "percentDiv d l = Inr x" "x \<le> c"
  shows "d * percentage_factor \<le> c * l + l"
proof -
  from assms(1) have l: "0 < l" and x: "x = round_div (d * percentage_factor) l" by (auto simp: percentDiv_returns)
  have "d * percentage_factor + l div 2 < x * l + l" unfolding x by (rule round_div_bounds) (rule l)
  moreover have "x * l \<le> c * l" using assms(2) by simp
  ultimately show ?thesis by linarith
qed

lemma validate_collateral_covers:
  assumes "validate_collateral B a amount n i s = Inr (u, s')"
  obtains d where "if i = 0 then d = 0 else getLoanReserveBorrowAmount B i s = Inr (d, s)"
    "(d + amount) * percentage_factor \<le> price_in_reserve B a (reserves s a) n * nft_ltv (nfts s n) + nft_ltv (nfts s n)"
    "a \<noteq> 0"
proof -
  from assms obtain c d h x where ld: "calculateLoanData B a n i s = Inr ((c, d, h), s)" and c: "0 < c"
    and x: "percentDiv (d + amount) (nft_ltv (nfts s n)) = Inr x" "x \<le> c"
    by (auto simp: validate_collateral_def call_simps checked_simps dest: calculateLoanData_reads)
  from ld c have a: "a \<noteq> 0" and c': "c = price_in_reserve B a (reserves s a) n"
    and d: "if i = 0 then d = 0 else getLoanReserveBorrowAmount B i s = Inr (d, s)"
    by (auto simp: calculateLoanData_def calculateNftDebtData_def calculateNftCollateralData_def reserve_unit_def
        price_in_reserve_def call_simps checked_simps dest: getLoanReserveBorrowAmount_reads split: if_splits)
  from that [OF d percentDiv_covers [OF x, unfolded c'] a] show ?thesis .
qed

text \<open>Adding a scaled amount adds the amount, up to a rounding that grows with the index.\<close>

lemma debt_at_add:
  assumes "rayDiv amount index = Inr x"
  shows "debt_at (scaled + x) index \<le> debt_at scaled index + amount + index div ray + 2"
proof -
  let ?d = "debt_at scaled index" and ?e = "debt_at (scaled + x) index"
  from assms have i: "0 < index" and x: "x = round_div (amount * ray) index" by (auto simp: rayDiv_returns)
  have "?e * ray \<le> (scaled + x) * index + ray div 2" unfolding debt_at_def by (rule round_div_bounds) simp
  moreover have "scaled * index + ray div 2 < ?d * ray + ray" unfolding debt_at_def by (rule round_div_bounds) simp
  moreover have "x * index \<le> amount * ray + index div 2" unfolding x by (rule round_div_bounds) (rule i)
  moreover have "index < (index div ray) * ray + ray"
    using div_mult_mod_eq [of index ray] mod_less_divisor [OF units_pos(2), of index] by linarith
  ultimately have "?e * ray < ?d * ray + ray + amount * ray + (index div ray) * ray + ray"
    by (simp only: add_mult_distrib)
  then have "?e * ray < (?d + amount + index div ray + 2) * ray" by (simp add: add_mult_distrib)
  then have "?e < ?d + amount + index div ray + 2" unfolding mult_less_cancel2 by blast
  then show ?thesis by (rule less_imp_le)
qed

lemma threshold_above:
  assumes "(d + amount) * percentage_factor \<le> c * l + l" "l < thr" "l \<le> 65535"
    and "e \<le> d + amount + k + 2" "percentage_factor * (k + 10) \<le> c"
  shows "e \<le> round_div (c * thr) percentage_factor"
proof (rule round_div_ge)
  have "e * percentage_factor \<le> (d + amount) * percentage_factor + (k + 2) * percentage_factor"
    using mult_le_mono1 [OF assms(4), of percentage_factor] by (simp add: add_mult_distrib)
  also have "\<dots> \<le> c * l + (65535 + (k + 2) * percentage_factor)" using assms(1,3) by linarith
  also have "\<dots> \<le> c * l + percentage_factor * (k + 10)"
    by (simp add: percentage_factor_def)
  also have "\<dots> \<le> c * l + c" using assms(5) by simp
  also have "\<dots> = c * (l + 1)" by simp
  also have "\<dots> \<le> c * thr" using assms(2) by (intro mult_le_mono2) simp
  finally show "e * percentage_factor \<le> c * thr" .
qed simp

lemma ltv_16: "nft_ltv nd \<le> 65535"
proof -
  have "NOT LTV_MASK = 65535" by (simp add: LTV_MASK_def not_eq_complement)
  then have "getLtv w \<le> 65535" for w :: u256 by (simp add: getLtv_def get_field_def word_and_le1)
  from this [of "n_configuration nd"] show ?thesis by (simp add: nft_ltv_def word_le_nat_alt)
qed

section \<open>Auctions\<close>

text \<open>What a bid, a redemption and a liquidation that return have checked\<close>

lemma auction_checks:
  assumes "executeAuction E B u n t bid v s = Inr (r, s')"
  defines "i \<equiv> nftToLoanIds (book s) n t"
  defines "l \<equiv> loans (book s) i"
  obtains s1 debt thr price where "i \<noteq> 0" "v \<noteq> 0" "is_open l"
    "updateState E B (reserveAsset l) s = Inr ((), s1)"
    "calculateLoanLiquidatePrice B i (reserveAsset l) (nftAsset l) s1 = Inr ((debt, thr, price), s1)"
    "check_bid B (nfts s (nftAsset l)) l bid debt thr price s1 = Inr ((), s1)"
proof -
  from assms obtain sv s1 debt thr price sc sd where "v \<noteq> 0" "i \<noteq> 0"
    and v: "validateAuction (reserves s (reserveAsset l)) (nfts s (nftAsset l)) l bid s = Inr ((), sv)"
    and s1: "updateState E B (reserveAsset l) sv = Inr ((), s1)"
    and price: "calculateLoanLiquidatePrice B i (reserveAsset l) (nftAsset l) s1 = Inr ((debt, thr, price), sc)"
    and cb: "check_bid B (nfts s (nftAsset l)) l bid debt thr price sc = Inr ((), sd)"
    by (auto simp: executeAuction_def step_simps Let_def cong: if_weak_cong)
  note vr = validateAuction_reads [OF v]
  note pr = calculateLoanLiquidatePrice_reads(1) [OF price]
  note cr = check_bid_reads [OF cb]
  show ?thesis by (rule that [OF \<open>i \<noteq> 0\<close> \<open>v \<noteq> 0\<close> vr(3)]) (use s1 price cb vr(1) pr cr in simp_all)
qed

lemma redeem_checks:
  assumes "executeRedeem E B u n t amount fine s = Inr (r, s')"
  defines "l \<equiv> loans (book s) (nftToLoanIds (book s) n t)"
  obtains e where "loan_state l = L_Auction" "end_timestamp l (redeem_hours (nfts s (nftAsset l))) s = Inr (e, s)"
    "block_timestamp B \<le> e"
proof -
  from assms obtain sv e se where
    v: "validateRedeem (reserves s (reserveAsset l)) (nfts s (nftAsset l)) l amount s = Inr ((), sv)"
    and e: "end_timestamp l (redeem_hours (nfts s (nftAsset l))) sv = Inr (e, se)" "block_timestamp B \<le> e"
    by (auto simp: executeRedeem_def step_simps Let_def cong: if_weak_cong)
  note vr = validateRedeem_reads [OF v]
  show ?thesis using that [OF vr(3)] e end_timestamp_reads [OF e(1)] vr(1) by simp
qed

lemma liquidate_checks:
  assumes "executeLiquidate E B u n t amount s = Inr (r, s')"
  defines "l \<equiv> loans (book s) (nftToLoanIds (book s) n t)"
  obtains e where "loan_state l = L_Auction" "end_timestamp l (auction_hours (nfts s (nftAsset l))) s = Inr (e, s)"
    "e < block_timestamp B"
proof -
  from assms obtain sv e se where
    v: "validateLiquidate (reserves s (reserveAsset l)) (nfts s (nftAsset l)) l s = Inr ((), sv)"
    and e: "end_timestamp l (auction_hours (nfts s (nftAsset l))) sv = Inr (e, se)" "e < block_timestamp B"
    by (auto simp: executeLiquidate_def step_simps Let_def cong: if_weak_cong)
  note vr = validateLiquidate_reads [OF v]
  show ?thesis using that [OF vr(3)] e end_timestamp_reads [OF e(1)] vr(1) by simp
qed

definition ends_at :: "'h pool \<Rightarrow> loan_data \<Rightarrow> uint \<Rightarrow> uint" where
  "ends_at s l hours = bidStartTimestamp l +
     (if 0 < pauseDurationTime s \<and> bidStartTimestamp l \<le> pauseStartTime s then pauseDurationTime s else 0) + hours * 3600"

lemma end_timestamp_value: "end_timestamp l hours s = Inr (e, s') \<Longrightarrow> e = ends_at s l hours \<and> s' = s"
  by (auto simp: end_timestamp_def ends_at_def call_simps checked_simps split: if_splits)

lemma check_bid_next:
  assumes "check_bid B nd l bid debt thr price s = Inr (u, s')" "loan_state l = L_Auction"
  shows "debt \<le> bid" "block_timestamp B \<le> ends_at s l (auction_hours nd)"
    "bidPrice l + round_div debt 100 \<le> bid"
proof -
  from assms obtain m where b: "debt \<le> bid" "block_timestamp B \<le> ends_at s l (auction_hours nd)"
    and m: "percentMul debt one_percent = Inr m" "bidPrice l + m \<le> bid"
    by (auto simp: check_bid_def call_simps checked_simps dest!: end_timestamp_value)
  from m(1) have m': "m = round_div (debt * 100) 10000" by (auto simp: percentMul_returns percentage_factor_def one_percent_def)
  have "(debt * 100 + 5000) div 10000 = (debt + 50) div 100"
    using div_mult_mult1 [of 100 "debt + 50" 100] by (simp add: algebra_simps)
  with m(2) m' b show "debt \<le> bid" "block_timestamp B \<le> ends_at s l (auction_hours nd)" "bidPrice l + round_div debt 100 \<le> bid"
    by (simp_all add: round_div_def)
qed

lemma check_bid_first:
  assumes "check_bid B nd l bid debt thr price s = Inr (u, s')" "loan_state l = L_Active"
  shows "thr < debt" "debt \<le> bid" "price \<le> bid"
  using assms by (auto simp: check_bid_def call_simps)

lemma liquidate_price_value:
  assumes "calculateLoanLiquidatePrice B i a n s = Inr ((debt, thr, price), s')"
  shows "thr = round_div (price_in_reserve B a (reserves s a) n * nft_threshold (nfts s n)) percentage_factor"
  using assms
  by (auto simp: calculateLoanLiquidatePrice_def reserve_unit_def price_in_reserve_def call_simps checked_simps mult.commute
    dest!: getLoanReserveBorrowAmount_reads)

section \<open>A second update in the same block\<close>

lemma updateState_again:
  assumes ok: "externals_ok E D" and b: "bTokenAddress (reserves s a) \<notin> D"
    and now: "lastUpdateTimestamp (reserves s a) = block_timestamp B" and run: "updateState E B a s = Inr (u, s')"
    and small: "block_timestamp B < 2 ^ 40"
  shows "variableBorrowIndex (reserves s' a) = variableBorrowIndex (reserves s a)"
    "liquidityIndex (reserves s' a) = liquidityIndex (reserves s a)"
    "lastUpdateTimestamp (reserves s' a) = block_timestamp B" "r_configuration (reserves s' a) = r_configuration (reserves s a)"
    "book s' = book s" "nfts s' = nfts s"
proof -
  have "round_div (ray * i) ray = i" for i by (simp only: mult.commute [of ray] round_div_exact units_pos)
  then have "accrued B d (reserves s a) = reserves s a" for d
    by (simp add: accrued_def new_borrow_index_def new_liquidity_index_def now to_uint40_id [OF small])
  with updateState_effect [OF ok b run] obtain w where s': "s' = s\<lparr>external := w\<rparr>" by fastforce
  then show "variableBorrowIndex (reserves s' a) = variableBorrowIndex (reserves s a)"
    "liquidityIndex (reserves s' a) = liquidityIndex (reserves s a)"
    "lastUpdateTimestamp (reserves s' a) = block_timestamp B" "r_configuration (reserves s' a) = r_configuration (reserves s a)"
    "book s' = book s" "nfts s' = nfts s"
    by (simp_all add: now)
qed

section \<open>Borrowed and not to be auctioned\<close>

lemma debt_in_block:
  assumes "getLoanReserveBorrowAmount B i s = Inr (d, s')"
    and "lastUpdateTimestamp (reserves s (reserveAsset (loans (book s) i))) = to_uint40 (block_timestamp B)"
  shows "d = debt_at (scaledAmount (loans (book s) i)) (variableBorrowIndex (reserves s (reserveAsset (loans (book s) i))))"
  using debt_now [OF assms] by (simp add: debt_at_def)

lemma borrowed_not_auctioned:
  assumes ok: "externals_ok E D" and pool: "pool_ok E D s" and u: "u \<noteq> pool_addr E"
    and time: "block_timestamp B < 2 ^ 40" and borrow: "executeBorrow E B u a amount n t v s = Inr (r, s')"
    and cfg: "nft_ltv (nfts s n) < nft_threshold (nfts s n)"
    and dust: "percentage_factor * (variableBorrowIndex (reserves s' a) div ray + 10) \<le> price_in_reserve B a (reserves s a) n"
  shows "executeAuction E B u' n t bid v' (s'\<lparr>entered := e\<rparr>) \<noteq> Inr (r', s'')"
proof
  let ?i = "nftToLoanIds (book s) n t" and ?i' = "nftToLoanIds (book s') n t"
  let ?l = "loans (book s) ?i" and ?l' = "loans (book s') ?i'" and ?t = "s'\<lparr>entered := e\<rparr>"
  note mk = pool_okD(1) [OF pool] and bk = pool_okD(2) [OF pool]
  from borrow_result [OF ok mk borrow] obtain s1 x where up: "updateState E B a s = Inr ((), s1)"
    and b1: "book s1 = book s" "nfts s1 = nfts s"
    and val: "validateBorrow E B v a amount n ?i s1 = Inr ((), s1)"
    and x: "rayDiv amount (variableBorrowIndex (reserves s1 a)) = Inr x"
    and b': "book s' = (if ?i = 0 then book_create n t v a x (book s) else book_scale ?i (scaledAmount ?l + x) (book s))"
    and n': "nfts s' = nfts s" and index: "variableBorrowIndex (reserves s' a) = variableBorrowIndex (reserves s1 a)"
    and now': "lastUpdateTimestamp (reserves s' a) = to_uint40 (block_timestamp B)"
    and now1: "lastUpdateTimestamp (reserves s1 a) = to_uint40 (block_timestamp B)"
    and c': "r_configuration (reserves s' a) = r_configuration (reserves s1 a)" by blast
  let ?idx = "variableBorrowIndex (reserves s1 a)"
  have c1: "r_configuration (reserves s1 a) = r_configuration (reserves s a)"
    by (rule updateState_effect [OF ok market_bToken [OF mk] up]) (simp add: accrued_def)
  have price: "price_in_reserve B a rd n = price_in_reserve B a (reserves s a) n"
    if "r_configuration rd = r_configuration (reserves s a)" for rd
    by (simp add: price_in_reserve_def that cong: sum.case_cong)
  from val have col: "validate_collateral B a amount n ?i s1 = Inr ((), s1)"
    and act: "?i \<noteq> 0 \<Longrightarrow> loan_state ?l = L_Active \<and> reserveAsset ?l = a \<and> borrower ?l = v"
    using validateBorrow_reads(4) [OF val] b1
    by (auto simp: validateBorrow_def call_simps dest: validate_rest_reads validate_loan_reads)
  from validate_collateral_covers [OF col] obtain d where
    d: "if ?i = 0 then d = 0 else getLoanReserveBorrowAmount B ?i s1 = Inr (d, s1)"
    and cover: "(d + amount) * percentage_factor \<le> price_in_reserve B a (reserves s1 a) n * nft_ltv (nfts s1 n) + nft_ltv (nfts s1 n)" .
  have d': "d = debt_at (if ?i = 0 then 0 else scaledAmount ?l) ?idx"
  proof (cases "?i = 0")
    case True with d show ?thesis by (simp add: debt_at_def)
  next
    case False
    with d act b1 now1 have "getLoanReserveBorrowAmount B ?i s1 = Inr (d, s1)"
      "lastUpdateTimestamp (reserves s1 (reserveAsset (loans (book s1) ?i))) = to_uint40 (block_timestamp B)" by simp_all
    from debt_in_block [OF this] False act b1 show ?thesis by simp
  qed
  have loan': "?i' \<noteq> 0" "loan_state ?l' = L_Active" "reserveAsset ?l' = a" "nftAsset ?l' = n"
    "scaledAmount ?l' = (if ?i = 0 then 0 else scaledAmount ?l) + x"
  proof -
    have "0 < loanIdTracker (book s)" using bk by (simp add: book_ok_def)
    moreover have "nftAsset ?l = n" if "?i \<noteq> 0" using bk that by (simp add: book_ok_def)
    ultimately show "?i' \<noteq> 0" "loan_state ?l' = L_Active" "reserveAsset ?l' = a" "nftAsset ?l' = n"
      "scaledAmount ?l' = (if ?i = 0 then 0 else scaledAmount ?l) + x"
      using act by (auto simp: b' book_create_def book_scale_def set_loan_def Let_def)
  qed
  assume run: "executeAuction E B u' n t bid v' ?t = Inr (r', s'')"
  have bk': "book ?t = book s'" by simp
  obtain t1 debt thr p where
    up1: "updateState E B a ?t = Inr ((), t1)"
    and pr: "calculateLoanLiquidatePrice B ?i' a n t1 = Inr ((debt, thr, p), t1)"
    and cb: "check_bid B (nfts ?t n) ?l' bid debt thr p t1 = Inr ((), t1)"
    by (rule auction_checks [OF run, unfolded bk' loan'(3,4)])
  have "pool_ok E D s'" by (rule keeps_okD(1) [OF borrow_keeps [OF ok u] pool borrow])
  then have bt: "bTokenAddress (reserves ?t a) \<notin> D" using market_bToken [OF pool_okD(1)] by simp
  have nowt: "lastUpdateTimestamp (reserves ?t a) = block_timestamp B" using now' time by (simp add: to_uint40_id)
  note again = updateState_again [OF ok bt nowt up1 time]
  have "debt = debt_at (scaledAmount ?l') ?idx"
    using debt_in_block [OF calculateLoanLiquidatePrice_reads(2) [OF pr]] again loan'(3) index time
    by (simp add: to_uint40_id)
  then have "debt \<le> d + amount + ?idx div ray + 2"
    using debt_at_add [OF x, of "if ?i = 0 then 0 else scaledAmount ?l"] loan'(5) d' by simp
  from threshold_above [OF cover [unfolded b1 price [OF c1]] cfg ltv_16 this dust [unfolded index]]
  have "debt \<le> thr"
    using liquidate_price_value [OF pr] price [of "reserves t1 a"] again c' c1 n' by simp
  with check_bid_first(1) [OF cb loan'(2)] show False by simp
qed

section \<open>What the pool shows and what it stores\<close>

lemma normalized_debt_value:
  assumes "getNormalizedDebt B rd = Inr N"
  shows "N = (if lastUpdateTimestamp rd = to_uint40 (block_timestamp B) then variableBorrowIndex rd
    else round_div (compound_factor (currentVariableBorrowRate rd) (block_timestamp B - lastUpdateTimestamp rd) * variableBorrowIndex rd) ray)"
  using assms by (auto simp: getNormalizedDebt_def checked_simps dest!: compounded_value(2))

lemma normalized_income_value:
  assumes "getNormalizedIncome B rd = Inr N"
  shows "N = (if lastUpdateTimestamp rd = to_uint40 (block_timestamp B) then liquidityIndex rd
    else round_div (linear_factor (currentLiquidityRate rd) (block_timestamp B - lastUpdateTimestamp rd) * liquidityIndex rd) ray)"
  using assms by (auto simp: getNormalizedIncome_def checked_simps)

lemma scale_one: "round_div (ray * i) ray = i"
  by (simp only: mult.commute [of ray] round_div_exact units_pos)

lemma shown_debt:
  assumes "getNormalizedDebt B rd = Inr N" "block_timestamp B < 2 ^ 40"
  shows "new_borrow_index B d rd \<le> N" "currentLiquidityRate rd \<noteq> 0 \<Longrightarrow> d \<noteq> 0 \<Longrightarrow> new_borrow_index B d rd = N"
  using grows [OF compound_ge, of "variableBorrowIndex rd"] assms(2)
  by (auto simp: normalized_debt_value [OF assms(1)] new_borrow_index_def to_uint40_id scale_one)

lemma shown_income:
  assumes "getNormalizedIncome B rd = Inr N" "block_timestamp B < 2 ^ 40"
  shows "new_liquidity_index B rd = N"
  using assms(2)
  by (auto simp: normalized_income_value [OF assms(1)] new_liquidity_index_def to_uint40_id scale_one linear_factor_def)

lemma repay_checks:
  assumes "executeRepay E B u n t amount s = Inr (r, s')"
  obtains s1 debt where "updateState E B (reserveAsset (loans (book s) (nftToLoanIds (book s) n t))) s = Inr ((), s1)"
    "getLoanReserveBorrowAmount B (nftToLoanIds (book s) n t) s1 = Inr (debt, s1)" "snd r = (\<not> amount < debt)"
    "nftToLoanIds (book s) n t \<noteq> 0"
proof -
  let ?i = "nftToLoanIds (book s) n t"
  from assms obtain s1 debt sb where "?i \<noteq> 0" "updateState E B (reserveAsset (loans (book s) ?i)) s = Inr ((), s1)"
    and d: "getLoanReserveBorrowAmount B ?i s1 = Inr (debt, sb)" "snd r = (\<not> amount < debt)"
    by (auto simp: executeRepay_def step_simps Let_def cong: if_weak_cong)
  with that getLoanReserveBorrowAmount_reads [OF d(1)] show ?thesis by blast
qed

lemma shown_covers:
  assumes ok: "externals_ok E D" and m: "market_ok E D s" and time: "block_timestamp B < 2 ^ 40"
    and up: "updateState E B (reserveAsset (loans (book s) i)) s = Inr ((), s1)"
    and now: "getLoanReserveBorrowAmount B i s1 = Inr (debt, s1)" and shown: "getLoanReserveBorrowAmount B i s = Inr (d, s)"
  shows "debt \<le> d"
proof -
  let ?l = "loans (book s) i"
  let ?a = "reserveAsset ?l"
  let ?rd = "reserves s ?a"
  let ?k = "token_supply E (debtTokenAddress ?rd) (external s)"
  from updateState_effect [OF ok market_bToken [OF m] up] obtain w where
    s1: "s1 = s\<lparr>reserves := (reserves s)(?a := accrued B ?k ?rd), external := w\<rparr>" .
  have "debt = debt_at (scaledAmount ?l) (new_borrow_index B ?k ?rd)"
    using debt_in_block [OF now] by (simp add: s1 accrued_def)
  moreover have "d = (if scaledAmount ?l = 0 then 0 else debt_at (scaledAmount ?l) N) \<and> new_borrow_index B ?k ?rd \<le> N"
    if "scaledAmount ?l \<noteq> 0 \<Longrightarrow> getNormalizedDebt B ?rd = Inr N" "scaledAmount ?l = 0 \<Longrightarrow> N = new_borrow_index B ?k ?rd" for N
    using shown that shown_debt(1) [OF _ time]
    by (cases "scaledAmount ?l = 0") (auto simp: getLoanReserveBorrowAmount_def call_simps checked_simps debt_at_def)
  moreover obtain N where "scaledAmount ?l \<noteq> 0 \<Longrightarrow> getNormalizedDebt B ?rd = Inr N"
    "scaledAmount ?l = 0 \<Longrightarrow> N = new_borrow_index B ?k ?rd"
    using shown by (cases "scaledAmount ?l = 0") (auto simp: getLoanReserveBorrowAmount_def call_simps)
  ultimately show ?thesis
    by (auto simp: debt_at_def intro!: round_div_mono mult_le_mono2)
qed

end
