(* ===== verification/PoolRuns.thy ===== *)
theory PoolRuns
  imports PoolSafety
begin

text \<open>
  Three more transactions of the small market: a second bid, a liquidation after the end of the auction, and a
  repayment in full.
\<close>

lemma mini_auctioned_fields:
  "entered mini_auctioned = False" "is_paused mini_auctioned = False" "nfts mini_auctioned = nfts mini_market" "book mini_auctioned = mini_book mini_bid"
  "pauseDurationTime mini_auctioned = 0"
  "reserves mini_auctioned 10 = mini_reserve 1001324981461967763337626351 1004743290580012261054000000 41942575727224984858272127 149370613408504301735866286 1003000"
  by (simp_all add: mini_auctioned_def mini_accrued_def mini_lent_def mini_market_def mini_start_def)

text \<open>The running auction with the interest up to a later time\<close>

definition mini_due :: "uint \<Rightarrow> uint \<Rightarrow> uint \<Rightarrow> uint \<Rightarrow> ledger pool" where
  "mini_due li vi t fee = mini_auctioned\<lparr>entered := True,
     reserves := (reserves mini_start)(10 := mini_reserve li vi 41942575727224984858272127 149370613408504301735866286 t),
     external := ((fst (external mini_start))(11 := (\<lambda>u. 0)(9 := fee, 30 := 50 * 10 ^ 18), 12 := (\<lambda>u. 0)(31 := 20 * 10 ^ 18),
       10 := (\<lambda>u. if 30 \<le> u then 1000 * 10 ^ 18 else 0)(30 := 950 * 10 ^ 18, 11 := 30 * 10 ^ 18, 31 := 1020 * 10 ^ 18,
         32 := 976 * 10 ^ 18, 1 := 24 * 10 ^ 18)),
       (\<lambda>t. 0)(11 := 50 * 10 ^ 18 + fee, 12 := 20 * 10 ^ 18))\<rparr>"

lemmas mini_state_simps = mini_due_def mini_auctioned_def mini_accrued_def mini_lent_def mini_loan_simps mini_bid_def mini_simps

lemma mini_due_1:
  "updateState mini (mini_block 1003500 price) 10 (mini_auctioned\<lparr>entered := True\<rparr>) =
     Inr ((), mini_due 1001325647338249830352102556 1004745670071688275521890021 1003500 28436342793587892)"
  by (simp add: mini_state_simps mini_words run_simps arith_simps reserve_simps token_simps fun_upd_twist)

lemma mini_due_2:
  "updateState mini (mini_block 1175801 price) 10 (mini_auctioned\<lparr>entered := True\<rparr>) =
     Inr ((), mini_due 1001555109636802687674632069 1005565983318525558384898074 1175801 33350576830219044)"
  by (simp add: mini_state_simps mini_words run_simps arith_simps reserve_simps token_simps fun_upd_twist)

lemma mini_price_1:
  "calculateLoanLiquidatePrice (mini_block 1003500 (25 * 10 ^ 18)) 1 10 20
     (mini_due 1001325647338249830352102556 1004745670071688275521890021 1003500 28436342793587892) =
     Inr ((20094913401433765510, 175 * 10 ^ 17, 2375 * 10 ^ 16),
       mini_due 1001325647338249830352102556 1004745670071688275521890021 1003500 28436342793587892)"
  by (simp add: mini_state_simps mini_words run_simps arith_simps reserve_simps loan_simps auction_simps)

lemma mini_second_bid:
  "\<exists>s'. run_call mini (mini_block 1003500 (25 * 10 ^ 18)) 33 (CAuction 20 7 (25 * 10 ^ 18) 33) mini_auctioned = Inr ((), s')"
  apply (simp add: run_simps executeAuction_def validateAuction_def validate_market_def mini_auctioned_fields mini_loan_simps mini_bid_def
    mini_due_1 mini_market_def mini_reserve_def mini_words mini_price_1 [simplified])
  apply (simp add: check_bid_def mini_words run_simps auctionLoan_def setFlashLoanLocking_def end_timestamp_def auction_hours_def one_percent_def
    ledger_transfer_def mini_state_simps arith_simps reserve_simps)
  done

lemma mini_price_2:
  "calculateLoanLiquidatePrice (mini_block 1175801 (25 * 10 ^ 18)) 1 10 20
     (mini_due 1001555109636802687674632069 1005565983318525558384898074 1175801 33350576830219044) =
     Inr ((20111319666370511168, 175 * 10 ^ 17, 2375 * 10 ^ 16),
       mini_due 1001555109636802687674632069 1005565983318525558384898074 1175801 33350576830219044)"
  by (simp add: mini_state_simps mini_words run_simps arith_simps reserve_simps loan_simps auction_simps)

lemma mini_liquidation:
  "\<exists>s'. run_call mini (mini_block 1175801 (25 * 10 ^ 18)) 32 (CLiquidate 20 7 0) mini_auctioned = Inr ((), s')"
  apply (simp add: run_simps executeLiquidate_def validateLiquidate_def validate_market_def mini_auctioned_fields mini_loan_simps mini_bid_def
    end_timestamp_def auction_hours_def mini_due_2 mini_market_def mini_reserve_def mini_words mini_price_2 [simplified] arith_simps)
  apply (simp add: liquidateLoan_def close_loan_def handleBeforeLoanRepaid_def handleAfterLoanRepaid_def token_simps
    mini_words run_simps setFlashLoanLocking_def mini_state_simps arith_simps reserve_simps)
  done

lemma mini_repayment:
  "\<exists>s'. run_call mini (mini_block 3000 price) 31 (CRepay 20 7 (21 * 10 ^ 18)) mini_lent = Inr ((), s')"
  by (simp add: executeRepay_def validateRepay_def validate_market_def repayLoan_def close_loan_def handleBeforeLoanRepaid_def
    handleAfterLoanRepaid_def mini_state_simps mini_words run_simps arith_simps reserve_simps token_simps loan_simps)

end
