(* ===== verification/PoolProperties.thy ===== *)
theory PoolProperties
  imports PoolRuns
begin

text \<open>
  The properties of the pool, each with an application to the small market of \<open>PoolDemo\<close>.
\<close>

section \<open>Invariants\<close>

text \<open>C1: Every transaction of the pool that returns refines the specification of the book of loans: what it did to
  the book is a sequence of enabled events, and the events are those that the transaction is meant to be: a loan of
  an unused NFT opens one, a loan of a used one draws on it, a repayment pays down or closes the loan of the NFT, a bid,
  a redemption and a liquidation are events of that loan, and everything else leaves
  the loans alone. (A batch is one such event for each of its elements, in their order, each by the loan that the NFT has
  after the ones before it.)\<close>

theorem transactions_refine_events:
  assumes "externals_ok E D" "reachable E D s" and "sender \<noteq> pool_addr E" "0 < block_timestamp B"
    and "run_call E B sender c s = Inr ((), s')"
  shows "\<exists>es b. meant B c (book s) es \<and> run_events es (book s) = Some b \<and> same_loans b (book s')"
  using doesD [OF run_call_does [OF assms(1,3,4)] reachable_ok [OF assms(1,2)] assms(5)]
  by (auto simp: becomes_def)

theorem transactions_refine_events_witness:
  "\<exists>es b. meant (mini_block 1003000 (25 * 10 ^ 18)) (CAuction 20 7 (24 * 10 ^ 18) 32) (book mini_lent) es \<and>
     run_events es (book mini_lent) = Some b \<and> same_loans b (book mini_auctioned)"
  by (rule transactions_refine_events [OF mini_ok mini_lent_reachable _ _ mini_auction]) (simp_all add: mini_block_def)

text \<open>C2: In every reachable state the debt tokens are backed loan by loan: the balance of an account in the debt token
  of a reserve is the sum of the scaled amounts of its open loans in that reserve, and the supply is the sum over
  all of them. So no debt is lost or counted twice, whatever the sequence of loans, batches, repayments, auctions
  and changes of the configuration.\<close>

theorem debts_backed:
  assumes "externals_ok E D" "reachable E D s" and "bTokenAddress (reserves s a) \<noteq> 0"
  shows "token_balance E (debtTokenAddress (reserves s a)) u (external s) = loan_sum (owed_by a u) (book s) \<and>
    token_supply E (debtTokenAddress (reserves s a)) (external s) = loan_sum (owed_all a) (book s)"
  using pool_okD(4) [OF reachable_ok [OF assms(1,2)]] assms(3) by (simp add: backed_def in_use_def)

theorem debts_backed_witness:
  "loan_sum (owed_by 10 31) (book mini_lent) = 20 * 10 ^ 18 \<and>
   token_balance mini 12 31 (external mini_lent) = loan_sum (owed_by 10 31) (book mini_lent)"
proof -
  have "bTokenAddress (reserves mini_lent 10) \<noteq> 0" by (simp add: mini_lent_fields mini_reserve_def)
  from debts_backed [OF mini_ok mini_lent_reachable this, of 31] show ?thesis
    by (simp add: mini_state_simps loan_sum_def owed_by_def is_open_def numeral_2_eq_2)
qed

text \<open>C3: The pool never spends the bids: in every reachable state it holds at least the sum of the bids of all running
  auctions, in the asset of each reserve, so that every bidder can be paid back or the loan be settled.\<close>

theorem bids_in_custody:
  assumes "externals_ok E D" "reachable E D s" and "bTokenAddress (reserves s a) \<noteq> 0"
  shows "loan_sum (bid_kept a) (book s) \<le> token_balance E a (pool_addr E) (external s)"
proof -
  note ok = reachable_ok [OF assms(1,2)]
  have "a \<notin> D" using market_live(2) [OF pool_okD(1) [OF ok]] assms(3) by (simp add: in_use_def)
  with pool_okD(5) [OF ok] show ?thesis by (simp add: bids_kept_def)
qed

theorem bids_in_custody_witness:
  "loan_sum (bid_kept 10) (book mini_auctioned) = 24 * 10 ^ 18 \<and>
   loan_sum (bid_kept 10) (book mini_auctioned) \<le> token_balance mini 10 1 (external mini_auctioned)"
proof -
  have "bTokenAddress (reserves mini_auctioned 10) \<noteq> 0" by (simp add: mini_auctioned_fields mini_reserve_def)
  from bids_in_custody [OF mini_ok mini_auctioned_reachable this] show ?thesis
    by (simp add: mini_state_simps loan_sum_def bid_kept_def is_open_def numeral_2_eq_2)
qed

text \<open>C7: In every reachable state the book of loans is in order: an open loan is the loan of its NFT and an NFT in use
  has an open loan, so no NFT secures two loans; only a loan in an auction has a bid; and the counters of the
  collections and of the users count exactly the open loans.\<close>

theorem loans_in_order:
  assumes "externals_ok E D" "reachable E D s"
  shows "is_open (loans (book s) i) =
      (i \<noteq> 0 \<and> nftToLoanIds (book s) (nftAsset (loans (book s) i)) (nftTokenId (loans (book s) i)) = i) \<and>
    (nftToLoanIds (book s) n t \<noteq> 0 \<longrightarrow>
      is_open (loans (book s) (nftToLoanIds (book s) n t)) \<and> nftAsset (loans (book s) (nftToLoanIds (book s) n t)) = n \<and>
      nftTokenId (loans (book s) (nftToLoanIds (book s) n t)) = t) \<and>
    (loan_state (loans (book s) i) = L_Auction \<longrightarrow> 0 < bidPrice (loans (book s) i) \<and> bidderAddress (loans (book s) i) \<noteq> 0) \<and>
    (loan_state (loans (book s) i) = L_Active \<longrightarrow> bidPrice (loans (book s) i) = 0 \<and> bidderAddress (loans (book s) i) = 0) \<and>
    nftTotalCollateral (book s) n = open_count (\<lambda>l. nftAsset l = n) (book s) \<and>
    userNftCollateral (book s) u n = open_count (\<lambda>l. borrower l = u \<and> nftAsset l = n) (book s)"
proof -
  note ok = pool_okD(2) [OF reachable_ok [OF assms]]
  let ?j = "nftToLoanIds (book s)" and ?l = "loans (book s) i"
  have "i \<noteq> 0 \<and> ?j (nftAsset ?l) (nftTokenId ?l) = i" if "is_open ?l"
    using ok that by (auto simp: book_ok_def)
  moreover have used: "is_open (loans (book s) (?j n t)) \<and> nftAsset (loans (book s) (?j n t)) = n \<and>
      nftTokenId (loans (book s) (?j n t)) = t" if "?j n t \<noteq> 0" for n t
    using ok that by (auto simp: book_ok_def)
  moreover have "is_open ?l" if "i \<noteq> 0" "?j (nftAsset ?l) (nftTokenId ?l) = i"
    using used [of "nftAsset ?l" "nftTokenId ?l"] that by simp
  moreover have "nftTotalCollateral (book s) n = open_count (\<lambda>l. nftAsset l = n) (book s)"
    "userNftCollateral (book s) u n = open_count (\<lambda>l. borrower l = u \<and> nftAsset l = n) (book s)"
    using ok by (simp_all add: book_ok_def)
  moreover have "(loan_state ?l = L_Auction \<longrightarrow> 0 < bidPrice ?l \<and> bidderAddress ?l \<noteq> 0) \<and>
    (loan_state ?l = L_Active \<longrightarrow> bidPrice ?l = 0 \<and> bidderAddress ?l = 0)"
    using book_ok_loan [OF ok, of i] by (auto simp: loan_ok_def)
  ultimately show ?thesis by meson
qed

theorem loans_in_order_witness:
  "is_open (loans (book mini_auctioned) 1) \<and> userNftCollateral (book mini_auctioned) 31 20 = 1 \<and>
   userNftCollateral (book mini_auctioned) 31 20 = open_count (\<lambda>l. borrower l = 31 \<and> nftAsset l = 20) (book mini_auctioned)"
  using loans_in_order [OF mini_ok mini_auctioned_reachable, of 1 20 7 31]
  by (simp add: mini_state_simps is_open_def)

text \<open>C11: A reserve in use keeps its tokens for ever, and neither of its indexes ever falls: what depositors are owed
  and what borrowers owe per scaled unit only grows, through every further sequence of transactions and whatever
  happens elsewhere.\<close>

theorem indexes_never_fall:
  assumes "externals_ok E D" "reachable E D s" and "(pool_step E D)\<^sup>*\<^sup>* s s'" and "bTokenAddress (reserves s a) \<noteq> 0"
  shows "liquidityIndex (reserves s a) \<le> liquidityIndex (reserves s' a) \<and>
    variableBorrowIndex (reserves s a) \<le> variableBorrowIndex (reserves s' a) \<and>
    bTokenAddress (reserves s' a) = bTokenAddress (reserves s a) \<and>
    debtTokenAddress (reserves s' a) = debtTokenAddress (reserves s a)"
  using later_ok [OF assms(1-3)] assms(4) by (simp add: reserves_grow_def in_use_def grows_to_def)

theorem indexes_never_fall_witness:
  "variableBorrowIndex (reserves mini_lent 10) \<le> variableBorrowIndex (reserves mini_auctioned 10) \<and>
   bTokenAddress (reserves mini_auctioned 10) = 11"
proof -
  have "pool_step mini {12} mini_lent mini_auctioned"
    by (rule Transaction [OF mini_auction]) (simp_all add: mini_block_def)
  then have later: "(pool_step mini {12})\<^sup>*\<^sup>* mini_lent mini_auctioned" by (rule r_into_rtranclp)
  have "bTokenAddress (reserves mini_lent 10) = 11" by (simp add: mini_lent_fields mini_reserve_def)
  with indexes_never_fall [OF mini_ok mini_lent_reachable later, of 10] show ?thesis by simp
qed

section \<open>Loans and auctions\<close>

text \<open>C4: A loan that was just borrowed on cannot be put up for auction by anybody in the same block at the same prices,
  if the collection's loan-to-value is below its liquidation threshold and the NFT is worth more than dust: the
  check of the collateral leaves room for every rounding of the scaled debt.\<close>

theorem borrowed_loan_is_safe:
  assumes "externals_ok E D" "reachable E D s" "sender \<noteq> pool_addr E" and "block_timestamp B < 2 ^ 40"
    and "run_call E B sender (CBorrow asset amount n t user) s = Inr ((), s')"
    and "nft_ltv (nfts s n) < nft_threshold (nfts s n)"
    and "percentage_factor * (variableBorrowIndex (reserves s' asset) div ray + 10) \<le> price_in_reserve B asset (reserves s asset) n"
  shows "run_call E B bidder (CAuction n t bid user') s' \<noteq> Inr ((), s'')"
proof
  assume "run_call E B bidder (CAuction n t bid user') s' = Inr ((), s'')"
  then obtain y where bid: "executeAuction E B bidder n t bid user' (s'\<lparr>entered := True\<rparr>) = Inr ((), y)"
    by (auto simp: guarded_returns)
  from assms(5) obtain x where b: "executeBorrow E B sender asset amount n t user (s\<lparr>entered := True\<rparr>) = Inr ((), x)"
    and s': "s' = x\<lparr>entered := False\<rparr>" by (auto simp: guarded_returns)
  have "executeAuction E B bidder n t bid user' (x\<lparr>entered := True\<rparr>) \<noteq> Inr ((), y)"
    by (rule borrowed_not_auctioned [OF assms(1) _ assms(3,4) b])
      (use assms(6,7) reachable_ok [OF assms(1,2)] in \<open>simp_all add: s'\<close>)
  with bid show False by (simp add: s')
qed

theorem borrowed_loan_is_safe_witness:
  "run_call mini (mini_block 3000 (100 * 10 ^ 18)) 31 (CBorrow 10 (20 * 10 ^ 18) 20 7 31) mini_funded = Inr ((), mini_lent) \<and>
   (\<nexists>s. run_call mini (mini_block 3000 (100 * 10 ^ 18)) 32 (CAuction 20 7 (25 * 10 ^ 18) 32) mini_lent = Inr ((), s))"
proof
  show "run_call mini (mini_block 3000 (100 * 10 ^ 18)) 31 (CBorrow 10 (20 * 10 ^ 18) 20 7 31) mini_funded = Inr ((), mini_lent)"
    by (rule mini_borrow)
  have step: "pool_step mini {12} mini_market mini_funded"
    by (rule Transaction [OF mini_deposit]) (simp_all add: mini_block_def)
  have "run_call mini (mini_block 3000 (100 * 10 ^ 18)) 32 (CAuction 20 7 (25 * 10 ^ 18) 32) mini_lent \<noteq> Inr ((), s)" for s
    by (rule borrowed_loan_is_safe [OF mini_ok reachable.step [OF mini_market_reachable step] _ _ mini_borrow])
      (simp_all add: mini_block_def mini_funded_def mini_lent_fields mini_reserve_def mini_market_def mini_words nft_ltv_def
        nft_threshold_def price_in_reserve_def percentage_factor_def ray_def)
  then show "\<nexists>s. run_call mini (mini_block 3000 (100 * 10 ^ 18)) 32 (CAuction 20 7 (25 * 10 ^ 18) 32) mini_lent = Inr ((), s)"
    by blast
qed

text \<open>C12: A bid in a running auction that is accepted comes before the end of the auction, is at least the debt of the
  loan, and beats the highest bid by at least one percent of the debt; a first bid is accepted only if the debt
  exceeds the liquidation threshold of the NFT's value. The highest bid only grows.\<close>

theorem bids_rise:
  assumes "run_call E B sender (CAuction n t bid user) s = Inr ((), s')"
  defines "i \<equiv> nftToLoanIds (book s) n t"
  defines "l \<equiv> loans (book s) i"
  shows "\<exists>s1 debt. updateState E B (reserveAsset l) (s\<lparr>entered := True\<rparr>) = Inr ((), s1) \<and>
    getLoanReserveBorrowAmount B i s1 = Inr (debt, s1) \<and> debt \<le> bid \<and>
    (if loan_state l = L_Auction
     then bidPrice l + round_div debt 100 \<le> bid \<and> block_timestamp B \<le> ends_at s1 l (auction_hours (nfts s (nftAsset l)))
     else loan_state l = L_Active \<and>
       round_div (price_in_reserve B (reserveAsset l) (reserves s1 (reserveAsset l)) (nftAsset l) * nft_threshold (nfts s1 (nftAsset l)))
         percentage_factor < debt)"
proof -
  from assms(1) obtain y where "executeAuction E B sender n t bid user (s\<lparr>entered := True\<rparr>) = Inr ((), y)"
    by (auto simp: guarded_returns)
  note run = auction_checks [OF this, simplified, folded i_def, folded l_def]
  obtain s1 debt thr price where l: "is_open l" and s1: "updateState E B (reserveAsset l) (s\<lparr>entered := True\<rparr>) = Inr ((), s1)"
    and p: "calculateLoanLiquidatePrice B i (reserveAsset l) (nftAsset l) s1 = Inr ((debt, thr, price), s1)"
    and c: "check_bid B (nfts s (nftAsset l)) l bid debt thr price s1 = Inr ((), s1)"
    by (rule run) auto
  show ?thesis
  proof (intro exI [of _ s1] exI [of _ debt] conjI s1 calculateLoanLiquidatePrice_reads(2) [OF p])
    show "debt \<le> bid" using check_bid_next(1) [OF c] check_bid_first(2) [OF c] l by (auto simp: is_open_def)
  qed (use check_bid_next(2,3) [OF c] check_bid_first(1) [OF c] liquidate_price_value [OF p] l in \<open>auto simp: is_open_def\<close>)
qed

theorem bids_rise_witness:
  "\<exists>s1 debt. updateState mini (mini_block 1003500 (25 * 10 ^ 18)) 10 (mini_auctioned\<lparr>entered := True\<rparr>) = Inr ((), s1) \<and>
     getLoanReserveBorrowAmount (mini_block 1003500 (25 * 10 ^ 18)) 1 s1 = Inr (debt, s1) \<and> debt \<le> 25 * 10 ^ 18 \<and>
     24 * 10 ^ 18 + round_div debt 100 \<le> 25 * 10 ^ 18"
proof -
  from mini_second_bid obtain s' where
    run: "run_call mini (mini_block 1003500 (25 * 10 ^ 18)) 33 (CAuction 20 7 (25 * 10 ^ 18) 33) mini_auctioned = Inr ((), s')" ..
  from bids_rise [OF run] show ?thesis by (auto simp: mini_auctioned_fields mini_loan_simps mini_bid_def)
qed

text \<open>C9: An auction has one outcome at a time: when a loan can be liquidated, no further bid on it is accepted in the
  same block; nor is a redemption, provided that the collection's time to redeem is not longer than its auction (which
  the batch configuration does not require).\<close>

theorem liquidation_excludes_bids:
  assumes "externals_ok E D" "reachable E D s"
    and "run_call E B sender (CLiquidate n t amount) s = Inr ((), s')"
  shows "run_call E B sender' (CAuction n t bid user) s \<noteq> Inr ((), s'') \<and>
    (redeem_hours (nfts s (nftAsset (loans (book s) (nftToLoanIds (book s) n t)))) \<le>
       auction_hours (nfts s (nftAsset (loans (book s) (nftToLoanIds (book s) n t)))) \<longrightarrow>
     run_call E B sender'' (CRedeem n t x fine) s \<noteq> Inr ((), s''))"
proof -
  let ?i = "nftToLoanIds (book s) n t" and ?t = "s\<lparr>entered := True\<rparr>"
  let ?l = "loans (book s) ?i"
  have same: "book ?t = book s" "nfts ?t = nfts s" by simp_all
  from assms(3) obtain r y where "executeLiquidate E B sender n t amount ?t = Inr (r, y)"
    by (auto simp: guarded_returns call_simps)
  from liquidate_checks [OF this, unfolded same] obtain e where st: "loan_state ?l = L_Auction"
    and e: "end_timestamp ?l (auction_hours (nfts s (nftAsset ?l))) ?t = Inr (e, ?t)" "e < block_timestamp B" .
  have late: "ends_at ?t ?l (auction_hours (nfts s (nftAsset ?l))) < block_timestamp B"
    using e end_timestamp_value by fastforce
  have "executeAuction E B sender' n t bid user ?t \<noteq> Inr ((), z)" for z
  proof
    assume "executeAuction E B sender' n t bid user ?t = Inr ((), z)"
    from auction_checks [OF this, unfolded same] obtain s1 debt thr price where
      s1: "updateState E B (reserveAsset ?l) ?t = Inr ((), s1)"
      and c: "check_bid B (nfts s (nftAsset ?l)) ?l bid debt thr price s1 = Inr ((), s1)" .
    have "bTokenAddress (reserves ?t (reserveAsset ?l)) \<notin> D"
      using market_bToken [OF pool_okD(1) [OF reachable_ok [OF assms(1,2)]]] by simp
    note o = shifts_others(3,4) [OF updateState_settles [OF assms(1) this s1]]
    have "ends_at s1 ?l h = ends_at ?t ?l h" for h using o by (simp add: ends_at_def)
    with check_bid_next(2) [OF c st] late show False by simp
  qed
  moreover have "executeRedeem E B sender'' n t x fine ?t \<noteq> Inr (r, z)"
    if short: "redeem_hours (nfts s (nftAsset ?l)) \<le> auction_hours (nfts s (nftAsset ?l))" for r z
  proof
    assume "executeRedeem E B sender'' n t x fine ?t = Inr (r, z)"
    from redeem_checks [OF this, unfolded same] obtain e' where
      e': "end_timestamp ?l (redeem_hours (nfts s (nftAsset ?l))) ?t = Inr (e', ?t)" "block_timestamp B \<le> e'" .
    have "e' = ends_at ?t ?l (redeem_hours (nfts s (nftAsset ?l)))" using end_timestamp_value [OF e'(1)] by simp
    with e'(2) late short show False by (simp add: ends_at_def)
  qed
  ultimately show ?thesis by (auto simp: guarded_returns call_simps)
qed

theorem liquidation_excludes_bids_witness:
  "\<exists>s'. run_call mini (mini_block 1175801 (25 * 10 ^ 18)) 32 (CLiquidate 20 7 0) mini_auctioned = Inr ((), s') \<and>
     (\<nexists>s. run_call mini (mini_block 1175801 (25 * 10 ^ 18)) 33 (CAuction 20 7 (30 * 10 ^ 18) 33) mini_auctioned = Inr ((), s))"
proof -
  from mini_liquidation obtain s' where
    run: "run_call mini (mini_block 1175801 (25 * 10 ^ 18)) 32 (CLiquidate 20 7 0) mini_auctioned = Inr ((), s')" ..
  from liquidation_excludes_bids [OF mini_ok mini_auctioned_reachable run] run show ?thesis
    by (auto simp: mini_auctioned_fields mini_loan_simps mini_bid_def mini_market_def mini_words redeem_hours_def auction_hours_def)
qed

text \<open>A loan that is closed takes exactly its scaled amount off the debt token, from its borrower and nobody else.\<close>

lemma close_burns:
  assumes ok: "pool_ok E D s" and pf: "performs E D (Close i) s y"
  defines "l \<equiv> loans (book s) i"
  defines "T \<equiv> debtTokenAddress (reserves s (reserveAsset l))"
  shows "token_balance E T v (external s) = token_balance E T v (external y) + (if v = borrower l then scaledAmount l else 0) \<and>
    token_supply E T (external s) = token_supply E T (external y) + scaledAmount l \<and>
    debtTokenAddress (reserves y (reserveAsset l)) = T"
proof -
  let ?a = "reserveAsset l"
  from performs_becomes [OF pf] obtain tab where e: "enabled (Close i) (book s)"
    and y: "book y = (happen (Close i) (book s))\<lparr>loanRepaidInterceptors := tab\<rparr>"
    by (auto simp: becomes_def same_loans_def split: if_splits)
  note bk = pool_okD(2) [OF ok]
  note keeps = performs_keeps [OF ok pf]
  have "is_open l" using e by (simp add: l_def is_open_def)
  then have live: "in_use s ?a" using pool_okD(3) [OF ok] by (simp add: loans_live_def l_def)
  then have live': "in_use y ?a" and T: "debtTokenAddress (reserves y ?a) = T"
    using keeps by (auto simp: reserves_grow_def grows_to_def in_use_def T_def)
  have sums: "loan_sum f (book y) = loan_sum f (happen (Close i) (book s))" for f
    by (rule loan_sum_cong) (simp_all add: y)
  have before: "token_balance E T v (external s) = loan_sum (owed_by ?a v) (book s)"
    "token_supply E T (external s) = loan_sum (owed_all ?a) (book s)"
    using pool_okD(4) [OF ok] live by (simp_all add: backed_def T_def)
  have after: "token_balance E T v (external y) = loan_sum (owed_by ?a v) (book y)"
    "token_supply E T (external y) = loan_sum (owed_all ?a) (book y)"
    using pool_okD(4) [OF conjunct1 [OF keeps]] live' by (simp_all add: backed_def T [symmetric])
  have "int (loan_sum (owed_by ?a v) (book y)) =
      int (loan_sum (owed_by ?a v) (book s)) - (if v = borrower l then int (scaledAmount l) else 0)"
    using owed_happen [OF bk e, of ?a v] by (simp add: sums l_def at2_def)
  moreover have "int (loan_sum (owed_all ?a) (book y)) = int (loan_sum (owed_all ?a) (book s)) - int (scaledAmount l)"
    using owed_all_happen [OF bk e, of ?a] by (simp add: sums l_def at1_def)
  ultimately show ?thesis using before after T by (auto split: if_splits)
qed

text \<open>C8: Whoever sends at least the debt that the pool shows for a loan closes it: the loan is repaid and the NFT is free,
  and in spite of the roundings the debt tokens burnt are exactly the scaled amount of the loan, all of them the
  borrower's: nobody else's balance in the debt token changes, and no fraction of the loan is left.\<close>

theorem repaid_in_full:
  assumes "externals_ok E D" "reachable E D s" "sender \<noteq> pool_addr E" "block_timestamp B < 2 ^ 40"
    and "run_call E B sender (CRepay n t amount) s = Inr ((), s')"
    and "getLoanReserveBorrowAmount B (nftToLoanIds (book s) n t) s = Inr (debt, s)" "debt \<le> amount"
  defines "l \<equiv> loans (book s) (nftToLoanIds (book s) n t)"
  defines "T \<equiv> debtTokenAddress (reserves s (reserveAsset l))"
  shows "nftToLoanIds (book s') n t = 0 \<and> loan_state (loans (book s') (nftToLoanIds (book s) n t)) = L_Repaid \<and>
    token_supply E T (external s) = token_supply E T (external s') + scaledAmount l \<and>
    token_balance E T v (external s) =
      token_balance E T v (external s') + (if v = borrower l then scaledAmount l else 0)"
proof -
  let ?i = "nftToLoanIds (book s) n t" and ?t = "s\<lparr>entered := True\<rparr>"
  let ?a = "reserveAsset (loans (book s) ?i)"
  from assms(5) obtain r y where run: "executeRepay E B sender n t amount ?t = Inr (r, y)" and s': "s' = y\<lparr>entered := False\<rparr>"
    by (auto simp: guarded_returns call_simps)
  have ok: "pool_ok E D ?t" using reachable_ok [OF assms(1,2)] by simp
  have bt: "book ?t = book s" by simp
  from repay_checks [OF run] obtain s1 d1 where s1: "updateState E B ?a ?t = Inr ((), s1)"
    and d1: "getLoanReserveBorrowAmount B ?i s1 = Inr (d1, s1)" and r: "snd r = (\<not> amount < d1)" and i: "?i \<noteq> 0"
    unfolding bt .
  have shown: "getLoanReserveBorrowAmount B ?i ?t = Inr (debt, ?t)"
    using assms(6) by (auto simp: getLoanReserveBorrowAmount_def call_simps split: if_splits)
  have "d1 \<le> debt"
    by (rule shown_covers [OF assms(1) pool_okD(1) [OF ok] assms(4) _ d1 shown]) (use s1 in simp)
  with r assms(7) have "snd r" by simp
  with repay_performs [OF assms(1) pool_okD(1,2) [OF ok] assms(3) run] have pf: "performs E D (Close ?i) ?t y" by simp
  from performs_becomes [OF pf] have e: "enabled (Close ?i) (book s)" and sm: "same_loans (happen (Close ?i) (book s)) (book s')"
    by (auto simp: becomes_def s' split: if_splits)
  from sm obtain tab where b': "book s' = (happen (Close ?i) (book s))\<lparr>loanRepaidInterceptors := tab\<rparr>"
    by (auto simp: same_loans_def)
  note bk = pool_okD(2) [OF reachable_ok [OF assms(1,2)]]
  have nft: "nftAsset (loans (book s) ?i) = n" "nftTokenId (loans (book s) ?i) = t" using bk i by (auto simp: book_ok_def)
  have "external y = external s'" by (simp add: s')
  with close_burns [OF ok pf, of v] nft show ?thesis by (simp add: b' book_close_def Let_def l_def T_def)
qed

theorem repaid_in_full_witness:
  "\<exists>s'. run_call mini (mini_block 3000 0) 31 (CRepay 20 7 (21 * 10 ^ 18)) mini_lent = Inr ((), s') \<and>
     nftToLoanIds (book s') 20 7 = 0 \<and> token_supply mini 12 (external s') = 0 \<and> token_balance mini 12 31 (external s') = 0"
proof -
  from mini_repayment obtain s' where run: "run_call mini (mini_block 3000 0) 31 (CRepay 20 7 (21 * 10 ^ 18)) mini_lent = Inr ((), s')" ..
  have shown: "getLoanReserveBorrowAmount (mini_block 3000 0) (nftToLoanIds (book mini_lent) 20 7) mini_lent = Inr (20 * 10 ^ 18, mini_lent)"
    by (simp add: getLoanReserveBorrowAmount_def run_simps mini_lent_fields mini_loan_simps mini_reserve_def mini_block_def
      getNormalizedDebt_def to_uint40_def rayMul_value halfRay_def ray_def uint256_max_def round_div_def)
  have before: "token_supply mini 12 (external mini_lent) = 20 * 10 ^ 18"
    "token_balance mini 12 31 (external mini_lent) = 20 * 10 ^ 18"
    by (simp_all add: mini_state_simps)
  have loan: "nftToLoanIds (book mini_lent) 20 7 = 1" "reserveAsset (loans (book mini_lent) 1) = 10"
    "borrower (loans (book mini_lent) 1) = 31" "scaledAmount (loans (book mini_lent) 1) = 20 * 10 ^ 18"
    "debtTokenAddress (reserves mini_lent 10) = 12"
    by (simp_all add: mini_lent_fields mini_loan_simps mini_reserve_def)
  from repaid_in_full [where v = 31, OF mini_ok mini_lent_reachable _ _ run shown, unfolded loan before] run show ?thesis
    by (auto simp: mini_block_def simp del: mini_def)
qed

section \<open>Interest\<close>

text \<open>C15: Between two updates of a reserve the pool shows its normalized income and debt. The next update stores exactly
  the income shown. It stores exactly the debt shown if the depositors earn a rate and there is debt; if not, it keeps
  the old index of the debt, whatever was shown. Either way the clock of the reserve is set to the block.\<close>

theorem shown_is_stored:
  assumes "externals_ok E D" "reachable E D s" "block_timestamp B < 2 ^ 40"
    and "updateState E B a s = Inr ((), s')"
    and "getNormalizedIncome B (reserves s a) = Inr income" "getNormalizedDebt B (reserves s a) = Inr debt"
  shows "liquidityIndex (reserves s' a) = income \<and>
    variableBorrowIndex (reserves s' a) =
      (if currentLiquidityRate (reserves s a) = 0 \<or> token_supply E (debtTokenAddress (reserves s a)) (external s) = 0
       then variableBorrowIndex (reserves s a) else debt) \<and>
    lastUpdateTimestamp (reserves s' a) = block_timestamp B"
proof -
  note m = market_bToken [OF pool_okD(1) [OF reachable_ok [OF assms(1,2)]]]
  let ?rd = "reserves s a" and ?supply = "token_supply E (debtTokenAddress (reserves s a)) (external s)"
  have debt: "variableBorrowIndex (accrued B ?supply ?rd) =
      (if currentLiquidityRate ?rd = 0 \<or> ?supply = 0 then variableBorrowIndex ?rd else debt)"
  proof (cases "currentLiquidityRate ?rd = 0 \<or> ?supply = 0")
    case True
    then show ?thesis by (auto simp: accrued_def new_borrow_index_def)
  next
    case False
    then show ?thesis using shown_debt(2) [OF assms(6,3)] by (simp add: accrued_def)
  qed
  show ?thesis
    by (rule updateState_effect [OF assms(1) m assms(4)])
      (use debt in \<open>simp add: accrued_def to_uint40_id [OF assms(3)] shown_income [OF assms(5,3)]\<close>)
qed

theorem shown_is_stored_witness:
  "\<exists>s'. updateState mini (mini_block 1003000 0) 10 mini_lent = Inr ((), s') \<and>
     getNormalizedDebt (mini_block 1003000 0) (reserves mini_lent 10) = Inr 1004743290580012261054000000 \<and>
     variableBorrowIndex (reserves s' 10) = 1004743290580012261054000000"
proof -
  let ?B = "mini_block 1003000 0"
  have up: "updateState mini ?B 10 mini_lent = Inr ((), mini_accrued)"
    using mini_accrues [of 0 False] by (simp add: mini_accrued_def mini_lent_def mini_market_def mini_start_def)
  have income: "getNormalizedIncome ?B (reserves mini_lent 10) = Inr 1001324981461967763337626351"
    and debt: "getNormalizedDebt ?B (reserves mini_lent 10) = Inr 1004743290580012261054000000"
    by (simp_all add: mini_lent_fields mini_reserve_def mini_block_def arith_simps reserve_simps)
  from shown_is_stored [OF mini_ok mini_lent_reachable _ up income debt] up debt show ?thesis
    by (simp add: mini_lent_fields mini_reserve_def mini_block_def) (simp add: mini_lent_def)
qed

text \<open>C17: With a reserve factor of one hundred percent, which the configurator accepts, the liquidity rate is zero, and an
  update then skips the borrow index: the interest of the borrowers since the last update, which the pool has shown
  until then, is dropped, and the clock of the reserve set forward.\<close>

theorem full_factor_drops_interest:
  assumes "externals_ok E D" "bTokenAddress (reserves s a) \<notin> D"
    and "unat (getReserveFactor (r_configuration (reserves s a))) = percentage_factor"
    and "updateInterestRates E a added taken s = Inr ((), s1)" "updateState E B a s1 = Inr ((), s2)"
  shows "currentLiquidityRate (reserves s1 a) = 0 \<and>
    variableBorrowIndex (reserves s2 a) = variableBorrowIndex (reserves s1 a) \<and>
    lastUpdateTimestamp (reserves s2 a) = to_uint40 (block_timestamp B)"
proof -
  from assms(4) obtain debt lr br strategy balance where
    s1: "s1 = set_reserve a (\<lambda>rd. rd\<lparr>currentLiquidityRate := lr, currentVariableBorrowRate := br\<rparr>) s"
    and r: "calculateInterestRatesFor strategy balance added taken debt (unat (getReserveFactor (r_configuration (reserves s a)))) = Inr (lr, br)"
    by (auto simp: updateInterestRates_def call_simps split: prod.splits)
  from r assms(3) obtain avail where "calculateInterestRates strategy avail debt percentage_factor = Inr (lr, br)"
    by (auto simp: calculateInterestRatesFor_def checked_simps)
  then have "lr = 0" by (rule rates_returns) simp
  then have zero: "currentLiquidityRate (reserves s1 a) = 0" by (simp add: s1 set_reserve_def)
  have "bTokenAddress (reserves s1 a) \<notin> D" using assms(2) by (simp add: s1 set_reserve_def)
  from updateState_effect [OF assms(1) this assms(5)] obtain w where
    "s2 = s1\<lparr>reserves := (reserves s1)(a := accrued B (token_supply E (debtTokenAddress (reserves s1 a)) (external s1))
      (reserves s1 a)), external := w\<rparr>" .
  with zero show ?thesis by (simp add: accrued_def new_borrow_index_def)
qed

definition greedy_word :: u256 where "greedy_word = 184467806091615286591488"

definition mini_greedy :: "ledger pool" where
  "mini_greedy = set_reserve 10 (\<lambda>rd. rd\<lparr>r_configuration := greedy_word\<rparr>) mini_lent"

text \<open>A million seconds later the pool has shown an index of 1.0047 rays, and stores one ray.\<close>

theorem full_factor_drops_interest_witness:
  "\<exists>s1 s2 shown. updateInterestRates mini 10 0 0 mini_greedy = Inr ((), s1) \<and>
     updateState mini (mini_block 1003000 0) 10 s1 = Inr ((), s2) \<and>
     getNormalizedDebt (mini_block 1003000 0) (reserves s1 10) = Inr shown \<and>
     ray < shown \<and> variableBorrowIndex (reserves s2 10) = ray"
proof -
  have w: "unat (getReserveFactor greedy_word) = 10000" by code_simp
  have up: "\<exists>s1. updateInterestRates mini 10 0 0 mini_greedy = Inr ((), s1) \<and>
      (\<exists>s2. updateState mini (mini_block 1003000 0) 10 s1 = Inr ((), s2)) \<and>
      (\<exists>shown. getNormalizedDebt (mini_block 1003000 0) (reserves s1 10) = Inr shown \<and> ray < shown) \<and>
      variableBorrowIndex (reserves s1 10) = ray"
    by (simp add: mini_greedy_def mini_state_simps w run_simps arith_simps reserve_simps token_simps)
  have f: "unat (getReserveFactor (r_configuration (reserves mini_greedy 10))) = percentage_factor"
    by (simp add: mini_greedy_def set_reserve_def w percentage_factor_def)
  from up obtain s1 s2 shown where
    s1: "updateInterestRates mini 10 0 0 mini_greedy = Inr ((), s1)"
    and s2: "updateState mini (mini_block 1003000 0) 10 s1 = Inr ((), s2)"
    and shown: "getNormalizedDebt (mini_block 1003000 0) (reserves s1 10) = Inr shown" "ray < shown"
    and index: "variableBorrowIndex (reserves s1 10) = ray" by blast
  have "variableBorrowIndex (reserves s2 10) = ray"
    using full_factor_drops_interest [OF mini_ok [of "{}"] _ f s1 s2] index by simp
  with s1 s2 shown show ?thesis by blast
qed

end
