(* ===== verification/PoolFaults.thy ===== *)
theory PoolFaults
  imports PoolRuns
begin

text \<open>
  When the pool refuses: everything that users call is refused in a paused pool and within another call of the
  pool; everything that the configurator calls is refused to others; and a reserve factor above one hundred
  percent, which the configurator accepts, makes every operation of the reserve revert.
\<close>

section \<open>Refused at the door\<close>

fun user_call :: "pool_call \<Rightarrow> bool" where
  "user_call (CDeposit asset amount user) \<longleftrightarrow> True"
| "user_call (CWithdraw asset amount receiver) \<longleftrightarrow> True"
| "user_call (CBorrow asset amount nft tokenId user) \<longleftrightarrow> True"
| "user_call (CBatchBorrow assets amounts nftAssets nftTokenIds user) \<longleftrightarrow> True"
| "user_call (CRepay nft tokenId amount) \<longleftrightarrow> True"
| "user_call (CBatchRepay nftAssets nftTokenIds amounts) \<longleftrightarrow> True"
| "user_call (CAuction nft tokenId bid user) \<longleftrightarrow> True"
| "user_call (CRedeem nft tokenId amount fine) \<longleftrightarrow> True"
| "user_call (CLiquidate nft tokenId amount) \<longleftrightarrow> True"
| "user_call c \<longleftrightarrow> False"

lemma guarded_entered: "entered s \<Longrightarrow> guarded m s = Inl (Require ''ReentrancyGuard: reentrant call'')"
  by (simp add: guarded_def cget_cbind crequire_fails)

lemma guarded_paused: "\<not> entered s \<Longrightarrow> is_paused s \<Longrightarrow> guarded m s = Inl (Require ''LP_IS_PAUSED'')"
  by (simp add: guarded_def cget_cbind crequire_passes crequire_fails cthen_def [of "cset f" for f] cbind_def [of "cset f" for f] cset_def)

lemma guarded_refuses:
  "entered s \<or> is_paused s \<Longrightarrow> guarded m s = Inl (Require (if entered s then ''ReentrancyGuard: reentrant call'' else ''LP_IS_PAUSED''))"
  using guarded_entered guarded_paused by auto

text \<open>C18: While the pool is paused, or while another call of it is running, every operation of users is refused with the
  reason of the guard, whatever its arguments and the state; and what the configurator may call is refused to
  everybody else. So a token or an interceptor that calls back cannot enter the pool again.\<close>

theorem pool_refuses:
  assumes "if user_call c then entered s \<or> is_paused s else sender \<noteq> configurator E"
  shows "run_call E B sender c s = Inl (Require
    (if \<not> user_call c then ''LP_CALLER_NOT_LEND_POOL_CONFIGURATOR''
     else if entered s then ''ReentrancyGuard: reentrant call'' else ''LP_IS_PAUSED''))"
proof (cases "user_call c")
  case True
  with assms have "entered s \<or> is_paused s" by simp
  with True show ?thesis by (cases c) (simp_all add: cthen_Inl guarded_refuses del: disj_not1)
next
  case False
  with assms have "configurator E \<noteq> sender" by simp
  then have "onlyLendPoolConfigurator E sender m s = Inl (Require ''LP_CALLER_NOT_LEND_POOL_CONFIGURATOR'')" for m
    by (simp add: onlyLendPoolConfigurator_def crequire_fails)
  with False show ?thesis by (cases c) simp_all
qed

theorem pool_refuses_witness:
  "run_call mini (mini_block 3000 0) 31 (CRepay 20 7 1) (mini_lent\<lparr>is_paused := True\<rparr>) = Inl (Require ''LP_IS_PAUSED'') \<and>
   run_call mini (mini_block 3000 0) 31 (CSetPause False) mini_lent = Inl (Require ''LP_CALLER_NOT_LEND_POOL_CONFIGURATOR'')"
  using pool_refuses [of "CRepay 20 7 1" "mini_lent\<lparr>is_paused := True\<rparr>" 31 mini "mini_block 3000 0"]
    pool_refuses [of "CSetPause False" mini_lent 31 mini "mini_block 3000 0"]
  by (simp add: mini_lent_fields)

section \<open>Stuck reserves\<close>

text \<open>\<open>stuck P m\<close>: no run of \<open>m\<close> from a state with \<open>P\<close> returns; \<open>keeps P m\<close>: a run keeps \<open>P\<close>.\<close>

definition keeps :: "('h pool \<Rightarrow> bool) \<Rightarrow> ('h, 'a) call \<Rightarrow> bool" where
  "keeps P m \<longleftrightarrow> (\<forall>s r s'. P s \<longrightarrow> m s = Inr (r, s') \<longrightarrow> P s')"

definition stuck :: "('h pool \<Rightarrow> bool) \<Rightarrow> ('h, 'a) call \<Rightarrow> bool" where
  "stuck P m \<longleftrightarrow> (\<forall>s r s'. P s \<longrightarrow> m s \<noteq> Inr (r, s'))"

lemma kept_cbind:
  assumes "keeps P m" "\<And>x. keeps P (f x)" shows "keeps P (cbind m f)"
  unfolding keeps_def
proof (intro allI impI)
  fix s r s'
  assume s: "P s" and "cbind m f s = Inr (r, s')"
  then obtain x t where m: "m s = Inr (x, t)" and f: "f x t = Inr (r, s')" by (auto simp: call_simps)
  from assms(1) s m have "P t" by (simp add: keeps_def)
  with assms(2) [of x] f show "P s'" by (simp add: keeps_def)
qed

lemma kept_cthen: "keeps P m \<Longrightarrow> keeps P n \<Longrightarrow> keeps P (cthen m n)"
  unfolding cthen_def by (rule kept_cbind)

lemma keeps_pure [simp]: "keeps P (ret x)" "keeps P (cget f)" "keeps P (crequire c msg)" "keeps P (clift v)"
  by (auto simp: keeps_def call_simps)

lemma keeps_if: "keeps P m \<Longrightarrow> keeps P n \<Longrightarrow> keeps P (if c then m else n)"
  by simp

lemma stuck_first: "stuck P m \<Longrightarrow> stuck P (cthen m n)" "stuck P m \<Longrightarrow> stuck P (cbind m f)"
  by (auto simp: stuck_def call_simps)

lemma stuck_bind:
  assumes "keeps P m" "\<And>x. stuck P (f x)" shows "stuck P (cbind m f)"
  unfolding stuck_def
proof (intro allI impI notI)
  fix s r s'
  assume s: "P s" and "cbind m f s = Inr (r, s')"
  then obtain x t where m: "m s = Inr (x, t)" and f: "f x t = Inr (r, s')" by (auto simp: call_simps)
  from assms(1) s m have "P t" by (simp add: keeps_def)
  with assms(2) [of x] f show False by (simp add: stuck_def)
qed

lemma stuck_then: "keeps P m \<Longrightarrow> stuck P n \<Longrightarrow> stuck P (cthen m n)"
  unfolding cthen_def by (rule stuck_bind)

text \<open>
  Predicates on what the operations leave alone: the loan numbers of the NFTs, the reserves of the loans and the
  configurations of the reserves. The reserve factor of \<open>a\<close> is above one hundred percent (\<open>greedy\<close>); and besides, a loan of
  the NFT, if it has one, is in \<open>a\<close> (\<open>owes\<close>).
\<close>

definition on_view :: "((acct \<Rightarrow> uint \<Rightarrow> uint) \<Rightarrow> (uint \<Rightarrow> acct) \<Rightarrow> (acct \<Rightarrow> u256) \<Rightarrow> bool) \<Rightarrow> 'h pool \<Rightarrow> bool" where
  "on_view Q s \<longleftrightarrow> Q (nftToLoanIds (book s)) (\<lambda>i. reserveAsset (loans (book s) i)) (\<lambda>b. r_configuration (reserves s b))"

abbreviation greedy :: "acct \<Rightarrow> 'h pool \<Rightarrow> bool" where
  "greedy a \<equiv> on_view (\<lambda>i r c. percentage_factor < unat (getReserveFactor (c a)))"

abbreviation owes :: "acct \<Rightarrow> acct \<Rightarrow> uint \<Rightarrow> 'h pool \<Rightarrow> bool" where
  "owes a n t \<equiv> on_view (\<lambda>i r c. percentage_factor < unat (getReserveFactor (c a)) \<and> (i n t = 0 \<or> r (i n t) = a))"

lemma view_cong:
  "(\<And>s b. r_configuration (reserves (f s) b) = r_configuration (reserves s b)) \<Longrightarrow> (\<And>s. book (f s) = book s) \<Longrightarrow>
     keeps (on_view Q) (cset f)"
  by (simp add: keeps_def on_view_def call_simps)

lemma greedy_rates: "stuck (greedy a) (updateInterestRates E a x y)"
  by (auto simp: stuck_def on_view_def updateInterestRates_def calculateInterestRatesFor_def calculateInterestRates_def
      call_simps checked_simps split: prod.splits)

lemma view_cext [simp]: "keeps (on_view Q) (cext f)"
  by (auto simp: keeps_def on_view_def call_simps)

lemma view_on_book:
  "(\<And>b. nftToLoanIds (f b) = nftToLoanIds b) \<Longrightarrow> (\<And>b i. reserveAsset (loans (f b) i) = reserveAsset (loans b i)) \<Longrightarrow>
     keeps (on_view Q) (on_book f)"
  by (simp add: keeps_def on_view_def on_book_def call_simps)

lemma view_set_loan: "(\<And>l. reserveAsset (f l) = reserveAsset l) \<Longrightarrow> keeps (on_view Q) (on_book (set_loan i f))"
  by (rule view_on_book) (simp_all add: set_loan_def)

lemma greedy_on_book [simp]: "keeps (greedy a) (on_book f)"
  by (simp add: keeps_def on_view_def on_book_def call_simps)

lemma view_set_reserve:
  "(\<And>rd. r_configuration (f rd) = r_configuration rd) \<Longrightarrow> keeps (on_view Q) (cset (set_reserve b f))"
  by (rule view_cong) (simp_all add: set_reserve_def)

lemmas keeps_intros = kept_cthen kept_cbind view_set_reserve view_set_loan view_on_book view_cong

lemma view_tokens [simp]:
  "keeps (on_view Q) (told E user x y)" "keeps (on_view Q) (incentivized_mint E t user z)"
  "keeps (on_view Q) (incentivized_burn E t user z)" "keeps (on_view Q) (mintToTreasury E t z i)"
  "keeps (on_view Q) (DebtToken_mint E t u user z i)" "keeps (on_view Q) (DebtToken_burn E t user z i)"
  by (auto simp: told_def incentivized_mint_def incentivized_burn_def mintToTreasury_def DebtToken_mint_def
      DebtToken_burn_def decreaseBorrowAllowance_def intro!: keeps_intros)

lemma view_updateState [simp]: "keeps (on_view Q) (updateState E B b)"
  by (auto simp: updateState_def updateIndexes_def mint_treasury_def set_reserve_def intro!: keeps_intros split: prod.splits)

lemma view_rates [simp]: "keeps (on_view Q) (updateInterestRates E b x y)"
  by (auto simp: updateInterestRates_def intro!: keeps_intros split: prod.splits)

lemma view_interceptors [simp]: "keeps (on_view Q) (handle_interceptors E aft cs n t msg)"
proof (induction cs)
  case (Cons c cs)
  then show ?case by (auto intro!: keeps_intros) (auto simp: keeps_def on_view_def split: sum.splits)
qed simp

lemma view_loans [simp]:
  "keeps (on_view Q) (updateLoan j x y i)" "keeps (on_view Q) (auctionLoan E B j v x y)"
  "keeps (on_view Q) (redeemLoan E j x i)" "keeps (on_view Q) (getLoanReserveBorrowAmount B j)"
  by (auto simp: updateLoan_def auctionLoan_def setFlashLoanLocking_def redeemLoan_def getLoanReserveBorrowAmount_def
      intro!: keeps_intros)

lemma greedy_loans [simp]:
  "keeps (greedy a) (createLoan E u v n t b r x i)" "keeps (greedy a) (repayLoan E j b)"
  "keeps (greedy a) (liquidateLoan E j b x)"
  by (auto simp: createLoan_def take_loan_id_def count_collateral_def repayLoan_def close_loan_def
      handleBeforeLoanRepaid_def handleAfterLoanRepaid_def setFlashLoanLocking_def liquidateLoan_def
      intro!: kept_cthen kept_cbind greedy_on_book)

text \<open>To close a loan frees its NFT, which \<open>owes\<close> allows.\<close>

lemma owes_close: "keeps (owes a n t) (close_loan j l)"
proof -
  have free: "keeps (owes a n t) (on_book (\<lambda>b. b\<lparr>nftToLoanIds := (nftToLoanIds b)(m := (nftToLoanIds b m)(k := 0))\<rparr>))" for m k
    by (auto simp: keeps_def on_view_def on_book_def call_simps)
  show ?thesis
    unfolding close_loan_def by (intro kept_cthen kept_cbind keeps_pure free; rule view_on_book; simp)
qed

lemma owes_repayLoan [simp]: "keeps (owes a n t) (repayLoan E j b)"
  by (auto simp: repayLoan_def handleBeforeLoanRepaid_def handleAfterLoanRepaid_def intro!: keeps_intros owes_close)

lemma view_checks [simp]:
  "keeps (on_view Q) (calculateLoanLiquidatePrice B j b n)" "keeps (on_view Q) (calculateLoanBidFine B b n l)"
  "keeps (on_view Q) (end_timestamp l h)" "keeps (on_view Q) (check_bid B nd l x y z p)" "keeps (on_view Q) (validate_market rd nd)"
  "keeps (on_view Q) (calculateNftDebtData B b j)" "keeps (on_view Q) (calculateNftCollateralData B b n)"
  by (auto simp: calculateLoanLiquidatePrice_def calculateLoanBidFine_def end_timestamp_def check_bid_def validate_market_def
      calculateNftDebtData_def calculateNftCollateralData_def intro!: keeps_intros)

lemma view_validations [simp]:
  "keeps (on_view Q) (validateDeposit rd x)" "keeps (on_view Q) (validateWithdraw rd x y)"
  "keeps (on_view Q) (validateRepay rd nd l x y)" "keeps (on_view Q) (validateAuction rd nd l x)"
  "keeps (on_view Q) (validateRedeem rd nd l x)" "keeps (on_view Q) (validateLiquidate rd nd l)"
  "keeps (on_view Q) (validateBorrow E B v b x n j)" "keeps (on_view Q) (BToken_balanceOf E B t b v)"
  by (auto simp: validateDeposit_def validateWithdraw_def validateRepay_def validateAuction_def validateRedeem_def
      validateLiquidate_def validateBorrow_def validate_loan_def validate_flags_def validate_utilization_def
      validate_collateral_def calculateLoanData_def BToken_balanceOf_def intro!: keeps_intros split: prod.splits)

lemma stuck_case: "(\<And>x y. stuck P (f x y)) \<Longrightarrow> stuck P (case p of (x, y) \<Rightarrow> f x y)"
  by (cases p) simp

lemma stuckD: "stuck P m \<Longrightarrow> P s \<Longrightarrow> m s \<noteq> Inr r"
  by (cases r) (simp add: stuck_def)

lemma greedyD: "stuck (greedy a) m \<Longrightarrow> greedy a s \<Longrightarrow> m s \<noteq> Inr r"
  by (rule stuckD)

lemma crequire_cthen: "cthen (crequire c code) n s = (if c then n s else Inl (Require code))"
  by (simp add: crequire_passes crequire_fails)

lemma stuck_crequire: "(c \<Longrightarrow> stuck P n) \<Longrightarrow> stuck P (cthen (crequire c code) n)"
  by (cases c) (simp_all add: stuck_def crequire_cthen)

lemmas stuck_rates = stuck_first(1) [OF greedy_rates]
lemmas stuck_rules = stuck_then stuck_bind stuck_case keeps_if kept_cthen

text \<open>From the first update of the reserve on, no operation on it returns.\<close>

lemma greedy_open [simp]:
  "keeps (greedy a) (open_or_draw E u b x n t v nd j i)" "keeps (greedy a) (transferUnderlyingTo E p b v x)"
  by (auto simp: open_or_draw_def transferUnderlyingTo_def intro!: keeps_intros)

lemma supply_stuck:
  "stuck (greedy a) (executeDeposit E B u a x v)" "stuck (greedy a) (executeWithdraw E B u a x v)"
  "stuck (greedy a) (executeBorrow E B u a x n t v)"
  unfolding executeDeposit_def executeWithdraw_def executeBorrow_def Let_def
  by (rule stuck_rates stuck_rules | (simp; fail))+

text \<open>The operations on a loan in the reserve\<close>

text \<open>An operation on the loan of an NFT reads the loan first.\<close>

lemma on_loan:
  assumes "P s" and "stuck P (m (nftToLoanIds (book s) n t) (loans (book s) (nftToLoanIds (book s) n t)))"
  shows "cbind (cget (\<lambda>s. nftToLoanIds (book s) n t)) (\<lambda>i. cthen (crequire (i \<noteq> 0) msg)
    (cbind (cget (\<lambda>s. loans (book s) i)) (m i))) s \<noteq> Inr r"
  using stuckD [OF assms(2,1)]
  by (cases "nftToLoanIds (book s) n t = 0") (simp_all add: cget_cbind crequire_passes crequire_fails)

lemma loan_stuck:
  assumes g: "greedy (reserveAsset (loans (book s) (nftToLoanIds (book s) n t))) s"
  shows "executeRepay E B u n t x s \<noteq> Inr r"
    and "executeRedeem E B u n t x y s \<noteq> Inr r''"
    and "executeLiquidate E B u n t x s \<noteq> Inr r''"
    and "executeAuction E B u n t x v s \<noteq> Inr r'"
  subgoal
    unfolding executeRepay_def Let_def
    by (rule on_loan, rule g) (rule stuck_rates stuck_rules | (simp; fail))+
  subgoal
    unfolding executeRedeem_def Let_def
    by (rule on_loan, rule g) (rule stuck_rates stuck_rules | (simp; fail))+
  subgoal
    unfolding executeLiquidate_def Let_def
    by (rule on_loan, rule g) (rule stuck_rates stuck_rules | (simp; fail))+
  subgoal
    unfolding executeAuction_def Let_def
    by (cases "v = 0", simp add: crequire_fails, subst crequire_passes, assumption, rule on_loan, rule g)
      (rule stuck_rates greedy_rates stuck_rules | (simp; fail))+
  done

text \<open>The batches: what comes before the operation on the reserve keeps it stuck.\<close>

lemma greedy_borrow: "keeps (greedy a) (executeBorrow E B u b x n t v)"
  by (auto simp: executeBorrow_def intro!: keeps_intros)

lemma batch_borrow_stuck: "a \<in> fst ` set ps \<Longrightarrow> stuck (greedy a) (batch_borrow E B u ps v)"
proof (induction ps)
  case (Cons p ps)
  obtain b x n t where p: "p = (b, x, n, t)" by (cases p)
  show ?case
  proof (cases "b = a")
    case True
    then show ?thesis by (simp add: p stuck_first(1) supply_stuck(3))
  next
    case False
    with Cons have "stuck (greedy a) (batch_borrow E B u ps v)" by (auto simp: p)
    then show ?thesis by (simp add: p stuck_then greedy_borrow)
  qed
qed simp

lemma owes_repay: "keeps (owes a n t) (executeRepay E B u m k x)"
  by (auto simp: executeRepay_def Let_def intro!: keeps_intros)

lemma owes_stuck: "stuck (owes a n t) (executeRepay E B u n t x)"
  unfolding stuck_def
proof (intro allI impI)
  fix s :: "'a pool" and r s'
  assume o: "owes a n t s"
  show "executeRepay E B u n t x s \<noteq> Inr (r, s')"
  proof (cases "nftToLoanIds (book s) n t = 0")
    case True
    then show ?thesis by (simp add: executeRepay_def cget_cbind crequire_fails)
  next
    case False
    with o have "greedy (reserveAsset (loans (book s) (nftToLoanIds (book s) n t))) s" by (simp add: on_view_def)
    then show ?thesis by (rule loan_stuck(1))
  qed
qed

lemma batch_repay_stuck: "(n, t) \<in> (\<lambda>(n, t, x). (n, t)) ` set ps \<Longrightarrow> stuck (owes a n t) (batch_repay E B u ps)"
proof (induction ps)
  case (Cons p ps)
  obtain m k x where p: "p = (m, k, x)" by (cases p)
  show ?case
  proof (cases "(m, k) = (n, t)")
    case True
    then show ?thesis by (simp add: p stuck_first(2) owes_stuck)
  next
    case False
    with Cons.prems have "(n, t) \<in> (\<lambda>(n, t, x). (n, t)) ` set ps" by (auto simp: p)
    note Cons.IH [OF this]
    then show ?thesis by (simp add: p stuck_bind stuck_first(2) owes_repay)
  qed
qed simp

lemma batches_stuck:
  "a \<in> set assets \<Longrightarrow> stuck (greedy a) (executeBatchBorrow E B u assets xs ns ts v)"
  "(n, t) \<in> set (zip ns ts) \<Longrightarrow> stuck (owes a n t) (executeBatchRepay E B u ns ts xs)"
proof -
  assume "a \<in> set assets"
  then have "a \<in> fst ` set (zip assets (zip xs (zip ns ts)))"
    if "length ns = length assets" "length ns = length xs" "length ns = length ts"
    using that unfolding set_map [symmetric] by (subst map_fst_zip) simp_all
  from batch_borrow_stuck [OF this] show "stuck (greedy a) (executeBatchBorrow E B u assets xs ns ts v)"
    unfolding executeBatchBorrow_def by (intro stuck_crequire)
next
  assume m: "(n, t) \<in> set (zip ns ts)"
  have "(n, t) \<in> (\<lambda>(n, t, x). (n, t)) ` set (zip ns (zip ts xs))" if "length ns = length xs" "length ns = length ts"
  proof -
    from m obtain i where "i < length ns" "i < length ts" "ns ! i = n" "ts ! i = t" by (auto simp: set_zip)
    with that have "(n, t, xs ! i) \<in> set (zip ns (zip ts xs))" by (auto simp: set_zip)
    then show ?thesis by force
  qed
  from batch_repay_stuck [OF this] show "stuck (owes a n t) (executeBatchRepay E B u ns ts xs)"
    unfolding executeBatchRepay_def by (intro stuck_crequire)
qed

text \<open>The operations of users on the reserve \<open>a\<close>: those that name it, and those on an NFT whose loan is in it. A batch is
  one if one of its elements is.\<close>

fun works_on :: "acct \<Rightarrow> loan_book \<Rightarrow> pool_call \<Rightarrow> bool" where
  "works_on a b (CDeposit asset amount user) \<longleftrightarrow> asset = a"
| "works_on a b (CWithdraw asset amount receiver) \<longleftrightarrow> asset = a"
| "works_on a b (CBorrow asset amount nft tokenId user) \<longleftrightarrow> asset = a"
| "works_on a b (CBatchBorrow assets amounts nftAssets nftTokenIds user) \<longleftrightarrow> a \<in> set assets"
| "works_on a b (CRepay nft tokenId amount) \<longleftrightarrow> reserveAsset (loans b (nftToLoanIds b nft tokenId)) = a"
| "works_on a b (CBatchRepay nftAssets nftTokenIds amounts) \<longleftrightarrow>
     (\<exists>(n, t) \<in> set (zip nftAssets nftTokenIds). reserveAsset (loans b (nftToLoanIds b n t)) = a)"
| "works_on a b (CAuction nft tokenId bid user) \<longleftrightarrow> reserveAsset (loans b (nftToLoanIds b nft tokenId)) = a"
| "works_on a b (CRedeem nft tokenId amount fine) \<longleftrightarrow> reserveAsset (loans b (nftToLoanIds b nft tokenId)) = a"
| "works_on a b (CLiquidate nft tokenId amount) \<longleftrightarrow> reserveAsset (loans b (nftToLoanIds b nft tokenId)) = a"
| "works_on a b c \<longleftrightarrow> False"

text \<open>C16: A reserve factor above one hundred percent, which the setter accepts up to 65535, stops the reserve: no deposit,
  withdrawal or loan in it, no repayment, bid, redemption or liquidation of a loan in it, and no batch with one of
  them, returns, from any state and whatever the arguments, since the share of the depositors underflows in every
  update of the rates.\<close>

theorem excessive_factor_stops_reserve:
  assumes "percentage_factor < unat (getReserveFactor (r_configuration (reserves s a)))" and "works_on a (book s) c"
  shows "run_call E B sender c s \<noteq> Inr r"
proof -
  let ?s = "s\<lparr>entered := True\<rparr>"
  have g: "greedy a ?s" using assms(1) by (simp add: on_view_def)
  note stop = supply_stuck [THEN greedyD, OF g] batches_stuck(1) [THEN greedyD, OF _ g]
  have loan: "executeRepay E B u n t x ?s \<noteq> Inr q" "executeRedeem E B u n t x y ?s \<noteq> Inr q'"
    "executeLiquidate E B u n t x ?s \<noteq> Inr q'" "executeAuction E B u n t x v ?s \<noteq> Inr q''"
    if "reserveAsset (loans (book s) (nftToLoanIds (book s) n t)) = a" for u n t x y v q q' q''
    using loan_stuck [where s = ?s and n = n and t = t] that g by simp_all
  have batch: "executeBatchRepay E B u ns ts xs ?s \<noteq> Inr q"
    if "(n, t) \<in> set (zip ns ts)" "reserveAsset (loans (book s) (nftToLoanIds (book s) n t)) = a" for u ns ts xs n t q
    by (rule stuckD [OF batches_stuck(2) [where a = a, OF that(1)]]) (use that(2) assms(1) in \<open>simp add: on_view_def\<close>)
  from assms(2) show ?thesis
    by (cases c; cases r) (auto simp: guarded_returns call_simps stop loan dest: batch)
qed

theorem excessive_factor_stops_reserve_witness:
  "\<exists>w. setReserveFactor 10001 mini_reserve_word = Inr w \<and>
     (\<nexists>s. run_call mini (mini_block 1003500 0) 30 (CWithdraw 10 1 30)
       (set_reserve 10 (\<lambda>rd. rd\<lparr>r_configuration := w\<rparr>) mini_auctioned) = Inr ((), s)) \<and>
     (\<nexists>s. run_call mini (mini_block 1003500 0) 31 (CBatchRepay [20] [7] [1])
       (set_reserve 10 (\<lambda>rd. rd\<lparr>r_configuration := w\<rparr>) mini_auctioned) = Inr ((), s))"
proof -
  let ?w = "(mini_reserve_word AND RESERVE_FACTOR_MASK) OR push_bit 64 10001"
  let ?s = "set_reserve 10 (\<lambda>rd. rd\<lparr>r_configuration := ?w\<rparr>) mini_auctioned"
  have set: "setReserveFactor 10001 mini_reserve_word = Inr ?w" by (simp add: setReserveFactor_def set_field_def)
  have "unat (getReserveFactor ?w) = 10001" using setReserveFactor_reads_back(1) [OF set] by simp
  then have f: "percentage_factor < unat (getReserveFactor (r_configuration (reserves ?s 10)))"
    by (simp add: set_reserve_def percentage_factor_def)
  have "works_on 10 (book ?s) (CWithdraw 10 1 30)" "works_on 10 (book ?s) (CBatchRepay [20] [7] [1])"
    by (simp_all add: set_reserve_def mini_auctioned_fields mini_loan_simps mini_bid_def)
  with excessive_factor_stops_reserve [OF f] set show ?thesis by blast
qed

end
