(* ===== verification/MarketRates.thy ===== *)
theory MarketRates
  imports InterestRate AbiTypes
begin

text \<open>
  The rate contracts of the market: the parameters of \<open>src/markets/bend/rateStrategies.ts\<close>, as the deployment
  passes them to the constructor of \<open>contracts/protocol/InterestRate.sol\<close>, and the rates these contracts compute.
\<close>

definition uint_of :: "string \<Rightarrow> uint" where
  "uint_of s = the (parse_nat s)"

definition deployed_strategy :: "IInterestRateStrategyParams \<Rightarrow> revert + rate_strategy" where
  "deployed_strategy p = new_rate_strategy (uint_of (optimalUtilizationRate p)) (uint_of (baseVariableBorrowRate p))
     (uint_of (variableRateSlope1 p)) (uint_of (variableRateSlope2 p))"

lemma uint_of_toFixed: "uint_of (toFixed (numeral n)) = numeral n"
  by (simp add: uint_of_def parse_nat_def parse_digits_show)

text \<open>A strategy with rates up to one hundred percent\<close>

definition sound_strategy :: "rate_strategy \<Rightarrow> bool" where
  "sound_strategy r \<longleftrightarrow> valid_strategy r \<and> base_rate r \<le> ray \<and> slope1 r \<le> ray \<and> slope2 r \<le> ray"

lemma rays:
  "4 / 5 * oneRay = 800000000000000000000000000" "9 / 10 * oneRay = 900000000000000000000000000"
  "65 / 100 * oneRay = 650000000000000000000000000" "3 / 100 * oneRay = 30000000000000000000000000"
  "4 / 100 * oneRay = 40000000000000000000000000" "8 / 100 * oneRay = 80000000000000000000000000"
  "75 / 100 * oneRay = 750000000000000000000000000" "60 / 100 * oneRay = 600000000000000000000000000"
  "1 * oneRay = 1000000000000000000000000000"
  by (simp_all add: oneRay_def)

definition rates_of :: "uint \<Rightarrow> uint \<Rightarrow> uint \<Rightarrow> uint \<Rightarrow> rate_strategy" where
  "rates_of optimal base s1 s2 = \<lparr>optimal_utilization = optimal, excess_utilization = ray - optimal, base_rate = base,
     slope1 = s1, slope2 = s2\<rparr>"

lemma deployed_rates:
  "deployed_strategy rateStrategyStableOne = Inr (rates_of (8 * 10 ^ 26) (3 * 10 ^ 25) (4 * 10 ^ 25) (10 ^ 27))"
  "deployed_strategy rateStrategyStableTwo = Inr (rates_of (8 * 10 ^ 26) (3 * 10 ^ 25) (4 * 10 ^ 25) (75 * 10 ^ 25))"
  "deployed_strategy rateStrategyStableThree = Inr (rates_of (9 * 10 ^ 26) (3 * 10 ^ 25) (4 * 10 ^ 25) (6 * 10 ^ 26))"
  "deployed_strategy rateStrategyWETH = Inr (rates_of (65 * 10 ^ 25) (3 * 10 ^ 25) (8 * 10 ^ 25) (10 ^ 27))"
  unfolding deployed_strategy_def rateStrategyStableOne_def rateStrategyStableTwo_def rateStrategyStableThree_def
    rateStrategyWETH_def IInterestRateStrategyParams.simps rays uint_of_toFixed
  by (simp_all add: new_rate_strategy_def rates_of_def sub256_def ray_def)

lemma market_strategies_sound:
  assumes "p \<in> {rateStrategyStableOne, rateStrategyStableTwo, rateStrategyStableThree, rateStrategyWETH}"
  shows "\<exists>r. deployed_strategy p = Inr r \<and> sound_strategy r"
  using assms
  by (elim insertE emptyE; simp add: deployed_rates rates_of_def sound_strategy_def valid_strategy_def ray_def)

lemma sound_rates:
  assumes r: "sound_strategy r" and v: "avail \<le> 2 ^ 112" "debt \<le> 2 ^ 112" "rf \<le> percentage_factor"
  shows "\<exists>lr br. calculateInterestRates r avail debt rf = Inr (lr, br) \<and> base_rate r \<le> br \<and>
    getMaxVariableBorrowRate r = Inr (base_rate r + slope1 r + slope2 r) \<and> br \<le> base_rate r + slope1 r + slope2 r \<and>
    (wad \<le> debt \<or> debt = 0 \<longrightarrow> lr \<le> br)"
proof -
  from r have s: "valid_strategy r" "base_rate r \<le> ray" "slope1 r \<le> ray" "slope2 r \<le> ray"
    by (simp_all add: sound_strategy_def)
  have "ray \<le> 2 ^ 94" by (simp add: ray_def)
  with s have b: "base_rate r \<le> 2 ^ 94" "slope1 r \<le> 2 ^ 94" "slope2 r \<le> 2 ^ 94" by linarith+
  from rates_computed [OF s(1) b v] obtain lr br where c: "calculateInterestRates r avail debt rf = Inr (lr, br)" .
  have "base_rate r + slope1 r + slope2 r \<le> 3 * ray" using s by linarith
  then have "base_rate r + slope1 r + slope2 r \<le> uint256_max" by (simp add: ray_def uint256_max_def)
  then have "getMaxVariableBorrowRate r = Inr (base_rate r + slope1 r + slope2 r)"
    by (simp add: getMaxVariableBorrowRate_def fits256)
  with c borrow_rate_bounds [OF s(1) c] liquidity_rate_le [OF c] show ?thesis by blast
qed

text \<open>C14: For every reserve of the market, the rate contract that the deployment creates from its strategy never
  reverts for liquidity and debt up to 2^112 and a reserve factor up to one hundred percent, and its rates keep their
  bounds: the borrow rate lies between the base rate and the maximum the contract advertises, and depositors never
  earn more than borrowers pay once the debt is a whole unit of 18 decimals.\<close>

theorem market_rates_bounded:
  assumes "(symbol, p) \<in> set Bend_ReservesConfig" and "avail \<le> 2 ^ 112" "debt \<le> 2 ^ 112" "rf \<le> percentage_factor"
  shows "\<exists>r mx lr br. deployed_strategy (strategy p) = Inr r \<and> getMaxVariableBorrowRate r = Inr mx \<and>
    calculateInterestRates r avail debt rf = Inr (lr, br) \<and> base_rate r \<le> br \<and> br \<le> mx \<and>
    (wad \<le> debt \<or> debt = 0 \<longrightarrow> lr \<le> br)"
proof -
  from assms(1) have "strategy p \<in> {rateStrategyStableOne, rateStrategyStableTwo, rateStrategyStableThree, rateStrategyWETH}"
    by (auto simp: Bend_ReservesConfig_def strategyWETH_def strategyDAI_def strategyUSDC_def strategyUSDT_def strategyBUSD_def)
  from market_strategies_sound [OF this] obtain r where "deployed_strategy (strategy p) = Inr r" "sound_strategy r" by blast
  with sound_rates [OF this(2) assms(2-4)] show ?thesis by blast
qed

theorem market_rates_bounded_witness:
  "\<exists>r mx lr br. deployed_strategy rateStrategyWETH = Inr r \<and> getMaxVariableBorrowRate r = Inr mx \<and>
    calculateInterestRates r (10 ^ 22) (10 ^ 22) 3000 = Inr (lr, br) \<and> br \<le> mx \<and> lr \<le> br"
proof -
  have p: "(''WETH'', strategyWETH) \<in> set Bend_ReservesConfig" "strategy strategyWETH = rateStrategyWETH"
    by (simp_all add: Bend_ReservesConfig_def strategyWETH_def)
  show ?thesis
    using market_rates_bounded [OF p(1), of "10 ^ 22" "10 ^ 22" 3000]
    by (auto simp: percentage_factor_def wad_def p(2))
qed

end
