(* ===== verification/Spec2Isabelle.thy ===== *)
theory Spec2Isabelle
  imports DemoRuns OperationsRuns PoolProperties PoolFaults MarketRates
begin

text \<open>
  \<^bold>\<open>Verification of the BendDAO lending protocol: its deployment scripts and its lending pool.\<close>

  \<^bold>\<open>The program.\<close> The repository holds the contracts of the protocol (Solidity, \<open>contracts/\<close>) and the
  TypeScript program that deploys, configures, verifies and upgrades them (\<open>helpers/\<close>, \<open>markets/\<close>, \<open>tasks/\<close>).
  This development models the TypeScript program, and of the contracts the lending pool with everything it
  computes. The parts of the TypeScript program, from the bottom up: pure helpers and access
  to the JSON database of deployed contracts (\<open>helpers/misc-utils.ts\<close>); contract handles, deployment with
  its registration and verification (\<open>contracts-helpers.ts\<close>, \<open>etherscan-verification.ts\<close>); one getter and
  one deployment function per contract (\<open>contracts-getters.ts\<close>, \<open>contracts-deployments.ts\<close>); the market's
  configuration (\<open>markets/bend\<close>, \<open>configuration.ts\<close>); initialisation of reserves, NFTs and oracles
  (\<open>init-helpers.ts\<close>, \<open>oracles-helpers.ts\<close>); the tasks that put these together (\<open>tasks/full\<close>,
  \<open>tasks/deployments\<close>, \<open>tasks/verifications\<close>) and the migration that runs the tasks in order
  (\<open>tasks/migrations/bend.mainnet.ts\<close>); the tasks that operate a deployed market (\<open>tasks/misc\<close>: pausing,
  reserves and NFTs, prices, upgrades, deposits, loans, auctions, printing), that add assets to it or encode such
  calls for a wallet (\<open>tasks/helpers\<close>), and that build a market of mock assets (\<open>tasks/dev\<close>, run in order by
  \<open>tasks/migrations/bend.dev.ts\<close>). The parts of the pool: \<open>LendPool.sol\<close> guards its entries and leaves the work to
  \<open>SupplyLogic.sol\<close>, \<open>BorrowLogic.sol\<close> and \<open>LiquidateLogic.sol\<close>, which check (\<open>ValidationLogic.sol\<close>,
  \<open>GenericLogic.sol\<close>), accumulate interest (\<open>ReserveLogic.sol\<close>, \<open>InterestRate.sol\<close>, \<open>MathUtils.sol\<close>), keep the book of
  loans (\<open>LendPoolLoan.sol\<close>) and move tokens (\<open>BToken.sol\<close>, \<open>DebtToken.sol\<close> and the assets).

  \<^bold>\<open>The model.\<close> A script is a \<open>task\<close>: a function from the \<open>world\<close> to a result (an error or a value)
  and the world after it (theory \<open>Tasks\<close>). The world holds the network name, \<open>process.env\<close>, the database and
  the requests made so far to the node. The node and the libraries (ethers, hardhat, the ABI coder, Etherscan,
  the file system) are code outside the repository: the node is a function of the history and the request
  that may answer, or fail, in any way, and the address predicates are parameters; every theorem holds for all
  of them, or says what it needs (\<open>node_names_contracts\<close>: a deployment yields a non-empty address;
  \<open>cleans_up\<close>: the temporary file can be removed). The properties of the operating tasks are about a
  deployed market, and say what its contracts answer: the addresses provider names a contract
  (\<open>provider_says\<close>); a switch reports the flag that the last accepted transaction set (\<open>reports_flag\<close>); a token
  counts and enumerates what was minted or moved (\<open>counts_mints\<close>, \<open>enumerable\<close>); the coder is a function of the
  call it encodes (\<open>coder_is\<close>). What the node has accepted is computed from its history (\<open>accepted\<close>), so these
  hypotheses hold of whole runs and not of one answer. \<open>BigNumber.from\<close> refuses a number from 2^53 on.
  \<open>JSON\<close> objects are association lists in insertion order, every \<open>throw\<close>, \<open>TypeError\<close> and \<open>process.exit\<close> is
  a value of \<open>js_error\<close>. All awaited calls are sequential, so the order of effects is that of the code. Console output is not modelled, except for the
  reads from the node that it makes.

  \<^bold>\<open>The model of the pool.\<close> An operation is a \<open>call\<close>: a function from the state to the state after it, or to a
  \<open>revert\<close>, which carries the panic code or the reason of the failed \<open>require\<close> and undoes everything (theory
  \<open>PoolState\<close>). The state (\<open>pool\<close>) holds the reserves, the NFT collections, the book of loans, the pause and the
  reentrance guard, and the state of the contracts outside, whose type is a parameter. Arithmetic is on natural
  numbers with the checks of Solidity 0.8 at 256 bits; casts to \<open>uint128\<close> and \<open>uint40\<close> are written out. The
  configuration words are \<open>256 word\<close>. Oracle prices and the time are the \<open>block_data\<close> of a transaction. The
  ERC-20 and ERC-721 contracts, the bound NFTs, the incentives controller and the interceptors are the functions
  of \<open>externals\<close>; \<open>externals_ok\<close> states what their standards document (theory \<open>Custody\<close>), and the ledger of \<open>PoolDemo\<close>
  satisfies it. Of the bTokens and debt tokens the scaled accounting of the repository is modelled (\<open>PoolState\<close>) on
  top of the ERC-20 ledger. \<open>pool_step\<close> is one step of the world of the pool: a transaction by anybody but
  the pool itself, a delegation of borrowing power, a change of an interest rate contract, a treasury or an interceptor, or anything
  that happens elsewhere and is harmless to the pool; \<open>reachable\<close> is its closure from an empty pool. A reserve
  is initialised with fresh tokens, as the configurator deploys them (\<open>admissible\<close>).

  \<^bold>\<open>Theories\<close>, with the sources under \<open>src/\<close> that they model:
  \<^item> \<open>Prelude\<close>: JavaScript arrays, objects, strings and decimals. \<open>Tasks\<close>: worlds, tasks, errors, loops, and the
    locale \<open>run_relation\<close> of relations that every step of a script obeys.
  \<^item> \<open>Types\<close> (\<open>helpers/types.ts\<close>), \<open>Constants\<close> (\<open>constants.ts\<close>), \<open>MarketConfig\<close> (\<open>markets/bend/*.ts\<close>).
  \<^item> \<open>MiscUtils\<close>, \<open>Etherscan\<close>, \<open>ContractsHelpers\<close>, \<open>Getters\<close>, \<open>Deployments\<close>, \<open>Configuration\<close> (also
    \<open>mock-helpers.ts\<close>), \<open>InitHelpers\<close>, \<open>OraclesHelpers\<close>: the files of \<open>helpers/\<close>, one theory each.
  \<^item> \<open>Effects\<close>: the abstract specification language. \<open>does w w' es us\<close>: the run from \<open>w\<close> to \<open>w'\<close> had exactly the
    effects \<open>es\<close> on the chain (deployments, each with its address, and transactions, in order) and wrote exactly the
    entries \<open>us\<close>; \<open>answered\<close> says where a value that is sent comes from.
    \<open>quiet\<close> is the case of no effect; it and \<open>evolves\<close> interpret \<open>run_relation\<close>.
  \<^item> \<open>InitSpec\<close>: the specification of the initialisation helpers and the proof that they meet it.
  \<^item> \<open>ProxyTasks\<close>, \<open>FullTasks\<close>: the tasks of \<open>tasks/full\<close> and \<open>add-market-to-registry\<close>; \<open>ProxySpec\<close> (with the
    locale \<open>proxied\<close> for the upgrade-or-deploy step, interpreted for every contract behind a proxy), \<open>FullSpec\<close>,
    \<open>MarketSpec\<close>: what they do. \<open>Outcomes\<close>: how they end, and that they only add to the database.
  \<^item> \<open>Migrations\<close>: \<open>tasks/verifications/*.ts\<close> and \<open>bend.mainnet.ts\<close>.
  \<^item> \<open>HardhatConfig\<close>: the networks of \<open>hardhat.config.ts\<close> and \<open>helper-hardhat-config.ts\<close>, their chain identifiers and the
    fork of a live network.
  \<^item> \<open>Completion\<close>: total correctness, as the weakest precondition \<open>ends_in\<close> of a script, with a rule for every step.
    \<open>MainnetSpec\<close>: the tasks of \<open>bend.mainnet.ts\<close> return, and the migration leaves every contract of the market in
    the database, when the node co-operates (\<open>cooperates\<close>: it answers every request, and names deployed contracts
    with valid addresses), the configured addresses are valid, and the registry is skipped or the deployer's own.
  \<^item> \<open>NftConfiguration\<close>: the 256-bit configuration word of an NFT and \<open>executeBatchConfigNft\<close> of the contracts, against
    which the market's parameters are checked. \<open>MarketChecks\<close>: facts about the market data on all networks.
  \<^item> \<open>Params\<close>: the values of the command line and of answers. \<open>AdminTasks\<close> (\<open>tasks/misc/pool-admin.ts\<close>,
    \<open>oracle-admin.ts\<close>), \<open>HelperTasks\<close> (\<open>tasks/helpers\<close>), \<open>UpgradeTasks\<close> (\<open>new-implementation.ts\<close>,
    \<open>transfer-owner.ts\<close>, \<open>verify-sc.ts\<close>, \<open>hacker-task.ts\<close>), \<open>DevTasks\<close> (\<open>tasks/dev\<close>, \<open>bend.dev.ts\<close>), \<open>PoolTasks\<close>
    (\<open>custom-task.ts\<close>), \<open>LiquidationTasks\<close> (\<open>liquidate-task.ts\<close>, \<open>recycle-task.ts\<close>), \<open>PrintTasks\<close>
    (\<open>print-*.ts\<close>): the tasks after the deployment, one definition per task.
  \<^item> \<open>Answers\<close>: \<open>accepted\<close>, and \<open>touches P\<close>, the relation of runs that leave the database alone and make only
    requests satisfying \<open>P\<close>; \<open>touches\<close> interprets \<open>run_relation\<close> for every \<open>P\<close>.
  \<^item> \<open>AdminSpec\<close>: the pause and the switches of the pool settle in the state that a documented parameter asks for
    (\<open>state_asks\<close>), with no transaction when they are in it, and what the word \<open>false\<close> does instead. \<open>HelperSpec\<close>: adding an NFT to the pool lists it with the configuration of the market; the encoded
    calls are the ones that would be sent; a failed check sends nothing. \<open>OperateSpec\<close>: which tasks only read,
    whose assets the collecting task moves, the value sent with a liquidation. \<open>MintSpec\<close>: the limit of mints per
    signer. \<open>DevSpec\<close>: a new implementation keeps the proxy in the database, and why the development migration fails.
    \<open>AbiTypes\<close>: the structures sent to the configurator have the types that the contracts declare.
  \<^item> \<open>Demo\<close>, \<open>DemoRuns\<close>, \<open>OperationsRuns\<close>: concrete nodes, and runs on them that witness the hypotheses of the properties.

  \<^item> \<open>Checked\<close> (arithmetic of Solidity), \<open>WadRay\<close> (\<open>WadRayMath.sol\<close>, \<open>PercentageMath.sol\<close>), \<open>InterestRate\<close>
    (\<open>MathUtils.sol\<close>, \<open>InterestRate.sol\<close>), \<open>ReserveConfiguration\<close>, \<open>PoolState\<close> (\<open>DataTypes.sol\<close>, \<open>LendPoolStorage.sol\<close>, the
    tokens), \<open>ReserveLogic\<close>, \<open>LendPoolLoan\<close>, \<open>PoolLogic\<close> (\<open>GenericLogic.sol\<close>, \<open>ValidationLogic.sol\<close>, \<open>SupplyLogic.sol\<close>,
    \<open>BorrowLogic.sol\<close>, \<open>LiquidateLogic.sol\<close>), \<open>LendPool\<close>: the contracts of the pool, in the order of their calls. Their lemmas
    say when an operation returns and what it then changed.
  \<^item> \<open>Custody\<close>: the laws of the contracts outside, and \<open>moves\<close>, the effect of a call on the balances.
    \<open>LoanEvents\<close>: the specification of the book of loans as seven events. \<open>PoolSpec\<close>, \<open>PoolAuction\<close>: every operation refines
    them. \<open>PoolInvariant\<close>, \<open>PoolReach\<close>: the invariant of the pool and its preservation by every step; \<open>PoolMeaning\<close>: the events that
    a transaction is meant to be. \<open>PoolSafety\<close>: what the checks of the operations guarantee. \<open>PoolProperties\<close>: the properties. \<open>PoolFaults\<close>: when
    the pool refuses. \<open>PoolDemo\<close>, \<open>PoolRuns\<close>: a small market and transactions on it that witness the hypotheses.
  \<^item> \<open>MarketRates\<close> joins the two programs: the rate contracts that the deployment creates from the market's
    configuration, and the bounds of the rates that they compute.

  \<^bold>\<open>Bounds.\<close> Only the retry loop of \<open>runTaskWithRetry\<close> may run for ever; it has fuel and gives \<open>Diverges\<close> without.
  \<open>verifyEtherscanContract\<close> gives it 5 units for its 4 tries: enough whenever the cleanup does not throw
  (\<open>verification_never_throws\<close>), and no fuel is enough when it always does (\<open>retry_never_stops\<close>).
  The rates of the market are computed for liquidity and debt up to 2^112, which is more than any token of the
  market can have; times are below 2^40, the width of the timestamps of a reserve. That a loan just borrowed is safe
  needs an NFT worth more than the rounding of the scaled debt, which is the last hypothesis of
  \<open>borrowed_loan_is_safe\<close>.

  \<^bold>\<open>Not modelled.\<close> The test suite and its reference calculations, generated ABIs and type chains, the options of
  the compiler and the plugins in \<open>hardhat.config.ts\<close>, \<open>set-bre.ts\<close> (it stores the runtime environment in a
  global variable, which the model has in the world from the start). The time that \<open>delay\<close> waits and the text printed
  are left out, and so are the signatures of permits, which a library computes. Of the contracts: events, the views
  of \<open>LendPool.sol\<close>, the gateways, the oracles, the addresses provider and registry, the proxies and the rest of
  \<open>LendPoolConfigurator.sol\<close> (its batch of NFT parameters and the two configuration words are modelled). Transfers
  of bTokens between users are steps elsewhere, and the bound NFTs are outside contracts.
\<close>

end
